(* ===== verification/Jade_Prelude.thy ===== *)
theory Jade_Prelude
  imports Main "HOL-Library.Word"
begin

text \<open>
  Prelude of the development: the byte and word types of the firmware, the
  outcome type of a C call, big-endian and little-endian byte strings, and the
  generic lemmas on them that the component theories share.

  A call of the firmware ends in one of three ways. It returns a value
  (\<^verbatim>\<open>Ret\<close>); it stops the device through \<^verbatim>\<open>JADE_ASSERT\<close> or \<^verbatim>\<open>abort\<close>
  (\<^verbatim>\<open>Crash\<close>); or it reads memory outside a buffer, which C leaves undefined
  (\<^verbatim>\<open>Undef\<close>). A function with error codes returns a sum inside \<^verbatim>\<open>Ret\<close>: \<^verbatim>\<open>Inl\<close> the
  error, \<^verbatim>\<open>Inr\<close> the value; \<^verbatim>\<open>seq\<close> runs two such steps one after the other and
  stops at the first error, as the \<^verbatim>\<open>goto cleanup\<close> of the code does.
\<close>

unbundle bit_operations_syntax

type_synonym byte = "8 word"
type_synonym u16 = "16 word"
type_synonym u32 = "32 word"
type_synonym u64 = "64 word"
type_synonym bytes = "byte list"

named_theorems run_simps \<open>inversion of sequenced steps\<close>
named_theorems byte_simps \<open>lengths and values of byte strings\<close>

section \<open>Outcomes of C calls\<close>

datatype 'a run = Crash | Undef | Ret 'a

abbreviation ok :: "'a \<Rightarrow> ('e + 'a) run" where
  "ok a \<equiv> Ret (Inr a)"

abbreviation fail :: "'e \<Rightarrow> ('e + 'a) run" where
  "fail e \<equiv> Ret (Inl e)"

definition seq :: "('e + 'a) run \<Rightarrow> ('a \<Rightarrow> ('e + 'b) run) \<Rightarrow> ('e + 'b) run" where
  "seq m f = (case m of Crash \<Rightarrow> Crash | Undef \<Rightarrow> Undef
     | Ret r \<Rightarrow> (case r of Inl e \<Rightarrow> fail e | Inr a \<Rightarrow> f a))"

definition check :: "bool \<Rightarrow> 'e \<Rightarrow> ('e + unit) run" where
  "check b e = (if b then ok () else fail e)"

definition need :: "'a option \<Rightarrow> 'e \<Rightarrow> ('e + 'a) run" where
  "need x e = (case x of None \<Rightarrow> fail e | Some a \<Rightarrow> ok a)"

text \<open>A call whose failure, whatever it is, is reported as \<^verbatim>\<open>e\<close>.\<close>

definition or_err :: "('d + 'a) run \<Rightarrow> 'e \<Rightarrow> ('e + 'a) run" where
  "or_err m e = (case m of Crash \<Rightarrow> Crash | Undef \<Rightarrow> Undef
     | Ret r \<Rightarrow> (case r of Inl _ \<Rightarrow> fail e | Inr a \<Rightarrow> ok a))"

lemma or_err_iff [run_simps]:
  "or_err m e = ok a \<longleftrightarrow> m = ok a" "or_err m e = fail e' \<longleftrightarrow> e' = e \<and> (\<exists>d. m = fail d)"
  "or_err m e = Crash \<longleftrightarrow> m = Crash" "or_err m e = Undef \<longleftrightarrow> m = Undef"
  by (auto simp: or_err_def split: run.splits sum.splits)

text \<open>Running a call and handing its result on, whatever it is.\<close>

definition then_run :: "'a run \<Rightarrow> ('a \<Rightarrow> 'b run) \<Rightarrow> 'b run" where
  "then_run m f = (case m of Crash \<Rightarrow> Crash | Undef \<Rightarrow> Undef | Ret a \<Rightarrow> f a)"

lemma then_run_simps [simp]:
  "then_run Crash f = Crash" "then_run Undef f = Undef" "then_run (Ret a) f = f a"
  by (simp_all add: then_run_def)

lemma then_run_Ret_iff [run_simps]: "then_run m f = Ret b \<longleftrightarrow> (\<exists>a. m = Ret a \<and> f a = Ret b)"
  by (auto simp: then_run_def split: run.splits)

lemma then_run_assoc: "then_run (then_run m f) g = then_run m (\<lambda>a. then_run (f a) g)"
  by (cases m) simp_all

lemma then_run_Undef_iff: "then_run m f = Undef \<longleftrightarrow> m = Undef \<or> (\<exists>a. m = Ret a \<and> f a = Undef)"
  by (cases m) auto

lemma then_run_Crash_iff: "then_run m f = Crash \<longleftrightarrow> m = Crash \<or> (\<exists>a. m = Ret a \<and> f a = Crash)"
  by (cases m) auto

text \<open>\<^verbatim>\<open>JADE_ASSERT\<close>, with what follows it.\<close>

definition jade_assert :: "bool \<Rightarrow> 'a run \<Rightarrow> 'a run" where
  "jade_assert b m = (if b then m else Crash)"

lemma jade_assert_Ret [run_simps]: "jade_assert b m = Ret a \<longleftrightarrow> b \<and> m = Ret a"
  by (auto simp: jade_assert_def)

text \<open>Reading \<^verbatim>\<open>n\<close> bytes through a pointer.\<close>

definition read_buf :: "nat \<Rightarrow> bytes option \<Rightarrow> bytes run" where
  "read_buf n p =
     (if n = 0 then Ret []
      else case p of None \<Rightarrow> Undef | Some d \<Rightarrow> if length d < n then Undef else Ret (take n d))"

lemma read_buf_Ret: "read_buf n p = Ret d \<Longrightarrow> length d = n"
  by (auto simp: read_buf_def split: if_splits option.splits)

lemma read_buf_whole [simp]: "read_buf (length d) (Some d) = Ret d"
  by (simp add: read_buf_def)

lemma seq_simps [simp]:
  "seq Crash f = Crash" "seq Undef f = Undef" "seq (fail e) f = fail e" "seq (ok a) f = f a"
  by (simp_all add: seq_def)

lemma seq_assoc: "seq (seq m f) g = seq m (\<lambda>x. seq (f x) g)"
  by (simp add: seq_def split: run.splits sum.splits)

lemma seq_ok_iff [run_simps]: "seq m f = ok b \<longleftrightarrow> (\<exists>a. m = ok a \<and> f a = ok b)"
  by (auto simp: seq_def split: run.splits sum.splits)

lemma seq_fail_iff [run_simps]:
  "seq m f = fail e \<longleftrightarrow> m = fail e \<or> (\<exists>a. m = ok a \<and> f a = fail e)"
  by (auto simp: seq_def split: run.splits sum.splits)

lemma seq_Crash_iff [run_simps]: "seq m f = Crash \<longleftrightarrow> m = Crash \<or> (\<exists>a. m = ok a \<and> f a = Crash)"
  by (auto simp: seq_def split: run.splits sum.splits)

lemma seq_Undef_iff [run_simps]: "seq m f = Undef \<longleftrightarrow> m = Undef \<or> (\<exists>a. m = ok a \<and> f a = Undef)"
  by (auto simp: seq_def split: run.splits sum.splits)

lemma check_simps [simp]:
  "check True e = ok ()" "check False e = fail e"
  by (simp_all add: check_def)

lemma check_iff [run_simps]:
  "check b e = ok u \<longleftrightarrow> b" "check b e = fail e' \<longleftrightarrow> \<not> b \<and> e' = e"
  "check b e \<noteq> Crash" "check b e \<noteq> Undef"
  by (auto simp: check_def)

lemma need_simps [simp]: "need None e = fail e" "need (Some a) e = ok a"
  by (simp_all add: need_def)

lemma need_iff [run_simps]:
  "need x e = ok a \<longleftrightarrow> x = Some a" "need x e = fail e' \<longleftrightarrow> x = None \<and> e' = e"
  "need x e \<noteq> Crash" "need x e \<noteq> Undef"
  by (auto simp: need_def split: option.splits)

section \<open>Big-endian byte strings\<close>

definition be_nat :: "bytes \<Rightarrow> nat" where
  "be_nat bs = foldl (\<lambda>a b. a * 256 + unat b) 0 bs"

primrec le_nat :: "bytes \<Rightarrow> nat" where
  "le_nat [] = 0"
| "le_nat (b # bs) = unat b + 256 * le_nat bs"

primrec le_digits :: "nat \<Rightarrow> nat \<Rightarrow> bytes" where
  "le_digits 0 v = []"
| "le_digits (Suc n) v = of_nat v # le_digits n (v div 256)"

definition be_bytes :: "nat \<Rightarrow> nat \<Rightarrow> bytes" where
  "be_bytes n v = rev (le_digits n v)"

lemma byte_less_256 [simp]: "unat (b :: byte) < 256"
  using unsigned_less [of b, where ?'a = nat] by simp

lemma word_eqI_unat: "unat x = unat y \<Longrightarrow> x = y" for x y :: "'a::len word"
  by (simp add: word_unat_eq_iff)

lemma le_nat_append: "le_nat (xs @ ys) = le_nat xs + 256 ^ length xs * le_nat ys"
  by (induction xs) (simp_all add: algebra_simps)

lemma foldl_be: "foldl (\<lambda>a b. a * 256 + unat b) a bs = a * 256 ^ length bs + be_nat bs"
  unfolding be_nat_def by (induction bs rule: rev_induct) (simp_all add: algebra_simps)

lemma be_nat_Nil [simp]: "be_nat [] = 0"
  by (simp add: be_nat_def)

lemma be_nat_Cons: "be_nat (b # bs) = unat b * 256 ^ length bs + be_nat bs"
  using foldl_be [of "unat b" bs] by (simp add: be_nat_def)

lemma be_nat_append: "be_nat (xs @ ys) = be_nat xs * 256 ^ length ys + be_nat ys"
  using foldl_be [of "be_nat xs" ys] by (simp add: be_nat_def)

lemma be_nat_le_nat: "be_nat bs = le_nat (rev bs)"
  by (induction bs) (simp_all add: be_nat_Cons le_nat_append)

lemma le_nat_less: "le_nat bs < 256 ^ length bs"
proof (induction bs)
  case Nil
  then show ?case by simp
next
  case (Cons b bs)
  from Cons have "le_nat bs + 1 \<le> 256 ^ length bs" by simp
  then have "256 * (le_nat bs + 1) \<le> 256 * 256 ^ length bs" by (rule mult_le_mono2)
  with byte_less_256 [of b] show ?case by (simp del: byte_less_256)
qed

lemma be_nat_less: "be_nat bs < 256 ^ length bs"
  using le_nat_less [of "rev bs"] by (simp add: be_nat_le_nat)

lemma be_nat_less_32 [byte_simps]: "length bs = 32 \<Longrightarrow> be_nat bs < 2 ^ 256"
  using be_nat_less [of bs] by (simp add: power_mult [of 2 8 32, simplified])

lemma length_le_digits [simp]: "length (le_digits n v) = n"
  by (induction n arbitrary: v) simp_all

lemma length_be_bytes [simp]: "length (be_bytes n v) = n"
  by (simp add: be_bytes_def)

lemma unat_of_nat_byte: "unat (of_nat v :: byte) = v mod 256"
  by (simp add: unat_of_nat)

lemma le_nat_le_digits: "le_nat (le_digits n v) = v mod 256 ^ n"
proof (induction n arbitrary: v)
  case 0
  then show ?case by simp
next
  case (Suc n)
  have "v mod (256 * 256 ^ n) = 256 * (v div 256 mod 256 ^ n) + v mod 256"
    by (rule mod_mult2_eq)
  with Suc show ?case by (simp add: unat_of_nat_byte)
qed

lemma be_nat_be_bytes: "be_nat (be_bytes n v) = v mod 256 ^ n"
  by (simp add: be_bytes_def be_nat_le_nat le_nat_le_digits)

lemma be_nat_be_bytes_small: "v < 256 ^ n \<Longrightarrow> be_nat (be_bytes n v) = v"
  by (simp add: be_nat_be_bytes)

lemma be_nat_be_bytes_32: "v < 2 ^ 256 \<Longrightarrow> be_nat (be_bytes 32 v) = v"
  by (simp add: be_nat_be_bytes power_mult [of 2 8 32, simplified])

lemma le_digits_le_nat: "le_digits (length bs) (le_nat bs) = bs"
proof (induction bs)
  case Nil
  then show ?case by simp
next
  case (Cons b bs)
  have "(unat b + 256 * le_nat bs) div 256 = le_nat bs"
    using byte_less_256 [of b] by simp
  moreover have "(of_nat (unat b + 256 * le_nat bs) :: byte) = b"
    by (rule word_eqI_unat) (simp only: unat_of_nat_byte, simp)
  ultimately show ?case using Cons by simp
qed

lemma be_bytes_be_nat: "be_bytes (length bs) (be_nat bs) = bs"
  using le_digits_le_nat [of "rev bs"] by (simp add: be_bytes_def be_nat_le_nat)

lemma be_nat_inj: "length xs = length ys \<Longrightarrow> be_nat xs = be_nat ys \<longleftrightarrow> xs = ys"
  by (metis be_bytes_be_nat)

lemma le_nat_zero_iff: "le_nat bs = 0 \<longleftrightarrow> (\<forall>b \<in> set bs. b = 0)"
  by (induction bs) (auto simp: unat_eq_0)

lemma be_nat_zero_iff: "be_nat bs = 0 \<longleftrightarrow> (\<forall>b \<in> set bs. b = 0)"
  by (simp add: be_nat_le_nat le_nat_zero_iff)

lemma be_nat_replicate_0 [simp]: "be_nat (replicate n 0) = 0"
  by (simp add: be_nat_zero_iff)

section \<open>Loops\<close>

text \<open>
  A counted loop of the code is a fold over the array it walks, which also
  passes the loop index. \<^verbatim>\<open>for_opt\<close> is a loop whose body can only fail,
  \<^verbatim>\<open>for_run\<close> one whose body is a step.
\<close>

fun for_opt :: "(nat \<Rightarrow> 'x \<Rightarrow> 's \<Rightarrow> 's option) \<Rightarrow> nat \<Rightarrow> 'x list \<Rightarrow> 's \<Rightarrow> 's option" where
  "for_opt f i [] s = Some s"
| "for_opt f i (x # xs) s = (case f i x s of None \<Rightarrow> None | Some s' \<Rightarrow> for_opt f (Suc i) xs s')"

fun for_run :: "(nat \<Rightarrow> 'x \<Rightarrow> 's \<Rightarrow> ('e + 's) run) \<Rightarrow> nat \<Rightarrow> 'x list \<Rightarrow> 's \<Rightarrow> ('e + 's) run" where
  "for_run f i [] s = ok s"
| "for_run f i (x # xs) s = seq (f i x s) (for_run f (Suc i) xs)"

lemma nth_Cons_diff: "Suc i \<le> j \<Longrightarrow> (x # xs) ! (j - i) = xs ! (j - Suc i)"
  by (simp add: nth_Cons')

lemma for_opt_induct [consumes 1, case_names start step]:
  assumes "for_opt f i xs s = Some t" and "P i s"
    and "\<And>j x u v. i \<le> j \<Longrightarrow> j < i + length xs \<Longrightarrow> x = xs ! (j - i) \<Longrightarrow> P j u \<Longrightarrow> f j x u = Some v
      \<Longrightarrow> P (Suc j) v"
  shows "P (i + length xs) t"
  using assms
proof (induction xs arbitrary: i s)
  case Nil
  then show ?case by simp
next
  case (Cons x xs)
  from Cons.prems(1) obtain s' where s': "f i x s = Some s'" "for_opt f (Suc i) xs s' = Some t"
    by (auto split: option.splits)
  have "P (Suc i) s'" using Cons.prems(3) [of i x s s'] Cons.prems(2) s'(1) by simp
  moreover have "P (Suc j) v" if "Suc i \<le> j" "j < Suc i + length xs" "y = xs ! (j - Suc i)" "P j u"
    "f j y u = Some v" for j y u v
  proof -
    from that have "y = (x # xs) ! (j - i)" by (simp add: nth_Cons_diff)
    with that show ?thesis using Cons.prems(3) [of j y u v] by simp
  qed
  ultimately have "P (Suc i + length xs) t" by (rule Cons.IH [OF s'(2)])
  then show ?case by simp
qed

lemma for_run_induct [consumes 1, case_names start step]:
  assumes "for_run f i xs s = ok t" and "P i s"
    and "\<And>j x u v. i \<le> j \<Longrightarrow> j < i + length xs \<Longrightarrow> x = xs ! (j - i) \<Longrightarrow> P j u \<Longrightarrow> f j x u = ok v
      \<Longrightarrow> P (Suc j) v"
  shows "P (i + length xs) t"
  using assms
proof (induction xs arbitrary: i s)
  case Nil
  then show ?case by simp
next
  case (Cons x xs)
  from Cons.prems(1) obtain s' where s': "f i x s = ok s'" "for_run f (Suc i) xs s' = ok t"
    by (auto simp: seq_ok_iff)
  have "P (Suc i) s'" using Cons.prems(3) [of i x s s'] Cons.prems(2) s'(1) by simp
  moreover have "P (Suc j) v" if "Suc i \<le> j" "j < Suc i + length xs" "y = xs ! (j - Suc i)" "P j u"
    "f j y u = ok v" for j y u v
  proof -
    from that have "y = (x # xs) ! (j - i)" by (simp add: nth_Cons_diff)
    with that show ?thesis using Cons.prems(3) [of j y u v] by simp
  qed
  ultimately have "P (Suc i + length xs) t" by (rule Cons.IH [OF s'(2)])
  then show ?case by simp
qed

lemma for_run_fail:
  assumes "for_run f i xs s = fail e" and "P i s"
    and "\<And>j x u v. i \<le> j \<Longrightarrow> j < i + length xs \<Longrightarrow> x = xs ! (j - i) \<Longrightarrow> P j u \<Longrightarrow> f j x u = ok v
      \<Longrightarrow> P (Suc j) v"
  shows "\<exists>j u. i \<le> j \<and> j < i + length xs \<and> P j u \<and> f j (xs ! (j - i)) u = fail e"
  using assms
proof (induction xs arbitrary: i s)
  case Nil
  then show ?case by simp
next
  case (Cons x xs)
  show ?case
  proof (cases "f i x s = fail e")
    case True
    with Cons.prems(2) show ?thesis by force
  next
    case False
    with Cons.prems(1) obtain s' where s': "f i x s = ok s'" "for_run f (Suc i) xs s' = fail e"
      by (auto simp: seq_fail_iff)
    have "P (Suc i) s'" using Cons.prems(3) [of i x s s'] Cons.prems(2) s'(1) by simp
    moreover have "P (Suc j) v" if "Suc i \<le> j" "j < Suc i + length xs" "y = xs ! (j - Suc i)" "P j u"
      "f j y u = ok v" for j y u v
    proof -
      from that have "y = (x # xs) ! (j - i)" by (simp add: nth_Cons_diff)
      with that show ?thesis using Cons.prems(3) [of j y u v] by simp
    qed
    ultimately obtain j u where "Suc i \<le> j" "j < Suc i + length xs" "P j u"
      "f j (xs ! (j - Suc i)) u = fail e"
      using Cons.IH [OF s'(2)] by blast
    then show ?thesis by (intro exI [of _ j] exI [of _ u]) (simp add: nth_Cons_diff)
  qed
qed

section \<open>Steps whose failures carry a state\<close>

text \<open>
  \<^verbatim>\<open>upholds P Q m\<close>: when the step \<^verbatim>\<open>m\<close> fails in a state, the state satisfies \<^verbatim>\<open>P\<close>, and
  when it returns a value, the value satisfies \<^verbatim>\<open>Q\<close>. The rules follow the sequence of a
  handler, so that an invariant of all its error exits is proved step by step.
\<close>

definition upholds :: "('s \<Rightarrow> bool) \<Rightarrow> ('a \<Rightarrow> bool) \<Rightarrow> ('e \<times> 's + 'a) run \<Rightarrow> bool" where
  "upholds P Q m \<longleftrightarrow> (\<forall>e s. m = fail (e, s) \<longrightarrow> P s) \<and> (\<forall>a. m = ok a \<longrightarrow> Q a)"

named_theorems upholds_intros \<open>rules of upholds\<close>

lemma upholdsD:
  "upholds P Q m \<Longrightarrow> m = fail (e, s) \<Longrightarrow> P s" "upholds P Q m \<Longrightarrow> m = ok a \<Longrightarrow> Q a"
  by (auto simp: upholds_def)

lemma upholds_mono: "upholds P Q m \<Longrightarrow> (\<And>a. Q a \<Longrightarrow> R a) \<Longrightarrow> upholds P R m"
  by (auto simp: upholds_def)

lemma upholds_ok [upholds_intros]: "Q a \<Longrightarrow> upholds P Q (ok a)"
  by (simp add: upholds_def)

lemma upholds_fail [upholds_intros]: "P s \<Longrightarrow> upholds P Q (fail (e, s))"
  by (simp add: upholds_def)

lemma upholds_stop [simp]: "upholds P Q Crash" "upholds P Q Undef"
  by (simp_all add: upholds_def)

lemma upholds_check [upholds_intros]: "(b \<Longrightarrow> Q ()) \<Longrightarrow> P s \<Longrightarrow> upholds P Q (check b (e, s))"
  by (simp add: upholds_def check_def)

lemma upholds_need [upholds_intros]:
  "(\<And>a. x = Some a \<Longrightarrow> Q a) \<Longrightarrow> P s \<Longrightarrow> upholds P Q (need x (e, s))"
  by (simp add: upholds_def need_def split: option.splits)

lemma upholds_seq: "upholds P R m \<Longrightarrow> (\<And>a. R a \<Longrightarrow> upholds P Q (f a)) \<Longrightarrow> upholds P Q (seq m f)"
  by (auto simp: upholds_def run_simps)

lemma upholds_then_run: "(\<And>a. m = Ret a \<Longrightarrow> upholds P Q (f a)) \<Longrightarrow> upholds P Q (then_run m f)"
  by (cases m) simp_all

lemma upholds_for_run:
  assumes "I s" and "\<And>j x u. j < length xs \<Longrightarrow> x = xs ! j \<Longrightarrow> I u \<Longrightarrow> upholds P I (f (i + j) x u)"
  shows "upholds P I (for_run f i xs s)"
  using assms
proof (induction xs arbitrary: i s)
  case Nil
  then show ?case by (simp add: upholds_ok)
next
  case (Cons x xs)
  have "upholds P I (f i x s)" using Cons.prems(2) [of 0 x s] Cons.prems(1) by simp
  moreover have "upholds P I (for_run f (Suc i) xs u)" if "I u" for u
    using Cons.IH [OF that, of "Suc i"] Cons.prems(2) [of "Suc j" for j] by simp
  ultimately show ?case by (auto intro: upholds_seq)
qed

text \<open>\<^verbatim>\<open>JADE_WALLY_VERIFY\<close> of a call of libwally.\<close>

definition wally_verify :: "'a option \<Rightarrow> 'a run" where
  "wally_verify r = (case r of None \<Rightarrow> Crash | Some a \<Rightarrow> Ret a)"

lemma wally_verify_Ret [run_simps]: "wally_verify r = Ret a \<longleftrightarrow> r = Some a"
  by (auto simp: wally_verify_def split: option.splits)

section \<open>Actions on a state\<close>

text \<open>An action returns a value and the next state, unless the device stops.\<close>

type_synonym ('s, 'a) act = "'s \<Rightarrow> ('a \<times> 's) run"

definition give :: "'a \<Rightarrow> ('s, 'a) act" where
  "give a s = Ret (a, s)"

definition andthen :: "('s, 'a) act \<Rightarrow> ('a \<Rightarrow> ('s, 'b) act) \<Rightarrow> ('s, 'b) act" where
  "andthen m f s = then_run (m s) (\<lambda>(a, s). f a s)"

definition insist :: "bool \<Rightarrow> ('s, unit) act" where
  "insist b s = (if b then Ret ((), s) else Crash)"

lemma give_Ret_iff [run_simps]: "give a s = Ret (b, t) \<longleftrightarrow> b = a \<and> t = s"
  by (auto simp: give_def)

lemma andthen_Ret_iff [run_simps]:
  "andthen m f s = Ret (b, u) \<longleftrightarrow> (\<exists>a t. m s = Ret (a, t) \<and> f a t = Ret (b, u))"
  by (auto simp: andthen_def then_run_Ret_iff)

lemma andthenE:
  assumes "andthen m f s = Ret (b, u)"
  obtains a t where "m s = Ret (a, t)" "f a t = Ret (b, u)"
  using assms by (auto simp: andthen_Ret_iff)

lemma insist_Ret_iff [run_simps]: "insist b s = Ret (u, t) \<longleftrightarrow> b \<and> t = s"
  by (auto simp: insist_def)

lemma act_simps [simp]:
  "andthen (insist True) f = f ()" "andthen (insist False) f = (\<lambda>s. Crash)"
  by (simp_all add: fun_eq_iff andthen_def give_def insist_def)

lemma andthen_give [simp]: "andthen (give a) f = f a"
  by (simp add: fun_eq_iff andthen_def give_def)

lemma andthen_assoc: "andthen (andthen m f) g = andthen m (\<lambda>a. andthen (f a) g)"
  by (auto simp: fun_eq_iff andthen_def then_run_def split: run.splits)

text \<open>A call that has no state, a change of the state, and a look at it.\<close>

definition from_run :: "'a run \<Rightarrow> ('s, 'a) act" where
  "from_run m s = then_run m (\<lambda>a. Ret (a, s))"

definition update :: "('s \<Rightarrow> 's) \<Rightarrow> ('s, unit) act" where
  "update f s = Ret ((), f s)"

definition inspect :: "('s \<Rightarrow> ('s, 'a) act) \<Rightarrow> ('s, 'a) act" where
  "inspect f s = f s s"

lemma from_run_Ret [run_simps]: "from_run m s = Ret (a, t) \<longleftrightarrow> m = Ret a \<and> t = s"
  by (auto simp: from_run_def then_run_Ret_iff)

lemma update_Ret [run_simps]: "update f s = Ret (u, t) \<longleftrightarrow> t = f s"
  by (auto simp: update_def)

lemma inspect_Ret [run_simps]: "inspect f s = Ret (a, t) \<longleftrightarrow> f s s = Ret (a, t)"
  by (simp add: inspect_def)

section \<open>C strings\<close>

text \<open>The bytes of a C string, with its zero.\<close>

definition char_byte :: "char \<Rightarrow> byte" where
  "char_byte c = of_nat (of_char c)"

definition byte_char :: "byte \<Rightarrow> char" where
  "byte_char b = char_of (unat b)"

definition cstring :: "string \<Rightarrow> bytes" where
  "cstring str = map char_byte str @ [0]"

lemma byte_char_byte [simp]: "byte_char (char_byte c) = c"
proof -
  have "unat (char_byte c) = of_char c mod 256" by (simp only: char_byte_def unat_of_nat_byte)
  then show ?thesis by (simp add: byte_char_def)
qed

lemma char_byte_inj [simp]: "char_byte c = char_byte d \<longleftrightarrow> c = d"
  by (metis byte_char_byte)

lemma map_char_byte_inj [simp]: "map char_byte s = map char_byte t \<longleftrightarrow> s = t"
  by (simp add: inj_map_eq_map inj_def)

text \<open>The decimal text of a number, as \<^verbatim>\<open>snprintf\<close> writes it for \<^verbatim>\<open>%u\<close>.\<close>

fun decimal_string :: "nat \<Rightarrow> string" where
  "decimal_string n =
     (if n < 10 then [char_of (48 + n)] else decimal_string (n div 10) @ [char_of (48 + n mod 10)])"

declare decimal_string.simps [simp del]

text \<open>The text of a C string: what is before the first zero.\<close>

definition c_text :: "string \<Rightarrow> string" where
  "c_text s = takeWhile (\<lambda>c. c \<noteq> CHR 0x00) s"

text \<open>\<^verbatim>\<open>strcasecmp\<close> and \<^verbatim>\<open>strncasecmp\<close> for equality.\<close>

definition tolower :: "char \<Rightarrow> char" where
  "tolower c = (if of_char c \<ge> (65::nat) \<and> of_char c \<le> (90::nat) then char_of (of_char c + 32 :: nat) else c)"

definition same_text :: "string \<Rightarrow> string \<Rightarrow> bool" where
  "same_text a b \<longleftrightarrow> map tolower a = map tolower b"

section \<open>State and early exit\<close>

text \<open>A step that may end the function with an outcome \<^verbatim>\<open>Inl\<close>, and what follows it.\<close>

definition attempt :: "('s, 'e + 'a) act \<Rightarrow> ('a \<Rightarrow> ('s, 'e + 'b) act) \<Rightarrow> ('s, 'e + 'b) act" where
  "attempt m f = andthen m (\<lambda>r. case r of Inl e \<Rightarrow> give (Inl e) | Inr a \<Rightarrow> f a)"

abbreviation leave :: "'e \<Rightarrow> ('s, 'e + 'a) act" where
  "leave e \<equiv> give (Inl e)"

abbreviation carry :: "'a \<Rightarrow> ('s, 'e + 'a) act" where
  "carry a \<equiv> give (Inr a)"

lemma attempt_Inr [run_simps]:
  "attempt m f s = Ret (Inr b, t) \<longleftrightarrow> (\<exists>a u. m s = Ret (Inr a, u) \<and> f a u = Ret (Inr b, t))"
  by (cases "m s"; auto simp: attempt_def andthen_def give_def split: sum.splits)

lemma attempt_Inl [run_simps]:
  "attempt m f s = Ret (Inl e, t) \<longleftrightarrow>
     m s = Ret (Inl e, t) \<or> (\<exists>a u. m s = Ret (Inr a, u) \<and> f a u = Ret (Inl e, t))"
  by (cases "m s"; auto simp: attempt_def andthen_def give_def split: sum.splits)

lemma attempt_Ret:
  assumes "attempt m f s = Ret (r, t)"
  obtains (left) e where "m s = Ret (Inl e, t)" "r = Inl e"
  | (right) a u where "m s = Ret (Inr a, u)" "f a u = Ret (r, t)"
  using assms by (cases r) (auto simp: run_simps)

end
