(* ===== verification/Mweb_Scalar.thy ===== *)
theory Mweb_Scalar
  imports Jade_Prelude
begin

text \<open>
  \<^verbatim>\<open>src/main/mweb/mweb_scalar.c\<close> and the scalar check of
  \<^verbatim>\<open>src/main/mweb/mweb_kernel.c\<close>: 32-byte big-endian scalars modulo the order n
  of secp256k1. The bignum calls of mbedtls are modelled by the arithmetic they
  document; they fail only when their allocations do, which is a parameter of each
  call (\<^verbatim>\<open>True\<close>: the allocations succeed). The lemmas show that the byte loops
  compute addition, negation and subtraction modulo n, and the locale
  \<^verbatim>\<open>scalar_ops\<close> states that contract for the clients.
\<close>

section \<open>The group order and the scalar check\<close>

definition SECP256K1_ORDER :: bytes where
  "SECP256K1_ORDER = [
    0xFF, 0xFF, 0xFF, 0xFF, 0xFF, 0xFF, 0xFF, 0xFF,
    0xFF, 0xFF, 0xFF, 0xFF, 0xFF, 0xFF, 0xFF, 0xFE,
    0xBA, 0xAE, 0xDC, 0xE6, 0xAF, 0x48, 0xA0, 0x3B,
    0xBF, 0xD2, 0x5E, 0x8C, 0xD0, 0x36, 0x41, 0x41]"

definition secp_n :: nat where
  "secp_n = be_nat SECP256K1_ORDER"

fun below_order :: "bytes \<Rightarrow> bytes \<Rightarrow> bool" where
  "below_order (a # as) (b # bs) =
     (if a < b then True else if a > b then False else below_order as bs)"
| "below_order _ _ = False"

definition mweb_validate_scalar :: "bytes \<Rightarrow> bool" where
  "mweb_validate_scalar s =
     (if list_all (\<lambda>b. b = 0) s then False else below_order s SECP256K1_ORDER)"

section \<open>Arithmetic modulo the order\<close>

definition mweb_scalar_add_mod_n :: "bool \<Rightarrow> bytes \<Rightarrow> bytes \<Rightarrow> bytes option" where
  "mweb_scalar_add_mod_n mpi_ok a b =
     (if mpi_ok then Some (be_bytes 32 ((be_nat a + be_nat b) mod be_nat SECP256K1_ORDER)) else None)"

text \<open>The borrow loop of the negation, least significant byte first.\<close>

fun sub_borrow :: "int \<Rightarrow> bytes \<Rightarrow> bytes \<Rightarrow> bytes" where
  "sub_borrow borrow (x # xs) (y # ys) =
     (let diff = uint x - uint y - borrow
      in if diff < 0 then word_of_int (diff + 256) # sub_borrow 1 xs ys
         else word_of_int diff # sub_borrow 0 xs ys)"
| "sub_borrow borrow _ _ = []"

definition mweb_scalar_neg_mod_n :: "bool \<Rightarrow> bytes \<Rightarrow> bytes option" where
  "mweb_scalar_neg_mod_n mpi_ok a =
     (case mweb_scalar_add_mod_n mpi_ok a (replicate 32 0) of
        None \<Rightarrow> None
      | Some reduced \<Rightarrow>
          if list_all (\<lambda>b. b = 0) reduced then Some (replicate 32 0)
          else Some (rev (sub_borrow 0 (rev SECP256K1_ORDER) (rev reduced))))"

definition mweb_scalar_sub_mod_n :: "(nat \<Rightarrow> bool) \<Rightarrow> bytes \<Rightarrow> bytes \<Rightarrow> bytes option" where
  "mweb_scalar_sub_mod_n mpi_ok a b =
     (case mweb_scalar_neg_mod_n (mpi_ok 0) b of
        None \<Rightarrow> None
      | Some neg_b \<Rightarrow> mweb_scalar_add_mod_n (mpi_ok 1) a neg_b)"

section \<open>Lemmas\<close>

lemma length_SECP256K1_ORDER [simp]: "length SECP256K1_ORDER = 32"
  by (simp add: SECP256K1_ORDER_def)

lemma secp_n_value:
  "secp_n = 115792089237316195423570985008687907852837564279074904382605163141518161494337"
  by (simp add: secp_n_def be_nat_def SECP256K1_ORDER_def)

lemma secp_n_pos [simp]: "0 < secp_n"
  by (simp add: secp_n_value)

lemma secp_n_less: "secp_n < 2 ^ 256"
  by (simp add: secp_n_value)

lemma below_order_iff: "length as = length bs \<Longrightarrow> below_order as bs \<longleftrightarrow> be_nat as < be_nat bs"
proof (induction as bs rule: below_order.induct)
  case (1 a as b bs)
  then have len: "length as = length bs" by simp
  note bounds = be_nat_less [of as] be_nat_less [of bs]
  consider "unat a < unat b" | "unat b < unat a" | "a = b"
    using word_eqI_unat [of a b] by linarith
  then show ?case
  proof cases
    case 1
    then have "(unat a + 1) * 256 ^ length bs \<le> unat b * 256 ^ length bs" by (intro mult_le_mono1) simp
    with 1 bounds len show ?thesis by (simp add: be_nat_Cons word_less_nat_alt algebra_simps)
  next
    case 2
    then have "(unat b + 1) * 256 ^ length bs \<le> unat a * 256 ^ length bs" by (intro mult_le_mono1) simp
    with 2 bounds len show ?thesis by (simp add: be_nat_Cons word_less_nat_alt algebra_simps)
  next
    case 3
    with "1.IH" len show ?thesis by (simp add: be_nat_Cons)
  qed
qed auto

lemma validate_scalar_iff:
  "length s = 32 \<Longrightarrow> mweb_validate_scalar s \<longleftrightarrow> 0 < be_nat s \<and> be_nat s < secp_n"
  using be_nat_zero_iff [of s]
  by (auto simp: mweb_validate_scalar_def secp_n_def below_order_iff list_all_iff)

lemma length_sub_borrow [simp]: "length (sub_borrow c xs ys) = min (length xs) (length ys)"
  by (induction c xs ys rule: sub_borrow.induct) (simp_all add: Let_def)

lemma uint_byte_range: "0 \<le> uint (b :: byte)" "uint b < 256"
  using unsigned_less [of b, where ?'a = int] by simp_all

lemma sub_borrow_value:
  assumes "length xs = length ys" and "0 \<le> c" and "c \<le> 1"
  shows "\<exists>f \<ge> 0. int (le_nat (sub_borrow c xs ys))
    = int (le_nat xs) - int (le_nat ys) - c + 256 ^ length xs * f"
  using assms
proof (induction c xs ys rule: sub_borrow.induct)
  case (1 c x xs y ys)
  let ?d = "uint x - uint y - c"
  have rng: "- 256 \<le> ?d" "?d < 256"
    using "1.prems"(2,3) uint_byte_range [of x] uint_byte_range [of y] by linarith+
  have byte: "int (unat (word_of_int k :: byte)) = k" if "0 \<le> k" "k < 256" for k :: int
    using that by (simp add: unat_eq_nat_uint uint_word_of_int)
  show ?case
  proof (cases "?d < 0")
    case True
    with 1 obtain f where f: "0 \<le> f" "int (le_nat (sub_borrow 1 xs ys))
        = int (le_nat xs) - int (le_nat ys) - 1 + 256 ^ length xs * f" by auto
    have "int (le_nat (sub_borrow c (x # xs) (y # ys)))
        = ?d + 256 + 256 * int (le_nat (sub_borrow 1 xs ys))"
      using True rng byte [of "?d + 256"] by (simp add: Let_def)
    with f show ?thesis by (intro exI [of _ f]) (simp add: algebra_simps)
  next
    case False
    with 1 obtain f where f: "0 \<le> f" "int (le_nat (sub_borrow 0 xs ys))
        = int (le_nat xs) - int (le_nat ys) + 256 ^ length xs * f" by auto
    have "int (le_nat (sub_borrow c (x # xs) (y # ys))) = ?d + 256 * int (le_nat (sub_borrow 0 xs ys))"
      using False rng byte [of ?d] by (simp add: Let_def)
    with f show ?thesis by (intro exI [of _ f]) (simp add: algebra_simps)
  qed
qed auto

lemma mod_less_256_32: "x mod secp_n < 256 ^ 32"
  using mod_less_divisor [OF secp_n_pos, of x] by (simp add: secp_n_value)

lemma scalar_add_Some_iff:
  "mweb_scalar_add_mod_n k a b = Some c \<longleftrightarrow> k \<and> c = be_bytes 32 ((be_nat a + be_nat b) mod secp_n)"
  by (auto simp: mweb_scalar_add_mod_n_def secp_n_def)

lemma scalar_add_value:
  "mweb_scalar_add_mod_n k a b = Some c \<Longrightarrow> be_nat c = (be_nat a + be_nat b) mod secp_n"
  by (auto simp: scalar_add_Some_iff be_nat_be_bytes_small [OF mod_less_256_32])

lemma scalar_add_length: "mweb_scalar_add_mod_n k a b = Some c \<Longrightarrow> length c = 32"
  by (auto simp: scalar_add_Some_iff)

lemma sub_borrow_exact:
  assumes "length xs = length ys" and "le_nat ys \<le> le_nat xs"
  shows "le_nat (sub_borrow 0 xs ys) = le_nat xs - le_nat ys"
proof -
  from sub_borrow_value [OF assms(1), of 0] obtain f where f: "0 \<le> f"
    "int (le_nat (sub_borrow 0 xs ys)) = int (le_nat xs) - int (le_nat ys) + 256 ^ length xs * f"
    by auto
  have "le_nat (sub_borrow 0 xs ys) < 256 ^ length xs"
    using le_nat_less [of "sub_borrow 0 xs ys"] assms(1) by simp
  then have "int (le_nat (sub_borrow 0 xs ys)) < 256 ^ length xs"
    by (metis of_nat_less_iff of_nat_numeral of_nat_power)
  with f assms(2) have "256 ^ length xs * f < 256 ^ length xs" by linarith
  then have "f < 1" by (simp add: mult_less_cancel_left1)
  with f(1) have "f = 0" by simp
  with f(2) assms(2) show ?thesis by (simp flip: of_nat_eq_iff)
qed

lemma scalar_neg_Some:
  assumes "mweb_scalar_neg_mod_n k a = Some c"
  shows "length c = 32" and "be_nat c = (secp_n - be_nat a mod secp_n) mod secp_n"
proof -
  from assms obtain r where r: "mweb_scalar_add_mod_n k a (replicate 32 0) = Some r"
    and c: "c = (if list_all (\<lambda>b. b = 0) r then replicate 32 0
                 else rev (sub_borrow 0 (rev SECP256K1_ORDER) (rev r)))"
    by (auto simp: mweb_scalar_neg_mod_n_def split: option.splits if_splits)
  have len: "length r = 32" and val: "be_nat r = be_nat a mod secp_n"
    using scalar_add_length [OF r] scalar_add_value [OF r] by simp_all
  show "length c = 32" by (simp add: c len)
  have zero: "list_all (\<lambda>b. b = 0) r \<longleftrightarrow> be_nat a mod secp_n = 0"
    using be_nat_zero_iff [of r] by (simp add: val list_all_iff)
  show "be_nat c = (secp_n - be_nat a mod secp_n) mod secp_n"
  proof (cases "be_nat a mod secp_n = 0")
    case True
    with zero show ?thesis by (simp add: c)
  next
    case False
    have "be_nat r \<le> secp_n" using val by (simp add: less_imp_le)
    then have "le_nat (rev r) \<le> le_nat (rev SECP256K1_ORDER)"
      by (simp add: secp_n_def be_nat_le_nat)
    then have "be_nat (rev (sub_borrow 0 (rev SECP256K1_ORDER) (rev r))) = secp_n - be_nat r"
      using sub_borrow_exact [of "rev SECP256K1_ORDER" "rev r"] len
      by (simp add: secp_n_def be_nat_le_nat)
    with False zero val show ?thesis by (simp add: c)
  qed
qed

lemma scalar_sub_Some:
  assumes "mweb_scalar_sub_mod_n k a b = Some c"
  shows "length c = 32" and "int (be_nat c) = (int (be_nat a) - int (be_nat b)) mod int secp_n"
proof -
  from assms obtain nb where nb: "mweb_scalar_neg_mod_n (k 0) b = Some nb"
    and c: "mweb_scalar_add_mod_n (k 1) a nb = Some c"
    by (auto simp: mweb_scalar_sub_mod_n_def split: option.splits)
  show "length c = 32" using c by (rule scalar_add_length)
  have "int (be_nat nb) = (int secp_n - int (be_nat b) mod int secp_n) mod int secp_n"
    using scalar_neg_Some(2) [OF nb] by (simp add: zmod_int less_imp_le)
  then have "int (be_nat nb) = (- int (be_nat b)) mod int secp_n"
    by (simp add: mod_minus_eq)
  then show "int (be_nat c) = (int (be_nat a) - int (be_nat b)) mod int secp_n"
    using scalar_add_value [OF c] by (simp add: zmod_int mod_add_right_eq)
qed

section \<open>The contract of the scalar helpers\<close>

text \<open>
  What the kernel signer and the signing session rely on: the helpers return
  32-byte strings and compute modulo the order.
\<close>

locale scalar_ops =
  fixes add :: "bool \<Rightarrow> bytes \<Rightarrow> bytes \<Rightarrow> bytes option"
    and sub :: "(nat \<Rightarrow> bool) \<Rightarrow> bytes \<Rightarrow> bytes \<Rightarrow> bytes option"
    and n :: nat
  assumes n_pos: "0 < n"
    and add_total: "\<exists>c. add True a b = Some c"
    and add_length: "add k a b = Some c \<Longrightarrow> length c = 32"
    and add_value: "add k a b = Some c \<Longrightarrow> be_nat c = (be_nat a + be_nat b) mod n"
    and sub_length: "sub m a b = Some c \<Longrightarrow> length c = 32"
    and sub_value: "sub m a b = Some c \<Longrightarrow> int (be_nat c) = (int (be_nat a) - int (be_nat b)) mod int n"
begin

text \<open>An accumulation loop adds up the scalars it walks.\<close>

lemma sum_loop_length:
  "for_opt (\<lambda>k b acc. add (m k) acc b) i bs acc = Some r \<Longrightarrow> length acc = 32 \<Longrightarrow> length r = 32"
  by (induction bs arbitrary: i acc) (auto split: option.splits dest: add_length)

lemma sum_loop_value:
  "for_opt (\<lambda>k b acc. add (m k) acc b) i bs acc = Some r
    \<Longrightarrow> be_nat r mod n = (be_nat acc + sum_list (map be_nat bs)) mod n"
proof (induction bs arbitrary: i acc)
  case Nil
  then show ?case by simp
next
  case (Cons b bs)
  then obtain acc' where a: "add (m i) acc b = Some acc'"
    and r: "for_opt (\<lambda>k b acc. add (m k) acc b) (Suc i) bs acc' = Some r"
    by (auto split: option.splits)
  from Cons.IH [OF r] have "be_nat r mod n = (be_nat acc' + sum_list (map be_nat bs)) mod n" .
  also have "\<dots> = (be_nat acc + be_nat b + sum_list (map be_nat bs)) mod n"
    using add_value [OF a] by (simp add: mod_add_left_eq)
  finally show ?case by (simp add: add.assoc)
qed

lemma sum_loop_total: "\<exists>r. for_opt (\<lambda>k b acc. add True acc b) i bs acc = Some r"
proof (induction bs arbitrary: i acc)
  case Nil
  then show ?case by simp
next
  case (Cons b bs)
  then show ?case using add_total [of acc b] by (auto split: option.splits)
qed

end

lemma scalar_add_total: "\<exists>c. mweb_scalar_add_mod_n True a b = Some c"
  by (simp add: mweb_scalar_add_mod_n_def)

interpretation scalar: scalar_ops mweb_scalar_add_mod_n mweb_scalar_sub_mod_n secp_n
  by (unfold_locales; (rule secp_n_pos scalar_add_total | erule scalar_add_length scalar_add_value
      scalar_sub_Some))

section \<open>Properties\<close>

text \<open>The scalar check every host-supplied scalar must pass accepts exactly the
  32-byte strings whose big-endian value is between 1 and the group order minus 1: the
  early-exit byte comparison decides the numeric order.\<close>

theorem validate_scalar_range:
  assumes "length s = 32"
  shows "mweb_validate_scalar s \<longleftrightarrow> 1 \<le> be_nat s \<and> be_nat s \<le>
    115792089237316195423570985008687907852837564279074904382605163141518161494336"
  using validate_scalar_iff [OF assms] by (auto simp: secp_n_value)

theorem validate_scalar_range_witness:
  "mweb_validate_scalar (replicate 31 0 @ [1]) \<and> \<not> mweb_validate_scalar (replicate 32 0)"
  using validate_scalar_range [of "replicate 31 0 @ [1]"] validate_scalar_range [of "replicate 32 0"]
  by (simp add: be_nat_append be_nat_Cons)

text \<open>C37: Scalar arithmetic on bytes. When no allocation fails, addition, the borrow-loop
  negation and subtraction return 32 bytes that hold the sum, the negation and the
  difference modulo the group order, for all arguments (reduced or not); and each returns
  nothing when an allocation it makes fails: the one of the addition or the negation, and
  either of the two of the subtraction, which negates and adds.\<close>

theorem scalar_arithmetic:
  "(\<exists>c. mweb_scalar_add_mod_n True a b = Some c \<and> length c = 32
      \<and> be_nat c = (be_nat a + be_nat b) mod secp_n)
   \<and> (\<exists>c. mweb_scalar_neg_mod_n True a = Some c \<and> length c = 32
      \<and> int (be_nat c) = (- int (be_nat a)) mod int secp_n)
   \<and> (\<exists>c. mweb_scalar_sub_mod_n (\<lambda>_. True) a b = Some c \<and> length c = 32
      \<and> int (be_nat c) = (int (be_nat a) - int (be_nat b)) mod int secp_n)
   \<and> mweb_scalar_add_mod_n False a b = None \<and> mweb_scalar_neg_mod_n False a = None
   \<and> (mweb_scalar_sub_mod_n mpi_ok a b \<noteq> None) = (mpi_ok 0 \<and> mpi_ok 1)"
proof -
  have fails: "(mweb_scalar_sub_mod_n mpi_ok a b \<noteq> None) = (mpi_ok 0 \<and> mpi_ok 1)"
    by (auto simp: mweb_scalar_sub_mod_n_def mweb_scalar_neg_mod_n_def mweb_scalar_add_mod_n_def split: option.splits)
  have "mweb_scalar_neg_mod_n True a \<noteq> None"
    by (simp add: mweb_scalar_neg_mod_n_def mweb_scalar_add_mod_n_def)
  then obtain d where d: "mweb_scalar_neg_mod_n True a = Some d" by blast
  have "int (be_nat d) = (- int (be_nat a)) mod int secp_n"
    using scalar_neg_Some(2) [OF d] by (simp add: zmod_int less_imp_le mod_minus_eq)
  moreover have "mweb_scalar_sub_mod_n (\<lambda>_. True) a b \<noteq> None"
    by (simp add: mweb_scalar_sub_mod_n_def mweb_scalar_neg_mod_n_def mweb_scalar_add_mod_n_def)
  then obtain e where "mweb_scalar_sub_mod_n (\<lambda>_. True) a b = Some e" by blast
  moreover obtain c where "mweb_scalar_add_mod_n True a b = Some c"
    using scalar_add_total by blast
  moreover have "mweb_scalar_add_mod_n False a b = None" "mweb_scalar_neg_mod_n False a = None"
    by (simp_all add: mweb_scalar_neg_mod_n_def mweb_scalar_add_mod_n_def)
  ultimately show ?thesis
    unfolding fails using d scalar_neg_Some(1) scalar.sub_length scalar.sub_value scalar.add_length scalar.add_value by blast
qed

end
