(* ===== verification/Mweb_Crypto.thy ===== *)
theory Mweb_Crypto
  imports Mweb_Scalar "HOL-Library.Monad_Syntax"
begin

text \<open>
  The cryptographic layer of MWEB: \<^verbatim>\<open>mweb_hash.c\<close>, \<^verbatim>\<open>mweb_blind.c\<close> and
  \<^verbatim>\<open>mweb_schnorr.c\<close> under \<^verbatim>\<open>src/main/mweb\<close>, and the error codes of
  \<^verbatim>\<open>mweb_kernel.h\<close>. libsecp256k1, libwally and the hash functions are not part of
  the modelled code: they are the record \<^verbatim>\<open>crypto\<close>, one field per library call.
  An opaque \<^verbatim>\<open>secp256k1_pubkey\<close> or commitment object is a byte string. Where a
  theorem relies on what those libraries document, it names one of the predicates
  \<^verbatim>\<open>seckey_laws\<close> and \<^verbatim>\<open>point_laws\<close>.
\<close>

section \<open>Error codes\<close>

datatype mweb_err_t = MWEB_OK
  | MWEB_ERR_MISSING_STEALTH_SCALAR
  | MWEB_ERR_INVALID_SCALAR
  | MWEB_ERR_OUTPUT_FIELD_MISMATCH
  | MWEB_ERR_INPUT_COMMIT_MISMATCH
  | MWEB_ERR_BALANCE_FAIL
  | MWEB_ERR_KERNEL_FEATURE_MISMATCH
  | MWEB_ERR_FOREIGN_MWEB_INPUT
  | MWEB_ERR_MULTI_KERNEL_UNSUPPORTED
  | MWEB_ERR_MISSING_KERNEL
  | MWEB_ERR_PEGOUTS_NOT_DISPLAYED
  | MWEB_ERR_OFFSET_ACCUMULATE_FAIL
  | MWEB_ERR_UNSUPPORTED_NETWORK
  | MWEB_ERR_USER_CANCEL
  | MWEB_ERR_INTERNAL

section \<open>The libraries\<close>

record crypto =
  secp_ctx :: bool                                        \<comment> \<open>\<^verbatim>\<open>wally_get_secp_context() != NULL\<close>\<close>
  blake3 :: "bytes \<Rightarrow> bytes"                              \<comment> \<open>of everything fed to one hasher\<close>
  mbedtls_sha256 :: "bytes \<Rightarrow> bytes"
  wally_sha256 :: "bytes \<Rightarrow> bytes option"
  pubkey_create :: "bytes \<Rightarrow> bytes option"                \<comment> \<open>\<^verbatim>\<open>secp256k1_ec_pubkey_create\<close>\<close>
  pubkey_parse :: "bytes \<Rightarrow> bytes option"                 \<comment> \<open>\<^verbatim>\<open>secp256k1_ec_pubkey_parse\<close>\<close>
  pubkey_compressed :: "bytes \<Rightarrow> bytes"                   \<comment> \<open>\<^verbatim>\<open>..._serialize\<close>, 33 bytes\<close>
  pubkey_uncompressed :: "bytes \<Rightarrow> bytes"                 \<comment> \<open>\<^verbatim>\<open>..._serialize\<close>, 65 bytes\<close>
  pubkey_tweak_mul :: "bytes \<Rightarrow> bytes \<Rightarrow> bytes option"
  pubkey_combine :: "bytes list \<Rightarrow> bytes option"
  seckey_tweak_add :: "bytes \<Rightarrow> bytes \<Rightarrow> bytes option"
  seckey_tweak_mul :: "bytes \<Rightarrow> bytes \<Rightarrow> bytes option"
  seckey_negate :: "bytes \<Rightarrow> bytes option"
  pedersen_commit :: "bytes \<Rightarrow> u64 \<Rightarrow> bytes option"      \<comment> \<open>with value generator H\<close>
  pedersen_serialize :: "bytes \<Rightarrow> bytes"
  wally_public_key :: "bytes \<Rightarrow> bytes option"             \<comment> \<open>\<^verbatim>\<open>wally_ec_public_key_from_private_key\<close>\<close>

section \<open>Tagged hashes: mweb_hash.c\<close>

definition MWEB_TAG_ADDRESS :: byte where "MWEB_TAG_ADDRESS = 0x41"
definition MWEB_TAG_BLIND :: byte where "MWEB_TAG_BLIND = 0x42"
definition MWEB_TAG_DERIVE :: byte where "MWEB_TAG_DERIVE = 0x44"
definition MWEB_TAG_NONCE :: byte where "MWEB_TAG_NONCE = 0x4e"
definition MWEB_TAG_OUTKEY :: byte where "MWEB_TAG_OUTKEY = 0x4f"
definition MWEB_TAG_SENDKEY :: byte where "MWEB_TAG_SENDKEY = 0x53"
definition MWEB_TAG_TAG :: byte where "MWEB_TAG_TAG = 0x54"
definition MWEB_TAG_NONCEMASK :: byte where "MWEB_TAG_NONCEMASK = 0x58"
definition MWEB_TAG_VALUEMASK :: byte where "MWEB_TAG_VALUEMASK = 0x59"

definition mweb_hashed :: "crypto \<Rightarrow> byte \<Rightarrow> bytes \<Rightarrow> bytes" where
  "mweb_hashed C tag data = blake3 C (tag # data)"

section \<open>Commitments and the blind switch: mweb_blind.c\<close>

definition GENERATOR_J :: bytes where
  "GENERATOR_J = [0x02,
    0xb8, 0x60, 0xf5, 0x67, 0x95, 0xfc, 0x03, 0xf3,
    0xc2, 0x16, 0x85, 0x38, 0x3d, 0x1b, 0x5a, 0x2f,
    0x29, 0x54, 0xf4, 0x9b, 0x7e, 0x39, 0x8b, 0x8d,
    0x2a, 0x01, 0x93, 0x93, 0x36, 0x21, 0x15, 0x5f]"

definition mweb_pedersen_commit :: "crypto \<Rightarrow> bytes \<Rightarrow> u64 \<Rightarrow> bytes option" where
  "mweb_pedersen_commit C blind value =
     (if \<not> secp_ctx C then None
      else do {
        c \<leftarrow> pedersen_commit C blind value;
        Some (pedersen_serialize C c)
      })"

definition mweb_blind_switch :: "crypto \<Rightarrow> bool \<Rightarrow> bytes \<Rightarrow> u64 \<Rightarrow> bytes option" where
  "mweb_blind_switch C mpi_ok blind value =
     (if \<not> secp_ctx C then None
      else do {
        commit_bytes \<leftarrow> mweb_pedersen_commit C blind value;
        J \<leftarrow> pubkey_parse C GENERATOR_J;
        J \<leftarrow> pubkey_tweak_mul C J blind;
        let j_bytes = pubkey_compressed C J;
        tweak \<leftarrow> wally_sha256 C (commit_bytes @ j_bytes);
        (if \<not> mpi_ok then None
         else if be_nat tweak \<ge> be_nat SECP256K1_ORDER then None
         else if be_nat blind \<ge> be_nat SECP256K1_ORDER then None
         else Some (be_bytes 32 ((be_nat blind + be_nat tweak) mod be_nat SECP256K1_ORDER)))
      })"

section \<open>Schnorr signatures: mweb_schnorr.c\<close>

definition SECP256K1_FIELD_PRIME :: bytes where
  "SECP256K1_FIELD_PRIME = [
    0xFF, 0xFF, 0xFF, 0xFF, 0xFF, 0xFF, 0xFF, 0xFF,
    0xFF, 0xFF, 0xFF, 0xFF, 0xFF, 0xFF, 0xFF, 0xFF,
    0xFF, 0xFF, 0xFF, 0xFF, 0xFF, 0xFF, 0xFF, 0xFF,
    0xFF, 0xFF, 0xFF, 0xFE, 0xFF, 0xFF, 0xFC, 0x2F]"

definition SECP256K1_HALF_P_MINUS_1 :: bytes where
  "SECP256K1_HALF_P_MINUS_1 = [
    0x7F, 0xFF, 0xFF, 0xFF, 0xFF, 0xFF, 0xFF, 0xFF,
    0xFF, 0xFF, 0xFF, 0xFF, 0xFF, 0xFF, 0xFF, 0xFF,
    0xFF, 0xFF, 0xFF, 0xFF, 0xFF, 0xFF, 0xFF, 0xFF,
    0xFF, 0xFF, 0xFF, 0xFF, 0x7F, 0xFF, 0xFE, 0x17]"

text \<open>\<^verbatim>\<open>mbedtls_mpi_exp_mod\<close>, by repeated squaring so that it evaluates.\<close>

function mpi_exp_mod :: "nat \<Rightarrow> nat \<Rightarrow> nat \<Rightarrow> nat" where
  "mpi_exp_mod b e m =
     (if e = 0 then 1 mod m
      else if even e then mpi_exp_mod (b * b mod m) (e div 2) m
      else b * mpi_exp_mod (b * b mod m) (e div 2) m mod m)"
  by pat_completeness auto
termination
  by (relation "measure (\<lambda>(b, e, m). e)") auto

declare mpi_exp_mod.simps [simp del]

definition fe_is_quad :: "bool \<Rightarrow> bytes \<Rightarrow> bool option" where
  "fe_is_quad mpi_ok y =
     (if mpi_ok then
        Some (mpi_exp_mod (be_nat y) (be_nat SECP256K1_HALF_P_MINUS_1) (be_nat SECP256K1_FIELD_PRIME) = 1)
      else None)"

definition sha256_two :: "crypto \<Rightarrow> bytes \<Rightarrow> bytes \<Rightarrow> bytes" where
  "sha256_two C a b = mbedtls_sha256 C (a @ b)"

definition sha256_three :: "crypto \<Rightarrow> bytes \<Rightarrow> bytes \<Rightarrow> bytes \<Rightarrow> bytes" where
  "sha256_three C a b c = mbedtls_sha256 C (a @ b @ c)"

text \<open>
  Steps 1 to 8 of \<^verbatim>\<open>mweb_schnorr_sign\<close>; \<^verbatim>\<open>None\<close> is a jump to \<^verbatim>\<open>cleanup\<close>. The outer
  function takes the caller's signature buffer and returns what it holds afterwards.
\<close>

definition schnorr_steps :: "crypto \<Rightarrow> bool \<Rightarrow> bytes \<Rightarrow> bytes \<Rightarrow> bytes option" where
  "schnorr_steps C mpi_ok secret_key msg = do {
     let k = sha256_two C secret_key msg;
     R_pk \<leftarrow> pubkey_create C k;
     let R = pubkey_uncompressed C R_pk;
     let R_x = take 32 (drop 1 R);
     r_y_is_quad \<leftarrow> fe_is_quad mpi_ok (take 32 (drop 33 R));
     k \<leftarrow> (if r_y_is_quad then Some k else seckey_negate C k);
     sk_pk \<leftarrow> pubkey_create C secret_key;
     let e = sha256_three C R_x (pubkey_compressed C sk_pk) msg;
     s \<leftarrow> seckey_tweak_mul C e secret_key;
     s \<leftarrow> seckey_tweak_add C s k;
     Some (R_x @ s)
   }"

definition mweb_schnorr_sign :: "crypto \<Rightarrow> bool \<Rightarrow> bytes \<Rightarrow> bytes \<Rightarrow> bytes \<Rightarrow> bool \<times> bytes" where
  "mweb_schnorr_sign C mpi_ok secret_key msg signature =
     (if \<not> secp_ctx C then (False, signature)
      else case schnorr_steps C mpi_ok secret_key msg of
             None \<Rightarrow> (False, replicate 64 0)
           | Some sig \<Rightarrow> (True, sig))"

text \<open>Pointer arguments are options; \<^verbatim>\<open>None\<close> is a null pointer.\<close>

definition mweb_sign_output ::
  "crypto \<Rightarrow> bool \<Rightarrow> bytes option \<Rightarrow> bytes option \<Rightarrow> bytes option \<Rightarrow> bytes option \<Rightarrow> bytes option
    \<Rightarrow> bytes option \<Rightarrow> bytes option \<Rightarrow> mweb_err_t \<times> bytes option" where
  "mweb_sign_output C mpi_ok sender_key commit K_s K_o msg_hash rp_hash sig_out =
     (case (sender_key, commit, K_s, K_o, msg_hash, rp_hash, sig_out) of
        (Some sender_key, Some commit, Some K_s, Some K_o, Some msg_hash, Some rp_hash, Some sig) \<Rightarrow>
          if \<not> mweb_validate_scalar sender_key then (MWEB_ERR_INVALID_SCALAR, sig_out)
          else
            let sig_hash = blake3 C (commit @ K_s @ K_o @ msg_hash @ rp_hash);
                (signed, sig) = mweb_schnorr_sign C mpi_ok sender_key sig_hash sig
            in (if signed then MWEB_OK else MWEB_ERR_INTERNAL, Some sig)
      | _ \<Rightarrow> (MWEB_ERR_INTERNAL, sig_out))"

section \<open>What the libraries document\<close>

text \<open>
  Secret keys are scalars modulo the group order: what the \<^verbatim>\<open>seckey\<close> calls of
  libsecp256k1 return when they succeed.
\<close>

definition seckey_laws :: "crypto \<Rightarrow> bool" where
  "seckey_laws C \<longleftrightarrow>
     (\<forall>s t r. seckey_tweak_mul C s t = Some r \<longrightarrow>
        length r = 32 \<and> be_nat r = be_nat s * be_nat t mod secp_n) \<and>
     (\<forall>s t r. seckey_tweak_add C s t = Some r \<longrightarrow>
        length r = 32 \<and> be_nat r = (be_nat s + be_nat t) mod secp_n) \<and>
     (\<forall>s r. seckey_negate C s = Some r \<longrightarrow> (be_nat r + be_nat s) mod secp_n = 0)"

text \<open>
  Points: a compressed key parses back to the point it came from, and multiplying a
  point by two scalars does not depend on their order.
\<close>

definition point_laws :: "crypto \<Rightarrow> bool" where
  "point_laws C \<longleftrightarrow>
     (\<forall>P a Q. pubkey_tweak_mul C P a = Some Q \<longrightarrow> pubkey_parse C (pubkey_compressed C Q) = Some Q) \<and>
     (\<forall>Ps Q. pubkey_combine C Ps = Some Q \<longrightarrow> pubkey_parse C (pubkey_compressed C Q) = Some Q) \<and>
     (\<forall>P a b Q R S. pubkey_tweak_mul C P a = Some Q \<longrightarrow> pubkey_tweak_mul C Q b = Some S
        \<longrightarrow> pubkey_tweak_mul C P b = Some R \<longrightarrow> pubkey_tweak_mul C R a = Some S)"

text \<open>The sizes of what the libraries write.\<close>

definition size_laws :: "crypto \<Rightarrow> bool" where
  "size_laws C \<longleftrightarrow> (\<forall>x. length (blake3 C x) = 32) \<and> (\<forall>P. length (pubkey_compressed C P) = 33)
     \<and> (\<forall>P. length (pubkey_uncompressed C P) = 65) \<and> (\<forall>c. length (pedersen_serialize C c) = 33)"

section \<open>Lemmas\<close>

lemma mpi_exp_mod_steps:
  "mpi_exp_mod b 0 m = 1 mod m"
  "e \<noteq> 0 \<Longrightarrow> even e \<Longrightarrow> mpi_exp_mod b e m = mpi_exp_mod (b * b mod m) (e div 2) m"
  "e \<noteq> 0 \<Longrightarrow> odd e \<Longrightarrow> mpi_exp_mod b e m = b * mpi_exp_mod (b * b mod m) (e div 2) m mod m"
  by (subst mpi_exp_mod.simps, simp)+

lemma mpi_exp_mod_power: "mpi_exp_mod b e m = b ^ e mod m"
proof (induction b e m rule: mpi_exp_mod.induct)
  case (1 b e m)
  have sq: "(b * b mod m) ^ (e div 2) mod m = b ^ (2 * (e div 2)) mod m"
    by (simp only: power_mod power_mult power2_eq_square)
  consider "e = 0" | "e \<noteq> 0" "even e" | "e \<noteq> 0" "odd e" by blast
  then show ?case
  proof cases
    case 1
    then show ?thesis by (simp add: mpi_exp_mod_steps)
  next
    case 2
    with "1.IH"(1) sq show ?thesis using mpi_exp_mod_steps(2) [of e b m] by simp
  next
    case 3
    then obtain j where j: "e = Suc (2 * j)" by (auto elim: oddE)
    then have "b ^ e = b * b ^ (2 * (e div 2))" by simp
    with 3 "1.IH"(2) sq show ?thesis
      using mpi_exp_mod_steps(3) [of e b m] by (simp add: mod_mult_right_eq)
  qed
qed

lemma fe_is_quad_Some_iff:
  "fe_is_quad k y = Some q \<longleftrightarrow> k \<and>
    q = (be_nat y ^ be_nat SECP256K1_HALF_P_MINUS_1 mod be_nat SECP256K1_FIELD_PRIME = 1)"
  by (auto simp: fe_is_quad_def mpi_exp_mod_power)

lemma blind_switch_Some:
  assumes "mweb_blind_switch C k blind value = Some r"
  shows "length r = 32" and "be_nat r < secp_n"
proof -
  from assms obtain t where r: "r = be_bytes 32 (t mod secp_n)"
    by (auto simp: mweb_blind_switch_def Let_def secp_n_def bind_eq_Some_conv split: if_splits)
  then show "length r = 32" "be_nat r < secp_n"
    by (simp_all add: be_nat_be_bytes_small [OF mod_less_256_32])
qed

text \<open>
  A produced signature is \<^verbatim>\<open>R.x || s\<close> with \<^verbatim>\<open>s = e * sk + k\<close>, where the nonce \<^verbatim>\<open>k\<close> is
  negated when the y coordinate of its point is not a square.
\<close>

definition nonce_sign :: "crypto \<Rightarrow> bytes \<Rightarrow> int" where
  "nonce_sign C R =
     (if be_nat (take 32 (drop 33 (pubkey_uncompressed C R)))
           ^ be_nat SECP256K1_HALF_P_MINUS_1 mod be_nat SECP256K1_FIELD_PRIME = 1
      then 1 else - 1)"

lemma schnorr_steps_Some:
  assumes "schnorr_steps C q sk msg = Some sig" and "seckey_laws C"
  obtains R pk s where "pubkey_create C (mbedtls_sha256 C (sk @ msg)) = Some R"
    and "pubkey_create C sk = Some pk"
    and "sig = take 32 (drop 1 (pubkey_uncompressed C R)) @ s" and "length s = 32"
    and "int (be_nat s) = (int (be_nat (mbedtls_sha256 C
           (take 32 (drop 1 (pubkey_uncompressed C R)) @ pubkey_compressed C pk @ msg))) * int (be_nat sk)
         + nonce_sign C R * int (be_nat (mbedtls_sha256 C (sk @ msg)))) mod int secp_n"
proof -
  let ?k = "mbedtls_sha256 C (sk @ msg)"
  from assms(1) obtain R qd k' pk s0 s where R: "pubkey_create C ?k = Some R"
    and qd: "fe_is_quad q (take 32 (drop 33 (pubkey_uncompressed C R))) = Some qd"
    and k': "(if qd then Some ?k else seckey_negate C ?k) = Some k'"
    and pk: "pubkey_create C sk = Some pk"
    and s0: "seckey_tweak_mul C (sha256_three C (take 32 (drop 1 (pubkey_uncompressed C R)))
               (pubkey_compressed C pk) msg) sk = Some s0"
    and s: "seckey_tweak_add C s0 k' = Some s"
    and sig: "sig = take 32 (drop 1 (pubkey_uncompressed C R)) @ s"
    by (auto simp: schnorr_steps_def Let_def sha256_two_def bind_eq_Some_conv)
  let ?e = "be_nat (mbedtls_sha256 C
    (take 32 (drop 1 (pubkey_uncompressed C R)) @ pubkey_compressed C pk @ msg))"
  have len: "length s = 32" and vs: "be_nat s = (be_nat s0 + be_nat k') mod secp_n"
    using assms(2) s unfolding seckey_laws_def by blast+
  have vs0: "be_nat s0 = ?e * be_nat sk mod secp_n"
    using assms(2) s0 unfolding seckey_laws_def sha256_three_def by blast
  have vk: "int (be_nat k') mod int secp_n = nonce_sign C R * int (be_nat ?k) mod int secp_n"
  proof (cases qd)
    case True
    with k' qd show ?thesis by (simp add: nonce_sign_def fe_is_quad_Some_iff)
  next
    case False
    with k' have "(be_nat k' + be_nat ?k) mod secp_n = 0"
      using assms(2) unfolding seckey_laws_def by fastforce
    then have "secp_n dvd be_nat k' + be_nat ?k" by (rule mod_0_imp_dvd)
    then have "int secp_n dvd int (be_nat k' + be_nat ?k)" by (simp only: of_nat_dvd_iff)
    moreover have "int (be_nat k' + be_nat ?k) = int (be_nat k') - - int (be_nat ?k)" by simp
    ultimately have "int (be_nat k') mod int secp_n = (- int (be_nat ?k)) mod int secp_n"
      by (simp only: mod_eq_dvd_iff)
    with False qd show ?thesis by (auto simp: nonce_sign_def fe_is_quad_Some_iff)
  qed
  have "int (be_nat s) = (int ?e * int (be_nat sk) + int (be_nat k')) mod int secp_n"
    unfolding vs vs0 by (simp add: zmod_int mod_add_left_eq)
  also have "\<dots> = (int ?e * int (be_nat sk) + nonce_sign C R * int (be_nat ?k)) mod int secp_n"
    using vk by (metis mod_add_right_eq)
  finally show thesis by (rule that [OF R pk sig len])
qed

lemma mweb_schnorr_sign_cases:
  assumes "mweb_schnorr_sign C q sk msg buf = (b, sig)"
  shows "b \<longleftrightarrow> secp_ctx C \<and> schnorr_steps C q sk msg = Some sig"
  using assms by (auto simp: mweb_schnorr_sign_def split: if_splits option.splits)

section \<open>A library that meets the laws\<close>

text \<open>
  Points written as their discrete logarithm to the generator. It is no cryptography,
  but it satisfies the laws above, every call succeeds on it, and it evaluates: the
  properties that assume something of the libraries are applied to it.
\<close>

definition one32 :: bytes where
  "one32 = replicate 31 0 @ [1]"

definition scalar_bytes :: "nat \<Rightarrow> bytes" where
  "scalar_bytes v = be_bytes 32 (v mod secp_n)"

definition fit32 :: "bytes \<Rightarrow> bytes" where
  "fit32 P = take 32 (P @ replicate 32 0)"

definition log_crypto :: crypto where
  "log_crypto = \<lparr>
     secp_ctx = True,
     blake3 = (\<lambda>_. one32),
     mbedtls_sha256 = (\<lambda>_. one32),
     wally_sha256 = (\<lambda>_. Some one32),
     pubkey_create = (\<lambda>s. Some (scalar_bytes (be_nat s))),
     pubkey_parse = (\<lambda>p. if length p = 33 then Some (tl p) else None),
     pubkey_compressed = (\<lambda>P. 2 # fit32 P),
     pubkey_uncompressed = (\<lambda>P. 4 # fit32 P @ one32),
     pubkey_tweak_mul = (\<lambda>P a. Some (scalar_bytes (be_nat P * be_nat a))),
     pubkey_combine = (\<lambda>Ps. Some (scalar_bytes (sum_list (map be_nat Ps)))),
     seckey_tweak_add = (\<lambda>s t. Some (scalar_bytes (be_nat s + be_nat t))),
     seckey_tweak_mul = (\<lambda>s t. Some (scalar_bytes (be_nat s * be_nat t))),
     seckey_negate = (\<lambda>s. Some (scalar_bytes (secp_n - be_nat s mod secp_n))),
     pedersen_commit = (\<lambda>b v. Some (scalar_bytes (be_nat b + 7 * unat v))),
     pedersen_serialize = (\<lambda>c. 8 # fit32 c),
     wally_public_key = (\<lambda>s. Some (2 # scalar_bytes (be_nat s)))\<rparr>"

lemma length_one32 [simp]: "length one32 = 32" and length_scalar_bytes [simp]: "length (scalar_bytes v) = 32"
  by (simp_all add: one32_def scalar_bytes_def)

lemma fit32_id [simp]: "length P = 32 \<Longrightarrow> fit32 P = P" and length_fit32 [simp]: "length (fit32 P) = 32"
  by (simp_all add: fit32_def)

lemma log_crypto_size_laws: "size_laws log_crypto"
  by (simp add: size_laws_def log_crypto_def)

lemma be_nat_one32 [simp]: "be_nat one32 = 1"
  by (simp add: one32_def be_nat_append be_nat_Cons)

lemma be_nat_scalar_bytes [simp]: "be_nat (scalar_bytes v) = v mod secp_n"
  by (simp add: scalar_bytes_def be_nat_be_bytes_small [OF mod_less_256_32])

lemma valid_one32 [simp]: "mweb_validate_scalar one32"
  by (simp add: validate_scalar_iff secp_n_value)

text \<open>Every call succeeds, and the keys, commitments and signatures have their sizes.\<close>

definition crypto_total :: "crypto \<Rightarrow> bool" where
  "crypto_total C \<longleftrightarrow> secp_ctx C
     \<and> (\<forall>a. \<exists>b. wally_sha256 C a = Some b)
     \<and> (\<forall>a. \<exists>b. pubkey_create C a = Some b)
     \<and> (\<forall>a. length a = 33 \<longrightarrow> (\<exists>b. pubkey_parse C a = Some b))
     \<and> (\<forall>a b. \<exists>c. pubkey_tweak_mul C a b = Some c)
     \<and> (\<forall>a. \<exists>c. pubkey_combine C a = Some c)
     \<and> (\<forall>a b. \<exists>c. seckey_tweak_add C a b = Some c)
     \<and> (\<forall>a b. \<exists>c. seckey_tweak_mul C a b = Some c)
     \<and> (\<forall>a. \<exists>c. seckey_negate C a = Some c)
     \<and> (\<forall>a b. \<exists>c. pedersen_commit C a b = Some c)
     \<and> (\<forall>a. \<exists>c. wally_public_key C a = Some c)"

lemma log_crypto_total: "crypto_total log_crypto"
  by (simp add: crypto_total_def log_crypto_def)

lemma log_crypto_seckey_laws: "seckey_laws log_crypto"
proof -
  have "((secp_n - x mod secp_n) mod secp_n + x) mod secp_n = 0" for x
  proof -
    have "((secp_n - x mod secp_n) mod secp_n + x) mod secp_n = (secp_n - x mod secp_n + x mod secp_n) mod secp_n"
      by (simp only: mod_add_left_eq mod_add_right_eq)
    also have "secp_n - x mod secp_n + x mod secp_n = secp_n"
      by (rule le_add_diff_inverse2) (simp add: less_imp_le)
    finally show ?thesis by simp
  qed
  then show ?thesis by (auto simp: seckey_laws_def log_crypto_def)
qed

lemma log_crypto_point_laws: "point_laws log_crypto"
proof -
  have "scalar_bytes (a * b mod secp_n * c) = scalar_bytes (a * c mod secp_n * b)" for a b c
    unfolding scalar_bytes_def by (simp only: mod_mult_left_eq mult.assoc mult.commute [of b c])
  then show ?thesis by (simp add: point_laws_def log_crypto_def)
qed

lemma schnorr_total:
  assumes "crypto_total C"
  shows "\<exists>sig. mweb_schnorr_sign C True sk msg buf = (True, sig)"
proof -
  from assms have t: "\<exists>b. pubkey_create C a = Some b" "\<exists>b. seckey_negate C a = Some b"
    "\<exists>c. seckey_tweak_add C a b = Some c" "\<exists>c. seckey_tweak_mul C a b = Some c" for a b
    unfolding crypto_total_def by blast+
  have q: "fe_is_quad True y \<noteq> None" for y by (simp add: fe_is_quad_def)
  have "schnorr_steps C True sk msg \<noteq> None"
    using t q by (auto simp: schnorr_steps_def Let_def split: bind_splits) (metis option.distinct(1))+
  then have "\<exists>sig. schnorr_steps C True sk msg = Some sig" by blast
  with assms show ?thesis by (auto simp: mweb_schnorr_sign_def crypto_total_def)
qed

end
