(* ===== verification/Mweb_Wire.thy ===== *)
theory Mweb_Wire
  imports Jade_Prelude
begin

text \<open>
  The integer encodings of the MWEB wire format and the pegout parser:
  \<^verbatim>\<open>mweb_write_compact_size\<close>, \<^verbatim>\<open>write_mweb_varint\<close> and
  \<^verbatim>\<open>parse_pegout_value\<close> of \<^verbatim>\<open>src/main/mweb/mweb_kernel.c\<close>, their copies
  \<^verbatim>\<open>write_varint\<close> of \<^verbatim>\<open>mweb_sign.c\<close> and \<^verbatim>\<open>atomic_parse_pegout\<close> of
  \<^verbatim>\<open>mweb_atomic_sign.c\<close>, and the two checked additions. The locale
  \<^verbatim>\<open>prefix_codec\<close> is the contract of a self-delimiting encoding; it is
  interpreted on every encoder, with a reader of the format as the witness.
  The locale \<^verbatim>\<open>checked_adder\<close> is the contract of the additions.
\<close>

section \<open>Encoders\<close>

definition mweb_write_compact_size :: "u64 \<Rightarrow> bytes" where
  "mweb_write_compact_size val =
     (if val < 0xfd then [ucast val]
      else if val \<le> 0xffff then [0xfd, ucast val, ucast (drop_bit 8 val)]
      else if val \<le> 0xffffffff then
        [0xfe, ucast val, ucast (drop_bit 8 val), ucast (drop_bit 16 val), ucast (drop_bit 24 val)]
      else 0xff # map (\<lambda>i. ucast (drop_bit (i * 8) val)) [0..<8])"

text \<open>The copy in \<^verbatim>\<open>mweb_sign.c\<close>.\<close>

definition write_varint :: "u64 \<Rightarrow> bytes" where
  "write_varint val =
     (if val < 0xfd then [ucast val]
      else if val \<le> 0xffff then [0xfd, ucast val, ucast (drop_bit 8 val)]
      else if val \<le> 0xffffffff then
        [0xfe, ucast val, ucast (drop_bit 8 val), ucast (drop_bit 16 val), ucast (drop_bit 24 val)]
      else 0xff # map (\<lambda>i. ucast (drop_bit (i * 8) val)) [0..<8])"

lemma varint_next: "0x80 \<le> (n :: u64) \<Longrightarrow> unat (drop_bit 7 n - 1) = unat n div 128 - 1"
proof -
  assume "0x80 \<le> n"
  then have n: "128 \<le> unat n" by (simp add: word_le_nat_alt)
  have d: "unat (drop_bit 7 n) = unat n div 128"
    by (simp add: drop_bit_eq_div unat_div)
  then have "drop_bit 7 n \<noteq> 0" using n by (simp flip: unat_eq_0)
  then show ?thesis by (simp add: unat_minus_one d)
qed

lemma varint_next_less: "0x80 \<le> (n :: u64) \<Longrightarrow> unat (drop_bit 7 n - 1) < unat n"
  using varint_next [of n] by (simp add: word_le_nat_alt)

text \<open>
  The scratch array of \<^verbatim>\<open>write_mweb_varint\<close>, from position \<^verbatim>\<open>i\<close> on: seven bits
  per byte, least significant first, every byte but the first marked.
\<close>

function varint_tmp :: "nat \<Rightarrow> u64 \<Rightarrow> bytes" where
  "varint_tmp i n =
     (let b = (ucast (n AND 0x7f) :: byte)
      in (if 0 < i then b OR 0x80 else b) #
         (if n < 0x80 then [] else varint_tmp (Suc i) (drop_bit 7 n - 1)))"
  by pat_completeness auto
termination
  by (relation "measure (\<lambda>(i, n). unat n)")
    (auto simp: varint_next_less not_less)

declare varint_tmp.simps [simp del]

definition write_mweb_varint :: "u64 \<Rightarrow> bytes" where
  "write_mweb_varint n = rev (varint_tmp 0 n)"

section \<open>Pegout values\<close>

text \<open>
  A pegout map value is \<^verbatim>\<open>le64(amount) || compact_size(script_len) || script\<close>.
  The parser returns the amount and a pointer and length of the script inside the
  value, here its offset. \<^verbatim>\<open>size_t\<close> is 32 bits wide on the ESP32; the bound
  \<^verbatim>\<open>hdr + slen\<close> is computed in 64 bits and wraps there.
\<close>

definition read_le :: "nat \<Rightarrow> bytes \<Rightarrow> u64" where
  "read_le n p = fold (\<lambda>i acc. acc OR push_bit (i * 8) (ucast (p ! i))) [0..<n] 0"

record pegout_view =
  pv_amount :: u64
  pv_script_off :: nat
  pv_script_len :: u32

definition script_header :: "bytes \<Rightarrow> (nat \<times> u64) option" where
  "script_header p =
     (let remaining = length p in
      if p ! 0 < 0xfd then Some (1, ucast (p ! 0))
      else if p ! 0 = 0xfd \<and> remaining \<ge> 3 then Some (3, read_le 2 (drop 1 p))
      else if p ! 0 = 0xfe \<and> remaining \<ge> 5 then Some (5, read_le 4 (drop 1 p))
      else if p ! 0 = 0xff \<and> remaining \<ge> 9 then Some (9, read_le 8 (drop 1 p))
      else None)"

definition parse_pegout_value :: "bytes \<Rightarrow> pegout_view option" where
  "parse_pegout_value val =
     (if length val < 9 then None
      else let amount = read_le 8 val; p = drop 8 val; remaining = length val - 8 in
        case script_header p of
          None \<Rightarrow> None
        | Some (hdr, slen) \<Rightarrow>
            if (of_nat hdr + slen :: u64) > of_nat remaining then None
            else Some \<lparr>pv_amount = amount, pv_script_off = 8 + hdr, pv_script_len = ucast slen\<rparr>)"

definition atomic_parse_pegout :: "bytes \<Rightarrow> pegout_view option" where
  "atomic_parse_pegout val =
     (if length val < 9 then None
      else let amount = read_le 8 val; p = drop 8 val; remaining = length val - 8 in
        case script_header p of
          None \<Rightarrow> None
        | Some (hdr, slen) \<Rightarrow>
            if (of_nat hdr + slen :: u64) > of_nat remaining then None
            else Some \<lparr>pv_amount = amount, pv_script_off = 8 + hdr, pv_script_len = ucast slen\<rparr>)"

text \<open>Reading the script through the pointer: \<^verbatim>\<open>None\<close> when it runs past the value.\<close>

definition pegout_script :: "bytes \<Rightarrow> pegout_view \<Rightarrow> bytes option" where
  "pegout_script val v =
     (if pv_script_off v + unat (pv_script_len v) \<le> length val
      then Some (take (unat (pv_script_len v)) (drop (pv_script_off v) val)) else None)"

section \<open>Checked additions\<close>

definition u64_add_checked :: "u64 \<Rightarrow> u64 \<Rightarrow> u64 option" where
  "u64_add_checked a b = (let out = a + b in if out \<ge> a then Some out else None)"

definition atomic_u64_add :: "u64 \<Rightarrow> u64 \<Rightarrow> u64 option" where
  "atomic_u64_add a b = (if a > - 1 - b then None else Some (a + b))"

section \<open>Lemmas\<close>

subsection \<open>Little-endian reads\<close>

lemma bit_read_le:
  assumes "n \<le> length p"
  shows "bit (read_le n p) k \<longleftrightarrow> k < 64 \<and> k div 8 < n \<and> bit (p ! (k div 8)) (k mod 8)"
  using assms
proof (induction n)
  case 0
  then show ?case by (simp add: read_le_def)
next
  case (Suc n)
  have step: "read_le (Suc n) p = read_le n p OR push_bit (n * 8) (ucast (p ! n))"
    by (simp add: read_le_def)
  have top: "bit (push_bit (n * 8) (ucast (p ! n) :: u64)) k
    \<longleftrightarrow> k < 64 \<and> k div 8 = n \<and> bit (p ! n) (k mod 8)"
  proof (cases "k div 8 = n")
    case True
    then have "k = n * 8 + k mod 8" by presburger
    then have "k - n * 8 = k mod 8" "n * 8 \<le> k" by linarith+
    with True show ?thesis
      using bit_imp_le_length [of "p ! n" "k mod 8"] by (auto simp: bit_push_bit_iff bit_unsigned_iff)
  next
    case False
    then consider "k < n * 8" | "n * 8 + 8 \<le> k" by linarith
    then show ?thesis
    proof cases
      case 1
      with False show ?thesis by (simp add: bit_push_bit_iff)
    next
      case 2
      then have "\<not> bit (p ! n) (k - n * 8)" using bit_imp_le_length [of "p ! n" "k - n * 8"] by auto
      with False show ?thesis by (simp add: bit_push_bit_iff bit_unsigned_iff)
    qed
  qed
  from Suc show ?case by (auto simp: step top bit_or_iff less_Suc_eq)
qed

lemma read_le_encode:
  assumes "8 * n \<le> 64" and "\<And>k. 8 * n \<le> k \<Longrightarrow> \<not> bit v k"
  shows "read_le n (map (\<lambda>i. ucast (drop_bit (i * 8) v)) [0..<n] @ rest) = v"
proof (rule bit_eqI)
  fix k
  show "bit (read_le n (map (\<lambda>i. ucast (drop_bit (i * 8) v)) [0..<n] @ rest)) k = bit v k"
  proof (cases "k div 8 < n")
    case True
    then have "k < 64" using assms(1) by linarith
    with True show ?thesis by (simp add: bit_read_le nth_append bit_simps)
  next
    case False
    then have "8 * n \<le> k" by linarith
    with False assms(2) show ?thesis by (simp add: bit_read_le)
  qed
qed

lemma read_le_8: "read_le 8 (map (\<lambda>i. ucast (drop_bit (i * 8) v)) [0..<8] @ rest) = v"
  by (rule read_le_encode) (auto dest: bit_imp_le_length)

lemma read_le_append: "n \<le> length p \<Longrightarrow> read_le n (p @ rest) = read_le n p"
  by (rule bit_eqI) (auto simp: bit_read_le nth_append)

lemma not_bit_small:
  fixes v :: "'a::len word"
  assumes "unat v < 2 ^ m" and "m \<le> k"
  shows "\<not> bit v k"
proof
  assume "bit v k"
  then have "bit (unat v) k" by (simp add: bit_unsigned_iff)
  then have "2 ^ k \<le> unat v" by (metis bit_iff_odd div_less even_zero not_le)
  moreover have "(2::nat) ^ m \<le> 2 ^ k" using assms(2) by simp
  ultimately show False using assms(1) by linarith
qed

subsection \<open>Self-delimiting encodings\<close>

text \<open>
  A reader undoes the encoder and hands back what follows, so a string of encoded
  values splits in one way only.
\<close>

locale prefix_codec =
  fixes enc :: "'a \<Rightarrow> bytes" and dec :: "bytes \<Rightarrow> ('a \<times> bytes) option"
  assumes dec_enc: "dec (enc x @ rest) = Some (x, rest)"
begin

lemma enc_append_eq: "enc x @ r = enc y @ s \<longleftrightarrow> x = y \<and> r = s"
  by (metis dec_enc option.inject prod.inject)

lemma enc_inj: "enc x = enc y \<longleftrightarrow> x = y"
  using enc_append_eq [of x "[]" y "[]"] by simp

lemma enc_concat_eq:
  "length xs = length ys \<Longrightarrow> concat (map enc xs) @ r = concat (map enc ys) @ s \<longleftrightarrow> xs = ys \<and> r = s"
  by (induction xs ys arbitrary: r s rule: list_induct2) (auto simp: enc_append_eq)

end

definition compact_read :: "bytes \<Rightarrow> (u64 \<times> bytes) option" where
  "compact_read p = (if p = [] then None else
     case script_header p of None \<Rightarrow> None | Some (hdr, v) \<Rightarrow> Some (v, drop hdr p))"

lemma ucast_ucast_byte: "unat v < 256 \<Longrightarrow> (ucast (ucast (v :: u64) :: byte) :: u64) = v"
  by (rule word_eqI_unat) (simp add: unsigned_ucast_eq take_bit_eq_mod unat_mod)

lemma script_header_compact:
  "script_header (mweb_write_compact_size v @ rest) = Some (length (mweb_write_compact_size v), v)"
proof -
  consider "v < 0xfd" | "\<not> v < 0xfd" "v \<le> 0xffff" | "\<not> v < 0xfd" "\<not> v \<le> 0xffff" "v \<le> 0xffffffff"
    | "\<not> v < 0xfd" "\<not> v \<le> 0xffff" "\<not> v \<le> 0xffffffff"
    unfolding word_less_nat_alt word_le_nat_alt by fastforce
  then show ?thesis
  proof cases
    case 1
    then have "unat v < 253" by (simp add: word_less_nat_alt)
    then have "(ucast v :: byte) < 0xfd"
      by (simp add: word_less_nat_alt unsigned_ucast_eq take_bit_eq_mod)
    with 1 \<open>unat v < 253\<close> show ?thesis
      by (simp add: mweb_write_compact_size_def script_header_def Let_def ucast_ucast_byte)
  next
    case 2
    then have "unat v < 2 ^ 16" by (simp add: word_le_nat_alt)
    then have "read_le 2 (map (\<lambda>i. ucast (drop_bit (i * 8) v)) [0..<2] @ rest) = v"
      using not_bit_small [of v 16] by (intro read_le_encode) auto
    with 2 show ?thesis
      by (simp add: mweb_write_compact_size_def script_header_def Let_def upt_rec numeral_2_eq_2)
  next
    case 3
    then have "unat v < 2 ^ 32" by (simp add: word_le_nat_alt)
    then have "read_le 4 (map (\<lambda>i. ucast (drop_bit (i * 8) v)) [0..<4] @ rest) = v"
      using not_bit_small [of v 32] by (intro read_le_encode) auto
    with 3 show ?thesis
      by (simp add: mweb_write_compact_size_def script_header_def Let_def upt_rec)
  next
    case 4
    then show ?thesis
      using read_le_8 [of v rest]
      by (auto simp: mweb_write_compact_size_def script_header_def Let_def)
  qed
qed

lemma compact_nonempty [simp]: "mweb_write_compact_size v \<noteq> []"
  by (simp add: mweb_write_compact_size_def)

lemma compact_length: "length (mweb_write_compact_size v) \<in> {1, 3, 5, 9}"
  by (simp add: mweb_write_compact_size_def)

interpretation compact: prefix_codec mweb_write_compact_size compact_read
  by unfold_locales (simp add: compact_read_def script_header_compact)

lemma write_varint_eq: "write_varint v = mweb_write_compact_size v"
  by (simp add: write_varint_def mweb_write_compact_size_def)

text \<open>The reader of the MWEB varint: big-endian groups of seven bits.\<close>

fun varint_read :: "nat \<Rightarrow> bytes \<Rightarrow> (u64 \<times> bytes) option" where
  "varint_read acc [] = None"
| "varint_read acc (b # bs) =
     (let n = acc * 128 + unat b mod 128
      in if bit b 7 then varint_read (n + 1) bs else Some (of_nat n, bs))"

lemma varint_byte:
  fixes n :: u64
  defines "b \<equiv> ucast (n AND 0x7f) :: byte"
  shows "unat b mod 128 = unat n mod 128" and "\<not> bit b 7"
    and "unat (b OR 0x80) mod 128 = unat n mod 128" and "bit (b OR 0x80) 7"
proof -
  have m: "n AND 0x7f = take_bit 7 n" by (simp add: take_bit_eq_mask mask_eq_exp_minus_1)
  have low: "unat (take_bit 7 x) = unat x mod 128" for x :: "'a::len word"
    by (simp only: unsigned_take_bit_eq) (simp add: take_bit_eq_mod)
  have b: "b = take_bit 7 (ucast n)"
    by (rule bit_eqI) (auto simp: b_def m bit_simps)
  have "unat (ucast n :: byte) = unat n mod 256"
    by (simp add: unsigned_ucast_eq take_bit_eq_mod unat_mod)
  then have u: "unat b = unat n mod 128"
    by (simp add: b low mod_mod_cancel)
  then show "unat b mod 128 = unat n mod 128" by simp
  show "\<not> bit b 7" by (simp add: b bit_take_bit_iff)
  have "take_bit 7 (b OR 0x80) = b" by (simp add: b)
  then have "unat (b OR 0x80) mod 128 = unat b"
    using low [of "b OR 0x80"] by simp
  with u show "unat (b OR 0x80) mod 128 = unat n mod 128" by simp
  show "bit (b OR 0x80) 7" by (simp add: bit_or_iff)
qed

lemma varint_tmp_Suc: "varint_tmp (Suc i) n = varint_tmp (Suc 0) n"
proof (induction "unat n" arbitrary: i n rule: less_induct)
  case less
  show ?case
  proof (cases "n < 0x80")
    case True
    then show ?thesis by (simp add: varint_tmp.simps [of "Suc i" n] varint_tmp.simps [of "Suc 0" n])
  next
    case False
    then have "unat (drop_bit 7 n - 1) < unat n" by (simp add: varint_next_less not_less)
    with less [of "drop_bit 7 n - 1" "Suc i"] less [of "drop_bit 7 n - 1" "Suc 0"] False show ?thesis
      by (simp add: varint_tmp.simps [of "Suc i" n] varint_tmp.simps [of "Suc 0" n])
  qed
qed

lemma varint_read_marked: "varint_read 0 (rev (varint_tmp (Suc 0) n) @ rest) = varint_read (unat n + 1) rest"
proof (induction "unat n" arbitrary: n rest rule: less_induct)
  case less
  define b :: byte where "b = ucast (n AND 0x7f) OR 0x80"
  have b: "bit b 7" "unat b mod 128 = unat n mod 128"
    unfolding b_def by (rule varint_byte(4)) (rule varint_byte(3))
  show ?case
  proof (cases "n < 0x80")
    case True
    then have "unat n < 128" by (simp add: word_less_nat_alt)
    with True b show ?thesis by (simp add: varint_tmp.simps [of "Suc 0" n] b_def [symmetric] Let_def)
  next
    case False
    let ?m = "drop_bit 7 n - 1"
    from False have ge: "0x80 \<le> n" by simp
    then have m: "unat ?m + 1 = unat n div 128"
      using varint_next [of n] by (simp add: word_le_nat_alt)
    have "varint_tmp (Suc 0) n = b # varint_tmp (Suc 0) ?m"
      using False varint_tmp_Suc [of "Suc 0" ?m] by (simp add: varint_tmp.simps [of "Suc 0" n] b_def Let_def)
    then have "varint_read 0 (rev (varint_tmp (Suc 0) n) @ rest) = varint_read (unat ?m + 1) (b # rest)"
      using less [OF varint_next_less [OF ge], of "b # rest"] by (simp del: varint_read.simps)
    then have "varint_read 0 (rev (varint_tmp (Suc 0) n) @ rest) = varint_read (unat n div 128) (b # rest)"
      by (simp only: m)
    then show ?thesis using b by (simp add: Let_def)
  qed
qed

lemma varint_read_write: "varint_read 0 (write_mweb_varint n @ rest) = Some (n, rest)"
proof -
  define b :: byte where "b = ucast (n AND 0x7f)"
  have b: "\<not> bit b 7" "unat b mod 128 = unat n mod 128"
    unfolding b_def by (rule varint_byte(2)) (rule varint_byte(1))
  show ?thesis
  proof (cases "n < 0x80")
    case True
    then have "unat n < 128" by (simp add: word_less_nat_alt)
    with True b show ?thesis
      by (simp add: write_mweb_varint_def varint_tmp.simps [of 0 n] b_def [symmetric] Let_def)
  next
    case False
    let ?m = "drop_bit 7 n - 1"
    from False have m: "unat ?m + 1 = unat n div 128"
      using varint_next [of n] by (simp add: word_le_nat_alt not_less)
    have "write_mweb_varint n = rev (varint_tmp (Suc 0) ?m) @ [b]"
      using False by (simp add: write_mweb_varint_def varint_tmp.simps [of 0 n] b_def Let_def)
    then have "varint_read 0 (write_mweb_varint n @ rest) = varint_read (unat ?m + 1) (b # rest)"
      using varint_read_marked [of ?m "b # rest"] by (simp del: varint_read.simps)
    then have "varint_read 0 (write_mweb_varint n @ rest) = varint_read (unat n div 128) (b # rest)"
      by (simp only: m)
    then show ?thesis using b by (simp add: Let_def)
  qed
qed

lemma varint_nonempty [simp]: "write_mweb_varint n \<noteq> []"
  by (simp add: write_mweb_varint_def varint_tmp.simps [of 0 n] Let_def)

interpretation varint: prefix_codec write_mweb_varint "varint_read 0"
  by unfold_locales (rule varint_read_write)

lemma length_varint_tmp: "unat n < 128 ^ k \<Longrightarrow> length (varint_tmp i n) \<le> max 1 k"
proof (induction k arbitrary: i n)
  case 0
  then show ?case by (simp add: varint_tmp.simps [of i n] Let_def word_less_nat_alt)
next
  case (Suc k)
  show ?case
  proof (cases "n < 0x80")
    case True
    then show ?thesis by (simp add: varint_tmp.simps [of i n] Let_def)
  next
    case False
    then have "unat (drop_bit 7 n - 1) = unat n div 128 - 1" by (simp add: varint_next not_less)
    moreover have "128 \<le> unat n" using False by (simp add: word_less_nat_alt)
    moreover from Suc.prems have "unat n div 128 < 128 ^ k" by (simp add: less_mult_imp_div_less mult.commute)
    ultimately have lt: "unat (drop_bit 7 n - 1) < 128 ^ k" and pos: "k \<noteq> 0" by (auto intro: ccontr)
    from Suc.IH [OF lt, of "Suc i"] pos False show ?thesis
      by (simp add: varint_tmp.simps [of i n] Let_def)
  qed
qed

section \<open>Fixed-width integers\<close>

definition le64 :: "u64 \<Rightarrow> bytes" where
  "le64 v = map (\<lambda>i. ucast (drop_bit (i * 8) v)) [0..<8]"

definition le64_read :: "bytes \<Rightarrow> (u64 \<times> bytes) option" where
  "le64_read p = (if length p < 8 then None else Some (read_le 8 p, drop 8 p))"

lemma length_le64 [simp]: "length (le64 v) = 8"
  by (simp add: le64_def)

interpretation le64: prefix_codec le64 le64_read
  by unfold_locales (simp add: le64_read_def le64_def read_le_8 [simplified])

section \<open>Checked sums\<close>

locale checked_adder =
  fixes add :: "u64 \<Rightarrow> u64 \<Rightarrow> u64 option"
  assumes add_Some_iff: "add a b = Some c \<longleftrightarrow> unat a + unat b < 2 ^ 64 \<and> unat c = unat a + unat b"
begin

lemma add_None_iff: "add a b = None \<longleftrightarrow> 2 ^ 64 \<le> unat a + unat b"
proof -
  have "add a b = None \<longleftrightarrow> \<not> (\<exists>c. add a b = Some c)" by auto
  also have "\<dots> \<longleftrightarrow> \<not> unat a + unat b < 2 ^ 64"
  proof -
    have "unat (of_nat k :: u64) = k" if "k < 2 ^ 64" for k
      using that by (simp add: unat_of_nat)
    then show ?thesis by (auto simp: add_Some_iff)
  qed
  finally show ?thesis by (simp only: not_less)
qed

text \<open>A summing loop succeeds exactly when the total fits in 64 bits.\<close>

lemma sum_loop_iff:
  "for_opt (\<lambda>_ v acc. add acc v) i vs acc = Some s
    \<longleftrightarrow> unat acc + sum_list (map unat vs) < 2 ^ 64 \<and> unat s = unat acc + sum_list (map unat vs)"
proof (induction vs arbitrary: i acc)
  case Nil
  have "unat acc < 2 ^ 64" using unsigned_less [of acc, where ?'a = nat] by simp
  then show ?case by (auto intro: word_eqI_unat)
next
  case (Cons v vs)
  show ?case
  proof (cases "add acc v")
    case None
    then have "2 ^ 64 \<le> unat acc + unat v" by (simp only: add_None_iff)
    with None show ?thesis by simp
  next
    case (Some acc')
    then have "unat acc' = unat acc + unat v" by (simp add: add_Some_iff)
    with Some Cons.IH [of "Suc i" acc'] show ?thesis by (simp add: add.assoc)
  qed
qed

end

lemma unat_u64_less [simp]: "unat (x :: u64) < 18446744073709551616"
  using unsigned_less [of x, where ?'a = nat] by simp

lemma le_add_mod_iff:
  fixes x y N :: nat
  assumes "x < N" and "y < N"
  shows "x \<le> (x + y) mod N \<longleftrightarrow> x + y < N"
proof (cases "x + y < N")
  case True
  then show ?thesis by simp
next
  case False
  then have "(x + y) mod N = x + y - N" using assms by (simp add: le_mod_geq)
  with False assms show ?thesis by simp
qed

lemma u64_add_iff: "(let s = a + b in if a \<le> s then Some s else None) = Some c
    \<longleftrightarrow> unat a + unat b < 2 ^ 64 \<and> unat c = unat a + unat b" for a b c :: u64
proof -
  have sum: "unat (a + b) = (unat a + unat b) mod 18446744073709551616" by (simp add: unat_word_ariths)
  have le: "a \<le> a + b \<longleftrightarrow> unat a + unat b < 18446744073709551616"
    unfolding word_le_nat_alt sum by (rule le_add_mod_iff) simp_all
  have eq: "unat a + unat b < 18446744073709551616 \<Longrightarrow> unat (a + b) = unat a + unat b"
    by (simp add: sum)
  show ?thesis
  proof (cases "unat a + unat b < 18446744073709551616")
    case True
    then show ?thesis using le eq by (auto simp: Let_def intro: word_eqI_unat)
  next
    case False
    then show ?thesis using le by (simp add: Let_def)
  qed
qed

interpretation kadd: checked_adder u64_add_checked
  by unfold_locales (simp only: u64_add_checked_def u64_add_iff)

lemma atomic_u64_add_eq: "atomic_u64_add a b = u64_add_checked a b"
proof -
  have "unat (- 1 - b) = 18446744073709551615 - unat b"
    using unat_sub [of b "- 1"] by (simp add: unsigned_minus_1_eq_mask mask_eq_exp_minus_1)
  moreover have "M - 1 - y < x \<longleftrightarrow> M \<le> x + y" if "y < M" for x y M :: nat
    using that by linarith
  from this [of "unat b" "2 ^ 64" "unat a"]
  have "18446744073709551615 - unat b < unat a \<longleftrightarrow> 2 ^ 64 \<le> unat a + unat b" by simp
  ultimately have "a > - 1 - b \<longleftrightarrow> \<not> unat a + unat b < 2 ^ 64"
    unfolding word_less_nat_alt by (simp only: not_less)
  moreover have "u64_add_checked a b = Some (a + b) \<or> u64_add_checked a b = None"
    by (simp add: u64_add_checked_def Let_def)
  ultimately show ?thesis
    using kadd.add_None_iff [of a b] by (auto simp: atomic_u64_add_def)
qed

interpretation aadd: checked_adder atomic_u64_add
  by unfold_locales (simp only: atomic_u64_add_eq kadd.add_Some_iff)

section \<open>The pegout parser\<close>

lemma read_le_less:
  assumes "n \<le> length p" and "8 * n \<le> m"
  shows "unat (read_le n p) < 2 ^ m"
proof -
  have "take_bit m (read_le n p) = read_le n p"
    using assms by (intro bit_eqI) (auto simp: bit_take_bit_iff bit_read_le)
  then have "unat (read_le n p) = take_bit m (unat (read_le n p))"
    by (metis unsigned_take_bit_eq)
  then show ?thesis by (metis take_bit_nat_less_exp)
qed

lemma script_header_Some:
  assumes "script_header p = Some (hdr, slen)" and "p \<noteq> []"
  shows "hdr \<in> {1, 3, 5, 9}" and "hdr \<le> length p"
    and "hdr \<noteq> 9 \<Longrightarrow> unat slen < 2 ^ 32"
    and "hdr = 9 \<longleftrightarrow> p ! 0 = 0xff" and "hdr = 9 \<Longrightarrow> slen = read_le 8 (drop 1 p)"
proof -
  have "unat (ucast (p ! 0) :: u64) < 2 ^ 32" using byte_less_256 [of "p ! 0"]
    by (simp add: unsigned_ucast_eq take_bit_eq_mod)
      (rule le_less_trans [OF mod_less_eq_dividend less_trans [of _ 256]], simp_all)
  moreover have "3 \<le> length p \<Longrightarrow> unat (read_le 2 (drop 1 p)) < 2 ^ 32"
    "5 \<le> length p \<Longrightarrow> unat (read_le 4 (drop 1 p)) < 2 ^ 32"
    using read_le_less [of 2 "drop 1 p" 32] read_le_less [of 4 "drop 1 p" 32] by simp_all
  ultimately show "hdr \<in> {1, 3, 5, 9}" "hdr \<le> length p" "hdr \<noteq> 9 \<Longrightarrow> unat slen < 2 ^ 32"
    "hdr = 9 \<longleftrightarrow> p ! 0 = 0xff" "hdr = 9 \<Longrightarrow> slen = read_le 8 (drop 1 p)"
    using assms by (auto simp: script_header_def Let_def Suc_le_eq split: if_splits)
qed

lemma parse_pegout_Some_iff:
  "parse_pegout_value val = Some v \<longleftrightarrow> 9 \<le> length val \<and>
    (\<exists>hdr slen. script_header (drop 8 val) = Some (hdr, slen)
      \<and> (of_nat hdr + slen :: u64) \<le> of_nat (length val - 8)
      \<and> v = \<lparr>pv_amount = read_le 8 val, pv_script_off = 8 + hdr, pv_script_len = ucast slen\<rparr>)"
  by (auto simp: parse_pegout_value_def Let_def not_less split: option.splits)

lemma unat_of_nat_u64: "k < 2 ^ 64 \<Longrightarrow> unat (of_nat k :: u64) = k"
  by (simp add: unat_of_nat)

lemma unat_hdr_add:
  assumes "hdr \<le> 9"
  shows "unat (of_nat hdr + slen :: u64) = (hdr + unat slen) mod 2 ^ 64"
  using assms by (simp add: unat_word_ariths unat_of_nat)

text \<open>Without a wrap of \<^verbatim>\<open>hdr + slen\<close> the parsed script lies inside the value.\<close>

lemma parse_pegout_in_bounds:
  assumes p: "parse_pegout_value val = Some v" and len: "length val < 2 ^ 32"
    and nowrap: "\<not> (val ! 8 = 0xff \<and> 2 ^ 64 - 9 \<le> unat (read_le 8 (drop 9 val)))"
  shows "pv_script_off v + unat (pv_script_len v) \<le> length val"
proof -
  from p obtain hdr slen where h: "script_header (drop 8 val) = Some (hdr, slen)"
    and le: "(of_nat hdr + slen :: u64) \<le> of_nat (length val - 8)"
    and v: "v = \<lparr>pv_amount = read_le 8 val, pv_script_off = 8 + hdr, pv_script_len = ucast slen\<rparr>"
    and l: "9 \<le> length val" by (auto simp: parse_pegout_Some_iff)
  have ne: "drop 8 val \<noteq> []" using l by simp
  note hs = script_header_Some [OF h ne]
  have "hdr + unat slen < 2 ^ 64"
  proof (cases "hdr = 9")
    case True
    with hs(4,5) l nowrap show ?thesis by simp
  next
    case False
    with hs(1,3) show ?thesis by auto
  qed
  moreover have "unat (of_nat (length val - 8) :: u64) = length val - 8"
    using len by (simp add: unat_of_nat)
  ultimately have "hdr + unat slen \<le> length val - 8"
    using le unat_hdr_add [of hdr slen] hs(1) by (auto simp: word_le_nat_alt)
  moreover have "unat (ucast slen :: u32) = unat slen"
    using calculation len by (simp add: unsigned_ucast_eq take_bit_eq_mod unat_mod)
  ultimately show ?thesis using v l by simp
qed

text \<open>With a wrap the parser accepts a script that runs past the value.\<close>

lemma parse_pegout_wrap:
  assumes p: "parse_pegout_value val = Some v" and len: "length val < 2 ^ 32"
    and wrap: "val ! 8 = 0xff" "2 ^ 64 - 9 \<le> unat (read_le 8 (drop 9 val))"
  shows "length val < pv_script_off v + unat (pv_script_len v)"
proof -
  from p obtain hdr slen where h: "script_header (drop 8 val) = Some (hdr, slen)"
    and v: "v = \<lparr>pv_amount = read_le 8 val, pv_script_off = 8 + hdr, pv_script_len = ucast slen\<rparr>"
    and l: "9 \<le> length val" by (auto simp: parse_pegout_Some_iff)
  have ne: "drop 8 val \<noteq> []" using l by simp
  from wrap(1) l script_header_Some [OF h ne] have "hdr = 9" and s: "slen = read_le 8 (drop 9 val)"
    by simp_all
  have "unat (ucast slen :: u32) = unat slen mod 2 ^ 32"
    by (simp add: unsigned_ucast_eq take_bit_eq_mod unat_mod)
  moreover have "2 ^ 32 - 9 \<le> x mod 2 ^ 32" if "2 ^ 64 - 9 \<le> x" "x < 2 ^ 64" for x :: nat
  proof -
    define k where "k = x - (2 ^ 64 - 9)"
    with that have "k < 9" and "x = (4294967287 + k) + 4294967295 * 4294967296" by simp_all
    then have "x mod 4294967296 = (4294967287 + k) mod 4294967296" by (simp only: mod_mult_self1)
    with \<open>k < 9\<close> show ?thesis by simp
  qed
  from this [of "unat slen"] have "2 ^ 32 - 9 \<le> unat slen mod 2 ^ 32" using wrap(2) s by simp
  ultimately show ?thesis using v \<open>hdr = 9\<close> len by simp
qed

text \<open>The value the host builds for a pegout, and what the parser makes of it.\<close>

definition encode_pegout :: "u64 \<Rightarrow> bytes \<Rightarrow> bytes" where
  "encode_pegout amount script =
     le64 amount @ mweb_write_compact_size (of_nat (length script)) @ script"

lemma parse_encode_pegout:
  fixes script :: bytes
  assumes "length script < 2 ^ 32"
  defines "cs \<equiv> mweb_write_compact_size (of_nat (length script))"
  shows "parse_pegout_value (encode_pegout amount script)
    = Some \<lparr>pv_amount = amount, pv_script_off = 8 + length cs, pv_script_len = of_nat (length script)\<rparr>"
proof -
  let ?val = "encode_pegout amount script"
  have val: "?val = le64 amount @ cs @ script" by (simp add: encode_pegout_def cs_def)
  have cs: "1 \<le> length cs" "length cs \<le> 9"
    using compact_length [of "of_nat (length script)"] unfolding cs_def by auto
  have h: "script_header (drop 8 ?val) = Some (length cs, of_nat (length script))"
    by (simp add: val cs_def script_header_compact)
  have u: "unat (of_nat (length script) :: u64) = length script"
    using assms(1) by (simp add: unat_of_nat)
  have "unat (of_nat (length cs) + of_nat (length script) :: u64) = length cs + length script"
    unfolding unat_hdr_add [OF cs(2)] u using assms(1) cs(2) by simp
  moreover have "unat (of_nat (length ?val - 8) :: u64) = length cs + length script"
  proof -
    have "length ?val - 8 = length cs + length script" by (simp add: val)
    then show ?thesis using assms(1) cs(2) by (simp only:) (rule unat_of_nat_u64, simp)
  qed
  ultimately have le: "(of_nat (length cs) + of_nat (length script) :: u64) \<le> of_nat (length ?val - 8)"
    by (simp add: word_le_nat_alt)
  have amount: "read_le 8 ?val = amount"
    unfolding val le64_def by (rule read_le_8)
  have "(ucast (of_nat (length script) :: u64) :: u32) = of_nat (length script)"
    using assms(1) u by (intro word_eqI_unat) (simp add: unsigned_ucast_eq take_bit_eq_mod unat_mod unat_of_nat)
  then show ?thesis
    unfolding parse_pegout_Some_iff using h le amount cs by (auto simp: val)
qed

lemma pegout_script_encode:
  assumes "length script < 2 ^ 32" and "parse_pegout_value (encode_pegout amount script) = Some v"
  shows "pegout_script (encode_pegout amount script) v = Some script"
  using assms parse_encode_pegout [OF assms(1), of amount]
  by (auto simp: pegout_script_def encode_pegout_def unat_of_nat)

lemma atomic_parse_pegout_eq: "atomic_parse_pegout val = parse_pegout_value val"
  by (simp add: atomic_parse_pegout_def parse_pegout_value_def)

section \<open>Properties\<close>

text \<open>The MWEB varint writer is a self-delimiting encoding of 64-bit values: a
  reader of the format returns the value written and leaves exactly the bytes that
  follow, and the encoding fits the 10-byte scratch buffers of its callers.\<close>

theorem write_mweb_varint_roundtrip:
  "varint_read 0 (write_mweb_varint n @ rest) = Some (n, rest) \<and> length (write_mweb_varint n) \<le> 10"
proof -
  have "unat n < 128 ^ 10" using unat_u64_less [of n] by (simp del: unat_u64_less)
  from length_varint_tmp [OF this, of 0] show ?thesis
    by (simp add: varint_read_write) (simp add: write_mweb_varint_def)
qed

text \<open>C38: The compact-size header reader of the pegout parser inverts the compact-size
  writer for every 64-bit value and whatever follows, and the copy of the writer in
  the input signer emits the same bytes.\<close>

theorem compact_size_roundtrip:
  "script_header (mweb_write_compact_size v @ rest) = Some (length (mweb_write_compact_size v), v)
    \<and> write_varint v = mweb_write_compact_size v"
  by (simp add: script_header_compact write_varint_eq)

text \<open>C33: A well-formed pegout value parses to its amount and script: for any script
  shorter than 2^32 bytes both parsers accept \<^verbatim>\<open>le64(amount) || compact_size(len) || script\<close>
  with that amount, and the returned pointer and length delimit exactly the script.\<close>

theorem parse_pegout_roundtrip:
  assumes "length script < 2 ^ 32"
  shows "\<exists>v. parse_pegout_value (encode_pegout amount script) = Some v
    \<and> atomic_parse_pegout (encode_pegout amount script) = Some v
    \<and> pv_amount v = amount \<and> pegout_script (encode_pegout amount script) v = Some script"
  using parse_encode_pegout [OF assms, of amount] pegout_script_encode [OF assms]
  by (simp add: atomic_parse_pegout_eq)

theorem parse_pegout_roundtrip_witness:
  "\<exists>v. parse_pegout_value (encode_pegout 7 [0x51, 0x52]) = Some v
    \<and> atomic_parse_pegout (encode_pegout 7 [0x51, 0x52]) = Some v
    \<and> pv_amount v = 7 \<and> pegout_script (encode_pegout 7 [0x51, 0x52]) v = Some [0x51, 0x52]"
  by (rule parse_pegout_roundtrip) simp

text \<open>C34: When a parsed pegout script lies inside its value. The parser's bound
  \<^verbatim>\<open>hdr + slen > remaining\<close> is computed in 64 bits; an accepted script runs past the
  end of the value exactly when the header byte is 0xff and the 64-bit length is at
  least 2^64 - 9, where the sum wraps. Every other accepted value is in bounds.\<close>

theorem parse_pegout_bounds:
  assumes "parse_pegout_value val = Some v" and "length val < 2 ^ 32"
  shows "pegout_script val v = None
    \<longleftrightarrow> val ! 8 = 0xff \<and> 2 ^ 64 - 9 \<le> unat (read_le 8 (drop 9 val))"
proof (cases "val ! 8 = 0xff \<and> 2 ^ 64 - 9 \<le> unat (read_le 8 (drop 9 val))")
  case True
  then have "length val < pv_script_off v + unat (pv_script_len v)"
    using parse_pegout_wrap [OF assms] by simp
  with True show ?thesis by (simp add: pegout_script_def)
next
  case False
  with parse_pegout_in_bounds [OF assms False] show ?thesis by (auto simp: pegout_script_def)
qed

theorem parse_pegout_bounds_witness:
  "parse_pegout_value [0, 0, 0, 0, 0, 0, 0, 0,
       0xff, 0xff, 0xff, 0xff, 0xff, 0xff, 0xff, 0xff, 0xff]
     = Some \<lparr>pv_amount = 0, pv_script_off = 17, pv_script_len = 0xffffffff\<rparr>
   \<and> pegout_script [0, 0, 0, 0, 0, 0, 0, 0,
       0xff, 0xff, 0xff, 0xff, 0xff, 0xff, 0xff, 0xff, 0xff]
       \<lparr>pv_amount = 0, pv_script_off = 17, pv_script_len = 0xffffffff\<rparr> = None"
proof -
  let ?val = "[0, 0, 0, 0, 0, 0, 0, 0, 0xff, 0xff, 0xff, 0xff, 0xff, 0xff, 0xff, 0xff, 0xff] :: bytes"
  let ?v = "\<lparr>pv_amount = 0, pv_script_off = 17, pv_script_len = 0xffffffff\<rparr>"
  have r: "read_le 8 (drop 9 ?val) = 0xffffffffffffffff"
    by (simp add: read_le_def upt_rec)
  have "read_le 8 ?val = 0" by (simp add: read_le_def upt_rec)
  with r have p: "parse_pegout_value ?val = Some ?v"
    by (simp add: parse_pegout_value_def script_header_def Let_def)
  with r show ?thesis using parse_pegout_bounds [OF p] by simp
qed

end
