(* ===== verification/Mweb_Kernel.thy ===== *)
theory Mweb_Kernel
  imports Mweb_Crypto Mweb_Wire
begin

text \<open>
  \<^verbatim>\<open>src/main/mweb/mweb_kernel.c\<close>: the kernel signature message and the kernel
  signer. A pointer argument is an option. The signer's output structure is the
  record \<^verbatim>\<open>kernel_outs\<close>; the functions return what the caller's structure holds
  afterwards, so that the zeroing on failure is visible. The bignum calls of the
  scalar helpers and of the Schnorr signer fail when an allocation does:
  \<^verbatim>\<open>mok\<close> says, for every place in the function and every round of its loop, whether it
  succeeds. \<^verbatim>\<open>rnd\<close> is what the random generator returns at each draw.
\<close>

section \<open>Feature bits\<close>

definition MWEB_KERNEL_FEE_BIT :: byte where "MWEB_KERNEL_FEE_BIT = 0x01"
definition MWEB_KERNEL_PEGIN_BIT :: byte where "MWEB_KERNEL_PEGIN_BIT = 0x02"
definition MWEB_KERNEL_PEGOUT_BIT :: byte where "MWEB_KERNEL_PEGOUT_BIT = 0x04"
definition MWEB_KERNEL_HEIGHT_LOCK_BIT :: byte where "MWEB_KERNEL_HEIGHT_LOCK_BIT = 0x08"
definition MWEB_KERNEL_STEALTH_EXCESS_BIT :: byte where "MWEB_KERNEL_STEALTH_EXCESS_BIT = 0x10"
definition MWEB_KERNEL_EXTRA_DATA_BIT :: byte where "MWEB_KERNEL_EXTRA_DATA_BIT = 0x20"

definition MWEB_KERNEL_ALL_BITS :: byte where
  "MWEB_KERNEL_ALL_BITS =
     MWEB_KERNEL_FEE_BIT OR MWEB_KERNEL_PEGIN_BIT OR MWEB_KERNEL_PEGOUT_BIT OR
     MWEB_KERNEL_HEIGHT_LOCK_BIT OR MWEB_KERNEL_STEALTH_EXCESS_BIT OR
     MWEB_KERNEL_EXTRA_DATA_BIT"

definition has_bit :: "byte \<Rightarrow> byte \<Rightarrow> bool" where
  "has_bit features b = (features AND b \<noteq> 0)"

section \<open>The kernel message\<close>

text \<open>
  One pegout of the message. A script that runs past its value is read out of
  bounds, which is undefined in C.
\<close>

definition pegout_chunk :: "bytes \<Rightarrow> (unit + bytes) run" where
  "pegout_chunk val =
     seq (need (parse_pegout_value val) ()) (\<lambda>v.
       case pegout_script val v of
         None \<Rightarrow> Undef
       | Some script \<Rightarrow>
           ok (write_mweb_varint (pv_amount v)
               @ mweb_write_compact_size (ucast (pv_script_len v)) @ script))"

definition opt_varint :: "u64 option \<Rightarrow> bytes" where
  "opt_varint x = (case x of None \<Rightarrow> [] | Some v \<Rightarrow> write_mweb_varint v)"

text \<open>
  Everything fed to the hasher. A value and its \<^verbatim>\<open>has_\<close> flag are an option; the
  pegout map is the list of its values.
\<close>

definition kernel_message ::
  "byte \<Rightarrow> bytes \<Rightarrow> u64 option \<Rightarrow> u64 option \<Rightarrow> bytes list option \<Rightarrow> u32 option
    \<Rightarrow> bytes option \<Rightarrow> bytes option \<Rightarrow> (unit + bytes) run" where
  "kernel_message features excess_commitment fee pegin_amount pegouts lock_height
     stealth_excess extra_data =
     seq (if has_bit features MWEB_KERNEL_PEGOUT_BIT then
            let items = (case pegouts of None \<Rightarrow> [] | Some items \<Rightarrow> items) in
            for_run (\<lambda>_ val acc. seq (pegout_chunk val) (\<lambda>c. ok (acc @ c))) 0 items
              (mweb_write_compact_size (of_nat (length items)))
          else ok [])
       (\<lambda>pegout_part.
         ok ([features] @ excess_commitment @ opt_varint fee @ opt_varint pegin_amount
             @ pegout_part @ opt_varint (map_option ucast lock_height)
             @ (case stealth_excess of None \<Rightarrow> [] | Some se \<Rightarrow> se)
             @ (if has_bit features MWEB_KERNEL_EXTRA_DATA_BIT then
                  let extra = (case extra_data of None \<Rightarrow> [] | Some d \<Rightarrow> d) in
                  mweb_write_compact_size (of_nat (length extra)) @ extra
                else [])))"

definition mweb_kernel_sig_hash ::
  "crypto \<Rightarrow> byte \<Rightarrow> bytes option \<Rightarrow> u64 option \<Rightarrow> u64 option \<Rightarrow> bytes list option \<Rightarrow> u32 option
    \<Rightarrow> bytes option \<Rightarrow> bytes option \<Rightarrow> (unit + bytes) run" where
  "mweb_kernel_sig_hash C features excess_commitment fee pegin_amount pegouts lock_height
     stealth_excess extra_data =
     seq (need excess_commitment ()) (\<lambda>excess.
     seq (kernel_message features excess fee pegin_amount pegouts lock_height stealth_excess extra_data)
       (\<lambda>msg. ok (blake3 C msg)))"

section \<open>Parameters and outputs of the signer\<close>

record mweb_input_ctx =
  ic_value :: u64
  ic_blind :: bytes
  ic_stealth_tweak :: bytes

record mweb_output_ctx =
  oc_value :: u64
  oc_blind :: bytes

record kernel_params =
  kp_inputs :: "mweb_input_ctx list option"
  kp_n_inputs :: nat
  kp_outputs :: "mweb_output_ctx list option"
  kp_n_outputs :: nat
  kp_features :: byte
  kp_fee :: "u64 option"
  kp_pegin_amount :: "u64 option"
  kp_lock_height :: "u32 option"
  kp_pegouts :: "bytes list option"
  kp_extra_data :: "bytes option"
  kp_stealth_key :: "bytes option"
  kp_received_tx_offset :: "bytes option"
  kp_received_stealth_offset :: "bytes option"

record kernel_outs =
  ko_excess_kG :: bytes
  ko_stealth_excess_G :: bytes
  ko_tx_offset_final :: bytes
  ko_stealth_offset_final :: bytes
  ko_signature :: bytes

definition zero_outs :: kernel_outs where
  "zero_outs = \<lparr>ko_excess_kG = replicate 33 0, ko_stealth_excess_G = replicate 33 0,
     ko_tx_offset_final = replicate 32 0, ko_stealth_offset_final = replicate 32 0,
     ko_signature = replicate 64 0\<rparr>"

datatype kernel_alloc = AllocSchnorr | AllocBlindSum | AllocTxSub | AllocTxSubEk
  | AllocTweakSum | AllocStealthAdd | AllocStealthSub

text \<open>Walking the first \<^verbatim>\<open>n\<close> entries of an array argument.\<close>

definition array_walk :: "nat \<Rightarrow> 'x list option \<Rightarrow> ('e + 'x list) run" where
  "array_walk n p =
     (if n = 0 then ok []
      else case p of None \<Rightarrow> Undef
           | Some xs \<Rightarrow> if length xs < n then Undef else ok (take n xs))"

section \<open>The checks\<close>

definition derive_pegout_total :: "bytes list option \<Rightarrow> u64 option" where
  "derive_pegout_total pegouts =
     (case pegouts of
        None \<Rightarrow> Some 0
      | Some items \<Rightarrow>
          for_opt (\<lambda>_ val total.
             case parse_pegout_value val of
               None \<Rightarrow> None
             | Some v \<Rightarrow> u64_add_checked total (pv_amount v)) 0 items 0)"

definition kernel_check_features :: "kernel_params \<Rightarrow> (mweb_err_t + unit) run" where
  "kernel_check_features p =
     (let f = kp_features p; stealth = has_bit f MWEB_KERNEL_STEALTH_EXCESS_BIT in
      seq (check ((kp_fee p \<noteq> None) = has_bit f MWEB_KERNEL_FEE_BIT)
             MWEB_ERR_KERNEL_FEATURE_MISMATCH) (\<lambda>_.
      seq (check ((kp_pegin_amount p \<noteq> None) = has_bit f MWEB_KERNEL_PEGIN_BIT)
             MWEB_ERR_KERNEL_FEATURE_MISMATCH) (\<lambda>_.
      seq (check ((case kp_pegouts p of None \<Rightarrow> False | Some items \<Rightarrow> 0 < length items)
               = has_bit f MWEB_KERNEL_PEGOUT_BIT) MWEB_ERR_KERNEL_FEATURE_MISMATCH) (\<lambda>_.
      seq (check ((kp_lock_height p \<noteq> None) = has_bit f MWEB_KERNEL_HEIGHT_LOCK_BIT)
             MWEB_ERR_KERNEL_FEATURE_MISMATCH) (\<lambda>_.
      seq (check ((case kp_extra_data p of None \<Rightarrow> False | Some d \<Rightarrow> 0 < length d)
               = has_bit f MWEB_KERNEL_EXTRA_DATA_BIT) MWEB_ERR_KERNEL_FEATURE_MISMATCH) (\<lambda>_.
      seq (check (\<not> (stealth \<and> kp_stealth_key p = None)) MWEB_ERR_MISSING_STEALTH_SCALAR) (\<lambda>_.
      seq (check (\<not> (\<not> stealth \<and> kp_stealth_key p \<noteq> None)) MWEB_ERR_KERNEL_FEATURE_MISMATCH) (\<lambda>_.
      check (case kp_stealth_key p of None \<Rightarrow> True | Some k \<Rightarrow> mweb_validate_scalar k)
        MWEB_ERR_INVALID_SCALAR))))))))"

definition kernel_check_balance :: "kernel_params \<Rightarrow> (mweb_err_t + unit) run" where
  "kernel_check_balance p =
     seq (need (if has_bit (kp_features p) MWEB_KERNEL_PEGOUT_BIT
                then derive_pegout_total (kp_pegouts p) else Some 0) MWEB_ERR_BALANCE_FAIL)
       (\<lambda>pegout_total.
     seq (array_walk (kp_n_inputs p) (kp_inputs p)) (\<lambda>ins.
     seq (need (for_opt (\<lambda>_ v s. u64_add_checked s v) 0 (map ic_value ins) 0) MWEB_ERR_BALANCE_FAIL)
       (\<lambda>input_sum.
     seq (need (case kp_pegin_amount p of None \<Rightarrow> Some input_sum
                | Some v \<Rightarrow> u64_add_checked input_sum v) MWEB_ERR_BALANCE_FAIL) (\<lambda>input_sum.
     seq (array_walk (kp_n_outputs p) (kp_outputs p)) (\<lambda>outs.
     seq (need (for_opt (\<lambda>_ v s. u64_add_checked s v) 0 (map oc_value outs) 0) MWEB_ERR_BALANCE_FAIL)
       (\<lambda>output_sum.
     seq (need (case kp_fee p of None \<Rightarrow> Some output_sum
                | Some v \<Rightarrow> u64_add_checked output_sum v) MWEB_ERR_BALANCE_FAIL) (\<lambda>output_sum.
     seq (need (u64_add_checked output_sum pegout_total) MWEB_ERR_BALANCE_FAIL) (\<lambda>output_sum.
     check (input_sum = output_sum) MWEB_ERR_BALANCE_FAIL))))))))"

section \<open>The signer\<close>

text \<open>
  \<^verbatim>\<open>sigKey = e_k * BLAKE3(e_k*G || stealthExcess) + stealthKey\<close>, or \<^verbatim>\<open>e_k\<close> itself
  without a stealth excess.
\<close>

definition kernel_sig_key :: "crypto \<Rightarrow> bytes \<Rightarrow> bytes \<Rightarrow> (bytes \<times> bytes) option \<Rightarrow> bytes option" where
  "kernel_sig_key C e_k ek_pubkey stealth =
     (case stealth of
        None \<Rightarrow> Some e_k
      | Some (stealth_key, stealth_excess_G) \<Rightarrow> do {
          let tweak = blake3 C (ek_pubkey @ stealth_excess_G);
          k \<leftarrow> seckey_tweak_mul C e_k tweak;
          seckey_tweak_add C k stealth_key
        })"

definition kernel_tx_offset ::
  "(kernel_alloc \<Rightarrow> nat \<Rightarrow> bool) \<Rightarrow> bytes \<Rightarrow> mweb_input_ctx list \<Rightarrow> bytes \<Rightarrow> bytes option" where
  "kernel_tx_offset mok e_k ins received = do {
     sum_blind \<leftarrow> for_opt (\<lambda>i b acc. mweb_scalar_add_mod_n (mok AllocBlindSum i) acc b) 0
                    (map ic_blind ins) (replicate 32 0);
     tmp \<leftarrow> mweb_scalar_sub_mod_n (mok AllocTxSub) received sum_blind;
     mweb_scalar_sub_mod_n (mok AllocTxSubEk) tmp e_k
   }"

definition kernel_stealth_offset ::
  "(kernel_alloc \<Rightarrow> nat \<Rightarrow> bool) \<Rightarrow> bytes option \<Rightarrow> mweb_input_ctx list \<Rightarrow> bytes \<Rightarrow> bytes option" where
  "kernel_stealth_offset mok stealth_key ins received = do {
     sum_tweak \<leftarrow> for_opt (\<lambda>i b acc. mweb_scalar_add_mod_n (mok AllocTweakSum i) acc b) 0
                    (map ic_stealth_tweak ins) (replicate 32 0);
     tmp \<leftarrow> mweb_scalar_add_mod_n (mok AllocStealthAdd 0) received sum_tweak;
     (case stealth_key of
        None \<Rightarrow> Some tmp
      | Some k \<Rightarrow> mweb_scalar_sub_mod_n (mok AllocStealthSub) tmp k)
   }"

text \<open>Sections 1 to 10 of \<^verbatim>\<open>mweb_sign_kernel_with_ek\<close>; a failure is a jump to \<^verbatim>\<open>cleanup\<close>.\<close>

definition kernel_steps ::
  "crypto \<Rightarrow> (kernel_alloc \<Rightarrow> nat \<Rightarrow> bool) \<Rightarrow> bytes \<Rightarrow> kernel_params \<Rightarrow> bytes \<Rightarrow> bytes
    \<Rightarrow> (mweb_err_t + kernel_outs) run" where
  "kernel_steps C mok e_k p received_tx received_stealth =
     seq (check (mweb_validate_scalar e_k) MWEB_ERR_INVALID_SCALAR) (\<lambda>_.
     seq (kernel_check_features p) (\<lambda>_.
     seq (kernel_check_balance p) (\<lambda>_.
     seq (array_walk (kp_n_inputs p) (kp_inputs p)) (\<lambda>ins.
     seq (need (mweb_pedersen_commit C e_k 0) MWEB_ERR_INTERNAL) (\<lambda>excess_kG.
     seq (need (pubkey_create C e_k) MWEB_ERR_INTERNAL) (\<lambda>pk.
     let ek_pubkey = pubkey_compressed C pk;
         skey = (if has_bit (kp_features p) MWEB_KERNEL_STEALTH_EXCESS_BIT
                 then kp_stealth_key p else None) in
     seq (case skey of None \<Rightarrow> ok None
          | Some k \<Rightarrow> seq (need (pubkey_create C k) MWEB_ERR_INTERNAL)
                        (\<lambda>spk. ok (Some (k, pubkey_compressed C spk)))) (\<lambda>stealth.
     seq (or_err (mweb_kernel_sig_hash C (kp_features p) (Some excess_kG) (kp_fee p)
                 (kp_pegin_amount p) (kp_pegouts p) (kp_lock_height p)
                 (map_option snd stealth) (kp_extra_data p)) MWEB_ERR_INTERNAL) (\<lambda>kernel_hash.
     seq (need (kernel_sig_key C e_k ek_pubkey stealth) MWEB_ERR_INTERNAL) (\<lambda>sig_key.
     let signed =
           mweb_schnorr_sign C (mok AllocSchnorr 0) sig_key kernel_hash (replicate 64 0) in
     seq (check (fst signed) MWEB_ERR_INTERNAL) (\<lambda>_.
     seq (need (kernel_tx_offset mok e_k ins received_tx) MWEB_ERR_INTERNAL) (\<lambda>tx_offset.
     seq (need (kernel_stealth_offset mok skey ins received_stealth) MWEB_ERR_INTERNAL)
       (\<lambda>stealth_offset.
     ok \<lparr>ko_excess_kG = excess_kG,
         ko_stealth_excess_G = (case stealth of None \<Rightarrow> replicate 33 0 | Some (_, g) \<Rightarrow> g),
         ko_tx_offset_final = tx_offset,
         ko_stealth_offset_final = stealth_offset,
         ko_signature = snd signed\<rparr>))))))))))))"

definition mweb_sign_kernel_with_ek ::
  "crypto \<Rightarrow> (kernel_alloc \<Rightarrow> nat \<Rightarrow> bool) \<Rightarrow> bytes option \<Rightarrow> kernel_params option
    \<Rightarrow> kernel_outs option \<Rightarrow> (mweb_err_t \<times> kernel_outs option) run" where
  "mweb_sign_kernel_with_ek C mok e_k params out =
     (case (e_k, params, out) of
        (Some e_k, Some p, Some _) \<Rightarrow>
          (case (kp_received_tx_offset p, kp_received_stealth_offset p) of
             (Some received_tx, Some received_stealth) \<Rightarrow>
               if kp_n_inputs p > 0 \<and> kp_inputs p = None then Ret (MWEB_ERR_INTERNAL, out)
               else if kp_n_outputs p > 0 \<and> kp_outputs p = None then Ret (MWEB_ERR_INTERNAL, out)
               else if \<not> secp_ctx C then Ret (MWEB_ERR_INTERNAL, out)
               else (case kernel_steps C mok e_k p received_tx received_stealth of
                       Crash \<Rightarrow> Crash
                     | Undef \<Rightarrow> Undef
                     | Ret (Inl err) \<Rightarrow> Ret (err, Some zero_outs)
                     | Ret (Inr outs) \<Rightarrow> Ret (MWEB_OK, Some outs))
           | _ \<Rightarrow> Ret (MWEB_ERR_INTERNAL, out))
      | _ \<Rightarrow> Ret (MWEB_ERR_INTERNAL, out))"

text \<open>The loop drawing \<^verbatim>\<open>e_k\<close>: at most eight draws, the first valid scalar is used.\<close>

primrec draw_scalar :: "(nat \<Rightarrow> bytes) \<Rightarrow> nat \<Rightarrow> nat \<Rightarrow> bytes option" where
  "draw_scalar rnd tries 0 = None"
| "draw_scalar rnd tries (Suc left) =
     (if mweb_validate_scalar (rnd tries) then Some (rnd tries)
      else draw_scalar rnd (Suc tries) left)"

definition mweb_sign_kernel ::
  "crypto \<Rightarrow> (kernel_alloc \<Rightarrow> nat \<Rightarrow> bool) \<Rightarrow> (nat \<Rightarrow> bytes) \<Rightarrow> kernel_params option
    \<Rightarrow> kernel_outs option \<Rightarrow> (mweb_err_t \<times> kernel_outs option) run" where
  "mweb_sign_kernel C mok rnd params out =
     (case draw_scalar rnd 0 8 of
        None \<Rightarrow> Ret (MWEB_ERR_INTERNAL, out)
      | Some e_k \<Rightarrow> mweb_sign_kernel_with_ek C mok (Some e_k) params out)"

section \<open>Lemmas: the balance check\<close>

text \<open>Totals over the natural numbers, where nothing wraps.\<close>

definition pegout_amount :: "bytes \<Rightarrow> nat" where
  "pegout_amount val = (case parse_pegout_value val of None \<Rightarrow> 0 | Some v \<Rightarrow> unat (pv_amount v))"

definition opt_value :: "u64 option \<Rightarrow> nat" where
  "opt_value x = (case x of None \<Rightarrow> 0 | Some v \<Rightarrow> unat v)"

definition pegout_total :: "bytes list option \<Rightarrow> nat" where
  "pegout_total pegouts = (case pegouts of None \<Rightarrow> 0 | Some items \<Rightarrow> sum_list (map pegout_amount items))"

definition kernel_value_in :: "kernel_params \<Rightarrow> mweb_input_ctx list \<Rightarrow> nat" where
  "kernel_value_in p ins = sum_list (map (unat \<circ> ic_value) ins) + opt_value (kp_pegin_amount p)"

definition kernel_value_out :: "kernel_params \<Rightarrow> mweb_output_ctx list \<Rightarrow> nat" where
  "kernel_value_out p outs = sum_list (map (unat \<circ> oc_value) outs) + opt_value (kp_fee p)
     + (if has_bit (kp_features p) MWEB_KERNEL_PEGOUT_BIT then pegout_total (kp_pegouts p) else 0)"

lemma array_walk_ok_iff:
  "array_walk n p = ok xs \<longleftrightarrow> (n = 0 \<and> xs = []) \<or> (\<exists>ys. 0 < n \<and> p = Some ys \<and> n \<le> length ys \<and> xs = take n ys)"
  by (auto simp: array_walk_def split: option.splits)

lemma array_walk_not_fail [simp]: "array_walk n p \<noteq> fail e" "array_walk n p \<noteq> Crash"
  by (auto simp: array_walk_def split: option.splits)

lemma pegout_loop_iff:
  "for_opt (\<lambda>_ val total. case parse_pegout_value val of None \<Rightarrow> None
      | Some v \<Rightarrow> u64_add_checked total (pv_amount v)) i items acc = Some t
    \<longleftrightarrow> (\<forall>val \<in> set items. parse_pegout_value val \<noteq> None)
      \<and> unat acc + sum_list (map pegout_amount items) < 2 ^ 64
      \<and> unat t = unat acc + sum_list (map pegout_amount items)"
proof (induction items arbitrary: i acc)
  case Nil
  then show ?case by (auto intro: word_eqI_unat)
next
  case (Cons val items)
  show ?case
  proof (cases "parse_pegout_value val")
    case None
    then show ?thesis by simp
  next
    case (Some v)
    show ?thesis
    proof (cases "u64_add_checked acc (pv_amount v)")
      case None
      then have "2 ^ 64 \<le> unat acc + unat (pv_amount v)" by (simp only: kadd.add_None_iff)
      with None Some show ?thesis by (simp add: pegout_amount_def)
    next
      case acc': (Some acc')
      then have "unat acc' = unat acc + unat (pv_amount v)" by (simp add: kadd.add_Some_iff)
      with acc' Some Cons.IH [of "Suc i" acc'] show ?thesis by (simp add: pegout_amount_def add.assoc)
    qed
  qed
qed

lemma derive_pegout_total_iff:
  "derive_pegout_total pegouts = Some t \<longleftrightarrow>
     (\<forall>items. pegouts = Some items \<longrightarrow> (\<forall>val \<in> set items. parse_pegout_value val \<noteq> None))
     \<and> pegout_total pegouts < 2 ^ 64 \<and> unat t = pegout_total pegouts"
proof (cases pegouts)
  case None
  then show ?thesis by (auto simp: derive_pegout_total_def pegout_total_def unat_eq_0)
next
  case (Some items)
  then show ?thesis
    using pegout_loop_iff [of 0 items 0 t] by (simp add: derive_pegout_total_def pegout_total_def)
qed

lemma add_opt_iff:
  "(case x of None \<Rightarrow> Some s | Some v \<Rightarrow> u64_add_checked s v) = Some t
    \<longleftrightarrow> unat s + opt_value x < 2 ^ 64 \<and> unat t = unat s + opt_value x"
  by (cases x) (auto simp: opt_value_def kadd.add_Some_iff intro: word_eqI_unat)

text \<open>The balance check passes exactly when the two totals agree and fit in 64 bits.\<close>

definition pegouts_parse :: "kernel_params \<Rightarrow> bool" where
  "pegouts_parse p \<longleftrightarrow>
     (case kp_pegouts p of None \<Rightarrow> True
      | Some items \<Rightarrow> list_all (\<lambda>val. parse_pegout_value val \<noteq> None) items)"

lemma sum_values_iff:
  "for_opt (\<lambda>_ v s. u64_add_checked s v) 0 vs 0 = Some s
    \<longleftrightarrow> sum_list (map unat vs) < 2 ^ 64 \<and> unat s = sum_list (map unat vs)"
  using kadd.sum_loop_iff [of 0 vs 0 s] by simp

lemma kernel_balance_ok:
  assumes "array_walk (kp_n_inputs p) (kp_inputs p) = (ok ins :: (mweb_err_t + mweb_input_ctx list) run)"
    and "array_walk (kp_n_outputs p) (kp_outputs p) = (ok outs :: (mweb_err_t + mweb_output_ctx list) run)"
  shows "kernel_check_balance p = ok () \<longleftrightarrow>
    (has_bit (kp_features p) MWEB_KERNEL_PEGOUT_BIT \<longrightarrow> pegouts_parse p)
    \<and> kernel_value_in p ins = kernel_value_out p outs \<and> kernel_value_out p outs < 2 ^ 64"
    (is "_ \<longleftrightarrow> ?parse \<and> _")
proof -
  let ?pg = "if has_bit (kp_features p) MWEB_KERNEL_PEGOUT_BIT then derive_pegout_total (kp_pegouts p) else Some 0"
  let ?pt = "if has_bit (kp_features p) MWEB_KERNEL_PEGOUT_BIT then pegout_total (kp_pegouts p) else 0"
  have pg: "?pg = Some t \<longleftrightarrow> ?parse \<and> ?pt < 2 ^ 64 \<and> unat t = ?pt" for t
    using derive_pegout_total_iff [of "kp_pegouts p" t]
    by (auto simp: pegouts_parse_def list_all_iff unat_eq_0 split: option.splits)
  show ?thesis (is "?l \<longleftrightarrow> ?r")
  proof
    assume ?l
    then obtain t s s' u u' w where steps: "?pg = Some t"
      "for_opt (\<lambda>_ v s. u64_add_checked s v) 0 (map ic_value ins) 0 = Some s"
      "(case kp_pegin_amount p of None \<Rightarrow> Some s | Some v \<Rightarrow> u64_add_checked s v) = Some s'"
      "for_opt (\<lambda>_ v s. u64_add_checked s v) 0 (map oc_value outs) 0 = Some u"
      "(case kp_fee p of None \<Rightarrow> Some u | Some v \<Rightarrow> u64_add_checked u v) = Some u'"
      "u64_add_checked u' t = Some w" "s' = w"
      unfolding kernel_check_balance_def run_simps assms by auto
    from steps(2,4) have "unat s = sum_list (map (unat \<circ> ic_value) ins)"
      "unat u = sum_list (map (unat \<circ> oc_value) outs)" by (simp_all add: sum_values_iff)
    moreover from steps(3,5) have "unat s' = unat s + opt_value (kp_pegin_amount p)"
      "unat u' = unat u + opt_value (kp_fee p)" by (simp_all add: add_opt_iff)
    moreover from steps(1) have "unat t = ?pt" ?parse unfolding pg by blast+
    moreover from steps(6) have "unat w = unat u' + unat t" "unat u' + unat t < 2 ^ 64"
      by (simp_all only: kadd.add_Some_iff)
    ultimately show ?r using steps(7) by (simp add: kernel_value_in_def kernel_value_out_def)
  next
    assume r: ?r
    then have lt: "kernel_value_in p ins < 2 ^ 64" "kernel_value_out p outs < 2 ^ 64" by simp_all
    have word: "\<exists>w :: u64. unat w = k" if "k < 2 ^ 64" for k
      using that by (intro exI [of _ "of_nat k"]) (rule unat_of_nat_u64)
    have small: "sum_list (map (unat \<circ> ic_value) ins) < 2 ^ 64"
      "sum_list (map (unat \<circ> oc_value) outs) < 2 ^ 64" "?pt < 2 ^ 64"
      using lt unfolding kernel_value_in_def kernel_value_out_def by linarith+
    from word [OF small(1)] obtain s :: u64 where s: "unat s = sum_list (map (unat \<circ> ic_value) ins)" ..
    from word [OF small(2)] obtain u :: u64 where u: "unat u = sum_list (map (unat \<circ> oc_value) outs)" ..
    from word [OF small(3)] obtain t :: u64 where t: "unat t = ?pt" ..
    obtain w :: u64 where w: "unat w = kernel_value_out p outs" using word lt(2) by blast
    obtain u' :: u64 where u': "unat u' = unat u + opt_value (kp_fee p)"
      using word [of "unat u + opt_value (kp_fee p)"] lt(2) u
      by (auto simp: kernel_value_out_def simp del: unat_u64_less)
    have "?pg = Some t" using r t lt by (simp only: pg) (simp add: kernel_value_out_def)
    moreover have "for_opt (\<lambda>_ v s. u64_add_checked s v) 0 (map ic_value ins) 0 = Some s"
      using lt s by (simp add: sum_values_iff kernel_value_in_def)
    moreover have "(case kp_pegin_amount p of None \<Rightarrow> Some s | Some v \<Rightarrow> u64_add_checked s v) = Some w"
      using lt(1) s w r by (simp add: add_opt_iff kernel_value_in_def)
    moreover have "for_opt (\<lambda>_ v s. u64_add_checked s v) 0 (map oc_value outs) 0 = Some u"
      using lt u by (simp add: sum_values_iff kernel_value_out_def)
    moreover have "(case kp_fee p of None \<Rightarrow> Some u | Some v \<Rightarrow> u64_add_checked u v) = Some u'"
      using lt u u' by (simp add: add_opt_iff kernel_value_out_def)
    moreover have "u64_add_checked u' t = Some w"
      using lt u u' t w by (simp add: kadd.add_Some_iff kernel_value_out_def)
    ultimately show ?l unfolding kernel_check_balance_def run_simps assms by auto
  qed
qed

section \<open>Lemmas: the message\<close>

text \<open>What one pegout of the message says, and the message over decoded pegouts.\<close>

definition pegout_decoded :: "bytes \<Rightarrow> (u64 \<times> bytes) option" where
  "pegout_decoded val = (case parse_pegout_value val of None \<Rightarrow> None
     | Some v \<Rightarrow> map_option (\<lambda>script. (pv_amount v, script)) (pegout_script val v))"

definition pegout_encode :: "u64 \<times> bytes \<Rightarrow> bytes" where
  "pegout_encode ps = write_mweb_varint (fst ps)
     @ mweb_write_compact_size (of_nat (length (snd ps))) @ snd ps"

lemma pegout_script_length: "pegout_script val v = Some s \<Longrightarrow> length s = unat (pv_script_len v)"
  by (auto simp: pegout_script_def split: if_splits)

lemma u32_as_u64: "(of_nat (unat (x :: u32)) :: u64) = ucast x"
proof (rule word_eqI_unat)
  have "unat x < 2 ^ 32" using unsigned_less [of x, where ?'a = nat] by simp
  then show "unat (of_nat (unat x) :: u64) = unat (ucast x :: u64)"
    by (simp add: unat_of_nat unsigned_ucast_eq take_bit_eq_mod unat_mod)
qed

lemma pegout_chunk_ok_iff:
  "pegout_chunk val = ok c \<longleftrightarrow> (\<exists>ps. pegout_decoded val = Some ps \<and> c = pegout_encode ps)"
proof
  assume "pegout_chunk val = ok c"
  then obtain v s where v: "parse_pegout_value val = Some v" "pegout_script val v = Some s"
    and c: "c = write_mweb_varint (pv_amount v) @ mweb_write_compact_size (ucast (pv_script_len v)) @ s"
    by (auto simp: pegout_chunk_def run_simps split: option.splits)
  from v(2) have "ucast (pv_script_len v) = (of_nat (length s) :: u64)"
    by (simp only: pegout_script_length u32_as_u64)
  with v c show "\<exists>ps. pegout_decoded val = Some ps \<and> c = pegout_encode ps"
    by (simp add: pegout_decoded_def pegout_encode_def)
next
  assume "\<exists>ps. pegout_decoded val = Some ps \<and> c = pegout_encode ps"
  then obtain v s where v: "parse_pegout_value val = Some v" "pegout_script val v = Some s"
    and c: "c = pegout_encode (pv_amount v, s)"
    by (auto simp: pegout_decoded_def split: option.splits)
  from v(2) have "ucast (pv_script_len v) = (of_nat (length s) :: u64)"
    by (simp only: pegout_script_length u32_as_u64)
  with v c show "pegout_chunk val = ok c"
    by (simp add: pegout_chunk_def pegout_encode_def)
qed

lemma pegout_loop_ok:
  "for_run (\<lambda>_ val acc. seq (pegout_chunk val) (\<lambda>c. ok (acc @ c))) i items acc = ok r
    \<Longrightarrow> \<exists>ps. map pegout_decoded items = map Some ps \<and> r = acc @ concat (map pegout_encode ps)"
proof (induction items arbitrary: i acc)
  case Nil
  then show ?case by simp
next
  case (Cons val items)
  from Cons.prems obtain p where p: "pegout_decoded val = Some p"
    and l: "for_run (\<lambda>_ val acc. seq (pegout_chunk val) (\<lambda>c. ok (acc @ c))) (Suc i) items
      (acc @ pegout_encode p) = ok r"
    by (auto simp: run_simps pegout_chunk_ok_iff)
  from Cons.IH [OF l] obtain ps where "map pegout_decoded items = map Some ps"
    "r = acc @ pegout_encode p @ concat (map pegout_encode ps)" by auto
  with p show ?case by (intro exI [of _ "p # ps"]) simp
qed

lemma pegout_decoded_short:
  assumes "pegout_decoded val = Some ps"
  shows "length (snd ps) < 2 ^ 64"
proof -
  from assms obtain v s where "pegout_script val v = Some s" "snd ps = s"
    by (auto simp: pegout_decoded_def split: option.splits)
  then have "length (snd ps) = unat (pv_script_len v)" by (simp add: pegout_script_length)
  then show ?thesis using unsigned_less [of "pv_script_len v", where ?'a = nat] by simp
qed

lemma pegout_encode_eq:
  assumes "length (snd ps) < 2 ^ 64" and "length (snd qs) < 2 ^ 64"
  shows "pegout_encode ps @ r = pegout_encode qs @ s \<longleftrightarrow> ps = qs \<and> r = s"
proof -
  have "length (snd ps) = length (snd qs)" if "(of_nat (length (snd ps)) :: u64) = of_nat (length (snd qs))"
    using that assms by (metis unat_of_nat_u64)
  then show ?thesis
    by (auto simp: pegout_encode_def varint.enc_append_eq compact.enc_append_eq prod_eq_iff)
qed

lemma pegouts_encode_eq:
  assumes "\<forall>p \<in> set ps. length (snd p) < 2 ^ 64" and "\<forall>p \<in> set qs. length (snd p) < 2 ^ 64"
    and "length ps = length qs"
  shows "concat (map pegout_encode ps) @ r = concat (map pegout_encode qs) @ s \<longleftrightarrow> ps = qs \<and> r = s"
  using assms(3,1,2)
  by (induction ps qs rule: list_induct2) (auto simp: pegout_encode_eq)

lemma opt_varint_eq:
  assumes "x = None \<longleftrightarrow> y = None"
  shows "opt_varint x @ r = opt_varint y @ s \<longleftrightarrow> x = y \<and> r = s"
  using assms by (cases x; cases y) (simp_all add: opt_varint_def varint.enc_append_eq)

text \<open>The optional fields are present exactly when their feature bit is set.\<close>

definition fields_match_bits ::
  "byte \<Rightarrow> u64 option \<Rightarrow> u64 option \<Rightarrow> u32 option \<Rightarrow> bytes option \<Rightarrow> bool" where
  "fields_match_bits f fee pegin lock stealth \<longleftrightarrow>
     (fee \<noteq> None) = has_bit f MWEB_KERNEL_FEE_BIT
     \<and> (pegin \<noteq> None) = has_bit f MWEB_KERNEL_PEGIN_BIT
     \<and> (lock \<noteq> None) = has_bit f MWEB_KERNEL_HEIGHT_LOCK_BIT
     \<and> (stealth \<noteq> None) = has_bit f MWEB_KERNEL_STEALTH_EXCESS_BIT
     \<and> (\<forall>se. stealth = Some se \<longrightarrow> length se = 33)"

definition pegout_list :: "byte \<Rightarrow> bytes list option \<Rightarrow> bytes list" where
  "pegout_list f pegouts = (if has_bit f MWEB_KERNEL_PEGOUT_BIT then
     case pegouts of None \<Rightarrow> [] | Some items \<Rightarrow> items else [])"

definition extra_bytes :: "byte \<Rightarrow> bytes option \<Rightarrow> bytes" where
  "extra_bytes f extra = (if has_bit f MWEB_KERNEL_EXTRA_DATA_BIT then
     case extra of None \<Rightarrow> [] | Some d \<Rightarrow> d else [])"

text \<open>The items of a list argument, a null pointer being no items.\<close>

definition items_of :: "'a list option \<Rightarrow> 'a list" where
  "items_of xs = (case xs of None \<Rightarrow> [] | Some items \<Rightarrow> items)"

lemma items_of_simps [simp]: "items_of None = []" "items_of (Some xs) = xs"
  by (simp_all add: items_of_def)

definition pegout_part :: "byte \<Rightarrow> (u64 \<times> bytes) list \<Rightarrow> bytes" where
  "pegout_part f ps = (if has_bit f MWEB_KERNEL_PEGOUT_BIT
     then mweb_write_compact_size (of_nat (length ps)) @ concat (map pegout_encode ps) else [])"

definition stealth_part :: "bytes option \<Rightarrow> bytes" where
  "stealth_part stealth = (case stealth of None \<Rightarrow> [] | Some se \<Rightarrow> se)"

definition extra_part :: "byte \<Rightarrow> bytes \<Rightarrow> bytes" where
  "extra_part f d = (if has_bit f MWEB_KERNEL_EXTRA_DATA_BIT
     then mweb_write_compact_size (of_nat (length d)) @ d else [])"

lemma kernel_message_ok:
  assumes "kernel_message f excess fee pegin pegouts lock stealth extra = ok msg"
  obtains ps where "map pegout_decoded (pegout_list f pegouts) = map Some ps"
    and "\<forall>p \<in> set ps. length (snd p) < 2 ^ 64"
    and "msg = f # excess @ opt_varint fee @ opt_varint pegin @ pegout_part f ps
      @ opt_varint (map_option ucast lock) @ stealth_part stealth @ extra_part f (extra_bytes f extra)"
proof -
  from assms obtain part where msg: "msg = f # excess @ opt_varint fee @ opt_varint pegin @ part
      @ opt_varint (map_option ucast lock) @ stealth_part stealth @ extra_part f (extra_bytes f extra)"
    and part: "(if has_bit f MWEB_KERNEL_PEGOUT_BIT then
        for_run (\<lambda>_ val acc. seq (pegout_chunk val) (\<lambda>c. ok (acc @ c))) 0 (pegout_list f pegouts)
          (mweb_write_compact_size (of_nat (length (pegout_list f pegouts)))) else ok []) = ok part"
    by (cases "has_bit f MWEB_KERNEL_PEGOUT_BIT"; cases "has_bit f MWEB_KERNEL_EXTRA_DATA_BIT")
      (auto simp: kernel_message_def run_simps extra_bytes_def pegout_list_def extra_part_def
         stealth_part_def Let_def)
  obtain ps where ps: "map pegout_decoded (pegout_list f pegouts) = map Some ps"
    and part': "part = (if has_bit f MWEB_KERNEL_PEGOUT_BIT
         then mweb_write_compact_size (of_nat (length (pegout_list f pegouts)))
           @ concat (map pegout_encode ps) else [])"
  proof (cases "has_bit f MWEB_KERNEL_PEGOUT_BIT")
    case True
    then show ?thesis using part pegout_loop_ok [of 0 "pegout_list f pegouts"] that by fastforce
  next
    case False
    then show ?thesis using part that [of "[]"] by (simp add: pegout_list_def)
  qed
  from ps have len: "length (pegout_list f pegouts) = length ps" by (metis length_map)
  have "length (snd p) < 2 ^ 64" if "p \<in> set ps" for p
  proof -
    from that have "Some p \<in> set (map pegout_decoded (pegout_list f pegouts))" unfolding ps by simp
    then obtain val where "pegout_decoded val = Some p" by auto
    then show ?thesis by (rule pegout_decoded_short)
  qed
  then show thesis using that ps msg part' len by (simp add: pegout_part_def)
qed

lemma pegout_part_eq:
  assumes "\<forall>p \<in> set ps. length (snd p) < 2 ^ 64" and "\<forall>p \<in> set qs. length (snd p) < 2 ^ 64"
    and "length ps < 2 ^ 64" and "length qs < 2 ^ 64"
    and "\<not> has_bit f MWEB_KERNEL_PEGOUT_BIT \<Longrightarrow> ps = [] \<and> qs = []"
  shows "pegout_part f ps @ r = pegout_part f qs @ s \<longleftrightarrow> ps = qs \<and> r = s"
proof (cases "has_bit f MWEB_KERNEL_PEGOUT_BIT")
  case True
  have "length ps = length qs" if "(of_nat (length ps) :: u64) = of_nat (length qs)"
    using that assms(3,4) by (metis unat_of_nat_u64)
  then show ?thesis using pegouts_encode_eq [OF assms(1,2)] True
    by (auto simp: pegout_part_def compact.enc_append_eq)
next
  case False
  with assms(5) show ?thesis by (simp add: pegout_part_def)
qed

lemma extra_part_eq:
  assumes "length d < 2 ^ 64" and "length e < 2 ^ 64"
    and "\<not> has_bit f MWEB_KERNEL_EXTRA_DATA_BIT \<Longrightarrow> d = [] \<and> e = []"
  shows "extra_part f d = extra_part f e \<longleftrightarrow> d = e"
proof (cases "has_bit f MWEB_KERNEL_EXTRA_DATA_BIT")
  case True
  then show ?thesis by (auto simp: extra_part_def compact.enc_append_eq)
next
  case False
  with assms(3) show ?thesis by (simp add: extra_part_def)
qed

lemma stealth_part_eq:
  assumes "st = None \<longleftrightarrow> st' = None"
    and "\<And>se. st = Some se \<Longrightarrow> length se = 33" and "\<And>se. st' = Some se \<Longrightarrow> length se = 33"
  shows "stealth_part st @ r = stealth_part st' @ s \<longleftrightarrow> st = st' \<and> r = s"
  using assms by (cases st; cases st') (simp_all add: stealth_part_def)

lemma ucast_u32_inj: "(map_option ucast x :: u64 option) = map_option ucast y \<longleftrightarrow> x = (y :: u32 option)"
proof -
  have "x = y" if "(ucast x :: u64) = ucast y" for x y :: u32
  proof (rule word_eqI_unat)
    have "unat x < 2 ^ 64" "unat y < 2 ^ 64"
      using unsigned_less [of x, where ?'a = nat] unsigned_less [of y, where ?'a = nat] by simp_all
    then show "unat x = unat y" using that by (metis u32_as_u64 unat_of_nat_u64)
  qed
  then have "inj (ucast :: u32 \<Rightarrow> u64)" by (simp add: inj_def)
  then have "inj (map_option (ucast :: u32 \<Rightarrow> u64))" by (rule option.inj_map)
  then show ?thesis by (simp add: inj_eq)
qed

text \<open>
  Equal messages say the same thing. The lengths that matter are those the device
  can hold: fewer than 2^64 pegouts and bytes of extra data.
\<close>

lemma kernel_message_inj:
  assumes m: "kernel_message f x fee pegin po lock st ed = ok msg"
      "kernel_message f' x' fee' pegin' po' lock' st' ed' = ok msg"
    and len: "length x = 33" "length x' = 33"
    and bits: "fields_match_bits f fee pegin lock st" "fields_match_bits f' fee' pegin' lock' st'"
    and small: "length (pegout_list f po) < 2 ^ 64" "length (pegout_list f' po') < 2 ^ 64"
      "length (extra_bytes f ed) < 2 ^ 64" "length (extra_bytes f' ed') < 2 ^ 64"
  shows "f = f' \<and> x = x' \<and> fee = fee' \<and> pegin = pegin' \<and> lock = lock' \<and> st = st'
    \<and> extra_bytes f ed = extra_bytes f' ed'
    \<and> map pegout_decoded (pegout_list f po) = map pegout_decoded (pegout_list f' po')"
proof -
  from kernel_message_ok [OF m(1)] obtain ps where
      ps: "map pegout_decoded (pegout_list f po) = map Some ps" "\<forall>p \<in> set ps. length (snd p) < 2 ^ 64"
    and m1: "msg = f # x @ opt_varint fee @ opt_varint pegin @ pegout_part f ps
      @ opt_varint (map_option ucast lock) @ stealth_part st @ extra_part f (extra_bytes f ed)" .
  from kernel_message_ok [OF m(2)] obtain qs where
      qs: "map pegout_decoded (pegout_list f' po') = map Some qs" "\<forall>p \<in> set qs. length (snd p) < 2 ^ 64"
    and m2: "msg = f' # x' @ opt_varint fee' @ opt_varint pegin' @ pegout_part f' qs
      @ opt_varint (map_option ucast lock') @ stealth_part st' @ extra_part f' (extra_bytes f' ed')" .
  have lens: "length ps < 2 ^ 64" "length qs < 2 ^ 64"
    using ps(1) qs(1) small(1,2) by (metis length_map)+
  from m1 m2 have ff: "f' = f" by simp
  from m1 m2 len have xx: "x' = x" by simp
  note bits = bits [unfolded fields_match_bits_def ff]
  have pres: "fee = None \<longleftrightarrow> fee' = None" "pegin = None \<longleftrightarrow> pegin' = None"
    "(map_option ucast lock :: u64 option) = None \<longleftrightarrow> (map_option ucast lock' :: u64 option) = None"
    "st = None \<longleftrightarrow> st' = None" "\<And>se. st = Some se \<Longrightarrow> length se = 33" "\<And>se. st' = Some se \<Longrightarrow> length se = 33"
    using bits by auto
  have off: "\<not> has_bit f MWEB_KERNEL_PEGOUT_BIT \<Longrightarrow> ps = [] \<and> qs = []"
    using ps(1) qs(1) by (simp add: pegout_list_def ff)
  have off': "\<not> has_bit f MWEB_KERNEL_EXTRA_DATA_BIT \<Longrightarrow> extra_bytes f ed = [] \<and> extra_bytes f ed' = []"
    by (simp add: extra_bytes_def)
  from trans [OF sym [OF m1] m2] have "fee = fee' \<and> pegin = pegin' \<and> ps = qs
    \<and> (map_option ucast lock :: u64 option) = map_option ucast lock' \<and> st = st'
    \<and> extra_bytes f ed = extra_bytes f ed'"
    using small(3,4) by (simp add: ff xx opt_varint_eq [OF pres(1)] opt_varint_eq [OF pres(2)] opt_varint_eq [OF pres(3)]
       pegout_part_eq [OF ps(2) qs(2) lens off] stealth_part_eq [OF pres(4-6)] extra_part_eq [OF _ _ off'])
  then show ?thesis using ps(1) qs(1) by (simp add: ff xx ucast_u32_inj)
qed

section \<open>Lemmas: the signer\<close>

lemma kernel_features_ok_iff:
  "kernel_check_features p = ok () \<longleftrightarrow>
     (kp_fee p \<noteq> None) = has_bit (kp_features p) MWEB_KERNEL_FEE_BIT
     \<and> (kp_pegin_amount p \<noteq> None) = has_bit (kp_features p) MWEB_KERNEL_PEGIN_BIT
     \<and> (\<exists>items. kp_pegouts p = Some items \<and> items \<noteq> []) = has_bit (kp_features p) MWEB_KERNEL_PEGOUT_BIT
     \<and> (kp_lock_height p \<noteq> None) = has_bit (kp_features p) MWEB_KERNEL_HEIGHT_LOCK_BIT
     \<and> (\<exists>d. kp_extra_data p = Some d \<and> d \<noteq> []) = has_bit (kp_features p) MWEB_KERNEL_EXTRA_DATA_BIT
     \<and> (kp_stealth_key p \<noteq> None) = has_bit (kp_features p) MWEB_KERNEL_STEALTH_EXCESS_BIT
     \<and> (\<forall>k. kp_stealth_key p = Some k \<longrightarrow> mweb_validate_scalar k)"
  unfolding kernel_check_features_def Let_def run_simps by (auto split: option.splits)

text \<open>What a successful run of the signer has done.\<close>

lemma kernel_steps_ok:
  assumes "kernel_steps C mok e_k p rt rs = ok outs"
  obtains ins pk hash sig_key where "mweb_validate_scalar e_k"
    and "kernel_check_features p = ok ()" and "kernel_check_balance p = ok ()"
    and "array_walk (kp_n_inputs p) (kp_inputs p) = (ok ins :: (mweb_err_t + mweb_input_ctx list) run)"
    and "mweb_pedersen_commit C e_k 0 = Some (ko_excess_kG outs)"
    and "pubkey_create C e_k = Some pk"
    and "mweb_kernel_sig_hash C (kp_features p) (Some (ko_excess_kG outs)) (kp_fee p)
           (kp_pegin_amount p) (kp_pegouts p) (kp_lock_height p)
           (if kp_stealth_key p = None then None else Some (ko_stealth_excess_G outs))
           (kp_extra_data p) = ok hash"
    and "kernel_sig_key C e_k (pubkey_compressed C pk)
           (map_option (\<lambda>k. (k, ko_stealth_excess_G outs)) (kp_stealth_key p)) = Some sig_key"
    and "mweb_schnorr_sign C (mok AllocSchnorr 0) sig_key hash (replicate 64 0)
           = (True, ko_signature outs)"
    and "kernel_tx_offset mok e_k ins rt = Some (ko_tx_offset_final outs)"
    and "kernel_stealth_offset mok (kp_stealth_key p) ins rs = Some (ko_stealth_offset_final outs)"
    and "\<And>k. kp_stealth_key p = Some k \<Longrightarrow>
           \<exists>spk. pubkey_create C k = Some spk \<and> ko_stealth_excess_G outs = pubkey_compressed C spk"
proof -
  from assms have feat: "kernel_check_features p = ok ()"
    by (auto simp: kernel_steps_def run_simps)
  then have skey: "(if has_bit (kp_features p) MWEB_KERNEL_STEALTH_EXCESS_BIT
      then kp_stealth_key p else None) = kp_stealth_key p"
    by (auto simp: kernel_features_ok_iff)
  from assms obtain ins pk stealth hash sig_key where
      v: "mweb_validate_scalar e_k" and bal: "kernel_check_balance p = ok ()"
    and ins: "array_walk (kp_n_inputs p) (kp_inputs p) = (ok ins :: (mweb_err_t + mweb_input_ctx list) run)"
    and ex: "mweb_pedersen_commit C e_k 0 = Some (ko_excess_kG outs)"
    and pk: "pubkey_create C e_k = Some pk"
    and st: "(case kp_stealth_key p of None \<Rightarrow> ok None
          | Some k \<Rightarrow> seq (need (pubkey_create C k) MWEB_ERR_INTERNAL)
                        (\<lambda>spk. ok (Some (k, pubkey_compressed C spk)))) = ok stealth"
    and h: "mweb_kernel_sig_hash C (kp_features p) (Some (ko_excess_kG outs)) (kp_fee p)
           (kp_pegin_amount p) (kp_pegouts p) (kp_lock_height p) (map_option snd stealth)
           (kp_extra_data p) = ok hash"
    and sk: "kernel_sig_key C e_k (pubkey_compressed C pk) stealth = Some sig_key"
    and sg: "mweb_schnorr_sign C (mok AllocSchnorr 0) sig_key hash (replicate 64 0) = (True, ko_signature outs)"
    and tx: "kernel_tx_offset mok e_k ins rt = Some (ko_tx_offset_final outs)"
    and so: "kernel_stealth_offset mok (kp_stealth_key p) ins rs = Some (ko_stealth_offset_final outs)"
    and se: "ko_stealth_excess_G outs = (case stealth of None \<Rightarrow> replicate 33 0 | Some (_, g) \<Rightarrow> g)"
    unfolding kernel_steps_def Let_def skey run_simps by (auto simp: prod_eq_iff)
  show thesis
  proof (cases "kp_stealth_key p")
    case None
    with st have "stealth = None" by simp
    with None that [OF v feat bal ins ex pk _ _ sg tx so] h sk show thesis by simp
  next
    case (Some k)
    with st obtain spk where spk: "pubkey_create C k = Some spk" "stealth = Some (k, pubkey_compressed C spk)"
      by (auto simp: run_simps)
    with Some se that [OF v feat bal ins ex pk _ _ sg tx so] h sk show thesis by simp
  qed
qed

lemma kernel_tx_offset_value:
  assumes "kernel_tx_offset mok e_k ins rt = Some r"
  shows "int (be_nat r) = (int (be_nat rt) - (\<Sum>i \<leftarrow> ins. int (be_nat (ic_blind i)))
     - int (be_nat e_k)) mod int secp_n"
proof -
  from assms obtain sb t where
      sb: "for_opt (\<lambda>i b acc. mweb_scalar_add_mod_n (mok AllocBlindSum i) acc b) 0
             (map ic_blind ins) (replicate 32 0) = Some sb"
    and t: "mweb_scalar_sub_mod_n (mok AllocTxSub) rt sb = Some t"
    and r: "mweb_scalar_sub_mod_n (mok AllocTxSubEk) t e_k = Some r"
    by (auto simp: kernel_tx_offset_def bind_eq_Some_conv)
  have "int (be_nat sb) mod int secp_n = int (sum_list (map be_nat (map ic_blind ins))) mod int secp_n"
    using scalar.sum_loop_value [OF sb] by (simp flip: zmod_int)
  also have "int (sum_list (map be_nat (map ic_blind ins))) = (\<Sum>i \<leftarrow> ins. int (be_nat (ic_blind i)))"
    by (induction ins) simp_all
  finally have "int (be_nat t) = (int (be_nat rt) - (\<Sum>i \<leftarrow> ins. int (be_nat (ic_blind i)))) mod int secp_n"
    using scalar_sub_Some(2) [OF t] by (metis mod_diff_right_eq)
  then show ?thesis using scalar_sub_Some(2) [OF r] by (simp add: mod_diff_left_eq)
qed

lemma kernel_stealth_offset_value:
  assumes "kernel_stealth_offset mok sk ins rs = Some r"
  shows "int (be_nat r) = (int (be_nat rs) + (\<Sum>i \<leftarrow> ins. int (be_nat (ic_stealth_tweak i)))
     - (case sk of None \<Rightarrow> 0 | Some k \<Rightarrow> int (be_nat k))) mod int secp_n"
proof -
  from assms obtain st t where
      st: "for_opt (\<lambda>i b acc. mweb_scalar_add_mod_n (mok AllocTweakSum i) acc b) 0
             (map ic_stealth_tweak ins) (replicate 32 0) = Some st"
    and t: "mweb_scalar_add_mod_n (mok AllocStealthAdd 0) rs st = Some t"
    and r: "(case sk of None \<Rightarrow> Some t | Some k \<Rightarrow> mweb_scalar_sub_mod_n (mok AllocStealthSub) t k) = Some r"
    by (auto simp: kernel_stealth_offset_def bind_eq_Some_conv)
  have "int (be_nat st) mod int secp_n
      = int (sum_list (map be_nat (map ic_stealth_tweak ins))) mod int secp_n"
    using scalar.sum_loop_value [OF st] by (simp flip: zmod_int)
  also have "int (sum_list (map be_nat (map ic_stealth_tweak ins)))
      = (\<Sum>i \<leftarrow> ins. int (be_nat (ic_stealth_tweak i)))"
    by (induction ins) simp_all
  finally have tv: "int (be_nat t) = (int (be_nat rs) + (\<Sum>i \<leftarrow> ins. int (be_nat (ic_stealth_tweak i))))
      mod int secp_n"
    using scalar_add_value [OF t] by (metis mod_add_right_eq of_nat_add zmod_int)
  show ?thesis
  proof (cases sk)
    case None
    with r tv show ?thesis by simp
  next
    case (Some k)
    with r have "mweb_scalar_sub_mod_n (mok AllocStealthSub) t k = Some r" by simp
    from scalar_sub_Some(2) [OF this] tv Some show ?thesis by (simp add: mod_diff_left_eq)
  qed
qed

lemma draw_scalar_Some:
  "draw_scalar rnd t n = Some e \<longleftrightarrow>
     (\<exists>i < n. e = rnd (t + i) \<and> mweb_validate_scalar e \<and> (\<forall>j < i. \<not> mweb_validate_scalar (rnd (t + j))))"
proof (induction n arbitrary: t)
  case 0
  then show ?case by simp
next
  case (Suc n)
  show ?case
  proof (cases "mweb_validate_scalar (rnd t)")
    case True
    then show ?thesis by (auto simp: less_Suc_eq_0_disj)
  next
    case False
    with Suc.IH [of "Suc t"] show ?thesis
      by (auto simp: Ex_less_Suc2 All_less_Suc2)
  qed
qed

section \<open>What the check stages return\<close>

definition params_inputs :: "kernel_params \<Rightarrow> mweb_input_ctx list" where
  "params_inputs p = (case kp_inputs p of None \<Rightarrow> [] | Some xs \<Rightarrow> take (kp_n_inputs p) xs)"

definition params_outputs :: "kernel_params \<Rightarrow> mweb_output_ctx list" where
  "params_outputs p = (case kp_outputs p of None \<Rightarrow> [] | Some xs \<Rightarrow> take (kp_n_outputs p) xs)"

text \<open>Each array holds as many entries as its count says.\<close>

definition arrays_match :: "kernel_params \<Rightarrow> bool" where
  "arrays_match p \<longleftrightarrow>
     (kp_n_inputs p > 0 \<longrightarrow> (case kp_inputs p of None \<Rightarrow> False | Some xs \<Rightarrow> kp_n_inputs p \<le> length xs)) \<and>
     (kp_n_outputs p > 0 \<longrightarrow> (case kp_outputs p of None \<Rightarrow> False | Some xs \<Rightarrow> kp_n_outputs p \<le> length xs))"

lemma arrays_match_walk:
  assumes "arrays_match p"
  shows "array_walk (kp_n_inputs p) (kp_inputs p) = ok (params_inputs p)"
    and "array_walk (kp_n_outputs p) (kp_outputs p) = ok (params_outputs p)"
  using assms by (auto simp: arrays_match_def array_walk_def params_inputs_def params_outputs_def
      split: option.splits)

lemma array_walk_inputs: "array_walk (kp_n_inputs p) (kp_inputs p) = ok xs \<Longrightarrow> xs = params_inputs p"
  by (auto simp: array_walk_ok_iff params_inputs_def split: option.splits)

lemma array_walk_outputs: "array_walk (kp_n_outputs p) (kp_outputs p) = ok xs \<Longrightarrow> xs = params_outputs p"
  by (auto simp: array_walk_ok_iff params_outputs_def split: option.splits)

definition kernel_balanced :: "kernel_params \<Rightarrow> bool" where
  "kernel_balanced p \<longleftrightarrow> (has_bit (kp_features p) MWEB_KERNEL_PEGOUT_BIT \<longrightarrow> pegouts_parse p)
    \<and> kernel_value_in p (params_inputs p) = kernel_value_out p (params_outputs p)
    \<and> kernel_value_out p (params_outputs p) < 2 ^ 64"

lemma kernel_balance_cases:
  assumes "arrays_match p"
  shows "kernel_check_balance p = (if kernel_balanced p then ok () else fail MWEB_ERR_BALANCE_FAIL)"
proof (cases "kernel_check_balance p = ok ()")
  case True
  then show ?thesis using kernel_balance_ok [OF arrays_match_walk [OF assms]] by (simp add: kernel_balanced_def)
next
  case False
  have "kernel_check_balance p \<noteq> Crash" "kernel_check_balance p \<noteq> Undef"
    "\<And>e. kernel_check_balance p = fail e \<Longrightarrow> e = MWEB_ERR_BALANCE_FAIL"
    unfolding kernel_check_balance_def run_simps arrays_match_walk [OF assms]
    by (auto simp: run_simps arrays_match_walk [OF assms])
  with False have "kernel_check_balance p = fail MWEB_ERR_BALANCE_FAIL"
    by (metis old.unit.exhaust run.exhaust sum.exhaust)
  moreover have "\<not> kernel_balanced p"
    using False kernel_balance_ok [OF arrays_match_walk [OF assms]] by (simp add: kernel_balanced_def)
  ultimately show ?thesis by simp
qed

lemma kernel_balance_ok_balanced:
  assumes "kernel_check_balance p = ok ()"
  shows "kernel_balanced p"
proof -
  from assms obtain ins outs where w: "array_walk (kp_n_inputs p) (kp_inputs p) = (ok ins :: (mweb_err_t + mweb_input_ctx list) run)"
    "array_walk (kp_n_outputs p) (kp_outputs p) = (ok outs :: (mweb_err_t + mweb_output_ctx list) run)"
    unfolding kernel_check_balance_def run_simps by auto
  show ?thesis
    using assms kernel_balance_ok [OF w] array_walk_inputs [OF w(1)] array_walk_outputs [OF w(2)]
    by (simp add: kernel_balanced_def)
qed

text \<open>The feature check reports one of three codes.\<close>

lemma kernel_features_total:
  "kernel_check_features p = ok () \<or> (\<exists>e. kernel_check_features p = fail e \<and>
     e \<in> {MWEB_ERR_KERNEL_FEATURE_MISMATCH, MWEB_ERR_MISSING_STEALTH_SCALAR, MWEB_ERR_INVALID_SCALAR})"
  by (simp add: kernel_check_features_def Let_def check_def)

text \<open>With the arguments in place the entry point is the step function and its cleanup.\<close>

lemma sign_kernel_with_ek_steps:
  assumes "mweb_sign_kernel_with_ek C mok (Some e_k) (Some p) (Some buf) = Ret (err, out)"
    and "err \<notin> {MWEB_ERR_INTERNAL}"
  obtains rt rs where "kp_received_tx_offset p = Some rt" and "kp_received_stealth_offset p = Some rs"
    and "secp_ctx C"
    and "(\<exists>k. kernel_steps C mok e_k p rt rs = ok k \<and> err = MWEB_OK \<and> out = Some k)
      \<or> kernel_steps C mok e_k p rt rs = fail err \<and> out = Some zero_outs"
  using assms by (auto simp: mweb_sign_kernel_with_ek_def split: option.splits if_splits run.splits sum.splits)

lemma kernel_steps_not_ok: "kernel_steps C mok e_k p rt rs \<noteq> fail MWEB_OK"
proof -
  have "kernel_check_features p \<noteq> fail MWEB_OK" using kernel_features_total [of p] by auto
  moreover have "kernel_check_balance p \<noteq> fail MWEB_OK"
    unfolding kernel_check_balance_def run_simps by (auto simp: run_simps)
  ultimately show ?thesis
    unfolding kernel_steps_def Let_def run_simps by (auto simp: run_simps split: option.splits)
qed

lemma sign_kernel_with_ek_ok:
  assumes "mweb_sign_kernel_with_ek C mok (Some e_k) (Some p) out = Ret (MWEB_OK, r)"
  obtains rt rs k where "kp_received_tx_offset p = Some rt" and "kp_received_stealth_offset p = Some rs"
    and "secp_ctx C" and "kernel_steps C mok e_k p rt rs = ok k" and "r = Some k"
proof (cases out)
  case None
  with assms show thesis by (simp add: mweb_sign_kernel_with_ek_def)
next
  case (Some buf)
  show thesis
    by (rule sign_kernel_with_ek_steps [OF assms [unfolded Some]])
      (use kernel_steps_not_ok that in blast)+
qed

lemma sign_kernel_ok:
  assumes "mweb_sign_kernel C mok rnd (Some p) out = Ret (MWEB_OK, r)"
  obtains e_k rt rs k where "draw_scalar rnd 0 8 = Some e_k"
    and "kp_received_tx_offset p = Some rt" and "kp_received_stealth_offset p = Some rs"
    and "secp_ctx C" and "kernel_steps C mok e_k p rt rs = ok k" and "r = Some k"
  using assms by (auto simp: mweb_sign_kernel_def split: option.splits elim!: sign_kernel_with_ek_ok)

text \<open>A run with a complete library, enough memory and sound arguments succeeds.\<close>

lemma kernel_message_total:
  assumes "\<forall>val \<in> set (pegout_list f pegouts). pegout_decoded val \<noteq> None"
  shows "\<exists>m. kernel_message f x fee pegin pegouts lock st ed = ok m"
proof -
  have loop: "\<exists>r. for_run (\<lambda>_ val acc. seq (pegout_chunk val) (\<lambda>c. ok (acc @ c))) i items acc = ok r"
    if "\<forall>val \<in> set items. pegout_decoded val \<noteq> None" for i items acc
    using that
  proof (induction items arbitrary: i acc)
    case Nil
    then show ?case by simp
  next
    case (Cons v items)
    then obtain ps where "pegout_decoded v = Some ps" by auto
    then have "pegout_chunk v = ok (pegout_encode ps)" by (simp add: pegout_chunk_ok_iff)
    with Cons show ?case by simp
  qed
  show ?thesis
  proof (cases "has_bit f MWEB_KERNEL_PEGOUT_BIT")
    case True
    then show ?thesis
      using loop [OF assms, of 0 "mweb_write_compact_size (of_nat (length (pegout_list f pegouts)))"]
      by (simp add: kernel_message_def run_simps pegout_list_def Let_def)
  next
    case False
    then show ?thesis by (simp add: kernel_message_def run_simps)
  qed
qed

lemma scalar_sub_total: "\<exists>c. mweb_scalar_sub_mod_n (\<lambda>_. True) a b = Some c"
  by (simp add: mweb_scalar_sub_mod_n_def mweb_scalar_neg_mod_n_def mweb_scalar_add_mod_n_def)

lemma kernel_offsets_total:
  "\<exists>r. kernel_tx_offset (\<lambda>_ _. True) e_k ins rt = Some r"
  "\<exists>r. kernel_stealth_offset (\<lambda>_ _. True) sk ins rs = Some r"
proof -
  obtain s t where "for_opt (\<lambda>_ b acc. mweb_scalar_add_mod_n True acc b) 0 (map ic_blind ins) (replicate 32 0) = Some s"
    "for_opt (\<lambda>_ b acc. mweb_scalar_add_mod_n True acc b) 0 (map ic_stealth_tweak ins) (replicate 32 0) = Some t"
    using scalar.sum_loop_total by blast
  then show "\<exists>r. kernel_tx_offset (\<lambda>_ _. True) e_k ins rt = Some r"
    "\<exists>r. kernel_stealth_offset (\<lambda>_ _. True) sk ins rs = Some r"
    using scalar_sub_total scalar_add_total
    by (auto simp: kernel_tx_offset_def kernel_stealth_offset_def mweb_scalar_sub_mod_n_def
        mweb_scalar_neg_mod_n_def mweb_scalar_add_mod_n_def split: option.splits)
qed

lemma kernel_steps_total:
  assumes C: "crypto_total C" and e: "mweb_validate_scalar e_k" and f: "kernel_check_features p = ok ()"
    and a: "arrays_match p" and b: "kernel_balanced p"
    and d: "\<forall>val \<in> set (pegout_list (kp_features p) (kp_pegouts p)). pegout_decoded val \<noteq> None"
  shows "\<exists>k. kernel_steps C (\<lambda>_ _. True) e_k p rt rs = ok k"
proof -
  from C have t: "secp_ctx C" "\<exists>b. pubkey_create C x = Some b" "\<exists>c. seckey_tweak_add C x y = Some c"
    "\<exists>c. seckey_tweak_mul C x y = Some c" "\<exists>c. pedersen_commit C x v = Some c" for x y v
    unfolding crypto_total_def by blast+
  have pc: "\<exists>c. mweb_pedersen_commit C e_k 0 = Some c"
    using t(1) t(5) [of e_k 0] by (auto simp: mweb_pedersen_commit_def)
  have key: "\<exists>k. kernel_sig_key C e_k x s = Some k" for x s
  proof (cases s)
    case (Some kg)
    obtain u where "seckey_tweak_mul C e_k (blake3 C (x @ snd kg)) = Some u" using t(4) by blast
    moreover obtain w where "seckey_tweak_add C u (fst kg) = Some w" using t(3) by blast
    ultimately show ?thesis using Some by (cases kg) (simp add: kernel_sig_key_def)
  qed (simp add: kernel_sig_key_def)
  have hash: "\<exists>h. mweb_kernel_sig_hash C (kp_features p) (Some x) (kp_fee p) (kp_pegin_amount p)
      (kp_pegouts p) (kp_lock_height p) se (kp_extra_data p) = ok h" for x se
    using kernel_message_total [OF d] by (auto simp: mweb_kernel_sig_hash_def run_simps)
  obtain ex pk where ex: "mweb_pedersen_commit C e_k 0 = Some ex" and pk: "pubkey_create C e_k = Some pk"
    using pc t(2) by blast
  let ?sk = "if has_bit (kp_features p) MWEB_KERNEL_STEALTH_EXCESS_BIT then kp_stealth_key p else None"
  obtain st where st: "(case ?sk of None \<Rightarrow> ok None
          | Some k \<Rightarrow> seq (need (pubkey_create C k) MWEB_ERR_INTERNAL)
                        (\<lambda>spk. ok (Some (k, pubkey_compressed C spk)))) = (ok st :: (mweb_err_t + (bytes \<times> bytes) option) run)"
  proof (cases ?sk)
    case None
    then show thesis using that by simp
  next
    case (Some k)
    moreover obtain spk where "pubkey_create C k = Some spk" using t(2) by blast
    ultimately show thesis using that by simp
  qed
  obtain h where h: "mweb_kernel_sig_hash C (kp_features p) (Some ex) (kp_fee p) (kp_pegin_amount p)
      (kp_pegouts p) (kp_lock_height p) (map_option snd st) (kp_extra_data p) = ok h" using hash by blast
  obtain sk where sk: "kernel_sig_key C e_k (pubkey_compressed C pk) st = Some sk" using key by blast
  obtain sg where sg: "mweb_schnorr_sign C True sk h (replicate 64 0) = (True, sg)"
    using schnorr_total [OF C] by blast
  obtain tx so where off: "kernel_tx_offset (\<lambda>_ _. True) e_k (params_inputs p) rt = Some tx"
    "kernel_stealth_offset (\<lambda>_ _. True) ?sk (params_inputs p) rs = Some so"
    using kernel_offsets_total by meson
  show ?thesis
    by (simp only: kernel_steps_def Let_def e f kernel_balance_cases [OF a] b arrays_match_walk(1) [OF a]
        ex pk st h sk sg off seq_simps check_simps need_simps if_True fst_conv or_err_def run.case sum.case) simp
qed

section \<open>A signing request for the examples\<close>

text \<open>One input of value 10, one output of value 4, a fee of 1 and a pegout of 5.\<close>

definition demo_kernel :: kernel_params where
  "demo_kernel = \<lparr>
     kp_inputs = Some [\<lparr>ic_value = 10, ic_blind = one32, ic_stealth_tweak = one32\<rparr>],
     kp_n_inputs = 1,
     kp_outputs = Some [\<lparr>oc_value = 4, oc_blind = one32\<rparr>],
     kp_n_outputs = 1,
     kp_features = 0x05,
     kp_fee = Some 1,
     kp_pegin_amount = None,
     kp_lock_height = None,
     kp_pegouts = Some [encode_pegout 5 [0x51]],
     kp_extra_data = None,
     kp_stealth_key = None,
     kp_received_tx_offset = Some (replicate 32 0),
     kp_received_stealth_offset = Some (replicate 32 0)\<rparr>"

lemma demo_pegout:
  "parse_pegout_value (encode_pegout 5 [0x51]) = Some \<lparr>pv_amount = 5, pv_script_off = 9, pv_script_len = 1\<rparr>"
  "pegout_decoded (encode_pegout 5 [0x51]) = Some (5, [0x51])"
proof -
  show p: "parse_pegout_value (encode_pegout 5 [0x51]) = Some \<lparr>pv_amount = 5, pv_script_off = 9, pv_script_len = 1\<rparr>"
    using parse_encode_pegout [of "[0x51]" 5] by (simp add: mweb_write_compact_size_def)
  show "pegout_decoded (encode_pegout 5 [0x51]) = Some (5, [0x51])"
    using pegout_script_encode [OF _ p] p by (simp add: pegout_decoded_def)
qed

lemma demo_kernel_steps: "\<exists>k. kernel_steps log_crypto (\<lambda>_ _. True) one32 demo_kernel rt rs = ok k"
proof (rule kernel_steps_total [OF log_crypto_total])
  show "kernel_check_features demo_kernel = ok ()"
    by (simp add: kernel_features_ok_iff demo_kernel_def has_bit_def MWEB_KERNEL_FEE_BIT_def
        MWEB_KERNEL_PEGIN_BIT_def MWEB_KERNEL_PEGOUT_BIT_def MWEB_KERNEL_HEIGHT_LOCK_BIT_def
        MWEB_KERNEL_STEALTH_EXCESS_BIT_def MWEB_KERNEL_EXTRA_DATA_BIT_def)
  show "arrays_match demo_kernel" by (simp add: arrays_match_def demo_kernel_def)
  show "kernel_balanced demo_kernel"
    by (simp add: kernel_balanced_def demo_kernel_def pegouts_parse_def demo_pegout kernel_value_in_def
        kernel_value_out_def params_inputs_def params_outputs_def opt_value_def pegout_total_def
        pegout_amount_def has_bit_def MWEB_KERNEL_PEGOUT_BIT_def)
  show "\<forall>val \<in> set (pegout_list (kp_features demo_kernel) (kp_pegouts demo_kernel)). pegout_decoded val \<noteq> None"
  proof
    fix val
    assume "val \<in> set (pegout_list (kp_features demo_kernel) (kp_pegouts demo_kernel))"
    moreover have "kp_pegouts demo_kernel = Some [encode_pegout 5 [0x51]]" by (simp add: demo_kernel_def)
    ultimately have "val \<in> set [encode_pegout 5 [0x51]]"
      by (cases "has_bit (kp_features demo_kernel) MWEB_KERNEL_PEGOUT_BIT") (simp_all only: pegout_list_def
          if_True if_False option.case list.set empty_iff)
    then have "val = encode_pegout 5 [0x51]" by simp
    then show "pegout_decoded val \<noteq> None" by (simp only: demo_pegout) simp
  qed
qed simp

lemma demo_kernel_ok:
  "\<exists>k. mweb_sign_kernel log_crypto (\<lambda>_ _. True) (\<lambda>_. one32) (Some demo_kernel) (Some zero_outs)
     = Ret (MWEB_OK, Some k)"
proof -
  obtain k where "kernel_steps log_crypto (\<lambda>_ _. True) one32 demo_kernel (replicate 32 0) (replicate 32 0) = ok k"
    using demo_kernel_steps by blast
  moreover have "draw_scalar (\<lambda>_. one32) 0 8 = Some one32"
    by (simp add: numeral_eq_Suc)
  moreover have "kp_received_tx_offset demo_kernel = Some (replicate 32 0)"
    "kp_received_stealth_offset demo_kernel = Some (replicate 32 0)" "kp_inputs demo_kernel \<noteq> None"
    "kp_outputs demo_kernel \<noteq> None" "secp_ctx log_crypto"
    by (simp_all add: demo_kernel_def log_crypto_def)
  ultimately show ?thesis by (auto simp: mweb_sign_kernel_def mweb_sign_kernel_with_ek_def)
qed

section \<open>Properties\<close>

text \<open>C25: A signed kernel balances. When \<^verbatim>\<open>mweb_sign_kernel\<close> returns \<^verbatim>\<open>MWEB_OK\<close>, the
  values of the inputs plus the pegin equal the values of the outputs plus the fee plus
  the amounts of all pegouts, over the natural numbers and below 2^64: no wrap of the
  64-bit sums can hide a difference. The optional fields are present exactly when their
  feature bits are set.\<close>

theorem kernel_ok_balance:
  assumes "mweb_sign_kernel C mok rnd (Some p) out = Ret (MWEB_OK, r)"
  shows "sum_list (map (unat \<circ> ic_value) (params_inputs p)) + opt_value (kp_pegin_amount p)
      = sum_list (map (unat \<circ> oc_value) (params_outputs p)) + opt_value (kp_fee p)
        + pegout_total (kp_pegouts p)
    \<and> sum_list (map (unat \<circ> oc_value) (params_outputs p)) + opt_value (kp_fee p)
        + pegout_total (kp_pegouts p) < 2 ^ 64
    \<and> pegouts_parse p \<and> kernel_check_features p = ok ()"
proof -
  from assms obtain e_k rt rs k where k: "kernel_steps C mok e_k p rt rs = ok k"
    by (rule sign_kernel_ok)
  from k have b: "kernel_balanced p" and f: "kernel_check_features p = ok ()"
    by (rule kernel_steps_ok, simp add: kernel_balance_ok_balanced)+
  show ?thesis
  proof (cases "has_bit (kp_features p) MWEB_KERNEL_PEGOUT_BIT")
    case True
    with b f show ?thesis by (simp add: kernel_balanced_def kernel_value_in_def kernel_value_out_def)
  next
    case False
    with f have "kp_pegouts p = None \<or> kp_pegouts p = Some []" by (cases "kp_pegouts p") (auto simp: kernel_features_ok_iff)
    then have "pegout_total (kp_pegouts p) = 0" "pegouts_parse p"
      by (auto simp: pegout_total_def pegouts_parse_def)
    with False b f show ?thesis by (simp add: kernel_balanced_def kernel_value_in_def kernel_value_out_def)
  qed
qed

theorem kernel_ok_balance_witness:
  "sum_list (map (unat \<circ> ic_value) (params_inputs demo_kernel)) + opt_value (kp_pegin_amount demo_kernel)
     = sum_list (map (unat \<circ> oc_value) (params_outputs demo_kernel)) + opt_value (kp_fee demo_kernel)
       + pegout_total (kp_pegouts demo_kernel)
   \<and> kp_pegouts demo_kernel \<noteq> None"
proof -
  obtain k where "mweb_sign_kernel log_crypto (\<lambda>_ _. True) (\<lambda>_. one32) (Some demo_kernel) (Some zero_outs)
     = Ret (MWEB_OK, Some k)" using demo_kernel_ok by blast
  from kernel_ok_balance [OF this] show ?thesis by (simp add: demo_kernel_def)
qed

text \<open>C28: The offsets of a signed kernel. With \<^verbatim>\<open>e_k\<close> the first valid scalar among the
  (at most eight) draws, the transaction offset is the received one minus the input
  blinds minus \<^verbatim>\<open>e_k\<close>, and the stealth offset is the received one plus the input stealth
  tweaks minus the stealth key, each modulo the group order.\<close>

theorem kernel_ok_offsets:
  assumes "mweb_sign_kernel C mok rnd (Some p) out = Ret (MWEB_OK, r)"
  shows "\<exists>i e_k rt rs k. i < 8 \<and> e_k = rnd i \<and> mweb_validate_scalar e_k
    \<and> (\<forall>j < i. \<not> mweb_validate_scalar (rnd j))
    \<and> kp_received_tx_offset p = Some rt \<and> kp_received_stealth_offset p = Some rs \<and> r = Some k
    \<and> int (be_nat (ko_tx_offset_final k))
        = (int (be_nat rt) - (\<Sum>i \<leftarrow> params_inputs p. int (be_nat (ic_blind i))) - int (be_nat e_k)) mod int secp_n
    \<and> int (be_nat (ko_stealth_offset_final k))
        = (int (be_nat rs) + (\<Sum>i \<leftarrow> params_inputs p. int (be_nat (ic_stealth_tweak i)))
           - (case kp_stealth_key p of None \<Rightarrow> 0 | Some s \<Rightarrow> int (be_nat s))) mod int secp_n"
proof -
  from assms obtain e_k rt rs k where e: "draw_scalar rnd 0 8 = Some e_k"
    and o: "kp_received_tx_offset p = Some rt" "kp_received_stealth_offset p = Some rs" "r = Some k"
    and k: "kernel_steps C mok e_k p rt rs = ok k" by (rule sign_kernel_ok)
  from k have t: "kernel_tx_offset mok e_k (params_inputs p) rt = Some (ko_tx_offset_final k)"
    and s: "kernel_stealth_offset mok (kp_stealth_key p) (params_inputs p) rs = Some (ko_stealth_offset_final k)"
    by (rule kernel_steps_ok, use array_walk_inputs in metis)+
  from e obtain i where "i < 8" "e_k = rnd i" "mweb_validate_scalar e_k" "\<forall>j < i. \<not> mweb_validate_scalar (rnd j)"
    by (auto simp: draw_scalar_Some)
  with o kernel_tx_offset_value [OF t] kernel_stealth_offset_value [OF s] show ?thesis by blast
qed

theorem kernel_ok_offsets_witness:
  "\<exists>k. mweb_sign_kernel log_crypto (\<lambda>_ _. True) (\<lambda>_. one32) (Some demo_kernel) (Some zero_outs)
      = Ret (MWEB_OK, Some k)
    \<and> int (be_nat (ko_tx_offset_final k)) = (- 2) mod int secp_n
    \<and> be_nat (ko_stealth_offset_final k) = 1"
proof -
  obtain k where k: "mweb_sign_kernel log_crypto (\<lambda>_ _. True) (\<lambda>_. one32) (Some demo_kernel) (Some zero_outs)
     = Ret (MWEB_OK, Some k)" using demo_kernel_ok by blast
  from kernel_ok_offsets [OF this] have "int (be_nat (ko_tx_offset_final k)) = (- 2) mod int secp_n"
    "int (be_nat (ko_stealth_offset_final k)) = 1 mod int secp_n"
    by (auto simp: demo_kernel_def params_inputs_def)
  with k show ?thesis by (auto simp: secp_n_value)
qed

text \<open>C29: The signature of a signed kernel is the Schnorr signature, under the key
  \<^verbatim>\<open>e_k * tweak + stealth_key\<close> (or \<^verbatim>\<open>e_k\<close> without a stealth excess), of the hash of the
  kernel message: its first half is the x coordinate of the nonce point and its second
  half \<^verbatim>\<open>s\<close> satisfies \<^verbatim>\<open>s = e * key + k\<close> (with \<^verbatim>\<open>-k\<close> when the y coordinate is not a
  square) modulo the group order.\<close>

theorem kernel_ok_signature:
  assumes "mweb_sign_kernel C mok rnd (Some p) out = Ret (MWEB_OK, r)" and "seckey_laws C"
  shows "\<exists>e_k k ek hash key R pk s. draw_scalar rnd 0 8 = Some e_k \<and> r = Some k
    \<and> pubkey_create C e_k = Some ek
    \<and> be_nat key mod secp_n = (case kp_stealth_key p of None \<Rightarrow> be_nat e_k
        | Some sk \<Rightarrow> be_nat e_k * be_nat (blake3 C (pubkey_compressed C ek @ ko_stealth_excess_G k)) + be_nat sk)
        mod secp_n
    \<and> mweb_kernel_sig_hash C (kp_features p) (Some (ko_excess_kG k)) (kp_fee p) (kp_pegin_amount p)
        (kp_pegouts p) (kp_lock_height p)
        (if kp_stealth_key p = None then None else Some (ko_stealth_excess_G k)) (kp_extra_data p) = ok hash
    \<and> pubkey_create C (mbedtls_sha256 C (key @ hash)) = Some R \<and> pubkey_create C key = Some pk
    \<and> ko_signature k = take 32 (drop 1 (pubkey_uncompressed C R)) @ s \<and> length s = 32
    \<and> int (be_nat s) = (int (be_nat (mbedtls_sha256 C
           (take 32 (drop 1 (pubkey_uncompressed C R)) @ pubkey_compressed C pk @ hash))) * int (be_nat key)
         + nonce_sign C R * int (be_nat (mbedtls_sha256 C (key @ hash)))) mod int secp_n"
proof -
  from assms(1) obtain e_k rt rs k where e: "draw_scalar rnd 0 8 = Some e_k" and r: "r = Some k"
    and k: "kernel_steps C mok e_k p rt rs = ok k" by (rule sign_kernel_ok)
  from k obtain ek hash key where ek: "pubkey_create C e_k = Some ek"
    and hash: "mweb_kernel_sig_hash C (kp_features p) (Some (ko_excess_kG k)) (kp_fee p) (kp_pegin_amount p)
        (kp_pegouts p) (kp_lock_height p)
        (if kp_stealth_key p = None then None else Some (ko_stealth_excess_G k)) (kp_extra_data p) = ok hash"
    and key: "kernel_sig_key C e_k (pubkey_compressed C ek)
           (map_option (\<lambda>sk. (sk, ko_stealth_excess_G k)) (kp_stealth_key p)) = Some key"
    and sg: "mweb_schnorr_sign C (mok AllocSchnorr 0) key hash (replicate 64 0) = (True, ko_signature k)"
    by (rule kernel_steps_ok)
  have kv: "be_nat key mod secp_n = (case kp_stealth_key p of None \<Rightarrow> be_nat e_k
        | Some sk \<Rightarrow> be_nat e_k * be_nat (blake3 C (pubkey_compressed C ek @ ko_stealth_excess_G k)) + be_nat sk)
        mod secp_n"
  proof (cases "kp_stealth_key p")
    case None
    with key show ?thesis by (simp add: kernel_sig_key_def)
  next
    case (Some sk)
    with key obtain u where "seckey_tweak_mul C e_k (blake3 C (pubkey_compressed C ek @ ko_stealth_excess_G k)) = Some u"
      "seckey_tweak_add C u sk = Some key"
      by (auto simp: kernel_sig_key_def bind_eq_Some_conv)
    with assms(2) have "be_nat u = be_nat e_k * be_nat (blake3 C (pubkey_compressed C ek @ ko_stealth_excess_G k)) mod secp_n"
      "be_nat key = (be_nat u + be_nat sk) mod secp_n"
      unfolding seckey_laws_def by blast+
    with Some show ?thesis by (simp add: mod_add_left_eq)
  qed
  from mweb_schnorr_sign_cases [OF sg] have st: "schnorr_steps C (mok AllocSchnorr 0) key hash = Some (ko_signature k)"
    by simp
  from schnorr_steps_Some [OF st assms(2)] show ?thesis using e r ek kv hash by metis
qed

theorem kernel_ok_signature_witness:
  "\<exists>k s. mweb_sign_kernel log_crypto (\<lambda>_ _. True) (\<lambda>_. one32) (Some demo_kernel) (Some zero_outs)
      = Ret (MWEB_OK, Some k) \<and> ko_signature k = one32 @ s \<and> be_nat s = 2"
proof -
  obtain k where k: "mweb_sign_kernel log_crypto (\<lambda>_ _. True) (\<lambda>_. one32) (Some demo_kernel) (Some zero_outs)
     = Ret (MWEB_OK, Some k)" using demo_kernel_ok by blast
  have one: "scalar_bytes (be_nat one32) = one32"
    by (rule be_nat_inj [THEN iffD1]) (simp_all add: secp_n_value)
  have sign: "nonce_sign log_crypto one32 = 1"
    by (simp add: nonce_sign_def log_crypto_def SECP256K1_FIELD_PRIME_def be_nat_Cons)
  from kernel_ok_signature [OF k log_crypto_seckey_laws] obtain key s where
      key: "be_nat key mod secp_n = 1 mod secp_n" and sig: "ko_signature k = one32 @ s"
    and s: "int (be_nat s) = (int (be_nat key) + 1) mod int secp_n"
    using one sign by (auto simp: demo_kernel_def draw_scalar_Some) (simp add: log_crypto_def)
  have "int (be_nat s) = int ((be_nat key + 1) mod secp_n)" using s by (simp add: zmod_int add.commute)
  then have "be_nat s = (be_nat key + 1) mod secp_n" by (simp only: of_nat_eq_iff)
  also have "\<dots> = (1 + 1) mod secp_n" using key by (metis mod_add_left_eq)
  finally show ?thesis using k sig by (auto simp: secp_n_value)
qed

text \<open>C30: How the kernel signer fails. With its arguments in place it reports
  \<^verbatim>\<open>INVALID_SCALAR\<close> for an \<^verbatim>\<open>e_k\<close> that is zero or not below the group order, else
  the code of the first violated feature rule, else \<^verbatim>\<open>BALANCE_FAIL\<close> exactly when a pegout
  does not parse, a sum overflows or the totals differ, and otherwise only \<^verbatim>\<open>OK\<close> or
  \<^verbatim>\<open>INTERNAL\<close>; and every failure leaves the caller's outputs zeroed.\<close>

theorem kernel_error_codes:
  assumes "mweb_sign_kernel_with_ek C mok (Some e_k) (Some p) (Some buf) = Ret (err, r)"
    and "kp_received_tx_offset p = Some rt" and "kp_received_stealth_offset p = Some rs"
    and "arrays_match p" and "secp_ctx C"
  shows "(if \<not> mweb_validate_scalar e_k then err = MWEB_ERR_INVALID_SCALAR
      else if kernel_check_features p \<noteq> ok () then kernel_check_features p = fail err
      else if \<not> kernel_balanced p then err = MWEB_ERR_BALANCE_FAIL
      else err \<in> {MWEB_OK, MWEB_ERR_INTERNAL})
    \<and> (err \<noteq> MWEB_OK \<longrightarrow> r = Some zero_outs)"
proof -
  have null: "\<not> (kp_n_inputs p > 0 \<and> kp_inputs p = None)" "\<not> (kp_n_outputs p > 0 \<and> kp_outputs p = None)"
    using assms(4) by (auto simp: arrays_match_def)
  let ?s = "kernel_steps C mok e_k p rt rs"
  from assms null have run: "(\<exists>k. ?s = ok k \<and> err = MWEB_OK) \<or> ?s = fail err \<and> r = Some zero_outs"
    unfolding mweb_sign_kernel_with_ek_def
    by (cases ?s) (auto split: if_splits sum.splits)
  have bal: "kernel_check_balance p = (if kernel_balanced p then ok () else fail MWEB_ERR_BALANCE_FAIL)"
    by (rule kernel_balance_cases [OF assms(4)])
  have walk: "array_walk (kp_n_inputs p) (kp_inputs p) = ok (params_inputs p)"
    by (rule arrays_match_walk [OF assms(4)])
  have codes: "if \<not> mweb_validate_scalar e_k then e = MWEB_ERR_INVALID_SCALAR
      else if kernel_check_features p \<noteq> ok () then kernel_check_features p = fail e
      else if \<not> kernel_balanced p then e = MWEB_ERR_BALANCE_FAIL
      else e = MWEB_ERR_INTERNAL" if f: "?s = fail e" for e
  proof -
    consider "\<not> mweb_validate_scalar e_k" | e' where "mweb_validate_scalar e_k" "kernel_check_features p = fail e'"
      | "mweb_validate_scalar e_k" "kernel_check_features p = ok ()" "\<not> kernel_balanced p"
      | "mweb_validate_scalar e_k" "kernel_check_features p = ok ()" "kernel_balanced p"
      using kernel_features_total [of p] by blast
    then show ?thesis
    proof cases
      case 4
      with f bal walk have "e = MWEB_ERR_INTERNAL"
        unfolding kernel_steps_def Let_def by (auto simp: run_simps split: option.splits)
      with 4 show ?thesis by simp
    qed (use f bal in \<open>simp_all add: kernel_steps_def\<close>)
  qed
  show ?thesis
  proof (cases "err = MWEB_OK")
    case True
    with run kernel_steps_not_ok have "\<exists>k. ?s = ok k" by blast
    then obtain k where "?s = ok k" ..
    then have "mweb_validate_scalar e_k" "kernel_check_features p = ok ()" "kernel_balanced p"
      by (rule kernel_steps_ok, simp add: kernel_balance_ok_balanced)+
    with True show ?thesis by simp
  next
    case False
    with run have f: "?s = fail err" "r = Some zero_outs" by auto
    from codes [OF f(1)] f(2) show ?thesis by (simp split: if_splits)
  qed
qed

theorem kernel_error_codes_witness:
  "mweb_sign_kernel_with_ek log_crypto (\<lambda>_ _. True) (Some one32) (Some (demo_kernel\<lparr>kp_fee := Some 2\<rparr>))
     (Some zero_outs) = Ret (MWEB_ERR_BALANCE_FAIL, Some zero_outs)"
proof -
  define p where "p = demo_kernel\<lparr>kp_fee := Some 2\<rparr>"
  have feat: "kernel_check_features p = ok ()"
    by (simp add: p_def kernel_features_ok_iff demo_kernel_def has_bit_def MWEB_KERNEL_FEE_BIT_def
        MWEB_KERNEL_PEGIN_BIT_def MWEB_KERNEL_PEGOUT_BIT_def MWEB_KERNEL_HEIGHT_LOCK_BIT_def
        MWEB_KERNEL_STEALTH_EXCESS_BIT_def MWEB_KERNEL_EXTRA_DATA_BIT_def)
  have arr: "arrays_match p" by (simp add: p_def arrays_match_def demo_kernel_def)
  have bal: "\<not> kernel_balanced p"
    by (simp add: p_def kernel_balanced_def demo_kernel_def kernel_value_in_def demo_pegout
        kernel_value_out_def params_inputs_def params_outputs_def opt_value_def pegout_total_def
        pegout_amount_def has_bit_def MWEB_KERNEL_PEGOUT_BIT_def)
  have args: "kp_received_tx_offset p = Some (replicate 32 0)" "kp_inputs p \<noteq> None" "kp_outputs p \<noteq> None"
    "kp_received_stealth_offset p = Some (replicate 32 0)" "secp_ctx log_crypto"
    by (simp_all add: p_def demo_kernel_def log_crypto_def)
  have "kernel_steps log_crypto (\<lambda>_ _. True) one32 p (replicate 32 0) (replicate 32 0) = fail MWEB_ERR_BALANCE_FAIL"
    using feat kernel_balance_cases [OF arr] bal by (simp add: kernel_steps_def)
  with args obtain e r where run: "mweb_sign_kernel_with_ek log_crypto (\<lambda>_ _. True) (Some one32) (Some p)
     (Some zero_outs) = Ret (e, r)" by (auto simp: mweb_sign_kernel_with_ek_def)
  from kernel_error_codes [OF run args(1,4) arr args(5)] feat bal have "e = MWEB_ERR_BALANCE_FAIL" "r = Some zero_outs"
    by simp_all
  with run show ?thesis by (simp add: p_def)
qed

text \<open>C27: The kernel message commits to the kernel. If two kernels whose optional fields
  match their feature bits have the same message, they have the same features, excess
  commitment, fee, pegin amount, lock height, stealth excess and extra data, and the
  same list of pegout amounts and scripts: no two different kernels are signed by one
  signature, short of a collision of the hash. A null pegout map has no pegouts and null
  extra data is empty. Commitments and stealth excesses are of 33 bytes, the stealth excess
  is present exactly when the stealth key is, and the numbers of pegouts and of bytes of
  extra data fit 64 bits.\<close>

theorem kernel_message_commits:
  assumes "kernel_message (kp_features p) x (kp_fee p) (kp_pegin_amount p) (kp_pegouts p)
      (kp_lock_height p) se (kp_extra_data p) = ok msg"
    and "kernel_message (kp_features q) y (kp_fee q) (kp_pegin_amount q) (kp_pegouts q)
      (kp_lock_height q) sf (kp_extra_data q) = ok msg"
    and "kernel_check_features p = ok ()" and "kernel_check_features q = ok ()"
    and "length x = 33" and "length y = 33"
    and "se = None \<longleftrightarrow> kp_stealth_key p = None" and "sf = None \<longleftrightarrow> kp_stealth_key q = None"
    and "case se of None \<Rightarrow> True | Some g \<Rightarrow> length g = 33"
    and "case sf of None \<Rightarrow> True | Some g \<Rightarrow> length g = 33"
    and "length (items_of (kp_pegouts p)) < 2 ^ 64" and "length (items_of (kp_pegouts q)) < 2 ^ 64"
    and "length (items_of (kp_extra_data p)) < 2 ^ 64" and "length (items_of (kp_extra_data q)) < 2 ^ 64"
  shows "kp_features p = kp_features q \<and> x = y \<and> kp_fee p = kp_fee q
    \<and> kp_pegin_amount p = kp_pegin_amount q \<and> kp_lock_height p = kp_lock_height q \<and> se = sf
    \<and> map pegout_decoded (items_of (kp_pegouts p)) = map pegout_decoded (items_of (kp_pegouts q))
    \<and> items_of (kp_extra_data p) = items_of (kp_extra_data q)"
proof -
  have bits: "fields_match_bits (kp_features p) (kp_fee p) (kp_pegin_amount p) (kp_lock_height p) se"
    "fields_match_bits (kp_features q) (kp_fee q) (kp_pegin_amount q) (kp_lock_height q) sf"
    using assms(3) [unfolded kernel_features_ok_iff] assms(4) [unfolded kernel_features_ok_iff] assms(7-10)
    by (simp_all add: fields_match_bits_def split: option.splits)
  have lists: "pegout_list (kp_features k) (kp_pegouts k) = items_of (kp_pegouts k)"
    "extra_bytes (kp_features k) (kp_extra_data k) = items_of (kp_extra_data k)"
    if "kernel_check_features k = ok ()" for k
    using that by (auto simp: kernel_features_ok_iff pegout_list_def extra_bytes_def items_of_def split: option.splits)
  show ?thesis
    using kernel_message_inj [OF assms(1,2,5,6) bits] assms(11-14) lists [OF assms(3)] lists [OF assms(4)] by simp
qed

theorem kernel_message_commits_witness:
  "\<exists>(p :: kernel_params) (q :: kernel_params) msg. kp_pegouts p = Some [encode_pegout 5 [0x51]]
    \<and> kp_pegouts q = Some [le64 5 @ [0xfd, 1, 0, 0x51]]
    \<and> kernel_message (kp_features p) (replicate 33 1) (kp_fee p) (kp_pegin_amount p) (kp_pegouts p)
        (kp_lock_height p) None (kp_extra_data p) = ok msg
    \<and> kernel_message (kp_features q) (replicate 33 1) (kp_fee q) (kp_pegin_amount q) (kp_pegouts q)
        (kp_lock_height q) None (kp_extra_data q) = ok msg
    \<and> map pegout_decoded [encode_pegout 5 [0x51]] = map pegout_decoded [le64 5 @ [0xfd, 1, 0, 0x51]]"
proof -
  define p where "p = demo_kernel"
  define q where "q = p\<lparr>kp_pegouts := Some [le64 5 @ [0xfd, 1, 0, 0x51]]\<rparr>"
  have chunk: "pegout_decoded (le64 5 @ [0xfd, 1, 0, 0x51]) = Some (5, [0x51])"
  proof -
    let ?v = "le64 5 @ [0xfd, 1, 0, 0x51]"
    have "read_le 8 ?v = 5" unfolding le64_def by (rule read_le_8)
    moreover have "drop 8 ?v = [0xfd, 1, 0, 0x51]" "length ?v = 12" by simp_all
    moreover have "script_header [0xfd, 1, 0, 0x51] = Some (3, 1)"
      by (simp add: script_header_def read_le_def upt_rec)
    ultimately have "parse_pegout_value ?v = Some \<lparr>pv_amount = 5, pv_script_off = 11, pv_script_len = 1\<rparr>"
      by (simp only: parse_pegout_value_def Let_def) simp
    then show ?thesis by (simp add: pegout_decoded_def pegout_script_def)
  qed
  then have "pegout_chunk (le64 5 @ [0xfd, 1, 0, 0x51]) = ok (pegout_encode (5, [0x51]))"
    "pegout_chunk (encode_pegout 5 [0x51]) = ok (pegout_encode (5, [0x51]))"
    by (simp_all add: pegout_chunk_ok_iff demo_pegout)
  note chunks = this
  have bit: "has_bit 5 MWEB_KERNEL_PEGOUT_BIT" "\<not> has_bit 5 MWEB_KERNEL_EXTRA_DATA_BIT"
    by (simp_all add: has_bit_def MWEB_KERNEL_PEGOUT_BIT_def MWEB_KERNEL_EXTRA_DATA_BIT_def)
  obtain msg where m: "kernel_message (kp_features p) (replicate 33 1) (kp_fee p) (kp_pegin_amount p) (kp_pegouts p)
        (kp_lock_height p) None (kp_extra_data p) = ok msg"
    using chunks bit by (simp add: kernel_message_def p_def demo_kernel_def Let_def)
  then have n: "kernel_message (kp_features q) (replicate 33 1) (kp_fee q) (kp_pegin_amount q) (kp_pegouts q)
        (kp_lock_height q) None (kp_extra_data q) = ok msg"
    using chunks bit by (simp add: kernel_message_def q_def p_def demo_kernel_def Let_def)
  have f: "kernel_check_features p = ok ()" "kernel_check_features q = ok ()"
    by (simp_all add: p_def q_def kernel_features_ok_iff demo_kernel_def has_bit_def MWEB_KERNEL_FEE_BIT_def
        MWEB_KERNEL_PEGIN_BIT_def MWEB_KERNEL_PEGOUT_BIT_def MWEB_KERNEL_HEIGHT_LOCK_BIT_def
        MWEB_KERNEL_STEALTH_EXCESS_BIT_def MWEB_KERNEL_EXTRA_DATA_BIT_def)
  have fields: "kp_pegouts p = Some [encode_pegout 5 [0x51]]" "kp_pegouts q = Some [le64 5 @ [0xfd, 1, 0, 0x51]]"
    "kp_extra_data p = None" "kp_extra_data q = None" "kp_stealth_key p = None" "kp_stealth_key q = None"
    by (simp_all add: p_def q_def demo_kernel_def)
  have "map pegout_decoded [encode_pegout 5 [0x51]] = map pegout_decoded [le64 5 @ [0xfd, 1, 0, 0x51]]"
    using kernel_message_commits [OF m n f] fields by simp
  with m n fields(1,2) show ?thesis by blast
qed

end
