(* ===== verification/Mweb_Output.thy ===== *)
theory Mweb_Output
  imports Mweb_Kernel
begin

text \<open>
  \<^verbatim>\<open>src/main/mweb/mweb_output.c\<close> and \<^verbatim>\<open>mweb_rangeproof.c\<close>: the recipient binding of
  an MWEB output, the output message, the range proof call and the complete output
  builder. \<^verbatim>\<open>mweb_built_output\<close> extends \<^verbatim>\<open>mweb_derived_output\<close> as the C structures share
  a prefix. The bulletproof prover belongs to libsecp256k1 and is the record
  \<^verbatim>\<open>bp_lib\<close>; whether the generator table exists yet (the static \<^verbatim>\<open>g_bp_gens\<close>) is passed
  through the calls.
\<close>

section \<open>Data\<close>

definition MWEB_OUTPUT_STANDARD_FIELDS_BIT :: byte where "MWEB_OUTPUT_STANDARD_FIELDS_BIT = 0x01"
definition MWEB_OUTPUT_EXTRA_DATA_BIT :: byte where "MWEB_OUTPUT_EXTRA_DATA_BIT = 0x02"
definition MWEB_OUTPUT_MAX_EXTRA_DATA_LEN :: nat where "MWEB_OUTPUT_MAX_EXTRA_DATA_LEN = 256"
definition MWEB_RANGEPROOF_LEN :: nat where "MWEB_RANGEPROOF_LEN = 675"
definition MWEB_OUTPUT_MESSAGE_MAX_LEN :: nat where
  "MWEB_OUTPUT_MESSAGE_MAX_LEN = 1 + 33 + 1 + 8 + 16 + 9 + MWEB_OUTPUT_MAX_EXTRA_DATA_LEN"

record mweb_derived_output =
  do_blind :: bytes
  do_output_pubkey :: bytes
  do_sender_pubkey :: bytes
  do_key_exchange_pubkey :: bytes
  do_commit :: bytes
  do_view_tag :: byte
  do_masked_value :: u64
  do_masked_nonce :: bytes

record mweb_built_output = mweb_derived_output +
  bo_range_proof :: bytes
  bo_signature :: bytes

definition zero_derived :: mweb_derived_output where
  "zero_derived = \<lparr>do_blind = replicate 32 0, do_output_pubkey = replicate 33 0,
     do_sender_pubkey = replicate 33 0, do_key_exchange_pubkey = replicate 33 0,
     do_commit = replicate 33 0, do_view_tag = 0, do_masked_value = 0,
     do_masked_nonce = replicate 16 0\<rparr>"

definition zero_built :: mweb_built_output where
  "zero_built = \<lparr>do_blind = replicate 32 0, do_output_pubkey = replicate 33 0,
     do_sender_pubkey = replicate 33 0, do_key_exchange_pubkey = replicate 33 0,
     do_commit = replicate 33 0, do_view_tag = 0, do_masked_value = 0,
     do_masked_nonce = replicate 16 0,
     bo_range_proof = replicate MWEB_RANGEPROOF_LEN 0, bo_signature = replicate 64 0\<rparr>"

record bp_lib =
  bp_generators :: bool      \<comment> \<open>\<^verbatim>\<open>secp256k1_bulletproof_generators_create\<close> succeeds\<close>
  bp_scratch :: bool         \<comment> \<open>\<^verbatim>\<open>secp256k1_scratch_space_create\<close> succeeds\<close>
  bp_prove :: "u64 \<Rightarrow> bytes \<Rightarrow> bytes \<Rightarrow> bytes \<Rightarrow> bytes option \<Rightarrow> bytes option"
    \<comment> \<open>value, blind, the two nonces, extra commitment; \<^verbatim>\<open>None\<close> when the call returns 0\<close>

section \<open>The recipient binding\<close>

text \<open>
  The 14 steps of \<^verbatim>\<open>derive_output_binding\<close>. Every failure is \<^verbatim>\<open>MWEB_ERR_INTERNAL\<close>; the
  callers then clear the partially written output.
\<close>

definition derive_output_binding ::
  "crypto \<Rightarrow> bool \<Rightarrow> bytes \<Rightarrow> bytes \<Rightarrow> bytes \<Rightarrow> u64 \<Rightarrow> mweb_derived_output option" where
  "derive_output_binding C mpi_ok sender_key scan_pub_A spend_pub_B value = do {
     let n_16 = take 16 (mweb_hashed C MWEB_TAG_NONCE sender_key);
     let s = mweb_hashed C MWEB_TAG_SENDKEY
               (scan_pub_A @ spend_pub_B @ map (\<lambda>i. ucast (drop_bit (i * 8) value)) [0..<8] @ n_16);
     A_pk \<leftarrow> pubkey_parse C scan_pub_A;
     A_pk \<leftarrow> pubkey_tweak_mul C A_pk s;
     let sA = pubkey_compressed C A_pk;
     let t = mweb_hashed C MWEB_TAG_DERIVE sA;
     let o_scalar = mweb_hashed C MWEB_TAG_OUTKEY t;
     B_pk_Ko \<leftarrow> pubkey_parse C spend_pub_B;
     B_pk_Ko \<leftarrow> pubkey_tweak_mul C B_pk_Ko o_scalar;
     let output_pubkey = pubkey_compressed C B_pk_Ko;
     B_pk_Ke \<leftarrow> pubkey_parse C spend_pub_B;
     B_pk_Ke \<leftarrow> pubkey_tweak_mul C B_pk_Ke s;
     let key_exchange_pubkey = pubkey_compressed C B_pk_Ke;
     let mask_blind = mweb_hashed C MWEB_TAG_BLIND t;
     let y_hash = mweb_hashed C MWEB_TAG_VALUEMASK t;
     let x_hash = mweb_hashed C MWEB_TAG_NONCEMASK t;
     let nonce_mask_16 = take 16 x_hash;
     blind \<leftarrow> mweb_blind_switch C mpi_ok mask_blind value;
     let value_mask = read_le 8 y_hash;
     let masked_nonce = map2 (XOR) n_16 nonce_mask_16;
     commit \<leftarrow> mweb_pedersen_commit C blind value;
     Ks_pk \<leftarrow> pubkey_create C sender_key;
     let sender_pubkey = pubkey_compressed C Ks_pk;
     let tag_hash = mweb_hashed C MWEB_TAG_TAG sA;
     Some \<lparr>do_blind = blind, do_output_pubkey = output_pubkey, do_sender_pubkey = sender_pubkey,
       do_key_exchange_pubkey = key_exchange_pubkey, do_commit = commit,
       do_view_tag = tag_hash ! 0, do_masked_value = value XOR value_mask,
       do_masked_nonce = masked_nonce\<rparr>
   }"

definition mweb_derive_output ::
  "crypto \<Rightarrow> bool \<Rightarrow> bytes option \<Rightarrow> bytes option \<Rightarrow> bytes option \<Rightarrow> u64
    \<Rightarrow> mweb_derived_output option \<Rightarrow> mweb_err_t \<times> mweb_derived_output option" where
  "mweb_derive_output C mpi_ok sender_key scan_pub_A spend_pub_B value out =
     (case out of
        None \<Rightarrow> (MWEB_ERR_INTERNAL, None)
      | Some _ \<Rightarrow>
          (case (sender_key, scan_pub_A, spend_pub_B) of
             (Some sk, Some A, Some B) \<Rightarrow>
               if \<not> mweb_validate_scalar sk then (MWEB_ERR_INVALID_SCALAR, Some zero_derived)
               else if \<not> secp_ctx C then (MWEB_ERR_INTERNAL, Some zero_derived)
               else (case derive_output_binding C mpi_ok sk A B value of
                       None \<Rightarrow> (MWEB_ERR_INTERNAL, Some zero_derived)
                     | Some d \<Rightarrow> (MWEB_OK, Some d))
           | _ \<Rightarrow> (MWEB_ERR_INTERNAL, Some zero_derived)))"

section \<open>The output message\<close>

definition serialize_output_message ::
  "byte \<Rightarrow> bytes \<Rightarrow> byte \<Rightarrow> u64 \<Rightarrow> bytes \<Rightarrow> bytes \<Rightarrow> bytes" where
  "serialize_output_message features key_exchange_pubkey view_tag masked_value masked_nonce extra_data =
     [features]
     @ (if has_bit features MWEB_OUTPUT_STANDARD_FIELDS_BIT then
          key_exchange_pubkey @ [view_tag]
          @ map (\<lambda>i. ucast (drop_bit (i * 8) masked_value)) [0..<8] @ masked_nonce
        else [])
     @ (if has_bit features MWEB_OUTPUT_EXTRA_DATA_BIT then
          mweb_write_compact_size (of_nat (length extra_data)) @ extra_data
        else [])"

section \<open>The range proof\<close>

definition mweb_bulletproof_generators_init :: "crypto \<Rightarrow> bp_lib \<Rightarrow> bool \<Rightarrow> bool run" where
  "mweb_bulletproof_generators_init C L g_bp_gens =
     (if g_bp_gens then Ret True
      else if \<not> secp_ctx C then Crash
      else if \<not> bp_generators L then Crash
      else Ret True)"

text \<open>The results carry the new value of \<^verbatim>\<open>g_bp_gens\<close>. The extra commitment is a pointer
  and a length; reading past a shorter buffer is undefined.\<close>

definition mweb_build_rangeproof_with_nonces ::
  "crypto \<Rightarrow> bp_lib \<Rightarrow> bool \<Rightarrow> u64 \<Rightarrow> bytes \<Rightarrow> bytes \<Rightarrow> bytes \<Rightarrow> bytes option \<Rightarrow> nat
    \<Rightarrow> (bool \<times> (mweb_err_t + bytes)) run" where
  "mweb_build_rangeproof_with_nonces C L gens value blind nonce private_nonce extra_commit extra_commit_len =
     (let extra_commit = (if extra_commit_len = 0 then None else extra_commit) in
      if extra_commit_len \<noteq> 0 \<and> extra_commit = None then Ret (gens, Inl MWEB_ERR_INTERNAL)
      else if \<not> mweb_validate_scalar nonce \<or> \<not> mweb_validate_scalar private_nonce
      then Ret (gens, Inl MWEB_ERR_INTERNAL)
      else then_run (mweb_bulletproof_generators_init C L gens) (\<lambda>gens.
        if \<not> secp_ctx C then Ret (gens, Inl MWEB_ERR_INTERNAL)
        else if \<not> bp_scratch L then Ret (gens, Inl MWEB_ERR_INTERNAL)
        else then_run (read_buf extra_commit_len extra_commit) (\<lambda>data.
          let rc = bp_prove L value blind nonce private_nonce
                     (if extra_commit_len = 0 then None else Some data)
          in (case rc of
                None \<Rightarrow> Ret (gens, Inl MWEB_ERR_INTERNAL)
              | Some proof \<Rightarrow>
                  if length proof \<noteq> MWEB_RANGEPROOF_LEN then Ret (gens, Inl MWEB_ERR_INTERNAL)
                  else Ret (gens, Inr proof)))))"

definition mweb_build_rangeproof ::
  "crypto \<Rightarrow> bp_lib \<Rightarrow> (nat \<Rightarrow> bytes) \<Rightarrow> (nat \<Rightarrow> bytes) \<Rightarrow> bool \<Rightarrow> u64 \<Rightarrow> bytes \<Rightarrow> bytes option \<Rightarrow> nat
    \<Rightarrow> (bool \<times> (mweb_err_t + bytes)) run" where
  "mweb_build_rangeproof C L rnd_nonce rnd_private gens value blind extra_commit extra_commit_len =
     (case draw_scalar rnd_nonce 0 8 of
        None \<Rightarrow> Ret (gens, Inl MWEB_ERR_INTERNAL)
      | Some nonce \<Rightarrow>
          (case draw_scalar rnd_private 0 8 of
             None \<Rightarrow> Ret (gens, Inl MWEB_ERR_INTERNAL)
           | Some private_nonce \<Rightarrow>
               mweb_build_rangeproof_with_nonces C L gens value blind nonce private_nonce
                 extra_commit extra_commit_len))"

section \<open>The output builder\<close>

definition derived_prefix :: "mweb_derived_output \<Rightarrow> mweb_built_output" where
  "derived_prefix d = mweb_derived_output.extend d
     (mweb_built_output.fields (replicate MWEB_RANGEPROOF_LEN 0) (replicate 64 0))"

text \<open>
  \<^verbatim>\<open>nonces\<close> is \<^verbatim>\<open>None\<close> for the two null nonce pointers (the proof then draws from the
  random generator). The result is the new \<^verbatim>\<open>g_bp_gens\<close>, the error code and the caller's
  structure.
\<close>

definition build_output_impl ::
  "crypto \<Rightarrow> bp_lib \<Rightarrow> (nat \<Rightarrow> bool) \<Rightarrow> (nat \<Rightarrow> bytes) \<Rightarrow> (nat \<Rightarrow> bytes) \<Rightarrow> bool
    \<Rightarrow> bytes option \<Rightarrow> bytes option \<Rightarrow> bytes option \<Rightarrow> u64 \<Rightarrow> byte \<Rightarrow> bytes option \<Rightarrow> nat
    \<Rightarrow> (bytes \<times> bytes) option \<Rightarrow> mweb_built_output option
    \<Rightarrow> (bool \<times> mweb_err_t \<times> mweb_built_output option) run" where
  "build_output_impl C L mok rnd_nonce rnd_private gens sender_key scan_pub_A spend_pub_B value
     features extra_data extra_data_len nonces built =
     (if built = None then Ret (gens, MWEB_ERR_INTERNAL, None)
      else case (sender_key, scan_pub_A, spend_pub_B) of
        (Some sk, Some A, Some B) \<Rightarrow>
          if \<not> mweb_validate_scalar sk then Ret (gens, MWEB_ERR_INVALID_SCALAR, Some zero_built)
          else if \<not> has_bit features MWEB_OUTPUT_EXTRA_DATA_BIT \<and> extra_data_len > 0
          then Ret (gens, MWEB_ERR_INTERNAL, Some zero_built)
          else if extra_data_len > 0 \<and> extra_data = None
          then Ret (gens, MWEB_ERR_INTERNAL, Some zero_built)
          else if extra_data_len > MWEB_OUTPUT_MAX_EXTRA_DATA_LEN
          then Ret (gens, MWEB_ERR_INTERNAL, Some zero_built)
          else if \<not> secp_ctx C then Ret (gens, MWEB_ERR_INTERNAL, Some zero_built)
          else (case derive_output_binding C (mok 0) sk A B value of
            None \<Rightarrow> Ret (gens, MWEB_ERR_INTERNAL, Some zero_built)
          | Some binding \<Rightarrow>
            then_run (read_buf extra_data_len extra_data) (\<lambda>extra.
            let msg = serialize_output_message features (do_key_exchange_pubkey binding)
                        (do_view_tag binding) (do_masked_value binding)
                        (do_masked_nonce binding) extra in
            then_run
              (case nonces of
                 Some (bp_nonce, bp_private_nonce) \<Rightarrow>
                   mweb_build_rangeproof_with_nonces C L gens value (do_blind binding)
                     bp_nonce bp_private_nonce (Some msg) (length msg)
               | None \<Rightarrow>
                   mweb_build_rangeproof C L rnd_nonce rnd_private gens value
                     (do_blind binding) (Some msg) (length msg))
              (\<lambda>(gens, proof). case proof of
                 Inl e \<Rightarrow> Ret (gens, e, Some zero_built)
               | Inr range_proof \<Rightarrow>
                   let msg_hash = blake3 C msg;
                       rp_hash = blake3 C range_proof;
                       signed = mweb_sign_output C (mok 1) (Some sk) (Some (do_commit binding))
                         (Some (do_sender_pubkey binding)) (Some (do_output_pubkey binding))
                         (Some msg_hash) (Some rp_hash) (Some (replicate 64 0))
                   in if fst signed = MWEB_OK
                      then Ret (gens, MWEB_OK,
                             Some ((derived_prefix binding)
                               \<lparr>bo_range_proof := range_proof, bo_signature := the (snd signed)\<rparr>))
                      else Ret (gens, fst signed, Some zero_built))))
      | _ \<Rightarrow> Ret (gens, MWEB_ERR_INTERNAL, Some zero_built))"

definition mweb_build_output ::
  "crypto \<Rightarrow> bp_lib \<Rightarrow> (nat \<Rightarrow> bool) \<Rightarrow> (nat \<Rightarrow> bytes) \<Rightarrow> (nat \<Rightarrow> bytes) \<Rightarrow> bool
    \<Rightarrow> bytes option \<Rightarrow> bytes option \<Rightarrow> bytes option \<Rightarrow> u64 \<Rightarrow> byte \<Rightarrow> bytes option \<Rightarrow> nat
    \<Rightarrow> mweb_built_output option \<Rightarrow> (bool \<times> mweb_err_t \<times> mweb_built_output option) run" where
  "mweb_build_output C L mok rnd_nonce rnd_private gens sender_key scan_pub_A spend_pub_B value
     features extra_data extra_data_len built =
     build_output_impl C L mok rnd_nonce rnd_private gens sender_key scan_pub_A spend_pub_B value
       features extra_data extra_data_len None built"

definition mweb_build_output_with_nonces ::
  "crypto \<Rightarrow> bp_lib \<Rightarrow> (nat \<Rightarrow> bool) \<Rightarrow> bool
    \<Rightarrow> bytes option \<Rightarrow> bytes option \<Rightarrow> bytes option \<Rightarrow> u64 \<Rightarrow> byte \<Rightarrow> bytes option \<Rightarrow> nat
    \<Rightarrow> bytes option \<Rightarrow> bytes option \<Rightarrow> mweb_built_output option
    \<Rightarrow> (bool \<times> mweb_err_t \<times> mweb_built_output option) run" where
  "mweb_build_output_with_nonces C L mok gens sender_key scan_pub_A spend_pub_B value
     features extra_data extra_data_len bp_nonce bp_private_nonce built =
     (if built = None then Ret (gens, MWEB_ERR_INTERNAL, None)
      else case (bp_nonce, bp_private_nonce) of
        (Some n, Some pn) \<Rightarrow>
          build_output_impl C L mok (\<lambda>_. []) (\<lambda>_. []) gens sender_key scan_pub_A spend_pub_B value
            features extra_data extra_data_len (Some (n, pn)) built
      | _ \<Rightarrow> Ret (gens, MWEB_ERR_INTERNAL, Some zero_built))"

section \<open>Lemmas\<close>

lemma pedersen_commit_length:
  assumes "mweb_pedersen_commit C b v = Some c" and "size_laws C"
  shows "length c = 33"
  using assms by (auto simp: mweb_pedersen_commit_def size_laws_def bind_eq_Some_conv split: if_splits)

lemma binding_lengths:
  assumes "derive_output_binding C k sk A B v = Some d" and "size_laws C"
  shows "length (do_key_exchange_pubkey d) = 33" and "length (do_output_pubkey d) = 33"
    and "length (do_sender_pubkey d) = 33" and "length (do_masked_nonce d) = 16"
    and "length (do_commit d) = 33" and "length (do_blind d) = 32"
proof -
  from assms(2) have sz: "length (blake3 C x) = 32" "length (pubkey_compressed C P) = 33" for x P
    by (simp_all add: size_laws_def)
  show "length (do_key_exchange_pubkey d) = 33" "length (do_output_pubkey d) = 33"
    "length (do_sender_pubkey d) = 33" "length (do_masked_nonce d) = 16"
    "length (do_commit d) = 33" "length (do_blind d) = 32"
    using assms(1) sz pedersen_commit_length [OF _ assms(2)] blind_switch_Some(1)
    by (auto simp: derive_output_binding_def Let_def bind_eq_Some_conv mweb_hashed_def)
qed

lemma message_length:
  assumes "length kex = 33" and "length nonce = 16" and "length extra \<le> MWEB_OUTPUT_MAX_EXTRA_DATA_LEN"
  shows "length (serialize_output_message f kex vt mv nonce extra) \<le> MWEB_OUTPUT_MESSAGE_MAX_LEN"
  using assms compact_length [of "of_nat (length extra)"]
  by (auto simp: serialize_output_message_def MWEB_OUTPUT_MESSAGE_MAX_LEN_def MWEB_OUTPUT_MAX_EXTRA_DATA_LEN_def)

lemma rangeproof_with_nonces_ok:
  assumes "mweb_build_rangeproof_with_nonces C L g v b n pn (Some msg) (length msg) = Ret (g', Inr pf)"
    and "msg \<noteq> []"
  shows "bp_prove L v b n pn (Some msg) = Some pf" and "length pf = MWEB_RANGEPROOF_LEN"
    and "mweb_validate_scalar n" and "mweb_validate_scalar pn" and "g'"
  using assms by (auto simp: mweb_build_rangeproof_with_nonces_def Let_def run_simps
      mweb_bulletproof_generators_init_def split: if_splits option.splits)

lemma rangeproof_ok:
  assumes "mweb_build_rangeproof C L rn rp g v b (Some msg) (length msg) = Ret (g', Inr pf)"
    and "msg \<noteq> []"
  obtains n pn where "bp_prove L v b n pn (Some msg) = Some pf" and "length pf = MWEB_RANGEPROOF_LEN"
    and "mweb_validate_scalar n" and "mweb_validate_scalar pn"
    and "draw_scalar rn 0 8 = Some n" and "draw_scalar rp 0 8 = Some pn"
proof -
  from assms(1) obtain n pn where n: "draw_scalar rn 0 8 = Some n" "draw_scalar rp 0 8 = Some pn"
    and w: "mweb_build_rangeproof_with_nonces C L g v b n pn (Some msg) (length msg) = Ret (g', Inr pf)"
    by (auto simp: mweb_build_rangeproof_def split: option.splits)
  show thesis using that n rangeproof_with_nonces_ok [OF w assms(2)] by blast
qed

lemma rangeproof_err:
  assumes "mweb_build_rangeproof C L rn rp g v b (Some msg) l = Ret (g', Inl e)"
  shows "e = MWEB_ERR_INTERNAL"
  using assms by (auto simp: mweb_build_rangeproof_def mweb_build_rangeproof_with_nonces_def Let_def run_simps
      split: if_splits option.splits)

lemma serialize_nonempty [simp]: "serialize_output_message f k t m n e \<noteq> []"
  by (simp add: serialize_output_message_def)

lemma sign_output_ok:
  assumes "fst (mweb_sign_output C k (Some sk) (Some c) (Some Ks) (Some Ko) (Some mh) (Some rh) (Some buf)) = MWEB_OK"
  shows "mweb_schnorr_sign C k sk (blake3 C (c @ Ks @ Ko @ mh @ rh)) buf
      = (True, the (snd (mweb_sign_output C k (Some sk) (Some c) (Some Ks) (Some Ko) (Some mh) (Some rh) (Some buf))))"
  using assms by (auto simp: mweb_sign_output_def Let_def split: if_splits prod.splits)

text \<open>What a successful run of the builder has done.\<close>

lemma build_output_ok:
  assumes "mweb_build_output C L mok rn rp g (Some sk) (Some A) (Some B) v f ex exl (Some buf)
      = Ret (g', MWEB_OK, r)"
  obtains d extra n pn b where "r = Some b" and "derive_output_binding C (mok 0) sk A B v = Some d"
    and "mweb_validate_scalar sk" and "read_buf exl ex = Ret extra"
    and "exl \<le> MWEB_OUTPUT_MAX_EXTRA_DATA_LEN"
    and "has_bit f MWEB_OUTPUT_EXTRA_DATA_BIT \<or> exl = 0"
    and "mweb_derived_output.truncate b = d"
    and "mweb_validate_scalar n" and "mweb_validate_scalar pn"
    and "draw_scalar rn 0 8 = Some n" and "draw_scalar rp 0 8 = Some pn"
    and "bp_prove L v (do_blind d) n pn (Some (serialize_output_message f (do_key_exchange_pubkey d)
           (do_view_tag d) (do_masked_value d) (do_masked_nonce d) extra)) = Some (bo_range_proof b)"
    and "length (bo_range_proof b) = MWEB_RANGEPROOF_LEN"
    and "mweb_schnorr_sign C (mok 1) sk (blake3 C (do_commit d @ do_sender_pubkey d @ do_output_pubkey d
           @ blake3 C (serialize_output_message f (do_key_exchange_pubkey d)
               (do_view_tag d) (do_masked_value d) (do_masked_nonce d) extra)
           @ blake3 C (bo_range_proof b))) (replicate 64 0) = (True, bo_signature b)"
proof -
  from assms obtain d where v: "mweb_validate_scalar sk" and l: "exl \<le> MWEB_OUTPUT_MAX_EXTRA_DATA_LEN"
    and bit: "has_bit f MWEB_OUTPUT_EXTRA_DATA_BIT \<or> exl = 0"
    and d: "derive_output_binding C (mok 0) sk A B v = Some d"
    by (auto simp: mweb_build_output_def build_output_impl_def split: if_splits option.splits)
  let ?msg = "\<lambda>extra. serialize_output_message f (do_key_exchange_pubkey d)
           (do_view_tag d) (do_masked_value d) (do_masked_nonce d) extra"
  from assms v l bit d obtain extra where extra: "read_buf exl ex = Ret extra"
    and rest: "then_run (mweb_build_rangeproof C L rn rp g v (do_blind d) (Some (?msg extra)) (length (?msg extra)))
      (\<lambda>(gens, pf). case pf of
                 Inl e \<Rightarrow> Ret (gens, e, Some zero_built)
               | Inr range_proof \<Rightarrow>
                   let msg_hash = blake3 C (?msg extra);
                       rp_hash = blake3 C range_proof;
                       signed = mweb_sign_output C (mok 1) (Some sk) (Some (do_commit d))
                         (Some (do_sender_pubkey d)) (Some (do_output_pubkey d))
                         (Some msg_hash) (Some rp_hash) (Some (replicate 64 0))
                   in if fst signed = MWEB_OK
                      then Ret (gens, MWEB_OK,
                             Some ((derived_prefix d)
                               \<lparr>bo_range_proof := range_proof, bo_signature := the (snd signed)\<rparr>))
                      else Ret (gens, fst signed, Some zero_built)) = Ret (g', MWEB_OK, r)"
    by (auto simp: mweb_build_output_def build_output_impl_def Let_def run_simps split: if_splits)
  from rest obtain g1 pf where
      p: "mweb_build_rangeproof C L rn rp g v (do_blind d) (Some (?msg extra)) (length (?msg extra)) = Ret (g1, Inr pf)"
    and s: "fst (mweb_sign_output C (mok 1) (Some sk) (Some (do_commit d))
                         (Some (do_sender_pubkey d)) (Some (do_output_pubkey d))
                         (Some (blake3 C (?msg extra))) (Some (blake3 C pf)) (Some (replicate 64 0))) = MWEB_OK"
    and r: "r = Some ((derived_prefix d) \<lparr>bo_range_proof := pf, bo_signature := the (snd
        (mweb_sign_output C (mok 1) (Some sk) (Some (do_commit d))
                         (Some (do_sender_pubkey d)) (Some (do_output_pubkey d))
                         (Some (blake3 C (?msg extra))) (Some (blake3 C pf)) (Some (replicate 64 0))))\<rparr>)"
  proof -
    from rest obtain g1 res where q: "mweb_build_rangeproof C L rn rp g v (do_blind d) (Some (?msg extra))
        (length (?msg extra)) = Ret (g1, res)" by (auto simp: run_simps)
    show thesis
    proof (cases res)
      case (Inl e)
      with q rangeproof_err have "e = MWEB_ERR_INTERNAL" by blast
      with rest q Inl show thesis by simp
    next
      case (Inr pf)
      with rest q that [of g1 pf] show thesis by (auto simp: Let_def split: if_splits)
    qed
  qed
  show thesis
    by (rule rangeproof_ok [OF p], simp, rule that [OF r d v extra l bit])
      (use sign_output_ok [OF s] in \<open>simp_all add: derived_prefix_def mweb_derived_output.defs mweb_built_output.defs\<close>)
qed

section \<open>A built output for the examples\<close>

definition log_bp :: bp_lib where
  "log_bp = \<lparr>bp_generators = True, bp_scratch = True,
     bp_prove = (\<lambda>_ _ _ _ _. Some (replicate MWEB_RANGEPROOF_LEN 0))\<rparr>"

lemma log_blind_switch: "\<exists>b. mweb_blind_switch log_crypto True one32 v = Some b"
proof -
  have "\<not> be_nat SECP256K1_ORDER \<le> 1" by (simp add: secp_n_value flip: secp_n_def)
  moreover have "\<exists>c. mweb_pedersen_commit log_crypto one32 v = Some c"
    by (simp add: mweb_pedersen_commit_def log_crypto_def)
  moreover have "length GENERATOR_J = 33" by (simp add: GENERATOR_J_def)
  ultimately show ?thesis by (auto simp: mweb_blind_switch_def log_crypto_def Let_def)
qed

lemma log_binding:
  assumes "length A = 33" and "length B = 33"
  shows "\<exists>d. derive_output_binding log_crypto True sk A B v = Some d"
proof -
  have h: "mweb_hashed log_crypto t x = one32" for t x by (simp add: mweb_hashed_def log_crypto_def)
  obtain b where b: "mweb_blind_switch log_crypto True one32 v = Some b" using log_blind_switch by blast
  obtain c where c: "mweb_pedersen_commit log_crypto b v = Some c"
    by (simp add: mweb_pedersen_commit_def log_crypto_def)
  have p: "pubkey_parse log_crypto A = Some (tl A)" "pubkey_parse log_crypto B = Some (tl B)"
    using assms by (simp_all add: log_crypto_def)
  have m: "pubkey_tweak_mul log_crypto P s = Some (scalar_bytes (be_nat P * be_nat s))" for P s
    by (simp add: log_crypto_def)
  have k: "pubkey_create log_crypto s = Some (scalar_bytes (be_nat s))" for s
    by (simp add: log_crypto_def)
  show ?thesis by (simp add: derive_output_binding_def Let_def h b c p m k)
qed

lemma demo_built_output:
  "\<exists>b. mweb_build_output log_crypto log_bp (\<lambda>_. True) (\<lambda>_. one32) (\<lambda>_. one32) False (Some one32)
     (Some (2 # one32)) (Some (2 # one32)) 5 0x01 None 0 (Some zero_built) = Ret (True, MWEB_OK, Some b)"
proof -
  obtain d where d: "derive_output_binding log_crypto True one32 (2 # one32) (2 # one32) 5 = Some d"
    using log_binding [of "2 # one32" "2 # one32"] by auto
  have draw: "draw_scalar (\<lambda>_. one32) 0 8 = Some one32" by (simp add: numeral_eq_Suc)
  have sg: "fst (mweb_sign_output log_crypto True (Some one32) (Some c) (Some ks) (Some ko)
      (Some m) (Some r) (Some (replicate 64 0))) = MWEB_OK" for c ks ko m r
  proof -
    obtain s where "mweb_schnorr_sign log_crypto True one32 (blake3 log_crypto (c @ ks @ ko @ m @ r))
      (replicate 64 0) = (True, s)" using schnorr_total [OF log_crypto_total] by blast
    then show ?thesis by (simp add: mweb_sign_output_def)
  qed
  have ctx: "secp_ctx log_crypto" by (simp add: log_crypto_def)
  have pf: "mweb_build_rangeproof log_crypto log_bp (\<lambda>_. one32) (\<lambda>_. one32) False v b (Some msg) (length msg)
      = Ret (True, Inr (replicate MWEB_RANGEPROOF_LEN 0))" for v b msg
    using ctx by (simp add: mweb_build_rangeproof_def draw mweb_build_rangeproof_with_nonces_def Let_def
        mweb_bulletproof_generators_init_def log_bp_def read_buf_def)
  show ?thesis
    by (simp add: mweb_build_output_def build_output_impl_def ctx d read_buf_def pf sg Let_def)
qed

section \<open>Properties\<close>

text \<open>C31: A built output is complete and binds its parts. When \<^verbatim>\<open>mweb_build_output\<close>
  returns \<^verbatim>\<open>MWEB_OK\<close>, the binding fields are those of the derivation for the sender key
  and the recipient's address; the serialized message fits the stack buffer; the range
  proof is the prover's, for exactly this value, blind and message, with two valid nonces
  from the generator, and has its fixed length; and the signature is the sender key's over
  commitment, keys, message hash and proof hash.\<close>

theorem built_output_binds:
  assumes "mweb_build_output C L mok rn rp g (Some sk) (Some A) (Some B) v f ex exl (Some buf)
      = Ret (g', MWEB_OK, r)" and "size_laws C"
  shows "\<exists>b d extra n pn msg. r = Some b \<and> derive_output_binding C (mok 0) sk A B v = Some d
    \<and> mweb_derived_output.truncate b = d \<and> read_buf exl ex = Ret extra
    \<and> msg = serialize_output_message f (do_key_exchange_pubkey d) (do_view_tag d) (do_masked_value d)
        (do_masked_nonce d) extra
    \<and> length msg \<le> MWEB_OUTPUT_MESSAGE_MAX_LEN
    \<and> draw_scalar rn 0 8 = Some n \<and> draw_scalar rp 0 8 = Some pn
    \<and> bp_prove L v (do_blind d) n pn (Some msg) = Some (bo_range_proof b) \<and> length (bo_range_proof b) = 675
    \<and> mweb_schnorr_sign C (mok 1) sk (blake3 C (do_commit d @ do_sender_pubkey d @ do_output_pubkey d
        @ blake3 C msg @ blake3 C (bo_range_proof b))) (replicate 64 0) = (True, bo_signature b)"
proof -
  from assms(1) obtain d extra n pn b where 1: "r = Some b" "derive_output_binding C (mok 0) sk A B v = Some d"
    "read_buf exl ex = Ret extra" "exl \<le> MWEB_OUTPUT_MAX_EXTRA_DATA_LEN" "mweb_derived_output.truncate b = d"
    and draws: "draw_scalar rn 0 8 = Some n" "draw_scalar rp 0 8 = Some pn"
    and 2: "bp_prove L v (do_blind d) n pn (Some (serialize_output_message f (do_key_exchange_pubkey d)
           (do_view_tag d) (do_masked_value d) (do_masked_nonce d) extra)) = Some (bo_range_proof b)"
      "length (bo_range_proof b) = MWEB_RANGEPROOF_LEN"
      "mweb_schnorr_sign C (mok 1) sk (blake3 C (do_commit d @ do_sender_pubkey d @ do_output_pubkey d
           @ blake3 C (serialize_output_message f (do_key_exchange_pubkey d)
               (do_view_tag d) (do_masked_value d) (do_masked_nonce d) extra)
           @ blake3 C (bo_range_proof b))) (replicate 64 0) = (True, bo_signature b)"
    by (rule build_output_ok)
  have "length (serialize_output_message f (do_key_exchange_pubkey d) (do_view_tag d) (do_masked_value d)
        (do_masked_nonce d) extra) \<le> MWEB_OUTPUT_MESSAGE_MAX_LEN"
    using binding_lengths [OF 1(2) assms(2)] read_buf_Ret [OF 1(3)] 1(4) by (intro message_length) auto
  with 1 2 draws show ?thesis by (auto simp: MWEB_RANGEPROOF_LEN_def)
qed

theorem built_output_binds_witness:
  "\<exists>b. mweb_build_output log_crypto log_bp (\<lambda>_. True) (\<lambda>_. one32) (\<lambda>_. one32) False (Some one32)
     (Some (2 # one32)) (Some (2 # one32)) 5 0x01 None 0 (Some zero_built) = Ret (True, MWEB_OK, Some b)
   \<and> length (bo_range_proof b) = 675"
proof -
  obtain b where b: "mweb_build_output log_crypto log_bp (\<lambda>_. True) (\<lambda>_. one32) (\<lambda>_. one32) False (Some one32)
     (Some (2 # one32)) (Some (2 # one32)) 5 0x01 None 0 (Some zero_built) = Ret (True, MWEB_OK, Some b)"
    using demo_built_output by blast
  from built_output_binds [OF this log_crypto_size_laws] b show ?thesis by auto
qed

text \<open>How building an output fails. The device stops only when the generator table
  cannot be made; otherwise an invalid sender key is reported as such and every other
  failure as \<^verbatim>\<open>INTERNAL\<close>, extra data without its feature bit or above 256 bytes never
  gets through, and whatever the failure, the caller's structure is left zeroed.\<close>

theorem build_output_failure:
  assumes "mweb_build_output C L mok rn rp g sk A B v f ex exl (Some buf) = Ret (g', err, r)"
  shows "(err = MWEB_OK \<longrightarrow> exl \<le> 256 \<and> (0 < exl \<longrightarrow> has_bit f MWEB_OUTPUT_EXTRA_DATA_BIT \<and> ex \<noteq> None))
    \<and> (err \<noteq> MWEB_OK \<longrightarrow> r = Some zero_built
        \<and> err = (if sk \<noteq> None \<and> A \<noteq> None \<and> B \<noteq> None \<and> \<not> mweb_validate_scalar (the sk)
            then MWEB_ERR_INVALID_SCALAR else MWEB_ERR_INTERNAL))"
proof -
  have sig: "fst (mweb_sign_output C k (Some x) (Some c) (Some ks) (Some ko) (Some m) (Some h) (Some z))
      \<in> {MWEB_OK, MWEB_ERR_INTERNAL}" if "mweb_validate_scalar x" for k x c ks ko m h z
    using that by (simp add: mweb_sign_output_def Let_def split: prod.splits)
  have tail: "err = MWEB_OK \<or> err = MWEB_ERR_INTERNAL \<and> r = Some zero_built"
    if "(case res of Inl e \<Rightarrow> Ret (g1, e, Some zero_built)
         | Inr pf \<Rightarrow>
             if fst (mweb_sign_output C k (Some x) (Some c) (Some ks) (Some ko) (Some m) (Some (h pf)) (Some z))
                = MWEB_OK then Ret (g1, MWEB_OK, Some (b pf))
             else Ret (g1, fst (mweb_sign_output C k (Some x) (Some c) (Some ks) (Some ko) (Some m)
               (Some (h pf)) (Some z)), Some zero_built)) = Ret (g', err, r)"
      and "mweb_build_rangeproof C L rn rp g v y (Some msg) l = Ret (g1, res)" and "mweb_validate_scalar x"
    for res g1 k x c ks ko m h z b y msg l
  proof (cases res)
    case (Inl e)
    with that rangeproof_err [of C L rn rp g v y msg l g1] show ?thesis by auto
  next
    case (Inr pf)
    with that(1) sig [OF that(3), of k c ks ko m "h pf" z] show ?thesis
      by (auto simp: Let_def split: if_splits)
  qed
  show ?thesis
  proof (cases "sk \<noteq> None \<and> A \<noteq> None \<and> B \<noteq> None")
    case False
    with assms show ?thesis
      by (auto simp: mweb_build_output_def build_output_impl_def split: option.splits)
  next
    case True
    then obtain sk' A' B' where ptr: "sk = Some sk'" "A = Some A'" "B = Some B'" by auto
    show ?thesis
      using assms ptr
      by (auto simp: mweb_build_output_def build_output_impl_def Let_def run_simps
          MWEB_OUTPUT_MAX_EXTRA_DATA_LEN_def split: option.splits if_splits dest!: tail)
  qed
qed

theorem build_output_failure_witness:
  "mweb_build_output log_crypto log_bp (\<lambda>_. True) (\<lambda>_. one32) (\<lambda>_. one32) False (Some (replicate 32 0))
     (Some (2 # one32)) (Some (2 # one32)) 5 0x01 None 0 (Some zero_built)
   = Ret (False, MWEB_ERR_INVALID_SCALAR, Some zero_built)"
proof -
  have bad: "\<not> mweb_validate_scalar (replicate 32 0)" by (simp add: mweb_validate_scalar_def list_all_iff)
  then obtain g e r where run: "mweb_build_output log_crypto log_bp (\<lambda>_. True) (\<lambda>_. one32) (\<lambda>_. one32) False
     (Some (replicate 32 0)) (Some (2 # one32)) (Some (2 # one32)) 5 0x01 None 0 (Some zero_built)
     = Ret (g, e, r)" and ne: "e \<noteq> MWEB_OK" and g: "\<not> g"
    by (simp add: mweb_build_output_def build_output_impl_def)
  from build_output_failure [OF run] ne bad have "e = MWEB_ERR_INVALID_SCALAR" "r = Some zero_built" by auto
  with run g show ?thesis by simp
qed

end
