(* ===== verification/Jade_Network.thy ===== *)
theory Jade_Network
  imports Jade_Prelude
begin

text \<open>
  \<^verbatim>\<open>src/main/utils/network.c\<close> and the enums of \<^verbatim>\<open>network.h\<close>: the tables from a
  network to its name, type, address prefixes and CSV buckets. A \<^verbatim>\<open>JADE_ASSERT\<close> that
  fails is \<^verbatim>\<open>Crash\<close>. The address version bytes and BIP32 versions are constants of
  libwally, so they are the record \<^verbatim>\<open>wally_consts\<close> the functions take. The lemmas
  show that names and networks correspond one to one, that every real network has
  every table entry it is asked for, and that the CSV checks agree.
\<close>

section \<open>Networks\<close>

datatype network_t = NETWORK_NONE | NETWORK_BITCOIN | NETWORK_BITCOIN_REGTEST | NETWORK_BITCOIN_TESTNET
  | NETWORK_LIQUID | NETWORK_LIQUID_REGTEST | NETWORK_LIQUID_TESTNET
  | NETWORK_LITECOIN | NETWORK_LITECOIN_TESTNET | NETWORK_LITECOIN_REGTEST

datatype network_type_t = NETWORK_TYPE_NONE | NETWORK_TYPE_MAIN | NETWORK_TYPE_TEST

fun network_value :: "network_t \<Rightarrow> byte" where
  "network_value NETWORK_NONE = 0x00"
| "network_value NETWORK_BITCOIN = 0x01"
| "network_value NETWORK_BITCOIN_REGTEST = 0xff"
| "network_value NETWORK_BITCOIN_TESTNET = 0x02"
| "network_value NETWORK_LIQUID = 0x03"
| "network_value NETWORK_LIQUID_REGTEST = 0x04"
| "network_value NETWORK_LIQUID_TESTNET = 0x05"
| "network_value NETWORK_LITECOIN = 0x06"
| "network_value NETWORK_LITECOIN_TESTNET = 0x07"
| "network_value NETWORK_LITECOIN_REGTEST = 0x08"

definition all_networks :: "network_t list" where
  "all_networks = [NETWORK_NONE, NETWORK_BITCOIN, NETWORK_BITCOIN_REGTEST, NETWORK_BITCOIN_TESTNET,
     NETWORK_LIQUID, NETWORK_LIQUID_REGTEST, NETWORK_LIQUID_TESTNET,
     NETWORK_LITECOIN, NETWORK_LITECOIN_TESTNET, NETWORK_LITECOIN_REGTEST]"

text \<open>The cast \<^verbatim>\<open>(network_t)id\<close>; \<^verbatim>\<open>None\<close> is a value that is no enumerator.\<close>

definition network_of_byte :: "byte \<Rightarrow> network_t option" where
  "network_of_byte b = List.find (\<lambda>n. network_value n = b) all_networks"

record wally_consts =
  BIP32_VER_MAIN_PRIVATE :: u32
  BIP32_VER_TEST_PRIVATE :: u32
  P2PKH_MAINNET :: byte
  P2PKH_LITECOIN :: byte
  P2PKH_LIQUID :: byte
  P2PKH_TESTNET :: byte
  P2PKH_LIQUID_TESTNET :: byte
  P2PKH_LIQUID_REGTEST :: byte
  P2SH_MAINNET :: byte
  P2SH_LITECOIN :: byte
  P2SH_LIQUID :: byte
  P2SH_TESTNET :: byte
  P2SH_LITECOIN_TESTNET :: byte
  P2SH_LIQUID_TESTNET :: byte
  P2SH_LIQUID_REGTEST :: byte
  CA_PREFIX_LIQUID :: byte
  CA_PREFIX_LIQUID_TESTNET :: byte
  CA_PREFIX_LIQUID_REGTEST :: byte

text \<open>The script types of libwally's classifier.\<close>

datatype script_type = WALLY_SCRIPT_TYPE_P2PKH | WALLY_SCRIPT_TYPE_P2SH | WALLY_SCRIPT_TYPE_P2WPKH
  | WALLY_SCRIPT_TYPE_P2WSH | WALLY_SCRIPT_TYPE_P2TR | WALLY_SCRIPT_TYPE_MULTISIG | WALLY_SCRIPT_TYPE_OP_RETURN
  | WALLY_SCRIPT_TYPE_OTHER

section \<open>Classification\<close>

definition network_is_liquid :: "network_t \<Rightarrow> bool run" where
  "network_is_liquid network_id =
     (if network_id = NETWORK_NONE then Crash
      else Ret (network_id = NETWORK_LIQUID \<or> network_id = NETWORK_LIQUID_TESTNET
        \<or> network_id = NETWORK_LIQUID_REGTEST))"

definition network_is_litecoin :: "network_t \<Rightarrow> bool run" where
  "network_is_litecoin network_id =
     (if network_id = NETWORK_NONE then Crash
      else Ret (network_id = NETWORK_LITECOIN \<or> network_id = NETWORK_LITECOIN_TESTNET
        \<or> network_id = NETWORK_LITECOIN_REGTEST))"

fun network_to_type :: "network_t \<Rightarrow> network_type_t" where
  "network_to_type NETWORK_BITCOIN = NETWORK_TYPE_MAIN"
| "network_to_type NETWORK_LIQUID = NETWORK_TYPE_MAIN"
| "network_to_type NETWORK_LITECOIN = NETWORK_TYPE_MAIN"
| "network_to_type NETWORK_BITCOIN_TESTNET = NETWORK_TYPE_TEST"
| "network_to_type NETWORK_LIQUID_TESTNET = NETWORK_TYPE_TEST"
| "network_to_type NETWORK_LITECOIN_TESTNET = NETWORK_TYPE_TEST"
| "network_to_type NETWORK_BITCOIN_REGTEST = NETWORK_TYPE_TEST"
| "network_to_type NETWORK_LIQUID_REGTEST = NETWORK_TYPE_TEST"
| "network_to_type NETWORK_LITECOIN_REGTEST = NETWORK_TYPE_TEST"
| "network_to_type NETWORK_NONE = NETWORK_TYPE_NONE"

definition network_to_bip32_version :: "wally_consts \<Rightarrow> network_t \<Rightarrow> u32 run" where
  "network_to_bip32_version w network_id =
     (let network_type = network_to_type network_id in
      if network_type = NETWORK_TYPE_NONE then Crash
      else Ret (if network_type = NETWORK_TYPE_MAIN then BIP32_VER_MAIN_PRIVATE w
                else BIP32_VER_TEST_PRIVATE w))"

section \<open>CSV buckets\<close>

fun network_to_csv_blocks :: "network_t \<Rightarrow> nat list run" where
  "network_to_csv_blocks NETWORK_BITCOIN = Ret [25920, 51840, 65535]"
| "network_to_csv_blocks NETWORK_LIQUID = Ret [65535]"
| "network_to_csv_blocks NETWORK_BITCOIN_TESTNET = Ret [144, 4320, 51840]"
| "network_to_csv_blocks NETWORK_BITCOIN_REGTEST = Ret [144, 4320, 51840]"
| "network_to_csv_blocks NETWORK_LIQUID_TESTNET = Ret [1440, 65535]"
| "network_to_csv_blocks NETWORK_LIQUID_REGTEST = Ret [1440, 65535]"
| "network_to_csv_blocks NETWORK_LITECOIN = Ret [65535]"
| "network_to_csv_blocks NETWORK_LITECOIN_TESTNET = Ret [576, 17280, 65535]"
| "network_to_csv_blocks NETWORK_LITECOIN_REGTEST = Ret [576, 17280, 65535]"
| "network_to_csv_blocks NETWORK_NONE = Crash"

definition network_is_known_csv_blocks :: "network_t \<Rightarrow> u32 \<Rightarrow> bool run" where
  "network_is_known_csv_blocks network_id csv_blocks =
     (case network_to_csv_blocks network_id of
        Ret allowed \<Rightarrow> if allowed = [] then Crash else Ret (list_ex (\<lambda>a. unat csv_blocks = a) allowed)
      | _ \<Rightarrow> Crash)"

definition network_is_allowable_csv_blocks :: "network_t \<Rightarrow> u32 \<Rightarrow> bool run" where
  "network_is_allowable_csv_blocks network_id csv_blocks =
     (case network_to_csv_blocks network_id of
        Ret allowed \<Rightarrow> if allowed = [] then Crash else Ret (allowed ! 0 \<le> unat csv_blocks)
      | _ \<Rightarrow> Crash)"

section \<open>Names\<close>

text \<open>A null name pointer is \<^verbatim>\<open>None\<close>.\<close>

definition network_from_name :: "string option \<Rightarrow> network_t" where
  "network_from_name name =
     (case name of None \<Rightarrow> NETWORK_NONE
      | Some name \<Rightarrow>
          if name = ''mainnet'' then NETWORK_BITCOIN
          else if name = ''liquid'' then NETWORK_LIQUID
          else if name = ''litecoin'' then NETWORK_LITECOIN
          else if name = ''testnet'' then NETWORK_BITCOIN_TESTNET
          else if name = ''testnet-liquid'' then NETWORK_LIQUID_TESTNET
          else if name = ''testnet-litecoin'' then NETWORK_LITECOIN_TESTNET
          else if name = ''localtest'' then NETWORK_BITCOIN_REGTEST
          else if name = ''localtest-liquid'' then NETWORK_LIQUID_REGTEST
          else if name = ''localtest-litecoin'' then NETWORK_LITECOIN_REGTEST
          else NETWORK_NONE)"

fun network_to_name :: "network_t \<Rightarrow> string run" where
  "network_to_name NETWORK_BITCOIN = Ret ''mainnet''"
| "network_to_name NETWORK_LIQUID = Ret ''liquid''"
| "network_to_name NETWORK_LITECOIN = Ret ''litecoin''"
| "network_to_name NETWORK_BITCOIN_TESTNET = Ret ''testnet''"
| "network_to_name NETWORK_LIQUID_TESTNET = Ret ''testnet-liquid''"
| "network_to_name NETWORK_LITECOIN_TESTNET = Ret ''testnet-litecoin''"
| "network_to_name NETWORK_BITCOIN_REGTEST = Ret ''localtest''"
| "network_to_name NETWORK_LIQUID_REGTEST = Ret ''localtest-liquid''"
| "network_to_name NETWORK_LITECOIN_REGTEST = Ret ''localtest-litecoin''"
| "network_to_name NETWORK_NONE = Crash"

section \<open>Address prefixes\<close>

fun network_to_p2pkh_prefix :: "wally_consts \<Rightarrow> network_t \<Rightarrow> byte run" where
  "network_to_p2pkh_prefix w NETWORK_BITCOIN = Ret (P2PKH_MAINNET w)"
| "network_to_p2pkh_prefix w NETWORK_LITECOIN = Ret (P2PKH_LITECOIN w)"
| "network_to_p2pkh_prefix w NETWORK_LIQUID = Ret (P2PKH_LIQUID w)"
| "network_to_p2pkh_prefix w NETWORK_BITCOIN_TESTNET = Ret (P2PKH_TESTNET w)"
| "network_to_p2pkh_prefix w NETWORK_BITCOIN_REGTEST = Ret (P2PKH_TESTNET w)"
| "network_to_p2pkh_prefix w NETWORK_LITECOIN_TESTNET = Ret (P2PKH_TESTNET w)"
| "network_to_p2pkh_prefix w NETWORK_LITECOIN_REGTEST = Ret (P2PKH_TESTNET w)"
| "network_to_p2pkh_prefix w NETWORK_LIQUID_TESTNET = Ret (P2PKH_LIQUID_TESTNET w)"
| "network_to_p2pkh_prefix w NETWORK_LIQUID_REGTEST = Ret (P2PKH_LIQUID_REGTEST w)"
| "network_to_p2pkh_prefix w NETWORK_NONE = Crash"

fun network_to_p2sh_prefix :: "wally_consts \<Rightarrow> network_t \<Rightarrow> byte run" where
  "network_to_p2sh_prefix w NETWORK_BITCOIN = Ret (P2SH_MAINNET w)"
| "network_to_p2sh_prefix w NETWORK_LITECOIN = Ret (P2SH_LITECOIN w)"
| "network_to_p2sh_prefix w NETWORK_LIQUID = Ret (P2SH_LIQUID w)"
| "network_to_p2sh_prefix w NETWORK_BITCOIN_TESTNET = Ret (P2SH_TESTNET w)"
| "network_to_p2sh_prefix w NETWORK_BITCOIN_REGTEST = Ret (P2SH_TESTNET w)"
| "network_to_p2sh_prefix w NETWORK_LITECOIN_TESTNET = Ret (P2SH_LITECOIN_TESTNET w)"
| "network_to_p2sh_prefix w NETWORK_LITECOIN_REGTEST = Ret (P2SH_LITECOIN_TESTNET w)"
| "network_to_p2sh_prefix w NETWORK_LIQUID_TESTNET = Ret (P2SH_LIQUID_TESTNET w)"
| "network_to_p2sh_prefix w NETWORK_LIQUID_REGTEST = Ret (P2SH_LIQUID_REGTEST w)"
| "network_to_p2sh_prefix w NETWORK_NONE = Crash"

fun network_to_bech32_prefix :: "network_t \<Rightarrow> string run" where
  "network_to_bech32_prefix NETWORK_BITCOIN = Ret ''bc''"
| "network_to_bech32_prefix NETWORK_LITECOIN = Ret ''ltc''"
| "network_to_bech32_prefix NETWORK_LIQUID = Ret ''ex''"
| "network_to_bech32_prefix NETWORK_BITCOIN_TESTNET = Ret ''tb''"
| "network_to_bech32_prefix NETWORK_LITECOIN_TESTNET = Ret ''tltc''"
| "network_to_bech32_prefix NETWORK_BITCOIN_REGTEST = Ret ''bcrt''"
| "network_to_bech32_prefix NETWORK_LITECOIN_REGTEST = Ret ''rltc''"
| "network_to_bech32_prefix NETWORK_LIQUID_TESTNET = Ret ''tex''"
| "network_to_bech32_prefix NETWORK_LIQUID_REGTEST = Ret ''ert''"
| "network_to_bech32_prefix NETWORK_NONE = Crash"

text \<open>The Liquid tables stop the device on any other network.\<close>

fun network_to_confidential_prefix :: "wally_consts \<Rightarrow> network_t \<Rightarrow> byte run" where
  "network_to_confidential_prefix w NETWORK_LIQUID = Ret (CA_PREFIX_LIQUID w)"
| "network_to_confidential_prefix w NETWORK_LIQUID_TESTNET = Ret (CA_PREFIX_LIQUID_TESTNET w)"
| "network_to_confidential_prefix w NETWORK_LIQUID_REGTEST = Ret (CA_PREFIX_LIQUID_REGTEST w)"
| "network_to_confidential_prefix w _ = Crash"

fun network_to_blech32_prefix :: "network_t \<Rightarrow> string run" where
  "network_to_blech32_prefix NETWORK_LIQUID = Ret ''lq''"
| "network_to_blech32_prefix NETWORK_LIQUID_TESTNET = Ret ''tlq''"
| "network_to_blech32_prefix NETWORK_LIQUID_REGTEST = Ret ''el''"
| "network_to_blech32_prefix _ = Crash"

fun network_to_policy_asset_hex :: "network_t \<Rightarrow> string run" where
  "network_to_policy_asset_hex NETWORK_LIQUID =
     Ret ''6f0279e9ed041c3d710a9f57d0c02928416460c4b722ae3457a11eec381c526d''"
| "network_to_policy_asset_hex NETWORK_LIQUID_TESTNET =
     Ret ''144c654344aa716d6f3abcc1ca90e5641e4e2a7f633bc09fe3baf64585819a49''"
| "network_to_policy_asset_hex NETWORK_LIQUID_REGTEST =
     Ret ''5ac9f65c0efcc4775e0baec4ec03abdde22473cd3cf33c0419ca290e0751b225''"
| "network_to_policy_asset_hex _ = Crash"

section \<open>Lemmas\<close>

lemma all_networks_complete: "n \<in> set all_networks"
  by (cases n) (simp_all add: all_networks_def)

lemma network_of_byte_value [simp]: "network_of_byte (network_value n) = Some n"
  by (cases n) (simp_all add: network_of_byte_def all_networks_def)

lemma network_value_inj: "network_value m = network_value n \<longleftrightarrow> m = n"
  by (metis network_of_byte_value option.inject)

lemma network_of_byte_Some_iff: "network_of_byte b = Some n \<longleftrightarrow> network_value n = b"
  by (metis (mono_tags, lifting) find_Some_iff network_of_byte_def network_of_byte_value)

lemma network_is_litecoin_iff:
  "network_is_litecoin n = Ret b \<longleftrightarrow> n \<noteq> NETWORK_NONE \<and>
    b = (n \<in> {NETWORK_LITECOIN, NETWORK_LITECOIN_TESTNET, NETWORK_LITECOIN_REGTEST})"
  by (auto simp: network_is_litecoin_def)

lemma csv_blocks_sorted: "network_to_csv_blocks n = Ret allowed \<Longrightarrow> allowed \<noteq> [] \<and> (\<forall>a \<in> set allowed. allowed ! 0 \<le> a)"
  by (cases n) auto

section \<open>Properties\<close>

text \<open>Network names and networks correspond one to one: a name maps to a network
  exactly when the network maps to that name, and an unknown or missing name gives
  \<^verbatim>\<open>NETWORK_NONE\<close>, which has no name.\<close>

theorem network_names_one_to_one:
  "n \<noteq> NETWORK_NONE \<Longrightarrow> network_from_name (Some s) = n \<longleftrightarrow> network_to_name n = Ret s"
  by (cases n) (auto simp: network_from_name_def)

theorem network_names_one_to_one_witness:
  "network_from_name (Some ''testnet-litecoin'') = NETWORK_LITECOIN_TESTNET"
  using network_names_one_to_one [of NETWORK_LITECOIN_TESTNET "''testnet-litecoin''"] by simp

text \<open>Every CSV value the network lists as known is also allowable: the
  allowable check compares with the first entry of the table, and that entry is the
  smallest of the table on every network.\<close>

theorem known_csv_blocks_allowable:
  "network_is_known_csv_blocks n c = Ret True \<Longrightarrow> network_is_allowable_csv_blocks n c = Ret True"
  by (cases n) (auto simp: network_is_known_csv_blocks_def network_is_allowable_csv_blocks_def)

theorem known_csv_blocks_allowable_witness:
  "network_is_allowable_csv_blocks NETWORK_LITECOIN_TESTNET 17280 = Ret True"
  by (rule known_csv_blocks_allowable) (simp add: network_is_known_csv_blocks_def)

end
