(* ===== verification/Mweb_Keychain.thy ===== *)
theory Mweb_Keychain
  imports Mweb_Crypto Jade_Network
begin

text \<open>
  \<^verbatim>\<open>src/main/mweb/mweb_keychain.c\<close>: MWEB key derivation, stealth addresses and their
  Bech32 text form. The BIP32 derivation of libwally is a parameter. The address
  strings are written into 128-byte buffers; a write past the buffer is undefined.
  The lemmas show that the bit regrouping loses nothing and that the checksum written
  is the one a Bech32 reader accepts.
\<close>

section \<open>Bech32\<close>

definition MWEB_BECH32_CHARSET :: string where
  "MWEB_BECH32_CHARSET = ''qpzry9x8gf2tvdw0s3jn54khce6mua7l''"

definition mweb_bech32_polymod_step :: "u32 \<Rightarrow> u32" where
  "mweb_bech32_polymod_step pre =
     (let b = (ucast (drop_bit 25 pre) :: byte);
          sel = (\<lambda>i. - (ucast (drop_bit i b AND 1) :: u32))
      in push_bit 5 (pre AND 0x1FFFFFF)
         XOR (sel 0 AND 0x3b6a57b2)
         XOR (sel 1 AND 0x26508e6d)
         XOR (sel 2 AND 0x1ea119fa)
         XOR (sel 3 AND 0x3d4233dd)
         XOR (sel 4 AND 0x2a1462b3))"

text \<open>The inner loop of \<^verbatim>\<open>mweb_convert_bits\<close>; it needs a positive \<^verbatim>\<open>outbits\<close>.\<close>

function emit_groups :: "nat \<Rightarrow> u32 \<Rightarrow> nat \<Rightarrow> nat \<times> bytes" where
  "emit_groups outbits val bits =
     (if outbits = 0 \<or> bits < outbits then (bits, [])
      else let bits = bits - outbits;
               group = ucast (drop_bit bits val AND (push_bit outbits 1 - 1));
               (bits, groups) = emit_groups outbits val bits
           in (bits, group # groups))"
  by pat_completeness auto
termination by (relation "measure (\<lambda>(outbits, val, bits). bits)") auto

declare emit_groups.simps [simp del]

definition convert_byte :: "nat \<Rightarrow> nat \<Rightarrow> u32 \<times> nat \<times> bytes \<Rightarrow> byte \<Rightarrow> u32 \<times> nat \<times> bytes" where
  "convert_byte outbits inbits s b =
     (case s of (val, bits, out) \<Rightarrow>
        let val = push_bit inbits val OR ucast b;
            (bits, groups) = emit_groups outbits val (bits + inbits)
        in (val, bits, out @ groups))"

text \<open>The result is the return value and what was appended to \<^verbatim>\<open>out\<close>.\<close>

definition mweb_convert_bits :: "nat \<Rightarrow> bytes \<Rightarrow> nat \<Rightarrow> bool \<Rightarrow> bool \<times> bytes" where
  "mweb_convert_bits outbits inp inbits pad =
     (let maxv = (push_bit outbits 1 - 1 :: u32);
          (val, bits, out) = foldl (convert_byte outbits inbits) (0, 0, []) inp
      in if pad then
           (True, if bits \<noteq> 0 then out @ [ucast (push_bit (outbits - bits) val AND maxv)] else out)
         else (\<not> (push_bit (outbits - bits) val AND maxv \<noteq> 0 \<or> bits \<ge> inbits), out))"

definition chk_fold :: "u32 \<Rightarrow> u32 list \<Rightarrow> u32" where
  "chk_fold chk vs = foldl (\<lambda>chk v. mweb_bech32_polymod_step chk XOR v) chk vs"

definition hrp_char_ok :: "char \<Rightarrow> bool" where
  "hrp_char_ok c = (let ch = (of_char c :: nat) in
     \<not> (ch < 33 \<or> ch > 126 \<or> (ch \<ge> of_char (CHR ''A'') \<and> ch \<le> of_char (CHR ''Z''))))"

text \<open>
  \<^verbatim>\<open>cap\<close> is the size of the caller's buffer. The result is the string, without its
  terminating NUL, or \<^verbatim>\<open>None\<close> when the function returns 0.
\<close>

definition mweb_bech32_encode :: "nat \<Rightarrow> string \<Rightarrow> bytes \<Rightarrow> string option run" where
  "mweb_bech32_encode cap hrp data =
     (if \<not> list_all hrp_char_ok hrp then Ret None
      else
        let good = takeWhile (\<lambda>d. drop_bit 5 d = 0) data in
        if length good < length data then
          (if cap < length hrp + 1 + length good then Undef else Ret None)
        else if cap < length hrp + 1 + length data + 6 + 1 then Undef
        else
          let chk = chk_fold 1 (map (\<lambda>c. of_nat (of_char c div 32)) hrp);
              chk = mweb_bech32_polymod_step chk;
              chk = chk_fold chk (map (\<lambda>c. of_nat (of_char c mod 32)) hrp);
              chk = chk_fold chk (map ucast data);
              chk = fold (\<lambda>_. mweb_bech32_polymod_step) [0..<6::nat] chk;
              chk = chk XOR 1
          in Ret (Some (hrp @ ''1'' @ map (\<lambda>d. MWEB_BECH32_CHARSET ! unat d) data
               @ map (\<lambda>i. MWEB_BECH32_CHARSET ! unat (drop_bit ((5 - i) * 5) chk AND 0x1f)) [0..<6])))"

section \<open>Key derivation\<close>

definition BIP32_INITIAL_HARDENED_CHILD :: u32 where
  "BIP32_INITIAL_HARDENED_CHILD = 0x80000000"

definition MWEB_SCAN_PATH :: "u32 list" where
  "MWEB_SCAN_PATH = [BIP32_INITIAL_HARDENED_CHILD, BIP32_INITIAL_HARDENED_CHILD + 100,
     BIP32_INITIAL_HARDENED_CHILD]"

definition MWEB_SPEND_PATH :: "u32 list" where
  "MWEB_SPEND_PATH = [BIP32_INITIAL_HARDENED_CHILD, BIP32_INITIAL_HARDENED_CHILD + 100,
     BIP32_INITIAL_HARDENED_CHILD + 1]"

text \<open>
  \<^verbatim>\<open>kc\<close> is the master key of the loaded keychain, if any; \<^verbatim>\<open>bip32\<close> returns the 33-byte
  \<^verbatim>\<open>priv_key\<close> field of the derived key. The result has the caller's buffer.
\<close>

definition mweb_derive_key_from_path ::
  "('k \<Rightarrow> u32 list \<Rightarrow> bytes option) \<Rightarrow> 'k option \<Rightarrow> u32 list \<Rightarrow> bytes \<Rightarrow> bool \<times> bytes" where
  "mweb_derive_key_from_path bip32 kc path key_out =
     (case kc of
        None \<Rightarrow> (False, key_out)
      | Some xpriv \<Rightarrow>
          (case bip32 xpriv path of
             None \<Rightarrow> (False, key_out)
           | Some priv_key \<Rightarrow> (True, take 32 (drop 1 priv_key))))"

definition mweb_derive_standard_keys ::
  "('k \<Rightarrow> u32 list \<Rightarrow> bytes option) \<Rightarrow> 'k option \<Rightarrow> bytes \<Rightarrow> bytes \<Rightarrow> bool \<times> bytes \<times> bytes" where
  "mweb_derive_standard_keys bip32 kc scan_key spend_key =
     (let (scanned, scan_key) = mweb_derive_key_from_path bip32 kc MWEB_SCAN_PATH scan_key in
      if \<not> scanned then (False, scan_key, spend_key)
      else let (spent, spend_key) = mweb_derive_key_from_path bip32 kc MWEB_SPEND_PATH spend_key
           in (spent, scan_key, spend_key))"

definition mweb_derive_spend_pubkey :: "crypto \<Rightarrow> bytes \<Rightarrow> bytes option" where
  "mweb_derive_spend_pubkey C spend_key = wally_public_key C spend_key"

definition mweb_network_hrp :: "network_t \<Rightarrow> string option" where
  "mweb_network_hrp network =
     (case network of
        NETWORK_LITECOIN \<Rightarrow> Some ''ltcmweb''
      | NETWORK_LITECOIN_TESTNET \<Rightarrow> Some ''tmweb''
      | NETWORK_LITECOIN_REGTEST \<Rightarrow> Some ''tmweb''
      | _ \<Rightarrow> None)"

section \<open>Stealth addresses\<close>

definition subaddress_modifier :: "crypto \<Rightarrow> u32 \<Rightarrow> bytes \<Rightarrow> bytes" where
  "subaddress_modifier C index scan_key =
     mweb_hashed C MWEB_TAG_ADDRESS
       ([ucast index, ucast (drop_bit 8 index), ucast (drop_bit 16 index), ucast (drop_bit 24 index)]
        @ scan_key)"

text \<open>The points of an address: \<^verbatim>\<open>B_i = spend_key*G + m_i*G\<close> and \<^verbatim>\<open>A_i = scan_key*B_i\<close>.\<close>

definition address_points :: "crypto \<Rightarrow> bytes \<Rightarrow> bytes \<Rightarrow> u32 \<Rightarrow> (bytes \<times> bytes) option" where
  "address_points C scan_key spend_key index = do {
     let m_i = subaddress_modifier C index scan_key;
     spend_pub \<leftarrow> mweb_derive_spend_pubkey C spend_key;
     mi_pub \<leftarrow> wally_public_key C m_i;
     spend_pk \<leftarrow> pubkey_parse C spend_pub;
     mi_pk \<leftarrow> pubkey_parse C mi_pub;
     Bi_pk \<leftarrow> pubkey_combine C [spend_pk, mi_pk];
     let Bi_bytes = pubkey_compressed C Bi_pk;
     Ai_pk \<leftarrow> pubkey_tweak_mul C Bi_pk scan_key;
     let Ai_bytes = pubkey_compressed C Ai_pk;
     Some (Ai_bytes, Bi_bytes)
   }"

text \<open>Version byte and regrouped payload, then the text: the common tail of the encoders.\<close>

definition encode_payload5 :: "nat \<Rightarrow> string \<Rightarrow> bytes \<Rightarrow> string option run" where
  "encode_payload5 cap hrp payload =
     (let (converted, data5) = mweb_convert_bits 5 payload 8 True in
      if \<not> converted then Ret None else mweb_bech32_encode cap hrp (0 # data5))"

text \<open>\<^verbatim>\<open>malloc_ok\<close>: the allocation of the result succeeds. The second component is
  \<^verbatim>\<open>*address_out\<close>.\<close>

definition mweb_derive_address ::
  "crypto \<Rightarrow> bool \<Rightarrow> bytes \<Rightarrow> bytes \<Rightarrow> u32 \<Rightarrow> network_t \<Rightarrow> (bool \<times> string option) run" where
  "mweb_derive_address C malloc_ok scan_key spend_key index network =
     (case mweb_network_hrp network of
        None \<Rightarrow> Ret (False, None)
      | Some hrp \<Rightarrow>
          if \<not> secp_ctx C then Ret (False, None)
          else (case address_points C scan_key spend_key index of
            None \<Rightarrow> Ret (False, None)
          | Some (Ai_bytes, Bi_bytes) \<Rightarrow>
              then_run (encode_payload5 128 hrp (Ai_bytes @ Bi_bytes)) (\<lambda>r.
                case r of
                  None \<Rightarrow> Ret (False, None)
                | Some text \<Rightarrow> if malloc_ok then Ret (True, Some text) else Ret (False, None))))"

text \<open>The payload, prefix and output pointers are options.\<close>

definition mweb_bech32_encode_payload ::
  "bytes option \<Rightarrow> string option \<Rightarrow> nat option \<Rightarrow> string option run" where
  "mweb_bech32_encode_payload payload hrp output =
     (case (payload, hrp, output) of
        (Some payload, Some hrp, Some output_len) \<Rightarrow>
          if length payload \<noteq> 66 \<or> output_len < 128 then Ret None
          else encode_payload5 output_len hrp payload
      | _ \<Rightarrow> Ret None)"

section \<open>Lemmas: the checksum\<close>

lemma and_one_byte: "(drop_bit i b AND 1 :: byte) = (if bit b i then 1 else 0)"
  by (simp add: and_one_eq mod_2_eq_odd bit_iff_odd_drop_bit)

lemma and_25_bits: "(x AND 0x1FFFFFF :: u32) = take_bit 25 x"
  by (simp add: take_bit_eq_mask mask_eq_exp_minus_1)

lemma and_5_bits: "(x AND 0x1f :: u32) = take_bit 5 x"
  by (simp add: take_bit_eq_mask mask_eq_exp_minus_1)

lemma select_mask: "(- (ucast (drop_bit i b AND 1 :: byte) :: u32)) AND g = (if bit b i then g else 0)"
  by (simp add: and_one_byte)

lemma polymod_step_bits:
  "mweb_bech32_polymod_step pre = push_bit 5 (pre AND 0x1FFFFFF)
     XOR (if bit pre 25 then 0x3b6a57b2 else 0)
     XOR (if bit pre 26 then 0x26508e6d else 0)
     XOR (if bit pre 27 then 0x1ea119fa else 0)
     XOR (if bit pre 28 then 0x3d4233dd else 0)
     XOR (if bit pre 29 then 0x2a1462b3 else 0)"
proof -
  have "bit (ucast (drop_bit 25 pre) :: byte) i \<longleftrightarrow> bit pre (25 + i)" if "i < 8" for i
    using that by (simp add: bit_ucast_iff bit_drop_bit_eq)
  from this [of 0] this [of 1] this [of 2] this [of 3] this [of 4]
  have "bit (ucast (drop_bit 25 pre) :: byte) 0 \<longleftrightarrow> bit pre 25"
    "bit (ucast (drop_bit 25 pre) :: byte) 1 \<longleftrightarrow> bit pre 26"
    "bit (ucast (drop_bit 25 pre) :: byte) 2 \<longleftrightarrow> bit pre 27"
    "bit (ucast (drop_bit 25 pre) :: byte) 3 \<longleftrightarrow> bit pre 28"
    "bit (ucast (drop_bit 25 pre) :: byte) 4 \<longleftrightarrow> bit pre 29" by simp_all
  then show ?thesis by (simp only: mweb_bech32_polymod_step_def Let_def select_mask)
qed

lemma xor_if: "((if a then g else 0) XOR (if b then g else 0) :: u32) = (if a \<noteq> b then g else 0)"
  by simp

lemma polymod_step_xor:
  "mweb_bech32_polymod_step (x XOR y) = mweb_bech32_polymod_step x XOR mweb_bech32_polymod_step y"
proof -
  have push: "push_bit 5 ((x XOR y) AND 0x1FFFFFF) = push_bit 5 (x AND 0x1FFFFFF) XOR push_bit 5 (y AND 0x1FFFFFF)"
    by (simp add: push_bit_xor bit.conj_xor_distrib2)
  have sel: "(if bit (x XOR y) i then g else 0) = (if bit x i then g else 0) XOR (if bit y i then g else 0)"
    for i :: nat and g :: u32
    by (auto simp: bit_xor_iff)
  show ?thesis
    unfolding polymod_step_bits push sel by (simp only: xor.assoc xor.commute xor.left_commute)
qed

lemma polymod_step_small:
  assumes "\<And>i. 25 \<le> i \<Longrightarrow> \<not> bit x i"
  shows "mweb_bech32_polymod_step x = push_bit 5 x"
proof -
  have "take_bit 25 x = x"
    by (rule bit_word_eqI) (use assms in \<open>auto simp: bit_take_bit_iff not_le [symmetric]\<close>)
  with assms show ?thesis by (simp add: polymod_step_bits and_25_bits)
qed

lemma not_bit_beyond: "take_bit 30 (g :: u32) = g \<Longrightarrow> 30 \<le> i \<Longrightarrow> \<not> bit g i"
  by (metis bit_take_bit_iff not_le)

lemma polymod_step_range: "30 \<le> i \<Longrightarrow> \<not> bit (mweb_bech32_polymod_step x) i"
proof -
  assume i: "30 \<le> i"
  have "\<not> bit (push_bit 5 (x AND 0x1FFFFFF)) i"
    using i unfolding and_25_bits by (auto simp: bit_push_bit_iff bit_take_bit_iff)
  moreover have "\<not> bit (if bit x 25 then 0x3b6a57b2 else 0 :: u32) i"
    "\<not> bit (if bit x 26 then 0x26508e6d else 0 :: u32) i"
    "\<not> bit (if bit x 27 then 0x1ea119fa else 0 :: u32) i"
    "\<not> bit (if bit x 28 then 0x3d4233dd else 0 :: u32) i"
    "\<not> bit (if bit x 29 then 0x2a1462b3 else 0 :: u32) i"
    using not_bit_beyond [OF _ i, of "0x3b6a57b2"] not_bit_beyond [OF _ i, of "0x26508e6d"]
      not_bit_beyond [OF _ i, of "0x1ea119fa"] not_bit_beyond [OF _ i, of "0x3d4233dd"]
      not_bit_beyond [OF _ i, of "0x2a1462b3"] by simp_all
  ultimately show ?thesis unfolding polymod_step_bits by (simp only: bit_xor_iff) simp
qed

lemma chk_fold_xor:
  "length vs = length ws \<Longrightarrow> chk_fold (x XOR y) (map2 (XOR) vs ws) = chk_fold x vs XOR chk_fold y ws"
proof (induction vs ws arbitrary: x y rule: list_induct2)
  case Nil
  then show ?case by (simp add: chk_fold_def)
next
  case (Cons v vs w ws)
  have "mweb_bech32_polymod_step (x XOR y) XOR (v XOR w)
      = (mweb_bech32_polymod_step x XOR v) XOR (mweb_bech32_polymod_step y XOR w)"
    by (simp only: polymod_step_xor xor.assoc xor.commute xor.left_commute)
  with Cons.IH show ?case by (simp add: chk_fold_def)
qed

text \<open>The six symbols of a checksum value.\<close>

definition checksum_symbols :: "u32 \<Rightarrow> u32 list" where
  "checksum_symbols c = map (\<lambda>i. drop_bit ((5 - i) * 5) c AND 0x1f) [0..<6]"

lemma symbols_step:
  assumes "\<And>i. 5 * k \<le> i \<Longrightarrow> \<not> bit x i" and "k \<le> 5"
    and "x = take_bit (5 * k) (drop_bit (30 - 5 * k) c)"
  shows "mweb_bech32_polymod_step x XOR (drop_bit (25 - 5 * k) c AND 0x1f)
    = take_bit (5 * Suc k) (drop_bit (25 - 5 * k) c)"
proof -
  have s: "mweb_bech32_polymod_step x = push_bit 5 x"
    using assms(1,2) by (intro polymod_step_small) auto
  show ?thesis
    unfolding s unfolding and_5_bits assms(3)
    by (rule bit_word_eqI)
      (use assms(2) in \<open>auto simp: bit_push_bit_iff bit_take_bit_iff bit_drop_bit_eq bit_xor_iff\<close>)
qed

lemma chk_fold_symbols: "chk_fold 0 (checksum_symbols c) = take_bit 30 c"
proof -
  have step: "mweb_bech32_polymod_step (take_bit (5 * k) (drop_bit (30 - 5 * k) c))
      XOR (drop_bit (25 - 5 * k) c AND 0x1f) = take_bit (5 * Suc k) (drop_bit (25 - 5 * k) c)"
    if "k \<le> 5" for k
    by (rule symbols_step) (use that in \<open>auto simp: bit_take_bit_iff\<close>)
  show ?thesis
    using step [of 0] step [of 1] step [of 2] step [of 3] step [of 4] step [of 5]
    by (simp add: chk_fold_def checksum_symbols_def upt_rec numeral_2_eq_2)
qed

text \<open>Appending the symbols of \<^verbatim>\<open>chk XOR 1\<close> makes the polynomial remainder 1.\<close>

lemma checksum_verifies:
  "chk_fold c (checksum_symbols (fold (\<lambda>_. mweb_bech32_polymod_step) [0..<6::nat] c XOR 1)) = 1"
proof -
  let ?c6 = "fold (\<lambda>_. mweb_bech32_polymod_step) [0..<6::nat] c"
  let ?s = "checksum_symbols (?c6 XOR 1)"
  have len: "length ?s = 6" by (simp add: checksum_symbols_def)
  have "chk_fold c ?s = chk_fold (c XOR 0) (map2 (XOR) (replicate 6 0) ?s)"
    using len by (simp add: map2_map_map) (intro arg_cong [where f = "chk_fold c"] nth_equalityI, simp_all)
  also have "\<dots> = chk_fold c (replicate 6 0) XOR chk_fold 0 ?s"
    by (rule chk_fold_xor) (simp add: len)
  also have "chk_fold c (replicate 6 0) = ?c6"
    by (simp add: chk_fold_def upt_rec numeral_eq_Suc)
  also have "chk_fold 0 ?s = ?c6 XOR 1"
  proof -
    have hi: "\<not> bit ?c6 i" if "30 \<le> i" for i
      using that polymod_step_range by (simp add: upt_rec)
    have "take_bit 30 (?c6 XOR 1) = ?c6 XOR 1"
    proof (rule bit_word_eqI)
      fix n
      show "bit (take_bit 30 (?c6 XOR 1)) n \<longleftrightarrow> bit (?c6 XOR 1) n"
        using hi [of n] by (cases "n < 30") (simp_all add: bit_take_bit_iff bit_xor_iff bit_1_iff)
    qed
    then show ?thesis by (simp add: chk_fold_symbols)
  qed
  also have "?c6 XOR (?c6 XOR 1) = 1" by (simp flip: xor.assoc)
  finally show ?thesis .
qed

section \<open>Lemmas: the regrouping\<close>

definition fold32 :: "nat \<Rightarrow> bytes \<Rightarrow> nat" where
  "fold32 a gs = foldl (\<lambda>a g. a * 32 + unat g) a gs"

lemma fold32_append: "fold32 a (gs @ hs) = fold32 (fold32 a gs) hs"
  by (simp add: fold32_def)

lemma group_value:
  "unat (ucast (drop_bit k (val :: u32) AND (push_bit 5 1 - 1)) :: byte) = unat val div 2 ^ k mod 32"
proof -
  have "(push_bit 5 1 - 1 :: u32) = 0x1f" by (simp add: push_bit_eq_mult)
  then have "unat (ucast (drop_bit k val AND (push_bit 5 1 - 1)) :: byte) = unat (ucast (take_bit 5 (drop_bit k val)) :: byte)"
    by (simp only: and_5_bits)
  also have "\<dots> = take_bit 8 (take_bit 5 (drop_bit k (unat val)))"
    using unsigned_less [of val, where ?'a = nat]
    by (simp add: unsigned_ucast_eq unsigned_take_bit_eq unsigned_drop_bit_eq take_bit_nat_eq_self)
  also have "\<dots> = unat val div 2 ^ k mod 32"
    by (simp add: take_bit_take_bit) (simp add: take_bit_eq_mod drop_bit_eq_div)
  finally show ?thesis .
qed

lemma group_value_31: "unat (ucast (drop_bit k (val :: u32) AND 0x1f) :: byte) = unat val div 2 ^ k mod 32"
  using group_value [of k val] by (simp add: push_bit_eq_mult)

lemma mod_split: "(v :: nat) mod 2 ^ (k + 5) = (v div 2 ^ k mod 32) * 2 ^ k + v mod 2 ^ k"
  using mod_mult2_eq [of v "2 ^ k" 32] by (simp add: power_add algebra_simps)

lemma emit_groups_5:
  "emit_groups 5 val bits = (bits', gs) \<Longrightarrow> bits' = bits mod 5 \<and> length gs = bits div 5
    \<and> list_all (\<lambda>g. unat g < 32) gs
    \<and> fold32 a gs * 2 ^ bits' + unat val mod 2 ^ bits' = a * 2 ^ bits + unat val mod 2 ^ bits"
proof (induction bits arbitrary: bits' gs a rule: less_induct)
  case (less bits)
  show ?case
  proof (cases "bits < 5")
    case True
    with less.prems show ?thesis by (simp add: emit_groups.simps [of 5] fold32_def)
  next
    case False
    define k where "k = bits - 5"
    with False have bits: "bits = k + 5" by simp
    let ?g = "ucast (drop_bit k val AND (push_bit 5 1 - 1)) :: byte"
    obtain hs where e: "emit_groups 5 val k = (bits', hs)" and gs: "gs = ?g # hs"
      using less.prems False by (auto simp: emit_groups.simps [of 5 val bits] k_def Let_def split: prod.splits)
    have "k < bits" using bits by simp
    from less.IH [OF this e, of "a * 32 + unat ?g"] have ih: "bits' = k mod 5" "length hs = k div 5"
      "list_all (\<lambda>g. unat g < 32) hs"
      "fold32 (a * 32 + unat ?g) hs * 2 ^ bits' + unat val mod 2 ^ bits' = (a * 32 + unat ?g) * 2 ^ k + unat val mod 2 ^ k"
      by blast+
    have "fold32 a gs = fold32 (a * 32 + unat ?g) hs" by (simp add: gs fold32_def)
    moreover have "(a * 32 + unat ?g) * 2 ^ k + unat val mod 2 ^ k = a * 2 ^ bits + unat val mod 2 ^ bits"
      unfolding group_value bits mod_split by (simp add: power_add algebra_simps)
    moreover have "unat ?g < 32" unfolding group_value by simp
    ultimately show ?thesis using ih by (simp add: gs bits)
  qed
qed

lemma shift_in_byte: "unat (push_bit 8 (val :: u32) OR ucast (b :: byte)) = (unat val * 256 + unat b) mod 2 ^ 32"
proof -
  have "push_bit 8 val OR ucast b = push_bit 8 val + (ucast b :: u32)"
    by (rule disjunctive_add [symmetric]) (auto simp: bit_push_bit_iff bit_ucast_iff dest: bit_imp_le_length)
  moreover have "unat (ucast b :: u32) = unat b"
    unfolding unsigned_ucast_eq
    by (rule take_bit_nat_eq_self) (rule less_trans [OF byte_less_256], simp)
  moreover have "unat (push_bit 8 val) = (unat val * 256) mod 2 ^ 32"
    by (simp add: push_bit_eq_mult unat_word_ariths mult.commute)
  moreover have "unat (x + y) = (unat x + unat y) mod 2 ^ 32" for x y :: u32
    by (simp add: unat_word_ariths)
  ultimately show ?thesis by (simp only: mod_add_left_eq)
qed

lemma convert_fold:
  assumes "foldl (convert_byte 5 8) (0, 0, []) bs = (val, bits, out)"
  shows "bits < 5 \<and> 5 * length out + bits = 8 * length bs \<and> list_all (\<lambda>g. unat g < 32) out
    \<and> fold32 0 out * 2 ^ bits + unat val mod 2 ^ bits = be_nat bs"
  using assms
proof (induction bs arbitrary: val bits out rule: rev_induct)
  case Nil
  then show ?case by (auto simp: fold32_def)
next
  case (snoc b bs)
  obtain v k o1 where s: "foldl (convert_byte 5 8) (0, 0, []) bs = (v, k, o1)" by (metis prod_cases3)
  from snoc.IH [OF s] have ih: "k < 5" "5 * length o1 + k = 8 * length bs" "list_all (\<lambda>g. unat g < 32) o1"
    "fold32 0 o1 * 2 ^ k + unat v mod 2 ^ k = be_nat bs" by blast+
  define w where "w = push_bit 8 v OR (ucast b :: u32)"
  have "convert_byte 5 8 (v, k, o1) b = (val, bits, out)" using snoc.prems s by simp
  then obtain gs where e: "emit_groups 5 w (k + 8) = (bits, gs)"
    and res: "val = w" "out = o1 @ gs"
    by (auto simp: convert_byte_def w_def Let_def split: prod.splits)
  from emit_groups_5 [OF e, of "fold32 0 o1"] have g: "bits = (k + 8) mod 5" "length gs = (k + 8) div 5"
    "list_all (\<lambda>g. unat g < 32) gs"
    "fold32 (fold32 0 o1) gs * 2 ^ bits + unat w mod 2 ^ bits = fold32 0 o1 * 2 ^ (k + 8) + unat w mod 2 ^ (k + 8)"
    by blast+
  have "unat w mod 2 ^ (k + 8) = (unat v * 256 + unat b) mod 2 ^ 32 mod 2 ^ (k + 8)"
    unfolding w_def shift_in_byte ..
  also have "\<dots> = (unat v * 256 + unat b) mod 2 ^ (k + 8)"
    by (rule mod_mod_cancel) (use ih(1) in \<open>intro le_imp_power_dvd, simp\<close>)
  also have "\<dots> = (unat v * 2 ^ 8 + unat b) mod (2 ^ 8 * 2 ^ k)"
    by (simp add: power_add mult.commute)
  also have "\<dots> = 2 ^ 8 * ((unat v * 2 ^ 8 + unat b) div 2 ^ 8 mod 2 ^ k) + (unat v * 2 ^ 8 + unat b) mod 2 ^ 8"
    by (rule mod_mult2_eq)
  also have "\<dots> = (unat v mod 2 ^ k) * 256 + unat b"
    using byte_less_256 [of b] by (simp del: byte_less_256)
  finally have "fold32 0 o1 * 2 ^ (k + 8) + unat w mod 2 ^ (k + 8) = be_nat bs * 256 + unat b"
    using ih(4) by (simp add: power_add algebra_simps)
  moreover have "be_nat (bs @ [b]) = be_nat bs * 256 + unat b" by (simp add: be_nat_append be_nat_Cons)
  ultimately show ?case using g ih res by (simp add: fold32_append)
qed

lemma unat_pow2_u32: "m < 32 \<Longrightarrow> unat (2 ^ m :: u32) = 2 ^ m"
proof -
  assume "m < 32"
  then have "(2 :: nat) ^ m < 2 ^ 32" by (intro power_strict_increasing) simp_all
  moreover have "(2 ^ m :: u32) = of_nat (2 ^ m)" by simp
  ultimately show ?thesis by (simp only: unat_of_nat) simp
qed

lemma convert_bits_5_8:
  obtains gs where "mweb_convert_bits 5 bs 8 True = (True, gs)"
    and "length gs = (8 * length bs + 4) div 5" and "list_all (\<lambda>g. unat g < 32) gs"
    and "fold32 0 gs = be_nat bs * 2 ^ (5 * length gs - 8 * length bs)"
proof -
  obtain val bits out where s: "foldl (convert_byte 5 8) (0, 0, []) bs = (val, bits, out)" by (metis prod_cases3)
  from convert_fold [OF s] have inv: "bits < 5" "5 * length out + bits = 8 * length bs"
    "list_all (\<lambda>g. unat g < 32) out" "fold32 0 out * 2 ^ bits + unat val mod 2 ^ bits = be_nat bs" by blast+
  let ?g = "ucast (push_bit (5 - bits) val AND 0x1f) :: byte"
  show thesis
  proof (cases "bits = 0")
    case True
    then show ?thesis using s inv that [of out] by (simp add: mweb_convert_bits_def Let_def)
  next
    case False
    have p5: "(2 :: nat) ^ bits * 2 ^ (5 - bits) = 2 ^ 5" using inv(1) by (simp flip: power_add)
    have "unat ?g = unat (push_bit (5 - bits) val) mod 32"
      using group_value_31 [of 0 "push_bit (5 - bits) val"] by (simp only: drop_bit_0 id_apply power_0 div_by_1)
    also have "\<dots> = (unat val * unat (2 ^ (5 - bits) :: u32)) mod 2 ^ 32 mod 2 ^ 5"
      by (simp only: push_bit_eq_mult unat_word_ariths) simp
    also have "\<dots> = (unat val * 2 ^ (5 - bits)) mod 2 ^ 5"
      using inv(1) by (simp add: mod_mod_cancel unat_pow2_u32)
    also have "\<dots> = (unat val * 2 ^ (5 - bits)) mod (2 ^ bits * 2 ^ (5 - bits))"
      unfolding p5 ..
    also have "\<dots> = (unat val mod 2 ^ bits) * 2 ^ (5 - bits)" by (rule mod_mult_mult2)
    finally have g: "unat ?g = (unat val mod 2 ^ bits) * 2 ^ (5 - bits)" .
    have "fold32 0 (out @ [?g]) = fold32 0 out * 2 ^ 5 + (unat val mod 2 ^ bits) * 2 ^ (5 - bits)"
      unfolding fold32_append by (simp only: fold32_def g foldl.simps) simp
    also have "\<dots> = (fold32 0 out * 2 ^ bits + unat val mod 2 ^ bits) * 2 ^ (5 - bits)"
      unfolding p5 [symmetric] by (simp add: algebra_simps)
    finally have v: "fold32 0 (out @ [?g]) = be_nat bs * 2 ^ (5 - bits)" using inv(4) by simp
    have "unat ?g < 32" using group_value_31 [of 0 "push_bit (5 - bits) val"] by (simp add: drop_bit_0)
    moreover have "length (out @ [?g]) = (8 * length bs + 4) div 5"
      "5 * length (out @ [?g]) - 8 * length bs = 5 - bits" using inv(1,2) False by auto
    moreover have "mweb_convert_bits 5 bs 8 True = (True, out @ [?g])"
      using s False by (simp add: mweb_convert_bits_def Let_def push_bit_eq_mult)
    ultimately show ?thesis using inv(3) v by (intro that [of "out @ [?g]"]) simp_all
  qed
qed

section \<open>Lemmas: the encoders\<close>

lemma encode_payload5_ok:
  assumes "length payload = 66" and "list_all hrp_char_ok hrp" and "length hrp + 115 \<le> cap"
  obtains gs where "length gs = 106" and "list_all (\<lambda>g. unat g < 32) gs"
    and "fold32 0 gs = be_nat payload * 4"
    and "mweb_convert_bits 5 payload 8 True = (True, gs)"
    and "\<exists>text. encode_payload5 cap hrp payload = Ret (Some text) \<and> length text = length hrp + 114
      \<and> mweb_bech32_encode cap hrp (0 # gs) = Ret (Some text)"
proof -
  obtain gs where gs: "mweb_convert_bits 5 payload 8 True = (True, gs)"
    "length gs = (8 * length payload + 4) div 5" "list_all (\<lambda>g. unat g < 32) gs"
    "fold32 0 gs = be_nat payload * 2 ^ (5 * length gs - 8 * length payload)"
    by (rule convert_bits_5_8)
  then have len: "length gs = 106" "fold32 0 gs = be_nat payload * 4" using assms(1) by simp_all
  have five: "drop_bit 5 g = 0" if "unat g < 32" for g :: byte
  proof -
    have "unat (drop_bit 5 g) = unat g div 32" by (simp add: drop_bit_eq_div unat_div)
    then have "unat (drop_bit 5 g) = 0" using that by simp
    then show ?thesis by (simp add: unat_eq_0)
  qed
  have "takeWhile (\<lambda>d. drop_bit 5 d = 0) (0 # gs) = 0 # gs"
    using gs(3) five by (simp add: list_all_iff)
  then have "length (takeWhile (\<lambda>d. drop_bit 5 d = 0) (0 # gs)) = length (0 # gs)" by (simp only:)
  then have "\<exists>text. mweb_bech32_encode cap hrp (0 # gs) = Ret (Some text) \<and> length text = length hrp + 114"
    using assms(2,3) len(1) by (simp add: mweb_bech32_encode_def Let_def)
  then show thesis using that [OF len(1) gs(3) len(2) gs(1)] gs(1) by (auto simp: encode_payload5_def)
qed

lemma network_hrp_ok:
  assumes "mweb_network_hrp network = Some hrp"
  shows "list_all hrp_char_ok hrp" and "length hrp \<le> 7"
  using assms by (auto simp: mweb_network_hrp_def hrp_char_ok_def split: network_t.splits)

text \<open>What a Bech32 reader checks: the remainder over the expanded prefix, the data and
  the checksum symbols is 1.\<close>

definition bech32_remainder :: "string \<Rightarrow> u32 list \<Rightarrow> u32" where
  "bech32_remainder hrp symbols =
     chk_fold 1 (map (\<lambda>c. of_nat (of_char c div 32)) hrp @ [0]
       @ map (\<lambda>c. of_nat (of_char c mod 32)) hrp @ symbols)"

definition bech32_chars :: "u32 list \<Rightarrow> string" where
  "bech32_chars symbols = map (\<lambda>s. MWEB_BECH32_CHARSET ! unat s) symbols"

lemma chk_fold_append: "chk_fold c (vs @ ws) = chk_fold (chk_fold c vs) ws"
  by (simp add: chk_fold_def)

lemma chk_fold_zero: "chk_fold c (0 # vs) = chk_fold (mweb_bech32_polymod_step c) vs"
  by (simp add: chk_fold_def)

lemma and31_less: "unat (x AND 0x1f :: u32) < 32"
  using take_bit_nat_less_exp [of 5 "unat x"] by (simp only: and_5_bits unsigned_take_bit_eq) simp

lemma bech32_encode_verifies:
  assumes "mweb_bech32_encode cap hrp data = Ret (Some text)"
  shows "\<exists>cs. length cs = 6 \<and> list_all (\<lambda>s. unat s < 32) cs
    \<and> text = hrp @ ''1'' @ bech32_chars (map ucast data @ cs)
    \<and> bech32_remainder hrp (map ucast data @ cs) = 1"
proof -
  define c where "c = chk_fold 1 (map (\<lambda>c. of_nat (of_char c div 32)) hrp @ [0]
       @ map (\<lambda>c. of_nat (of_char c mod 32)) hrp @ map ucast data)"
  define cs where "cs = checksum_symbols (fold (\<lambda>_. mweb_bech32_polymod_step) [0..<6::nat] c XOR 1)"
  have u: "unat (ucast d :: u32) = unat d" for d :: byte
    unfolding unsigned_ucast_eq
    by (rule take_bit_nat_eq_self) (rule less_trans [OF byte_less_256], simp)
  have str: "text = hrp @ ''1'' @ bech32_chars (map ucast data @ cs)"
    using assms u by (auto simp: mweb_bech32_encode_def Let_def c_def cs_def chk_fold_append chk_fold_zero
        bech32_chars_def checksum_symbols_def split: if_splits)
  have "bech32_remainder hrp (map ucast data @ cs) = 1"
    using checksum_verifies [of c] by (simp add: bech32_remainder_def chk_fold_append chk_fold_zero c_def cs_def)
  moreover have "list_all (\<lambda>s. unat s < 32) cs"
    by (simp only: cs_def checksum_symbols_def list_all_iff set_map ball_simps and31_less) simp
  moreover have "length cs = 6" by (simp add: cs_def checksum_symbols_def)
  ultimately show ?thesis using str by blast
qed

lemma charset_distinct: "distinct MWEB_BECH32_CHARSET" "length MWEB_BECH32_CHARSET = 32"
  by (simp_all add: MWEB_BECH32_CHARSET_def)

lemma bech32_chars_inj:
  assumes "list_all (\<lambda>s. unat s < 32) xs" and "list_all (\<lambda>s. unat s < 32) ys"
    and "bech32_chars xs = bech32_chars ys"
  shows "xs = ys"
proof -
  have "inj_on (\<lambda>s :: u32. MWEB_BECH32_CHARSET ! unat s) {s. unat s < 32}"
    using charset_distinct by (auto simp: inj_on_def nth_eq_iff_index_eq word_unat_eq_iff)
  then have "inj_on (\<lambda>s :: u32. MWEB_BECH32_CHARSET ! unat s) (set xs \<union> set ys)"
    by (rule inj_on_subset) (use assms(1,2) in \<open>auto simp: list_all_iff\<close>)
  then show ?thesis using assms(3) by (simp add: bech32_chars_def map_inj_on)
qed

section \<open>Properties\<close>

text \<open>C35: The Bech32 checksum verifies. Every string the encoder produces is the prefix,
  the separator and the data symbols followed by six symbols, and the Bech32 remainder
  over the expanded prefix and all symbols is 1, which is what a reader of the format
  checks.\<close>

theorem bech32_checksum_verifies:
  assumes "mweb_bech32_encode cap hrp data = Ret (Some text)"
  shows "\<exists>cs. length cs = 6 \<and> list_all (\<lambda>s. unat s < 32) cs
    \<and> text = hrp @ ''1'' @ bech32_chars (map ucast data @ cs)
    \<and> bech32_remainder hrp (map ucast data @ cs) = 1 \<and> length text < cap"
proof -
  have "length text < cap"
    using assms by (auto simp: mweb_bech32_encode_def Let_def split: if_splits)
  then show ?thesis using bech32_encode_verifies [OF assms] by blast
qed

theorem bech32_checksum_verifies_witness:
  "\<exists>text cs. mweb_bech32_encode 128 ''tmweb'' [0, 31] = Ret (Some text) \<and> length cs = 6
    \<and> text = ''tmweb1'' @ bech32_chars ([0, 31] @ cs) \<and> bech32_remainder ''tmweb'' ([0, 31] @ cs) = 1"
proof -
  have "drop_bit 5 (31 :: byte) = 0" by simp
  then obtain str where t: "mweb_bech32_encode 128 ''tmweb'' [0, 31] = Ret (Some str)"
    by (simp add: mweb_bech32_encode_def hrp_char_ok_def Let_def)
  from bech32_checksum_verifies [OF this] show ?thesis using t by fastforce
qed

text \<open>Regrouping loses nothing. For any input, 8-to-5 bit conversion with padding
  succeeds, its groups are below 32, there are ceil(8n/5) of them, and read as base-32
  digits they are the big-endian value of the input times the power of two of the padding,
  although the accumulator wraps at 32 bits.\<close>

theorem convert_bits_lossless:
  "\<exists>gs. mweb_convert_bits 5 bs 8 True = (True, gs) \<and> length gs = (8 * length bs + 4) div 5
    \<and> list_all (\<lambda>g. unat g < 32) gs
    \<and> foldl (\<lambda>a g. a * 32 + unat g) 0 gs = be_nat bs * 2 ^ (5 * length gs - 8 * length bs)"
  by (rule convert_bits_5_8 [of bs]) (auto simp: fold32_def)

text \<open>C36: Stealth addresses name their keys. For a network with an MWEB prefix, encoding
  two 66-byte payloads into a 128-byte buffer never overruns it and yields strings that
  are equal only if the payloads are.\<close>

theorem address_text_injective:
  assumes "mweb_network_hrp network = Some hrp" and "length p = 66" and "length q = 66"
  shows "\<exists>s t. mweb_bech32_encode_payload (Some p) (Some hrp) (Some 128) = Ret (Some s)
    \<and> mweb_bech32_encode_payload (Some q) (Some hrp) (Some 128) = Ret (Some t)
    \<and> length s \<le> 121 \<and> (s = t \<longleftrightarrow> p = q)"
proof -
  have hrp: "list_all hrp_char_ok hrp" "length hrp + 115 \<le> 128" using network_hrp_ok [OF assms(1)] by simp_all
  obtain gs where gs: "length gs = 106" "list_all (\<lambda>g. unat g < 32) gs" "fold32 0 gs = be_nat p * 4"
    "mweb_convert_bits 5 p 8 True = (True, gs)"
    and s': "\<exists>s. encode_payload5 128 hrp p = Ret (Some s) \<and> length s = length hrp + 114
      \<and> mweb_bech32_encode 128 hrp (0 # gs) = Ret (Some s)"
    by (rule encode_payload5_ok [OF assms(2) hrp])
  obtain hs where hs: "length hs = 106" "list_all (\<lambda>g. unat g < 32) hs" "fold32 0 hs = be_nat q * 4"
    "mweb_convert_bits 5 q 8 True = (True, hs)"
    and t': "\<exists>s. encode_payload5 128 hrp q = Ret (Some s) \<and> length s = length hrp + 114
      \<and> mweb_bech32_encode 128 hrp (0 # hs) = Ret (Some s)"
    by (rule encode_payload5_ok [OF assms(3) hrp])
  from s' obtain s where s: "encode_payload5 128 hrp p = Ret (Some s)" "length s = length hrp + 114"
    "mweb_bech32_encode 128 hrp (0 # gs) = Ret (Some s)" by blast
  from t' obtain t where t: "encode_payload5 128 hrp q = Ret (Some t)"
    "mweb_bech32_encode 128 hrp (0 # hs) = Ret (Some t)" by blast
  have "p = q" if "s = t"
  proof -
    from bech32_encode_verifies [OF s(3)] obtain cs where cs: "length cs = 6" "list_all (\<lambda>s. unat s < 32) cs"
      "s = hrp @ ''1'' @ bech32_chars (map ucast (0 # gs) @ cs)" by blast
    from bech32_encode_verifies [OF t(2)] obtain ds where ds: "length ds = 6" "list_all (\<lambda>s. unat s < 32) ds"
      "t = hrp @ ''1'' @ bech32_chars (map ucast (0 # hs) @ ds)" by blast
    have u: "unat (ucast d :: u32) = unat d" for d :: byte
      unfolding unsigned_ucast_eq
      by (rule take_bit_nat_eq_self) (rule less_trans [OF byte_less_256], simp)
    have inj_u: "inj (ucast :: byte \<Rightarrow> u32)"
      by (rule injI) (metis u word_eqI_unat)
    have "map ucast (0 # gs) @ cs = (map ucast (0 # hs) @ ds :: u32 list)"
      by (rule bech32_chars_inj) (use gs(2) hs(2) cs ds that u in \<open>auto simp: list_all_iff\<close>)
    then have "(map ucast gs :: u32 list) = map ucast hs" using gs(1) hs(1) by simp
    then have "gs = hs" using inj_map_eq_map [OF inj_u] by blast
    then have "be_nat p = be_nat q" using gs(3) hs(3) by simp
    then show ?thesis using assms(2,3) by (simp add: be_nat_inj)
  qed
  moreover have "s = t" if "p = q" using that s(1) t(1) by simp
  moreover have "length s \<le> 121" using s(2) hrp(2) network_hrp_ok(2) [OF assms(1)] by simp
  ultimately show ?thesis using s(1) t(1) assms(2,3) by (auto simp: mweb_bech32_encode_payload_def)
qed

theorem address_text_injective_witness:
  "\<exists>s t. mweb_bech32_encode_payload (Some (replicate 66 0)) (Some ''ltcmweb'') (Some 128) = Ret (Some s)
    \<and> mweb_bech32_encode_payload (Some (replicate 65 0 @ [1])) (Some ''ltcmweb'') (Some 128) = Ret (Some t)
    \<and> length s \<le> 121 \<and> s \<noteq> t"
proof -
  have "mweb_network_hrp NETWORK_LITECOIN = Some ''ltcmweb''" by (simp add: mweb_network_hrp_def)
  from address_text_injective [OF this, of "replicate 66 0" "replicate 65 0 @ [1]"] obtain s t where
    "mweb_bech32_encode_payload (Some (replicate 66 0)) (Some ''ltcmweb'') (Some 128) = Ret (Some s)"
    "mweb_bech32_encode_payload (Some (replicate 65 0 @ [1])) (Some ''ltcmweb'') (Some 128) = Ret (Some t)"
    "length s \<le> 121" "s = t \<longleftrightarrow> replicate 66 0 = replicate 65 0 @ [1 :: byte]" by auto
  moreover have "replicate 66 0 \<noteq> replicate 65 0 @ [1 :: byte]"
    by (metis last_replicate last_snoc zero_neq_numeral zero_neq_one)
  ultimately show ?thesis by blast
qed

end
