(* ===== verification/Mweb_Input.thy ===== *)
theory Mweb_Input
  imports Mweb_Output Mweb_Keychain
begin

text \<open>
  \<^verbatim>\<open>src/main/mweb/mweb_sign.c\<close>: the two stages of signing an MWEB input. Stage A
  recovers the output's keys from the key exchange point, rejects outputs of other
  wallets and prepares the input; stage B signs from the cached state. The properties
  include the one the two ends of a payment share: an output built for an address of
  this wallet (\<^verbatim>\<open>mweb_output.c\<close>, \<^verbatim>\<open>mweb_keychain.c\<close>) is recognised and opened by stage A.
\<close>

section \<open>Data\<close>

definition MWEB_INPUT_STEALTH_KEY_BIT :: byte where "MWEB_INPUT_STEALTH_KEY_BIT = 0x01"
definition MWEB_INPUT_EXTRA_DATA_BIT :: byte where "MWEB_INPUT_EXTRA_DATA_BIT = 0x02"

record mweb_input_state =
  is_value :: u64
  is_blind :: bytes
  is_ephemeral :: bytes
  is_osk :: bytes
  is_input_pubkey :: bytes
  is_stealth_tweak :: bytes
  is_output_commit :: bytes
  is_features :: byte
  is_spent_output_id :: bytes
  is_spent_output_pk :: bytes
  is_key_hash :: bytes

definition zero_input_state :: mweb_input_state where
  "zero_input_state = \<lparr>is_value = 0, is_blind = replicate 32 0, is_ephemeral = replicate 32 0,
     is_osk = replicate 32 0, is_input_pubkey = replicate 33 0, is_stealth_tweak = replicate 32 0,
     is_output_commit = replicate 33 0, is_features = 0, is_spent_output_id = replicate 32 0,
     is_spent_output_pk = replicate 33 0, is_key_hash = replicate 32 0\<rparr>"

section \<open>Stage A\<close>

text \<open>The shared secret: \<^verbatim>\<open>Hashed('D', key_exchange_pubkey * scan_key)\<close>.\<close>

definition input_shared_secret :: "crypto \<Rightarrow> bytes \<Rightarrow> bytes \<Rightarrow> bytes option" where
  "input_shared_secret C key_exchange_pubkey scan_key = do {
     kex \<leftarrow> pubkey_parse C key_exchange_pubkey;
     kex \<leftarrow> pubkey_tweak_mul C kex scan_key;
     Some (mweb_hashed C MWEB_TAG_DERIVE (pubkey_compressed C kex))
   }"

text \<open>The output key this wallet would have at the address index.\<close>

definition expected_output_key :: "crypto \<Rightarrow> bytes \<Rightarrow> bytes \<Rightarrow> bytes \<Rightarrow> bytes option" where
  "expected_output_key C spend_key m_i out_key_hash = do {
     spend_pub \<leftarrow> wally_public_key C spend_key;
     mi_pub \<leftarrow> wally_public_key C m_i;
     sp_pk \<leftarrow> pubkey_parse C spend_pub;
     mi_pk \<leftarrow> pubkey_parse C mi_pub;
     Bi_pk \<leftarrow> pubkey_combine C [sp_pk, mi_pk];
     Bi_pk \<leftarrow> pubkey_tweak_mul C Bi_pk out_key_hash;
     Some (pubkey_compressed C Bi_pk)
   }"

text \<open>
  The body after the early returns; a failure is a jump to \<^verbatim>\<open>cleanup\<close>. \<^verbatim>\<open>mpi_ok\<close> and
  \<^verbatim>\<open>sub_ok\<close>: allocations of the blind switch and of the subtraction.
\<close>

definition input_steps ::
  "crypto \<Rightarrow> bool \<Rightarrow> (nat \<Rightarrow> bool) \<Rightarrow> (nat \<Rightarrow> bytes) \<Rightarrow> bytes \<Rightarrow> bytes \<Rightarrow> u32 \<Rightarrow> byte \<Rightarrow> bytes
    \<Rightarrow> bytes \<Rightarrow> u64 \<Rightarrow> bytes \<Rightarrow> (mweb_err_t + mweb_input_state) run" where
  "input_steps C mpi_ok sub_ok rnd scan_key spend_key address_index features spent_output_id
     spent_output_pk amount key_exchange_pubkey =
     seq (need (input_shared_secret C key_exchange_pubkey scan_key) MWEB_ERR_INTERNAL) (\<lambda>ss.
     let pre_blind = mweb_hashed C MWEB_TAG_BLIND ss;
         out_key_hash = mweb_hashed C MWEB_TAG_OUTKEY ss;
         m_i = subaddress_modifier C address_index scan_key in
     seq (need (seckey_tweak_add C spend_key m_i) MWEB_ERR_INTERNAL) (\<lambda>osk.
     seq (need (seckey_tweak_mul C osk out_key_hash) MWEB_ERR_INTERNAL) (\<lambda>osk.
     seq (need (expected_output_key C spend_key m_i out_key_hash) MWEB_ERR_INTERNAL) (\<lambda>expected_Ko.
     seq (check (expected_Ko = spent_output_pk) MWEB_ERR_FOREIGN_MWEB_INPUT) (\<lambda>_.
     seq (need (mweb_blind_switch C mpi_ok pre_blind amount) MWEB_ERR_INTERNAL) (\<lambda>blind.
     seq (need (draw_scalar rnd 0 8) MWEB_ERR_INVALID_SCALAR) (\<lambda>ephemeral.
     seq (need (wally_public_key C ephemeral) MWEB_ERR_INTERNAL) (\<lambda>input_pubkey.
     let key_hash = blake3 C (input_pubkey @ spent_output_pk) in
     seq (need (mweb_pedersen_commit C blind amount) MWEB_ERR_INTERNAL) (\<lambda>output_commit.
     seq (need (mweb_scalar_sub_mod_n sub_ok ephemeral osk) MWEB_ERR_INTERNAL) (\<lambda>stealth_tweak.
     ok \<lparr>is_value = amount, is_blind = blind, is_ephemeral = ephemeral, is_osk = osk,
         is_input_pubkey = input_pubkey, is_stealth_tweak = stealth_tweak,
         is_output_commit = output_commit, is_features = features,
         is_spent_output_id = spent_output_id, is_spent_output_pk = spent_output_pk,
         is_key_hash = key_hash\<rparr>))))))))))"

definition mweb_derive_input_state ::
  "crypto \<Rightarrow> bool \<Rightarrow> (nat \<Rightarrow> bool) \<Rightarrow> (nat \<Rightarrow> bytes) \<Rightarrow> bytes option \<Rightarrow> bytes option \<Rightarrow> u32 \<Rightarrow> byte
    \<Rightarrow> bytes option \<Rightarrow> bytes option \<Rightarrow> u64 \<Rightarrow> bytes option \<Rightarrow> mweb_input_state option
    \<Rightarrow> (mweb_err_t \<times> mweb_input_state option) run" where
  "mweb_derive_input_state C mpi_ok sub_ok rnd scan_key spend_key address_index features
     spent_output_id spent_output_pk amount key_exchange_pubkey out_state =
     (case (scan_key, spend_key, spent_output_id, spent_output_pk, key_exchange_pubkey, out_state) of
        (Some scan, Some spend, Some oid, Some opk, Some kex, Some _) \<Rightarrow>
          if \<not> secp_ctx C then Ret (MWEB_ERR_INTERNAL, out_state)
          else if \<not> has_bit features MWEB_INPUT_STEALTH_KEY_BIT
          then Ret (MWEB_ERR_INVALID_SCALAR, out_state)
          else (case input_steps C mpi_ok sub_ok rnd scan spend address_index features oid opk amount kex of
                  Crash \<Rightarrow> Crash
                | Undef \<Rightarrow> Undef
                | Ret (Inl err) \<Rightarrow> Ret (err, Some zero_input_state)
                | Ret (Inr st) \<Rightarrow> Ret (MWEB_OK, Some st))
      | _ \<Rightarrow> Ret (MWEB_ERR_INTERNAL, out_state))"

section \<open>Stage B\<close>

text \<open>What the input signature signs.\<close>

definition input_message :: "byte \<Rightarrow> bytes \<Rightarrow> bytes option \<Rightarrow> nat \<Rightarrow> bytes run" where
  "input_message features spent_output_id extra_data extra_data_len =
     (if has_bit features MWEB_INPUT_EXTRA_DATA_BIT then
        then_run (if extra_data \<noteq> None \<and> extra_data_len > 0 then read_buf extra_data_len extra_data
                  else Ret []) (\<lambda>extra.
          Ret ([features] @ spent_output_id @ write_varint (of_nat extra_data_len) @ extra))
      else Ret ([features] @ spent_output_id))"

definition mweb_sign_input_from_state ::
  "crypto \<Rightarrow> bool \<Rightarrow> mweb_input_state option \<Rightarrow> bytes option \<Rightarrow> nat \<Rightarrow> bytes option
    \<Rightarrow> (mweb_err_t \<times> bytes option) run" where
  "mweb_sign_input_from_state C mpi_ok state extra_data extra_data_len out_signature =
     (case (state, out_signature) of
        (Some st, Some buf) \<Rightarrow>
          if \<not> secp_ctx C then Ret (MWEB_ERR_INTERNAL, out_signature)
          else (case seckey_tweak_mul C (is_osk st) (is_key_hash st) of
            None \<Rightarrow> Ret (MWEB_ERR_INTERNAL, out_signature)
          | Some sig_key \<Rightarrow>
            (case seckey_tweak_add C sig_key (is_ephemeral st) of
               None \<Rightarrow> Ret (MWEB_ERR_INTERNAL, out_signature)
             | Some sig_key \<Rightarrow>
                 then_run (input_message (is_features st) (is_spent_output_id st) extra_data extra_data_len)
                   (\<lambda>msg.
                     let signed = mweb_schnorr_sign C mpi_ok sig_key (blake3 C msg) buf
                     in Ret (if fst signed then MWEB_OK else MWEB_ERR_INTERNAL, Some (snd signed)))))
      | _ \<Rightarrow> Ret (MWEB_ERR_INTERNAL, out_signature))"

section \<open>Lemmas\<close>

lemma input_steps_ok:
  assumes "input_steps C m sm rnd scan spend idx f oid opk v kex = ok st"
  obtains ss osk0 where "input_shared_secret C kex scan = Some ss"
    and "seckey_tweak_add C spend (subaddress_modifier C idx scan) = Some osk0"
    and "seckey_tweak_mul C osk0 (mweb_hashed C MWEB_TAG_OUTKEY ss) = Some (is_osk st)"
    and "expected_output_key C spend (subaddress_modifier C idx scan) (mweb_hashed C MWEB_TAG_OUTKEY ss) = Some opk"
    and "mweb_blind_switch C m (mweb_hashed C MWEB_TAG_BLIND ss) v = Some (is_blind st)"
    and "draw_scalar rnd 0 8 = Some (is_ephemeral st)"
    and "wally_public_key C (is_ephemeral st) = Some (is_input_pubkey st)"
    and "is_key_hash st = blake3 C (is_input_pubkey st @ opk)"
    and "mweb_pedersen_commit C (is_blind st) v = Some (is_output_commit st)"
    and "mweb_scalar_sub_mod_n sm (is_ephemeral st) (is_osk st) = Some (is_stealth_tweak st)"
    and "is_value st = v" and "is_features st = f" and "is_spent_output_id st = oid"
    and "is_spent_output_pk st = opk"
  using assms unfolding input_steps_def Let_def run_simps by (auto intro: that)

lemma derive_input_ok:
  assumes "mweb_derive_input_state C m sm rnd (Some scan) (Some spend) idx f (Some oid) (Some opk) v (Some kex) out
      = Ret (MWEB_OK, r)"
  obtains st where "r = Some st" and "input_steps C m sm rnd scan spend idx f oid opk v kex = ok st"
    and "has_bit f MWEB_INPUT_STEALTH_KEY_BIT" and "secp_ctx C"
proof -
  have "input_steps C m sm rnd scan spend idx f oid opk v kex \<noteq> fail MWEB_OK"
    unfolding input_steps_def Let_def run_simps by (auto simp: run_simps)
  with assms that show thesis
    by (auto simp: mweb_derive_input_state_def split: option.splits if_splits run.splits sum.splits)
qed

text \<open>The recipient's view of an output built for one of its addresses.\<close>

lemma shared_secret_meets:
  assumes pl: "point_laws C" and addr: "address_points C scan spend idx = Some (A, B)"
    and d: "derive_output_binding C k sk A B v = Some d"
  obtains s sA t where "t = mweb_hashed C MWEB_TAG_DERIVE sA"
    and "input_shared_secret C (do_key_exchange_pubkey d) scan = Some t"
    and "expected_output_key C spend (subaddress_modifier C idx scan) (mweb_hashed C MWEB_TAG_OUTKEY t)
      = Some (do_output_pubkey d)"
    and "mweb_blind_switch C k (mweb_hashed C MWEB_TAG_BLIND t) v = Some (do_blind d)"
    and "mweb_pedersen_commit C (do_blind d) v = Some (do_commit d)"
    and "do_masked_value d = v XOR read_le 8 (mweb_hashed C MWEB_TAG_VALUEMASK t)"
    and "do_masked_nonce d = map2 (XOR) (take 16 (mweb_hashed C MWEB_TAG_NONCE sk))
      (take 16 (mweb_hashed C MWEB_TAG_NONCEMASK t))"
    and "do_view_tag d = mweb_hashed C MWEB_TAG_TAG sA ! 0"
proof -
  let ?mi = "subaddress_modifier C idx scan"
  from addr obtain sp mp spk mpk Bi Ai where
      sp: "wally_public_key C spend = Some sp" and mp: "wally_public_key C ?mi = Some mp"
    and spk: "pubkey_parse C sp = Some spk" and mpk: "pubkey_parse C mp = Some mpk"
    and Bi: "pubkey_combine C [spk, mpk] = Some Bi" and Ai: "pubkey_tweak_mul C Bi scan = Some Ai"
    and A: "A = pubkey_compressed C Ai" and B: "B = pubkey_compressed C Bi"
    by (auto simp: address_points_def Let_def bind_eq_Some_conv mweb_derive_spend_pubkey_def)
  have pA: "pubkey_parse C A = Some Ai" and pB: "pubkey_parse C B = Some Bi"
    using pl Ai Bi unfolding point_laws_def A B by blast+
  define s where "s = mweb_hashed C MWEB_TAG_SENDKEY
    (A @ B @ map (\<lambda>i. ucast (drop_bit (i * 8) v)) [0..<8] @ take 16 (mweb_hashed C MWEB_TAG_NONCE sk))"
  from d obtain S Ko Ke blind commit Ks where
      S: "pubkey_tweak_mul C Ai s = Some S"
    and Ko: "pubkey_tweak_mul C Bi (mweb_hashed C MWEB_TAG_OUTKEY (mweb_hashed C MWEB_TAG_DERIVE (pubkey_compressed C S))) = Some Ko"
    and Ke: "pubkey_tweak_mul C Bi s = Some Ke"
    and bl: "mweb_blind_switch C k (mweb_hashed C MWEB_TAG_BLIND (mweb_hashed C MWEB_TAG_DERIVE (pubkey_compressed C S))) v = Some blind"
    and co: "mweb_pedersen_commit C blind v = Some commit"
    and dd: "d = \<lparr>do_blind = blind, do_output_pubkey = pubkey_compressed C Ko,
       do_sender_pubkey = pubkey_compressed C Ks,
       do_key_exchange_pubkey = pubkey_compressed C Ke, do_commit = commit,
       do_view_tag = mweb_hashed C MWEB_TAG_TAG (pubkey_compressed C S) ! 0,
       do_masked_value = v XOR read_le 8 (mweb_hashed C MWEB_TAG_VALUEMASK (mweb_hashed C MWEB_TAG_DERIVE (pubkey_compressed C S))),
       do_masked_nonce = map2 (XOR) (take 16 (mweb_hashed C MWEB_TAG_NONCE sk))
         (take 16 (mweb_hashed C MWEB_TAG_NONCEMASK (mweb_hashed C MWEB_TAG_DERIVE (pubkey_compressed C S))))\<rparr>"
    unfolding derive_output_binding_def Let_def s_def [symmetric] pA pB
    by (auto simp: bind_eq_Some_conv)
  have "pubkey_parse C (pubkey_compressed C Ke) = Some Ke" and "pubkey_tweak_mul C Ke scan = Some S"
    using pl Ke Ai S unfolding point_laws_def by blast+
  then have ss: "input_shared_secret C (do_key_exchange_pubkey d) scan
      = Some (mweb_hashed C MWEB_TAG_DERIVE (pubkey_compressed C S))"
    by (simp add: input_shared_secret_def dd)
  show thesis
    by (rule that [OF refl ss]) (use sp mp spk mpk Bi Ko bl co in \<open>simp_all add: expected_output_key_def dd\<close>)
qed

lemma xor_masks_cancel:
  "length n \<le> length m \<Longrightarrow> map2 (XOR) (map2 (XOR) n m) m = (n :: bytes)"
proof (induction n arbitrary: m)
  case Nil
  then show ?case by simp
next
  case (Cons x n)
  then obtain y m' where "m = y # m'" by (cases m) auto
  with Cons show ?case by (simp add: xor.assoc)
qed

section \<open>A payment to the wallet itself, for the examples\<close>

lemma log_address:
  "address_points log_crypto one32 one32 7 = Some (2 # scalar_bytes 2, 2 # scalar_bytes 2)"
proof -
  have "subaddress_modifier log_crypto 7 one32 = one32"
    by (simp add: subaddress_modifier_def mweb_hashed_def log_crypto_def)
  then show ?thesis
    by (simp add: address_points_def mweb_derive_spend_pubkey_def log_crypto_def Let_def secp_n_value numeral_2_eq_2)
qed

lemma log_input_steps:
  assumes "expected_output_key log_crypto one32 one32 one32 = Some opk"
  shows "\<exists>st. input_steps log_crypto True (\<lambda>_. True) (\<lambda>_. one32) one32 one32 7 f oid opk v (2 # scalar_bytes u) = ok st"
proof -
  have h: "mweb_hashed log_crypto t x = one32" for t x by (simp add: mweb_hashed_def log_crypto_def)
  obtain b where b: "mweb_blind_switch log_crypto True one32 v = Some b" using log_blind_switch by blast
  obtain c where c: "mweb_pedersen_commit log_crypto b v = Some c"
    by (simp add: mweb_pedersen_commit_def log_crypto_def)
  have draw: "draw_scalar (\<lambda>_. one32) 0 8 = Some one32" by (simp add: numeral_eq_Suc)
  have s: "\<exists>w. input_shared_secret log_crypto (2 # scalar_bytes u) one32 = Some one32"
    by (simp add: input_shared_secret_def log_crypto_def mweb_hashed_def)
  have k: "\<exists>w. seckey_tweak_add log_crypto x y = Some w" "\<exists>w. seckey_tweak_mul log_crypto x y = Some w"
    "\<exists>w. wally_public_key log_crypto x = Some w" for x y by (simp_all add: log_crypto_def)
  obtain o0 where o0: "seckey_tweak_add log_crypto one32 one32 = Some o0" using k by blast
  obtain o1 where o1: "seckey_tweak_mul log_crypto o0 one32 = Some o1" using k by blast
  obtain ip where ip: "wally_public_key log_crypto one32 = Some ip" using k by blast
  obtain tw where tw: "mweb_scalar_sub_mod_n (\<lambda>_. True) one32 o1 = Some tw" using scalar_sub_total by blast
  have "subaddress_modifier log_crypto 7 one32 = one32" unfolding subaddress_modifier_def by (rule h)
  then show ?thesis
    using s by (simp add: input_steps_def Let_def h b c draw o0 o1 ip tw assms)
qed

section \<open>Properties\<close>

text \<open>C26: Sender and recipient agree. If an output was derived for an address of this
  wallet (any subaddress index) and any value, then stage A, given the same keys, index
  and value and the output's published keys, never calls it foreign, and when it succeeds
  it has recovered the sender's blinding factor and commitment; and the shared secret it
  computes unmasks the published value and nonce.\<close>

theorem output_roundtrip:
  assumes "point_laws C" and "size_laws C" and "address_points C scan spend idx = Some (A, B)"
    and "mweb_derive_output C k (Some sk) (Some A) (Some B) v (Some z) = (MWEB_OK, Some d)"
    and "mweb_derive_input_state C m sm rnd (Some scan) (Some spend) idx f (Some oid)
      (Some (do_output_pubkey d)) v (Some (do_key_exchange_pubkey d)) (Some z') = Ret (err, r)"
  shows "err \<noteq> MWEB_ERR_FOREIGN_MWEB_INPUT
    \<and> (err = MWEB_OK \<longrightarrow> (\<exists>st. r = Some st \<and> is_blind st = do_blind d \<and> is_output_commit st = do_commit d))
    \<and> (\<exists>t. input_shared_secret C (do_key_exchange_pubkey d) scan = Some t
        \<and> do_masked_value d XOR read_le 8 (mweb_hashed C MWEB_TAG_VALUEMASK t) = v
        \<and> map2 (XOR) (do_masked_nonce d) (take 16 (mweb_hashed C MWEB_TAG_NONCEMASK t))
            = take 16 (mweb_hashed C MWEB_TAG_NONCE sk))"
proof -
  from assms(4) have d: "derive_output_binding C k sk A B v = Some d"
    by (auto simp: mweb_derive_output_def split: if_splits option.splits)
  obtain t where ss: "input_shared_secret C (do_key_exchange_pubkey d) scan = Some t"
    and ko: "expected_output_key C spend (subaddress_modifier C idx scan) (mweb_hashed C MWEB_TAG_OUTKEY t)
      = Some (do_output_pubkey d)"
    and bl: "mweb_blind_switch C k (mweb_hashed C MWEB_TAG_BLIND t) v = Some (do_blind d)"
    and co: "mweb_pedersen_commit C (do_blind d) v = Some (do_commit d)"
    and mv: "do_masked_value d = v XOR read_le 8 (mweb_hashed C MWEB_TAG_VALUEMASK t)"
    and mn: "do_masked_nonce d = map2 (XOR) (take 16 (mweb_hashed C MWEB_TAG_NONCE sk))
      (take 16 (mweb_hashed C MWEB_TAG_NONCEMASK t))"
    by (rule shared_secret_meets [OF assms(1,3) d])
  have bl': "mweb_blind_switch C m x v = Some b \<Longrightarrow> mweb_blind_switch C k x v = Some b'
      \<Longrightarrow> b = b'" for x b b'
    by (auto simp: mweb_blind_switch_def Let_def bind_eq_Some_conv split: if_splits)
  let ?steps = "input_steps C m sm rnd scan spend idx f oid (do_output_pubkey d) v (do_key_exchange_pubkey d)"
  have "?steps \<noteq> fail MWEB_ERR_FOREIGN_MWEB_INPUT"
    unfolding input_steps_def Let_def run_simps by (auto simp: run_simps ss ko)
  then have 1: "err \<noteq> MWEB_ERR_FOREIGN_MWEB_INPUT"
    using assms(5) by (auto simp: mweb_derive_input_state_def split: if_splits run.splits sum.splits)
  have 2: "\<exists>st. r = Some st \<and> is_blind st = do_blind d \<and> is_output_commit st = do_commit d" if "err = MWEB_OK"
  proof -
    from assms(5) that obtain st where r: "r = Some st" and st: "?steps = ok st"
      by (auto elim: derive_input_ok)
    from st have "mweb_blind_switch C m (mweb_hashed C MWEB_TAG_BLIND t) v = Some (is_blind st)"
      "mweb_pedersen_commit C (is_blind st) v = Some (is_output_commit st)"
      by (rule input_steps_ok, simp add: ss)+
    moreover from this(1) bl have "is_blind st = do_blind d" by (rule bl')
    ultimately show ?thesis using co r by simp
  qed
  have "length (mweb_hashed C x y) = 32" for x y using assms(2) by (simp add: size_laws_def mweb_hashed_def)
  then have "map2 (XOR) (do_masked_nonce d) (take 16 (mweb_hashed C MWEB_TAG_NONCEMASK t))
      = take 16 (mweb_hashed C MWEB_TAG_NONCE sk)" unfolding mn by (intro xor_masks_cancel) simp
  moreover have "do_masked_value d XOR read_le 8 (mweb_hashed C MWEB_TAG_VALUEMASK t) = v"
    by (simp add: mv xor.assoc)
  ultimately show ?thesis using 1 2 ss by blast
qed

theorem output_roundtrip_witness:
  "\<exists>d st. mweb_derive_output log_crypto True (Some one32) (Some (2 # scalar_bytes 2)) (Some (2 # scalar_bytes 2))
       900 (Some zero_derived) = (MWEB_OK, Some d)
    \<and> mweb_derive_input_state log_crypto True (\<lambda>_. True) (\<lambda>_. one32) (Some one32) (Some one32) 7 0x01
       (Some (replicate 32 0)) (Some (do_output_pubkey d)) 900 (Some (do_key_exchange_pubkey d))
       (Some zero_input_state) = Ret (MWEB_OK, Some st)
    \<and> is_blind st = do_blind d \<and> is_output_commit st = do_commit d"
proof -
  obtain d where d: "derive_output_binding log_crypto True one32 (2 # scalar_bytes 2) (2 # scalar_bytes 2) 900 = Some d"
    using log_binding [of "2 # scalar_bytes 2" "2 # scalar_bytes 2"] by auto
  then have out: "mweb_derive_output log_crypto True (Some one32) (Some (2 # scalar_bytes 2)) (Some (2 # scalar_bytes 2))
       900 (Some zero_derived) = (MWEB_OK, Some d)"
    by (simp add: mweb_derive_output_def) (simp add: log_crypto_def)
  have h: "mweb_hashed log_crypto t x = one32" for t x by (simp add: mweb_hashed_def log_crypto_def)
  obtain t where ko: "expected_output_key log_crypto one32 (subaddress_modifier log_crypto 7 one32)
      (mweb_hashed log_crypto MWEB_TAG_OUTKEY t) = Some (do_output_pubkey d)"
    using shared_secret_meets [OF log_crypto_point_laws log_address d] by metis
  have "subaddress_modifier log_crypto 7 one32 = one32" unfolding subaddress_modifier_def by (rule h)
  with ko have ko': "expected_output_key log_crypto one32 one32 one32 = Some (do_output_pubkey d)" by (simp add: h)
  obtain u where ke: "do_key_exchange_pubkey d = 2 # scalar_bytes u"
    using d by (auto simp: derive_output_binding_def Let_def bind_eq_Some_conv log_crypto_def)
  obtain st where "input_steps log_crypto True (\<lambda>_. True) (\<lambda>_. one32) one32 one32 7 0x01 (replicate 32 0)
      (do_output_pubkey d) 900 (do_key_exchange_pubkey d) = ok st"
    using log_input_steps [OF ko'] ke by metis
  then have run: "mweb_derive_input_state log_crypto True (\<lambda>_. True) (\<lambda>_. one32) (Some one32) (Some one32) 7 0x01
       (Some (replicate 32 0)) (Some (do_output_pubkey d)) 900 (Some (do_key_exchange_pubkey d))
       (Some zero_input_state) = Ret (MWEB_OK, Some st)"
    by (simp add: mweb_derive_input_state_def has_bit_def MWEB_INPUT_STEALTH_KEY_BIT_def) (simp add: log_crypto_def)
  from output_roundtrip [OF log_crypto_point_laws log_crypto_size_laws log_address out run] out run
  show ?thesis by auto
qed

text \<open>C32: What stage A establishes. When it succeeds, the spent output's key is the one
  this wallet derives at the given index, the output spend key is
  \<^verbatim>\<open>(spend_key + m_i) * Hashed('O', ss)\<close>, the ephemeral key is the first valid one of at
  most eight draws, the cached commitment is to the stated value, and the stealth tweak
  is the ephemeral key minus the output spend key, all modulo the group order.\<close>

theorem input_state_derived:
  assumes "mweb_derive_input_state C m sm rnd (Some scan) (Some spend) idx f (Some oid) (Some opk) v (Some kex) out
      = Ret (MWEB_OK, r)" and "seckey_laws C"
  shows "\<exists>st ss i. r = Some st \<and> input_shared_secret C kex scan = Some ss
    \<and> expected_output_key C spend (subaddress_modifier C idx scan) (mweb_hashed C MWEB_TAG_OUTKEY ss) = Some opk
    \<and> be_nat (is_osk st) = (be_nat spend + be_nat (subaddress_modifier C idx scan))
        * be_nat (mweb_hashed C MWEB_TAG_OUTKEY ss) mod secp_n
    \<and> i < 8 \<and> is_ephemeral st = rnd i \<and> mweb_validate_scalar (rnd i)
    \<and> (\<forall>j < i. \<not> mweb_validate_scalar (rnd j))
    \<and> mweb_pedersen_commit C (is_blind st) v = Some (is_output_commit st) \<and> is_value st = v
    \<and> int (be_nat (is_stealth_tweak st))
        = (int (be_nat (is_ephemeral st)) - int (be_nat (is_osk st))) mod int secp_n"
proof -
  from assms(1) obtain st where r: "r = Some st" and st: "input_steps C m sm rnd scan spend idx f oid opk v kex = ok st"
    by (rule derive_input_ok)
  from st obtain ss osk0 where 1: "input_shared_secret C kex scan = Some ss"
    "expected_output_key C spend (subaddress_modifier C idx scan) (mweb_hashed C MWEB_TAG_OUTKEY ss) = Some opk"
    "mweb_pedersen_commit C (is_blind st) v = Some (is_output_commit st)" "is_value st = v"
    and a: "seckey_tweak_add C spend (subaddress_modifier C idx scan) = Some osk0"
    and b: "seckey_tweak_mul C osk0 (mweb_hashed C MWEB_TAG_OUTKEY ss) = Some (is_osk st)"
    and e: "draw_scalar rnd 0 8 = Some (is_ephemeral st)"
    and t: "mweb_scalar_sub_mod_n sm (is_ephemeral st) (is_osk st) = Some (is_stealth_tweak st)"
    by (rule input_steps_ok)
  have "be_nat osk0 = (be_nat spend + be_nat (subaddress_modifier C idx scan)) mod secp_n"
    "be_nat (is_osk st) = be_nat osk0 * be_nat (mweb_hashed C MWEB_TAG_OUTKEY ss) mod secp_n"
    using assms(2) a b unfolding seckey_laws_def by blast+
  then have osk: "be_nat (is_osk st) = (be_nat spend + be_nat (subaddress_modifier C idx scan))
        * be_nat (mweb_hashed C MWEB_TAG_OUTKEY ss) mod secp_n" by (simp add: mod_mult_left_eq)
  from e obtain i where "i < 8" "is_ephemeral st = rnd i" "mweb_validate_scalar (rnd i)"
    "\<forall>j < i. \<not> mweb_validate_scalar (rnd j)" by (auto simp: draw_scalar_Some)
  then show ?thesis using r 1 osk scalar_sub_Some(2) [OF t] by blast
qed

theorem input_state_derived_witness:
  "\<exists>opk st. mweb_derive_input_state log_crypto True (\<lambda>_. True) (\<lambda>_. one32) (Some one32) (Some one32) 7 0x01
       (Some (replicate 32 0)) (Some opk) 900 (Some (2 # scalar_bytes 2))
       (Some zero_input_state) = Ret (MWEB_OK, Some st)
     \<and> be_nat (is_osk st) = 2 \<and> int (be_nat (is_stealth_tweak st)) = (- 1) mod int secp_n"
proof -
  have h: "mweb_hashed log_crypto t x = one32" for t x by (simp add: mweb_hashed_def log_crypto_def)
  have m: "subaddress_modifier log_crypto 7 one32 = one32" unfolding subaddress_modifier_def by (rule h)
  obtain opk where k: "expected_output_key log_crypto one32 one32 one32 = Some opk"
    by (simp add: expected_output_key_def log_crypto_def)
  obtain st where "input_steps log_crypto True (\<lambda>_. True) (\<lambda>_. one32) one32 one32 7 0x01 (replicate 32 0)
      opk 900 (2 # scalar_bytes 2) = ok st" using log_input_steps [OF k] by blast
  then have run: "mweb_derive_input_state log_crypto True (\<lambda>_. True) (\<lambda>_. one32) (Some one32) (Some one32) 7 0x01
       (Some (replicate 32 0)) (Some opk) 900 (Some (2 # scalar_bytes 2))
       (Some zero_input_state) = Ret (MWEB_OK, Some st)"
    by (simp add: mweb_derive_input_state_def has_bit_def MWEB_INPUT_STEALTH_KEY_BIT_def) (simp add: log_crypto_def)
  from input_state_derived [OF run log_crypto_seckey_laws] have "be_nat (is_osk st) = 2 mod secp_n"
    "int (be_nat (is_stealth_tweak st)) = (1 - int (be_nat (is_osk st))) mod int secp_n"
    by (auto simp: h m numeral_2_eq_2)
  with run show ?thesis by (auto simp: secp_n_value)
qed

text \<open>The input signature uses what stage A committed to. Stage B on a derived state
  signs with the key \<^verbatim>\<open>osk * BLAKE3(input_pubkey || K_o) + ephemeral\<close>, the same ephemeral
  key that the stealth tweak contains: the signature's second half satisfies the Schnorr
  equation under that key for the hash of features, output id and extra data.\<close>

theorem input_signature_from_state:
  assumes "mweb_sign_input_from_state C k (Some st) ex exl (Some buf) = Ret (MWEB_OK, r)"
    and "seckey_laws C"
  shows "\<exists>key msg R pk s sig. r = Some sig
    \<and> be_nat key = (be_nat (is_osk st) * be_nat (is_key_hash st) + be_nat (is_ephemeral st)) mod secp_n
    \<and> input_message (is_features st) (is_spent_output_id st) ex exl = Ret msg
    \<and> pubkey_create C (mbedtls_sha256 C (key @ blake3 C msg)) = Some R \<and> pubkey_create C key = Some pk
    \<and> sig = take 32 (drop 1 (pubkey_uncompressed C R)) @ s
    \<and> int (be_nat s) = (int (be_nat (mbedtls_sha256 C
           (take 32 (drop 1 (pubkey_uncompressed C R)) @ pubkey_compressed C pk @ blake3 C msg)))
           * int (be_nat key) + nonce_sign C R * int (be_nat (mbedtls_sha256 C (key @ blake3 C msg))))
        mod int secp_n"
proof -
  from assms(1) obtain k0 key msg where k0: "seckey_tweak_mul C (is_osk st) (is_key_hash st) = Some k0"
    and key: "seckey_tweak_add C k0 (is_ephemeral st) = Some key"
    and msg: "input_message (is_features st) (is_spent_output_id st) ex exl = Ret msg"
    and ok: "fst (mweb_schnorr_sign C k key (blake3 C msg) buf)"
    and r: "r = Some (snd (mweb_schnorr_sign C k key (blake3 C msg) buf))"
    by (auto simp: mweb_sign_input_from_state_def Let_def run_simps split: if_splits option.splits)
  obtain sig where sg: "mweb_schnorr_sign C k key (blake3 C msg) buf = (True, sig)"
    using ok by (metis prod.collapse)
  have "be_nat k0 = be_nat (is_osk st) * be_nat (is_key_hash st) mod secp_n"
    "be_nat key = (be_nat k0 + be_nat (is_ephemeral st)) mod secp_n"
    using assms(2) k0 key unfolding seckey_laws_def by blast+
  then have kv: "be_nat key = (be_nat (is_osk st) * be_nat (is_key_hash st) + be_nat (is_ephemeral st)) mod secp_n"
    by (simp add: mod_add_left_eq)
  from mweb_schnorr_sign_cases [OF sg] have "schnorr_steps C k key (blake3 C msg) = Some sig" by simp
  from schnorr_steps_Some [OF this assms(2)] show ?thesis using r sg kv msg by (metis snd_conv)
qed

theorem input_signature_from_state_witness:
  "\<exists>sig R s. mweb_sign_input_from_state log_crypto True
      (Some (zero_input_state\<lparr>is_osk := one32, is_ephemeral := one32, is_key_hash := one32\<rparr>)) None 0
      (Some (replicate 64 0)) = Ret (MWEB_OK, Some sig)
      \<and> pubkey_create log_crypto one32 = Some R \<and> sig = take 32 (drop 1 (pubkey_uncompressed log_crypto R)) @ s"
proof -
  let ?st = "zero_input_state\<lparr>is_osk := one32, is_ephemeral := one32, is_key_hash := one32\<rparr>"
  have keys: "seckey_tweak_mul log_crypto one32 one32 = Some (scalar_bytes 1)"
    "seckey_tweak_add log_crypto (scalar_bytes 1) one32 = Some (scalar_bytes (1 mod secp_n + 1))"
    by (simp_all add: log_crypto_def)
  have msg: "\<exists>m. input_message 0 x None 0 = Ret m" for x by (simp add: input_message_def)
  obtain m where m: "input_message (is_features ?st) (is_spent_output_id ?st) None 0 = Ret m"
    using msg by (auto simp: zero_input_state_def)
  obtain sig where sig: "mweb_schnorr_sign log_crypto True (scalar_bytes (1 mod secp_n + 1)) (blake3 log_crypto m)
      (replicate 64 0) = (True, sig)" using schnorr_total [OF log_crypto_total] by blast
  have run: "mweb_sign_input_from_state log_crypto True (Some ?st) None 0 (Some (replicate 64 0)) = Ret (MWEB_OK, Some sig)"
    using m sig keys by (simp add: mweb_sign_input_from_state_def Let_def) (simp add: log_crypto_def)
  have sha: "mbedtls_sha256 log_crypto x = one32" for x by (simp add: log_crypto_def)
  obtain R s where "pubkey_create log_crypto one32 = Some R" "sig = take 32 (drop 1 (pubkey_uncompressed log_crypto R)) @ s"
    using input_signature_from_state [OF run log_crypto_seckey_laws] unfolding sha by blast
  with run show ?thesis by blast
qed

end
