(* ===== verification/Mweb_Psbt.thy ===== *)
theory Mweb_Psbt
  imports Mweb_Input
begin

text \<open>
  The PSBT fields that the MWEB code reads and writes (\<^verbatim>\<open>struct wally_psbt\<close>), the gate of
  \<^verbatim>\<open>src/main/mweb/mweb_gate.c\<close>, and the first half of
  \<^verbatim>\<open>src/main/mweb/mweb_atomic_sign.c\<close>: the session structures, the snapshots taken when
  a session begins and the rollback that puts them back. The locale \<^verbatim>\<open>rollback\<close> is the
  contract of a snapshot and its restore, \<^verbatim>\<open>rollback_slot\<close> that of one kept in an array
  slot which may be unfilled; both are interpreted on the snapshots of the code.
\<close>

section \<open>The PSBT\<close>

text \<open>
  A \<^verbatim>\<open>wally_map\<close> is its items and its \<^verbatim>\<open>verify_fn\<close> (an address, or null); the capacity of
  its buffer is not content and is left out.
\<close>

record wmap =
  wm_items :: "(bytes \<times> bytes) list"
  wm_verify_fn :: "nat option"

record psbt_input =
  pi_signatures :: wmap
  pi_psbt_fields :: wmap
  pi_taproot_leaf_signatures :: wmap
  pi_mweb_keyset :: u16
  pi_mweb_input_signature :: bytes
  pi_mweb_input_pubkey :: bytes
  pi_mweb_scan_key_origin :: wmap
  pi_mweb_spend_key_origin :: wmap
  pi_mweb_address_index :: u32
  pi_mweb_input_features :: byte
  pi_mweb_spent_output_id :: bytes
  pi_mweb_spent_output_pubkey :: bytes
  pi_mweb_spent_output_commit :: bytes
  pi_mweb_key_exchange_pubkey :: bytes
  pi_mweb_input_amount :: u64
  pi_mweb_extra_data :: "bytes option"

record psbt_output =
  po_unknowns :: wmap
  po_mweb_output_keyset :: u16
  po_mweb_commit :: bytes
  po_mweb_features :: byte
  po_mweb_sender_pubkey :: bytes
  po_mweb_output_pubkey :: bytes
  po_mweb_standard_fields :: bytes
  po_mweb_signature :: bytes
  po_mweb_range_proof :: "bytes option"
  po_amount :: "u64 option"
  po_mweb_stealth_address :: bytes
  po_mweb_extra_data :: "bytes option"

text \<open>A \<^verbatim>\<open>has_x\<close> flag and its field are an option where the code only reads them.\<close>

record psbt_kernel =
  pk_has_excess_commitment :: u32
  pk_excess_commitment :: bytes
  pk_has_stealth_excess :: u32
  pk_stealth_excess :: bytes
  pk_has_signature :: u32
  pk_signature :: bytes
  pk_features :: "byte option"
  pk_fee :: "u64 option"
  pk_pegin_amount :: "u64 option"
  pk_lock_height :: "u32 option"
  pk_pegouts :: "bytes list"
  pk_extra_data :: "bytes option"

record psbt =
  ps_inputs :: "psbt_input list"
  ps_outputs :: "psbt_output list"
  ps_mweb_kernels :: "psbt_kernel list"
  ps_has_mweb_tx_offset :: u32
  ps_mweb_tx_offset :: bytes
  ps_has_mweb_stealth_offset :: u32
  ps_mweb_stealth_offset :: bytes

definition MWEB_IN_MIN_KEY :: nat where "MWEB_IN_MIN_KEY = 0x90"
definition MWEB_IN_SPENT_OUTPUT_ID_KEY :: nat where "MWEB_IN_SPENT_OUTPUT_ID_KEY = 0x90"
definition MWEB_IN_SPENT_OUTPUT_COMMIT_KEY :: nat where "MWEB_IN_SPENT_OUTPUT_COMMIT_KEY = 0x91"
definition MWEB_IN_INPUT_PUBKEY_KEY :: nat where "MWEB_IN_INPUT_PUBKEY_KEY = 0x93"
definition MWEB_IN_INPUT_SIGNATURE_KEY :: nat where "MWEB_IN_INPUT_SIGNATURE_KEY = 0x95"
definition MWEB_IN_SHARED_SECRET_KEY :: nat where "MWEB_IN_SHARED_SECRET_KEY = 0x98"
definition MWEB_IN_KEY_EXCHANGE_PUBKEY_KEY :: nat where "MWEB_IN_KEY_EXCHANGE_PUBKEY_KEY = 0x99"
definition MWEB_OUT_MIN_KEY :: nat where "MWEB_OUT_MIN_KEY = 0x90"
definition MWEB_OUT_STEALTH_ADDRESS_KEY :: nat where "MWEB_OUT_STEALTH_ADDRESS_KEY = 0x90"
definition MWEB_OUT_COMMIT_KEY :: nat where "MWEB_OUT_COMMIT_KEY = 0x91"
definition MWEB_OUT_FEATURES_KEY :: nat where "MWEB_OUT_FEATURES_KEY = 0x92"
definition MWEB_OUT_SENDER_PUBKEY_KEY :: nat where "MWEB_OUT_SENDER_PUBKEY_KEY = 0x93"
definition MWEB_OUT_OUTPUT_PUBKEY_KEY :: nat where "MWEB_OUT_OUTPUT_PUBKEY_KEY = 0x94"
definition MWEB_OUT_STANDARD_FIELDS_KEY :: nat where "MWEB_OUT_STANDARD_FIELDS_KEY = 0x95"
definition MWEB_OUT_RANGE_PROOF_KEY :: nat where "MWEB_OUT_RANGE_PROOF_KEY = 0x96"
definition MWEB_OUT_SIGNATURE_KEY :: nat where "MWEB_OUT_SIGNATURE_KEY = 0x97"
definition MWEB_OUT_EXTRA_DATA_KEY :: nat where "MWEB_OUT_EXTRA_DATA_KEY = 0x98"

definition MWEB_IN_BIT :: "nat \<Rightarrow> u16" where "MWEB_IN_BIT k = push_bit (k - MWEB_IN_MIN_KEY) 1"
definition MWEB_OUT_BIT :: "nat \<Rightarrow> u16" where "MWEB_OUT_BIT k = push_bit (k - MWEB_OUT_MIN_KEY) 1"

definition in_has :: "u16 \<Rightarrow> nat \<Rightarrow> bool" where
  "in_has keyset k \<longleftrightarrow> keyset AND MWEB_IN_BIT k \<noteq> 0"

definition out_has :: "u16 \<Rightarrow> nat \<Rightarrow> bool" where
  "out_has keyset k \<longleftrightarrow> keyset AND MWEB_OUT_BIT k \<noteq> 0"

definition MWEB_IN_HAS_OUTPUT_ID :: "u16 \<Rightarrow> bool" where
  "MWEB_IN_HAS_OUTPUT_ID keyset \<longleftrightarrow> keyset AND MWEB_IN_BIT MWEB_IN_SPENT_OUTPUT_ID_KEY \<noteq> 0"

definition MWEB_OUT_IS_MWEB :: "u16 \<Rightarrow> bool" where
  "MWEB_OUT_IS_MWEB keyset \<longleftrightarrow>
     keyset AND (MWEB_OUT_BIT MWEB_OUT_STEALTH_ADDRESS_KEY OR MWEB_OUT_BIT MWEB_OUT_COMMIT_KEY) \<noteq> 0"

definition MWEB_GATE_IN_SPENT_OUTPUT_ID_BIT :: u16 where "MWEB_GATE_IN_SPENT_OUTPUT_ID_BIT = push_bit 0 1"
definition MWEB_GATE_OUT_STEALTH_ADDR_BIT :: u16 where "MWEB_GATE_OUT_STEALTH_ADDR_BIT = push_bit 0 1"
definition MWEB_GATE_OUT_COMMIT_BIT :: u16 where "MWEB_GATE_OUT_COMMIT_BIT = push_bit 1 1"

definition sign_psbt_has_mweb_component :: "psbt option \<Rightarrow> bool" where
  "sign_psbt_has_mweb_component psbt =
     (case psbt of
        None \<Rightarrow> False
      | Some p \<Rightarrow>
          if length (ps_mweb_kernels p) > 0 then True
          else if list_ex (\<lambda>i. pi_mweb_keyset i AND MWEB_GATE_IN_SPENT_OUTPUT_ID_BIT \<noteq> 0) (ps_inputs p)
          then True
          else list_ex (\<lambda>po. po_mweb_output_keyset po
                 AND (MWEB_GATE_OUT_STEALTH_ADDR_BIT OR MWEB_GATE_OUT_COMMIT_BIT) \<noteq> 0) (ps_outputs p))"

section \<open>Session structures\<close>

record session_input =
  si_psbt_index :: nat
  si_state :: mweb_input_state
  si_prev_keyset :: u16
  si_prev_input_signature :: bytes
  si_prev_input_pubkey :: bytes

record session_output =
  so_psbt_index :: nat
  so_value :: u64
  so_features :: byte
  so_blind :: bytes
  so_sender_key :: bytes
  so_commit :: bytes
  so_sender_pubkey :: bytes
  so_output_pubkey :: bytes
  so_standard_fields :: bytes
  so_range_proof :: bytes
  so_signature :: bytes

record session_kernel =
  sk_excess_commitment :: bytes
  sk_stealth_excess :: bytes
  sk_signature :: bytes
  sk_tx_offset_final :: bytes
  sk_stealth_offset_final :: bytes
  sk_has_stealth_excess :: bool
  sk_prev_excess_commitment :: bytes
  sk_prev_has_excess_commitment :: u32
  sk_prev_stealth_excess :: bytes
  sk_prev_has_stealth_excess :: u32
  sk_prev_signature :: bytes
  sk_prev_has_signature :: u32

text \<open>The script is borrowed from the kernel's pegout map, which the session never writes.\<close>

record session_pegout =
  sp_kernel_index :: nat
  sp_amount :: u64
  sp_script :: bytes
  sp_confirmed :: bool

text \<open>A map snapshot is its clone when \<^verbatim>\<open>valid\<close>, and nothing otherwise.\<close>

record wally_map_snapshot =
  wms_original :: "wmap option"

record std_input_snapshot =
  sis_signatures :: wally_map_snapshot
  sis_psbt_fields :: wally_map_snapshot
  sis_taproot_leaf_signatures :: wally_map_snapshot

record mweb_output_snapshot =
  mos_unknowns :: wally_map_snapshot
  mos_mweb_output_keyset :: u16
  mos_mweb_commit :: bytes
  mos_mweb_features :: byte
  mos_mweb_sender_pubkey :: bytes
  mos_mweb_output_pubkey :: bytes
  mos_mweb_standard_fields :: bytes
  mos_mweb_signature :: bytes
  mos_mweb_range_proof :: "bytes option"

record mweb_session =
  ms_inputs :: "session_input list"
  ms_outputs :: "session_output list"
  ms_kernel :: session_kernel
  ms_kernel_index :: nat
  ms_pegouts :: "session_pegout list"
  ms_total_fee :: u64
  ms_total_pegin :: u64
  ms_total_pegout :: u64
  ms_total_input_value :: u64
  ms_total_output_value :: u64
  ms_has_pegin :: bool
  ms_prev_tx_offset :: bytes
  ms_prev_has_tx_offset :: u32
  ms_prev_stealth_offset :: bytes
  ms_prev_has_stealth_offset :: u32
  ms_std_input_snapshots :: "std_input_snapshot list"
  ms_mweb_output_snapshots :: "mweb_output_snapshot list"

definition no_map_snapshot :: wally_map_snapshot where "no_map_snapshot = \<lparr>wms_original = None\<rparr>"

definition no_input_snapshot :: std_input_snapshot where
  "no_input_snapshot = \<lparr>sis_signatures = no_map_snapshot, sis_psbt_fields = no_map_snapshot,
     sis_taproot_leaf_signatures = no_map_snapshot\<rparr>"

definition no_output_snapshot :: mweb_output_snapshot where
  "no_output_snapshot = \<lparr>mos_unknowns = no_map_snapshot, mos_mweb_output_keyset = 0,
     mos_mweb_commit = replicate 33 0, mos_mweb_features = 0, mos_mweb_sender_pubkey = replicate 33 0,
     mos_mweb_output_pubkey = replicate 33 0, mos_mweb_standard_fields = replicate 58 0,
     mos_mweb_signature = replicate 64 0, mos_mweb_range_proof = None\<rparr>"

definition zero_kernel :: session_kernel where
  "zero_kernel = \<lparr>sk_excess_commitment = replicate 33 0, sk_stealth_excess = replicate 33 0,
     sk_signature = replicate 64 0, sk_tx_offset_final = replicate 32 0,
     sk_stealth_offset_final = replicate 32 0, sk_has_stealth_excess = False,
     sk_prev_excess_commitment = replicate 33 0, sk_prev_has_excess_commitment = 0,
     sk_prev_stealth_excess = replicate 33 0, sk_prev_has_stealth_excess = 0,
     sk_prev_signature = replicate 64 0, sk_prev_has_signature = 0\<rparr>"

definition zero_session :: mweb_session where
  "zero_session = \<lparr>ms_inputs = [], ms_outputs = [], ms_kernel = zero_kernel, ms_kernel_index = 0,
     ms_pegouts = [], ms_total_fee = 0, ms_total_pegin = 0, ms_total_pegout = 0,
     ms_total_input_value = 0, ms_total_output_value = 0, ms_has_pegin = False,
     ms_prev_tx_offset = replicate 32 0, ms_prev_has_tx_offset = 0,
     ms_prev_stealth_offset = replicate 32 0, ms_prev_has_stealth_offset = 0,
     ms_std_input_snapshots = [], ms_mweb_output_snapshots = []\<rparr>"

section \<open>Snapshots\<close>

text \<open>
  The parts of libwally the snapshots use, with the allocator: \<^verbatim>\<open>wally_map_init\<close> and
  \<^verbatim>\<open>wally_map_combine\<close> fail (\<^verbatim>\<open>None\<close>) only on lack of memory, which may depend on the
  place of the call. \<^verbatim>\<open>wally_laws\<close> is their documented behaviour: a new map is empty, and
  combining a map into an empty one copies its items.
\<close>

datatype map_slot = SlotSignatures | SlotPsbtFields | SlotTaproot | SlotUnknowns

datatype alloc_site = AllocSession | AllocInputSnapshots | AllocOutputSnapshots
  | AllocMap map_slot nat | AllocProofCopy nat | AllocInputs | AllocOutputs | AllocPegouts
  | AllocInCtx | AllocOutCtx | AllocCommitProof nat

record wally_lib =
  wally_map_init :: "alloc_site \<Rightarrow> nat option \<Rightarrow> wmap option"
  wally_map_combine :: "alloc_site \<Rightarrow> wmap \<Rightarrow> wmap \<Rightarrow> wmap option"
  wally_malloc :: "alloc_site \<Rightarrow> bool"

definition wally_laws :: "wally_lib \<Rightarrow> bool" where
  "wally_laws W \<longleftrightarrow>
     (\<forall>at f m. wally_map_init W at f = Some m \<longrightarrow> m = \<lparr>wm_items = [], wm_verify_fn = f\<rparr>)
     \<and> (\<forall>at m src m'. wally_map_combine W at m src = Some m' \<and> wm_items m = []
         \<longrightarrow> m' = m\<lparr>wm_items := wm_items src\<rparr>)"

definition snapshot_globals :: "mweb_session \<Rightarrow> psbt \<Rightarrow> mweb_session" where
  "snapshot_globals s psbt =
     s\<lparr>ms_prev_has_tx_offset := ps_has_mweb_tx_offset psbt,
       ms_prev_tx_offset := ps_mweb_tx_offset psbt,
       ms_prev_has_stealth_offset := ps_has_mweb_stealth_offset psbt,
       ms_prev_stealth_offset := ps_mweb_stealth_offset psbt\<rparr>"

definition snapshot_kernel :: "session_kernel \<Rightarrow> psbt_kernel \<Rightarrow> session_kernel" where
  "snapshot_kernel sk k =
     sk\<lparr>sk_prev_has_excess_commitment := pk_has_excess_commitment k,
        sk_prev_excess_commitment := pk_excess_commitment k,
        sk_prev_has_stealth_excess := pk_has_stealth_excess k,
        sk_prev_stealth_excess := pk_stealth_excess k,
        sk_prev_has_signature := pk_has_signature k,
        sk_prev_signature := pk_signature k\<rparr>"

definition snapshot_input :: "session_input \<Rightarrow> psbt_input \<Rightarrow> session_input" where
  "snapshot_input si i =
     si\<lparr>si_prev_keyset := pi_mweb_keyset i,
        si_prev_input_signature := pi_mweb_input_signature i,
        si_prev_input_pubkey := pi_mweb_input_pubkey i\<rparr>"

definition restore_globals :: "mweb_session \<Rightarrow> psbt \<Rightarrow> psbt" where
  "restore_globals s psbt =
     psbt\<lparr>ps_has_mweb_tx_offset := ms_prev_has_tx_offset s,
          ps_mweb_tx_offset := ms_prev_tx_offset s,
          ps_has_mweb_stealth_offset := ms_prev_has_stealth_offset s,
          ps_mweb_stealth_offset := ms_prev_stealth_offset s\<rparr>"

definition restore_kernel :: "session_kernel \<Rightarrow> psbt_kernel \<Rightarrow> psbt_kernel" where
  "restore_kernel sk k =
     k\<lparr>pk_has_excess_commitment := sk_prev_has_excess_commitment sk,
       pk_excess_commitment := sk_prev_excess_commitment sk,
       pk_has_stealth_excess := sk_prev_has_stealth_excess sk,
       pk_stealth_excess := sk_prev_stealth_excess sk,
       pk_has_signature := sk_prev_has_signature sk,
       pk_signature := sk_prev_signature sk\<rparr>"

definition restore_input :: "session_input \<Rightarrow> psbt_input \<Rightarrow> psbt_input" where
  "restore_input si i =
     i\<lparr>pi_mweb_keyset := si_prev_keyset si,
       pi_mweb_input_signature := si_prev_input_signature si,
       pi_mweb_input_pubkey := si_prev_input_pubkey si\<rparr>"

text \<open>\<^verbatim>\<open>src\<close> is \<^verbatim>\<open>None\<close> for the null pointer.\<close>

definition snapshot_wally_map ::
  "wally_lib \<Rightarrow> alloc_site \<Rightarrow> wmap option \<Rightarrow> bool \<times> wally_map_snapshot" where
  "snapshot_wally_map W site src =
     (case src of
        None \<Rightarrow>
          (case wally_map_init W site None of
             None \<Rightarrow> (False, no_map_snapshot)
           | Some m \<Rightarrow> (True, \<lparr>wms_original = Some m\<rparr>))
      | Some live \<Rightarrow>
          (case wally_map_init W site (wm_verify_fn live) of
             None \<Rightarrow> (False, no_map_snapshot)
           | Some m \<Rightarrow>
               (case wally_map_combine W site m live of
                  None \<Rightarrow> (False, no_map_snapshot)
                | Some m \<Rightarrow> (True, \<lparr>wms_original = Some m\<rparr>))))"

text \<open>The snapshot afterwards and the live map; the swapped-out map is freed.\<close>

definition restore_wally_map :: "wally_map_snapshot \<Rightarrow> wmap \<Rightarrow> wally_map_snapshot \<times> wmap" where
  "restore_wally_map snap live =
     (case wms_original snap of
        None \<Rightarrow> (snap, live)
      | Some original \<Rightarrow> (no_map_snapshot, original))"

definition snapshot_std_input ::
  "wally_lib \<Rightarrow> nat \<Rightarrow> psbt_input option \<Rightarrow> bool \<times> std_input_snapshot" where
  "snapshot_std_input W n inp =
     (case inp of
        None \<Rightarrow> (True, no_input_snapshot)
      | Some i \<Rightarrow>
          let (got1, sigs) = snapshot_wally_map W (AllocMap SlotSignatures n) (Some (pi_signatures i)) in
          if \<not> got1 then (False, no_input_snapshot)
          else let (got2, fields) = snapshot_wally_map W (AllocMap SlotPsbtFields n) (Some (pi_psbt_fields i)) in
          if \<not> got2 then (False, no_input_snapshot)
          else let (got3, leafs) = snapshot_wally_map W (AllocMap SlotTaproot n)
                                     (Some (pi_taproot_leaf_signatures i)) in
          if \<not> got3 then (False, no_input_snapshot)
          else (True, \<lparr>sis_signatures = sigs, sis_psbt_fields = fields,
                        sis_taproot_leaf_signatures = leafs\<rparr>))"

definition restore_std_input :: "std_input_snapshot \<Rightarrow> psbt_input \<Rightarrow> psbt_input" where
  "restore_std_input snap i =
     i\<lparr>pi_signatures := snd (restore_wally_map (sis_signatures snap) (pi_signatures i)),
       pi_psbt_fields := snd (restore_wally_map (sis_psbt_fields snap) (pi_psbt_fields i)),
       pi_taproot_leaf_signatures := snd (restore_wally_map (sis_taproot_leaf_signatures snap)
         (pi_taproot_leaf_signatures i))\<rparr>"

definition snapshot_mweb_output ::
  "wally_lib \<Rightarrow> nat \<Rightarrow> psbt_output option \<Rightarrow> bool \<times> mweb_output_snapshot" where
  "snapshot_mweb_output W n po =
     (case po of
        None \<Rightarrow> (True, no_output_snapshot)
      | Some po \<Rightarrow>
          let (got, unknowns) = snapshot_wally_map W (AllocMap SlotUnknowns n) (Some (po_unknowns po)) in
          if \<not> got then (False, no_output_snapshot)
          else
            let snap = \<lparr>mos_unknowns = unknowns, mos_mweb_output_keyset = po_mweb_output_keyset po,
                  mos_mweb_commit = po_mweb_commit po, mos_mweb_features = po_mweb_features po,
                  mos_mweb_sender_pubkey = po_mweb_sender_pubkey po,
                  mos_mweb_output_pubkey = po_mweb_output_pubkey po,
                  mos_mweb_standard_fields = po_mweb_standard_fields po,
                  mos_mweb_signature = po_mweb_signature po, mos_mweb_range_proof = None\<rparr>
            in (case po_mweb_range_proof po of
                  Some rp \<Rightarrow>
                    if length rp = 0 then (True, snap)
                    else if \<not> wally_malloc W (AllocProofCopy n) then (False, no_output_snapshot)
                    else (True, snap\<lparr>mos_mweb_range_proof := Some rp\<rparr>)
                | None \<Rightarrow> (True, snap)))"

definition restore_mweb_output :: "mweb_output_snapshot \<Rightarrow> psbt_output \<Rightarrow> psbt_output" where
  "restore_mweb_output snap po =
     (if wms_original (mos_unknowns snap) = None then po
      else po\<lparr>po_mweb_commit := mos_mweb_commit snap,
              po_mweb_features := mos_mweb_features snap,
              po_mweb_sender_pubkey := mos_mweb_sender_pubkey snap,
              po_mweb_output_pubkey := mos_mweb_output_pubkey snap,
              po_mweb_standard_fields := mos_mweb_standard_fields snap,
              po_mweb_signature := mos_mweb_signature snap,
              po_mweb_range_proof := mos_mweb_range_proof snap,
              po_mweb_output_keyset := mos_mweb_output_keyset snap,
              po_unknowns := snd (restore_wally_map (mos_unknowns snap) (po_unknowns po))\<rparr>)"

section \<open>Abort\<close>

text \<open>\<^verbatim>\<open>for (i = 0; i < n_snapshots && i < n_live; i++)\<close> over two arrays.\<close>

fun restore_each :: "('n \<Rightarrow> 'a \<Rightarrow> 'a) \<Rightarrow> 'n list \<Rightarrow> 'a list \<Rightarrow> 'a list" where
  "restore_each put (s # ss) (x # xs) = put s x # restore_each put ss xs"
| "restore_each put _ xs = xs"

definition restore_session_input :: "session_input \<Rightarrow> psbt_input list \<Rightarrow> psbt_input list" where
  "restore_session_input si inputs =
     (if si_psbt_index si < length inputs
      then inputs[si_psbt_index si := restore_input si (inputs ! si_psbt_index si)] else inputs)"

text \<open>
  \<^verbatim>\<open>session_free\<close> wipes and frees the session and its arrays, so the pointer has no value
  afterwards; the result is the PSBT.
\<close>

definition mweb_session_abort :: "mweb_session option \<Rightarrow> psbt option \<Rightarrow> psbt option" where
  "mweb_session_abort s psbt =
     (case s of
        None \<Rightarrow> psbt
      | Some s \<Rightarrow>
          (case psbt of
             None \<Rightarrow> None
           | Some p \<Rightarrow>
               let p = restore_globals s p;
                   p = (if ms_kernel_index s < length (ps_mweb_kernels p)
                        then p\<lparr>ps_mweb_kernels := (ps_mweb_kernels p)[ms_kernel_index s :=
                               restore_kernel (ms_kernel s) (ps_mweb_kernels p ! ms_kernel_index s)]\<rparr>
                        else p);
                   p = p\<lparr>ps_inputs := fold restore_session_input (ms_inputs s) (ps_inputs p)\<rparr>;
                   p = p\<lparr>ps_inputs := restore_each restore_std_input (ms_std_input_snapshots s) (ps_inputs p)\<rparr>;
                   p = p\<lparr>ps_outputs := restore_each restore_mweb_output (ms_mweb_output_snapshots s)
                            (ps_outputs p)\<rparr>
               in Some p))"

section \<open>The contract of a snapshot\<close>

text \<open>
  \<^verbatim>\<open>takes e a n\<close>: \<^verbatim>\<open>n\<close> is a snapshot of \<^verbatim>\<open>a\<close> taken in the circumstances \<^verbatim>\<open>e\<close>;
  \<^verbatim>\<open>touch a b\<close>: \<^verbatim>\<open>b\<close> is \<^verbatim>\<open>a\<close> with only fields changed that the snapshot covers.
\<close>

locale rollback =
  fixes takes :: "'e \<Rightarrow> 'a \<Rightarrow> 'n \<Rightarrow> bool" and put :: "'n \<Rightarrow> 'a \<Rightarrow> 'a"
    and touch :: "'a \<Rightarrow> 'a \<Rightarrow> bool" and good :: "'a \<Rightarrow> bool"
  assumes put_takes: "takes e a n \<Longrightarrow> good a \<Longrightarrow> touch a b \<Longrightarrow> put n b = a"
    and touch_refl: "touch a a"
begin

lemma put_same: "takes e a n \<Longrightarrow> good a \<Longrightarrow> put n a = a"
  using put_takes touch_refl by blast

lemma touch_all_refl: "list_all2 touch as as"
  by (simp add: list_all2_refl touch_refl)

lemma restore_all:
  assumes "list_all2 (\<lambda>n a. \<exists>e. takes e a n) ns as" and "list_all good as" and "list_all2 touch as bs"
  shows "restore_each put ns bs = as"
  using assms
proof (induction ns arbitrary: as bs)
  case Nil
  then show ?case by simp
next
  case (Cons n ns)
  from Cons.prems(1) obtain a as' e where as: "as = a # as'" and n: "takes e a n"
    and l: "list_all2 (\<lambda>n a. \<exists>e. takes e a n) ns as'" by (auto simp: list_all2_Cons1)
  from Cons.prems(3) as obtain b bs' where bs: "bs = b # bs'" and t: "touch a b" "list_all2 touch as' bs'"
    by (auto simp: list_all2_Cons1)
  from Cons.prems(2) as have "good a" "list_all good as'" by simp_all
  with n t l as bs Cons.IH put_takes show ?case by simp
qed

end

locale rollback_slot = rollback takes put touch good
  for takes :: "'e \<Rightarrow> 'a \<Rightarrow> 'n \<Rightarrow> bool" and put :: "'n \<Rightarrow> 'a \<Rightarrow> 'a"
    and touch :: "'a \<Rightarrow> 'a \<Rightarrow> bool" and good :: "'a \<Rightarrow> bool" +
  fixes blank :: 'n
  assumes put_blank: "put blank b = b"
begin

lemma restore_unchanged:
  assumes "list_all2 (\<lambda>n a. n = blank \<or> (\<exists>e. takes e a n)) ns as" and "list_all good as"
  shows "restore_each put ns as = as"
  using assms
proof (induction rule: list_all2_induct)
  case Nil
  then show ?case by simp
next
  case (Cons n ns a as)
  then show ?case by (auto simp: put_blank put_same)
qed

lemma restore_nothing: "restore_each put [] as = as"
  by simp

end

section \<open>The snapshots of the session keep the contract\<close>

definition kernel_captured :: "unit \<Rightarrow> psbt_kernel \<Rightarrow> session_kernel \<Rightarrow> bool" where
  "kernel_captured u k sk \<longleftrightarrow> snapshot_kernel sk k = sk"

definition kernel_touched :: "psbt_kernel \<Rightarrow> psbt_kernel \<Rightarrow> bool" where
  "kernel_touched k k' \<longleftrightarrow>
     k'\<lparr>pk_has_excess_commitment := pk_has_excess_commitment k, pk_excess_commitment := pk_excess_commitment k,
        pk_has_stealth_excess := pk_has_stealth_excess k, pk_stealth_excess := pk_stealth_excess k,
        pk_has_signature := pk_has_signature k, pk_signature := pk_signature k\<rparr> = k"

definition input_captured :: "unit \<Rightarrow> psbt_input \<Rightarrow> session_input \<Rightarrow> bool" where
  "input_captured u i si \<longleftrightarrow> snapshot_input si i = si"

definition mweb_input_touched :: "psbt_input \<Rightarrow> psbt_input \<Rightarrow> bool" where
  "mweb_input_touched i i' \<longleftrightarrow>
     i'\<lparr>pi_mweb_keyset := pi_mweb_keyset i, pi_mweb_input_signature := pi_mweb_input_signature i,
        pi_mweb_input_pubkey := pi_mweb_input_pubkey i\<rparr> = i"

definition std_captured :: "wally_lib \<times> nat \<Rightarrow> psbt_input \<Rightarrow> std_input_snapshot \<Rightarrow> bool" where
  "std_captured e i snap \<longleftrightarrow> wally_laws (fst e) \<and> snapshot_std_input (fst e) (snd e) (Some i) = (True, snap)"

definition std_input_touched :: "psbt_input \<Rightarrow> psbt_input \<Rightarrow> bool" where
  "std_input_touched i i' \<longleftrightarrow>
     i'\<lparr>pi_signatures := pi_signatures i, pi_psbt_fields := pi_psbt_fields i,
        pi_taproot_leaf_signatures := pi_taproot_leaf_signatures i\<rparr> = i"

definition output_captured :: "wally_lib \<times> nat \<Rightarrow> psbt_output \<Rightarrow> mweb_output_snapshot \<Rightarrow> bool" where
  "output_captured e po snap \<longleftrightarrow>
     wally_laws (fst e) \<and> snapshot_mweb_output (fst e) (snd e) (Some po) = (True, snap)"

definition output_touched :: "psbt_output \<Rightarrow> psbt_output \<Rightarrow> bool" where
  "output_touched po po' \<longleftrightarrow>
     po'\<lparr>po_unknowns := po_unknowns po, po_mweb_output_keyset := po_mweb_output_keyset po,
         po_mweb_commit := po_mweb_commit po, po_mweb_features := po_mweb_features po,
         po_mweb_sender_pubkey := po_mweb_sender_pubkey po,
         po_mweb_output_pubkey := po_mweb_output_pubkey po,
         po_mweb_standard_fields := po_mweb_standard_fields po,
         po_mweb_signature := po_mweb_signature po, po_mweb_range_proof := po_mweb_range_proof po\<rparr> = po"

text \<open>A null proof with a length of 0 is the only empty one the restore can reproduce.\<close>

definition proof_normal :: "psbt_output \<Rightarrow> bool" where
  "proof_normal po \<longleftrightarrow> po_mweb_range_proof po \<noteq> Some []"

lemma snapshot_map_ok:
  assumes "wally_laws W" and "snapshot_wally_map W site (Some live) = (True, snap)"
  shows "wms_original snap = Some live"
proof -
  from assms(1) have law: "\<And>at f m. wally_map_init W at f = Some m \<Longrightarrow> m = \<lparr>wm_items = [], wm_verify_fn = f\<rparr>"
    "\<And>at m src m'. wally_map_combine W at m src = Some m' \<Longrightarrow> wm_items m = []
      \<Longrightarrow> m' = m\<lparr>wm_items := wm_items src\<rparr>" unfolding wally_laws_def by blast+
  from assms(2) obtain m m' where m: "wally_map_init W site (wm_verify_fn live) = Some m"
    and m': "wally_map_combine W site m live = Some m'" and snap: "wms_original snap = Some m'"
    by (auto simp: snapshot_wally_map_def split: option.splits)
  from law(1) [OF m] law(2) [OF m'] snap show ?thesis by simp
qed

lemma snapshot_map_blank: "snapshot_wally_map W site src = (False, snap) \<Longrightarrow> snap = no_map_snapshot"
  by (auto simp: snapshot_wally_map_def split: option.splits)

lemma snapshot_input_blank: "snapshot_std_input W n (Some i) = (False, snap) \<Longrightarrow> snap = no_input_snapshot"
  by (auto simp: snapshot_std_input_def split: prod.splits if_splits)

lemma snapshot_output_blank: "snapshot_mweb_output W n (Some i) = (False, snap) \<Longrightarrow> snap = no_output_snapshot"
  by (auto simp: snapshot_mweb_output_def Let_def split: prod.splits if_splits option.splits)

lemma restore_map_valid: "wms_original snap = Some m \<Longrightarrow> snd (restore_wally_map snap live) = m"
  by (simp add: restore_wally_map_def)

lemma snapshot_std_ok:
  assumes "std_captured e i snap"
  shows "wms_original (sis_signatures snap) = Some (pi_signatures i)"
    "wms_original (sis_psbt_fields snap) = Some (pi_psbt_fields i)"
    "wms_original (sis_taproot_leaf_signatures snap) = Some (pi_taproot_leaf_signatures i)"
proof -
  from assms have "wally_laws (fst e)" and s: "snapshot_std_input (fst e) (snd e) (Some i) = (True, snap)"
    by (simp_all add: std_captured_def)
  note ok = snapshot_map_ok [OF this(1)]
  from s obtain a b c where "snapshot_wally_map (fst e) (AllocMap SlotSignatures (snd e)) (Some (pi_signatures i)) = (True, a)"
    "snapshot_wally_map (fst e) (AllocMap SlotPsbtFields (snd e)) (Some (pi_psbt_fields i)) = (True, b)"
    "snapshot_wally_map (fst e) (AllocMap SlotTaproot (snd e)) (Some (pi_taproot_leaf_signatures i)) = (True, c)"
    "snap = \<lparr>sis_signatures = a, sis_psbt_fields = b, sis_taproot_leaf_signatures = c\<rparr>"
    by (auto simp: snapshot_std_input_def split: prod.splits if_splits)
  then show "wms_original (sis_signatures snap) = Some (pi_signatures i)"
    "wms_original (sis_psbt_fields snap) = Some (pi_psbt_fields i)"
    "wms_original (sis_taproot_leaf_signatures snap) = Some (pi_taproot_leaf_signatures i)"
    using ok by auto
qed

lemma snapshot_out_ok:
  assumes "output_captured e po snap" and "proof_normal po"
  shows "wms_original (mos_unknowns snap) = Some (po_unknowns po)"
    "mos_mweb_output_keyset snap = po_mweb_output_keyset po" "mos_mweb_commit snap = po_mweb_commit po"
    "mos_mweb_features snap = po_mweb_features po" "mos_mweb_sender_pubkey snap = po_mweb_sender_pubkey po"
    "mos_mweb_output_pubkey snap = po_mweb_output_pubkey po"
    "mos_mweb_standard_fields snap = po_mweb_standard_fields po"
    "mos_mweb_signature snap = po_mweb_signature po" "mos_mweb_range_proof snap = po_mweb_range_proof po"
  using assms snapshot_map_ok [of "fst e" "AllocMap SlotUnknowns (snd e)" "po_unknowns po"]
  by (auto simp: output_captured_def snapshot_mweb_output_def proof_normal_def Let_def
      split: prod.splits if_splits option.splits)

lemma restore_kernel_captured:
  "snapshot_kernel sk k = sk \<Longrightarrow> kernel_touched k k' \<Longrightarrow> restore_kernel sk k' = k"
  by (cases sk; cases k; cases k')
    (simp add: snapshot_kernel_def restore_kernel_def kernel_touched_def)

lemma restore_input_captured:
  "snapshot_input si i = si \<Longrightarrow> mweb_input_touched i i' \<Longrightarrow> restore_input si i' = i"
  by (cases si; cases i; cases i')
    (simp add: snapshot_input_def restore_input_def mweb_input_touched_def)

lemma restore_output_captured:
  assumes "output_captured e po snap" and "proof_normal po" and "output_touched po po'"
  shows "restore_mweb_output snap po' = po"
proof -
  note s = snapshot_out_ok [OF assms(1,2)]
  have "restore_mweb_output snap po' = po'\<lparr>po_unknowns := po_unknowns po, po_mweb_output_keyset := po_mweb_output_keyset po,
         po_mweb_commit := po_mweb_commit po, po_mweb_features := po_mweb_features po,
         po_mweb_sender_pubkey := po_mweb_sender_pubkey po,
         po_mweb_output_pubkey := po_mweb_output_pubkey po,
         po_mweb_standard_fields := po_mweb_standard_fields po,
         po_mweb_signature := po_mweb_signature po, po_mweb_range_proof := po_mweb_range_proof po\<rparr>"
    unfolding restore_mweb_output_def s restore_map_valid [OF s(1)] by (cases po') simp
  with assms(3) show ?thesis by (simp add: output_touched_def)
qed

interpretation kernel_rb: rollback kernel_captured restore_kernel kernel_touched "\<lambda>_. True"
  by unfold_locales (auto simp: kernel_captured_def restore_kernel_captured, simp add: kernel_touched_def)

interpretation input_rb: rollback input_captured restore_input mweb_input_touched "\<lambda>_. True"
  by unfold_locales (auto simp: input_captured_def restore_input_captured, simp add: mweb_input_touched_def)

interpretation std_rb: rollback_slot std_captured restore_std_input std_input_touched "\<lambda>_. True" no_input_snapshot
  by unfold_locales
    (auto simp: std_input_touched_def restore_std_input_def snapshot_std_ok restore_map_valid
      no_input_snapshot_def no_map_snapshot_def restore_wally_map_def)

interpretation output_rb: rollback_slot output_captured restore_mweb_output output_touched proof_normal no_output_snapshot
  by unfold_locales
    (auto simp: restore_output_captured, simp_all add: output_touched_def restore_mweb_output_def
      no_output_snapshot_def no_map_snapshot_def)

section \<open>Rolling the PSBT back\<close>

text \<open>
  \<^verbatim>\<open>session_writes s p p'\<close>: \<^verbatim>\<open>p'\<close> differs from \<^verbatim>\<open>p\<close> only in the fields the firmware
  writes while the session \<^verbatim>\<open>s\<close> is open: the signature maps of every input, the MWEB
  fields of the session's own inputs, the MWEB fields and unknowns of the outputs, the
  kernel's excess, stealth excess and signature, and the two offsets.
\<close>

definition input_touched :: "psbt_input \<Rightarrow> psbt_input \<Rightarrow> bool" where
  "input_touched i i' \<longleftrightarrow>
     i'\<lparr>pi_mweb_keyset := pi_mweb_keyset i, pi_mweb_input_signature := pi_mweb_input_signature i,
        pi_mweb_input_pubkey := pi_mweb_input_pubkey i, pi_signatures := pi_signatures i,
        pi_psbt_fields := pi_psbt_fields i,
        pi_taproot_leaf_signatures := pi_taproot_leaf_signatures i\<rparr> = i"

definition inputs_written :: "nat list \<Rightarrow> psbt_input list \<Rightarrow> psbt_input list \<Rightarrow> bool" where
  "inputs_written own is is' \<longleftrightarrow> length is' = length is
     \<and> (\<forall>n < length is. if n \<in> set own then input_touched (is ! n) (is' ! n)
          else std_input_touched (is ! n) (is' ! n))"

definition session_writes :: "mweb_session \<Rightarrow> psbt \<Rightarrow> psbt \<Rightarrow> bool" where
  "session_writes s p p' \<longleftrightarrow>
     inputs_written (map si_psbt_index (ms_inputs s)) (ps_inputs p) (ps_inputs p')
     \<and> list_all2 output_touched (ps_outputs p) (ps_outputs p')
     \<and> length (ps_mweb_kernels p') = length (ps_mweb_kernels p)
     \<and> (\<forall>n < length (ps_mweb_kernels p). if n = ms_kernel_index s
          then kernel_touched (ps_mweb_kernels p ! n) (ps_mweb_kernels p' ! n)
          else ps_mweb_kernels p' ! n = ps_mweb_kernels p ! n)"

text \<open>
  \<^verbatim>\<open>session_captured s p\<close>: the globals, kernel and input fields saved in \<^verbatim>\<open>s\<close> are those
  of \<^verbatim>\<open>p\<close>, and each filled slot of the two snapshot arrays holds a snapshot of its place
  in \<^verbatim>\<open>p\<close>; \<^verbatim>\<open>snapshots_full\<close>: every slot is filled.
\<close>

definition session_captured :: "mweb_session \<Rightarrow> psbt \<Rightarrow> bool" where
  "session_captured s p \<longleftrightarrow>
     snapshot_globals s p = s
     \<and> (ms_kernel_index s < length (ps_mweb_kernels p)
         \<longrightarrow> kernel_captured () (ps_mweb_kernels p ! ms_kernel_index s) (ms_kernel s))
     \<and> (\<forall>si \<in> set (ms_inputs s). si_psbt_index si < length (ps_inputs p)
         \<and> input_captured () (ps_inputs p ! si_psbt_index si) si)
     \<and> (ms_std_input_snapshots s = []
         \<or> list_all2 (\<lambda>n i. n = no_input_snapshot \<or> (\<exists>e. std_captured e i n))
             (ms_std_input_snapshots s) (ps_inputs p))
     \<and> (ms_mweb_output_snapshots s = []
         \<or> list_all2 (\<lambda>n po. n = no_output_snapshot \<or> (\<exists>e. output_captured e po n))
             (ms_mweb_output_snapshots s) (ps_outputs p))"

definition snapshots_full :: "mweb_session \<Rightarrow> psbt \<Rightarrow> bool" where
  "snapshots_full s p \<longleftrightarrow>
     list_all2 (\<lambda>n i. \<exists>e. std_captured e i n) (ms_std_input_snapshots s) (ps_inputs p)
     \<and> list_all2 (\<lambda>n po. \<exists>e. output_captured e po n) (ms_mweb_output_snapshots s) (ps_outputs p)"

lemma std_touched_input: "std_input_touched i i' \<Longrightarrow> input_touched i i'"
  by (cases i; cases i') (simp add: std_input_touched_def input_touched_def)

lemma input_touched_refl [simp]: "input_touched i i"
  by (simp add: input_touched_def)

lemma restore_input_leaves_std:
  "input_captured () i si \<Longrightarrow> input_touched i i' \<Longrightarrow> std_input_touched i (restore_input si i')"
  by (cases i; cases i'; cases si)
    (simp add: input_captured_def snapshot_input_def restore_input_def input_touched_def std_input_touched_def)

lemma restore_session_inputs:
  assumes "inputs_written (map si_psbt_index sis) is is'"
    and "\<forall>si \<in> set sis. si_psbt_index si < length is \<and> input_captured () (is ! si_psbt_index si) si"
  shows "list_all2 std_input_touched is (fold restore_session_input sis is')"
  using assms
proof (induction sis arbitrary: is')
  case Nil
  then show ?case by (simp add: inputs_written_def list_all2_conv_all_nth)
next
  case (Cons si sis)
  let ?j = "si_psbt_index si"
  let ?next = "restore_session_input si is'"
  from Cons.prems have len: "length is' = length is" and j: "?j < length is"
    and cap: "input_captured () (is ! ?j) si" by (simp_all add: inputs_written_def)
  have touched: "input_touched (is ! ?j) (is' ! ?j)"
    using Cons.prems(1) j by (auto simp: inputs_written_def)
  have "std_input_touched (is ! ?j) (restore_input si (is' ! ?j))"
    by (rule restore_input_leaves_std [OF cap touched])
  then have "inputs_written (map si_psbt_index sis) is ?next"
    using Cons.prems(1) len j std_touched_input
    by (auto simp: inputs_written_def restore_session_input_def nth_list_update)
  with Cons.IH Cons.prems(2) show ?case by simp
qed

text \<open>The two ways an abort ends: nothing was written, or every slot was captured.\<close>

lemma restore_kernels:
  assumes "length ks' = length ks" and "j < length ks \<longrightarrow> kernel_captured () (ks ! j) sk"
    and "\<forall>n < length ks. if n = j then kernel_touched (ks ! n) (ks' ! n) else ks' ! n = ks ! n"
  shows "(if j < length ks' then ks'[j := restore_kernel sk (ks' ! j)] else ks') = ks"
proof (cases "j < length ks")
  case True
  with assms have "restore_kernel sk (ks' ! j) = ks ! j" using kernel_rb.put_takes by auto
  with assms True show ?thesis by (auto intro!: nth_equalityI simp: nth_list_update)
next
  case False
  with assms show ?thesis by (auto intro!: nth_equalityI)
qed

lemma abort_restores:
  assumes cap: "session_captured s p" and norm: "list_all proof_normal (ps_outputs p)"
    and w: "session_writes s p p'" and full: "p' = p \<or> snapshots_full s p"
  shows "mweb_session_abort (Some s) (Some p') = Some p"
proof -
  have kernels: "(if ms_kernel_index s < length (ps_mweb_kernels p')
      then (ps_mweb_kernels p')[ms_kernel_index s :=
        restore_kernel (ms_kernel s) (ps_mweb_kernels p' ! ms_kernel_index s)]
      else ps_mweb_kernels p') = ps_mweb_kernels p"
    by (rule restore_kernels) (use cap w in \<open>simp_all add: session_captured_def session_writes_def\<close>)
  have after: "list_all2 std_input_touched (ps_inputs p) (fold restore_session_input (ms_inputs s) (ps_inputs p'))"
    by (rule restore_session_inputs) (use cap w in \<open>simp_all add: session_captured_def session_writes_def\<close>)
  have own: "fold restore_session_input (ms_inputs s) (ps_inputs p) = ps_inputs p"
  proof -
    have same: "fold restore_session_input sis is = is"
      if "\<forall>si \<in> set sis. restore_session_input si is = is" for sis "is"
      using that by (induction sis) simp_all
    show ?thesis
      by (rule same) (use cap input_rb.put_same in \<open>auto simp: session_captured_def restore_session_input_def\<close>)
  qed
  have ins: "restore_each restore_std_input (ms_std_input_snapshots s)
      (fold restore_session_input (ms_inputs s) (ps_inputs p')) = ps_inputs p"
    using full
  proof
    assume "p' = p"
    then show ?thesis
      using own cap std_rb.restore_unchanged by (auto simp: session_captured_def list_all_iff)
  next
    assume "snapshots_full s p"
    then show ?thesis using after by (intro std_rb.restore_all) (auto simp: snapshots_full_def list_all_iff)
  qed
  have outs: "restore_each restore_mweb_output (ms_mweb_output_snapshots s) (ps_outputs p') = ps_outputs p"
    using full
  proof
    assume "p' = p"
    then show ?thesis using cap norm output_rb.restore_unchanged by (auto simp: session_captured_def)
  next
    assume "snapshots_full s p"
    then show ?thesis using w norm by (intro output_rb.restore_all) (auto simp: snapshots_full_def session_writes_def)
  qed
  have globals: "ms_prev_has_tx_offset s = ps_has_mweb_tx_offset p" "ms_prev_tx_offset s = ps_mweb_tx_offset p"
    "ms_prev_has_stealth_offset s = ps_has_mweb_stealth_offset p" "ms_prev_stealth_offset s = ps_mweb_stealth_offset p"
  proof -
    have "snapshot_globals s p = s" using cap by (simp add: session_captured_def)
    then show "ms_prev_has_tx_offset s = ps_has_mweb_tx_offset p" "ms_prev_tx_offset s = ps_mweb_tx_offset p"
      "ms_prev_has_stealth_offset s = ps_has_mweb_stealth_offset p" "ms_prev_stealth_offset s = ps_mweb_stealth_offset p"
      by (cases s, simp add: snapshot_globals_def)+
  qed
  show ?thesis
    using kernels ins outs globals
    by (cases p; cases p') (simp add: mweb_session_abort_def Let_def restore_globals_def split: if_splits)
qed

lemma session_writes_refl: "session_writes s p p"
  by (auto simp: session_writes_def inputs_written_def output_rb.touch_all_refl kernel_rb.touch_refl
      std_rb.touch_refl)

end
