(* ===== verification/Mweb_Session.thy ===== *)
theory Mweb_Session
  imports Mweb_Psbt
begin

text \<open>
  The second half of \<^verbatim>\<open>src/main/mweb/mweb_atomic_sign.c\<close>: \<^verbatim>\<open>mweb_session_begin\<close>, which
  derives the inputs, builds the outputs, checks the balance and signs the kernel into
  the session without writing the PSBT, the queries of the user interface, and
  \<^verbatim>\<open>mweb_session_commit\<close>, which writes the PSBT or rolls it back. A failing step of
  \<^verbatim>\<open>begin\<close> carries the session as it stands, since the \<^verbatim>\<open>fail\<close> label aborts with it.
\<close>

section \<open>The surroundings of a session\<close>

text \<open>
  Code outside the sources is a field: the cryptographic libraries, the keypath accessors
  and the script classifier of libwally, BIP32. Random draws and allocations are
  functions of the place of the call. \<^verbatim>\<open>se_item_path\<close> is the whole path of a keypath item:
  \<^verbatim>\<open>wally_map_keypath_get_item_path\<close> reports its length even when the caller's buffer is
  too small, in which case it writes nothing there.
\<close>

datatype draw_site = DrawStealth | DrawEphemeral nat | DrawSender nat | DrawNonce nat
  | DrawPrivateNonce nat | DrawKernel

record 'k session_env =
  se_crypto :: crypto
  se_bp :: bp_lib
  se_wally :: wally_lib
  se_bip32 :: "'k \<Rightarrow> u32 list \<Rightarrow> bytes option"
  se_keychain :: "'k option"
  se_fingerprint :: "'k \<Rightarrow> bytes"
  se_item_fingerprint :: "wmap \<Rightarrow> bytes option"
  se_item_path :: "wmap \<Rightarrow> u32 list option"
  se_script_type :: "bytes \<Rightarrow> script_type option"
  se_rnd :: "draw_site \<Rightarrow> nat \<Rightarrow> bytes"
  se_input_mpi :: "nat \<Rightarrow> nat \<Rightarrow> bool"
  se_output_mpi :: "nat \<Rightarrow> nat \<Rightarrow> bool"
  se_offset_mpi :: "bool \<Rightarrow> nat \<Rightarrow> bool"
  se_kernel_mpi :: "kernel_alloc \<Rightarrow> nat \<Rightarrow> bool"
  se_sign_mpi :: "nat \<Rightarrow> bool"

definition MWEB_ATOMIC_MAX_PATH_LEN :: nat where "MWEB_ATOMIC_MAX_PATH_LEN = 16"

definition MWEB_LTC_MAX_LITOSHI :: u64 where "MWEB_LTC_MAX_LITOSHI = 84000000 * 100000000"

definition atomic_in_money_range :: "u64 \<Rightarrow> bool" where
  "atomic_in_money_range amount \<longleftrightarrow> amount \<le> MWEB_LTC_MAX_LITOSHI"

definition atomic_pegout_script_supported :: "'k session_env \<Rightarrow> bytes option \<Rightarrow> bool" where
  "atomic_pegout_script_supported E script =
     (case script of
        None \<Rightarrow> False
      | Some s \<Rightarrow>
          if length s = 0 then False
          else (case se_script_type E s of
                  None \<Rightarrow> False
                | Some WALLY_SCRIPT_TYPE_P2PKH \<Rightarrow> True
                | Some WALLY_SCRIPT_TYPE_P2SH \<Rightarrow> True
                | Some WALLY_SCRIPT_TYPE_P2WPKH \<Rightarrow> True
                | Some WALLY_SCRIPT_TYPE_P2WSH \<Rightarrow> True
                | Some WALLY_SCRIPT_TYPE_P2TR \<Rightarrow> True
                | Some _ \<Rightarrow> False))"

definition opt_len :: "bytes option \<Rightarrow> nat" where
  "opt_len d = (case d of None \<Rightarrow> 0 | Some d \<Rightarrow> length d)"

section \<open>One input\<close>

definition zero_session_input :: session_input where
  "zero_session_input = \<lparr>si_psbt_index = 0, si_state = zero_input_state, si_prev_keyset = 0,
     si_prev_input_signature = replicate 64 0, si_prev_input_pubkey = replicate 33 0\<rparr>"

text \<open>
  The key at a key origin. A path longer than the stack buffer is not rejected: the
  derivation then reads beyond it.
\<close>

definition origin_key :: "'k session_env \<Rightarrow> wmap \<Rightarrow> (mweb_err_t + bytes) run" where
  "origin_key E origin =
     (case se_item_path E origin of
        None \<Rightarrow> fail MWEB_ERR_INTERNAL
      | Some path \<Rightarrow>
          if length path = 0 then fail MWEB_ERR_INTERNAL
          else if length path > MWEB_ATOMIC_MAX_PATH_LEN then Undef
          else let (derived, key) = mweb_derive_key_from_path (se_bip32 E) (se_keychain E) path
                                      (replicate 32 0)
               in if derived then ok key else fail MWEB_ERR_INTERNAL)"

text \<open>The result is the filled structure and the \<^verbatim>\<open>is_owned\<close> flag.\<close>

definition derive_owned_input ::
  "'k session_env \<Rightarrow> psbt \<Rightarrow> nat \<Rightarrow> bytes \<Rightarrow> session_input
    \<Rightarrow> (mweb_err_t + session_input \<times> bool) run" where
  "derive_owned_input E psbt n wallet_fp_le out =
     (let i = ps_inputs psbt ! n in
      seq (check (\<not> in_has (pi_mweb_keyset i) MWEB_IN_SHARED_SECRET_KEY) MWEB_ERR_FOREIGN_MWEB_INPUT) (\<lambda>_.
      seq (check (in_has (pi_mweb_keyset i) MWEB_IN_KEY_EXCHANGE_PUBKEY_KEY) MWEB_ERR_FOREIGN_MWEB_INPUT) (\<lambda>_.
      seq (need (se_item_fingerprint E (pi_mweb_scan_key_origin i)) MWEB_ERR_FOREIGN_MWEB_INPUT) (\<lambda>scan_fp.
      seq (need (se_item_fingerprint E (pi_mweb_spend_key_origin i)) MWEB_ERR_FOREIGN_MWEB_INPUT) (\<lambda>spend_fp.
      seq (check (scan_fp = wallet_fp_le \<and> spend_fp = wallet_fp_le) MWEB_ERR_FOREIGN_MWEB_INPUT) (\<lambda>_.
      seq (origin_key E (pi_mweb_scan_key_origin i)) (\<lambda>scan_key.
      seq (origin_key E (pi_mweb_spend_key_origin i)) (\<lambda>spend_key.
      then_run (mweb_derive_input_state (se_crypto E) (se_input_mpi E n 0) (se_input_mpi E n \<circ> Suc)
                  (se_rnd E (DrawEphemeral n)) (Some scan_key) (Some spend_key)
                  (pi_mweb_address_index i) (pi_mweb_input_features i)
                  (Some (pi_mweb_spent_output_id i)) (Some (pi_mweb_spent_output_pubkey i))
                  (pi_mweb_input_amount i) (Some (pi_mweb_key_exchange_pubkey i))
                  (Some (si_state out))) (\<lambda>(err, state).
      seq (check (err = MWEB_OK) err) (\<lambda>_.
      seq (check (in_has (pi_mweb_keyset i) MWEB_IN_SPENT_OUTPUT_COMMIT_KEY) MWEB_ERR_INPUT_COMMIT_MISMATCH) (\<lambda>_.
      seq (check (pi_mweb_spent_output_commit i = is_output_commit (the state)) MWEB_ERR_INPUT_COMMIT_MISMATCH) (\<lambda>_.
      ok (snapshot_input (out\<lparr>si_state := the state, si_psbt_index := n\<rparr>) i, True)))))))))))))"

section \<open>One output\<close>

definition zero_session_output :: session_output where
  "zero_session_output = \<lparr>so_psbt_index = 0, so_value = 0, so_features = 0, so_blind = replicate 32 0,
     so_sender_key = replicate 32 0, so_commit = replicate 33 0, so_sender_pubkey = replicate 33 0,
     so_output_pubkey = replicate 33 0, so_standard_fields = replicate 58 0,
     so_range_proof = replicate MWEB_RANGEPROOF_LEN 0, so_signature = replicate 64 0\<rparr>"

text \<open>\<^verbatim>\<open>gens\<close> is the state of the generator table, as in \<^verbatim>\<open>mweb_build_output\<close>.\<close>

definition output_features :: "psbt_output \<Rightarrow> byte" where
  "output_features po =
     (if out_has (po_mweb_output_keyset po) MWEB_OUT_FEATURES_KEY then po_mweb_features po
      else MWEB_OUTPUT_STANDARD_FIELDS_BIT)"

definition output_extra_data :: "psbt_output \<Rightarrow> byte \<Rightarrow> (mweb_err_t + bytes option) run" where
  "output_extra_data po features =
     (if out_has (po_mweb_output_keyset po) MWEB_OUT_EXTRA_DATA_KEY then
        if \<not> has_bit features MWEB_OUTPUT_EXTRA_DATA_BIT
           \<or> opt_len (po_mweb_extra_data po) > MWEB_OUTPUT_MAX_EXTRA_DATA_LEN
        then fail MWEB_ERR_OUTPUT_FIELD_MISMATCH
        else ok (po_mweb_extra_data po)
      else if has_bit features MWEB_OUTPUT_EXTRA_DATA_BIT then fail MWEB_ERR_OUTPUT_FIELD_MISMATCH
      else ok None)"

definition pack_standard_fields :: "mweb_built_output \<Rightarrow> bytes" where
  "pack_standard_fields built =
     do_key_exchange_pubkey built @ [do_view_tag built]
     @ map (\<lambda>b. ucast (drop_bit (b * 8) (do_masked_value built))) [0..<8] @ do_masked_nonce built"

text \<open>The checks and the draw before the builder is called.\<close>

definition output_request ::
  "'k session_env \<Rightarrow> psbt_output \<Rightarrow> nat \<Rightarrow> (mweb_err_t + u64 \<times> byte \<times> bytes option \<times> bytes) run" where
  "output_request E po n =
     seq (need (po_amount po) MWEB_ERR_OUTPUT_FIELD_MISMATCH) (\<lambda>value.
     seq (check (out_has (po_mweb_output_keyset po) MWEB_OUT_STEALTH_ADDRESS_KEY)
            MWEB_ERR_OUTPUT_FIELD_MISMATCH) (\<lambda>_.
     let features = output_features po in
     seq (output_extra_data po features) (\<lambda>extra_data.
     seq (need (draw_scalar (se_rnd E (DrawSender n)) 0 8) MWEB_ERR_INTERNAL) (\<lambda>sender_key.
     ok (value, features, extra_data, sender_key)))))"

definition build_mweb_output ::
  "'k session_env \<Rightarrow> bool \<Rightarrow> psbt_output \<Rightarrow> nat \<Rightarrow> session_output
    \<Rightarrow> (bool \<times> (mweb_err_t + session_output)) run" where
  "build_mweb_output E gens po n out =
     then_run (output_request E po n) (\<lambda>request. case request of
       Inl e \<Rightarrow> Ret (gens, Inl e)
     | Inr (value, features, extra_data, sender_key) \<Rightarrow>
         let scan_pub_A = take 33 (po_mweb_stealth_address po);
             spend_pub_B = take 33 (drop 33 (po_mweb_stealth_address po)) in
         then_run (mweb_build_output (se_crypto E) (se_bp E) (se_output_mpi E n)
                     (se_rnd E (DrawNonce n)) (se_rnd E (DrawPrivateNonce n)) gens
                     (Some sender_key) (Some scan_pub_A) (Some spend_pub_B) value features
                     extra_data (opt_len extra_data) (Some zero_built)) (\<lambda>(gens, err, built).
           if err \<noteq> MWEB_OK then Ret (gens, Inl MWEB_ERR_INTERNAL)
           else let built = the built in
             Ret (gens, Inr (out\<lparr>so_psbt_index := n, so_value := value, so_features := features,
               so_sender_key := sender_key, so_blind := do_blind built, so_commit := do_commit built,
               so_sender_pubkey := do_sender_pubkey built, so_output_pubkey := do_output_pubkey built,
               so_standard_fields := pack_standard_fields built,
               so_range_proof := bo_range_proof built, so_signature := bo_signature built\<rparr>))))"

section \<open>Begin\<close>

text \<open>The running state of \<^verbatim>\<open>begin\<close>: the session, the generator table and the calls of the
  progress callback so far.\<close>

record begin_state =
  bs_session :: mweb_session
  bs_gens :: bool
  bs_progress :: "(nat \<times> nat) list"

type_synonym 'a begin_step = "(mweb_err_t \<times> begin_state + 'a) run"

text \<open>An error of a part is an error of \<^verbatim>\<open>begin\<close> in the state reached.\<close>

definition from_here :: "begin_state \<Rightarrow> (mweb_err_t + 'a) run \<Rightarrow> 'a begin_step" where
  "from_here st m = (case m of Crash \<Rightarrow> Crash | Undef \<Rightarrow> Undef
     | Ret r \<Rightarrow> (case r of Inl e \<Rightarrow> fail (e, st) | Inr a \<Rightarrow> ok a))"

definition bs_update :: "(mweb_session \<Rightarrow> mweb_session) \<Rightarrow> begin_state \<Rightarrow> begin_state" where
  "bs_update f st = st\<lparr>bs_session := f (bs_session st)\<rparr>"

text \<open>A loop filling a snapshot array; \<^verbatim>\<open>False\<close> when a slot could not be filled.\<close>

fun snapshot_each :: "(nat \<Rightarrow> 'a \<Rightarrow> bool \<times> 'n) \<Rightarrow> 'n \<Rightarrow> nat \<Rightarrow> 'a list \<Rightarrow> bool \<times> 'n list" where
  "snapshot_each take_one blank n [] = (True, [])"
| "snapshot_each take_one blank n (x # xs) =
     (let (got, snap) = take_one n x in
      if \<not> got then (False, snap # replicate (length xs) blank)
      else let (all, snaps) = snapshot_each take_one blank (Suc n) xs in (all, snap # snaps))"

definition begin_snapshots :: "'k session_env \<Rightarrow> psbt \<Rightarrow> begin_state \<Rightarrow> begin_state begin_step" where
  "begin_snapshots E psbt st =
     (let W = se_wally E;
          st = bs_update (\<lambda>s. snapshot_globals (s\<lparr>ms_kernel := snapshot_kernel (ms_kernel s)
                 (ps_mweb_kernels psbt ! 0)\<rparr>) psbt) st in
      seq (check (length (ps_inputs psbt) > 0 \<longrightarrow> wally_malloc W AllocInputSnapshots) (MWEB_ERR_INTERNAL, st)) (\<lambda>_.
      let (got, snaps) = snapshot_each (\<lambda>n i. snapshot_std_input W n (Some i)) no_input_snapshot 0 (ps_inputs psbt);
          st = bs_update (\<lambda>s. s\<lparr>ms_std_input_snapshots := snaps\<rparr>) st in
      seq (check got (MWEB_ERR_INTERNAL, st)) (\<lambda>_.
      seq (check (length (ps_outputs psbt) > 0 \<longrightarrow> wally_malloc W AllocOutputSnapshots) (MWEB_ERR_INTERNAL, st)) (\<lambda>_.
      let (got, snaps) = snapshot_each (\<lambda>n po. snapshot_mweb_output W n (Some po)) no_output_snapshot 0 (ps_outputs psbt);
          st = bs_update (\<lambda>s. s\<lparr>ms_mweb_output_snapshots := snaps\<rparr>) st in
      seq (check got (MWEB_ERR_INTERNAL, st)) (\<lambda>_. ok st)))))"

definition begin_check_features :: "psbt_kernel \<Rightarrow> (mweb_err_t + byte) run" where
  "begin_check_features k =
     seq (need (pk_features k) MWEB_ERR_KERNEL_FEATURE_MISMATCH) (\<lambda>features.
     let fee_bit = has_bit features MWEB_KERNEL_FEE_BIT;
         pegin_bit = has_bit features MWEB_KERNEL_PEGIN_BIT;
         pegout_bit = has_bit features MWEB_KERNEL_PEGOUT_BIT;
         lh_bit = has_bit features MWEB_KERNEL_HEIGHT_LOCK_BIT;
         ed_bit = has_bit features MWEB_KERNEL_EXTRA_DATA_BIT;
         has_pegouts = length (pk_pegouts k) > 0;
         has_extra_data = opt_len (pk_extra_data k) > 0 in
     seq (check (\<not> (fee_bit \<noteq> (pk_fee k \<noteq> None) \<or> pegin_bit \<noteq> (pk_pegin_amount k \<noteq> None)
            \<or> pegout_bit \<noteq> has_pegouts \<or> lh_bit \<noteq> (pk_lock_height k \<noteq> None)
            \<or> ed_bit \<noteq> has_extra_data)) MWEB_ERR_KERNEL_FEATURE_MISMATCH) (\<lambda>_.
     ok features))"

text \<open>The stealth scalar, if the kernel has the feature.\<close>

definition begin_stealth_key :: "'k session_env \<Rightarrow> byte \<Rightarrow> (mweb_err_t + bytes option) run" where
  "begin_stealth_key E features =
     (if has_bit features MWEB_KERNEL_STEALTH_EXCESS_BIT
      then seq (need (draw_scalar (se_rnd E DrawStealth) 0 8) MWEB_ERR_INTERNAL) (\<lambda>key. ok (Some key))
      else ok None)"

definition begin_arrays :: "'k session_env \<Rightarrow> psbt \<Rightarrow> (mweb_err_t + nat \<times> nat) run" where
  "begin_arrays E psbt =
     (let n_mweb_inputs_seen = length (filter (\<lambda>i. MWEB_IN_HAS_OUTPUT_ID (pi_mweb_keyset i)) (ps_inputs psbt));
          n_mweb_outputs = length (filter (\<lambda>po. MWEB_OUT_IS_MWEB (po_mweb_output_keyset po)) (ps_outputs psbt)) in
      seq (check (n_mweb_inputs_seen > 0 \<longrightarrow> wally_malloc (se_wally E) AllocInputs) MWEB_ERR_INTERNAL) (\<lambda>_.
      seq (check (n_mweb_outputs > 0 \<longrightarrow> wally_malloc (se_wally E) AllocOutputs) MWEB_ERR_INTERNAL) (\<lambda>_.
      ok (n_mweb_inputs_seen, n_mweb_outputs))))"

text \<open>\<^verbatim>\<open>wallet_get_fingerprint\<close> asserts that a keychain is loaded.\<close>

definition begin_fingerprint :: "'k session_env \<Rightarrow> nat \<Rightarrow> bytes run" where
  "begin_fingerprint E n_mweb_inputs_seen =
     (if n_mweb_inputs_seen > 0 then
        (case se_keychain E of
           None \<Rightarrow> Crash
         | Some k \<Rightarrow> let be = take 4 (se_fingerprint E k) in Ret [be ! 3, be ! 2, be ! 1, be ! 0])
      else Ret [0, 0, 0, 0])"

definition begin_input ::
  "'k session_env \<Rightarrow> psbt \<Rightarrow> bytes \<Rightarrow> nat \<Rightarrow> psbt_input \<Rightarrow> begin_state \<Rightarrow> begin_state begin_step" where
  "begin_input E psbt wallet_fp_le n i st =
     (if \<not> MWEB_IN_HAS_OUTPUT_ID (pi_mweb_keyset i) then ok st
      else
        seq (from_here st (derive_owned_input E psbt n wallet_fp_le zero_session_input)) (\<lambda>(si, is_owned).
        seq (check is_owned (MWEB_ERR_FOREIGN_MWEB_INPUT, st)) (\<lambda>_.
        seq (check (atomic_in_money_range (pi_mweb_input_amount i)) (MWEB_ERR_BALANCE_FAIL, st)) (\<lambda>_.
        seq (need (atomic_u64_add (ms_total_input_value (bs_session st)) (pi_mweb_input_amount i))
               (MWEB_ERR_BALANCE_FAIL, st)) (\<lambda>total.
        let st = bs_update (\<lambda>s. s\<lparr>ms_total_input_value := total\<rparr>) st in
        seq (check (atomic_in_money_range total) (MWEB_ERR_BALANCE_FAIL, st)) (\<lambda>_.
        ok (bs_update (\<lambda>s. s\<lparr>ms_inputs := ms_inputs s @ [si]\<rparr>) st)))))))"

definition begin_output ::
  "'k session_env \<Rightarrow> bool \<Rightarrow> nat \<Rightarrow> nat \<Rightarrow> psbt_output \<Rightarrow> begin_state \<Rightarrow> begin_state begin_step" where
  "begin_output E progress_cb n_mweb_outputs n po st =
     (if \<not> MWEB_OUT_IS_MWEB (po_mweb_output_keyset po) then ok st
      else
        let st = (if progress_cb then
                    st\<lparr>bs_progress := bs_progress st @ [(length (ms_outputs (bs_session st)) + 1, n_mweb_outputs)]\<rparr>
                  else st) in
        then_run (build_mweb_output E (bs_gens st) po n zero_session_output) (\<lambda>(gens, built).
        let st = st\<lparr>bs_gens := gens\<rparr> in
        seq (from_here st (Ret built)) (\<lambda>so.
        seq (check (atomic_in_money_range (so_value so)) (MWEB_ERR_BALANCE_FAIL, st)) (\<lambda>_.
        seq (need (atomic_u64_add (ms_total_output_value (bs_session st)) (so_value so))
               (MWEB_ERR_BALANCE_FAIL, st)) (\<lambda>total.
        let st = bs_update (\<lambda>s. s\<lparr>ms_total_output_value := total\<rparr>) st in
        seq (check (atomic_in_money_range total) (MWEB_ERR_BALANCE_FAIL, st)) (\<lambda>_.
        ok (bs_update (\<lambda>s. s\<lparr>ms_outputs := ms_outputs s @ [so]\<rparr>) st)))))))"

definition begin_pegout ::
  "'k session_env \<Rightarrow> nat \<Rightarrow> bytes \<Rightarrow> begin_state \<Rightarrow> begin_state begin_step" where
  "begin_pegout E p val st =
     seq (need (atomic_parse_pegout val) (MWEB_ERR_KERNEL_FEATURE_MISMATCH, st)) (\<lambda>v.
     seq (check (atomic_in_money_range (pv_amount v)) (MWEB_ERR_BALANCE_FAIL, st)) (\<lambda>_.
     case pegout_script val v of
       None \<Rightarrow> Undef
     | Some script \<Rightarrow>
         seq (check (atomic_pegout_script_supported E (Some script))
                (MWEB_ERR_KERNEL_FEATURE_MISMATCH, st)) (\<lambda>_.
         let st = bs_update (\<lambda>s. s\<lparr>ms_pegouts := ms_pegouts s @
               [\<lparr>sp_kernel_index = 0, sp_amount = pv_amount v, sp_script = script, sp_confirmed = False\<rparr>]\<rparr>) st in
         seq (need (atomic_u64_add (ms_total_pegout (bs_session st)) (pv_amount v))
                (MWEB_ERR_BALANCE_FAIL, st)) (\<lambda>total.
         let st = bs_update (\<lambda>s. s\<lparr>ms_total_pegout := total\<rparr>) st in
         seq (check (atomic_in_money_range total) (MWEB_ERR_BALANCE_FAIL, st)) (\<lambda>_. ok st)))))"

definition begin_totals :: "'k session_env \<Rightarrow> psbt_kernel \<Rightarrow> begin_state \<Rightarrow> begin_state begin_step" where
  "begin_totals E k st =
     (let fee = (case pk_fee k of None \<Rightarrow> 0 | Some v \<Rightarrow> v);
          pegin = (case pk_pegin_amount k of None \<Rightarrow> 0 | Some v \<Rightarrow> v);
          st = bs_update (\<lambda>s. s\<lparr>ms_total_fee := fee, ms_total_pegin := pegin,
                 ms_has_pegin := (pk_pegin_amount k \<noteq> None)\<rparr>) st in
      seq (check (atomic_in_money_range fee \<and> atomic_in_money_range pegin) (MWEB_ERR_BALANCE_FAIL, st)) (\<lambda>_.
      if length (pk_pegouts k) > 0 then
        seq (check (wally_malloc (se_wally E) AllocPegouts) (MWEB_ERR_INTERNAL, st)) (\<lambda>_.
        for_run (begin_pegout E) 0 (pk_pegouts k) st)
      else ok st))"

definition begin_balance :: "mweb_session \<Rightarrow> (mweb_err_t + unit) run" where
  "begin_balance s =
     seq (need (atomic_u64_add (ms_total_input_value s) (ms_total_pegin s)) MWEB_ERR_BALANCE_FAIL) (\<lambda>input_side.
     seq (need (atomic_u64_add (ms_total_output_value s) (ms_total_fee s)) MWEB_ERR_BALANCE_FAIL) (\<lambda>output_side.
     seq (need (atomic_u64_add output_side (ms_total_pegout s)) MWEB_ERR_BALANCE_FAIL) (\<lambda>output_side.
     check (input_side = output_side) MWEB_ERR_BALANCE_FAIL)))"

text \<open>The sums of the outputs' blinds and sender keys, which become the kernel's share.\<close>

definition begin_offsets :: "'k session_env \<Rightarrow> session_output list \<Rightarrow> (bytes \<times> bytes) option" where
  "begin_offsets E outs =
     for_opt (\<lambda>j so (tx, stealth). do {
         tx \<leftarrow> mweb_scalar_add_mod_n (se_offset_mpi E False j) tx (so_blind so);
         stealth \<leftarrow> mweb_scalar_add_mod_n (se_offset_mpi E True j) stealth (so_sender_key so);
         Some (tx, stealth)
       }) 0 outs (replicate 32 0, replicate 32 0)"

definition session_kernel_params ::
  "psbt_kernel \<Rightarrow> byte \<Rightarrow> bytes option \<Rightarrow> mweb_session \<Rightarrow> bytes \<times> bytes \<Rightarrow> kernel_params" where
  "session_kernel_params k features stealth_key s received =
     \<lparr>kp_inputs = (if length (ms_inputs s) > 0 then
                     Some (map (\<lambda>si. \<lparr>ic_value = is_value (si_state si), ic_blind = is_blind (si_state si),
                       ic_stealth_tweak = is_stealth_tweak (si_state si)\<rparr>) (ms_inputs s)) else None),
      kp_n_inputs = length (ms_inputs s),
      kp_outputs = (if length (ms_outputs s) > 0 then
                      Some (map (\<lambda>so. \<lparr>oc_value = so_value so, oc_blind = so_blind so\<rparr>) (ms_outputs s)) else None),
      kp_n_outputs = length (ms_outputs s),
      kp_features = features,
      kp_fee = (if pk_fee k \<noteq> None then Some (ms_total_fee s) else None),
      kp_pegin_amount = (if pk_pegin_amount k \<noteq> None then Some (ms_total_pegin s) else None),
      kp_lock_height = pk_lock_height k,
      kp_pegouts = (if length (pk_pegouts k) > 0 then Some (pk_pegouts k) else None),
      kp_extra_data = pk_extra_data k,
      kp_stealth_key = stealth_key,
      kp_received_tx_offset = Some (fst received),
      kp_received_stealth_offset = Some (snd received)\<rparr>"

definition begin_kernel ::
  "'k session_env \<Rightarrow> psbt_kernel \<Rightarrow> byte \<Rightarrow> bytes option \<Rightarrow> mweb_session \<Rightarrow> (mweb_err_t + mweb_session) run" where
  "begin_kernel E k features stealth_key s =
     seq (check (length (ms_inputs s) > 0 \<longrightarrow> wally_malloc (se_wally E) AllocInCtx) MWEB_ERR_INTERNAL) (\<lambda>_.
     seq (check (length (ms_outputs s) > 0 \<longrightarrow> wally_malloc (se_wally E) AllocOutCtx) MWEB_ERR_INTERNAL) (\<lambda>_.
     seq (need (begin_offsets E (ms_outputs s)) MWEB_ERR_OFFSET_ACCUMULATE_FAIL) (\<lambda>received.
     then_run (mweb_sign_kernel (se_crypto E) (se_kernel_mpi E) (se_rnd E DrawKernel)
                 (Some (session_kernel_params k features stealth_key s received)) (Some zero_outs)) (\<lambda>(ke, ko).
     seq (check (ke = MWEB_OK) ke) (\<lambda>_.
     let ko = the ko in
     ok (s\<lparr>ms_kernel := (ms_kernel s)\<lparr>sk_excess_commitment := ko_excess_kG ko,
             sk_stealth_excess := ko_stealth_excess_G ko, sk_signature := ko_signature ko,
             sk_tx_offset_final := ko_tx_offset_final ko,
             sk_stealth_offset_final := ko_stealth_offset_final ko\<rparr>\<rparr>))))))"

text \<open>Everything from the snapshots to the signed kernel; a failure goes to \<^verbatim>\<open>fail\<close>.\<close>

definition begin_steps ::
  "'k session_env \<Rightarrow> bool \<Rightarrow> psbt \<Rightarrow> begin_state \<Rightarrow> begin_state begin_step" where
  "begin_steps E progress_cb psbt st =
     (let k = ps_mweb_kernels psbt ! 0 in
      seq (begin_snapshots E psbt st) (\<lambda>st.
      seq (from_here st (begin_check_features k)) (\<lambda>features.
      seq (from_here st (begin_stealth_key E features)) (\<lambda>stealth_key.
      let st = bs_update (\<lambda>s. s\<lparr>ms_kernel := (ms_kernel s)
                 \<lparr>sk_has_stealth_excess := has_bit features MWEB_KERNEL_STEALTH_EXCESS_BIT\<rparr>\<rparr>) st in
      seq (from_here st (begin_arrays E psbt)) (\<lambda>(n_mweb_inputs_seen, n_mweb_outputs).
      then_run (begin_fingerprint E n_mweb_inputs_seen) (\<lambda>wallet_fp_le.
      seq (for_run (begin_input E psbt wallet_fp_le) 0 (ps_inputs psbt) st) (\<lambda>st.
      seq (for_run (begin_output E progress_cb n_mweb_outputs) 0 (ps_outputs psbt) st) (\<lambda>st.
      seq (begin_totals E k st) (\<lambda>st.
      seq (from_here st (begin_balance (bs_session st))) (\<lambda>_.
      seq (from_here st (begin_kernel E k features stealth_key (bs_session st))) (\<lambda>s.
      ok (st\<lparr>bs_session := s\<rparr>))))))))))))"

text \<open>
  The result: the error code, the session of \<^verbatim>\<open>*out_session\<close>, the PSBT, and the state of
  the generator table and the progress calls. \<^verbatim>\<open>out\<close>: \<^verbatim>\<open>out_session\<close> is not null.
\<close>

record begin_result =
  br_err :: mweb_err_t
  br_session :: "mweb_session option"
  br_psbt :: "psbt option"
  br_gens :: bool
  br_progress :: "(nat \<times> nat) list"

definition begin_failed :: "mweb_err_t \<Rightarrow> psbt option \<Rightarrow> bool \<Rightarrow> begin_result" where
  "begin_failed e psbt gens = \<lparr>br_err = e, br_session = None, br_psbt = psbt, br_gens = gens, br_progress = []\<rparr>"

definition mweb_session_begin ::
  "'k session_env \<Rightarrow> bool \<Rightarrow> bool \<Rightarrow> psbt option \<Rightarrow> byte \<Rightarrow> bool \<Rightarrow> begin_result run" where
  "mweb_session_begin E gens progress_cb psbt network_id out =
     (case psbt of
        None \<Rightarrow> Ret (begin_failed MWEB_ERR_INTERNAL psbt gens)
      | Some p \<Rightarrow>
          if \<not> out then Ret (begin_failed MWEB_ERR_INTERNAL psbt gens)
          else then_run (case network_of_byte network_id of
                           None \<Rightarrow> Ret False
                         | Some n \<Rightarrow> network_is_litecoin n) (\<lambda>litecoin.
            if \<not> litecoin then Ret (begin_failed MWEB_ERR_UNSUPPORTED_NETWORK psbt gens)
            else if length (ps_mweb_kernels p) = 0 then Ret (begin_failed MWEB_ERR_MISSING_KERNEL psbt gens)
            else if length (ps_mweb_kernels p) \<noteq> 1
            then Ret (begin_failed MWEB_ERR_MULTI_KERNEL_UNSUPPORTED psbt gens)
            else if \<not> wally_malloc (se_wally E) AllocSession then Ret (begin_failed MWEB_ERR_INTERNAL psbt gens)
            else (case begin_steps E progress_cb p
                         \<lparr>bs_session = zero_session, bs_gens = gens, bs_progress = []\<rparr> of
                    Crash \<Rightarrow> Crash
                  | Undef \<Rightarrow> Undef
                  | Ret (Inl (err, st)) \<Rightarrow>
                      Ret \<lparr>br_err = err, br_session = None,
                           br_psbt = mweb_session_abort (Some (bs_session st)) psbt,
                           br_gens = bs_gens st, br_progress = bs_progress st\<rparr>
                  | Ret (Inr st) \<Rightarrow>
                      Ret \<lparr>br_err = MWEB_OK, br_session = Some (bs_session st), br_psbt = psbt,
                           br_gens = bs_gens st, br_progress = bs_progress st\<rparr>)))"

section \<open>Queries\<close>

definition mweb_session_pegout_count :: "mweb_session option \<Rightarrow> nat" where
  "mweb_session_pegout_count s = (case s of None \<Rightarrow> 0 | Some s \<Rightarrow> length (ms_pegouts s))"

definition mweb_session_get_pegout ::
  "mweb_session option \<Rightarrow> nat \<Rightarrow> mweb_err_t \<times> (u64 \<times> bytes \<times> nat \<times> nat) option" where
  "mweb_session_get_pegout s idx =
     (case s of
        None \<Rightarrow> (MWEB_ERR_INTERNAL, None)
      | Some s \<Rightarrow>
          if idx \<ge> length (ms_pegouts s) then (MWEB_ERR_INTERNAL, None)
          else let p = ms_pegouts s ! idx in
            (MWEB_OK, Some (sp_amount p, sp_script p, length (sp_script p), sp_kernel_index p)))"

definition mweb_session_mark_pegout_confirmed :: "mweb_session option \<Rightarrow> nat \<Rightarrow> mweb_session option" where
  "mweb_session_mark_pegout_confirmed s idx =
     (case s of
        None \<Rightarrow> None
      | Some s \<Rightarrow>
          if idx \<ge> length (ms_pegouts s) then Some s
          else Some (s\<lparr>ms_pegouts := (ms_pegouts s)[idx := (ms_pegouts s ! idx)\<lparr>sp_confirmed := True\<rparr>]\<rparr>))"

definition mweb_session_has_pegin :: "mweb_session option \<Rightarrow> bool" where
  "mweb_session_has_pegin s = (case s of None \<Rightarrow> False | Some s \<Rightarrow> ms_has_pegin s)"

definition mweb_session_pegin_amount :: "mweb_session option \<Rightarrow> u64" where
  "mweb_session_pegin_amount s = (case s of None \<Rightarrow> 0 | Some s \<Rightarrow> ms_total_pegin s)"

definition mweb_session_total_fee :: "mweb_session option \<Rightarrow> u64" where
  "mweb_session_total_fee s = (case s of None \<Rightarrow> 0 | Some s \<Rightarrow> ms_total_fee s)"

definition mweb_session_num_mweb_outputs :: "mweb_session option \<Rightarrow> nat" where
  "mweb_session_num_mweb_outputs s = (case s of None \<Rightarrow> 0 | Some s \<Rightarrow> length (ms_outputs s))"

definition mweb_session_num_mweb_inputs :: "mweb_session option \<Rightarrow> nat" where
  "mweb_session_num_mweb_inputs s = (case s of None \<Rightarrow> 0 | Some s \<Rightarrow> length (ms_inputs s))"

definition mweb_session_get_output_value ::
  "mweb_session option \<Rightarrow> nat \<Rightarrow> bool \<Rightarrow> mweb_err_t \<times> u64 option" where
  "mweb_session_get_output_value s psbt_index out =
     (case s of
        None \<Rightarrow> (MWEB_ERR_INTERNAL, None)
      | Some s \<Rightarrow>
          if \<not> out then (MWEB_ERR_INTERNAL, None)
          else (case List.find (\<lambda>so. so_psbt_index so = psbt_index) (ms_outputs s) of
                  None \<Rightarrow> (MWEB_ERR_INTERNAL, None)
                | Some so \<Rightarrow> (MWEB_OK, Some (so_value so))))"

section \<open>Commit\<close>

text \<open>A failing step of \<^verbatim>\<open>commit\<close> carries the PSBT as written so far, which the abort rolls back.\<close>

type_synonym 'a commit_step = "(mweb_err_t \<times> psbt + 'a) run"

definition write_output :: "session_output \<Rightarrow> psbt_output \<Rightarrow> psbt_output" where
  "write_output so po =
     po\<lparr>po_mweb_range_proof := Some (so_range_proof so),
        po_mweb_commit := so_commit so,
        po_mweb_features := so_features so,
        po_mweb_sender_pubkey := so_sender_pubkey so,
        po_mweb_output_pubkey := so_output_pubkey so,
        po_mweb_standard_fields := so_standard_fields so,
        po_mweb_signature := so_signature so,
        po_mweb_output_keyset := po_mweb_output_keyset po OR
          (MWEB_OUT_BIT MWEB_OUT_COMMIT_KEY OR MWEB_OUT_BIT MWEB_OUT_FEATURES_KEY
           OR MWEB_OUT_BIT MWEB_OUT_SENDER_PUBKEY_KEY OR MWEB_OUT_BIT MWEB_OUT_OUTPUT_PUBKEY_KEY
           OR MWEB_OUT_BIT MWEB_OUT_STANDARD_FIELDS_KEY OR MWEB_OUT_BIT MWEB_OUT_RANGE_PROOF_KEY
           OR MWEB_OUT_BIT MWEB_OUT_SIGNATURE_KEY)\<rparr>"

definition commit_output :: "wally_lib \<Rightarrow> nat \<Rightarrow> session_output \<Rightarrow> psbt \<Rightarrow> psbt commit_step" where
  "commit_output W j so psbt =
     seq (check (so_psbt_index so < length (ps_outputs psbt)) (MWEB_ERR_INTERNAL, psbt)) (\<lambda>_.
     seq (check (wally_malloc W (AllocCommitProof j)) (MWEB_ERR_INTERNAL, psbt)) (\<lambda>_.
     ok (psbt\<lparr>ps_outputs := (ps_outputs psbt)[so_psbt_index so :=
           write_output so (ps_outputs psbt ! so_psbt_index so)]\<rparr>)))"

definition write_input :: "session_input \<Rightarrow> bytes \<Rightarrow> psbt_input \<Rightarrow> psbt_input" where
  "write_input si signature i =
     i\<lparr>pi_mweb_input_signature := signature,
       pi_mweb_input_pubkey := is_input_pubkey (si_state si),
       pi_mweb_keyset := (pi_mweb_keyset i OR MWEB_IN_BIT MWEB_IN_INPUT_SIGNATURE_KEY)
         OR MWEB_IN_BIT MWEB_IN_INPUT_PUBKEY_KEY\<rparr>"

definition commit_input :: "'k session_env \<Rightarrow> nat \<Rightarrow> session_input \<Rightarrow> psbt \<Rightarrow> psbt commit_step" where
  "commit_input E n si psbt =
     seq (check (si_psbt_index si < length (ps_inputs psbt)) (MWEB_ERR_INTERNAL, psbt)) (\<lambda>_.
     let i = ps_inputs psbt ! si_psbt_index si in
     then_run (mweb_sign_input_from_state (se_crypto E) (se_sign_mpi E n) (Some (si_state si))
                 (pi_mweb_extra_data i) (opt_len (pi_mweb_extra_data i)) (Some (replicate 64 0)))
       (\<lambda>(err, signature).
     seq (check (err = MWEB_OK) (err, psbt)) (\<lambda>_.
     ok (psbt\<lparr>ps_inputs := (ps_inputs psbt)[si_psbt_index si := write_input si (the signature) i]\<rparr>))))"

definition write_kernel :: "session_kernel \<Rightarrow> psbt_kernel \<Rightarrow> psbt_kernel" where
  "write_kernel sk k =
     k\<lparr>pk_excess_commitment := sk_excess_commitment sk, pk_has_excess_commitment := 1,
       pk_signature := sk_signature sk, pk_has_signature := 1,
       pk_stealth_excess := (if sk_has_stealth_excess sk then sk_stealth_excess sk else replicate 33 0),
       pk_has_stealth_excess := (if sk_has_stealth_excess sk then 1 else 0)\<rparr>"

definition commit_kernel :: "mweb_session \<Rightarrow> psbt \<Rightarrow> psbt commit_step" where
  "commit_kernel s psbt =
     seq (check (ms_kernel_index s < length (ps_mweb_kernels psbt)) (MWEB_ERR_INTERNAL, psbt)) (\<lambda>_.
     ok (psbt\<lparr>ps_mweb_kernels := (ps_mweb_kernels psbt)[ms_kernel_index s :=
             write_kernel (ms_kernel s) (ps_mweb_kernels psbt ! ms_kernel_index s)],
           ps_mweb_tx_offset := sk_tx_offset_final (ms_kernel s),
           ps_has_mweb_tx_offset := 1,
           ps_mweb_stealth_offset := sk_stealth_offset_final (ms_kernel s),
           ps_has_mweb_stealth_offset := 1\<rparr>))"

definition commit_steps :: "'k session_env \<Rightarrow> mweb_session \<Rightarrow> psbt \<Rightarrow> psbt commit_step" where
  "commit_steps E s psbt =
     seq (check (list_all sp_confirmed (ms_pegouts s)) (MWEB_ERR_PEGOUTS_NOT_DISPLAYED, psbt)) (\<lambda>_.
     seq (for_run (commit_output (se_wally E)) 0 (ms_outputs s) psbt) (\<lambda>psbt.
     seq (for_run (commit_input E) 0 (ms_inputs s) psbt) (\<lambda>psbt.
     commit_kernel s psbt)))"

definition mweb_session_commit ::
  "'k session_env \<Rightarrow> mweb_session option \<Rightarrow> psbt option \<Rightarrow> (mweb_err_t \<times> psbt option) run" where
  "mweb_session_commit E s psbt =
     (case (s, psbt) of
        (Some s', Some p) \<Rightarrow>
          (case commit_steps E s' p of
             Crash \<Rightarrow> Crash
           | Undef \<Rightarrow> Undef
           | Ret (Inl (err, p')) \<Rightarrow> Ret (err, mweb_session_abort s (Some p'))
           | Ret (Inr p') \<Rightarrow> Ret (MWEB_OK, Some p'))
      | (Some s', None) \<Rightarrow> Ret (MWEB_ERR_INTERNAL, mweb_session_abort s None)
      | (None, _) \<Rightarrow> Ret (MWEB_ERR_INTERNAL, psbt))"

fun mweb_err_to_string :: "mweb_err_t \<Rightarrow> string" where
  "mweb_err_to_string MWEB_OK = ''OK''"
| "mweb_err_to_string MWEB_ERR_MISSING_STEALTH_SCALAR = ''MWEB kernel signer was not given a stealth-excess scalar''"
| "mweb_err_to_string MWEB_ERR_INVALID_SCALAR = ''Internal scalar out of range or zero''"
| "mweb_err_to_string MWEB_ERR_OUTPUT_FIELD_MISMATCH = ''MWEB output is missing required fields''"
| "mweb_err_to_string MWEB_ERR_INPUT_COMMIT_MISMATCH = ''MWEB input amount does not match on-chain commitment''"
| "mweb_err_to_string MWEB_ERR_BALANCE_FAIL = ''MWEB transaction value balance is invalid''"
| "mweb_err_to_string MWEB_ERR_KERNEL_FEATURE_MISMATCH = ''Invalid MWEB kernel: feature flags do not match kernel fields''"
| "mweb_err_to_string MWEB_ERR_FOREIGN_MWEB_INPUT = ''Foreign or unsupported MWEB input format''"
| "mweb_err_to_string MWEB_ERR_MULTI_KERNEL_UNSUPPORTED = ''Multi-kernel MWEB transactions are not yet supported''"
| "mweb_err_to_string MWEB_ERR_MISSING_KERNEL = ''MWEB transaction is missing a kernel''"
| "mweb_err_to_string MWEB_ERR_PEGOUTS_NOT_DISPLAYED = ''MWEB pegout was not displayed for confirmation''"
| "mweb_err_to_string MWEB_ERR_OFFSET_ACCUMULATE_FAIL = ''MWEB offset accumulation failed''"
| "mweb_err_to_string MWEB_ERR_UNSUPPORTED_NETWORK = ''MWEB is only supported on Litecoin''"
| "mweb_err_to_string MWEB_ERR_USER_CANCEL = ''User declined''"
| "mweb_err_to_string MWEB_ERR_INTERNAL = ''MWEB signing internal error''"

end
