(* ===== verification/Mweb_Session_Props.thy ===== *)
theory Mweb_Session_Props
  imports Mweb_Session
begin

text \<open>
  The properties of the signing session: what a failing or cancelled session leaves in
  the PSBT, what a committed one writes, and what the totals shown to the user mean.
\<close>

section \<open>Begin does not write\<close>

lemma upholds_from_here [upholds_intros]:
  "P st \<Longrightarrow> (\<And>a. m = ok a \<Longrightarrow> Q a) \<Longrightarrow> upholds P Q (from_here st m)"
  by (auto simp: upholds_def from_here_def split: run.splits sum.splits)

lemma from_here_iff [run_simps]:
  "from_here st m = ok a \<longleftrightarrow> m = ok a" "from_here st m = Crash \<longleftrightarrow> m = Crash"
  "from_here st m = Undef \<longleftrightarrow> m = Undef" "from_here st m = fail (e, st') \<longleftrightarrow> m = fail e \<and> st' = st"
  by (auto simp: from_here_def split: run.splits sum.splits)

lemma snapshot_each_slots:
  assumes "\<And>n x got snap. take_one n x = (got, snap) \<Longrightarrow> (if got then R snap x else snap = blank)"
    and "snapshot_each take_one blank n xs = (all, snaps)"
  shows "list_all2 (\<lambda>s x. s = blank \<or> R s x) snaps xs" and "all \<Longrightarrow> list_all2 R snaps xs"
proof -
  have blank: "list_all2 (\<lambda>s x. s = blank \<or> R s x) (replicate (length ys) blank) ys" for ys
    by (simp add: list_all2_conv_all_nth)
  have "list_all2 (\<lambda>s x. s = blank \<or> R s x) snaps xs \<and> (all \<longrightarrow> list_all2 R snaps xs)"
    using assms(2)
  proof (induction xs arbitrary: n snaps all)
    case Nil
    then show ?case by simp
  next
    case (Cons x xs)
    obtain got snap where one: "take_one n x = (got, snap)" by fastforce
    obtain more rest where tail: "snapshot_each take_one blank (Suc n) xs = (more, rest)" by fastforce
    from assms(1) [OF one] Cons.IH [OF tail] Cons.prems one tail blank [of xs] show ?case
      by (auto split: if_splits)
  qed
  then show "list_all2 (\<lambda>s x. s = blank \<or> R s x) snaps xs" and "all \<Longrightarrow> list_all2 R snaps xs" by simp_all
qed

definition frame_kept :: "mweb_session \<Rightarrow> mweb_session \<Rightarrow> bool" where
  "frame_kept s t \<longleftrightarrow>
     ms_kernel_index t = ms_kernel_index s
     \<and> ms_prev_has_tx_offset t = ms_prev_has_tx_offset s \<and> ms_prev_tx_offset t = ms_prev_tx_offset s
     \<and> ms_prev_has_stealth_offset t = ms_prev_has_stealth_offset s
     \<and> ms_prev_stealth_offset t = ms_prev_stealth_offset s
     \<and> sk_prev_excess_commitment (ms_kernel t) = sk_prev_excess_commitment (ms_kernel s)
     \<and> sk_prev_has_excess_commitment (ms_kernel t) = sk_prev_has_excess_commitment (ms_kernel s)
     \<and> sk_prev_stealth_excess (ms_kernel t) = sk_prev_stealth_excess (ms_kernel s)
     \<and> sk_prev_has_stealth_excess (ms_kernel t) = sk_prev_has_stealth_excess (ms_kernel s)
     \<and> sk_prev_signature (ms_kernel t) = sk_prev_signature (ms_kernel s)
     \<and> sk_prev_has_signature (ms_kernel t) = sk_prev_has_signature (ms_kernel s)
     \<and> ms_std_input_snapshots t = ms_std_input_snapshots s
     \<and> ms_mweb_output_snapshots t = ms_mweb_output_snapshots s"

definition globals_saved :: "mweb_session \<Rightarrow> psbt \<Rightarrow> bool" where
  "globals_saved s p \<longleftrightarrow>
     ms_prev_has_tx_offset s = ps_has_mweb_tx_offset p \<and> ms_prev_tx_offset s = ps_mweb_tx_offset p
     \<and> ms_prev_has_stealth_offset s = ps_has_mweb_stealth_offset p
     \<and> ms_prev_stealth_offset s = ps_mweb_stealth_offset p"

lemma snapshot_globals_iff: "snapshot_globals s p = s \<longleftrightarrow> globals_saved s p"
  by (cases s) (auto simp: snapshot_globals_def globals_saved_def)

lemma kernel_captured_iff:
  "kernel_captured u k sk \<longleftrightarrow>
     sk_prev_has_excess_commitment sk = pk_has_excess_commitment k
     \<and> sk_prev_excess_commitment sk = pk_excess_commitment k
     \<and> sk_prev_has_stealth_excess sk = pk_has_stealth_excess k
     \<and> sk_prev_stealth_excess sk = pk_stealth_excess k
     \<and> sk_prev_has_signature sk = pk_has_signature k \<and> sk_prev_signature sk = pk_signature k"
  by (cases sk) (auto simp: kernel_captured_def snapshot_kernel_def)

text \<open>Once captured, a session stays so: later steps only add inputs captured from the PSBT.\<close>

lemma captured_frame:
  assumes "session_captured s p" and "frame_kept s t"
    and "\<forall>si \<in> set (ms_inputs t). si_psbt_index si < length (ps_inputs p)
      \<and> input_captured () (ps_inputs p ! si_psbt_index si) si"
  shows "session_captured t p"
  using assms by (simp add: session_captured_def snapshot_globals_iff globals_saved_def kernel_captured_iff frame_kept_def)

lemma full_frame: "snapshots_full s p \<Longrightarrow> frame_kept s t \<Longrightarrow> snapshots_full t p"
  by (simp add: snapshots_full_def frame_kept_def)

definition fresh :: "mweb_session \<Rightarrow> bool" where
  "fresh s \<longleftrightarrow> ms_inputs s = [] \<and> ms_outputs s = [] \<and> ms_pegouts s = [] \<and> ms_total_input_value s = 0
     \<and> ms_total_output_value s = 0 \<and> ms_total_pegout s = 0 \<and> ms_kernel_index s = 0"

abbreviation begin_captured :: "psbt \<Rightarrow> begin_state \<Rightarrow> bool" where
  "begin_captured p st \<equiv> session_captured (bs_session st) p"

lemma input_slots:
  assumes "wally_laws W"
    and "snapshot_each (\<lambda>n i. snapshot_std_input W n (Some i)) no_input_snapshot 0 is = (all, snaps)"
  shows "list_all2 (\<lambda>n i. n = no_input_snapshot \<or> (\<exists>e. std_captured e i n)) snaps is"
    and "all \<Longrightarrow> list_all2 (\<lambda>n i. \<exists>e. std_captured e i n) snaps is"
proof -
  have one: "if got then \<exists>e. std_captured e i n else n = no_input_snapshot"
    if "snapshot_std_input W k (Some i) = (got, n)" for k i got n
  proof (cases got)
    case True
    then show ?thesis using that assms(1) by (auto intro!: exI [of _ W] exI [of _ k] simp: std_captured_def)
  next
    case False
    then show ?thesis using that snapshot_input_blank by simp
  qed
  from snapshot_each_slots [where R = "\<lambda>n i. \<exists>e. std_captured e i n", OF one assms(2)]
  show "list_all2 (\<lambda>n i. n = no_input_snapshot \<or> (\<exists>e. std_captured e i n)) snaps is"
    and "all \<Longrightarrow> list_all2 (\<lambda>n i. \<exists>e. std_captured e i n) snaps is" by simp_all
qed

lemma output_slots:
  assumes "wally_laws W"
    and "snapshot_each (\<lambda>n po. snapshot_mweb_output W n (Some po)) no_output_snapshot 0 os = (all, snaps)"
  shows "list_all2 (\<lambda>n po. n = no_output_snapshot \<or> (\<exists>e. output_captured e po n)) snaps os"
    and "all \<Longrightarrow> list_all2 (\<lambda>n po. \<exists>e. output_captured e po n) snaps os"
proof -
  have one: "if got then \<exists>e. output_captured e i n else n = no_output_snapshot"
    if "snapshot_mweb_output W k (Some i) = (got, n)" for k i got n
  proof (cases got)
    case True
    then show ?thesis using that assms(1) by (auto intro!: exI [of _ W] exI [of _ k] simp: output_captured_def)
  next
    case False
    then show ?thesis using that snapshot_output_blank by simp
  qed
  from snapshot_each_slots [where R = "\<lambda>n po. \<exists>e. output_captured e po n", OF one assms(2)]
  show "list_all2 (\<lambda>n po. n = no_output_snapshot \<or> (\<exists>e. output_captured e po n)) snaps os"
    and "all \<Longrightarrow> list_all2 (\<lambda>n po. \<exists>e. output_captured e po n) snaps os" by simp_all
qed

lemma begin_snapshots_upholds:
  assumes W: "wally_laws (se_wally E)" and st: "bs_session st = zero_session"
  shows "upholds (begin_captured p)
    (\<lambda>st. begin_captured p st \<and> snapshots_full (bs_session st) p \<and> fresh (bs_session st)) (begin_snapshots E p st)"
proof -
  obtain all1 snaps1 where in_slots: "snapshot_each (\<lambda>n i. snapshot_std_input (se_wally E) n (Some i)) no_input_snapshot
      0 (ps_inputs p) = (all1, snaps1)" by fastforce
  obtain all2 snaps2 where out_slots: "snapshot_each (\<lambda>n po. snapshot_mweb_output (se_wally E) n (Some po))
      no_output_snapshot 0 (ps_outputs p) = (all2, snaps2)" by fastforce
  note slots = input_slots [OF W in_slots] output_slots [OF W out_slots]
  note session = session_captured_def snapshot_globals_iff globals_saved_def kernel_captured_iff snapshots_full_def
    bs_update_def st zero_session_def zero_kernel_def snapshot_kernel_def snapshot_globals_def fresh_def
  show ?thesis
    unfolding begin_snapshots_def Let_def in_slots out_slots prod.case
    apply (rule upholds_seq [where R = "\<lambda>_. True"], rule upholds_check, simp, simp add: session)
    apply (rule upholds_seq [where R = "\<lambda>_. all1"], rule upholds_check, simp, use slots in \<open>simp add: session\<close>)
    apply (rule upholds_seq [where R = "\<lambda>_. True"], rule upholds_check, simp, use slots in \<open>simp add: session\<close>)
    apply (rule upholds_seq [where R = "\<lambda>_. all2"], rule upholds_check, simp, use slots in \<open>simp add: session\<close>)
    apply (rule upholds_ok, use slots in \<open>simp add: session\<close>)
    done
qed

lemma derive_owned_index:
  assumes "derive_owned_input E p n fp out = ok (si, owned)"
  shows "si_psbt_index si = n" and "input_captured () (ps_inputs p ! n) si" and "owned"
proof -
  from assms obtain st where si: "si = snapshot_input (out\<lparr>si_state := st, si_psbt_index := n\<rparr>) (ps_inputs p ! n)"
    and "owned"
    by (auto simp: derive_owned_input_def Let_def run_simps split: prod.splits)
  then show "si_psbt_index si = n" "owned" "input_captured () (ps_inputs p ! n) si"
    by (simp_all add: snapshot_input_def input_captured_def)
qed

lemma begin_input_upholds:
  assumes "begin_captured p st" and n: "n < length (ps_inputs p)"
  shows "upholds (begin_captured p) (\<lambda>st'. begin_captured p st' \<and> frame_kept (bs_session st) (bs_session st'))
    (begin_input E p fp n i st)"
proof -
  have same: "session_captured (s\<lparr>ms_total_input_value := t\<rparr>) p \<longleftrightarrow> session_captured s p" for s t
    by (simp add: session_captured_def snapshot_globals_iff globals_saved_def)
  have more: "session_captured (s\<lparr>ms_total_input_value := t, ms_inputs := ms_inputs s @ [si]\<rparr>) p"
    if "session_captured s p" "derive_owned_input E p n fp z = ok (si, owned)" for s t si z owned
    using that derive_owned_index [OF that(2)] n
    by (auto simp: session_captured_def snapshot_globals_iff globals_saved_def)
  show ?thesis
    using assms more
    by (auto simp: upholds_def begin_input_def Let_def run_simps same bs_update_def frame_kept_def split: if_splits prod.splits)
qed

lemma frame_kept_refl [simp]: "frame_kept s s"
  by (simp add: frame_kept_def)

lemma frame_kept_trans: "frame_kept s t \<Longrightarrow> frame_kept t u \<Longrightarrow> frame_kept s u"
  by (simp add: frame_kept_def)

text \<open>Steps after the inputs change neither the frame nor the inputs.\<close>

definition only_staged :: "mweb_session \<Rightarrow> mweb_session \<Rightarrow> bool" where
  "only_staged s t \<longleftrightarrow> frame_kept s t \<and> ms_inputs t = ms_inputs s"

lemma captured_staged: "session_captured s p \<Longrightarrow> only_staged s t \<Longrightarrow> session_captured t p"
  using captured_frame [of s p t] by (simp add: only_staged_def session_captured_def)

lemma only_staged_refl [simp]: "only_staged s s"
  by (simp add: only_staged_def)

lemma only_staged_trans: "only_staged s t \<Longrightarrow> only_staged t u \<Longrightarrow> only_staged s u"
  by (auto simp: only_staged_def intro: frame_kept_trans)

abbreviation staged_from :: "begin_state \<Rightarrow> begin_state \<Rightarrow> bool" where
  "staged_from st st' \<equiv> only_staged (bs_session st) (bs_session st')"

lemma begin_output_upholds: "upholds (staged_from st) (staged_from st) (begin_output E cb k n po st)"
proof -
  have upd: "only_staged s (s\<lparr>ms_total_output_value := t\<rparr>)"
    "only_staged s (s\<lparr>ms_total_output_value := t, ms_outputs := x\<rparr>)" for s t x
    by (simp_all add: only_staged_def frame_kept_def)
  show ?thesis
    using upd by (auto simp: upholds_def begin_output_def Let_def run_simps bs_update_def split: if_splits prod.splits)
qed

lemma begin_pegout_upholds: "upholds (staged_from st) (staged_from st) (begin_pegout E n val st)"
proof -
  have upd: "only_staged s (s\<lparr>ms_pegouts := x\<rparr>)" "only_staged s (s\<lparr>ms_pegouts := x, ms_total_pegout := t\<rparr>)" for s t x
    by (simp_all add: only_staged_def frame_kept_def)
  show ?thesis
    using upd by (auto simp: upholds_def begin_pegout_def run_simps Let_def bs_update_def split: option.splits)
qed

lemma staged_loop:
  assumes "\<And>n x st. upholds (staged_from st) (staged_from st) (f n x st)"
  shows "upholds (staged_from st) (staged_from st) (for_run f i xs st)"
proof (rule upholds_for_run)
  fix j x u
  assume "staged_from st u"
  then show "upholds (staged_from st) (staged_from st) (f (i + j) x u)"
    using assms [of u "i + j" x] only_staged_trans by (auto simp: upholds_def)
qed simp

lemma begin_totals_upholds: "upholds (staged_from st) (staged_from st) (begin_totals E k st)"
proof -
  let ?upd = "\<lambda>s. s\<lparr>ms_total_fee := (case pk_fee k of None \<Rightarrow> 0 | Some v \<Rightarrow> v),
    ms_total_pegin := (case pk_pegin_amount k of None \<Rightarrow> 0 | Some v \<Rightarrow> v), ms_has_pegin := (pk_pegin_amount k \<noteq> None)\<rparr>"
  let ?st = "bs_update ?upd st"
  have u: "staged_from st ?st" by (simp add: only_staged_def frame_kept_def bs_update_def)
  have "upholds (staged_from ?st) (staged_from ?st) (for_run (begin_pegout E) 0 (pk_pegouts k) ?st)"
    by (rule staged_loop) (rule begin_pegout_upholds)
  then have "upholds (staged_from st) (staged_from st) (for_run (begin_pegout E) 0 (pk_pegouts k) ?st)"
    using only_staged_trans [OF u] by (auto simp: upholds_def)
  with u show ?thesis
    unfolding begin_totals_def Let_def by (auto simp: upholds_def run_simps split: if_splits)
qed

lemma begin_kernel_staged: "begin_kernel E k f sk s = ok s' \<Longrightarrow> only_staged s s'"
  by (auto simp: begin_kernel_def Let_def run_simps only_staged_def frame_kept_def split: prod.splits)

lemma begin_inputs_upholds:
  assumes "begin_captured p st"
  shows "upholds (begin_captured p) (\<lambda>st'. begin_captured p st' \<and> frame_kept (bs_session st) (bs_session st'))
    (for_run (begin_input E p fp) 0 (ps_inputs p) st)"
proof (rule upholds_for_run)
  fix j x u
  assume "j < length (ps_inputs p)" and u: "begin_captured p u \<and> frame_kept (bs_session st) (bs_session u)"
  then show "upholds (begin_captured p) (\<lambda>st'. begin_captured p st' \<and> frame_kept (bs_session st) (bs_session st'))
      (begin_input E p fp (0 + j) x u)"
    using begin_input_upholds [of u p j E fp x] frame_kept_trans by (auto simp: upholds_def)
qed (simp add: assms)

lemma staged_captured:
  assumes "upholds (staged_from st) (staged_from st) m"
    and "begin_captured p st \<and> snapshots_full (bs_session st) p"
  shows "upholds (begin_captured p) (\<lambda>st. begin_captured p st \<and> snapshots_full (bs_session st) p) m"
proof -
  have "begin_captured p t \<and> snapshots_full (bs_session t) p" if "staged_from st t" for t
    using that assms(2) captured_staged [of "bs_session st" p "bs_session t"]
      full_frame [of "bs_session st" p "bs_session t"] by (simp add: only_staged_def)
  with assms(1) show ?thesis unfolding upholds_def by blast
qed

lemma begin_steps_upholds:
  assumes W: "wally_laws (se_wally E)" and st: "bs_session st = zero_session"
  shows "upholds (begin_captured p) (\<lambda>st. begin_captured p st \<and> snapshots_full (bs_session st) p) (begin_steps E cb p st)"
proof -
  let ?I = "\<lambda>st. begin_captured p st \<and> snapshots_full (bs_session st) p"
  have out: "upholds (staged_from st) (staged_from st) (for_run (begin_output E cb k) 0 os st)" for k os st
    by (rule staged_loop) (rule begin_output_upholds)
  have key: "?I (bs_update (\<lambda>s. s\<lparr>ms_kernel := (ms_kernel s)\<lparr>sk_has_stealth_excess := b\<rparr>\<rparr>) st)" if "?I st" for st b
    using that by (simp add: bs_update_def session_captured_def snapshot_globals_iff globals_saved_def
        kernel_captured_iff snapshots_full_def)
  have ins: "upholds (begin_captured p) ?I (for_run (begin_input E p fp) 0 (ps_inputs p) st)" if "?I st" for st fp
    using begin_inputs_upholds [of st p E fp] that full_frame by (auto simp: upholds_def)
  show ?thesis
    unfolding begin_steps_def Let_def
    apply (rule upholds_seq [where R = ?I], rule upholds_mono [OF begin_snapshots_upholds [OF W st]], simp)
    apply (rule upholds_seq [where R = "\<lambda>_. True"], rule upholds_from_here, simp, simp)
    apply (rule upholds_seq [where R = "\<lambda>_. True"], rule upholds_from_here, simp, simp)
    apply (rule upholds_seq [where R = "\<lambda>_. True"], rule upholds_from_here, use key in blast, simp)
    apply (clarify, rule upholds_then_run)
    apply (rule upholds_seq [where R = ?I], rule ins, use key in blast)
    apply (rule upholds_seq [where R = ?I], erule staged_captured [OF out])
    apply (rule upholds_seq [where R = ?I], erule staged_captured [OF begin_totals_upholds])
    apply (rule upholds_seq [where R = "\<lambda>_. True"], rule upholds_from_here, simp, simp)
    apply (rule upholds_seq, rule upholds_from_here, simp, rule begin_kernel_staged, assumption)
    apply (rule upholds_ok, auto intro: captured_staged full_frame simp: only_staged_def)
    done
qed

section \<open>What the writes of a commit touch\<close>

lemma write_output_touches: "output_touched po po' \<Longrightarrow> output_touched po (write_output so po')"
  by (cases po; cases po') (simp add: output_touched_def write_output_def)

lemma write_input_touches: "input_touched i i' \<Longrightarrow> input_touched i (write_input si sig i')"
  by (cases i; cases i') (simp add: input_touched_def write_input_def)

lemma write_kernel_touches: "kernel_touched k k' \<Longrightarrow> kernel_touched k (write_kernel sk k')"
  by (cases k; cases k') (simp add: kernel_touched_def write_kernel_def)

lemma inputs_written_update:
  assumes "inputs_written own is is'" and "n \<in> set own" and "n < length is'"
  shows "inputs_written own is (is'[n := write_input si sig (is' ! n)])"
proof -
  have "input_touched (is ! n) (is' ! n)" using assms by (auto simp: inputs_written_def)
  then show ?thesis using assms write_input_touches by (auto simp: inputs_written_def nth_list_update)
qed

lemma commit_output_upholds:
  assumes "session_writes s p p'"
  shows "upholds (session_writes s p) (session_writes s p) (commit_output W j so p')"
proof -
  have "list_all2 output_touched (ps_outputs p)
      ((ps_outputs p')[so_psbt_index so := write_output so (ps_outputs p' ! so_psbt_index so)])"
    if "so_psbt_index so < length (ps_outputs p')"
    using assms that write_output_touches
    by (auto simp: session_writes_def list_all2_conv_all_nth nth_list_update)
  with assms show ?thesis
    by (auto simp: upholds_def commit_output_def run_simps session_writes_def)
qed

lemma commit_input_upholds:
  assumes "session_writes s p p'" and "si \<in> set (ms_inputs s)"
  shows "upholds (session_writes s p) (session_writes s p) (commit_input E n si p')"
proof -
  have "inputs_written (map si_psbt_index (ms_inputs s)) (ps_inputs p)
      ((ps_inputs p')[si_psbt_index si := write_input si sig (ps_inputs p' ! si_psbt_index si)])"
    if "si_psbt_index si < length (ps_inputs p')" for sig
    using assms that by (intro inputs_written_update) (auto simp: session_writes_def)
  with assms show ?thesis
    by (auto simp: upholds_def commit_input_def run_simps session_writes_def Let_def split: prod.splits)
qed

lemma commit_kernel_upholds:
  assumes "session_writes s p p'"
  shows "upholds (session_writes s p) (session_writes s p) (commit_kernel s p')"
proof -
  let ?k = "ms_kernel_index s"
  have "(\<forall>n < length (ps_mweb_kernels p). if n = ?k
          then kernel_touched (ps_mweb_kernels p ! n)
            ((ps_mweb_kernels p')[?k := write_kernel (ms_kernel s) (ps_mweb_kernels p' ! ?k)] ! n)
          else (ps_mweb_kernels p')[?k := write_kernel (ms_kernel s) (ps_mweb_kernels p' ! ?k)] ! n
            = ps_mweb_kernels p ! n)"
    using assms write_kernel_touches by (auto simp: session_writes_def)
  with assms show ?thesis
    by (auto simp: upholds_def commit_kernel_def run_simps session_writes_def)
qed

lemma commit_steps_upholds:
  assumes "session_writes s p p'"
  shows "upholds (session_writes s p) (session_writes s p) (commit_steps E s p')"
  unfolding commit_steps_def
  apply (rule upholds_seq [where R = "\<lambda>_. True"], rule upholds_check, simp, rule assms)
  apply (rule upholds_seq [where R = "session_writes s p"], rule upholds_for_run, rule assms, erule commit_output_upholds)
  apply (rule upholds_seq [where R = "session_writes s p"], rule upholds_for_run, assumption)
   apply (rule commit_input_upholds, assumption, simp)
  apply (erule commit_kernel_upholds)
  done

section \<open>What a successful begin has computed\<close>

definition mweb_inputs :: "psbt \<Rightarrow> nat list" where
  "mweb_inputs p = filter (\<lambda>n. MWEB_IN_HAS_OUTPUT_ID (pi_mweb_keyset (ps_inputs p ! n))) [0..<length (ps_inputs p)]"

definition mweb_outputs :: "psbt \<Rightarrow> nat list" where
  "mweb_outputs p = filter (\<lambda>n. MWEB_OUT_IS_MWEB (po_mweb_output_keyset (ps_outputs p ! n))) [0..<length (ps_outputs p)]"

text \<open>Adding an amount to a total within the money range.\<close>

lemma money_range_iff: "atomic_in_money_range a \<longleftrightarrow> unat a \<le> 84000000 * 100000000"
  by (simp add: atomic_in_money_range_def MWEB_LTC_MAX_LITOSHI_def word_le_nat_alt)

lemma begin_input_ok:
  assumes "begin_input E p fp n i st = ok st'"
  shows "if MWEB_IN_HAS_OUTPUT_ID (pi_mweb_keyset i)
    then \<exists>si t. derive_owned_input E p n fp zero_session_input = ok (si, True)
      \<and> st' = bs_update (\<lambda>s. s\<lparr>ms_total_input_value := t, ms_inputs := ms_inputs s @ [si]\<rparr>) st
      \<and> unat t = unat (ms_total_input_value (bs_session st)) + unat (pi_mweb_input_amount i)
      \<and> atomic_in_money_range t
    else st' = st"
  using assms derive_owned_index(3)
  by (fastforce simp: begin_input_def Let_def run_simps bs_update_def aadd.add_Some_iff split: if_splits prod.splits)

lemma begin_inputs_ok:
  assumes "for_run (begin_input E p fp) i xs st = ok st'" and "xs = drop i (ps_inputs p)" and "i \<le> length (ps_inputs p)"
    and "atomic_in_money_range (ms_total_input_value (bs_session st))"
  shows "\<exists>sis t. st' = bs_update (\<lambda>s. s\<lparr>ms_total_input_value := t, ms_inputs := ms_inputs s @ sis\<rparr>) st
    \<and> map si_psbt_index sis = filter (\<lambda>n. MWEB_IN_HAS_OUTPUT_ID (pi_mweb_keyset (ps_inputs p ! n))) [i..<length (ps_inputs p)]
    \<and> (\<forall>si \<in> set sis. derive_owned_input E p (si_psbt_index si) fp zero_session_input = ok (si, True))
    \<and> unat t = unat (ms_total_input_value (bs_session st))
        + (\<Sum>si\<leftarrow>sis. unat (pi_mweb_input_amount (ps_inputs p ! si_psbt_index si)))
    \<and> atomic_in_money_range t"
  using assms
proof (induction xs arbitrary: i st)
  case Nil
  then have "i = length (ps_inputs p)" by simp
  with Nil show ?case
    by (intro exI [of _ "[]"] exI [of _ "ms_total_input_value (bs_session st)"]) (simp add: bs_update_def)
next
  case (Cons x xs)
  then have i: "i < length (ps_inputs p)" by (cases "i < length (ps_inputs p)") simp_all
  then have x: "x = ps_inputs p ! i" and xs: "xs = drop (Suc i) (ps_inputs p)"
    using Cons.prems(2) by (metis Cons_nth_drop_Suc list.inject)+
  from Cons.prems(1) obtain st1 where 1: "begin_input E p fp i x st = ok st1"
    and 2: "for_run (begin_input E p fp) (Suc i) xs st1 = ok st'" by (auto simp: run_simps)
  have range: "[i..<length (ps_inputs p)] = i # [Suc i..<length (ps_inputs p)]" using i by (rule upt_conv_Cons)
  note IH = Cons.IH [OF 2 xs]
  show ?case
  proof (cases "MWEB_IN_HAS_OUTPUT_ID (pi_mweb_keyset x)")
    case False
    with begin_input_ok [OF 1] have "st1 = st" by simp
    with IH i Cons.prems(4) False range x show ?thesis by simp
  next
    case True
    with begin_input_ok [OF 1] obtain si t where si: "derive_owned_input E p i fp zero_session_input = ok (si, True)"
      and st1: "st1 = bs_update (\<lambda>s. s\<lparr>ms_total_input_value := t, ms_inputs := ms_inputs s @ [si]\<rparr>) st"
      and t: "unat t = unat (ms_total_input_value (bs_session st)) + unat (pi_mweb_input_amount x)"
      and r: "atomic_in_money_range t" by auto
    have idx: "si_psbt_index si = i" using derive_owned_index(1) [OF si] .
    have "atomic_in_money_range (ms_total_input_value (bs_session st1))" using r st1 by (simp add: bs_update_def)
    from IH [OF _ this] i obtain sis t' where IH': "st' = bs_update (\<lambda>s. s\<lparr>ms_total_input_value := t', ms_inputs := ms_inputs s @ sis\<rparr>) st1"
      "map si_psbt_index sis = filter (\<lambda>n. MWEB_IN_HAS_OUTPUT_ID (pi_mweb_keyset (ps_inputs p ! n))) [Suc i..<length (ps_inputs p)]"
      "\<forall>si \<in> set sis. derive_owned_input E p (si_psbt_index si) fp zero_session_input = ok (si, True)"
      "unat t' = unat (ms_total_input_value (bs_session st1))
        + (\<Sum>si\<leftarrow>sis. unat (pi_mweb_input_amount (ps_inputs p ! si_psbt_index si)))"
      "atomic_in_money_range t'" by auto
    show ?thesis
      by (rule exI [of _ "si # sis"], rule exI [of _ t'])
        (use IH' idx si st1 t range True x in \<open>simp add: bs_update_def\<close>)
  qed
qed

lemma begin_output_ok:
  assumes "begin_output E cb k n po st = ok st'"
  shows "if MWEB_OUT_IS_MWEB (po_mweb_output_keyset po)
    then \<exists>so t g. build_mweb_output E (bs_gens st) po n zero_session_output = Ret (g, Inr so)
      \<and> bs_session st' = (bs_session st)\<lparr>ms_total_output_value := t, ms_outputs := ms_outputs (bs_session st) @ [so]\<rparr>
      \<and> unat t = unat (ms_total_output_value (bs_session st)) + unat (so_value so)
      \<and> atomic_in_money_range t
    else st' = st"
  using assms
  by (fastforce simp: begin_output_def Let_def run_simps bs_update_def aadd.add_Some_iff split: if_splits prod.splits)

lemma build_mweb_output_ok:
  assumes "build_mweb_output E g po n out = Ret (g', Inr so)"
  obtains v extra key built where "po_amount po = Some v"
    and "output_extra_data po (output_features po) = ok extra"
    and "draw_scalar (se_rnd E (DrawSender n)) 0 8 = Some key"
    and "mweb_build_output (se_crypto E) (se_bp E) (se_output_mpi E n) (se_rnd E (DrawNonce n))
      (se_rnd E (DrawPrivateNonce n)) g (Some key) (Some (take 33 (po_mweb_stealth_address po)))
      (Some (take 33 (drop 33 (po_mweb_stealth_address po)))) v (output_features po) extra (opt_len extra)
      (Some zero_built) = Ret (g', MWEB_OK, built)"
    and "so = out\<lparr>so_psbt_index := n, so_value := v, so_features := output_features po,
               so_sender_key := key, so_blind := do_blind (the built), so_commit := do_commit (the built),
               so_sender_pubkey := do_sender_pubkey (the built), so_output_pubkey := do_output_pubkey (the built),
               so_standard_fields := pack_standard_fields (the built),
               so_range_proof := bo_range_proof (the built), so_signature := bo_signature (the built)\<rparr>"
proof -
  from assms obtain r where r: "output_request E po n = Ret r"
    by (auto simp: build_mweb_output_def run_simps)
  show thesis
  proof (cases r)
    case (Inl e)
    with r assms show thesis by (simp add: build_mweb_output_def)
  next
    case (Inr q)
    obtain v f extra key where q: "q = (v, f, extra, key)" by (cases q)
    from r Inr q have "po_amount po = Some v" "output_extra_data po (output_features po) = ok extra"
      "draw_scalar (se_rnd E (DrawSender n)) 0 8 = Some key" "f = output_features po"
      by (auto simp: output_request_def Let_def run_simps)
    with r Inr q assms that show thesis
      by (auto simp: build_mweb_output_def Let_def run_simps split: if_splits)
  qed
qed

lemma build_output_index:
  assumes "build_mweb_output E g po n out = Ret (g', Inr so)"
  shows "so_psbt_index so = n" and "po_amount po = Some (so_value so)"
  by (rule build_mweb_output_ok [OF assms], simp)+

lemma begin_outputs_ok:
  assumes "for_run (begin_output E cb k) i xs st = ok st'" and "xs = drop i (ps_outputs p)" and "i \<le> length (ps_outputs p)"
    and "atomic_in_money_range (ms_total_output_value (bs_session st))"
  shows "\<exists>sos t. bs_session st' = (bs_session st)\<lparr>ms_total_output_value := t, ms_outputs := ms_outputs (bs_session st) @ sos\<rparr>
    \<and> map so_psbt_index sos = filter (\<lambda>n. MWEB_OUT_IS_MWEB (po_mweb_output_keyset (ps_outputs p ! n))) [i..<length (ps_outputs p)]
    \<and> (\<forall>so \<in> set sos. \<exists>g g'. build_mweb_output E g (ps_outputs p ! so_psbt_index so) (so_psbt_index so) zero_session_output
          = Ret (g', Inr so))
    \<and> unat t = unat (ms_total_output_value (bs_session st)) + (\<Sum>so\<leftarrow>sos. unat (so_value so))
    \<and> atomic_in_money_range t"
  using assms
proof (induction xs arbitrary: i st)
  case Nil
  then have "i = length (ps_outputs p)" by simp
  with Nil show ?case
    by (intro exI [of _ "[]"] exI [of _ "ms_total_output_value (bs_session st)"]) simp
next
  case (Cons x xs)
  then have i: "i < length (ps_outputs p)" by (cases "i < length (ps_outputs p)") simp_all
  then have x: "x = ps_outputs p ! i" and xs: "xs = drop (Suc i) (ps_outputs p)"
    using Cons.prems(2) by (metis Cons_nth_drop_Suc list.inject)+
  from Cons.prems(1) obtain st1 where 1: "begin_output E cb k i x st = ok st1"
    and 2: "for_run (begin_output E cb k) (Suc i) xs st1 = ok st'" by (auto simp: run_simps)
  have range: "[i..<length (ps_outputs p)] = i # [Suc i..<length (ps_outputs p)]" using i by (rule upt_conv_Cons)
  note IH = Cons.IH [OF 2 xs]
  show ?case
  proof (cases "MWEB_OUT_IS_MWEB (po_mweb_output_keyset x)")
    case False
    with begin_output_ok [OF 1] have "st1 = st" by simp
    with IH i Cons.prems(4) False range x show ?thesis by simp
  next
    case True
    with begin_output_ok [OF 1] obtain so t g where so: "build_mweb_output E (bs_gens st) x i zero_session_output = Ret (g, Inr so)"
      and st1: "bs_session st1 = (bs_session st)\<lparr>ms_total_output_value := t, ms_outputs := ms_outputs (bs_session st) @ [so]\<rparr>"
      and t: "unat t = unat (ms_total_output_value (bs_session st)) + unat (so_value so)"
      and r: "atomic_in_money_range t" by auto
    have idx: "so_psbt_index so = i" using build_output_index(1) [OF so] .
    have "atomic_in_money_range (ms_total_output_value (bs_session st1))" using r st1 by simp
    from IH [OF _ this] i obtain sos t' where IH': "bs_session st' = (bs_session st1)\<lparr>ms_total_output_value := t', ms_outputs := ms_outputs (bs_session st1) @ sos\<rparr>"
      "map so_psbt_index sos = filter (\<lambda>n. MWEB_OUT_IS_MWEB (po_mweb_output_keyset (ps_outputs p ! n))) [Suc i..<length (ps_outputs p)]"
      "\<forall>so \<in> set sos. \<exists>g g'. build_mweb_output E g (ps_outputs p ! so_psbt_index so) (so_psbt_index so) zero_session_output
          = Ret (g', Inr so)"
      "unat t' = unat (ms_total_output_value (bs_session st1)) + (\<Sum>so\<leftarrow>sos. unat (so_value so))"
      "atomic_in_money_range t'" by auto
    show ?thesis
      by (rule exI [of _ "so # sos"], rule exI [of _ t'])
        (use IH' idx so st1 t range True x in auto)
  qed
qed

lemma atomic_parse_eq: "atomic_parse_pegout val = parse_pegout_value val"
  by (simp add: atomic_parse_pegout_def parse_pegout_value_def)

text \<open>One entry of the pegout table, for one item of the kernel's map.\<close>

definition pegout_entry :: "'k session_env \<Rightarrow> bytes \<Rightarrow> session_pegout \<Rightarrow> bool" where
  "pegout_entry E val e \<longleftrightarrow> pegout_decoded val = Some (sp_amount e, sp_script e)
     \<and> sp_script e \<noteq> [] \<and> se_script_type E (sp_script e) \<in> Some ` {WALLY_SCRIPT_TYPE_P2PKH, WALLY_SCRIPT_TYPE_P2SH, WALLY_SCRIPT_TYPE_P2WPKH, WALLY_SCRIPT_TYPE_P2WSH, WALLY_SCRIPT_TYPE_P2TR}
     \<and> \<not> sp_confirmed e \<and> sp_kernel_index e = 0"

lemma script_supported_iff:
  "atomic_pegout_script_supported E (Some s) \<longleftrightarrow>
     s \<noteq> [] \<and> se_script_type E s \<in> Some ` {WALLY_SCRIPT_TYPE_P2PKH, WALLY_SCRIPT_TYPE_P2SH, WALLY_SCRIPT_TYPE_P2WPKH, WALLY_SCRIPT_TYPE_P2WSH, WALLY_SCRIPT_TYPE_P2TR}"
  by (auto simp: atomic_pegout_script_supported_def image_iff split: option.splits script_type.splits)

lemma begin_pegout_ok:
  assumes "begin_pegout E n val st = ok st'"
  shows "\<exists>e t. pegout_entry E val e
    \<and> st' = bs_update (\<lambda>s. s\<lparr>ms_total_pegout := t, ms_pegouts := ms_pegouts s @ [e]\<rparr>) st
    \<and> unat t = unat (ms_total_pegout (bs_session st)) + unat (sp_amount e) \<and> atomic_in_money_range t"
proof -
  from assms obtain v where v: "parse_pegout_value val = Some v"
    by (auto simp: begin_pegout_def run_simps atomic_parse_eq)
  show ?thesis
  proof (cases "pegout_script val v")
    case None
    with assms v show ?thesis by (auto simp: begin_pegout_def run_simps atomic_parse_eq)
  next
    case (Some script)
    with assms v obtain t where "atomic_pegout_script_supported E (Some script)"
      and t: "atomic_u64_add (ms_total_pegout (bs_session st)) (pv_amount v) = Some t" "atomic_in_money_range t"
      and st': "st' = bs_update (\<lambda>s. s\<lparr>ms_total_pegout := t, ms_pegouts := ms_pegouts s @
               [\<lparr>sp_kernel_index = 0, sp_amount = pv_amount v, sp_script = script, sp_confirmed = False\<rparr>]\<rparr>) st"
      by (auto simp: begin_pegout_def run_simps atomic_parse_eq Let_def bs_update_def)
    moreover from v Some have "pegout_decoded val = Some (pv_amount v, script)" by (simp add: pegout_decoded_def)
    ultimately show ?thesis
      by (intro exI [of _ "\<lparr>sp_kernel_index = 0, sp_amount = pv_amount v, sp_script = script, sp_confirmed = False\<rparr>"]
          exI [of _ t]) (simp add: pegout_entry_def script_supported_iff aadd.add_Some_iff)
  qed
qed

lemma begin_pegouts_ok:
  assumes "for_run (begin_pegout E) i vals st = ok st'" and "atomic_in_money_range (ms_total_pegout (bs_session st))"
  shows "\<exists>es t. bs_session st' = (bs_session st)\<lparr>ms_total_pegout := t, ms_pegouts := ms_pegouts (bs_session st) @ es\<rparr>
    \<and> list_all2 (pegout_entry E) vals es
    \<and> unat t = unat (ms_total_pegout (bs_session st)) + (\<Sum>e\<leftarrow>es. unat (sp_amount e)) \<and> atomic_in_money_range t"
  using assms
proof (induction vals arbitrary: i st)
  case Nil
  then show ?case by (intro exI [of _ "[]"] exI [of _ "ms_total_pegout (bs_session st)"]) simp
next
  case (Cons val vals)
  then obtain st1 where 1: "begin_pegout E i val st = ok st1" and 2: "for_run (begin_pegout E) (Suc i) vals st1 = ok st'"
    by (auto simp: run_simps)
  from begin_pegout_ok [OF 1] obtain e t where e: "pegout_entry E val e"
    and st1: "st1 = bs_update (\<lambda>s. s\<lparr>ms_total_pegout := t, ms_pegouts := ms_pegouts s @ [e]\<rparr>) st"
    and t: "unat t = unat (ms_total_pegout (bs_session st)) + unat (sp_amount e)" "atomic_in_money_range t" by auto
  from Cons.IH [OF 2] t(2) st1 obtain es t' where
    "bs_session st' = (bs_session st1)\<lparr>ms_total_pegout := t', ms_pegouts := ms_pegouts (bs_session st1) @ es\<rparr>"
    "list_all2 (pegout_entry E) vals es"
    "unat t' = unat (ms_total_pegout (bs_session st1)) + (\<Sum>e\<leftarrow>es. unat (sp_amount e))" "atomic_in_money_range t'"
    by (auto simp: bs_update_def)
  with e st1 t show ?case
    by (intro exI [of _ "e # es"] exI [of _ t']) (auto simp: bs_update_def)
qed

lemma begin_totals_ok:
  assumes "begin_totals E k st = ok st'" and "ms_pegouts (bs_session st) = []" and "ms_total_pegout (bs_session st) = 0"
  shows "\<exists>es t fee pegin. bs_session st' = (bs_session st)\<lparr>ms_total_fee := fee, ms_total_pegin := pegin,
      ms_has_pegin := (pk_pegin_amount k \<noteq> None), ms_total_pegout := t, ms_pegouts := es\<rparr>
    \<and> fee = (case pk_fee k of None \<Rightarrow> 0 | Some v \<Rightarrow> v) \<and> pegin = (case pk_pegin_amount k of None \<Rightarrow> 0 | Some v \<Rightarrow> v)
    \<and> atomic_in_money_range fee \<and> atomic_in_money_range pegin
    \<and> list_all2 (pegout_entry E) (pk_pegouts k) es
    \<and> unat t = (\<Sum>e\<leftarrow>es. unat (sp_amount e)) \<and> atomic_in_money_range t"
proof -
  let ?fee = "case pk_fee k of None \<Rightarrow> 0 | Some v \<Rightarrow> v"
  let ?pegin = "case pk_pegin_amount k of None \<Rightarrow> 0 | Some v \<Rightarrow> v"
  let ?st = "bs_update (\<lambda>s. s\<lparr>ms_total_fee := ?fee, ms_total_pegin := ?pegin,
                 ms_has_pegin := (pk_pegin_amount k \<noteq> None)\<rparr>) st"
  have zero: "atomic_in_money_range 0" by (simp add: money_range_iff)
  from assms(1) have range: "atomic_in_money_range ?fee" "atomic_in_money_range ?pegin"
    by (auto simp: begin_totals_def Let_def run_simps)
  have loop: "for_run (begin_pegout E) 0 (pk_pegouts k) ?st = ok st'"
    using assms(1) by (cases "pk_pegouts k") (auto simp: begin_totals_def Let_def run_simps)
  have "atomic_in_money_range (ms_total_pegout (bs_session ?st))" using assms(3) zero by (simp add: bs_update_def)
  from begin_pegouts_ok [OF loop this] obtain es t where
      s: "bs_session st' = (bs_session ?st)\<lparr>ms_total_pegout := t, ms_pegouts := ms_pegouts (bs_session ?st) @ es\<rparr>"
    and es: "list_all2 (pegout_entry E) (pk_pegouts k) es"
    and t: "unat t = unat (ms_total_pegout (bs_session ?st)) + (\<Sum>e\<leftarrow>es. unat (sp_amount e))" "atomic_in_money_range t"
    by blast
  show ?thesis
    by (rule exI [of _ es], rule exI [of _ t], rule exI [of _ ?fee], rule exI [of _ ?pegin])
      (use s es t range assms in \<open>simp add: bs_update_def\<close>)
qed

lemma begin_balance_ok_iff:
  "begin_balance s = ok () \<longleftrightarrow>
     unat (ms_total_input_value s) + unat (ms_total_pegin s) < 2 ^ 64
     \<and> unat (ms_total_output_value s) + unat (ms_total_fee s) + unat (ms_total_pegout s) < 2 ^ 64
     \<and> unat (ms_total_input_value s) + unat (ms_total_pegin s)
        = unat (ms_total_output_value s) + unat (ms_total_fee s) + unat (ms_total_pegout s)"
proof -
  have word: "\<exists>w :: u64. unat w = k" if "k < 2 ^ 64" for k
    using that by (intro exI [of _ "of_nat k"]) (rule unat_of_nat_u64)
  have "begin_balance s = ok () \<longleftrightarrow> (\<exists>a. atomic_u64_add (ms_total_input_value s) (ms_total_pegin s) = Some a
      \<and> (\<exists>b. atomic_u64_add (ms_total_output_value s) (ms_total_fee s) = Some b
        \<and> atomic_u64_add b (ms_total_pegout s) = Some a))"
    by (auto simp: begin_balance_def run_simps)
  also have "\<dots> \<longleftrightarrow> unat (ms_total_input_value s) + unat (ms_total_pegin s) < 2 ^ 64
     \<and> unat (ms_total_output_value s) + unat (ms_total_fee s) + unat (ms_total_pegout s) < 2 ^ 64
     \<and> unat (ms_total_input_value s) + unat (ms_total_pegin s)
        = unat (ms_total_output_value s) + unat (ms_total_fee s) + unat (ms_total_pegout s)" (is "?l \<longleftrightarrow> ?r")
  proof
    assume ?l
    then show ?r by (auto simp: aadd.add_Some_iff)
  next
    assume r: ?r
    then have "unat (ms_total_output_value s) + unat (ms_total_fee s) < 2 ^ 64" by linarith
    then obtain b :: u64 where b: "unat b = unat (ms_total_output_value s) + unat (ms_total_fee s)"
      using word by blast
    obtain a :: u64 where "unat a = unat (ms_total_input_value s) + unat (ms_total_pegin s)"
      using word r by blast
    with b r have "atomic_u64_add (ms_total_input_value s) (ms_total_pegin s) = Some a"
      "atomic_u64_add (ms_total_output_value s) (ms_total_fee s) = Some b"
      "atomic_u64_add b (ms_total_pegout s) = Some a"
      by (simp_all only: aadd.add_Some_iff) linarith+
    then show ?l by blast
  qed
  finally show ?thesis .
qed

lemma begin_kernel_ok:
  assumes "begin_kernel E k f key s = ok s'"
  obtains received ko where "begin_offsets E (ms_outputs s) = Some received"
    and "mweb_sign_kernel (se_crypto E) (se_kernel_mpi E) (se_rnd E DrawKernel)
      (Some (session_kernel_params k f key s received)) (Some zero_outs) = Ret (MWEB_OK, ko)"
    and "s' = s\<lparr>ms_kernel := (ms_kernel s)\<lparr>sk_excess_commitment := ko_excess_kG (the ko),
             sk_stealth_excess := ko_stealth_excess_G (the ko), sk_signature := ko_signature (the ko),
             sk_tx_offset_final := ko_tx_offset_final (the ko),
             sk_stealth_offset_final := ko_stealth_offset_final (the ko)\<rparr>\<rparr>"
  using assms by (auto simp: begin_kernel_def Let_def run_simps split: prod.splits intro: that)

text \<open>The session a successful \<^verbatim>\<open>begin\<close> hands out, part by part.\<close>

definition session_for :: "'k session_env \<Rightarrow> psbt \<Rightarrow> psbt_kernel \<Rightarrow> byte \<Rightarrow> bytes option \<Rightarrow> mweb_session \<Rightarrow> bool" where
  "session_for E p k f key s \<longleftrightarrow>
     map si_psbt_index (ms_inputs s) = mweb_inputs p
     \<and> (\<exists>fp. begin_fingerprint E (length (mweb_inputs p)) = Ret fp
         \<and> (\<forall>si \<in> set (ms_inputs s). derive_owned_input E p (si_psbt_index si) fp zero_session_input = ok (si, True)))
     \<and> map so_psbt_index (ms_outputs s) = mweb_outputs p
     \<and> (\<forall>so \<in> set (ms_outputs s). \<exists>g g'. build_mweb_output E g (ps_outputs p ! so_psbt_index so)
           (so_psbt_index so) zero_session_output = Ret (g', Inr so))
     \<and> list_all2 (pegout_entry E) (pk_pegouts k) (ms_pegouts s)
     \<and> ms_total_fee s = (case pk_fee k of None \<Rightarrow> 0 | Some v \<Rightarrow> v)
     \<and> ms_total_pegin s = (case pk_pegin_amount k of None \<Rightarrow> 0 | Some v \<Rightarrow> v)
     \<and> ms_has_pegin s = (pk_pegin_amount k \<noteq> None)
     \<and> unat (ms_total_input_value s) = (\<Sum>si\<leftarrow>ms_inputs s. unat (pi_mweb_input_amount (ps_inputs p ! si_psbt_index si)))
     \<and> unat (ms_total_output_value s) = (\<Sum>so\<leftarrow>ms_outputs s. unat (so_value so))
     \<and> unat (ms_total_pegout s) = (\<Sum>e\<leftarrow>ms_pegouts s. unat (sp_amount e))
     \<and> list_all atomic_in_money_range [ms_total_fee s, ms_total_pegin s, ms_total_input_value s,
          ms_total_output_value s, ms_total_pegout s]
     \<and> begin_balance s = ok ()
     \<and> sk_has_stealth_excess (ms_kernel s) = has_bit f MWEB_KERNEL_STEALTH_EXCESS_BIT
     \<and> ms_kernel_index s = 0"

lemma session_for_kernel_update: "session_for E p k f key (s\<lparr>ms_kernel := (ms_kernel s)\<lparr>sk_excess_commitment := a,
    sk_stealth_excess := b, sk_signature := c, sk_tx_offset_final := d, sk_stealth_offset_final := e\<rparr>\<rparr>)
  \<longleftrightarrow> session_for E p k f key s"
  by (simp add: session_for_def begin_balance_ok_iff)

lemma length_mweb_inputs:
  "length (filter (\<lambda>i. MWEB_IN_HAS_OUTPUT_ID (pi_mweb_keyset i)) (ps_inputs p)) = length (mweb_inputs p)"
proof -
  have "filter (\<lambda>i. MWEB_IN_HAS_OUTPUT_ID (pi_mweb_keyset i)) (ps_inputs p)
      = filter (\<lambda>i. MWEB_IN_HAS_OUTPUT_ID (pi_mweb_keyset i)) (map ((!) (ps_inputs p)) [0..<length (ps_inputs p)])"
    by (simp only: map_nth)
  then show ?thesis by (simp add: filter_map comp_def mweb_inputs_def)
qed

lemma begin_steps_ok:
  assumes W: "wally_laws (se_wally E)"
    and b: "begin_steps E cb p st = ok st'" and st: "bs_session st = zero_session"
  obtains f key s0 where "begin_check_features (ps_mweb_kernels p ! 0) = ok f" and "begin_stealth_key E f = ok key"
    and "session_for E p (ps_mweb_kernels p ! 0) f key s0"
    and "begin_kernel E (ps_mweb_kernels p ! 0) f key s0 = ok (bs_session st')"
proof -
  let ?k = "ps_mweb_kernels p ! 0"
  from b obtain st1 f key n m fp st2 st3 st4 s5 where 1: "begin_snapshots E p st = ok st1"
    and f: "begin_check_features ?k = ok f" and key: "begin_stealth_key E f = ok key"
    and arr: "begin_arrays E p = ok (n, m)" and fp: "begin_fingerprint E n = Ret fp"
    and 2: "for_run (begin_input E p fp) 0 (ps_inputs p) (bs_update (\<lambda>s. s\<lparr>ms_kernel := (ms_kernel s)
                 \<lparr>sk_has_stealth_excess := has_bit f MWEB_KERNEL_STEALTH_EXCESS_BIT\<rparr>\<rparr>) st1) = ok st2"
    and 3: "for_run (begin_output E cb m) 0 (ps_outputs p) st2 = ok st3"
    and 4: "begin_totals E ?k st3 = ok st4" and bal: "begin_balance (bs_session st4) = ok ()"
    and 5: "begin_kernel E ?k f key (bs_session st4) = ok s5" and st': "st' = st4\<lparr>bs_session := s5\<rparr>"
    by (auto simp: begin_steps_def Let_def run_simps split: prod.splits)
  have fresh: "fresh (bs_session st1)"
    using upholdsD(2) [OF begin_snapshots_upholds [OF W st] 1] by simp
  have zero: "atomic_in_money_range 0" by (simp add: money_range_iff)
  let ?st1 = "bs_update (\<lambda>s. s\<lparr>ms_kernel := (ms_kernel s)
                 \<lparr>sk_has_stealth_excess := has_bit f MWEB_KERNEL_STEALTH_EXCESS_BIT\<rparr>\<rparr>) st1"
  from begin_inputs_ok [OF 2] fresh zero obtain sis tin where
      st2: "st2 = bs_update (\<lambda>s. s\<lparr>ms_total_input_value := tin, ms_inputs := ms_inputs s @ sis\<rparr>) ?st1"
    and ins: "map si_psbt_index sis = mweb_inputs p"
      "\<forall>si \<in> set sis. derive_owned_input E p (si_psbt_index si) fp zero_session_input = ok (si, True)"
    and tin: "unat tin = unat (ms_total_input_value (bs_session ?st1))
        + (\<Sum>si\<leftarrow>sis. unat (pi_mweb_input_amount (ps_inputs p ! si_psbt_index si)))" "atomic_in_money_range tin"
    by (auto simp: fresh_def bs_update_def mweb_inputs_def)
  have "atomic_in_money_range (ms_total_output_value (bs_session st2))"
    using st2 fresh zero by (simp add: bs_update_def fresh_def)
  from begin_outputs_ok [OF 3 drop_0 [symmetric] le0 this] obtain sos tout where
      st3: "bs_session st3 = (bs_session st2)\<lparr>ms_total_output_value := tout, ms_outputs := ms_outputs (bs_session st2) @ sos\<rparr>"
    and outs: "map so_psbt_index sos = mweb_outputs p"
      "\<forall>so \<in> set sos. \<exists>g g'. build_mweb_output E g (ps_outputs p ! so_psbt_index so) (so_psbt_index so) zero_session_output
          = Ret (g', Inr so)"
    and tout: "unat tout = unat (ms_total_output_value (bs_session st2)) + (\<Sum>so\<leftarrow>sos. unat (so_value so))"
      "atomic_in_money_range tout"
    unfolding mweb_outputs_def by blast
  have "ms_pegouts (bs_session st3) = []" "ms_total_pegout (bs_session st3) = 0"
    using st3 st2 fresh by (simp_all add: bs_update_def fresh_def)
  from begin_totals_ok [OF 4 this] obtain es tp fee pegin where
      st4: "bs_session st4 = (bs_session st3)\<lparr>ms_total_fee := fee, ms_total_pegin := pegin,
      ms_has_pegin := (pk_pegin_amount ?k \<noteq> None), ms_total_pegout := tp, ms_pegouts := es\<rparr>"
    and tot: "fee = (case pk_fee ?k of None \<Rightarrow> 0 | Some v \<Rightarrow> v)"
      "pegin = (case pk_pegin_amount ?k of None \<Rightarrow> 0 | Some v \<Rightarrow> v)"
      "atomic_in_money_range fee" "atomic_in_money_range pegin" "list_all2 (pegout_entry E) (pk_pegouts ?k) es"
      "unat tp = (\<Sum>e\<leftarrow>es. unat (sp_amount e))" "atomic_in_money_range tp" by blast
  have "n = length (mweb_inputs p)" using arr by (auto simp: begin_arrays_def length_mweb_inputs run_simps)
  with fp have fp: "begin_fingerprint E (length (mweb_inputs p)) = Ret fp" by simp
  have "session_for E p ?k f key (bs_session st4)"
    unfolding session_for_def
    using fp st4 st3 st2 fresh ins outs tin tout tot bal by (auto simp: bs_update_def fresh_def)
  with f key 5 st' that show thesis by simp
qed

section \<open>The result of begin and of the confirmations\<close>

lemma begin_result:
  assumes "mweb_session_begin E g cb (Some p) net out = Ret r"
  obtains (refused) e where "e \<noteq> MWEB_OK" "r = begin_failed e (Some p) g"
    | (failed) e st where "begin_steps E cb p \<lparr>bs_session = zero_session, bs_gens = g, bs_progress = []\<rparr> = fail (e, st)"
      "r = \<lparr>br_err = e, br_session = None, br_psbt = mweb_session_abort (Some (bs_session st)) (Some p),
            br_gens = bs_gens st, br_progress = bs_progress st\<rparr>"
    | (begun) st k n where "begin_steps E cb p \<lparr>bs_session = zero_session, bs_gens = g, bs_progress = []\<rparr> = ok st"
      "r = \<lparr>br_err = MWEB_OK, br_session = Some (bs_session st), br_psbt = Some p,
            br_gens = bs_gens st, br_progress = bs_progress st\<rparr>"
      "ps_mweb_kernels p = [k]" "network_of_byte net = Some n" "network_is_litecoin n = Ret True" "out"
proof -
  from assms consider "\<exists>e. e \<noteq> MWEB_OK \<and> r = begin_failed e (Some p) g"
    | "out" "\<exists>n. network_of_byte net = Some n \<and> network_is_litecoin n = Ret True" "length (ps_mweb_kernels p) = 1"
      "(case begin_steps E cb p \<lparr>bs_session = zero_session, bs_gens = g, bs_progress = []\<rparr> of
                    Crash \<Rightarrow> Crash
                  | Undef \<Rightarrow> Undef
                  | Ret (Inl (err, st)) \<Rightarrow>
                      Ret \<lparr>br_err = err, br_session = None,
                           br_psbt = mweb_session_abort (Some (bs_session st)) (Some p),
                           br_gens = bs_gens st, br_progress = bs_progress st\<rparr>
                  | Ret (Inr st) \<Rightarrow>
                      Ret \<lparr>br_err = MWEB_OK, br_session = Some (bs_session st), br_psbt = Some p,
                           br_gens = bs_gens st, br_progress = bs_progress st\<rparr>) = Ret r"
    by (auto simp: mweb_session_begin_def run_simps split: if_splits option.splits)
  then show thesis
  proof cases
    case 1
    then show thesis using refused by blast
  next
    case 2
    from 2(3) obtain k where "ps_mweb_kernels p = [k]" by (auto simp: length_Suc_conv)
    with 2 failed begun show thesis by (auto split: run.splits sum.splits)
  qed
qed

lemma begin_session:
  assumes "mweb_session_begin E g cb (Some p) net out = Ret r" and "br_session r = Some s"
  obtains st k n where "begin_steps E cb p \<lparr>bs_session = zero_session, bs_gens = g, bs_progress = []\<rparr> = ok st"
    and "s = bs_session st" and "ps_mweb_kernels p = [k]" and "network_of_byte net = Some n"
    and "network_is_litecoin n = Ret True" and "br_psbt r = Some p" and "br_err r = MWEB_OK"
  using assms(2) that by (cases rule: begin_result [OF assms(1)]) (auto simp: begin_failed_def)

text \<open>No step of \<^verbatim>\<open>begin\<close> fails with the code of success.\<close>

lemma origin_key_not_ok: "origin_key E m \<noteq> fail MWEB_OK"
  by (auto simp: origin_key_def Let_def split: option.splits prod.splits)

lemma derive_owned_not_ok: "derive_owned_input E p n fp z \<noteq> fail MWEB_OK"
  using origin_key_not_ok by (auto simp: derive_owned_input_def Let_def run_simps split: prod.splits)

lemma build_output_not_ok: "build_mweb_output E g po n z \<noteq> Ret (g', Inl MWEB_OK)"
proof -
  have "output_request E po n \<noteq> fail MWEB_OK"
    by (auto simp: output_request_def output_extra_data_def Let_def run_simps split: if_splits)
  then show ?thesis
    by (auto simp: build_mweb_output_def Let_def run_simps split: sum.splits prod.splits if_splits)
qed

lemma begin_loop_not_ok:
  assumes "\<And>n x st st'. f n x st \<noteq> fail (MWEB_OK, st')"
  shows "for_run f i xs st \<noteq> fail (MWEB_OK, st')"
  using assms by (induction xs arbitrary: i st) (auto simp: run_simps)

lemma begin_steps_not_ok: "begin_steps E cb p st \<noteq> fail (MWEB_OK, st')"
proof -
  have a: "begin_snapshots E p st \<noteq> fail (MWEB_OK, st')" for st st'
    by (auto simp: begin_snapshots_def Let_def run_simps split: prod.splits)
  have b: "begin_check_features k \<noteq> fail MWEB_OK" "begin_stealth_key E f \<noteq> fail MWEB_OK" "begin_arrays E p \<noteq> fail MWEB_OK" for k f
    by (auto simp: begin_check_features_def begin_stealth_key_def begin_arrays_def Let_def run_simps split: if_splits)
  have c: "for_run (begin_input E p fp) i xs st \<noteq> fail (MWEB_OK, st')" for fp i xs st st'
    by (rule begin_loop_not_ok)
      (auto simp: derive_owned_not_ok begin_input_def Let_def run_simps split: if_splits prod.splits)
  have d: "for_run (begin_output E cb m) i xs st \<noteq> fail (MWEB_OK, st')" for m i xs st st'
    by (rule begin_loop_not_ok)
      (auto simp: build_output_not_ok begin_output_def Let_def run_simps split: if_splits prod.splits)
  have e: "for_run (begin_pegout E) i xs st \<noteq> fail (MWEB_OK, st')" for i xs st st'
    by (rule begin_loop_not_ok) (auto simp: begin_pegout_def Let_def run_simps split: option.splits)
  have f: "begin_totals E k st \<noteq> fail (MWEB_OK, st')" "begin_balance s \<noteq> fail MWEB_OK" "begin_kernel E k ff key s \<noteq> fail MWEB_OK"
    for k st st' s ff key
    using e by (auto simp: begin_totals_def begin_balance_def begin_kernel_def Let_def run_simps split: if_splits prod.splits)
  show ?thesis
    using a b c d f by (auto simp: begin_steps_def Let_def run_simps split: prod.splits)
qed

text \<open>The confirmations of the user: each marks one pegout.\<close>

definition confirm_all :: "nat list \<Rightarrow> mweb_session option \<Rightarrow> mweb_session option" where
  "confirm_all is s = fold (\<lambda>i s. mweb_session_mark_pegout_confirmed s i) is s"

lemma confirm_all_Some:
  "\<exists>es. confirm_all is (Some s) = Some (s\<lparr>ms_pegouts := es\<rparr>) \<and> length es = length (ms_pegouts s)
    \<and> (\<forall>n < length es. sp_confirmed (es ! n) = (sp_confirmed (ms_pegouts s ! n) \<or> n \<in> set is)
        \<and> (es ! n)\<lparr>sp_confirmed := False\<rparr> = (ms_pegouts s ! n)\<lparr>sp_confirmed := False\<rparr>)"
proof (induction "is" arbitrary: s)
  case Nil
  then show ?case by (intro exI [of _ "ms_pegouts s"]) (simp add: confirm_all_def)
next
  case (Cons i "is")
  show ?case
  proof (cases "i < length (ms_pegouts s)")
    case True
    let ?s = "s\<lparr>ms_pegouts := (ms_pegouts s)[i := (ms_pegouts s ! i)\<lparr>sp_confirmed := True\<rparr>]\<rparr>"
    have "confirm_all (i # is) (Some s) = confirm_all is (Some ?s)"
      using True by (simp add: confirm_all_def mweb_session_mark_pegout_confirmed_def)
    moreover from Cons.IH [of ?s] obtain es where "confirm_all is (Some ?s) = Some (?s\<lparr>ms_pegouts := es\<rparr>)"
      "length es = length (ms_pegouts s)"
      "\<forall>n < length es. sp_confirmed (es ! n) = (sp_confirmed (ms_pegouts ?s ! n) \<or> n \<in> set is)
        \<and> (es ! n)\<lparr>sp_confirmed := False\<rparr> = (ms_pegouts ?s ! n)\<lparr>sp_confirmed := False\<rparr>" by auto
    ultimately show ?thesis by (intro exI [of _ es]) (use True in \<open>auto simp: nth_list_update\<close>)
  next
    case False
    then have "confirm_all (i # is) (Some s) = confirm_all is (Some s)"
      by (simp add: confirm_all_def mweb_session_mark_pegout_confirmed_def)
    with Cons.IH [of s] False show ?thesis by auto
  qed
qed

lemma session_of_begin:
  assumes "wally_laws (se_wally E)" and "mweb_session_begin E g cb (Some p) net out = Ret r" and "br_session r = Some s"
  shows "session_captured s p" and "snapshots_full s p"
proof -
  from assms(2,3) obtain st where b: "begin_steps E cb p \<lparr>bs_session = zero_session, bs_gens = g, bs_progress = []\<rparr> = ok st"
    and s: "s = bs_session st" by (rule begin_session)
  have "bs_session \<lparr>bs_session = zero_session, bs_gens = g, bs_progress = []\<rparr> = zero_session" by simp
  from upholdsD(2) [OF begin_steps_upholds [OF assms(1) this] b] s
  show "session_captured s p" and "snapshots_full s p" by simp_all
qed

lemma pegouts_irrelevant [simp]:
  "session_captured (s\<lparr>ms_pegouts := es\<rparr>) p = session_captured s p"
  "snapshots_full (s\<lparr>ms_pegouts := es\<rparr>) p = snapshots_full s p"
  "session_writes (s\<lparr>ms_pegouts := es\<rparr>) p p' = session_writes s p p'"
  by (simp_all add: session_captured_def snapshot_globals_iff globals_saved_def snapshots_full_def session_writes_def)

section \<open>What a commit has written\<close>

lemma commit_output_ok_iff: "commit_output W i so p = ok p1 \<longleftrightarrow> so_psbt_index so < length (ps_outputs p)
    \<and> wally_malloc W (AllocCommitProof i) \<and> p1 = p\<lparr>ps_outputs := (ps_outputs p)[so_psbt_index so :=
        write_output so (ps_outputs p ! so_psbt_index so)]\<rparr>"
  by (auto simp: commit_output_def run_simps)

lemma commit_input_ok_iff: "commit_input E i si p = ok p1 \<longleftrightarrow> si_psbt_index si < length (ps_inputs p)
    \<and> (\<exists>r. mweb_sign_input_from_state (se_crypto E) (se_sign_mpi E i) (Some (si_state si))
        (pi_mweb_extra_data (ps_inputs p ! si_psbt_index si)) (opt_len (pi_mweb_extra_data (ps_inputs p ! si_psbt_index si)))
        (Some (replicate 64 0)) = Ret (MWEB_OK, r)
      \<and> p1 = p\<lparr>ps_inputs := (ps_inputs p)[si_psbt_index si :=
          write_input si (the r) (ps_inputs p ! si_psbt_index si)]\<rparr>)"
  by (auto simp: commit_input_def run_simps Let_def split: prod.splits)

lemma commit_outputs_ok:
  assumes "for_run (commit_output W) i sos p = ok p'" and "distinct (map so_psbt_index sos)"
  shows "p' = p\<lparr>ps_outputs := ps_outputs p'\<rparr> \<and> length (ps_outputs p') = length (ps_outputs p)
    \<and> (\<forall>n < length (ps_outputs p). ps_outputs p' ! n =
         (case List.find (\<lambda>so. so_psbt_index so = n) sos of
            None \<Rightarrow> ps_outputs p ! n | Some so \<Rightarrow> write_output so (ps_outputs p ! n)))"
  using assms
proof (induction sos arbitrary: i p)
  case Nil
  then show ?case by simp
next
  case (Cons so sos)
  let ?p1 = "p\<lparr>ps_outputs := (ps_outputs p)[so_psbt_index so := write_output so (ps_outputs p ! so_psbt_index so)]\<rparr>"
  from Cons.prems(1) have "so_psbt_index so < length (ps_outputs p)"
    and 2: "for_run (commit_output W) (Suc i) sos ?p1 = ok p'" by (auto simp: commit_output_ok_iff run_simps)
  have none: "List.find (\<lambda>x. so_psbt_index x = so_psbt_index so) sos = None"
    using Cons.prems(2) by (simp add: find_None_iff) (metis image_eqI)
  from Cons.IH [OF 2] Cons.prems(2) none \<open>so_psbt_index so < length (ps_outputs p)\<close> show ?case
    by (auto simp: nth_list_update split: option.splits)
qed

lemma commit_inputs_ok:
  assumes "for_run (commit_input E) i sis p = ok p'" and "distinct (map si_psbt_index sis)"
  shows "p' = p\<lparr>ps_inputs := ps_inputs p'\<rparr> \<and> length (ps_inputs p') = length (ps_inputs p)
    \<and> (\<forall>n < length (ps_inputs p). case List.find (\<lambda>si. si_psbt_index si = n) sis of
            None \<Rightarrow> ps_inputs p' ! n = ps_inputs p ! n
          | Some si \<Rightarrow> \<exists>k sig. mweb_sign_input_from_state (se_crypto E) (se_sign_mpi E k) (Some (si_state si))
                (pi_mweb_extra_data (ps_inputs p ! n)) (opt_len (pi_mweb_extra_data (ps_inputs p ! n)))
                (Some (replicate 64 0)) = Ret (MWEB_OK, Some sig)
              \<and> ps_inputs p' ! n = write_input si sig (ps_inputs p ! n))"
  using assms
proof (induction sis arbitrary: i p)
  case Nil
  then show ?case by simp
next
  case (Cons si sis)
  from Cons.prems(1) obtain r where j: "si_psbt_index si < length (ps_inputs p)"
    and sig: "mweb_sign_input_from_state (se_crypto E) (se_sign_mpi E i) (Some (si_state si))
        (pi_mweb_extra_data (ps_inputs p ! si_psbt_index si)) (opt_len (pi_mweb_extra_data (ps_inputs p ! si_psbt_index si)))
        (Some (replicate 64 0)) = Ret (MWEB_OK, r)"
    and 2: "for_run (commit_input E) (Suc i) sis (p\<lparr>ps_inputs := (ps_inputs p)[si_psbt_index si :=
        write_input si (the r) (ps_inputs p ! si_psbt_index si)]\<rparr>) = ok p'"
    by (auto simp: commit_input_ok_iff run_simps)
  have "r \<noteq> None"
    using sig by (auto simp: mweb_sign_input_from_state_def run_simps Let_def split: option.splits if_splits)
  with sig have sig': "mweb_sign_input_from_state (se_crypto E) (se_sign_mpi E i) (Some (si_state si))
        (pi_mweb_extra_data (ps_inputs p ! si_psbt_index si)) (opt_len (pi_mweb_extra_data (ps_inputs p ! si_psbt_index si)))
        (Some (replicate 64 0)) = Ret (MWEB_OK, Some (the r))" by auto
  have none: "List.find (\<lambda>x. si_psbt_index x = si_psbt_index si) sis = None"
    using Cons.prems(2) by (simp add: find_None_iff) (metis image_eqI)
  have d: "distinct (map si_psbt_index sis)" using Cons.prems(2) by simp
  define q where "q = (ps_inputs p)[si_psbt_index si := write_input si (the r) (ps_inputs p ! si_psbt_index si)]"
  have len: "length q = length (ps_inputs p)" by (simp add: q_def)
  have sel: "ps_inputs (p\<lparr>ps_inputs := q\<rparr>) = q" "p\<lparr>ps_inputs := q, ps_inputs := y\<rparr> = p\<lparr>ps_inputs := y\<rparr>" for y by simp_all
  from Cons.IH [OF 2 d, folded q_def, unfolded sel len] have e: "p' = p\<lparr>ps_inputs := ps_inputs p'\<rparr>"
    and l: "length (ps_inputs p') = length (ps_inputs p)"
    and IH: "\<And>n. n < length (ps_inputs p) \<Longrightarrow>
      case List.find (\<lambda>si. si_psbt_index si = n) sis of
            None \<Rightarrow> ps_inputs p' ! n = q ! n
          | Some si \<Rightarrow> \<exists>k sig. mweb_sign_input_from_state (se_crypto E) (se_sign_mpi E k) (Some (si_state si))
                (pi_mweb_extra_data (q ! n)) (opt_len (pi_mweb_extra_data (q ! n)))
                (Some (replicate 64 0)) = Ret (MWEB_OK, Some sig)
              \<and> ps_inputs p' ! n = write_input si sig (q ! n)"
    by blast+
  show ?case
  proof (intro conjI allI impI)
    fix n
    assume n: "n < length (ps_inputs p)"
    show "case List.find (\<lambda>si. si_psbt_index si = n) (si # sis) of
            None \<Rightarrow> ps_inputs p' ! n = ps_inputs p ! n
          | Some si \<Rightarrow> \<exists>k sig. mweb_sign_input_from_state (se_crypto E) (se_sign_mpi E k) (Some (si_state si))
                (pi_mweb_extra_data (ps_inputs p ! n)) (opt_len (pi_mweb_extra_data (ps_inputs p ! n)))
                (Some (replicate 64 0)) = Ret (MWEB_OK, Some sig)
              \<and> ps_inputs p' ! n = write_input si sig (ps_inputs p ! n)"
    proof (cases "si_psbt_index si = n")
      case True
      with IH [OF n] none j sig' show ?thesis by (auto simp: q_def)
    next
      case False
      then have "q ! n = ps_inputs p ! n" by (simp add: q_def)
      from IH [OF n, unfolded this] False show ?thesis by simp
    qed
  qed (rule e, rule l)
qed

text \<open>The PSBT after a commit, from the one before.\<close>

definition committed :: "'k session_env \<Rightarrow> mweb_session \<Rightarrow> psbt \<Rightarrow> psbt \<Rightarrow> bool" where
  "committed E s p p' \<longleftrightarrow>
     length (ps_outputs p') = length (ps_outputs p) \<and> length (ps_inputs p') = length (ps_inputs p)
     \<and> (\<forall>n < length (ps_outputs p). ps_outputs p' ! n =
         (case List.find (\<lambda>so. so_psbt_index so = n) (ms_outputs s) of
            None \<Rightarrow> ps_outputs p ! n | Some so \<Rightarrow> write_output so (ps_outputs p ! n)))
     \<and> (\<forall>n < length (ps_inputs p). case List.find (\<lambda>si. si_psbt_index si = n) (ms_inputs s) of
            None \<Rightarrow> ps_inputs p' ! n = ps_inputs p ! n
          | Some si \<Rightarrow> \<exists>k sig. mweb_sign_input_from_state (se_crypto E) (se_sign_mpi E k) (Some (si_state si))
                (pi_mweb_extra_data (ps_inputs p ! n)) (opt_len (pi_mweb_extra_data (ps_inputs p ! n)))
                (Some (replicate 64 0)) = Ret (MWEB_OK, Some sig)
              \<and> ps_inputs p' ! n = write_input si sig (ps_inputs p ! n))
     \<and> ps_mweb_kernels p' = [write_kernel (ms_kernel s) (ps_mweb_kernels p ! 0)]
     \<and> (ps_has_mweb_tx_offset p', ps_mweb_tx_offset p') = (1, sk_tx_offset_final (ms_kernel s))
     \<and> (ps_has_mweb_stealth_offset p', ps_mweb_stealth_offset p') = (1, sk_stealth_offset_final (ms_kernel s))"

lemma commit_steps_committed:
  assumes c: "commit_steps E s p = ok p'" and "distinct (map so_psbt_index (ms_outputs s))"
    and "distinct (map si_psbt_index (ms_inputs s))" and k: "length (ps_mweb_kernels p) = 1" "ms_kernel_index s = 0"
  shows "list_all sp_confirmed (ms_pegouts s)" and "committed E s p p'"
proof -
  from c obtain p1 p2 where conf: "list_all sp_confirmed (ms_pegouts s)"
    and 1: "for_run (commit_output (se_wally E)) 0 (ms_outputs s) p = ok p1"
    and 2: "for_run (commit_input E) 0 (ms_inputs s) p1 = ok p2" and 3: "commit_kernel s p2 = ok p'"
    by (auto simp: commit_steps_def run_simps)
  from commit_outputs_ok [OF 1 assms(2)] have e1: "p1 = p\<lparr>ps_outputs := ps_outputs p1\<rparr>"
    and outs: "length (ps_outputs p1) = length (ps_outputs p)" "\<forall>n < length (ps_outputs p). ps_outputs p1 ! n =
         (case List.find (\<lambda>so. so_psbt_index so = n) (ms_outputs s) of
            None \<Rightarrow> ps_outputs p ! n | Some so \<Rightarrow> write_output so (ps_outputs p ! n))" by blast+
  from commit_inputs_ok [OF 2 assms(3)] have e2: "p2 = p1\<lparr>ps_inputs := ps_inputs p2\<rparr>"
    and ins: "length (ps_inputs p2) = length (ps_inputs p1)"
      "\<forall>n < length (ps_inputs p1). case List.find (\<lambda>si. si_psbt_index si = n) (ms_inputs s) of
            None \<Rightarrow> ps_inputs p2 ! n = ps_inputs p1 ! n
          | Some si \<Rightarrow> \<exists>k sig. mweb_sign_input_from_state (se_crypto E) (se_sign_mpi E k) (Some (si_state si))
                (pi_mweb_extra_data (ps_inputs p1 ! n)) (opt_len (pi_mweb_extra_data (ps_inputs p1 ! n)))
                (Some (replicate 64 0)) = Ret (MWEB_OK, Some sig)
              \<and> ps_inputs p2 ! n = write_input si sig (ps_inputs p1 ! n)" by blast+
  have p1: "ps_inputs p1 = ps_inputs p" "ps_mweb_kernels p1 = ps_mweb_kernels p" by (subst e1, simp)+
  have p2: "ps_outputs p2 = ps_outputs p1" "ps_mweb_kernels p2 = ps_mweb_kernels p1" by (subst e2, simp)+
  obtain k0 where "ps_mweb_kernels p = [k0]" using k(1) by (auto simp: length_Suc_conv)
  with 3 k(2) p1 p2 have p': "p' = p2\<lparr>ps_mweb_kernels := [write_kernel (ms_kernel s) (ps_mweb_kernels p ! 0)],
           ps_mweb_tx_offset := sk_tx_offset_final (ms_kernel s), ps_has_mweb_tx_offset := 1,
           ps_mweb_stealth_offset := sk_stealth_offset_final (ms_kernel s), ps_has_mweb_stealth_offset := 1\<rparr>"
    by (auto simp: commit_kernel_def run_simps)
  show "list_all sp_confirmed (ms_pegouts s)" by (rule conf)
  show "committed E s p p'"
    unfolding committed_def p' using outs ins [unfolded p1] by (simp add: p2(1) cong: option.case_cong)
qed

text \<open>A commit never fails with the code of success.\<close>

lemma commit_steps_not_ok: "commit_steps E s p \<noteq> fail (MWEB_OK, p')"
proof -
  have "for_run (commit_output W) i sos p \<noteq> fail (MWEB_OK, p')" for W i sos p p'
    by (rule begin_loop_not_ok) (auto simp: commit_output_def run_simps)
  moreover have "for_run (commit_input E) i sis p \<noteq> fail (MWEB_OK, p')" for i sis p p'
    by (rule begin_loop_not_ok) (auto simp: commit_input_def Let_def run_simps split: prod.splits)
  ultimately show ?thesis by (auto simp: commit_steps_def commit_kernel_def run_simps)
qed

lemma session_indices:
  assumes "session_for E p k f key s"
  shows "distinct (map so_psbt_index (ms_outputs s))" and "distinct (map si_psbt_index (ms_inputs s))"
  using assms by (simp_all add: session_for_def mweb_outputs_def mweb_inputs_def)

lemma session_for_begin:
  assumes W: "wally_laws (se_wally E)" and b: "mweb_session_begin E g cb (Some p) net out = Ret r" and s: "br_session r = Some s"
  obtains k f key s0 where "ps_mweb_kernels p = [k]" and "session_for E p k f key s"
    and "begin_check_features k = ok f" and "begin_stealth_key E f = ok key"
    and "session_for E p k f key s0" and "begin_kernel E k f key s0 = ok s" and "ms_inputs s = ms_inputs s0"
    and "ms_outputs s = ms_outputs s0"
proof -
  from b s obtain st k where st: "begin_steps E cb p \<lparr>bs_session = zero_session, bs_gens = g, bs_progress = []\<rparr> = ok st"
    and s': "s = bs_session st" and k: "ps_mweb_kernels p = [k]" by (rule begin_session)
  have k0: "ps_mweb_kernels p ! 0 = k" using k by simp
  have "bs_session \<lparr>bs_session = zero_session, bs_gens = g, bs_progress = []\<rparr> = zero_session" by simp
  then obtain f key s0 where 1: "begin_check_features k = ok f" "begin_stealth_key E f = ok key"
    "session_for E p k f key s0" and bk: "begin_kernel E k f key s0 = ok s"
    by (rule begin_steps_ok [OF W st, unfolded k0, folded s'])
  obtain a b c d e where s0: "s = s0\<lparr>ms_kernel := (ms_kernel s0)\<lparr>sk_excess_commitment := a,
             sk_stealth_excess := b, sk_signature := c, sk_tx_offset_final := d, sk_stealth_offset_final := e\<rparr>\<rparr>"
    by (rule begin_kernel_ok [OF bk])
  have same: "session_for E p k f key s"
    unfolding s0 session_for_kernel_update by (rule 1(3))
  have "ms_inputs s = ms_inputs s0" "ms_outputs s = ms_outputs s0"
    unfolding s0 by simp_all
  from that [OF k same 1 bk this] show thesis .
qed

section \<open>The sums of the outputs' secrets\<close>

lemma begin_offsets_value:
  assumes "begin_offsets E sos = Some rec"
  shows "int (be_nat (fst rec)) mod int secp_n = (\<Sum>so\<leftarrow>sos. int (be_nat (so_blind so))) mod int secp_n"
    and "int (be_nat (snd rec)) mod int secp_n = (\<Sum>so\<leftarrow>sos. int (be_nat (so_sender_key so))) mod int secp_n"
proof -
  let ?step = "\<lambda>j so (tx, stealth). do {
         tx \<leftarrow> mweb_scalar_add_mod_n (se_offset_mpi E False j) tx (so_blind so);
         stealth \<leftarrow> mweb_scalar_add_mod_n (se_offset_mpi E True j) stealth (so_sender_key so);
         Some (tx, stealth) }"
  have "int (be_nat (fst t)) mod int secp_n = (int (be_nat (fst s)) + (\<Sum>so\<leftarrow>sos. int (be_nat (so_blind so)))) mod int secp_n
      \<and> int (be_nat (snd t)) mod int secp_n = (int (be_nat (snd s)) + (\<Sum>so\<leftarrow>sos. int (be_nat (so_sender_key so)))) mod int secp_n"
    if "for_opt ?step i sos s = Some t" for i s t
    using that
  proof (induction sos arbitrary: i s)
    case Nil
    then show ?case by simp
  next
    case (Cons so sos)
    obtain tx st where s: "s = (tx, st)" by (cases s)
    from Cons.prems s obtain a b where a: "mweb_scalar_add_mod_n (se_offset_mpi E False i) tx (so_blind so) = Some a"
      and b: "mweb_scalar_add_mod_n (se_offset_mpi E True i) st (so_sender_key so) = Some b"
      and l: "for_opt ?step (Suc i) sos (a, b) = Some t"
      by (auto simp: bind_eq_Some_conv split: option.splits)
    have "int (be_nat a) = (int (be_nat tx) + int (be_nat (so_blind so))) mod int secp_n"
      "int (be_nat b) = (int (be_nat st) + int (be_nat (so_sender_key so))) mod int secp_n"
      using scalar_add_value [OF a] scalar_add_value [OF b] by (simp_all add: zmod_int)
    with Cons.IH [OF l] s show ?case by (simp add: mod_add_left_eq add.assoc)
  qed
  from this [of 0 "(replicate 32 0, replicate 32 0)" rec] assms
  show "int (be_nat (fst rec)) mod int secp_n = (\<Sum>so\<leftarrow>sos. int (be_nat (so_blind so))) mod int secp_n"
    and "int (be_nat (snd rec)) mod int secp_n = (\<Sum>so\<leftarrow>sos. int (be_nat (so_sender_key so))) mod int secp_n"
    by (simp_all add: begin_offsets_def)
qed

section \<open>The session for its callers\<close>

lemma session_output_value:
  assumes sf: "session_for E p k f key s"
  shows "mweb_session_get_output_value (Some s) n True =
      (if n \<in> set (mweb_outputs p) then (MWEB_OK, po_amount (ps_outputs p ! n)) else (MWEB_ERR_INTERNAL, None))"
proof -
  have idx: "set (mweb_outputs p) = so_psbt_index ` set (ms_outputs s)"
    using sf by (auto simp: session_for_def simp flip: set_map)
  have amount: "po_amount (ps_outputs p ! so_psbt_index so) = Some (so_value so)" if "so \<in> set (ms_outputs s)" for so
    using sf that build_output_index(2) by (fastforce simp: session_for_def)
  show ?thesis
  proof (cases "List.find (\<lambda>so. so_psbt_index so = n) (ms_outputs s)")
    case None
    then have "n \<notin> set (mweb_outputs p)" unfolding idx by (auto simp: find_None_iff)
    with None show ?thesis by (simp add: mweb_session_get_output_value_def)
  next
    case (Some so)
    then have "so \<in> set (ms_outputs s)" "so_psbt_index so = n" by (auto simp: find_Some_iff)
    with Some amount [of so] show ?thesis unfolding idx by (auto simp: mweb_session_get_output_value_def)
  qed
qed

lemma begin_keeps:
  assumes "wally_laws (se_wally E)" and "list_all proof_normal (ps_outputs p)"
    and "mweb_session_begin E g cb (Some p) net out = Ret r"
  shows "br_psbt r = Some p \<and> (br_err r = MWEB_OK \<longleftrightarrow> br_session r \<noteq> None)"
proof (cases rule: begin_result [OF assms(3)])
  case (1 e)
  then show ?thesis by (simp add: begin_failed_def)
next
  case (2 e st)
  have "bs_session \<lparr>bs_session = zero_session, bs_gens = g, bs_progress = []\<rparr> = zero_session" by simp
  from upholdsD(1) [OF begin_steps_upholds [OF assms(1) this] 2(1)]
  have "mweb_session_abort (Some (bs_session st)) (Some p) = Some p"
    by (rule abort_restores [OF _ assms(2) session_writes_refl]) simp
  moreover have "e \<noteq> MWEB_OK" using 2(1) begin_steps_not_ok by blast
  ultimately show ?thesis using 2(2) by simp
next
  case (3 st k n)
  then show ?thesis by simp
qed


lemma abort_after_begin:
  assumes "wally_laws (se_wally E)" and "list_all proof_normal (ps_outputs p)"
    and "mweb_session_begin E g cb (Some p) net out = Ret r" and "br_session r = Some s"
    and "session_writes s p p'"
  shows "mweb_session_abort (confirm_all is (Some s)) (Some p') = Some p"
proof -
  obtain es where c: "confirm_all is (Some s) = Some (s\<lparr>ms_pegouts := es\<rparr>)" using confirm_all_Some by blast
  note s = session_of_begin [OF assms(1,3,4)]
  show ?thesis
    unfolding c by (rule abort_restores [OF _ assms(2)]) (use s assms(5) in simp_all)
qed

lemma failed_commit_restores:
  assumes "wally_laws (se_wally E)" and "list_all proof_normal (ps_outputs p)"
    and "mweb_session_begin E g cb (Some p) net out = Ret r" and "br_session r = Some s"
    and "session_writes s p p'"
    and "mweb_session_commit E' (confirm_all is (Some s)) (Some p') = Ret (err, q)" and "err \<noteq> MWEB_OK"
  shows "q = Some p"
proof -
  obtain es where c: "confirm_all is (Some s) = Some (s\<lparr>ms_pegouts := es\<rparr>)" using confirm_all_Some by blast
  let ?s = "s\<lparr>ms_pegouts := es\<rparr>"
  note s = session_of_begin [OF assms(1,3,4)]
  from assms(6,7) obtain b where fails: "commit_steps E' ?s p' = fail (err, b)"
    and q: "q = mweb_session_abort (Some ?s) (Some b)"
    by (auto simp: mweb_session_commit_def c split: run.split_asm sum.split_asm prod.split_asm)
  have "session_writes ?s p b"
    by (rule upholdsD(1) [OF commit_steps_upholds fails]) (use assms(5) in simp)
  then show ?thesis unfolding q by (intro abort_restores [OF _ assms(2)]) (use s in simp_all)
qed

section \<open>What is committed for an output\<close>

text \<open>
  \<^verbatim>\<open>derived_for E n po sk v b\<close>: the recipient derivation for the amount and the stealth address
  of an output gives \<^verbatim>\<open>b\<close>, with a sender key drawn for this output. \<^verbatim>\<open>staged_for\<close>: it is what the
  session holds for the output.
  \<^verbatim>\<open>committed_to E n po po'\<close>: the \<^verbatim>\<open>n\<close>th output of a PSBT, \<^verbatim>\<open>po\<close> when the session began, holds in
  \<^verbatim>\<open>po'\<close> the public data of such a derivation.
\<close>

definition derived_for ::
  "'k session_env \<Rightarrow> nat \<Rightarrow> psbt_output \<Rightarrow> bytes \<Rightarrow> u64 \<Rightarrow> mweb_built_output \<Rightarrow> bool" where
  "derived_for E n po sk v b \<longleftrightarrow> po_amount po = Some v \<and> mweb_validate_scalar sk
     \<and> draw_scalar (se_rnd E (DrawSender n)) 0 8 = Some sk
     \<and> mweb_pedersen_commit (se_crypto E) (do_blind b) v = Some (do_commit b)
     \<and> (\<exists>m. derive_output_binding (se_crypto E) m sk (take 33 (po_mweb_stealth_address po))
            (take 33 (drop 33 (po_mweb_stealth_address po))) v = Some (mweb_derived_output.truncate b))"

definition staged_for :: "'k session_env \<Rightarrow> psbt_output \<Rightarrow> session_output \<Rightarrow> mweb_built_output \<Rightarrow> bool" where
  "staged_for E po so b \<longleftrightarrow> derived_for E (so_psbt_index so) po (so_sender_key so) (so_value so) b
     \<and> (so_blind so, so_commit so, so_sender_pubkey so, so_output_pubkey so, so_standard_fields so)
         = (do_blind b, do_commit b, do_sender_pubkey b, do_output_pubkey b, pack_standard_fields b)"

definition committed_to :: "'k session_env \<Rightarrow> nat \<Rightarrow> psbt_output \<Rightarrow> psbt_output \<Rightarrow> bool" where
  "committed_to E n po po' \<longleftrightarrow> (\<exists>sk v b. derived_for E n po sk v b
     \<and> (po_mweb_commit po', po_mweb_sender_pubkey po', po_mweb_output_pubkey po', po_mweb_standard_fields po')
         = (do_commit b, do_sender_pubkey b, do_output_pubkey b, pack_standard_fields b))"

lemma derived_truncate [simp]:
  "do_blind (mweb_derived_output.truncate b) = do_blind b" "do_commit (mweb_derived_output.truncate b) = do_commit b"
  "do_sender_pubkey (mweb_derived_output.truncate b) = do_sender_pubkey b"
  "do_output_pubkey (mweb_derived_output.truncate b) = do_output_pubkey b"
  by (simp_all add: mweb_derived_output.defs)

lemma staged_output:
  assumes "session_for E p k f key s" and "so \<in> set (ms_outputs s)"
  shows "\<exists>b. staged_for E (ps_outputs p ! so_psbt_index so) so b"
proof -
  let ?n = "so_psbt_index so" and ?po = "ps_outputs p ! so_psbt_index so"
  from assms obtain g g' where "build_mweb_output E g ?po ?n zero_session_output = Ret (g', Inr so)"
    by (auto simp: session_for_def)
  then obtain v extra sk built where v: "po_amount ?po = Some v" and sk: "draw_scalar (se_rnd E (DrawSender ?n)) 0 8 = Some sk"
    and b: "mweb_build_output (se_crypto E) (se_bp E) (se_output_mpi E ?n) (se_rnd E (DrawNonce ?n))
      (se_rnd E (DrawPrivateNonce ?n)) g (Some sk) (Some (take 33 (po_mweb_stealth_address ?po)))
      (Some (take 33 (drop 33 (po_mweb_stealth_address ?po)))) v (output_features ?po) extra (opt_len extra)
      (Some zero_built) = Ret (g', MWEB_OK, built)"
    and eq: "so = zero_session_output\<lparr>so_psbt_index := ?n, so_value := v, so_features := output_features ?po,
               so_sender_key := sk, so_blind := do_blind (the built), so_commit := do_commit (the built),
               so_sender_pubkey := do_sender_pubkey (the built), so_output_pubkey := do_output_pubkey (the built),
               so_standard_fields := pack_standard_fields (the built),
               so_range_proof := bo_range_proof (the built), so_signature := bo_signature (the built)\<rparr>"
    by (rule build_mweb_output_ok)
  have f: "so_value so = v" "so_sender_key so = sk" "so_blind so = do_blind (the built)" "so_commit so = do_commit (the built)"
      "so_sender_pubkey so = do_sender_pubkey (the built)" "so_output_pubkey so = do_output_pubkey (the built)"
      "so_standard_fields so = pack_standard_fields (the built)"
    by (subst eq, simp)+
  from b obtain d bt where bt: "built = Some bt" "mweb_validate_scalar sk" and tr: "mweb_derived_output.truncate bt = d"
    and d: "derive_output_binding (se_crypto E) (se_output_mpi E ?n 0) sk (take 33 (po_mweb_stealth_address ?po))
      (take 33 (drop 33 (po_mweb_stealth_address ?po))) v = Some d" by (rule build_output_ok)
  have "mweb_pedersen_commit (se_crypto E) (do_blind d) v = Some (do_commit d)"
    using d by (auto simp: derive_output_binding_def Let_def bind_eq_Some_conv)
  with v sk bt d tr f show ?thesis by (auto simp: staged_for_def derived_for_def)
qed

lemma commit_writes_outputs:
  assumes "wally_laws (se_wally E)" and "mweb_session_begin E g cb (Some p) net out = Ret r" and "br_session r = Some s"
    and "session_writes s p p'" and "mweb_session_commit E' (confirm_all is (Some s)) (Some p') = Ret (MWEB_OK, Some q)"
    and "n \<in> set (mweb_outputs p)"
  shows "committed_to E n (ps_outputs p ! n) (ps_outputs q ! n)"
proof -
  obtain es where c: "confirm_all is (Some s) = Some (s\<lparr>ms_pegouts := es\<rparr>)" using confirm_all_Some by blast
  let ?s = "s\<lparr>ms_pegouts := es\<rparr>"
  from session_for_begin [OF assms(1-3)] obtain k f key where k: "ps_mweb_kernels p = [k]" and sf: "session_for E p k f key s" by blast
  have idx: "ms_kernel_index s = 0" using sf by (simp add: session_for_def)
  have "commit_steps E' ?s p' = ok q"
    using assms(5) commit_steps_not_ok by (auto simp: mweb_session_commit_def c split: run.split_asm sum.split_asm prod.split_asm)
  moreover have "length (ps_mweb_kernels p') = 1" "length (ps_outputs p') = length (ps_outputs p)"
    using assms(4) k by (auto simp: session_writes_def dest: list_all2_lengthD)
  ultimately have "committed E' ?s p' q" and len: "length (ps_outputs p') = length (ps_outputs p)"
    using commit_steps_committed [of E' ?s p' q] session_indices [OF sf] idx by simp_all
  moreover from assms(6) have "n < length (ps_outputs p)" by (simp add: mweb_outputs_def)
  ultimately have q: "ps_outputs q ! n = (case List.find (\<lambda>so. so_psbt_index so = n) (ms_outputs s) of
            None \<Rightarrow> ps_outputs p' ! n | Some so \<Rightarrow> write_output so (ps_outputs p' ! n))" by (simp add: committed_def)
  have "n \<in> so_psbt_index ` set (ms_outputs s)" using sf assms(6) by (simp add: session_for_def flip: set_map)
  then obtain so where "List.find (\<lambda>so. so_psbt_index so = n) (ms_outputs s) = Some so"
    by (cases "List.find (\<lambda>so. so_psbt_index so = n) (ms_outputs s)") (auto simp: find_None_iff)
  moreover from this have "so \<in> set (ms_outputs s)" "so_psbt_index so = n" by (auto simp: find_Some_iff)
  moreover from staged_output [OF sf this(1)] this(2) obtain b where "staged_for E (ps_outputs p ! n) so b" by blast
  ultimately show ?thesis unfolding q by (auto simp: committed_to_def staged_for_def write_output_def)
qed

end
