(* ===== verification/Mweb_Session_Theorems.thy ===== *)
theory Mweb_Session_Theorems
  imports Mweb_Session_Props
begin

text \<open>
  A complete signing session on concrete data, and the properties of the session: the
  PSBT across a failure, an abort and a commit; the meaning of the totals and of the
  values shown; whose inputs are accepted; the offsets.
\<close>

section \<open>A session for the examples\<close>

text \<open>
  One MWEB input of value 11 and one standard input, one MWEB output of value 5, a fee
  of 1 and a pegout of 5. \<^verbatim>\<open>opk\<close> and \<^verbatim>\<open>c\<close>: the spent output's key and commitment.
\<close>

definition demo_wally :: wally_lib where
  "demo_wally = \<lparr>wally_map_init = (\<lambda>_ f. Some \<lparr>wm_items = [], wm_verify_fn = f\<rparr>),
     wally_map_combine = (\<lambda>_ m src. Some (m\<lparr>wm_items := wm_items m @ wm_items src\<rparr>)),
     wally_malloc = (\<lambda>_. True)\<rparr>"

definition demo_env :: "unit session_env" where
  "demo_env = \<lparr>se_crypto = log_crypto, se_bp = log_bp, se_wally = demo_wally,
     se_bip32 = (\<lambda>_ _. Some (0 # one32)), se_keychain = Some (), se_fingerprint = (\<lambda>_. [1, 2, 3, 4]),
     se_item_fingerprint = (\<lambda>_. Some [4, 3, 2, 1]), se_item_path = (\<lambda>_. Some [0x80000000]),
     se_script_type = (\<lambda>_. Some WALLY_SCRIPT_TYPE_P2WPKH), se_rnd = (\<lambda>_ _. one32), se_input_mpi = (\<lambda>_ _. True),
     se_output_mpi = (\<lambda>_ _. True), se_offset_mpi = (\<lambda>_ _. True), se_kernel_mpi = (\<lambda>_ _. True),
     se_sign_mpi = (\<lambda>_. True)\<rparr>"

definition empty_map :: wmap where "empty_map = \<lparr>wm_items = [], wm_verify_fn = None\<rparr>"

definition one_map :: "bytes \<Rightarrow> bytes \<Rightarrow> wmap" where "one_map k v = \<lparr>wm_items = [(k, v)], wm_verify_fn = None\<rparr>"

definition demo_address :: bytes where "demo_address = (2 # one32) @ (2 # one32)"

definition demo_input :: "u16 \<Rightarrow> bytes \<Rightarrow> bytes \<Rightarrow> psbt_input" where
  "demo_input keyset opk c = \<lparr>pi_signatures = empty_map, pi_psbt_fields = empty_map,
     pi_taproot_leaf_signatures = empty_map, pi_mweb_keyset = keyset,
     pi_mweb_input_signature = replicate 64 0, pi_mweb_input_pubkey = replicate 33 0,
     pi_mweb_scan_key_origin = one_map [2] [4], pi_mweb_spend_key_origin = one_map [3] [4],
     pi_mweb_address_index = 7, pi_mweb_input_features = 0x01,
     pi_mweb_spent_output_id = replicate 32 0, pi_mweb_spent_output_pubkey = opk,
     pi_mweb_spent_output_commit = c, pi_mweb_key_exchange_pubkey = 2 # scalar_bytes 2,
     pi_mweb_input_amount = 11, pi_mweb_extra_data = None\<rparr>"

definition demo_output :: psbt_output where
  "demo_output = \<lparr>po_unknowns = one_map [0x90] demo_address, po_mweb_output_keyset = 0x0001,
     po_mweb_commit = replicate 33 0, po_mweb_features = 0, po_mweb_sender_pubkey = replicate 33 0,
     po_mweb_output_pubkey = replicate 33 0, po_mweb_standard_fields = replicate 58 0,
     po_mweb_signature = replicate 64 0, po_mweb_range_proof = None, po_amount = Some 5,
     po_mweb_stealth_address = (2 # one32) @ (2 # one32), po_mweb_extra_data = None\<rparr>"

definition demo_psbt_kernel :: psbt_kernel where
  "demo_psbt_kernel = \<lparr>pk_has_excess_commitment = 0, pk_excess_commitment = replicate 33 0,
     pk_has_stealth_excess = 0, pk_stealth_excess = replicate 33 0, pk_has_signature = 0,
     pk_signature = replicate 64 0, pk_features = Some 0x05, pk_fee = Some 1, pk_pegin_amount = None,
     pk_lock_height = None, pk_pegouts = [encode_pegout 5 [0x51]], pk_extra_data = None\<rparr>"

definition demo_psbt :: "bytes \<Rightarrow> bytes \<Rightarrow> psbt" where
  "demo_psbt opk c = \<lparr>ps_inputs = [demo_input 0x02D7 opk c, demo_input 0 [] []],
     ps_outputs = [demo_output], ps_mweb_kernels = [demo_psbt_kernel],
     ps_has_mweb_tx_offset = 0, ps_mweb_tx_offset = replicate 32 0,
     ps_has_mweb_stealth_offset = 0, ps_mweb_stealth_offset = replicate 32 0\<rparr>"

lemma demo_wally_laws: "wally_laws (se_wally demo_env)"
  by (simp add: wally_laws_def demo_env_def demo_wally_def)

lemma demo_snapshot_map: "snapshot_wally_map demo_wally site (Some m) = (True, \<lparr>wms_original = Some m\<rparr>)"
  by (simp add: snapshot_wally_map_def demo_wally_def)

lemma demo_snapshots: "\<exists>st'. begin_snapshots demo_env (demo_psbt opk c) st = ok st'"
  by (simp add: begin_snapshots_def Let_def demo_env_def demo_psbt_def snapshot_std_input_def
      snapshot_mweb_output_def demo_snapshot_map demo_output_def split: prod.splits)
    (simp add: demo_wally_def)

lemma demo_draw: "draw_scalar (\<lambda>_. one32) 0 8 = Some one32"
  by (simp add: numeral_eq_Suc)

lemma demo_origin: "origin_key demo_env m = ok one32"
  by (simp add: origin_key_def demo_env_def mweb_derive_key_from_path_def MWEB_ATOMIC_MAX_PATH_LEN_def)

text \<open>The demo's spent output: its key and commitment are those stage A derives.\<close>

definition demo_spent :: "bytes \<Rightarrow> bytes \<Rightarrow> mweb_input_state \<Rightarrow> bool" where
  "demo_spent opk c st \<longleftrightarrow> is_output_commit st = c \<and> is_value st = 11
     \<and> mweb_derive_input_state log_crypto True (\<lambda>_. True) (\<lambda>_. one32) (Some one32) (Some one32) 7 0x01
         (Some (replicate 32 0)) (Some opk) 11 (Some (2 # scalar_bytes 2)) (Some zero_input_state)
       = Ret (MWEB_OK, Some st)"

lemma demo_spent_exists: "\<exists>opk c st. demo_spent opk c st"
proof -
  obtain opk where k: "expected_output_key log_crypto one32 one32 one32 = Some opk"
    by (simp add: expected_output_key_def log_crypto_def)
  obtain st where st: "input_steps log_crypto True (\<lambda>_. True) (\<lambda>_. one32) one32 one32 7 0x01 (replicate 32 0)
      opk 11 (2 # scalar_bytes 2) = ok st" using log_input_steps [OF k] by blast
  then have "mweb_derive_input_state log_crypto True (\<lambda>_. True) (\<lambda>_. one32) (Some one32) (Some one32) 7 0x01
       (Some (replicate 32 0)) (Some opk) 11 (Some (2 # scalar_bytes 2)) (Some zero_input_state) = Ret (MWEB_OK, Some st)"
    by (simp add: mweb_derive_input_state_def has_bit_def MWEB_INPUT_STEALTH_KEY_BIT_def) (simp add: log_crypto_def)
  moreover from st have "is_value st = 11" by (rule input_steps_ok)
  ultimately show ?thesis by (auto simp: demo_spent_def)
qed

lemmas keyset_simps = in_has_def out_has_def MWEB_IN_HAS_OUTPUT_ID_def MWEB_OUT_IS_MWEB_def MWEB_IN_BIT_def
  MWEB_OUT_BIT_def MWEB_IN_MIN_KEY_def MWEB_OUT_MIN_KEY_def MWEB_IN_SPENT_OUTPUT_ID_KEY_def
  MWEB_IN_SPENT_OUTPUT_COMMIT_KEY_def MWEB_IN_SHARED_SECRET_KEY_def MWEB_IN_KEY_EXCHANGE_PUBKEY_KEY_def
  MWEB_OUT_STEALTH_ADDRESS_KEY_def MWEB_OUT_COMMIT_KEY_def MWEB_OUT_FEATURES_KEY_def MWEB_OUT_EXTRA_DATA_KEY_def

lemma demo_owned:
  assumes "demo_spent opk c st"
  shows "\<exists>si. derive_owned_input demo_env (demo_psbt opk c) 0 [4, 3, 2, 1] zero_session_input = ok (si, True)
    \<and> si_state si = st"
proof -
  have "(\<lambda>_. True) \<circ> Suc = (\<lambda>_. True)" by auto
  then show ?thesis
    using assms demo_origin
    by (simp add: derive_owned_input_def demo_psbt_def demo_input_def keyset_simps demo_spent_def
        zero_session_input_def snapshot_input_def)
      (simp add: demo_env_def)
qed

lemma demo_built: "\<exists>g so. build_mweb_output demo_env False demo_output 0 zero_session_output = Ret (g, Inr so)
    \<and> so_value so = 5"
proof -
  obtain b where b: "mweb_build_output log_crypto log_bp (\<lambda>_. True) (\<lambda>_. one32) (\<lambda>_. one32) False (Some one32)
     (Some (2 # one32)) (Some (2 # one32)) 5 0x01 None 0 (Some zero_built) = Ret (True, MWEB_OK, Some b)"
    using demo_built_output by blast
  have req: "output_request demo_env demo_output 0 = ok (5, 0x01, None, one32)"
    using demo_draw
    by (simp add: output_request_def demo_output_def output_features_def output_extra_data_def keyset_simps
        demo_env_def has_bit_def MWEB_OUTPUT_STANDARD_FIELDS_BIT_def MWEB_OUTPUT_EXTRA_DATA_BIT_def)
  have addr: "take 33 (po_mweb_stealth_address demo_output) = 2 # one32"
    "take 33 (drop 33 (po_mweb_stealth_address demo_output)) = 2 # one32"
    by (simp_all add: demo_output_def)
  show ?thesis
    unfolding build_mweb_output_def req addr using b by (auto simp: demo_env_def opt_len_def Let_def)
qed

lemma demo_balance_total:
  assumes "ms_inputs s = [si]" "is_value (si_state si) = 11" "ms_outputs s = [so]" "so_value so = 5" "ms_total_fee s = 1"
  shows "\<exists>ko. mweb_sign_kernel log_crypto (\<lambda>_ _. True) (\<lambda>_. one32)
    (Some (session_kernel_params demo_psbt_kernel 0x05 None s received)) (Some zero_outs) = Ret (MWEB_OK, Some ko)"
proof -
  let ?p = "session_kernel_params demo_psbt_kernel 0x05 None s received"
  define items where "items = [encode_pegout 5 [0x51]]"
  have p: "kp_inputs ?p = Some [\<lparr>ic_value = 11, ic_blind = is_blind (si_state si), ic_stealth_tweak = is_stealth_tweak (si_state si)\<rparr>]"
    "kp_n_inputs ?p = 1" "kp_outputs ?p = Some [\<lparr>oc_value = 5, oc_blind = so_blind so\<rparr>]" "kp_n_outputs ?p = 1"
    "kp_features ?p = 0x05" "kp_fee ?p = Some 1" "kp_pegin_amount ?p = None" "kp_lock_height ?p = None"
    "kp_pegouts ?p = Some items" "kp_extra_data ?p = None" "kp_stealth_key ?p = None"
    "kp_received_tx_offset ?p = Some (fst received)" "kp_received_stealth_offset ?p = Some (snd received)"
    using assms by (simp_all add: session_kernel_params_def demo_psbt_kernel_def items_def)
  have amount: "pegout_amount (encode_pegout 5 [0x51]) = 5" by (simp add: pegout_amount_def demo_pegout)
  have "\<exists>k. kernel_steps log_crypto (\<lambda>_ _. True) one32 ?p (fst received) (snd received) = ok k"
  proof (rule kernel_steps_total [OF log_crypto_total])
    show "kernel_check_features ?p = ok ()"
      by (simp add: kernel_features_ok_iff p has_bit_def MWEB_KERNEL_FEE_BIT_def items_def
          MWEB_KERNEL_PEGIN_BIT_def MWEB_KERNEL_PEGOUT_BIT_def MWEB_KERNEL_HEIGHT_LOCK_BIT_def
          MWEB_KERNEL_STEALTH_EXCESS_BIT_def MWEB_KERNEL_EXTRA_DATA_BIT_def)
    show "arrays_match ?p" by (simp add: arrays_match_def p)
    have parse: "pegouts_parse ?p" by (simp add: pegouts_parse_def p items_def demo_pegout)
    have "pegout_total (kp_pegouts ?p) = 5" by (simp add: pegout_total_def p items_def amount)
    with parse show "kernel_balanced ?p"
      by (simp add: kernel_balanced_def p kernel_value_in_def has_bit_def MWEB_KERNEL_PEGOUT_BIT_def
          kernel_value_out_def params_inputs_def params_outputs_def opt_value_def)
    show "\<forall>val \<in> set (pegout_list (kp_features ?p) (kp_pegouts ?p)). pegout_decoded val \<noteq> None"
      unfolding p pegout_list_def by (simp only: option.case items_def split: if_split) (simp add: demo_pegout)
  qed simp
  then obtain k where k: "kernel_steps log_crypto (\<lambda>_ _. True) one32 ?p (fst received) (snd received) = ok k" ..
  have "secp_ctx log_crypto" by (simp add: log_crypto_def)
  with k p demo_draw show ?thesis
    by (simp add: mweb_sign_kernel_def mweb_sign_kernel_with_ek_def)
qed

lemma demo_pegouts:
  assumes "ms_pegouts (bs_session st) = []" "ms_total_pegout (bs_session st) = 0"
  shows "\<exists>st'. begin_totals demo_env demo_psbt_kernel st = ok st'
    \<and> bs_session st' = (bs_session st)\<lparr>ms_total_fee := 1, ms_total_pegin := 0, ms_has_pegin := False, ms_total_pegout := 5,
        ms_pegouts := [\<lparr>sp_kernel_index = 0, sp_amount = 5, sp_script = [0x51], sp_confirmed = False\<rparr>]\<rparr>"
proof -
  have s: "pegout_script (encode_pegout 5 [0x51]) \<lparr>pv_amount = 5, pv_script_off = 9, pv_script_len = 1\<rparr> = Some [0x51]"
    using demo_pegout by (auto simp: pegout_decoded_def split: option.splits)
  have add: "atomic_u64_add 0 5 = Some 5" by (simp add: atomic_u64_add_def)
  have range: "atomic_in_money_range 5" "atomic_in_money_range 1" "atomic_in_money_range 0"
    by (simp_all add: money_range_iff)
  have ok: "atomic_pegout_script_supported demo_env (Some [0x51])"
    by (simp add: script_supported_iff demo_env_def)
  show ?thesis
    by (simp add: begin_totals_def demo_psbt_kernel_def Let_def begin_pegout_def atomic_parse_eq demo_pegout s range ok
        assms add bs_update_def) (simp add: demo_env_def demo_wally_def)
qed

lemma demo_begin:
  assumes "demo_spent opk c st"
  shows "\<exists>r s si so. mweb_session_begin demo_env False True (Some (demo_psbt opk c)) 0x06 True = Ret r
    \<and> br_err r = MWEB_OK \<and> br_session r = Some s \<and> ms_inputs s = [si] \<and> si_state si = st \<and> ms_outputs s = [so] \<and> so_value so = 5"
proof -
  let ?p = "demo_psbt opk c" and ?E = demo_env
  let ?st0 = "\<lparr>bs_session = zero_session, bs_gens = False, bs_progress = []\<rparr>"
  obtain st1 where 1: "begin_snapshots ?E ?p ?st0 = ok st1" using demo_snapshots by blast
  have "fresh (bs_session st1)"
    using upholdsD(2) [OF begin_snapshots_upholds [OF demo_wally_laws] 1] by simp
  then have fresh: "ms_inputs (bs_session st1) = []" "ms_outputs (bs_session st1) = []" "ms_pegouts (bs_session st1) = []"
    "ms_total_input_value (bs_session st1) = 0" "ms_total_output_value (bs_session st1) = 0"
    "ms_total_pegout (bs_session st1) = 0" by (simp_all add: fresh_def)
  have gens: "bs_gens st1 = False" using 1
    by (auto simp: begin_snapshots_def Let_def run_simps bs_update_def split: prod.splits)
  have k: "ps_mweb_kernels ?p ! 0 = demo_psbt_kernel" by (simp add: demo_psbt_def)
  have f: "begin_check_features demo_psbt_kernel = ok 0x05"
    by (simp add: begin_check_features_def demo_psbt_kernel_def opt_len_def has_bit_def MWEB_KERNEL_FEE_BIT_def
        MWEB_KERNEL_PEGIN_BIT_def MWEB_KERNEL_PEGOUT_BIT_def MWEB_KERNEL_HEIGHT_LOCK_BIT_def MWEB_KERNEL_EXTRA_DATA_BIT_def)
  have key: "begin_stealth_key ?E 0x05 = ok None"
    by (simp add: begin_stealth_key_def has_bit_def MWEB_KERNEL_STEALTH_EXCESS_BIT_def)
  have arr: "begin_arrays ?E ?p = ok (1, 1)"
    by (simp add: begin_arrays_def demo_psbt_def demo_input_def demo_output_def keyset_simps)
      (simp add: demo_env_def demo_wally_def)
  have fp: "begin_fingerprint ?E 1 = Ret [4, 3, 2, 1]" by (simp add: begin_fingerprint_def demo_env_def Let_def)
  define st1' where "st1' = bs_update (\<lambda>s. s\<lparr>ms_kernel := (ms_kernel s)
                 \<lparr>sk_has_stealth_excess := has_bit 0x05 MWEB_KERNEL_STEALTH_EXCESS_BIT\<rparr>\<rparr>) st1"
  have fresh': "ms_inputs (bs_session st1') = []" "ms_outputs (bs_session st1') = []" "ms_pegouts (bs_session st1') = []"
    "ms_total_input_value (bs_session st1') = 0" "ms_total_output_value (bs_session st1') = 0"
    "ms_total_pegout (bs_session st1') = 0" "bs_gens st1' = False"
    using fresh gens by (simp_all add: st1'_def bs_update_def)
  obtain si where si: "derive_owned_input ?E ?p 0 [4, 3, 2, 1] zero_session_input = ok (si, True)" "si_state si = st"
    using demo_owned [OF assms] by blast
  have range: "atomic_in_money_range 5" "atomic_in_money_range 11" "atomic_u64_add 0 5 = Some 5" "atomic_u64_add 0 11 = Some 11"
    by (simp_all add: money_range_iff atomic_u64_add_def)
  define st2 where "st2 = bs_update (\<lambda>s. s\<lparr>ms_total_input_value := 11, ms_inputs := ms_inputs s @ [si]\<rparr>) st1'"
  have 2: "for_run (begin_input ?E ?p [4, 3, 2, 1]) 0 (ps_inputs ?p) st1' = ok st2"
    using si range fresh' unfolding st2_def
    by (simp add: demo_psbt_def) (simp add: begin_input_def demo_input_def keyset_simps from_here_def bs_update_def)
  obtain g so where so: "build_mweb_output ?E False demo_output 0 zero_session_output = Ret (g, Inr so)" "so_value so = 5"
    using demo_built by blast
  have st2: "ms_outputs (bs_session st2) = []" "ms_pegouts (bs_session st2) = []" "ms_total_output_value (bs_session st2) = 0"
    "ms_total_pegout (bs_session st2) = 0" "bs_gens st2 = False" "ms_inputs (bs_session st2) = [si]" "ms_total_input_value (bs_session st2) = 11"
    using fresh' by (simp_all add: st2_def bs_update_def)
  obtain st3 where 3: "for_run (begin_output ?E True 1) 0 (ps_outputs ?p) st2 = ok st3"
    and st3: "bs_session st3 = (bs_session st2)\<lparr>ms_total_output_value := 5, ms_outputs := [so]\<rparr>"
  proof -
    have "\<exists>st3. begin_output ?E True 1 0 demo_output st2 = ok st3
        \<and> bs_session st3 = (bs_session st2)\<lparr>ms_total_output_value := 5, ms_outputs := [so]\<rparr>"
      using so range st2 by (simp add: begin_output_def from_here_def bs_update_def) (simp add: demo_output_def keyset_simps)
    with that show thesis by (auto simp: demo_psbt_def)
  qed
  obtain st4 where 4: "begin_totals ?E demo_psbt_kernel st3 = ok st4"
    and st4: "bs_session st4 = (bs_session st3)\<lparr>ms_total_fee := 1, ms_total_pegin := 0, ms_has_pegin := False, ms_total_pegout := 5,
        ms_pegouts := [\<lparr>sp_kernel_index = 0, sp_amount = 5, sp_script = [0x51], sp_confirmed = False\<rparr>]\<rparr>"
    using demo_pegouts [of st3] st3 st2 by auto
  have s4: "ms_inputs (bs_session st4) = [si]" "ms_outputs (bs_session st4) = [so]" "ms_total_fee (bs_session st4) = 1"
    "ms_total_pegin (bs_session st4) = 0" "ms_total_input_value (bs_session st4) = 11" "ms_total_output_value (bs_session st4) = 5"
    "ms_total_pegout (bs_session st4) = 5" using st4 st3 st2 by simp_all
  have bal: "begin_balance (bs_session st4) = ok ()" by (simp add: begin_balance_ok_iff s4)
  have "is_value (si_state si) = 11" using assms si(2) by (simp add: demo_spent_def)
  note tot = demo_balance_total [OF s4(1) this s4(2) so(2) s4(3)]
  obtain off where off: "begin_offsets ?E [so] = Some off"
    using scalar_add_total by (auto simp: begin_offsets_def demo_env_def mweb_scalar_add_mod_n_def)
  from tot [of off] obtain ko where "mweb_sign_kernel (se_crypto ?E) (se_kernel_mpi ?E) (se_rnd ?E DrawKernel)
      (Some (session_kernel_params demo_psbt_kernel 0x05 None (bs_session st4) off)) (Some zero_outs) = Ret (MWEB_OK, Some ko)"
    by (auto simp: demo_env_def)
  then obtain s5 where 5: "begin_kernel ?E demo_psbt_kernel 0x05 None (bs_session st4) = ok s5"
    using off s4 by (simp add: begin_kernel_def Let_def) (simp add: demo_env_def demo_wally_def)
  have s5: "ms_inputs s5 = [si]" "ms_outputs s5 = [so]" by (rule begin_kernel_ok [OF 5], simp add: s4)+
  have "begin_steps ?E True ?p ?st0 = ok (st4\<lparr>bs_session := s5\<rparr>)"
    by (simp add: begin_steps_def 1 k f key arr fp [simplified] from_here_def st1'_def [symmetric] 2 3 [simplified] 4 bal 5 Let_def)
  then show ?thesis
    using s5 si so by (simp add: mweb_session_begin_def demo_psbt_def network_of_byte_def all_networks_def network_is_litecoin_def)
      (simp add: demo_env_def demo_wally_def)
qed

lemma demo_sign_input:
  "\<exists>sig. mweb_sign_input_from_state log_crypto True (Some st) None 0 (Some (replicate 64 0)) = Ret (MWEB_OK, Some sig)"
proof -
  obtain m where m: "input_message (is_features st) (is_spent_output_id st) None 0 = Ret m"
    by (cases "has_bit (is_features st) MWEB_INPUT_EXTRA_DATA_BIT") (simp_all add: input_message_def)
  obtain k1 where k1: "seckey_tweak_mul log_crypto (is_osk st) (is_key_hash st) = Some k1" by (simp add: log_crypto_def)
  obtain k2 where k2: "seckey_tweak_add log_crypto k1 (is_ephemeral st) = Some k2" by (simp add: log_crypto_def)
  obtain sig where sig: "mweb_schnorr_sign log_crypto True k2 (blake3 log_crypto m) (replicate 64 0) = (True, sig)"
    using schnorr_total [OF log_crypto_total] by blast
  show ?thesis
    using m sig k1 k2 by (simp add: mweb_sign_input_from_state_def Let_def) (simp add: log_crypto_def)
qed

lemma demo_one_pegout:
  assumes "mweb_session_begin demo_env False True (Some (demo_psbt opk c)) 0x06 True = Ret r" and "br_session r = Some s"
  shows "\<exists>e. ms_pegouts s = [e] \<and> \<not> sp_confirmed e"
proof -
  from session_for_begin [OF demo_wally_laws assms] obtain k f key where
    k: "ps_mweb_kernels (demo_psbt opk c) = [k]" and sf: "session_for demo_env (demo_psbt opk c) k f key s" by blast
  from k have "pk_pegouts k = [encode_pegout 5 [0x51]]"
    by (simp add: demo_psbt_def) (auto simp: demo_psbt_kernel_def)
  with sf have "list_all2 (pegout_entry demo_env) [encode_pegout 5 [0x51]] (ms_pegouts s)"
    by (simp add: session_for_def)
  then show ?thesis by (auto simp: list_all2_Cons1 pegout_entry_def)
qed

text \<open>The demo session once the user has confirmed its pegout.\<close>

lemma demo_commit:
  assumes "demo_spent opk c st" and "mweb_session_begin demo_env False True (Some (demo_psbt opk c)) 0x06 True = Ret r"
    and "br_session r = Some s"
  shows "\<exists>p'. mweb_session_commit demo_env (confirm_all [0] (Some s)) (Some (demo_psbt opk c)) = Ret (MWEB_OK, Some p')"
proof -
  let ?p = "demo_psbt opk c"
  from session_for_begin [OF demo_wally_laws assms(2,3)] obtain k f key where
    k: "ps_mweb_kernels ?p = [k]" and sf: "session_for demo_env ?p k f key s" by blast
  have idx: "ms_kernel_index s = 0" using sf by (simp add: session_for_def)
  have "mweb_inputs ?p = [0]" "mweb_outputs ?p = [0]"
    by (simp_all add: mweb_inputs_def mweb_outputs_def demo_psbt_def demo_input_def demo_output_def keyset_simps upt_conv_Cons)
  with sf obtain si so where si: "ms_inputs s = [si]" "si_psbt_index si = 0" and so: "ms_outputs s = [so]" "so_psbt_index so = 0"
    by (auto simp: session_for_def)
  obtain e where e: "ms_pegouts s = [e]" using demo_one_pegout [OF assms(2,3)] by blast
  have conf: "confirm_all [0] (Some s) = Some (s\<lparr>ms_pegouts := [e\<lparr>sp_confirmed := True\<rparr>]\<rparr>)"
    by (simp add: confirm_all_def mweb_session_mark_pegout_confirmed_def e)
  obtain sig where sig: "mweb_sign_input_from_state log_crypto True (Some (si_state si)) None 0 (Some (replicate 64 0)) = Ret (MWEB_OK, Some sig)"
    using demo_sign_input by blast
  let ?s = "s\<lparr>ms_pegouts := [e\<lparr>sp_confirmed := True\<rparr>]\<rparr>"
  have "\<exists>p'. commit_steps demo_env ?s ?p = ok p'"
    using si so sig idx
    by (simp add: commit_steps_def commit_output_def commit_input_def commit_kernel_def demo_psbt_def)
      (simp add: demo_env_def demo_wally_def demo_input_def opt_len_def)
  then show ?thesis by (auto simp: mweb_session_commit_def conf)
qed

text \<open>An input of the wallet: both origins name its fingerprint (stored little-endian), and
  its own keys and the stated amount reproduce the stated commitment.\<close>

definition fingerprint_le :: "bytes \<Rightarrow> bytes" where
  "fingerprint_le fp = (let be = take 4 fp in [be ! 3, be ! 2, be ! 1, be ! 0])"

definition owned_input :: "'k session_env \<Rightarrow> nat \<Rightarrow> psbt_input \<Rightarrow> bool" where
  "owned_input E n i \<longleftrightarrow> (\<exists>key scan spend st m.
     \<not> in_has (pi_mweb_keyset i) MWEB_IN_SHARED_SECRET_KEY \<and> in_has (pi_mweb_keyset i) MWEB_IN_KEY_EXCHANGE_PUBKEY_KEY
     \<and> in_has (pi_mweb_keyset i) MWEB_IN_SPENT_OUTPUT_COMMIT_KEY \<and> se_keychain E = Some key
     \<and> se_item_fingerprint E (pi_mweb_scan_key_origin i) = Some (fingerprint_le (se_fingerprint E key))
     \<and> se_item_fingerprint E (pi_mweb_spend_key_origin i) = Some (fingerprint_le (se_fingerprint E key))
     \<and> origin_key E (pi_mweb_scan_key_origin i) = ok scan \<and> origin_key E (pi_mweb_spend_key_origin i) = ok spend
     \<and> input_steps (se_crypto E) (m 0) (m \<circ> Suc) (se_rnd E (DrawEphemeral n)) scan spend
         (pi_mweb_address_index i) (pi_mweb_input_features i) (pi_mweb_spent_output_id i)
         (pi_mweb_spent_output_pubkey i) (pi_mweb_input_amount i) (pi_mweb_key_exchange_pubkey i) = ok st
     \<and> mweb_pedersen_commit (se_crypto E) (is_blind st) (pi_mweb_input_amount i)
         = Some (pi_mweb_spent_output_commit i))"

section \<open>Properties\<close>

text \<open>C8: Beginning a session does not write the PSBT. Whatever \<^verbatim>\<open>mweb_session_begin\<close>
  returns, and wherever it fails (an allocation, a foreign input, an output that cannot be
  built, an unbalanced kernel, the signature), the PSBT is what it was on entry, and
  there is a session exactly when the result is \<^verbatim>\<open>MWEB_OK\<close>. The hypothesis on the range
  proofs is that no output has a non-null proof of length 0, which the restore would
  replace by a null one.\<close>

theorem begin_keeps_psbt:
  assumes "wally_laws (se_wally E)" and "list_all proof_normal (ps_outputs p)"
    and "mweb_session_begin E g cb (Some p) net out = Ret r"
  shows "br_psbt r = Some p \<and> (br_err r = MWEB_OK \<longleftrightarrow> br_session r \<noteq> None)"
  by (rule begin_keeps [OF assms])

theorem begin_keeps_psbt_witness:
  "\<exists>opk c r. mweb_session_begin demo_env False True (Some (demo_psbt opk c)) 0x06 True = Ret r
    \<and> br_psbt r = Some (demo_psbt opk c) \<and> br_session r \<noteq> None"
proof -
  obtain opk c st where d: "demo_spent opk c st" using demo_spent_exists by blast
  then obtain r where r: "mweb_session_begin demo_env False True (Some (demo_psbt opk c)) 0x06 True = Ret r"
    and ok: "br_err r = MWEB_OK" using demo_begin by blast
  have "list_all proof_normal (ps_outputs (demo_psbt opk c))"
    by (simp add: demo_psbt_def demo_output_def proof_normal_def)
  from begin_keeps_psbt [OF demo_wally_laws this r] ok r show ?thesis by blast
qed

text \<open>C7: Cancelling restores the PSBT. For a PSBT of which no output holds a non-null range
  proof of length 0 (such a proof comes back as a null pointer, so there the rollback is not
  exact), and a libwally whose new maps are empty and whose combined maps hold the items of
  their source: while a session is open, whatever pegouts the user has confirmed and whatever
  the standard signing has written into the signature maps of the inputs (or a partial commit
  into the MWEB fields), \<^verbatim>\<open>mweb_session_abort\<close> puts back exactly the PSBT the session began
  with.\<close>

theorem abort_restores_psbt:
  assumes "wally_laws (se_wally E)" and "list_all proof_normal (ps_outputs p)"
    and "mweb_session_begin E g cb (Some p) net out = Ret r" and "br_session r = Some s"
    and "session_writes s p p'"
  shows "mweb_session_abort (confirm_all is (Some s)) (Some p') = Some p"
  by (rule abort_after_begin [OF assms])

theorem abort_restores_psbt_witness:
  "\<exists>opk c r s p'. mweb_session_begin demo_env False True (Some (demo_psbt opk c)) 0x06 True = Ret r
    \<and> br_session r = Some s \<and> p' \<noteq> demo_psbt opk c
    \<and> mweb_session_abort (confirm_all [0] (Some s)) (Some p') = Some (demo_psbt opk c)"
proof -
  obtain opk c st where d: "demo_spent opk c st" using demo_spent_exists by blast
  then obtain r s where r: "mweb_session_begin demo_env False True (Some (demo_psbt opk c)) 0x06 True = Ret r"
    and s: "br_session r = Some s" using demo_begin by blast
  let ?p = "demo_psbt opk c"
  define i where "i = (demo_input 0 [] [])\<lparr>pi_signatures := \<lparr>wm_items = [([2], [0x30])], wm_verify_fn = None\<rparr>\<rparr>"
  define p' where "p' = ?p\<lparr>ps_inputs := [demo_input 0x02D7 opk c, i]\<rparr>"
  have n: "list_all proof_normal (ps_outputs ?p)"
    by (simp add: demo_psbt_def demo_output_def proof_normal_def)
  have "std_input_touched (demo_input 0 [] []) i" by (simp add: std_input_touched_def i_def)
  moreover have "input_touched (demo_input 0 [] []) i" by (rule std_touched_input) fact
  ultimately have "session_writes s ?p p'"
    by (auto simp: session_writes_def p'_def inputs_written_def demo_psbt_def less_Suc_eq nth_Cons' std_rb.touch_refl
        output_rb.touch_all_refl output_rb.touch_refl kernel_rb.touch_refl)
  from abort_restores_psbt [OF demo_wally_laws n r s this]
  have "mweb_session_abort (confirm_all [0] (Some s)) (Some p') = Some ?p" .
  moreover have "p' \<noteq> ?p" by (simp add: p'_def i_def demo_psbt_def demo_input_def empty_map_def)
  ultimately show ?thesis using r s by blast
qed

text \<open>C4: A commit is all or nothing. For a PSBT of which no output holds a non-null range
  proof of length 0 when the session begins (the rollback would make it a null pointer), and
  a libwally whose new maps are empty and whose combined maps hold the items of their source:
  after the user's confirmations and the standard signing, \<^verbatim>\<open>mweb_session_commit\<close> either fails, and the PSBT is the one the session began
  with, or returns \<^verbatim>\<open>MWEB_OK\<close>, and then every pegout has been confirmed and the PSBT is the
  one handed in with exactly the session's data written: each MWEB output its built
  fields, each MWEB input its signature and key, the kernel and the two offsets.\<close>

theorem commit_all_or_nothing:
  assumes "wally_laws (se_wally E)" and "list_all proof_normal (ps_outputs p)"
    and "mweb_session_begin E g cb (Some p) net out = Ret r" and "br_session r = Some s"
    and "session_writes s p p'"
    and "mweb_session_commit E (confirm_all is (Some s)) (Some p') = Ret (err, q)"
  shows "if err = MWEB_OK
    then {0..<mweb_session_pegout_count (Some s)} \<subseteq> set is \<and> (\<exists>p''. q = Some p'' \<and> committed E s p' p'')
    else q = Some p"
proof -
  obtain es where c: "confirm_all is (Some s) = Some (s\<lparr>ms_pegouts := es\<rparr>)" and len: "length es = length (ms_pegouts s)"
    and es: "\<forall>n < length es. sp_confirmed (es ! n) = (sp_confirmed (ms_pegouts s ! n) \<or> n \<in> set is)"
    using confirm_all_Some by blast
  let ?s = "s\<lparr>ms_pegouts := es\<rparr>"
  note s = session_of_begin [OF assms(1,3,4)]
  from session_for_begin [OF assms(1,3,4)] obtain k f key where k: "ps_mweb_kernels p = [k]"
    and sf: "session_for E p k f key s" by blast
  have fresh_marks: "\<forall>n < length (ms_pegouts s). \<not> sp_confirmed (ms_pegouts s ! n)"
    using sf by (auto simp: session_for_def list_all2_conv_all_nth pegout_entry_def)
  have idx: "ms_kernel_index s = 0" using sf by (simp add: session_for_def)
  show ?thesis
  proof (cases "commit_steps E ?s p'")
    case (Ret res)
    show ?thesis
    proof (cases res)
      case (Inl ep)
      obtain e b where ep: "ep = (e, b)" by (cases ep)
      have "session_writes ?s p b"
        by (rule upholdsD(1) [OF commit_steps_upholds]) (use assms(5) Ret Inl ep in auto)
      then have "mweb_session_abort (Some ?s) (Some b) = Some p"
        by (intro abort_restores [OF _ assms(2)]) (use s in simp_all)
      moreover have "e \<noteq> MWEB_OK" using Ret Inl ep commit_steps_not_ok by blast
      ultimately show ?thesis using assms(6) Ret Inl ep by (auto simp: mweb_session_commit_def c)
    next
      case (Inr b)
      have "length (ps_mweb_kernels p') = 1" using assms(5) k by (simp add: session_writes_def)
      from commit_steps_committed [of E ?s p' b] Ret Inr session_indices [OF sf] this idx
      have 1: "list_all sp_confirmed es" "committed E ?s p' b" by simp_all
      have "\<forall>n < length (ms_pegouts s). n \<in> set is"
        using 1(1) es len fresh_marks by (auto simp: list_all_length)
      moreover have "committed E s p' b" using 1(2) by (simp add: committed_def)
      ultimately show ?thesis
        using assms(6) Ret Inr by (auto simp: mweb_session_commit_def c mweb_session_pegout_count_def)
    qed
  qed (use assms(6) in \<open>auto simp: mweb_session_commit_def c\<close>)
qed

theorem commit_all_or_nothing_witness:
  "\<exists>opk c r s p'. mweb_session_begin demo_env False True (Some (demo_psbt opk c)) 0x06 True = Ret r
    \<and> br_session r = Some s \<and> mweb_session_pegout_count (Some s) = 1
    \<and> mweb_session_commit demo_env (confirm_all [0] (Some s)) (Some (demo_psbt opk c)) = Ret (MWEB_OK, Some p')
    \<and> committed demo_env s (demo_psbt opk c) p'
    \<and> mweb_session_commit demo_env (confirm_all [] (Some s)) (Some (demo_psbt opk c))
        = Ret (MWEB_ERR_PEGOUTS_NOT_DISPLAYED, Some (demo_psbt opk c))"
proof -
  obtain opk c st where d: "demo_spent opk c st" using demo_spent_exists by blast
  then obtain r s where r: "mweb_session_begin demo_env False True (Some (demo_psbt opk c)) 0x06 True = Ret r"
    and s: "br_session r = Some s" using demo_begin by blast
  let ?p = "demo_psbt opk c"
  have n: "list_all proof_normal (ps_outputs ?p)"
    by (simp add: demo_psbt_def demo_output_def proof_normal_def)
  note main = commit_all_or_nothing [OF demo_wally_laws n r s session_writes_refl]
  obtain p' where ok: "mweb_session_commit demo_env (confirm_all [0] (Some s)) (Some ?p) = Ret (MWEB_OK, Some p')"
    using demo_commit [OF d r s] by blast
  from main [OF ok] have wr: "committed demo_env s ?p p'" by simp
  from demo_one_pegout [OF r s] obtain e where e: "ms_pegouts s = [e]" "\<not> sp_confirmed e" by blast
  have "mweb_session_commit demo_env (confirm_all [] (Some s)) (Some ?p)
      = Ret (MWEB_ERR_PEGOUTS_NOT_DISPLAYED, mweb_session_abort (Some s) (Some ?p))"
    by (simp add: mweb_session_commit_def confirm_all_def commit_steps_def e)
  with main [OF this] have "mweb_session_commit demo_env (confirm_all [] (Some s)) (Some ?p)
      = Ret (MWEB_ERR_PEGOUTS_NOT_DISPLAYED, Some ?p)" by simp
  moreover have "mweb_session_pegout_count (Some s) = 1" by (simp add: mweb_session_pegout_count_def e)
  ultimately show ?thesis using r s ok wr by blast
qed

text \<open>C6: A session balances, in amounts a user can read. The totals the session reports are
  the sums over the natural numbers of the amounts in the PSBT: MWEB inputs plus pegin
  equal MWEB outputs plus fee plus all pegouts, and every total is within the supply of
  84 million coins, so no 64-bit wrap and no rounding of the display can hide a
  difference.\<close>

theorem session_balances:
  assumes "wally_laws (se_wally E)" and "mweb_session_begin E g cb (Some p) net out = Ret r" and "br_session r = Some s"
  shows "\<exists>k. ps_mweb_kernels p = [k]
    \<and> (\<Sum>n\<leftarrow>mweb_inputs p. unat (pi_mweb_input_amount (ps_inputs p ! n))) + unat (mweb_session_pegin_amount (Some s))
      = (\<Sum>n\<leftarrow>mweb_outputs p. opt_value (po_amount (ps_outputs p ! n))) + unat (mweb_session_total_fee (Some s))
        + (\<Sum>val\<leftarrow>pk_pegouts k. pegout_amount val)
    \<and> unat (mweb_session_pegin_amount (Some s)) = opt_value (pk_pegin_amount k)
    \<and> mweb_session_has_pegin (Some s) = (pk_pegin_amount k \<noteq> None)
    \<and> unat (mweb_session_total_fee (Some s)) = opt_value (pk_fee k)
    \<and> (\<Sum>n\<leftarrow>mweb_inputs p. unat (pi_mweb_input_amount (ps_inputs p ! n))) \<le> 84000000 * 100000000
    \<and> (\<Sum>n\<leftarrow>mweb_outputs p. opt_value (po_amount (ps_outputs p ! n))) \<le> 84000000 * 100000000
    \<and> (\<Sum>val\<leftarrow>pk_pegouts k. pegout_amount val) \<le> 84000000 * 100000000
    \<and> opt_value (pk_fee k) \<le> 84000000 * 100000000 \<and> opt_value (pk_pegin_amount k) \<le> 84000000 * 100000000"
proof -
  from session_for_begin [OF assms] obtain k f key where k: "ps_mweb_kernels p = [k]" and sf: "session_for E p k f key s" by blast
  have ins: "(\<Sum>si\<leftarrow>ms_inputs s. unat (pi_mweb_input_amount (ps_inputs p ! si_psbt_index si)))
      = (\<Sum>n\<leftarrow>mweb_inputs p. unat (pi_mweb_input_amount (ps_inputs p ! n)))"
  proof -
    have "map si_psbt_index (ms_inputs s) = mweb_inputs p" using sf by (simp add: session_for_def)
    then show ?thesis by (simp add: comp_def flip: \<open>map si_psbt_index (ms_inputs s) = mweb_inputs p\<close>)
  qed
  have amounts: "\<forall>so \<in> set (ms_outputs s). po_amount (ps_outputs p ! so_psbt_index so) = Some (so_value so)"
    using sf build_output_index(2) by (fastforce simp: session_for_def)
  have "(\<Sum>so\<leftarrow>ms_outputs s. unat (so_value so)) = (\<Sum>n\<leftarrow>map so_psbt_index (ms_outputs s). opt_value (po_amount (ps_outputs p ! n)))"
    using amounts by (auto simp: comp_def opt_value_def intro!: arg_cong [where f = sum_list] map_cong)
  moreover have "map so_psbt_index (ms_outputs s) = mweb_outputs p" using sf by (simp add: session_for_def)
  ultimately have outs: "(\<Sum>so\<leftarrow>ms_outputs s. unat (so_value so)) = (\<Sum>n\<leftarrow>mweb_outputs p. opt_value (po_amount (ps_outputs p ! n)))"
    by (simp only:)
  have "map pegout_amount (pk_pegouts k) = map (\<lambda>e. unat (sp_amount e)) (ms_pegouts s)"
    using sf by (auto simp: session_for_def list_all2_conv_all_nth pegout_entry_def pegout_decoded_def pegout_amount_def
        intro!: nth_equalityI split: option.splits)
  then have peg: "(\<Sum>e\<leftarrow>ms_pegouts s. unat (sp_amount e)) = (\<Sum>val\<leftarrow>pk_pegouts k. pegout_amount val)" by simp
  have tot: "unat (ms_total_input_value s) = (\<Sum>n\<leftarrow>mweb_inputs p. unat (pi_mweb_input_amount (ps_inputs p ! n)))"
    "unat (ms_total_output_value s) = (\<Sum>n\<leftarrow>mweb_outputs p. opt_value (po_amount (ps_outputs p ! n)))"
    "unat (ms_total_pegout s) = (\<Sum>val\<leftarrow>pk_pegouts k. pegout_amount val)"
    "unat (ms_total_fee s) = opt_value (pk_fee k)" "unat (ms_total_pegin s) = opt_value (pk_pegin_amount k)"
    "ms_has_pegin s = (pk_pegin_amount k \<noteq> None)"
    using sf unfolding session_for_def ins outs peg by (auto simp: opt_value_def split: option.splits)
  have "begin_balance s = ok ()" using sf by (simp add: session_for_def)
  then have bal: "unat (ms_total_input_value s) + unat (ms_total_pegin s)
      = unat (ms_total_output_value s) + unat (ms_total_fee s) + unat (ms_total_pegout s)"
    by (simp only: begin_balance_ok_iff)
  have "list_all atomic_in_money_range [ms_total_fee s, ms_total_pegin s, ms_total_input_value s,
          ms_total_output_value s, ms_total_pegout s]" using sf unfolding session_for_def by blast
  then have range: "unat (ms_total_input_value s) \<le> 84000000 * 100000000" "unat (ms_total_output_value s) \<le> 84000000 * 100000000"
    "unat (ms_total_pegout s) \<le> 84000000 * 100000000" "unat (ms_total_fee s) \<le> 84000000 * 100000000"
    "unat (ms_total_pegin s) \<le> 84000000 * 100000000"
    by (simp_all add: money_range_iff)
  show ?thesis
    using k bal range unfolding tot
    by (intro exI [of _ k]) (simp add: mweb_session_pegin_amount_def mweb_session_total_fee_def mweb_session_has_pegin_def tot)
qed

theorem session_balances_witness:
  "\<exists>opk c r s. mweb_session_begin demo_env False True (Some (demo_psbt opk c)) 0x06 True = Ret r
    \<and> br_session r = Some s \<and> unat (mweb_session_total_fee (Some s)) = 1"
proof -
  obtain opk c st where "demo_spent opk c st" using demo_spent_exists by blast
  then obtain r s where r: "mweb_session_begin demo_env False True (Some (demo_psbt opk c)) 0x06 True = Ret r"
    "br_session r = Some s" using demo_begin by blast
  from session_balances [OF demo_wally_laws r] obtain k where
    "ps_mweb_kernels (demo_psbt opk c) = [k]" "unat (mweb_session_total_fee (Some s)) = opt_value (pk_fee k)" by blast
  then have "unat (mweb_session_total_fee (Some s)) = 1"
    by (simp add: demo_psbt_def) (auto simp: demo_psbt_kernel_def opt_value_def)
  with r show ?thesis by blast
qed

text \<open>C10: The value shown for an MWEB output is the committed one. The session knows exactly
  the MWEB outputs of the PSBT; the value it reports for one is the amount of that output,
  and the commitment, the keys and the blind staged for it come from the recipient
  derivation for that value, the stealth address of that output and a sender key of its own:
  the first valid scalar of at most eight read from the random source for this output. When
  \<^verbatim>\<open>mweb_session_commit\<close> then succeeds, after confirmations of pegouts and whatever the
  standard signing has written, every MWEB output of the PSBT it hands back holds exactly
  this commitment, these public keys and the standard fields of this derivation. The
  hypothesis on libwally is that a new map is empty and a combined one holds the items of its
  source.\<close>

theorem shown_value_committed:
  assumes "wally_laws (se_wally E)" and "mweb_session_begin E g cb (Some p) net out = Ret r" and "br_session r = Some s"
  shows "mweb_session_get_output_value (Some s) n True =
      (if n \<in> set (mweb_outputs p) then (MWEB_OK, po_amount (ps_outputs p ! n)) else (MWEB_ERR_INTERNAL, None))
    \<and> (\<forall>so \<in> set (ms_outputs s). \<exists>m d. let po = ps_outputs p ! so_psbt_index so in
        po_amount po = Some (so_value so) \<and> mweb_validate_scalar (so_sender_key so)
        \<and> draw_scalar (se_rnd E (DrawSender (so_psbt_index so))) 0 8 = Some (so_sender_key so)
        \<and> derive_output_binding (se_crypto E) m (so_sender_key so) (take 33 (po_mweb_stealth_address po))
            (take 33 (drop 33 (po_mweb_stealth_address po))) (so_value so) = Some d
        \<and> mweb_pedersen_commit (se_crypto E) (so_blind so) (so_value so) = Some (so_commit so)
        \<and> (so_blind so, so_commit so, so_sender_pubkey so, so_output_pubkey so)
            = (do_blind d, do_commit d, do_sender_pubkey d, do_output_pubkey d))
    \<and> (\<forall>is p' q. session_writes s p p' \<and> mweb_session_commit E (confirm_all is (Some s)) (Some p') = Ret (MWEB_OK, Some q)
        \<longrightarrow> (\<forall>j \<in> set (mweb_outputs p). committed_to E j (ps_outputs p ! j) (ps_outputs q ! j)))"
proof -
  from session_for_begin [OF assms] obtain k f key where sf: "session_for E p k f key s" by blast
  have "\<exists>m d. let po = ps_outputs p ! so_psbt_index so in
        po_amount po = Some (so_value so) \<and> mweb_validate_scalar (so_sender_key so)
        \<and> draw_scalar (se_rnd E (DrawSender (so_psbt_index so))) 0 8 = Some (so_sender_key so)
        \<and> derive_output_binding (se_crypto E) m (so_sender_key so) (take 33 (po_mweb_stealth_address po))
            (take 33 (drop 33 (po_mweb_stealth_address po))) (so_value so) = Some d
        \<and> mweb_pedersen_commit (se_crypto E) (so_blind so) (so_value so) = Some (so_commit so)
        \<and> (so_blind so, so_commit so, so_sender_pubkey so, so_output_pubkey so)
            = (do_blind d, do_commit d, do_sender_pubkey d, do_output_pubkey d)"
    if so: "so \<in> set (ms_outputs s)" for so
  proof -
    from staged_output [OF sf so] obtain b m where "derive_output_binding (se_crypto E) m (so_sender_key so)
        (take 33 (po_mweb_stealth_address (ps_outputs p ! so_psbt_index so)))
        (take 33 (drop 33 (po_mweb_stealth_address (ps_outputs p ! so_psbt_index so)))) (so_value so)
          = Some (mweb_derived_output.truncate b)" and "staged_for E (ps_outputs p ! so_psbt_index so) so b"
      by (auto simp: staged_for_def derived_for_def)
    then show ?thesis
      by (intro exI [of _ m] exI [of _ "mweb_derived_output.truncate b"]) (simp add: staged_for_def derived_for_def Let_def)
  qed
  moreover have "\<forall>j \<in> set (mweb_outputs p). committed_to E j (ps_outputs p ! j) (ps_outputs q ! j)"
    if "session_writes s p p'" "mweb_session_commit E (confirm_all is (Some s)) (Some p') = Ret (MWEB_OK, Some q)" for "is" p' q
    using commit_writes_outputs [OF assms that] by blast
  ultimately show ?thesis using session_output_value [OF sf] by blast
qed

theorem shown_value_committed_witness:
  "\<exists>opk c r s q. mweb_session_begin demo_env False True (Some (demo_psbt opk c)) 0x06 True = Ret r
    \<and> br_session r = Some s \<and> mweb_session_get_output_value (Some s) 0 True = (MWEB_OK, Some 5)
    \<and> mweb_session_commit demo_env (confirm_all [0] (Some s)) (Some (demo_psbt opk c)) = Ret (MWEB_OK, Some q)
    \<and> committed_to demo_env 0 demo_output (ps_outputs q ! 0)"
proof -
  obtain opk c st where d: "demo_spent opk c st" using demo_spent_exists by blast
  then obtain r s where r: "mweb_session_begin demo_env False True (Some (demo_psbt opk c)) 0x06 True = Ret r"
    "br_session r = Some s" using demo_begin by blast
  obtain q where q: "mweb_session_commit demo_env (confirm_all [0] (Some s)) (Some (demo_psbt opk c)) = Ret (MWEB_OK, Some q)"
    using demo_commit [OF d r] by blast
  have o: "0 \<in> set (mweb_outputs (demo_psbt opk c))" "ps_outputs (demo_psbt opk c) ! 0 = demo_output" "po_amount demo_output = Some 5"
    by (simp_all add: mweb_outputs_def demo_psbt_def demo_output_def keyset_simps)
  note main = shown_value_committed [OF demo_wally_laws r, of 0]
  from main q session_writes_refl o(1) have "committed_to demo_env 0 demo_output (ps_outputs q ! 0)" unfolding o(2) [symmetric] by blast
  moreover from main o have "mweb_session_get_output_value (Some s) 0 True = (MWEB_OK, Some 5)" by simp
  ultimately show ?thesis using r q by blast
qed

text \<open>C12: The pegout table is the kernel's. The session lists one entry per pegout of the
  kernel, in order, with the amount and the script decoded from it; every script is of a
  type with a displayable address, and none starts out confirmed.\<close>

theorem pegouts_listed:
  assumes "wally_laws (se_wally E)" and "mweb_session_begin E g cb (Some p) net out = Ret r" and "br_session r = Some s"
  shows "mweb_session_pegout_count (Some s) = length (pk_pegouts (ps_mweb_kernels p ! 0))
    \<and> (\<forall>idx < mweb_session_pegout_count (Some s). \<exists>amount script.
        mweb_session_get_pegout (Some s) idx = (MWEB_OK, Some (amount, script, length script, 0))
        \<and> pegout_decoded (pk_pegouts (ps_mweb_kernels p ! 0) ! idx) = Some (amount, script)
        \<and> se_script_type E script \<in> Some ` {WALLY_SCRIPT_TYPE_P2PKH, WALLY_SCRIPT_TYPE_P2SH, WALLY_SCRIPT_TYPE_P2WPKH, WALLY_SCRIPT_TYPE_P2WSH, WALLY_SCRIPT_TYPE_P2TR}
        \<and> \<not> sp_confirmed (ms_pegouts s ! idx))"
proof -
  from session_for_begin [OF assms] obtain k f key where k: "ps_mweb_kernels p = [k]" and sf: "session_for E p k f key s" by blast
  have len: "length (ms_pegouts s) = length (pk_pegouts k)" and e: "\<And>i. i < length (ms_pegouts s) \<Longrightarrow>
      pegout_entry E (pk_pegouts k ! i) (ms_pegouts s ! i)"
    using sf by (auto simp: session_for_def list_all2_conv_all_nth)
  show ?thesis
    using k len e by (auto simp: mweb_session_pegout_count_def mweb_session_get_pegout_def pegout_entry_def Let_def)
qed

theorem pegouts_listed_witness:
  "\<exists>opk c r s. mweb_session_begin demo_env False True (Some (demo_psbt opk c)) 0x06 True = Ret r
    \<and> br_session r = Some s \<and> mweb_session_get_pegout (Some s) 0 = (MWEB_OK, Some (5, [0x51], 1, 0))"
proof -
  obtain opk c st where "demo_spent opk c st" using demo_spent_exists by blast
  then obtain r s where r: "mweb_session_begin demo_env False True (Some (demo_psbt opk c)) 0x06 True = Ret r"
    "br_session r = Some s" using demo_begin by blast
  have "pk_pegouts (ps_mweb_kernels (demo_psbt opk c) ! 0) = [encode_pegout 5 [0x51]]"
    by (simp add: demo_psbt_def demo_psbt_kernel_def)
  with pegouts_listed [OF demo_wally_laws r] demo_pegout have "mweb_session_get_pegout (Some s) 0 = (MWEB_OK, Some (5, [0x51], 1, 0))"
    by auto
  with r show ?thesis by blast
qed

text \<open>C9: Only the wallet's own inputs are signed. Every MWEB input of a session's PSBT
  carries a key exchange key, a commitment and no bare shared secret, names the wallet's
  fingerprint in both key origins, and its stated commitment is the one this wallet derives
  for the stated amount, under an output key that is the wallet's; so with any other MWEB
  input \<^verbatim>\<open>begin\<close> hands out no session. The network is a Litecoin one and there is exactly one
  kernel, whose feature byte agrees with the fields present: the fee, the peg-in, the
  pegouts, the lock height and the extra data. The hypothesis on libwally is that a new map
  is empty and a combined one holds the items of its source.\<close>

theorem session_inputs_owned:
  assumes "wally_laws (se_wally E)" and "mweb_session_begin E g cb (Some p) net out = Ret r" and "br_session r = Some s"
  shows "net \<in> network_value ` {NETWORK_LITECOIN, NETWORK_LITECOIN_TESTNET, NETWORK_LITECOIN_REGTEST}
    \<and> (\<exists>k f. ps_mweb_kernels p = [k] \<and> pk_features k = Some f
        \<and> (pk_fee k \<noteq> None) = has_bit f MWEB_KERNEL_FEE_BIT
        \<and> (pk_pegin_amount k \<noteq> None) = has_bit f MWEB_KERNEL_PEGIN_BIT
        \<and> (pk_pegouts k \<noteq> []) = has_bit f MWEB_KERNEL_PEGOUT_BIT
        \<and> (pk_lock_height k \<noteq> None) = has_bit f MWEB_KERNEL_HEIGHT_LOCK_BIT
        \<and> (opt_len (pk_extra_data k) > 0) = has_bit f MWEB_KERNEL_EXTRA_DATA_BIT)
    \<and> (\<forall>n \<in> set (mweb_inputs p). owned_input E n (ps_inputs p ! n))"
proof -
  from session_for_begin [OF assms] obtain k f key s0 where k: "ps_mweb_kernels p = [k]" and sf: "session_for E p k f key s"
    and cf: "begin_check_features k = ok f" by blast
  from assms(2,3) obtain n where "network_of_byte net = Some n" "network_is_litecoin n = Ret True"
    by (rule begin_session)
  then have net: "net \<in> network_value ` {NETWORK_LITECOIN, NETWORK_LITECOIN_TESTNET, NETWORK_LITECOIN_REGTEST}"
    by (auto simp: network_is_litecoin_iff network_of_byte_Some_iff)
  have feat: "pk_features k = Some f \<and> (pk_fee k \<noteq> None) = has_bit f MWEB_KERNEL_FEE_BIT
        \<and> (pk_pegin_amount k \<noteq> None) = has_bit f MWEB_KERNEL_PEGIN_BIT
        \<and> (pk_pegouts k \<noteq> []) = has_bit f MWEB_KERNEL_PEGOUT_BIT
        \<and> (pk_lock_height k \<noteq> None) = has_bit f MWEB_KERNEL_HEIGHT_LOCK_BIT
        \<and> (opt_len (pk_extra_data k) > 0) = has_bit f MWEB_KERNEL_EXTRA_DATA_BIT"
    using cf by (auto simp: begin_check_features_def Let_def run_simps)
  from sf obtain fp where fp: "begin_fingerprint E (length (mweb_inputs p)) = Ret fp"
    and own: "\<forall>si \<in> set (ms_inputs s). derive_owned_input E p (si_psbt_index si) fp zero_session_input = ok (si, True)"
    by (auto simp: session_for_def)
  have "owned_input E n (ps_inputs p ! n)" if n: "n \<in> set (mweb_inputs p)" for n
  proof -
    let ?i = "ps_inputs p ! n"
    have "n \<in> si_psbt_index ` set (ms_inputs s)" using sf n by (simp add: session_for_def flip: set_map)
    then obtain si where si: "derive_owned_input E p n fp zero_session_input = ok (si, True)" using own by auto
    from n have "0 < length (mweb_inputs p)" by (cases "mweb_inputs p") auto
    with fp obtain key where key: "se_keychain E = Some key" and fpv: "fp = fingerprint_le (se_fingerprint E key)"
      by (auto simp: begin_fingerprint_def fingerprint_le_def Let_def split: option.splits)
    from si obtain scan spend r where 1: "\<not> in_has (pi_mweb_keyset ?i) MWEB_IN_SHARED_SECRET_KEY"
      "in_has (pi_mweb_keyset ?i) MWEB_IN_KEY_EXCHANGE_PUBKEY_KEY" "in_has (pi_mweb_keyset ?i) MWEB_IN_SPENT_OUTPUT_COMMIT_KEY"
      "se_item_fingerprint E (pi_mweb_scan_key_origin ?i) = Some fp" "se_item_fingerprint E (pi_mweb_spend_key_origin ?i) = Some fp"
      "origin_key E (pi_mweb_scan_key_origin ?i) = ok scan" "origin_key E (pi_mweb_spend_key_origin ?i) = ok spend"
      and d: "mweb_derive_input_state (se_crypto E) (se_input_mpi E n 0) (se_input_mpi E n \<circ> Suc)
                  (se_rnd E (DrawEphemeral n)) (Some scan) (Some spend)
                  (pi_mweb_address_index ?i) (pi_mweb_input_features ?i)
                  (Some (pi_mweb_spent_output_id ?i)) (Some (pi_mweb_spent_output_pubkey ?i))
                  (pi_mweb_input_amount ?i) (Some (pi_mweb_key_exchange_pubkey ?i))
                  (Some (si_state zero_session_input)) = Ret (MWEB_OK, r)"
      and c: "pi_mweb_spent_output_commit ?i = is_output_commit (the r)"
      by (auto simp: derive_owned_input_def Let_def run_simps split: prod.splits)
    from d obtain st where r: "r = Some st" and st: "input_steps (se_crypto E) (se_input_mpi E n 0) (se_input_mpi E n \<circ> Suc)
        (se_rnd E (DrawEphemeral n)) scan spend (pi_mweb_address_index ?i) (pi_mweb_input_features ?i) (pi_mweb_spent_output_id ?i)
        (pi_mweb_spent_output_pubkey ?i) (pi_mweb_input_amount ?i) (pi_mweb_key_exchange_pubkey ?i) = ok st"
      by (rule derive_input_ok)
    from st have "mweb_pedersen_commit (se_crypto E) (is_blind st) (pi_mweb_input_amount ?i) = Some (is_output_commit st)"
      by (rule input_steps_ok)
    with 1 st key fpv c r show ?thesis
      unfolding owned_input_def
      by (intro exI [of _ key] exI [of _ scan] exI [of _ spend] exI [of _ st] exI [of _ "se_input_mpi E n"]) simp
  qed
  with net k show ?thesis by (intro conjI exI [of _ k] exI [of _ f] ballI) (use feat in simp_all)
qed

theorem session_inputs_owned_witness:
  "\<exists>opk c r s. mweb_session_begin demo_env False True (Some (demo_psbt opk c)) 0x06 True = Ret r
    \<and> br_session r = Some s \<and> 0 \<in> set (mweb_inputs (demo_psbt opk c))
    \<and> (\<exists>b. mweb_pedersen_commit log_crypto b 11 = Some c)"
proof -
  obtain opk c st where "demo_spent opk c st" using demo_spent_exists by blast
  then obtain r s where r: "mweb_session_begin demo_env False True (Some (demo_psbt opk c)) 0x06 True = Ret r"
    "br_session r = Some s" using demo_begin by blast
  have n: "0 \<in> set (mweb_inputs (demo_psbt opk c))"
    by (simp add: mweb_inputs_def demo_psbt_def demo_input_def keyset_simps)
  have i: "pi_mweb_input_amount (ps_inputs (demo_psbt opk c) ! 0) = 11"
    "pi_mweb_spent_output_commit (ps_inputs (demo_psbt opk c) ! 0) = c" "se_crypto demo_env = log_crypto"
    by (simp_all add: demo_psbt_def demo_input_def demo_env_def)
  from session_inputs_owned [OF demo_wally_laws r] n have "owned_input demo_env 0 (ps_inputs (demo_psbt opk c) ! 0)" by blast
  then have "\<exists>b. mweb_pedersen_commit (se_crypto demo_env) b (pi_mweb_input_amount (ps_inputs (demo_psbt opk c) ! 0))
            = Some (pi_mweb_spent_output_commit (ps_inputs (demo_psbt opk c) ! 0))"
    unfolding owned_input_def by blast
  with r n show ?thesis unfolding i by blast
qed

text \<open>C11: The offsets cover every secret of the session. With \<^verbatim>\<open>e_k\<close> the kernel key (the
  first valid one of at most eight draws), the transaction offset is the sum of the output
  blinds minus the input blinds minus \<^verbatim>\<open>e_k\<close>, and the stealth offset is the sum of the
  sender keys plus the input stealth tweaks minus the stealth key, if the kernel has one,
  modulo the group order; what the host wrote in the PSBT's offsets has no influence.\<close>

theorem session_offsets:
  assumes "wally_laws (se_wally E)" and "mweb_session_begin E g cb (Some p) net out = Ret r" and "br_session r = Some s"
  shows "\<exists>e_k f key. draw_scalar (se_rnd E DrawKernel) 0 8 = Some e_k \<and> begin_stealth_key E f = ok key
    \<and> pk_features (ps_mweb_kernels p ! 0) = Some f
    \<and> int (be_nat (sk_tx_offset_final (ms_kernel s)))
      = ((\<Sum>so\<leftarrow>ms_outputs s. int (be_nat (so_blind so)))
          - (\<Sum>si\<leftarrow>ms_inputs s. int (be_nat (is_blind (si_state si)))) - int (be_nat e_k)) mod int secp_n
    \<and> int (be_nat (sk_stealth_offset_final (ms_kernel s)))
      = ((\<Sum>so\<leftarrow>ms_outputs s. int (be_nat (so_sender_key so)))
          + (\<Sum>si\<leftarrow>ms_inputs s. int (be_nat (is_stealth_tweak (si_state si))))
          - (case key of None \<Rightarrow> 0 | Some x \<Rightarrow> int (be_nat x))) mod int secp_n"
proof -
  from session_for_begin [OF assms] obtain k f key s0 where k: "ps_mweb_kernels p = [k]"
    and cf: "begin_check_features k = ok f" and key: "begin_stealth_key E f = ok key"
    and bk: "begin_kernel E k f key s0 = ok s" and same: "ms_inputs s = ms_inputs s0" "ms_outputs s = ms_outputs s0" .
  from bk obtain rec ko where off: "begin_offsets E (ms_outputs s0) = Some rec"
    and sign: "mweb_sign_kernel (se_crypto E) (se_kernel_mpi E) (se_rnd E DrawKernel)
      (Some (session_kernel_params k f key s0 rec)) (Some zero_outs) = Ret (MWEB_OK, ko)"
    and s: "s = s0\<lparr>ms_kernel := (ms_kernel s0)\<lparr>sk_excess_commitment := ko_excess_kG (the ko),
             sk_stealth_excess := ko_stealth_excess_G (the ko), sk_signature := ko_signature (the ko),
             sk_tx_offset_final := ko_tx_offset_final (the ko),
             sk_stealth_offset_final := ko_stealth_offset_final (the ko)\<rparr>\<rparr>" by (rule begin_kernel_ok)
  let ?q = "session_kernel_params k f key s0 rec"
  from sign obtain e_k rt rs kk where e: "draw_scalar (se_rnd E DrawKernel) 0 8 = Some e_k"
    and rt: "kp_received_tx_offset ?q = Some rt" "kp_received_stealth_offset ?q = Some rs"
    and st: "kernel_steps (se_crypto E) (se_kernel_mpi E) e_k ?q rt rs = ok kk" and ko: "ko = Some kk" by (rule sign_kernel_ok)
  from rt have rec: "rt = fst rec" "rs = snd rec" by (simp_all add: session_kernel_params_def)
  have ins: "params_inputs ?q = map (\<lambda>si. \<lparr>ic_value = is_value (si_state si), ic_blind = is_blind (si_state si),
                       ic_stealth_tweak = is_stealth_tweak (si_state si)\<rparr>) (ms_inputs s)"
    using same by (simp add: params_inputs_def session_kernel_params_def)
  from st have t: "kernel_tx_offset (se_kernel_mpi E) e_k (params_inputs ?q) rt = Some (ko_tx_offset_final kk)"
    and so: "kernel_stealth_offset (se_kernel_mpi E) (kp_stealth_key ?q) (params_inputs ?q) rs = Some (ko_stealth_offset_final kk)"
    by (rule kernel_steps_ok, use array_walk_inputs in metis)+
  have ic_sums: "(\<Sum>i\<leftarrow>map g (ms_inputs s). h i) = (\<Sum>si\<leftarrow>ms_inputs s. h (g si))" for g and h :: "mweb_input_ctx \<Rightarrow> int"
    by (simp add: comp_def)
  have sums: "int (be_nat (fst rec)) mod int secp_n = (\<Sum>so\<leftarrow>ms_outputs s. int (be_nat (so_blind so))) mod int secp_n"
    "int (be_nat (snd rec)) mod int secp_n = (\<Sum>so\<leftarrow>ms_outputs s. int (be_nat (so_sender_key so))) mod int secp_n"
    using begin_offsets_value [OF off] same by simp_all
  have "int (be_nat (ko_tx_offset_final kk)) = ((\<Sum>so\<leftarrow>ms_outputs s. int (be_nat (so_blind so)))
          - (\<Sum>si\<leftarrow>ms_inputs s. int (be_nat (is_blind (si_state si)))) - int (be_nat e_k)) mod int secp_n"
    unfolding kernel_tx_offset_value [OF t] ins rec by (simp only: ic_sums mweb_input_ctx.simps) (intro mod_diff_cong sums refl)
  moreover have "int (be_nat (ko_stealth_offset_final kk)) = ((\<Sum>so\<leftarrow>ms_outputs s. int (be_nat (so_sender_key so)))
          + (\<Sum>si\<leftarrow>ms_inputs s. int (be_nat (is_stealth_tweak (si_state si))))
          - (case key of None \<Rightarrow> 0 | Some x \<Rightarrow> int (be_nat x))) mod int secp_n"
  proof -
    have "kp_stealth_key ?q = key" by (simp add: session_kernel_params_def)
    then show ?thesis unfolding kernel_stealth_offset_value [OF so] ins rec
      by (simp only: ic_sums mweb_input_ctx.simps) (intro mod_diff_cong mod_add_cong sums refl)
  qed
  moreover have "pk_features k = Some f" using cf by (auto simp: begin_check_features_def Let_def run_simps)
  moreover have "sk_tx_offset_final (ms_kernel s) = ko_tx_offset_final kk" "sk_stealth_offset_final (ms_kernel s) = ko_stealth_offset_final kk"
    by (simp_all add: s ko)
  moreover have "ps_mweb_kernels p ! 0 = k" by (simp add: k)
  ultimately show ?thesis using e key by (intro exI [of _ e_k] exI [of _ f] exI [of _ key]) simp
qed

theorem session_offsets_witness:
  "\<exists>opk c r s. mweb_session_begin demo_env False True (Some (demo_psbt opk c)) 0x06 True = Ret r
    \<and> br_session r = Some s \<and> int (be_nat (sk_tx_offset_final (ms_kernel s)))
      = ((\<Sum>so\<leftarrow>ms_outputs s. int (be_nat (so_blind so)))
          - (\<Sum>si\<leftarrow>ms_inputs s. int (be_nat (is_blind (si_state si)))) - 1) mod int secp_n"
proof -
  obtain opk c st where "demo_spent opk c st" using demo_spent_exists by blast
  then obtain r s where r: "mweb_session_begin demo_env False True (Some (demo_psbt opk c)) 0x06 True = Ret r"
    "br_session r = Some s" using demo_begin by blast
  have "draw_scalar (se_rnd demo_env DrawKernel) 0 8 = Some one32" using demo_draw by (simp add: demo_env_def)
  with session_offsets [OF demo_wally_laws r] r show ?thesis by (auto simp: be_nat_one32)
qed

text \<open>A key origin longer than the path buffer is read past its end. For an input that
  names the wallet's fingerprint, the path buffer holds 16 elements but the length that
  libwally reports is not checked against it: the derivation is undefined exactly when the
  scan origin has more than 16 path elements, or the scan key is derived and the spend
  origin has more than 16. The other users of the same call check the length.\<close>

theorem long_origin_path_overruns:
  "derive_owned_input E p n fp z = Undef \<longleftrightarrow>
    \<not> in_has (pi_mweb_keyset (ps_inputs p ! n)) MWEB_IN_SHARED_SECRET_KEY
    \<and> in_has (pi_mweb_keyset (ps_inputs p ! n)) MWEB_IN_KEY_EXCHANGE_PUBKEY_KEY
    \<and> se_item_fingerprint E (pi_mweb_scan_key_origin (ps_inputs p ! n)) = Some fp
    \<and> se_item_fingerprint E (pi_mweb_spend_key_origin (ps_inputs p ! n)) = Some fp
    \<and> ((\<exists>path. se_item_path E (pi_mweb_scan_key_origin (ps_inputs p ! n)) = Some path \<and> 16 < length path)
       \<or> (\<exists>key. origin_key E (pi_mweb_scan_key_origin (ps_inputs p ! n)) = ok key)
         \<and> (\<exists>path. se_item_path E (pi_mweb_spend_key_origin (ps_inputs p ! n)) = Some path \<and> 16 < length path))"
proof -
  have origin: "origin_key E m = Undef \<longleftrightarrow> (\<exists>path. se_item_path E m = Some path \<and> 16 < length path)" for m
    by (auto simp: origin_key_def MWEB_ATOMIC_MAX_PATH_LEN_def Let_def split: option.splits prod.splits)
  have steps: "input_steps C a b rn x y i f oid opk v kex \<noteq> Undef" for C a b rn x y i f oid opk v kex
    by (auto simp: input_steps_def Let_def run_simps)
  have state: "mweb_derive_input_state C a b rn (Some x) (Some y) i f (Some oid) (Some opk) v (Some kex) (Some w) \<noteq> Undef"
    for C a b rn x y i f oid opk v kex w
    using steps by (auto simp: mweb_derive_input_state_def split: run.splits sum.splits)
  show ?thesis
    by (auto simp: derive_owned_input_def Let_def run_simps origin then_run_Undef_iff state split: prod.splits)
qed

lemma list_ex_filter_index: "list_ex P xs \<longleftrightarrow> filter (\<lambda>n. P (xs ! n)) [0..<length xs] \<noteq> []"
  by (auto simp: list_ex_length filter_empty_conv)

text \<open>The gate and the session agree on what an MWEB transaction is. The gate of
  \<^verbatim>\<open>mweb_gate.c\<close>, which uses its own copy of the key bits, opens exactly when there is a
  kernel, an MWEB input or an MWEB output in the sense of the session's own tests; for a PSBT
  with a closed gate, \<^verbatim>\<open>begin\<close> on a Litecoin network refuses with a missing kernel and
  hands the PSBT back as it was.\<close>

theorem gate_agrees_with_session:
  "(sign_psbt_has_mweb_component (Some p) = (ps_mweb_kernels p \<noteq> [] \<or> mweb_inputs p \<noteq> [] \<or> mweb_outputs p \<noteq> []))
    \<and> (\<not> sign_psbt_has_mweb_component (Some q) \<longrightarrow>
        mweb_session_begin E g cb (Some q) 0x06 True = Ret (begin_failed MWEB_ERR_MISSING_KERNEL (Some q) g))"
proof -
  have bits: "MWEB_IN_BIT MWEB_IN_SPENT_OUTPUT_ID_KEY = MWEB_GATE_IN_SPENT_OUTPUT_ID_BIT"
    "MWEB_OUT_BIT MWEB_OUT_STEALTH_ADDRESS_KEY = MWEB_GATE_OUT_STEALTH_ADDR_BIT"
    "MWEB_OUT_BIT MWEB_OUT_COMMIT_KEY = MWEB_GATE_OUT_COMMIT_BIT"
    by (simp_all add: keyset_simps MWEB_GATE_IN_SPENT_OUTPUT_ID_BIT_def MWEB_GATE_OUT_STEALTH_ADDR_BIT_def
        MWEB_GATE_OUT_COMMIT_BIT_def)
  have gate: "sign_psbt_has_mweb_component (Some p) = (ps_mweb_kernels p \<noteq> [] \<or> mweb_inputs p \<noteq> [] \<or> mweb_outputs p \<noteq> [])"
    for p
    by (auto simp: sign_psbt_has_mweb_component_def mweb_inputs_def mweb_outputs_def MWEB_IN_HAS_OUTPUT_ID_def
        MWEB_OUT_IS_MWEB_def bits list_ex_filter_index filter_empty_conv)
  have "mweb_session_begin E g cb (Some q) 0x06 True = Ret (begin_failed MWEB_ERR_MISSING_KERNEL (Some q) g)"
    if "ps_mweb_kernels q = []" for q
    using that by (simp add: mweb_session_begin_def network_of_byte_def all_networks_def network_is_litecoin_def)
  with gate show ?thesis by blast
qed

theorem gate_agrees_with_session_witness:
  "\<forall>opk c. mweb_session_begin demo_env False True (Some (demo_psbt opk c\<lparr>ps_mweb_kernels := [], ps_inputs := [], ps_outputs := []\<rparr>)) 0x06 True
    = Ret (begin_failed MWEB_ERR_MISSING_KERNEL (Some (demo_psbt opk c\<lparr>ps_mweb_kernels := [], ps_inputs := [], ps_outputs := []\<rparr>)) False)"
  by (intro allI, rule gate_agrees_with_session [THEN conjunct2, rule_format]) (simp add: sign_psbt_has_mweb_component_def)

end
