(* ===== verification/Jade_Storage.thy ===== *)
theory Jade_Storage
  imports Jade_Network "HOL-Library.While_Combinator"
begin

text \<open>
  \<^verbatim>\<open>src/main/storage.c\<close>: the settings, the PIN counter, the encrypted wallet and the named
  registrations, kept in the non-volatile storage (NVS). The NVS calls are the record
  \<^verbatim>\<open>nvs\<close>: on the device they are the SDK's, in the library build they are those of
  \<^verbatim>\<open>libjade.c\<close>, which \<^verbatim>\<open>Jade_Nvs\<close> models. A C string is its characters before the
  terminating zero; output parameters are results (\<^verbatim>\<open>None\<close> where the call returns false),
  so their null checks have no counterpart. A handle is closed on every path; closing has
  no effect.
\<close>

section \<open>The NVS interface\<close>

datatype esp_err_t = ESP_OK | ESP_FAIL | ESP_ERR_INVALID_ARG | ESP_ERR_NVS_NOT_FOUND
  | ESP_ERR_NVS_NO_FREE_PAGES | ESP_ERR_NVS_NEW_VERSION_FOUND | ESP_ERR_OTHER nat

datatype nvs_type_t = NVS_TYPE_STR | NVS_TYPE_BLOB

datatype nvs_open_mode_t = NVS_READONLY | NVS_READWRITE

record nvs_stats_t =
  used_entries :: u32
  free_entries :: u32

text \<open>
  \<^verbatim>\<open>'h\<close> is a handle and \<^verbatim>\<open>'i\<close> an iterator. \<^verbatim>\<open>nvs_get_u32\<close> also takes the old contents of
  its output variable, which a failing call may leave as they are; \<^verbatim>\<open>nvs_entry_info\<close>
  gives the key, or \<^verbatim>\<open>None\<close> when it writes nothing.
\<close>

record ('s, 'h, 'i) nvs =
  nvs_flash_init :: "'s \<Rightarrow> esp_err_t \<times> 's"
  nvs_flash_erase :: "'s \<Rightarrow> esp_err_t \<times> 's"
  nvs_get_stats :: "'s \<Rightarrow> esp_err_t \<times> nvs_stats_t"
  nvs_open :: "string \<Rightarrow> nvs_open_mode_t \<Rightarrow> 's \<Rightarrow> (esp_err_t + 'h) \<times> 's"
  nvs_set_blob :: "'h \<Rightarrow> string \<Rightarrow> bytes \<Rightarrow> 's \<Rightarrow> esp_err_t \<times> 's"
  nvs_get_blob :: "'h \<Rightarrow> string \<Rightarrow> nat \<Rightarrow> 's \<Rightarrow> esp_err_t + bytes"
  nvs_set_str :: "'h \<Rightarrow> string \<Rightarrow> string \<Rightarrow> 's \<Rightarrow> esp_err_t \<times> 's"
  nvs_get_str :: "'h \<Rightarrow> string \<Rightarrow> nat \<Rightarrow> 's \<Rightarrow> esp_err_t + bytes"
  nvs_set_u32 :: "'h \<Rightarrow> string \<Rightarrow> u32 \<Rightarrow> 's \<Rightarrow> esp_err_t \<times> 's"
  nvs_get_u32 :: "'h \<Rightarrow> string \<Rightarrow> u32 \<Rightarrow> 's \<Rightarrow> (esp_err_t \<times> u32) run"
  nvs_erase_key :: "'h \<Rightarrow> string \<Rightarrow> 's \<Rightarrow> esp_err_t \<times> 's"
  nvs_commit :: "'h \<Rightarrow> 's \<Rightarrow> esp_err_t \<times> 's"
  nvs_entry_find :: "string option \<Rightarrow> nvs_type_t \<Rightarrow> 's \<Rightarrow> (esp_err_t \<times> 'i option) run"
  nvs_entry_next :: "'i \<Rightarrow> 's \<Rightarrow> esp_err_t \<times> 'i option"
  nvs_entry_info :: "'i \<Rightarrow> 's \<Rightarrow> (esp_err_t \<times> string option) run"

section \<open>Names\<close>

definition DEFAULT_NAMESPACE :: string where "DEFAULT_NAMESPACE = ''PIN''"
definition MULTISIG_NAMESPACE :: string where "MULTISIG_NAMESPACE = ''MULTISIGS''"
definition DESCRIPTOR_NAMESPACE :: string where "DESCRIPTOR_NAMESPACE = ''DESCRIPTORS''"
definition OTP_NAMESPACE :: string where "OTP_NAMESPACE = ''OTP''"
definition HOTP_COUNTERS_NAMESPACE :: string where "HOTP_COUNTERS_NAMESPACE = ''HOTPC''"

definition PIN_PRIVATEKEY_FIELD :: string where "PIN_PRIVATEKEY_FIELD = ''privatekey''"
definition PIN_COUNTER_FIELD :: string where "PIN_COUNTER_FIELD = ''counter''"
definition REPLAY_COUNTER_FIELD :: string where "REPLAY_COUNTER_FIELD = ''antireplay''"
definition BLOB_FIELD :: string where "BLOB_FIELD = ''blob''"
definition KEY_FLAGS_FIELD :: string where "KEY_FLAGS_FIELD = ''keyflags''"
definition WALLET_ERASE_PIN :: string where "WALLET_ERASE_PIN = ''walleterasepin''"
definition USER_PINSERVER_URL_A :: string where "USER_PINSERVER_URL_A = ''pinsvrurlA''"
definition USER_PINSERVER_URL_B :: string where "USER_PINSERVER_URL_B = ''pinsvrurlB''"
definition USER_PINSERVER_PUBKEY :: string where "USER_PINSERVER_PUBKEY = ''pinsvrpubkey''"
definition USER_PINSERVER_CERT :: string where "USER_PINSERVER_CERT = ''pinsvrcert''"
definition NETWORK_TYPE_FIELD :: string where "NETWORK_TYPE_FIELD = ''networktype''"
definition IDLE_TIMEOUT_FIELD :: string where "IDLE_TIMEOUT_FIELD = ''idletimeout''"
definition BRIGHTNESS_FIELD :: string where "BRIGHTNESS_FIELD = ''brightness''"
definition GUI_FLAGS_FIELD :: string where "GUI_FLAGS_FIELD = ''guiflags''"
definition BLE_FLAGS_FIELD :: string where "BLE_FLAGS_FIELD = ''bleflags''"
definition QR_FLAGS_FIELD :: string where "QR_FLAGS_FIELD = ''qrflags''"
definition CLICK_EVENT_FIELD :: string where "CLICK_EVENT_FIELD = ''clickevent''"

lemmas storage_names = DEFAULT_NAMESPACE_def MULTISIG_NAMESPACE_def DESCRIPTOR_NAMESPACE_def OTP_NAMESPACE_def
  HOTP_COUNTERS_NAMESPACE_def PIN_PRIVATEKEY_FIELD_def PIN_COUNTER_FIELD_def REPLAY_COUNTER_FIELD_def
  BLOB_FIELD_def KEY_FLAGS_FIELD_def WALLET_ERASE_PIN_def USER_PINSERVER_URL_A_def USER_PINSERVER_URL_B_def
  USER_PINSERVER_PUBKEY_def USER_PINSERVER_CERT_def NETWORK_TYPE_FIELD_def IDLE_TIMEOUT_FIELD_def
  BRIGHTNESS_FIELD_def GUI_FLAGS_FIELD_def BLE_FLAGS_FIELD_def QR_FLAGS_FIELD_def CLICK_EVENT_FIELD_def

definition NVS_KEY_NAME_MAX_SIZE :: nat where "NVS_KEY_NAME_MAX_SIZE = 16"

section \<open>Reading and writing one entry\<close>

text \<open>The \<^verbatim>\<open>STORAGE_\<close> macros: go on with the handle, or return false.\<close>

definition storage_open ::
  "('s, 'h, 'i) nvs \<Rightarrow> string \<Rightarrow> nvs_open_mode_t \<Rightarrow> 'a \<Rightarrow> ('h \<Rightarrow> ('s, 'a) act) \<Rightarrow> ('s, 'a) act" where
  "storage_open N ns rwflags failed body s =
     (case nvs_open N ns rwflags s of (Inl err, s) \<Rightarrow> Ret (failed, s) | (Inr h, s) \<Rightarrow> body h s)"

definition storage_write :: "('s \<Rightarrow> esp_err_t \<times> 's) \<Rightarrow> ('s, bool) act \<Rightarrow> ('s, bool) act" where
  "storage_write call rest s = (let (err, s) = call s in if err \<noteq> ESP_OK then Ret (False, s) else rest s)"

definition storage_remove :: "('s, 'h, 'i) nvs \<Rightarrow> 'h \<Rightarrow> string \<Rightarrow> ('s, bool) act \<Rightarrow> ('s, bool) act" where
  "storage_remove N h k rest s =
     (let (err, s) = nvs_erase_key N h k s in
      if err \<noteq> ESP_OK \<and> err \<noteq> ESP_ERR_NVS_NOT_FOUND then Ret (False, s) else rest s)"

definition store_blob ::
  "('s, 'h, 'i) nvs \<Rightarrow> string \<Rightarrow> string option \<Rightarrow> bytes option \<Rightarrow> ('s, bool) act" where
  "store_blob N ns name data =
     andthen (insist (name \<noteq> None)) (\<lambda>_.
     andthen (insist (data \<noteq> None)) (\<lambda>_.
     andthen (insist (length (the data) > 0)) (\<lambda>_.
     storage_open N ns NVS_READWRITE False (\<lambda>h.
     storage_write (nvs_set_blob N h (the name) (the data)) (
     storage_write (nvs_commit N h) (give True))))))"

definition read_blob ::
  "('s, 'h, 'i) nvs \<Rightarrow> string \<Rightarrow> string option \<Rightarrow> nat \<Rightarrow> ('s, bytes option) act" where
  "read_blob N ns name len =
     andthen (insist (name \<noteq> None)) (\<lambda>_.
     andthen (insist (len > 0)) (\<lambda>_.
     storage_open N ns NVS_READONLY None (\<lambda>h s.
     case nvs_get_blob N h (the name) len s of Inl err \<Rightarrow> Ret (None, s) | Inr d \<Rightarrow> Ret (Some d, s))))"

definition read_blob_fixed ::
  "('s, 'h, 'i) nvs \<Rightarrow> string \<Rightarrow> string option \<Rightarrow> nat \<Rightarrow> ('s, bytes option) act" where
  "read_blob_fixed N ns name len =
     andthen (read_blob N ns name len) (\<lambda>r. case r of
       None \<Rightarrow> give None
     | Some d \<Rightarrow> if length d \<noteq> len then give None else give (Some d))"

definition store_string ::
  "('s, 'h, 'i) nvs \<Rightarrow> string \<Rightarrow> string option \<Rightarrow> string option \<Rightarrow> ('s, bool) act" where
  "store_string N ns name str =
     andthen (insist (name \<noteq> None)) (\<lambda>_.
     andthen (insist (str \<noteq> None)) (\<lambda>_.
     storage_open N ns NVS_READWRITE False (\<lambda>h.
     storage_write (nvs_set_str N h (the name) (the str)) (
     storage_write (nvs_commit N h) (give True)))))"

text \<open>The result is the stored bytes, the terminating zero included.\<close>

definition read_string ::
  "('s, 'h, 'i) nvs \<Rightarrow> string \<Rightarrow> string option \<Rightarrow> nat \<Rightarrow> ('s, bytes option) act" where
  "read_string N ns name len =
     andthen (insist (name \<noteq> None)) (\<lambda>_.
     andthen (insist (len > 0)) (\<lambda>_.
     storage_open N ns NVS_READONLY None (\<lambda>h s.
     case nvs_get_str N h (the name) len s of Inl err \<Rightarrow> Ret (None, s) | Inr d \<Rightarrow> Ret (Some d, s))))"

definition erase_key :: "('s, 'h, 'i) nvs \<Rightarrow> string \<Rightarrow> string option \<Rightarrow> ('s, bool) act" where
  "erase_key N ns name =
     andthen (insist (name \<noteq> None)) (\<lambda>_.
     storage_open N ns NVS_READWRITE False (\<lambda>h.
     storage_remove N h (the name) (
     storage_write (nvs_commit N h) (give True))))"

section \<open>Walking the entries of a namespace\<close>

text \<open>
  The loops end when the iterator does, which is the NVS's affair: a loop that runs for
  ever is \<^verbatim>\<open>None\<close>. The state of a loop is the last error, the iterator and what the loop
  computes.
\<close>

definition more_entries :: "esp_err_t \<times> 'i option \<times> 'a \<Rightarrow> bool" where
  "more_entries st = (case st of (res, it, _) \<Rightarrow> res = ESP_OK \<and> it \<noteq> None)"

definition count_entry ::
  "('s, 'h, 'i) nvs \<Rightarrow> 's \<Rightarrow> esp_err_t \<times> 'i option \<times> nat \<Rightarrow> esp_err_t \<times> 'i option \<times> nat" where
  "count_entry N s st =
     (case st of (res, it, count) \<Rightarrow> let (res, it) = nvs_entry_next N (the it) s in (res, it, Suc count))"

definition get_entry_count :: "('s, 'h, 'i) nvs \<Rightarrow> string option \<Rightarrow> nvs_type_t \<Rightarrow> 's \<Rightarrow> nat option run" where
  "get_entry_count N ns type s =
     then_run (nvs_entry_find N ns type s) (\<lambda>(res, it).
     Ret (map_option (snd \<circ> snd) (while_option more_entries (count_entry N s) (res, it, 0))))"

text \<open>
  One round of the other loops reads the key under the iterator. \<^verbatim>\<open>junk\<close> is what the
  uninitialised key buffer holds when \<^verbatim>\<open>nvs_entry_info\<close>, whose result the code does not
  look at, writes nothing.
\<close>

definition entry_key :: "('s, 'h, 'i) nvs \<Rightarrow> string \<Rightarrow> 'i \<Rightarrow> 's \<Rightarrow> string run" where
  "entry_key N junk it s =
     then_run (nvs_entry_info N it s) (\<lambda>(err, key). Ret (case key of None \<Rightarrow> junk | Some k \<Rightarrow> k))"

definition key_name_exists ::
  "('s, 'h, 'i) nvs \<Rightarrow> string \<Rightarrow> string option \<Rightarrow> string option \<Rightarrow> nvs_type_t \<Rightarrow> 's \<Rightarrow> bool run option" where
  "key_name_exists N junk name ns type s =
     (if name = None then Some Crash
      else case nvs_entry_find N ns type s of
        Crash \<Rightarrow> Some Crash | Undef \<Rightarrow> Some Undef
      | Ret (res, it) \<Rightarrow>
          map_option (\<lambda>(res, it, found). found)
            (while_option (\<lambda>(res, it, found). res = ESP_OK \<and> it \<noteq> None \<and> found = Ret False)
               (\<lambda>(res, it, found). case entry_key N junk (the it) s of
                    Ret key \<Rightarrow>
                      if the name = key then (res, it, Ret True)
                      else let (res, it) = nvs_entry_next N (the it) s in (res, it, Ret False)
                  | Crash \<Rightarrow> (res, it, Crash)
                  | Undef \<Rightarrow> (res, it, Undef))
               (res, it, Ret False)))"

text \<open>The names written and the return value, which compares their number with the room for them.\<close>

definition get_all_key_names ::
  "('s, 'h, 'i) nvs \<Rightarrow> string \<Rightarrow> string option \<Rightarrow> nvs_type_t \<Rightarrow> nat \<Rightarrow> 's
    \<Rightarrow> (string list \<times> bool) run option" where
  "get_all_key_names N junk ns type num_names s =
     (if \<not> num_names > 0 then Some Crash
      else case nvs_entry_find N ns type s of
        Crash \<Rightarrow> Some Crash | Undef \<Rightarrow> Some Undef
      | Ret (res, it) \<Rightarrow>
          map_option (\<lambda>(res, it, names). then_run names (\<lambda>names. Ret (names, length names \<le> num_names)))
            (while_option (\<lambda>(res, it, names). res = ESP_OK \<and> it \<noteq> None \<and>
                             (case names of Ret ns \<Rightarrow> length ns < num_names | _ \<Rightarrow> False))
               (\<lambda>(res, it, names). case entry_key N junk (the it) s of
                    Ret key \<Rightarrow> let (res, it) = nvs_entry_next N (the it) s in
                      (res, it, then_run names (\<lambda>ns. Ret (ns @ [key])))
                  | Crash \<Rightarrow> (res, it, Crash)
                  | Undef \<Rightarrow> (res, it, Undef))
               (res, it, Ret [])))"

section \<open>Start-up and names\<close>

definition storage_erase :: "('s, 'h, 'i) nvs \<Rightarrow> ('s, bool) act" where
  "storage_erase N s = (let (err, s) = nvs_flash_erase N s in Ret (err = ESP_OK, s))"

definition storage_init :: "('s, 'h, 'i) nvs \<Rightarrow> ('s, bool) act" where
  "storage_init N s =
     (let (err, s) = nvs_flash_init N s in
      then_run
        (if err = ESP_ERR_NVS_NO_FREE_PAGES \<or> err = ESP_ERR_NVS_NEW_VERSION_FOUND
         then then_run (storage_erase N s) (\<lambda>(erased, s).
           if erased then Ret (nvs_flash_init N s) else Ret (err, s))
         else Ret (err, s)) (\<lambda>(err, s).
      then_run (erase_key N DEFAULT_NAMESPACE (Some CLICK_EVENT_FIELD) s) (\<lambda>(_, s).
      Ret (err = ESP_OK, s))))"

definition ESP_NVS_TOTAL_ENTRIES :: "bool \<Rightarrow> u32" where
  "ESP_NVS_TOTAL_ENTRIES esp32s3 =
     (if esp32s3 then 64 * 1024 else 16 * 1024) div (126 * 32 + (32 + 32)) * 126"

definition ESP_NVS_RESERVED_ENTRIES :: u32 where "ESP_NVS_RESERVED_ENTRIES = 1 * 126"

text \<open>The used and the free entries; the build for the ESP32-S3 has the larger partition.\<close>

definition storage_get_stats :: "bool \<Rightarrow> ('s, 'h, 'i) nvs \<Rightarrow> 's \<Rightarrow> (u32 \<times> u32) option" where
  "storage_get_stats esp32s3 N s =
     (let (err, stats) = nvs_get_stats N s in
      if err \<noteq> ESP_OK then None
      else Some (used_entries stats,
        if free_entries stats \<ge> ESP_NVS_RESERVED_ENTRIES
           \<and> used_entries stats + free_entries stats = ESP_NVS_TOTAL_ENTRIES esp32s3
        then free_entries stats - ESP_NVS_RESERVED_ENTRIES else free_entries stats))"

definition isgraph :: "char \<Rightarrow> bool" where
  "isgraph c \<longleftrightarrow> 33 \<le> (of_char c :: nat) \<and> (of_char c :: nat) \<le> 126"

fun key_name_scan :: "nat \<Rightarrow> string \<Rightarrow> bool" where
  "key_name_scan pos [] = True"
| "key_name_scan pos (c # pch) =
     (if pos \<ge> NVS_KEY_NAME_MAX_SIZE then False
      else if \<not> isgraph c then False
      else key_name_scan (Suc pos) pch)"

definition storage_key_name_valid :: "string \<Rightarrow> bool" where
  "storage_key_name_valid name \<longleftrightarrow> key_name_scan 0 name \<and> length name > 0"

section \<open>The PIN key, the wallet and the counters\<close>

text \<open>\<^verbatim>\<open>verify\<close> is \<^verbatim>\<open>wally_ec_private_key_verify\<close>.\<close>

definition storage_get_pin_privatekey ::
  "('s, 'h, 'i) nvs \<Rightarrow> (bytes \<Rightarrow> bool) \<Rightarrow> nat \<Rightarrow> ('s, bytes option) act" where
  "storage_get_pin_privatekey N verify key_len =
     andthen (insist (key_len = 32)) (\<lambda>_.
     andthen (read_blob_fixed N DEFAULT_NAMESPACE (Some PIN_PRIVATEKEY_FIELD) key_len) (\<lambda>r. case r of
       None \<Rightarrow> give None
     | Some privatekey \<Rightarrow> if \<not> verify privatekey then give None else give (Some privatekey)))"

definition storage_set_pin_privatekey ::
  "('s, 'h, 'i) nvs \<Rightarrow> (bytes \<Rightarrow> bool) \<Rightarrow> bytes option \<Rightarrow> ('s, bool) act" where
  "storage_set_pin_privatekey N verify privatekey =
     andthen (insist (privatekey \<noteq> None)) (\<lambda>_.
     andthen (insist (length (the privatekey) = 32)) (\<lambda>_.
     if \<not> verify (the privatekey) then give False
     else store_blob N DEFAULT_NAMESPACE (Some PIN_PRIVATEKEY_FIELD) privatekey))"

definition storage_restore_counter :: "('s, 'h, 'i) nvs \<Rightarrow> ('s, bool) act" where
  "storage_restore_counter N = store_blob N DEFAULT_NAMESPACE (Some PIN_COUNTER_FIELD) (Some [3])"

definition storage_get_counter :: "('s, 'h, 'i) nvs \<Rightarrow> ('s, byte) act" where
  "storage_get_counter N =
     andthen (read_blob_fixed N DEFAULT_NAMESPACE (Some PIN_COUNTER_FIELD) 1) (\<lambda>r.
     give (case r of None \<Rightarrow> 0 | Some d \<Rightarrow> hd d))"

definition storage_set_encrypted_blob :: "('s, 'h, 'i) nvs \<Rightarrow> bytes option \<Rightarrow> ('s, bool) act" where
  "storage_set_encrypted_blob N encrypted =
     andthen (insist (encrypted \<noteq> None)) (\<lambda>_.
     andthen (storage_restore_counter N) (\<lambda>restored.
     if \<not> restored then give False
     else store_blob N DEFAULT_NAMESPACE (Some BLOB_FIELD) encrypted))"

definition storage_get_encrypted_blob :: "('s, 'h, 'i) nvs \<Rightarrow> nat \<Rightarrow> ('s, bytes option) act" where
  "storage_get_encrypted_blob N encrypted_len =
     read_blob N DEFAULT_NAMESPACE (Some BLOB_FIELD) encrypted_len"

definition storage_erase_encrypted_blob :: "('s, 'h, 'i) nvs \<Rightarrow> ('s, bool) act" where
  "storage_erase_encrypted_blob N =
     andthen (erase_key N DEFAULT_NAMESPACE (Some PIN_COUNTER_FIELD)) (\<lambda>_.
     erase_key N DEFAULT_NAMESPACE (Some BLOB_FIELD))"

definition storage_decrement_counter :: "('s, 'h, 'i) nvs \<Rightarrow> ('s, bool) act" where
  "storage_decrement_counter N =
     andthen (storage_get_counter N) (\<lambda>counter.
     if counter = 0 \<or> counter > 3 then andthen (storage_erase_encrypted_blob N) (\<lambda>_. give False)
     else
       andthen (store_blob N DEFAULT_NAMESPACE (Some PIN_COUNTER_FIELD) (Some [counter - 1])) (\<lambda>stored.
       if \<not> stored then andthen (storage_erase_encrypted_blob N) (\<lambda>_. give False)
       else give True))"

text \<open>The counter for this use; the stored one is the next.\<close>

definition replay_advance :: "('s, 'h, 'i) nvs \<Rightarrow> 'h \<Rightarrow> u32 \<Rightarrow> ('s, u32 option) act" where
  "replay_advance N h j =
     andthen (insist (j < 0xFFFFFFFF)) (\<lambda>_ s.
     let (err, s) = nvs_set_u32 N h REPLAY_COUNTER_FIELD (j + 1) s in
     if err \<noteq> ESP_OK then Ret (None, s)
     else let (err, s) = nvs_commit N h s in
       if err \<noteq> ESP_OK then Ret (None, s) else Ret (Some j, s))"

definition storage_get_replay_counter :: "('s, 'h, 'i) nvs \<Rightarrow> ('s, u32 option) act" where
  "storage_get_replay_counter N =
     storage_open N DEFAULT_NAMESPACE NVS_READWRITE None (\<lambda>h s.
     then_run (nvs_get_u32 N h REPLAY_COUNTER_FIELD 0xFFFFFFFF s) (\<lambda>(err, j).
     if err \<noteq> ESP_OK \<and> err \<noteq> ESP_ERR_NVS_NOT_FOUND then Ret (None, s)
     else replay_advance N h (if err \<noteq> ESP_OK then 0 else j) s))"

section \<open>The PIN server\<close>

definition storage_set_pinserver_details ::
  "('s, 'h, 'i) nvs \<Rightarrow> string option \<Rightarrow> string option \<Rightarrow> bytes option \<Rightarrow> ('s, bool) act" where
  "storage_set_pinserver_details N urlA urlB pubkey =
     andthen (insist (urlA \<noteq> None)) (\<lambda>_.
     andthen (insist (urlB \<noteq> None)) (\<lambda>_.
     storage_open N DEFAULT_NAMESPACE NVS_READWRITE False (\<lambda>h.
     storage_write (nvs_set_str N h USER_PINSERVER_URL_A (the urlA)) (
     storage_write (nvs_set_str N h USER_PINSERVER_URL_B (the urlB)) (
     storage_remove N h PIN_PRIVATEKEY_FIELD (
     let rest = storage_write (nvs_commit N h) (give True) in
     case pubkey of
       None \<Rightarrow> rest
     | Some pubkey \<Rightarrow>
         if length pubkey > 0 then storage_write (nvs_set_blob N h USER_PINSERVER_PUBKEY pubkey) rest
         else rest))))))"

definition storage_get_pinserver_urlA :: "('s, 'h, 'i) nvs \<Rightarrow> nat \<Rightarrow> ('s, bytes option) act" where
  "storage_get_pinserver_urlA N len = read_string N DEFAULT_NAMESPACE (Some USER_PINSERVER_URL_A) len"

definition storage_get_pinserver_urlB :: "('s, 'h, 'i) nvs \<Rightarrow> nat \<Rightarrow> ('s, bytes option) act" where
  "storage_get_pinserver_urlB N len = read_string N DEFAULT_NAMESPACE (Some USER_PINSERVER_URL_B) len"

definition storage_get_pinserver_pubkey :: "('s, 'h, 'i) nvs \<Rightarrow> nat \<Rightarrow> ('s, bytes option) act" where
  "storage_get_pinserver_pubkey N pubkey_len =
     read_blob_fixed N DEFAULT_NAMESPACE (Some USER_PINSERVER_PUBKEY) pubkey_len"

definition storage_erase_pinserver_details :: "('s, 'h, 'i) nvs \<Rightarrow> ('s, bool) act" where
  "storage_erase_pinserver_details N =
     storage_open N DEFAULT_NAMESPACE NVS_READWRITE False (\<lambda>h.
     storage_remove N h USER_PINSERVER_URL_A (
     storage_remove N h USER_PINSERVER_URL_B (
     storage_remove N h USER_PINSERVER_PUBKEY (
     storage_remove N h PIN_PRIVATEKEY_FIELD (
     storage_write (nvs_commit N h) (give True))))))"

definition storage_set_pinserver_cert :: "('s, 'h, 'i) nvs \<Rightarrow> string option \<Rightarrow> ('s, bool) act" where
  "storage_set_pinserver_cert N cert = store_string N DEFAULT_NAMESPACE (Some USER_PINSERVER_CERT) cert"

definition storage_get_pinserver_cert :: "('s, 'h, 'i) nvs \<Rightarrow> nat \<Rightarrow> ('s, bytes option) act" where
  "storage_get_pinserver_cert N len = read_string N DEFAULT_NAMESPACE (Some USER_PINSERVER_CERT) len"

definition storage_erase_pinserver_cert :: "('s, 'h, 'i) nvs \<Rightarrow> ('s, bool) act" where
  "storage_erase_pinserver_cert N = erase_key N DEFAULT_NAMESPACE (Some USER_PINSERVER_CERT)"

section \<open>Settings\<close>

text \<open>A scalar is stored as its bytes in memory, least significant first.\<close>

definition raw_bytes :: "nat \<Rightarrow> 'w::len word \<Rightarrow> bytes" where
  "raw_bytes n v = le_digits n (unat v)"

definition raw_value :: "bytes \<Rightarrow> 'w::len word" where
  "raw_value d = of_nat (le_nat d)"

definition store_raw :: "('s, 'h, 'i) nvs \<Rightarrow> string \<Rightarrow> string option \<Rightarrow> nat \<Rightarrow> 'w::len word \<Rightarrow> ('s, bool) act" where
  "store_raw N ns name n v = store_blob N ns name (Some (raw_bytes n v))"

definition read_raw :: "('s, 'h, 'i) nvs \<Rightarrow> string \<Rightarrow> string option \<Rightarrow> nat \<Rightarrow> ('s, 'w::len word) act" where
  "read_raw N ns name n =
     andthen (read_blob_fixed N ns name n) (\<lambda>r. give (case r of None \<Rightarrow> 0 | Some d \<Rightarrow> raw_value d))"

text \<open>
  An enumerator of \<^verbatim>\<open>network_type_t\<close> is its value in an \<^verbatim>\<open>int\<close> here, since what is read
  back is not checked to be one of them.
\<close>

fun network_type_value :: "network_type_t \<Rightarrow> u32" where
  "network_type_value NETWORK_TYPE_NONE = 0"
| "network_type_value NETWORK_TYPE_MAIN = 1"
| "network_type_value NETWORK_TYPE_TEST = 2"

definition storage_set_network_type_restriction :: "('s, 'h, 'i) nvs \<Rightarrow> u32 \<Rightarrow> ('s, bool) act" where
  "storage_set_network_type_restriction N networktype =
     store_raw N DEFAULT_NAMESPACE (Some NETWORK_TYPE_FIELD) 4 networktype"

definition storage_get_network_type_restriction :: "('s, 'h, 'i) nvs \<Rightarrow> ('s, u32) act" where
  "storage_get_network_type_restriction N =
     andthen (read_blob_fixed N DEFAULT_NAMESPACE (Some NETWORK_TYPE_FIELD) 4) (\<lambda>r.
     give (case r of None \<Rightarrow> network_type_value NETWORK_TYPE_NONE | Some d \<Rightarrow> raw_value d))"

definition storage_set_idle_timeout :: "('s, 'h, 'i) nvs \<Rightarrow> u16 \<Rightarrow> ('s, bool) act" where
  "storage_set_idle_timeout N timeout = store_raw N DEFAULT_NAMESPACE (Some IDLE_TIMEOUT_FIELD) 2 timeout"

definition storage_get_idle_timeout :: "('s, 'h, 'i) nvs \<Rightarrow> ('s, u16) act" where
  "storage_get_idle_timeout N = read_raw N DEFAULT_NAMESPACE (Some IDLE_TIMEOUT_FIELD) 2"

definition storage_set_brightness :: "('s, 'h, 'i) nvs \<Rightarrow> byte \<Rightarrow> ('s, bool) act" where
  "storage_set_brightness N brightness = store_raw N DEFAULT_NAMESPACE (Some BRIGHTNESS_FIELD) 1 brightness"

definition storage_get_brightness :: "('s, 'h, 'i) nvs \<Rightarrow> ('s, byte) act" where
  "storage_get_brightness N = read_raw N DEFAULT_NAMESPACE (Some BRIGHTNESS_FIELD) 1"

definition storage_set_gui_flags :: "('s, 'h, 'i) nvs \<Rightarrow> byte \<Rightarrow> ('s, bool) act" where
  "storage_set_gui_flags N gui_flags = store_raw N DEFAULT_NAMESPACE (Some GUI_FLAGS_FIELD) 1 gui_flags"

definition storage_get_gui_flags :: "('s, 'h, 'i) nvs \<Rightarrow> ('s, byte) act" where
  "storage_get_gui_flags N = read_raw N DEFAULT_NAMESPACE (Some GUI_FLAGS_FIELD) 1"

definition storage_set_ble_flags :: "('s, 'h, 'i) nvs \<Rightarrow> byte \<Rightarrow> ('s, bool) act" where
  "storage_set_ble_flags N flags = store_raw N DEFAULT_NAMESPACE (Some BLE_FLAGS_FIELD) 1 flags"

definition storage_get_ble_flags :: "('s, 'h, 'i) nvs \<Rightarrow> ('s, byte) act" where
  "storage_get_ble_flags N = read_raw N DEFAULT_NAMESPACE (Some BLE_FLAGS_FIELD) 1"

definition storage_set_qr_flags :: "('s, 'h, 'i) nvs \<Rightarrow> u32 \<Rightarrow> ('s, bool) act" where
  "storage_set_qr_flags N flags = store_raw N DEFAULT_NAMESPACE (Some QR_FLAGS_FIELD) 4 flags"

definition storage_get_qr_flags :: "('s, 'h, 'i) nvs \<Rightarrow> ('s, u32) act" where
  "storage_get_qr_flags N =
     andthen (read_blob_fixed N DEFAULT_NAMESPACE (Some QR_FLAGS_FIELD) 4) (\<lambda>r. case r of
       Some d \<Rightarrow> give (raw_value d)
     | None \<Rightarrow>
         andthen (read_blob_fixed N DEFAULT_NAMESPACE (Some QR_FLAGS_FIELD) 2) (\<lambda>r. case r of
           Some d \<Rightarrow> give (ucast (raw_value d :: u16))
         | None \<Rightarrow> give 0))"

definition storage_set_key_flags :: "('s, 'h, 'i) nvs \<Rightarrow> byte \<Rightarrow> ('s, bool) act" where
  "storage_set_key_flags N flags = store_raw N DEFAULT_NAMESPACE (Some KEY_FLAGS_FIELD) 1 flags"

definition storage_get_key_flags :: "('s, 'h, 'i) nvs \<Rightarrow> ('s, byte) act" where
  "storage_get_key_flags N = read_raw N DEFAULT_NAMESPACE (Some KEY_FLAGS_FIELD) 1"

definition storage_set_wallet_erase_pin :: "('s, 'h, 'i) nvs \<Rightarrow> bytes option \<Rightarrow> ('s, bool) act" where
  "storage_set_wallet_erase_pin N pin = store_blob N DEFAULT_NAMESPACE (Some WALLET_ERASE_PIN) pin"

definition storage_get_wallet_erase_pin :: "('s, 'h, 'i) nvs \<Rightarrow> nat \<Rightarrow> ('s, bytes option) act" where
  "storage_get_wallet_erase_pin N pin_len =
     read_blob_fixed N DEFAULT_NAMESPACE (Some WALLET_ERASE_PIN) pin_len"

definition storage_erase_wallet_erase_pin :: "('s, 'h, 'i) nvs \<Rightarrow> ('s, bool) act" where
  "storage_erase_wallet_erase_pin N = erase_key N DEFAULT_NAMESPACE (Some WALLET_ERASE_PIN)"

section \<open>Named records\<close>

definition storage_set_multisig_registration ::
  "('s, 'h, 'i) nvs \<Rightarrow> string option \<Rightarrow> bytes option \<Rightarrow> ('s, bool) act" where
  "storage_set_multisig_registration N name registration = store_blob N MULTISIG_NAMESPACE name registration"

definition storage_get_multisig_registration ::
  "('s, 'h, 'i) nvs \<Rightarrow> string option \<Rightarrow> nat \<Rightarrow> ('s, bytes option) act" where
  "storage_get_multisig_registration N name len = read_blob N MULTISIG_NAMESPACE name len"

definition storage_get_multisig_registration_count :: "('s, 'h, 'i) nvs \<Rightarrow> 's \<Rightarrow> nat option run" where
  "storage_get_multisig_registration_count N = get_entry_count N (Some MULTISIG_NAMESPACE) NVS_TYPE_BLOB"

definition storage_multisig_name_exists ::
  "('s, 'h, 'i) nvs \<Rightarrow> string \<Rightarrow> string option \<Rightarrow> 's \<Rightarrow> bool run option" where
  "storage_multisig_name_exists N junk name = key_name_exists N junk name (Some MULTISIG_NAMESPACE) NVS_TYPE_BLOB"

definition storage_get_all_multisig_registration_names ::
  "('s, 'h, 'i) nvs \<Rightarrow> string \<Rightarrow> nat \<Rightarrow> 's \<Rightarrow> (string list \<times> bool) run option" where
  "storage_get_all_multisig_registration_names N junk num_names =
     get_all_key_names N junk (Some MULTISIG_NAMESPACE) NVS_TYPE_BLOB num_names"

definition storage_erase_multisig_registration :: "('s, 'h, 'i) nvs \<Rightarrow> string option \<Rightarrow> ('s, bool) act" where
  "storage_erase_multisig_registration N name = erase_key N MULTISIG_NAMESPACE name"

definition storage_set_descriptor_registration ::
  "('s, 'h, 'i) nvs \<Rightarrow> string option \<Rightarrow> bytes option \<Rightarrow> ('s, bool) act" where
  "storage_set_descriptor_registration N name registration = store_blob N DESCRIPTOR_NAMESPACE name registration"

definition storage_get_descriptor_registration ::
  "('s, 'h, 'i) nvs \<Rightarrow> string option \<Rightarrow> nat \<Rightarrow> ('s, bytes option) act" where
  "storage_get_descriptor_registration N name len = read_blob N DESCRIPTOR_NAMESPACE name len"

definition storage_get_descriptor_registration_count :: "('s, 'h, 'i) nvs \<Rightarrow> 's \<Rightarrow> nat option run" where
  "storage_get_descriptor_registration_count N = get_entry_count N (Some DESCRIPTOR_NAMESPACE) NVS_TYPE_BLOB"

definition storage_descriptor_name_exists ::
  "('s, 'h, 'i) nvs \<Rightarrow> string \<Rightarrow> string option \<Rightarrow> 's \<Rightarrow> bool run option" where
  "storage_descriptor_name_exists N junk name = key_name_exists N junk name (Some DESCRIPTOR_NAMESPACE) NVS_TYPE_BLOB"

definition storage_get_all_descriptor_registration_names ::
  "('s, 'h, 'i) nvs \<Rightarrow> string \<Rightarrow> nat \<Rightarrow> 's \<Rightarrow> (string list \<times> bool) run option" where
  "storage_get_all_descriptor_registration_names N junk num_names =
     get_all_key_names N junk (Some DESCRIPTOR_NAMESPACE) NVS_TYPE_BLOB num_names"

definition storage_erase_descriptor_registration :: "('s, 'h, 'i) nvs \<Rightarrow> string option \<Rightarrow> ('s, bool) act" where
  "storage_erase_descriptor_registration N name = erase_key N DESCRIPTOR_NAMESPACE name"

definition storage_set_otp_data ::
  "('s, 'h, 'i) nvs \<Rightarrow> string option \<Rightarrow> bytes option \<Rightarrow> ('s, bool) act" where
  "storage_set_otp_data N name data = store_blob N OTP_NAMESPACE name data"

definition storage_get_otp_data :: "('s, 'h, 'i) nvs \<Rightarrow> string option \<Rightarrow> nat \<Rightarrow> ('s, bytes option) act" where
  "storage_get_otp_data N name len = read_blob N OTP_NAMESPACE name len"

definition storage_set_otp_hotp_counter :: "('s, 'h, 'i) nvs \<Rightarrow> string option \<Rightarrow> u64 \<Rightarrow> ('s, bool) act" where
  "storage_set_otp_hotp_counter N name counter = store_raw N HOTP_COUNTERS_NAMESPACE name 8 counter"

definition storage_get_otp_hotp_counter :: "('s, 'h, 'i) nvs \<Rightarrow> string option \<Rightarrow> ('s, u64) act" where
  "storage_get_otp_hotp_counter N name = read_raw N HOTP_COUNTERS_NAMESPACE name 8"

definition storage_get_otp_count :: "('s, 'h, 'i) nvs \<Rightarrow> 's \<Rightarrow> nat option run" where
  "storage_get_otp_count N = get_entry_count N (Some OTP_NAMESPACE) NVS_TYPE_BLOB"

definition storage_otp_exists ::
  "('s, 'h, 'i) nvs \<Rightarrow> string \<Rightarrow> string option \<Rightarrow> 's \<Rightarrow> bool run option" where
  "storage_otp_exists N junk name = key_name_exists N junk name (Some OTP_NAMESPACE) NVS_TYPE_BLOB"

definition storage_get_all_otp_names ::
  "('s, 'h, 'i) nvs \<Rightarrow> string \<Rightarrow> nat \<Rightarrow> 's \<Rightarrow> (string list \<times> bool) run option" where
  "storage_get_all_otp_names N junk num_names =
     get_all_key_names N junk (Some OTP_NAMESPACE) NVS_TYPE_BLOB num_names"

definition storage_erase_otp :: "('s, 'h, 'i) nvs \<Rightarrow> string option \<Rightarrow> ('s, bool) act" where
  "storage_erase_otp N name =
     andthen (erase_key N HOTP_COUNTERS_NAMESPACE name) (\<lambda>_. erase_key N OTP_NAMESPACE name)"

end
