(* ===== verification/Jade_Nvs.thy ===== *)
theory Jade_Nvs
  imports Jade_Storage
begin

text \<open>
  What the storage relies on. The locale \<^verbatim>\<open>nvs_store\<close> is the contract of the NVS: a map
  from namespaces and keys to bytes, whose calls may fail, and then may have changed no
  entry but the one they were about; a failed erasure of the flash may have erased some. The lemmas of the storage are proved from it. The
  second part models the NVS of the library build, in \<^verbatim>\<open>src/libjade/libjade.c\<close>, over
  libwally's maps, and interprets the contract on it.
\<close>

section \<open>The contract\<close>

type_synonym store = "string \<Rightarrow> string \<rightharpoonup> bytes"

text \<open>\<^verbatim>\<open>only_at ns k f g\<close>: the stores agree outside one entry, which is one of the given values.\<close>

definition only_at :: "string \<Rightarrow> string \<Rightarrow> bytes option set \<Rightarrow> store \<Rightarrow> store \<Rightarrow> bool" where
  "only_at ns k vs f g \<longleftrightarrow> g ns k \<in> vs \<and> (\<forall>ns' k'. (ns', k') \<noteq> (ns, k) \<longrightarrow> g ns' k' = f ns' k')"

locale nvs_store =
  fixes N :: "('s, 'h, 'i) nvs" and inv :: "'s \<Rightarrow> bool" and look :: "'s \<Rightarrow> store"
    and handle :: "'h \<Rightarrow> bool" and ns_of :: "'h \<Rightarrow> string"
  assumes open_nvs: "inv s \<Longrightarrow> nvs_open N ns rw s = (r, s') \<Longrightarrow>
      inv s' \<and> look s' = look s \<and> (\<forall>h. r = Inr h \<longrightarrow> handle h \<and> ns_of h = ns) \<and> r \<noteq> Inl ESP_OK"
    and set_blob: "inv s \<Longrightarrow> handle h \<Longrightarrow> nvs_set_blob N h k v s = (e, s') \<Longrightarrow>
      inv s' \<and> only_at (ns_of h) k (if e = ESP_OK then {Some v} else {look s (ns_of h) k, Some v}) (look s) (look s')"
    and set_str: "inv s \<Longrightarrow> handle h \<Longrightarrow> nvs_set_str N h k str s = (e, s') \<Longrightarrow>
      inv s' \<and> only_at (ns_of h) k (if e = ESP_OK then {Some (cstring str)} else {look s (ns_of h) k, Some (cstring str)})
        (look s) (look s')"
    and set_u32: "inv s \<Longrightarrow> handle h \<Longrightarrow> nvs_set_u32 N h k j s = (e, s') \<Longrightarrow>
      inv s' \<and> only_at (ns_of h) k (if e = ESP_OK then {Some (raw_bytes 4 j)} else {look s (ns_of h) k, Some (raw_bytes 4 j)})
        (look s) (look s')"
    and erase: "inv s \<Longrightarrow> handle h \<Longrightarrow> nvs_erase_key N h k s = (e, s') \<Longrightarrow>
      inv s' \<and> only_at (ns_of h) k (if e = ESP_OK \<or> e = ESP_ERR_NVS_NOT_FOUND then {None} else {look s (ns_of h) k, None})
        (look s) (look s')"
    and commit: "inv s \<Longrightarrow> handle h \<Longrightarrow> nvs_commit N h s = (e, s') \<Longrightarrow> inv s' \<and> look s' = look s"
    and get_blob: "inv s \<Longrightarrow> handle h \<Longrightarrow> nvs_get_blob N h k n s = Inr d \<Longrightarrow> look s (ns_of h) k = Some d \<and> length d \<le> n"
    and get_str: "inv s \<Longrightarrow> handle h \<Longrightarrow> nvs_get_str N h k n s = Inr d \<Longrightarrow> look s (ns_of h) k = Some d \<and> length d \<le> n"
    and get_u32: "inv s \<Longrightarrow> handle h \<Longrightarrow> (look s (ns_of h) k = None \<longrightarrow> (\<exists>e j'. e \<noteq> ESP_OK \<and> nvs_get_u32 N h k j s = Ret (e, j')))
      \<and> (\<forall>v. look s (ns_of h) k = Some (raw_bytes 4 v) \<longrightarrow>
           nvs_get_u32 N h k j s = Ret (ESP_OK, v)
           \<or> (\<exists>e j'. e \<noteq> ESP_OK \<and> e \<noteq> ESP_ERR_NVS_NOT_FOUND \<and> nvs_get_u32 N h k j s = Ret (e, j')))"
    and flash_init: "inv s \<Longrightarrow> nvs_flash_init N s = (e, s') \<Longrightarrow> inv s' \<and> look s' = look s"
    and flash_erase: "inv s \<Longrightarrow> nvs_flash_erase N s = (e, s') \<Longrightarrow>
      inv s' \<and> (\<forall>ns k. look s' ns k = None \<or> e \<noteq> ESP_OK \<and> look s' ns k = look s ns k)"

text \<open>
  The same, of an NVS whose reading and erasing does not fail; and one whose writing does
  not fail either.
\<close>

locale nvs_reliable = nvs_store +
  fixes spaces :: "string set"
  assumes opens: "inv s \<Longrightarrow> ns \<in> spaces \<Longrightarrow> \<exists>h s'. nvs_open N ns rw s = (Inr h, s')"
    and commits: "inv s \<Longrightarrow> handle h \<Longrightarrow> \<exists>s'. nvs_commit N h s = (ESP_OK, s')"
    and finds: "inv s \<Longrightarrow> handle h \<Longrightarrow> look s (ns_of h) k = Some d \<Longrightarrow> length d \<le> n \<Longrightarrow> nvs_get_blob N h k n s = Inr d"
    and erases: "inv s \<Longrightarrow> handle h \<Longrightarrow> nvs_erase_key N h k s = (e, s') \<Longrightarrow> e = ESP_OK \<or> e = ESP_ERR_NVS_NOT_FOUND"
    and default_space: "DEFAULT_NAMESPACE \<in> spaces"

locale nvs_perfect = nvs_reliable +
  assumes sets: "inv s \<Longrightarrow> handle h \<Longrightarrow> \<exists>s'. nvs_set_blob N h k v s = (ESP_OK, s')"

section \<open>The NVS of the library build\<close>

text \<open>
  A \<^verbatim>\<open>wally_map\<close> is its list of items, which the code also reads directly. The calls of
  libwally on it are parameters, as are the outcome of \<^verbatim>\<open>malloc\<close> for an iterator and the
  size of a pointer on the host; an allocation may depend on how many calls came before.
\<close>

type_synonym witems = "(bytes \<times> bytes) list"

record wmap_ops =
  wally_map_replace :: "nat \<Rightarrow> witems \<Rightarrow> bytes \<Rightarrow> bytes \<Rightarrow> witems option"
  wally_map_remove :: "witems \<Rightarrow> bytes \<Rightarrow> witems option"
  wally_map_get :: "witems \<Rightarrow> bytes \<Rightarrow> bytes option"
  wally_map_clear :: "witems \<Rightarrow> witems"
  host_malloc :: "nat \<Rightarrow> bool"
  host_pointer_size :: nat

record nvs_flash =
  nvs_storage :: "witems list"
  nvs_calls :: nat

definition get_nvs_ns :: "string \<Rightarrow> nat option" where
  "get_nvs_ns ns =
     (if ns = DEFAULT_NAMESPACE then Some 0
      else if ns = MULTISIG_NAMESPACE then Some 1
      else if ns = DESCRIPTOR_NAMESPACE then Some 2
      else if ns = OTP_NAMESPACE then Some 3
      else if ns = HOTP_COUNTERS_NAMESPACE then Some 4
      else None)"

definition libjade_nvs_open :: "string \<Rightarrow> nvs_open_mode_t \<Rightarrow> nvs_flash \<Rightarrow> (esp_err_t + nat) \<times> nvs_flash" where
  "libjade_nvs_open ns open_mode s =
     (case get_nvs_ns ns of None \<Rightarrow> (Inl ESP_ERR_NVS_NOT_FOUND, s) | Some h \<Rightarrow> (Inr h, s))"

definition libjade_nvs_set_blob ::
  "wmap_ops \<Rightarrow> nat \<Rightarrow> string \<Rightarrow> bytes \<Rightarrow> nvs_flash \<Rightarrow> esp_err_t \<times> nvs_flash" where
  "libjade_nvs_set_blob W h key value s =
     (let s = s\<lparr>nvs_calls := Suc (nvs_calls s)\<rparr> in
      case wally_map_replace W (nvs_calls s) (nvs_storage s ! h) (map char_byte key) value of
        None \<Rightarrow> (ESP_FAIL, s)
      | Some m \<Rightarrow> (ESP_OK, s\<lparr>nvs_storage := (nvs_storage s)[h := m]\<rparr>))"

definition libjade_nvs_get_blob :: "wmap_ops \<Rightarrow> nat \<Rightarrow> string \<Rightarrow> nat \<Rightarrow> nvs_flash \<Rightarrow> esp_err_t + bytes" where
  "libjade_nvs_get_blob W h key n s =
     (case wally_map_get W (nvs_storage s ! h) (map char_byte key) of
        None \<Rightarrow> Inl ESP_ERR_NVS_NOT_FOUND
      | Some value \<Rightarrow> if length value > n then Inl ESP_ERR_NVS_NOT_FOUND else Inr value)"

definition libjade_nvs_set_str ::
  "wmap_ops \<Rightarrow> nat \<Rightarrow> string \<Rightarrow> string \<Rightarrow> nvs_flash \<Rightarrow> esp_err_t \<times> nvs_flash" where
  "libjade_nvs_set_str W h key value = libjade_nvs_set_blob W h key (cstring value)"

definition libjade_nvs_set_u32 ::
  "wmap_ops \<Rightarrow> nat \<Rightarrow> string \<Rightarrow> u32 \<Rightarrow> nvs_flash \<Rightarrow> esp_err_t \<times> nvs_flash" where
  "libjade_nvs_set_u32 W h key value = libjade_nvs_set_blob W h key (raw_bytes 4 value)"

text \<open>
  \<^verbatim>\<open>sizeof(out_value)\<close> is the size of the pointer, so a longer entry than the variable
  holds is copied over its end.
\<close>

definition libjade_nvs_get_u32 ::
  "wmap_ops \<Rightarrow> nat \<Rightarrow> string \<Rightarrow> u32 \<Rightarrow> nvs_flash \<Rightarrow> (esp_err_t \<times> u32) run" where
  "libjade_nvs_get_u32 W h key old s =
     (case libjade_nvs_get_blob W h key (host_pointer_size W) s of
        Inl e \<Rightarrow> Ret (e, old)
      | Inr d \<Rightarrow> if length d > 4 then Undef
                 else Ret (ESP_OK, raw_value (d @ drop (length d) (raw_bytes 4 old))))"

definition libjade_nvs_erase_key :: "wmap_ops \<Rightarrow> nat \<Rightarrow> string \<Rightarrow> nvs_flash \<Rightarrow> esp_err_t \<times> nvs_flash" where
  "libjade_nvs_erase_key W h key s =
     (case wally_map_remove W (nvs_storage s ! h) (map char_byte key) of
        None \<Rightarrow> (ESP_ERR_NVS_NOT_FOUND, s)
      | Some m \<Rightarrow> (ESP_OK, s\<lparr>nvs_storage := (nvs_storage s)[h := m]\<rparr>))"

text \<open>An iterator is a map and a position in it.\<close>

definition libjade_nvs_entry_find ::
  "wmap_ops \<Rightarrow> string option \<Rightarrow> nvs_type_t \<Rightarrow> nvs_flash \<Rightarrow> (esp_err_t \<times> (nat \<times> nat) option) run" where
  "libjade_nvs_entry_find W ns type s =
     (if \<not> host_malloc W (nvs_calls s) then Ret (ESP_FAIL, None)
      else case ns of
        None \<Rightarrow> Undef
      | Some ns \<Rightarrow> (case get_nvs_ns ns of
            None \<Rightarrow> Ret (ESP_ERR_NVS_NOT_FOUND, None)
          | Some h \<Rightarrow> if length (nvs_storage s ! h) = 0 then Ret (ESP_ERR_NVS_NOT_FOUND, None)
                      else Ret (ESP_OK, Some (h, 0))))"

definition libjade_nvs_entry_next :: "nat \<times> nat \<Rightarrow> nvs_flash \<Rightarrow> esp_err_t \<times> (nat \<times> nat) option" where
  "libjade_nvs_entry_next it s =
     (let (h, idx) = it in
      if idx \<ge> length (nvs_storage s ! h) then (ESP_ERR_NVS_NOT_FOUND, None)
      else (ESP_OK, Some (h, idx + 1)))"

definition libjade_nvs_entry_info :: "nat \<times> nat \<Rightarrow> nvs_flash \<Rightarrow> (esp_err_t \<times> string option) run" where
  "libjade_nvs_entry_info it s =
     (let (h, idx) = it in
      if idx \<ge> length (nvs_storage s ! h) then Ret (ESP_ERR_INVALID_ARG, None)
      else let key = fst (nvs_storage s ! h ! idx) in
        if length key \<ge> NVS_KEY_NAME_MAX_SIZE then Crash else Ret (ESP_OK, Some (map byte_char key)))"

definition libjade_nvs_flash_erase :: "wmap_ops \<Rightarrow> nvs_flash \<Rightarrow> esp_err_t \<times> nvs_flash" where
  "libjade_nvs_flash_erase W s = (ESP_OK, s\<lparr>nvs_storage := map (wally_map_clear W) (nvs_storage s)\<rparr>)"

definition libjade_nvs_get_stats :: "bool \<Rightarrow> nvs_flash \<Rightarrow> esp_err_t \<times> nvs_stats_t" where
  "libjade_nvs_get_stats esp32s3 s =
     (let used = of_nat (sum_list (map length (nvs_storage s))) in
      (ESP_OK, \<lparr>used_entries = used, free_entries = ESP_NVS_TOTAL_ENTRIES esp32s3 - used\<rparr>))"

definition libjade_nvs :: "wmap_ops \<Rightarrow> bool \<Rightarrow> (nvs_flash, nat, nat \<times> nat) nvs" where
  "libjade_nvs W esp32s3 =
     \<lparr>nvs_flash_init = (\<lambda>s. (ESP_OK, s)),
      nvs_flash_erase = libjade_nvs_flash_erase W,
      nvs_get_stats = libjade_nvs_get_stats esp32s3,
      nvs_open = libjade_nvs_open,
      nvs_set_blob = libjade_nvs_set_blob W,
      nvs_get_blob = libjade_nvs_get_blob W,
      nvs_set_str = libjade_nvs_set_str W,
      nvs_get_str = libjade_nvs_get_blob W,
      nvs_set_u32 = libjade_nvs_set_u32 W,
      nvs_get_u32 = libjade_nvs_get_u32 W,
      nvs_erase_key = libjade_nvs_erase_key W,
      nvs_commit = (\<lambda>h s. (ESP_OK, s)),
      nvs_entry_find = libjade_nvs_entry_find W,
      nvs_entry_next = libjade_nvs_entry_next,
      nvs_entry_info = libjade_nvs_entry_info\<rparr>"

section \<open>The library build keeps the contract\<close>

text \<open>What libwally documents of its maps: lookup after replace and after remove.\<close>

definition wmap_laws :: "wmap_ops \<Rightarrow> bool" where
  "wmap_laws W \<longleftrightarrow>
     (\<forall>m k. wally_map_get W m k = map_of m k)
     \<and> (\<forall>n m k v m'. wally_map_replace W n m k v = Some m' \<longrightarrow> map_of m' = (map_of m)(k \<mapsto> v))
     \<and> (\<forall>m k m'. wally_map_remove W m k = Some m' \<longrightarrow> map_of m' = (map_of m)(k := None))
     \<and> (\<forall>m k. wally_map_remove W m k = None \<longrightarrow> map_of m k = None)
     \<and> (\<forall>m. wally_map_clear W m = [])"

definition nvs_inv :: "wmap_ops \<Rightarrow> nvs_flash \<Rightarrow> bool" where
  "nvs_inv W s \<longleftrightarrow> wmap_laws W \<and> host_pointer_size W \<ge> 4 \<and> length (nvs_storage s) = 5"

definition nvs_look :: "nvs_flash \<Rightarrow> store" where
  "nvs_look s ns k = (case get_nvs_ns ns of None \<Rightarrow> None | Some h \<Rightarrow> map_of (nvs_storage s ! h) (map char_byte k))"

definition nvs_spaces :: "string list" where
  "nvs_spaces = [DEFAULT_NAMESPACE, MULTISIG_NAMESPACE, DESCRIPTOR_NAMESPACE, OTP_NAMESPACE, HOTP_COUNTERS_NAMESPACE]"


lemma get_nvs_ns_Some: "get_nvs_ns ns = Some h \<Longrightarrow> h < 5 \<and> nvs_spaces ! h = ns"
  by (auto simp: get_nvs_ns_def nvs_spaces_def split: if_splits)

lemma get_nvs_ns_nth: "h < 5 \<Longrightarrow> get_nvs_ns (nvs_spaces ! h) = Some h"
  by (auto simp: get_nvs_ns_def nvs_spaces_def storage_names numeral_eq_Suc less_Suc_eq nth_Cons split: nat.splits)

lemma nvs_look_at: "h < 5 \<Longrightarrow> nvs_look s (nvs_spaces ! h) k = map_of (nvs_storage s ! h) (map char_byte k)"
  by (simp add: nvs_look_def get_nvs_ns_nth)

text \<open>Updating one map changes what is seen in its namespace only.\<close>

lemma only_at_update:
  assumes "h < 5" and "length (nvs_storage s) = 5" and "map_of m = (map_of (nvs_storage s ! h))(map char_byte k := v)"
    and "v \<in> vs"
  shows "only_at (nvs_spaces ! h) k vs (nvs_look s) (nvs_look (s\<lparr>nvs_calls := n, nvs_storage := (nvs_storage s)[h := m]\<rparr>))"
  using assms by (auto simp: only_at_def nvs_look_def get_nvs_ns_nth nth_list_update dest: get_nvs_ns_Some split: option.splits)

lemma only_at_refl: "f ns k \<in> vs \<Longrightarrow> only_at ns k vs f f"
  by (simp add: only_at_def)

lemma nvs_look_calls [simp]: "nvs_look (s\<lparr>nvs_calls := n\<rparr>) = nvs_look s"
  by (simp add: nvs_look_def fun_eq_iff split: option.split)

lemma libjade_set_blob:
  assumes "nvs_inv W s" and "h < 5" and "libjade_nvs_set_blob W h k v s = (e, s')"
  shows "nvs_inv W s' \<and> only_at (nvs_spaces ! h) k (if e = ESP_OK then {Some v} else {nvs_look s (nvs_spaces ! h) k, Some v})
    (nvs_look s) (nvs_look s')"
proof (cases "wally_map_replace W (Suc (nvs_calls s)) (nvs_storage s ! h) (map char_byte k) v")
  case None
  with assms show ?thesis by (auto simp: libjade_nvs_set_blob_def Let_def nvs_inv_def intro: only_at_refl)
next
  case (Some m)
  with assms(1) have "map_of m = (map_of (nvs_storage s ! h))(map char_byte k := Some v)"
    by (auto simp: nvs_inv_def wmap_laws_def)
  with only_at_update [OF assms(2), of s m k "Some v" "{Some v}" "Suc (nvs_calls s)"] Some assms show ?thesis
    by (auto simp: libjade_nvs_set_blob_def Let_def nvs_inv_def)
qed

lemma libjade_erase_key:
  assumes "nvs_inv W s" and "h < 5" and "libjade_nvs_erase_key W h k s = (e, s')"
  shows "nvs_inv W s' \<and> only_at (nvs_spaces ! h) k {None} (nvs_look s) (nvs_look s')"
proof (cases "wally_map_remove W (nvs_storage s ! h) (map char_byte k)")
  case None
  with assms(1) have "map_of (nvs_storage s ! h) (map char_byte k) = None" by (auto simp: nvs_inv_def wmap_laws_def)
  with None assms show ?thesis
    by (auto simp: libjade_nvs_erase_key_def nvs_look_at intro!: only_at_refl)
next
  case (Some m)
  with assms(1) have "map_of m = (map_of (nvs_storage s ! h))(map char_byte k := None)"
    by (auto simp: nvs_inv_def wmap_laws_def)
  with only_at_update [OF assms(2), of s m k None "{None}" "nvs_calls s"] Some assms show ?thesis
    by (auto simp: libjade_nvs_erase_key_def nvs_inv_def)
qed

lemma wmap_get: "nvs_inv W s \<Longrightarrow> wally_map_get W m k = map_of m k"
  by (simp add: nvs_inv_def wmap_laws_def)

lemma libjade_get_blob:
  assumes "nvs_inv W s" and "h < 5"
  shows "libjade_nvs_get_blob W h k n s = Inr d \<longleftrightarrow> nvs_look s (nvs_spaces ! h) k = Some d \<and> length d \<le> n"
  using assms by (auto simp: libjade_nvs_get_blob_def nvs_look_at wmap_get split: option.splits)

lemma raw_value_bytes: "256 ^ n = (2 :: nat) ^ LENGTH('w) \<Longrightarrow> raw_value (raw_bytes n v) = (v :: 'w::len word)"
proof -
  assume n: "256 ^ n = (2 :: nat) ^ LENGTH('w)"
  have "unat v < 2 ^ LENGTH('w)" by (rule unsigned_less)
  then have "le_nat (raw_bytes n v) = unat v" by (simp only: raw_bytes_def le_nat_le_digits n mod_less)
  then show ?thesis by (simp add: raw_value_def)
qed

lemma raw_value_bytes_sized [simp]:
  "raw_value (raw_bytes 1 v8) = (v8 :: byte)" "raw_value (raw_bytes 2 v16) = (v16 :: u16)"
  "raw_value (raw_bytes 4 v32) = (v32 :: u32)" "raw_value (raw_bytes 8 v64) = (v64 :: u64)"
  by (rule raw_value_bytes; simp)+

lemma length_raw_bytes [simp]: "length (raw_bytes n v) = n"
  by (simp add: raw_bytes_def)

lemma libjade_get_u32:
  assumes "nvs_inv W s" and "h < 5"
  shows "(nvs_look s (nvs_spaces ! h) k = None \<longrightarrow> libjade_nvs_get_u32 W h k j s = Ret (ESP_ERR_NVS_NOT_FOUND, j))
    \<and> (\<forall>v. nvs_look s (nvs_spaces ! h) k = Some (raw_bytes 4 v) \<longrightarrow> libjade_nvs_get_u32 W h k j s = Ret (ESP_OK, v))"
  using assms by (auto simp: libjade_nvs_get_u32_def libjade_nvs_get_blob_def nvs_look_at wmap_get [OF assms(1)] nvs_inv_def)

interpretation libjade: nvs_store "libjade_nvs W esp32s3" "nvs_inv W" nvs_look "\<lambda>h. h < 5" "(!) nvs_spaces" for W esp32s3
proof (unfold_locales, goal_cases)
  case (1 s ns rw r s')
  then show ?case by (auto simp: libjade_nvs_def libjade_nvs_open_def dest: get_nvs_ns_Some split: option.splits)
next
  case (2 s h k v e s')
  then show ?case using libjade_set_blob by (auto simp: libjade_nvs_def)
next
  case (3 s h k str e s')
  then show ?case using libjade_set_blob by (auto simp: libjade_nvs_def libjade_nvs_set_str_def)
next
  case (4 s h k j e s')
  then show ?case using libjade_set_blob by (auto simp: libjade_nvs_def libjade_nvs_set_u32_def)
next
  case (5 s h k e s')
  from 5 have e: "e = ESP_OK \<or> e = ESP_ERR_NVS_NOT_FOUND"
    by (auto simp: libjade_nvs_def libjade_nvs_erase_key_def split: option.splits)
  from 5 libjade_erase_key have "nvs_inv W s' \<and> only_at (nvs_spaces ! h) k {None} (nvs_look s) (nvs_look s')"
    by (simp add: libjade_nvs_def)
  with e show ?case by simp
next
  case (6 s h e s')
  then show ?case by (auto simp: libjade_nvs_def)
next
  case (7 s h k n d)
  then show ?case using libjade_get_blob by (auto simp: libjade_nvs_def)
next
  case (8 s h k n d)
  then show ?case using libjade_get_blob by (auto simp: libjade_nvs_def)
next
  case (9 s h k j)
  then show ?case using libjade_get_u32 by (auto simp: libjade_nvs_def)
next
  case (10 s e s')
  then show ?case by (auto simp: libjade_nvs_def)
next
  case (11 s e s')
  then show ?case by (auto simp: libjade_nvs_def libjade_nvs_flash_erase_def nvs_inv_def wmap_laws_def nvs_look_def
      split: option.split dest: get_nvs_ns_Some)
qed

interpretation libjade: nvs_reliable "libjade_nvs W esp32s3" "nvs_inv W" nvs_look "\<lambda>h. h < 5" "(!) nvs_spaces"
  "set nvs_spaces" for W esp32s3
proof (unfold_locales, goal_cases)
  case (1 s ns rw)
  then show ?case by (auto simp: libjade_nvs_def libjade_nvs_open_def get_nvs_ns_def nvs_spaces_def)
next
  case (2 s h)
  then show ?case by (simp add: libjade_nvs_def)
next
  case (3 s h k d n)
  then show ?case using libjade_get_blob by (auto simp: libjade_nvs_def)
next
  case (4 s h k e s')
  then show ?case by (auto simp: libjade_nvs_def libjade_nvs_erase_key_def split: option.splits)
next
  case 5
  then show ?case by (simp add: nvs_spaces_def)
qed

text \<open>When no allocation fails, nothing does.\<close>

definition nvs_inv_mem :: "wmap_ops \<Rightarrow> nvs_flash \<Rightarrow> bool" where
  "nvs_inv_mem W s \<longleftrightarrow> nvs_inv W s \<and> (\<forall>n m k v. wally_map_replace W n m k v \<noteq> None)"

interpretation libjade_mem: nvs_perfect "libjade_nvs W esp32s3" "nvs_inv_mem W" nvs_look "\<lambda>h. h < 5" "(!) nvs_spaces"
  "set nvs_spaces" for W esp32s3
proof (unfold_locales, goal_cases)
  case (1 s ns rw r s')
  then show ?case using libjade.open_nvs unfolding nvs_inv_mem_def by blast
next
  case (2 s h k v e s')
  then show ?case using libjade.set_blob unfolding nvs_inv_mem_def by blast
next
  case (3 s h k str e s')
  then show ?case using libjade.set_str unfolding nvs_inv_mem_def by blast
next
  case (4 s h k j e s')
  then show ?case using libjade.set_u32 unfolding nvs_inv_mem_def by blast
next
  case (5 s h k e s')
  then show ?case using libjade.erase unfolding nvs_inv_mem_def by blast
next
  case (6 s h e s')
  then show ?case using libjade.commit unfolding nvs_inv_mem_def by blast
next
  case (7 s h k n d)
  then show ?case using libjade.get_blob unfolding nvs_inv_mem_def by blast
next
  case (8 s h k n d)
  then show ?case using libjade.get_str unfolding nvs_inv_mem_def by blast
next
  case (9 s h k j)
  then show ?case using libjade.get_u32 unfolding nvs_inv_mem_def by blast
next
  case (10 s e s')
  then show ?case using libjade.flash_init unfolding nvs_inv_mem_def by blast
next
  case (11 s e s')
  then show ?case using libjade.flash_erase unfolding nvs_inv_mem_def by blast
next
  case (12 s ns rw)
  then show ?case using libjade.opens unfolding nvs_inv_mem_def by blast
next
  case (13 s h)
  then show ?case using libjade.commits unfolding nvs_inv_mem_def by blast
next
  case (14 s h k d n)
  then show ?case using libjade.finds unfolding nvs_inv_mem_def by blast
next
  case (15 s h k e s')
  then show ?case using libjade.erases unfolding nvs_inv_mem_def by blast
next
  case 16
  then show ?case by (rule libjade.default_space)
next
  case (17 s h k v)
  then show ?case by (auto simp: nvs_inv_mem_def libjade_nvs_def libjade_nvs_set_blob_def Let_def split: option.split)
qed

end
