(* ===== verification/Jade_Storage_Props.thy ===== *)
theory Jade_Storage_Props
  imports Jade_Nvs
begin

text \<open>
  The operations of the storage against the contract of the NVS. An operation may change
  only the entries it is about, also when it fails half way; what it reads is what is
  stored. From these follow that settings read back as they were set, that no replay
  counter is handed out twice, and what the counting of entries gives on the library build.
\<close>

named_theorems storage_ops \<open>definitions of the operations on entries\<close>

declare store_blob_def [storage_ops] read_blob_def [storage_ops] read_blob_fixed_def [storage_ops]
  store_string_def [storage_ops] read_string_def [storage_ops] erase_key_def [storage_ops]
  storage_open_def [storage_ops] storage_write_def [storage_ops] storage_remove_def [storage_ops]

text \<open>Stores that agree outside a set of entries.\<close>

definition same_but :: "(string \<times> string) set \<Rightarrow> store \<Rightarrow> store \<Rightarrow> bool" where
  "same_but X f g \<longleftrightarrow> (\<forall>ns k. (ns, k) \<notin> X \<longrightarrow> g ns k = f ns k)"

lemma same_but_refl [simp]: "same_but X f f"
  by (simp add: same_but_def)

lemma same_but_trans: "same_but X f g \<Longrightarrow> same_but X g h \<Longrightarrow> same_but X f h"
  by (simp add: same_but_def)

lemma same_but_mono: "same_but X f g \<Longrightarrow> X \<subseteq> Y \<Longrightarrow> same_but Y f g"
  by (auto simp: same_but_def)

lemma same_butD: "same_but X f g \<Longrightarrow> (ns, k) \<notin> X \<Longrightarrow> g ns k = f ns k"
  by (simp add: same_but_def)

lemma only_atD: "only_at ns k vs f g \<Longrightarrow> g ns k \<in> vs" "only_at ns k vs f g \<Longrightarrow> same_but {(ns, k)} f g"
  by (auto simp: only_at_def same_but_def)

section \<open>Histories of the storage\<close>

text \<open>
  One operation on the storage that runs to its end, and what it means for the replay
  counter: a counter is handed out, or the flash is wiped, by \<^verbatim>\<open>storage_erase\<close> or by
  \<^verbatim>\<open>storage_init\<close> when it finds the flash unusable. Every operation is one of these or a
  sequence of them; the entry of the replay counter has no other writer.
\<close>

datatype storage_event = Handed u32 | Wiped

inductive storage_step :: "('s, 'h, 'i) nvs \<Rightarrow> 's \<Rightarrow> storage_event list \<Rightarrow> 's \<Rightarrow> bool" for N where
  replay: "storage_get_replay_counter N s = Ret (Some j, t) \<Longrightarrow> storage_step N s [Handed j] t"
| replay_failed: "storage_get_replay_counter N s = Ret (None, t) \<Longrightarrow> storage_step N s [] t"
| wiped: "storage_erase N s = Ret (b, t) \<Longrightarrow> storage_step N s [Wiped] t"
| started: "storage_init N s = Ret (b, t) \<Longrightarrow>
    storage_step N s (if fst (nvs_flash_init N s) \<in> {ESP_ERR_NVS_NO_FREE_PAGES, ESP_ERR_NVS_NEW_VERSION_FOUND} then [Wiped] else []) t"
| store: "ns \<noteq> DEFAULT_NAMESPACE \<or> k \<noteq> REPLAY_COUNTER_FIELD \<Longrightarrow> store_blob N ns (Some k) d s = Ret (b, t) \<Longrightarrow> storage_step N s [] t"
| text_set: "ns \<noteq> DEFAULT_NAMESPACE \<or> k \<noteq> REPLAY_COUNTER_FIELD \<Longrightarrow> store_string N ns (Some k) v s = Ret (b, t) \<Longrightarrow> storage_step N s [] t"
| erased: "ns \<noteq> DEFAULT_NAMESPACE \<or> k \<noteq> REPLAY_COUNTER_FIELD \<Longrightarrow> erase_key N ns (Some k) s = Ret (b, t) \<Longrightarrow> storage_step N s [] t"
| read: "read_blob N ns (Some k) len s = Ret (r, t) \<Longrightarrow> storage_step N s [] t"
| pinserver: "storage_set_pinserver_details N a b p s = Ret (r, t) \<Longrightarrow> storage_step N s [] t"
| pinserver_erased: "storage_erase_pinserver_details N s = Ret (r, t) \<Longrightarrow> storage_step N s [] t"

inductive storage_run :: "('s, 'h, 'i) nvs \<Rightarrow> 's \<Rightarrow> storage_event list \<Rightarrow> 's \<Rightarrow> bool" for N where
  start: "storage_run N s [] s"
| step: "storage_step N s es t \<Longrightarrow> storage_run N t fs u \<Longrightarrow> storage_run N s (es @ fs) u"

text \<open>The counters handed out rise from \<^verbatim>\<open>n\<close>, and from 0 after a wipe.\<close>

fun rises :: "nat \<Rightarrow> storage_event list \<Rightarrow> bool" where
  "rises n [] \<longleftrightarrow> True"
| "rises n (Handed j # es) \<longleftrightarrow> n \<le> unat j \<and> rises (Suc (unat j)) es"
| "rises n (Wiped # es) \<longleftrightarrow> rises 0 es"

lemma rises_from: "rises m es \<Longrightarrow> n \<le> m \<Longrightarrow> rises n es"
  by (induction m es rule: rises.induct) auto

lemma rises_until: "rises n (es @ Handed j # fs) \<Longrightarrow> Wiped \<notin> set es \<Longrightarrow> n \<le> unat j"
  by (induction n es rule: rises.induct) auto

lemma rises_between: "rises n (es @ Handed i # fs @ Handed j # gs) \<Longrightarrow> Wiped \<notin> set fs \<Longrightarrow> unat i < unat j"
  by (induction n es rule: rises.induct) (auto dest: rises_until)

section \<open>The operations under the contract\<close>

context nvs_store
begin

lemma opened:
  assumes "inv s" and "storage_open N ns rw failed body s = Ret (r, s')"
  obtains (failed) "r = failed" "inv s'" "look s' = look s"
  | (opened) h t where "handle h" "ns_of h = ns" "inv t" "look t = look s" "body h t = Ret (r, s')"
proof (cases "nvs_open N ns rw s")
  case (Pair e t)
  with open_nvs [OF assms(1) Pair] assms(2) show ?thesis
    by (cases e) (auto simp: storage_open_def intro: failed opened)
qed

lemma store_blob:
  assumes "inv s" and "store_blob N ns name data s = Ret (r, s')"
  shows "inv s' \<and> only_at ns (the name) (if r then {Some (the data)} else {look s ns (the name), Some (the data)})
    (look s) (look s')"
proof -
  from assms(2) have "storage_open N ns NVS_READWRITE False (\<lambda>h.
     storage_write (nvs_set_blob N h (the name) (the data)) (storage_write (nvs_commit N h) (give True))) s = Ret (r, s')"
    by (simp add: store_blob_def run_simps)
  from assms(1) this show ?thesis
  proof (cases rule: opened)
    case failed
    with assms(1) show ?thesis by (simp add: only_at_refl)
  next
    case (opened h t)
    obtain e u where u: "nvs_set_blob N h (the name) (the data) t = (e, u)" by fastforce
    obtain e' w where w: "nvs_commit N h u = (e', w)" by fastforce
    from set_blob [OF \<open>inv t\<close> \<open>handle h\<close> u] commit [OF _ \<open>handle h\<close> w] u w opened show ?thesis
      by (auto simp: storage_write_def only_at_def run_simps split: if_splits)
  qed
qed

lemma store_string:
  assumes "inv s" and "store_string N ns name str s = Ret (r, s')"
  shows "inv s' \<and> only_at ns (the name) (if r then {Some (cstring (the str))} else {look s ns (the name), Some (cstring (the str))})
    (look s) (look s')"
proof -
  from assms(2) have "storage_open N ns NVS_READWRITE False (\<lambda>h.
     storage_write (nvs_set_str N h (the name) (the str)) (storage_write (nvs_commit N h) (give True))) s = Ret (r, s')"
    by (simp add: store_string_def run_simps)
  from assms(1) this show ?thesis
  proof (cases rule: opened)
    case failed
    with assms(1) show ?thesis by (simp add: only_at_refl)
  next
    case (opened h t)
    obtain e u where u: "nvs_set_str N h (the name) (the str) t = (e, u)" by fastforce
    obtain e' w where w: "nvs_commit N h u = (e', w)" by fastforce
    from set_str [OF \<open>inv t\<close> \<open>handle h\<close> u] commit [OF _ \<open>handle h\<close> w] u w opened show ?thesis
      by (auto simp: storage_write_def only_at_def run_simps split: if_splits)
  qed
qed

lemma erase_key:
  assumes "inv s" and "erase_key N ns name s = Ret (r, s')"
  shows "inv s' \<and> only_at ns (the name) (if r then {None} else {look s ns (the name), None}) (look s) (look s')"
proof -
  from assms(2) have "storage_open N ns NVS_READWRITE False (\<lambda>h.
     storage_remove N h (the name) (storage_write (nvs_commit N h) (give True))) s = Ret (r, s')"
    by (simp add: erase_key_def run_simps)
  from assms(1) this show ?thesis
  proof (cases rule: opened)
    case failed
    with assms(1) show ?thesis by (simp add: only_at_refl)
  next
    case (opened h t)
    obtain e u where u: "nvs_erase_key N h (the name) t = (e, u)" by fastforce
    obtain e' w where w: "nvs_commit N h u = (e', w)" by fastforce
    from erase [OF \<open>inv t\<close> \<open>handle h\<close> u] commit [OF _ \<open>handle h\<close> w] u w opened show ?thesis
      by (auto simp: storage_remove_def storage_write_def only_at_def run_simps split: if_splits)
  qed
qed

lemma read_blob:
  assumes "inv s" and "read_blob N ns name len s = Ret (r, s')"
  shows "inv s' \<and> look s' = look s \<and> (\<forall>d. r = Some d \<longrightarrow> look s ns (the name) = Some d \<and> length d \<le> len)"
proof -
  from assms(2) have "storage_open N ns NVS_READONLY None (\<lambda>h s.
     case nvs_get_blob N h (the name) len s of Inl err \<Rightarrow> Ret (None, s) | Inr d \<Rightarrow> Ret (Some d, s)) s = Ret (r, s')"
    by (simp add: read_blob_def run_simps)
  from assms(1) this show ?thesis
  proof (cases rule: opened)
    case failed
    then show ?thesis by simp
  next
    case (opened h t)
    then show ?thesis using get_blob [OF \<open>inv t\<close> \<open>handle h\<close>, of "the name" len] by (auto split: sum.splits)
  qed
qed

lemma read_blob_fixed:
  assumes "inv s" and "read_blob_fixed N ns name len s = Ret (r, s')"
  shows "inv s' \<and> look s' = look s \<and> (\<forall>d. r = Some d \<longrightarrow> look s ns (the name) = Some d \<and> length d = len)"
  using assms read_blob by (fastforce simp: read_blob_fixed_def run_simps split: option.splits if_splits)

lemma read_raw:
  assumes "inv s" and "read_raw N ns name n s = Ret (v, s')"
  shows "inv s' \<and> look s' = look s"
  using assms read_blob_fixed by (fastforce simp: read_raw_def run_simps)

lemma store_raw:
  assumes "inv s" and "store_raw N ns name n v s = Ret (r, s')"
  shows "inv s' \<and> only_at ns (the name) (if r then {Some (raw_bytes n v)} else {look s ns (the name), Some (raw_bytes n v)})
    (look s) (look s')"
  using store_blob [OF assms(1), of ns name "Some (raw_bytes n v)"] assms(2)
  unfolding store_raw_def option.sel by blast

text \<open>The stored replay counter; a fresh device has none and starts at 0.\<close>

definition replay :: "'s \<Rightarrow> nat option" where
  "replay s = (case look s DEFAULT_NAMESPACE REPLAY_COUNTER_FIELD of
     None \<Rightarrow> Some 0
   | Some d \<Rightarrow> if length d = 4 then Some (le_nat d) else None)"

lemma replay_raw: "look s DEFAULT_NAMESPACE REPLAY_COUNTER_FIELD = Some (raw_bytes 4 (v :: u32)) \<Longrightarrow> replay s = Some (unat v)"
  using unsigned_less [of v, where ?'a = nat] by (simp add: replay_def raw_bytes_def le_nat_le_digits)

lemma replay_Some_cases:
  assumes "replay s = Some n"
  obtains "look s DEFAULT_NAMESPACE REPLAY_COUNTER_FIELD = None" "n = 0"
  | v where "look s DEFAULT_NAMESPACE REPLAY_COUNTER_FIELD = Some (raw_bytes 4 (v :: u32))" "n = unat v"
proof (cases "look s DEFAULT_NAMESPACE REPLAY_COUNTER_FIELD")
  case None
  with assms show ?thesis by (auto simp: replay_def intro: that)
next
  case (Some d)
  with assms have d: "length d = 4" "n = le_nat d" by (auto simp: replay_def split: if_splits)
  with le_nat_less [of d] have n: "n < 2 ^ 32" by simp
  then have "unat (of_nat n :: u32) = n" by (simp add: unat_of_nat)
  then have "Some d = Some (raw_bytes 4 (of_nat n :: u32))"
    using le_digits_le_nat [of d] d by (simp add: raw_bytes_def)
  with Some \<open>unat (of_nat n :: u32) = n\<close> show ?thesis by (metis that(2))
qed

lemma replay_counter:
  assumes "inv s" and "replay s = Some n" and "storage_get_replay_counter N s = Ret (r, s')"
  shows "inv s' \<and> (\<exists>m. replay s' = Some m \<and> n \<le> m \<and> (\<forall>j. r = Some j \<longrightarrow> unat j = n \<and> m = n + 1))
    \<and> same_but {(DEFAULT_NAMESPACE, REPLAY_COUNTER_FIELD)} (look s) (look s')"
  using assms(1) assms(3) [unfolded storage_get_replay_counter_def]
proof (cases rule: opened)
  case failed
  with assms(2) show ?thesis by (simp add: replay_def)
next
  case (opened h t)
  have same: "replay t = replay s" using opened by (simp add: replay_def)
  have got: "r = None \<and> s' = t \<or> (\<exists>j. unat j = n \<and> replay_advance N h j t = Ret (r, s'))"
  proof -
    note u = get_u32 [OF \<open>inv t\<close> \<open>handle h\<close>, of REPLAY_COUNTER_FIELD "0xFFFFFFFF"]
    from assms(2) show ?thesis
    proof (cases rule: replay_Some_cases)
      case 1
      with u opened show ?thesis by (auto simp: then_run_Ret_iff split: if_splits intro: exI [of _ 0])
    next
      case (2 v)
      with u opened have "nvs_get_u32 N h REPLAY_COUNTER_FIELD 0xFFFFFFFF t = Ret (ESP_OK, v)
           \<or> (\<exists>e j'. e \<noteq> ESP_OK \<and> e \<noteq> ESP_ERR_NVS_NOT_FOUND \<and> nvs_get_u32 N h REPLAY_COUNTER_FIELD 0xFFFFFFFF t = Ret (e, j'))"
        by simp
      with 2 opened show ?thesis by (auto simp: then_run_Ret_iff split: if_splits)
    qed
  qed
  then show ?thesis
  proof
    assume "r = None \<and> s' = t"
    with opened same assms(2) show ?thesis by simp
  next
    assume "\<exists>j. unat j = n \<and> replay_advance N h j t = Ret (r, s')"
    then obtain j where j: "unat j = n" "j < 0xFFFFFFFF" and rest: "replay_advance N h j t = Ret (r, s')"
      by (auto simp: replay_advance_def run_simps)
    from j(2) have succ: "unat (j + 1) = n + 1"
      using j(1) by (subst unat_add_lem [THEN iffD1]) (auto simp: word_less_nat_alt)
    obtain e u where u: "nvs_set_u32 N h REPLAY_COUNTER_FIELD (j + 1) t = (e, u)" by fastforce
    obtain e' w where w: "nvs_commit N h u = (e', w)" by fastforce
    from set_u32 [OF \<open>inv t\<close> \<open>handle h\<close> u] opened have u': "inv u"
      "look u DEFAULT_NAMESPACE REPLAY_COUNTER_FIELD \<in> (if e = ESP_OK then {Some (raw_bytes 4 (j + 1))}
         else {look s DEFAULT_NAMESPACE REPLAY_COUNTER_FIELD, Some (raw_bytes 4 (j + 1))})"
      "same_but {(DEFAULT_NAMESPACE, REPLAY_COUNTER_FIELD)} (look s) (look u)"
      by (auto dest: only_atD)
    from commit [OF u'(1) \<open>handle h\<close> w] have w': "inv w" "look w = look u" by auto
    have ru: "replay u = Some n \<or> replay u = Some (n + 1)" "e = ESP_OK \<Longrightarrow> replay u = Some (n + 1)"
      using u'(2) assms(2) replay_raw [of u "j + 1"] succ by (auto simp: replay_def split: if_splits)
    have "replay w = replay u" using w' by (simp add: replay_def)
    with rest u w u' w' ru j show ?thesis by (auto simp: replay_advance_def run_simps split: if_splits)
  qed
qed

text \<open>A sequence of writes through one handle, each of which may end the operation.\<close>

definition touches :: "(string \<times> string) set \<Rightarrow> ('s, 'a) act \<Rightarrow> bool" where
  "touches X m \<longleftrightarrow> (\<forall>s r t. inv s \<longrightarrow> m s = Ret (r, t) \<longrightarrow> inv t \<and> same_but X (look s) (look t))"

lemma touchesD: "touches X m \<Longrightarrow> inv s \<Longrightarrow> m s = Ret (r, t) \<Longrightarrow> inv t \<and> same_but X (look s) (look t)"
  by (simp add: touches_def)

lemma touches_give: "touches X (give a)"
  by (simp add: touches_def run_simps)

lemma touches_andthen:
  assumes m: "touches X m" and f: "\<And>a. touches X (f a)"
  shows "touches X (andthen m f)"
  unfolding touches_def
proof (intro allI impI)
  fix s r t
  assume "inv s" and "andthen m f s = Ret (r, t)"
  then obtain a u where a: "m s = Ret (a, u)" "f a u = Ret (r, t)" by (auto simp: run_simps)
  from touchesD [OF m \<open>inv s\<close> a(1)] have u: "inv u" "same_but X (look s) (look u)" by auto
  from touchesD [OF f u(1) a(2)] u(2) show "inv t \<and> same_but X (look s) (look t)" by (blast intro: same_but_trans)
qed

lemma touches_insist: "touches X (insist b)"
  by (simp add: touches_def run_simps)

lemma touches_open:
  assumes body: "\<And>h. handle h \<Longrightarrow> ns_of h = ns \<Longrightarrow> touches X (body h)"
  shows "touches X (storage_open N ns rw a body)"
  unfolding touches_def
proof (intro allI impI)
  fix s r t
  assume "inv s" and "storage_open N ns rw a body s = Ret (r, t)"
  then show "inv t \<and> same_but X (look s) (look t)"
  proof (cases rule: opened)
    case failed
    then show ?thesis by simp
  next
    case (opened h u)
    from touchesD [OF body [OF opened(1,2)] opened(3,5)] opened(4) show ?thesis by simp
  qed
qed

text \<open>A call of the NVS that changes at most the entries \<^verbatim>\<open>X\<close>.\<close>

definition call_touches :: "(string \<times> string) set \<Rightarrow> ('s \<Rightarrow> esp_err_t \<times> 's) \<Rightarrow> bool" where
  "call_touches X call \<longleftrightarrow> (\<forall>s e t. inv s \<longrightarrow> call s = (e, t) \<longrightarrow> inv t \<and> same_but X (look s) (look t))"

lemma call_touches_nvs:
  assumes "handle h"
  shows "(ns_of h, k) \<in> X \<Longrightarrow> call_touches X (nvs_set_str N h k v)" "(ns_of h, k) \<in> X \<Longrightarrow> call_touches X (nvs_set_blob N h k d)"
    and "(ns_of h, k) \<in> X \<Longrightarrow> call_touches X (nvs_erase_key N h k)" "call_touches X (nvs_commit N h)"
proof -
  have "same_but X f g" if "only_at (ns_of h) k vs f g" "(ns_of h, k) \<in> X" for vs f g
    by (rule same_but_mono [OF only_atD(2) [OF that(1)]]) (use that(2) in simp)
  then show "(ns_of h, k) \<in> X \<Longrightarrow> call_touches X (nvs_set_str N h k v)" "(ns_of h, k) \<in> X \<Longrightarrow> call_touches X (nvs_set_blob N h k d)"
    "(ns_of h, k) \<in> X \<Longrightarrow> call_touches X (nvs_erase_key N h k)"
    using set_str [OF _ assms] set_blob [OF _ assms] erase [OF _ assms] unfolding call_touches_def by metis+
  show "call_touches X (nvs_commit N h)" using commit [OF _ assms] unfolding call_touches_def by (metis same_but_refl)
qed

lemma touches_write:
  assumes c: "call_touches X call" and r: "touches X rest"
  shows "touches X (storage_write call rest)"
  unfolding touches_def
proof (intro allI impI)
  fix s a t
  assume "inv s" and w: "storage_write call rest s = Ret (a, t)"
  obtain e u where u: "call s = (e, u)" by fastforce
  with c \<open>inv s\<close> have "inv u \<and> same_but X (look s) (look u)" by (simp add: call_touches_def)
  with w u r show "inv t \<and> same_but X (look s) (look t)"
    by (auto simp: storage_write_def touches_def split: if_splits intro: same_but_trans)
qed

lemma touches_set_str: "handle h \<Longrightarrow> (ns_of h, k) \<in> X \<Longrightarrow> touches X rest \<Longrightarrow> touches X (storage_write (nvs_set_str N h k v) rest)"
  by (rule touches_write [OF call_touches_nvs(1)])

lemma touches_set_blob: "handle h \<Longrightarrow> (ns_of h, k) \<in> X \<Longrightarrow> touches X rest \<Longrightarrow> touches X (storage_write (nvs_set_blob N h k v) rest)"
  by (rule touches_write [OF call_touches_nvs(2)])

lemma touches_commit: "handle h \<Longrightarrow> touches X rest \<Longrightarrow> touches X (storage_write (nvs_commit N h) rest)"
  by (rule touches_write [OF call_touches_nvs(4)])

lemma touches_remove:
  assumes "handle h" and "(ns_of h, k) \<in> X" and r: "touches X rest"
  shows "touches X (storage_remove N h k rest)"
  unfolding touches_def
proof (intro allI impI)
  fix s a t
  assume "inv s" and w: "storage_remove N h k rest s = Ret (a, t)"
  obtain e u where u: "nvs_erase_key N h k s = (e, u)" by fastforce
  with call_touches_nvs(3) [OF assms(1,2)] \<open>inv s\<close> have "inv u \<and> same_but X (look s) (look u)" by (simp add: call_touches_def)
  with w u r show "inv t \<and> same_but X (look s) (look t)"
    by (auto simp: storage_remove_def touches_def split: if_splits intro: same_but_trans)
qed

lemmas touches_intros = touches_give touches_insist touches_andthen touches_open touches_set_str touches_set_blob
  touches_commit touches_remove

lemma touches_store_blob: "touches {(ns, the name)} (store_blob N ns name d)"
  unfolding touches_def using store_blob only_atD(2) by metis

lemma touches_store_string: "touches {(ns, the name)} (store_string N ns name v)"
  unfolding touches_def using store_string only_atD(2) by metis

lemma touches_erase_key: "touches {(ns, the name)} (erase_key N ns name)"
  unfolding touches_def using erase_key only_atD(2) by metis

lemma touches_read_fixed: "touches X (read_blob_fixed N ns name len)"
  unfolding touches_def using read_blob_fixed same_but_refl by metis

lemma touches_read: "touches X (read_blob N ns name len)"
  unfolding touches_def using read_blob same_but_refl by metis

lemma touches_mono: "touches X m \<Longrightarrow> X \<subseteq> Y \<Longrightarrow> touches Y m"
  by (auto simp: touches_def intro: same_but_mono)

lemma touches_pinserver:
  "touches (Pair DEFAULT_NAMESPACE ` {USER_PINSERVER_URL_A, USER_PINSERVER_URL_B, USER_PINSERVER_PUBKEY, PIN_PRIVATEKEY_FIELD})
     (storage_set_pinserver_details N a b p)"
  "touches (Pair DEFAULT_NAMESPACE ` {USER_PINSERVER_URL_A, USER_PINSERVER_URL_B, USER_PINSERVER_PUBKEY, PIN_PRIVATEKEY_FIELD})
     (storage_erase_pinserver_details N)"
  unfolding storage_set_pinserver_details_def storage_erase_pinserver_details_def Let_def
  by (auto intro!: touches_intros split: option.split)

lemma replay_same:
  assumes "same_but X (look s) (look t)" and "(DEFAULT_NAMESPACE, REPLAY_COUNTER_FIELD) \<notin> X"
  shows "replay t = replay s"
  using same_butD [OF assms] by (simp add: replay_def)

lemma replay_touches:
  assumes "touches X m" and "inv s" and "m s = Ret (r, t)" and "(DEFAULT_NAMESPACE, REPLAY_COUNTER_FIELD) \<notin> X"
  shows "inv t \<and> replay t = replay s"
  using touchesD [OF assms(1-3)] replay_same assms(4) by blast

text \<open>Starting and wiping.\<close>

lemma replay_wiped:
  assumes "inv s" and "replay s = Some n" and "storage_erase N s = Ret (b, t)"
  shows "inv t \<and> (replay t = Some n \<or> replay t = Some 0)"
proof -
  obtain e u where u: "nvs_flash_erase N s = (e, u)" by fastforce
  with assms(3) have "u = t" by (simp add: storage_erase_def)
  with flash_erase [OF assms(1) u] have "inv t" and
    "look t DEFAULT_NAMESPACE REPLAY_COUNTER_FIELD \<in> {None, look s DEFAULT_NAMESPACE REPLAY_COUNTER_FIELD}" by auto
  with assms(2) show ?thesis by (auto simp: replay_def)
qed

lemma replay_started:
  assumes "inv s" and "replay s = Some n" and "storage_init N s = Ret (b, t)"
  shows "inv t \<and> (replay t = Some n
    \<or> fst (nvs_flash_init N s) \<in> {ESP_ERR_NVS_NO_FREE_PAGES, ESP_ERR_NVS_NEW_VERSION_FOUND} \<and> replay t = Some 0)"
proof -
  obtain e u where u: "nvs_flash_init N s = (e, u)" by fastforce
  from flash_init [OF assms(1) u] assms(2) have u': "inv u" "replay u = Some n" by (simp_all add: replay_def)
  have again: "inv w \<and> replay w = replay v" if "inv v" "nvs_flash_init N v = (e', w)" for e' v w
    using flash_init [OF that] by (simp add: replay_def)
  from assms(3) obtain v where v: "inv v" "replay v = Some n
      \<or> e \<in> {ESP_ERR_NVS_NO_FREE_PAGES, ESP_ERR_NVS_NEW_VERSION_FOUND} \<and> replay v = Some 0"
    and last: "\<exists>r. erase_key N DEFAULT_NAMESPACE (Some CLICK_EVENT_FIELD) v = Ret (r, t)"
  proof -
    assume found: "\<And>v. inv v \<Longrightarrow> replay v = Some n
        \<or> e \<in> {ESP_ERR_NVS_NO_FREE_PAGES, ESP_ERR_NVS_NEW_VERSION_FOUND} \<and> replay v = Some 0 \<Longrightarrow>
      \<exists>r. erase_key N DEFAULT_NAMESPACE (Some CLICK_EVENT_FIELD) v = Ret (r, t) \<Longrightarrow> thesis"
    show thesis
    proof (cases "e \<in> {ESP_ERR_NVS_NO_FREE_PAGES, ESP_ERR_NVS_NEW_VERSION_FOUND}")
      case False
      with assms(3) u have "\<exists>r. erase_key N DEFAULT_NAMESPACE (Some CLICK_EVENT_FIELD) u = Ret (r, t)"
        by (auto simp: storage_init_def then_run_Ret_iff)
      with found u' show thesis by blast
    next
      case True
      obtain erased w where w: "storage_erase N u = Ret (erased, w)" by (cases "nvs_flash_erase N u") (simp add: storage_erase_def)
      obtain e' x where x: "nvs_flash_init N w = (e', x)" by fastforce
      from replay_wiped [OF u' w] again [OF _ x] have wx: "inv w" "replay w = Some n \<or> replay w = Some 0" "inv x" "replay x = replay w"
        by auto
      from assms(3) u True w x have "\<exists>r. erase_key N DEFAULT_NAMESPACE (Some CLICK_EVENT_FIELD) (if erased then x else w) = Ret (r, t)"
        by (auto simp: storage_init_def then_run_Ret_iff split: if_splits)
      with found [of "if erased then x else w"] wx True show thesis by auto
    qed
  qed
  from last obtain r where "erase_key N DEFAULT_NAMESPACE (Some CLICK_EVENT_FIELD) v = Ret (r, t)" by blast
  from replay_touches [OF touches_erase_key v(1) this] have "inv t \<and> replay t = replay v" by (simp add: storage_names)
  with v u show ?thesis by auto
qed

lemma replay_step:
  assumes "storage_step N s es t" and "inv s" and "replay s = Some n" and "\<And>m. replay t = Some m \<Longrightarrow> rises m fs"
  shows "inv t \<and> (\<exists>m. replay t = Some m) \<and> rises n (es @ fs)"
  using assms(1-3)
proof cases
  case (replay j)
  then show ?thesis using replay_counter [OF assms(2,3)] assms(4) by fastforce
next
  case replay_failed
  then show ?thesis using replay_counter [OF assms(2,3)] assms(4) by (fastforce intro: rises_from)
next
  case (wiped b)
  with replay_wiped [OF assms(2,3)] assms(4) show ?thesis by (auto intro: rises_from)
next
  case (started b)
  with replay_started [OF assms(2,3)] assms(4) show ?thesis by (auto intro: rises_from)
next
  case (store ns k d b)
  with replay_touches [OF touches_store_blob assms(2) store(3)] assms(3,4) show ?thesis by auto
next
  case (text_set ns k v b)
  with replay_touches [OF touches_store_string assms(2) text_set(3)] assms(3,4) show ?thesis by auto
next
  case (erased ns k b)
  with replay_touches [OF touches_erase_key assms(2) erased(3)] assms(3,4) show ?thesis by auto
next
  case (read ns k len r)
  with replay_touches [OF touches_read [of "{}"] assms(2) read(2)] assms(3,4) show ?thesis by auto
next
  case (pinserver a b p r)
  with replay_touches [OF touches_pinserver(1) assms(2) pinserver(2)] assms(3,4) show ?thesis by (auto simp: storage_names)
next
  case (pinserver_erased r)
  with replay_touches [OF touches_pinserver(2) assms(2) pinserver_erased(2)] assms(3,4) show ?thesis by (auto simp: storage_names)
qed

lemma replay_run:
  assumes "storage_run N s es t" and "inv s" and "replay s = Some n"
  shows "rises n es"
  using assms
proof (induction arbitrary: n)
  case (start s)
  then show ?case by simp
next
  case (step s es t fs u)
  have t: "inv t \<and> (\<exists>m. replay t = Some m)" using replay_step [OF step.hyps(1) step.prems, of "[]"] by simp
  with step.IH replay_step [OF step.hyps(1) step.prems, of fs] show ?case by blast
qed

end

text \<open>When the NVS is reliable, what an entry holds is read back.\<close>

context nvs_reliable
begin

lemma read_back:
  assumes "inv s" and "ns \<in> spaces" and "look s ns k = Some d" and "length d = len" and "0 < len"
  shows "\<exists>t. read_blob_fixed N ns (Some k) len s = Ret (Some d, t)"
proof -
  from opens [OF assms(1,2)] obtain h t where t: "nvs_open N ns NVS_READONLY s = (Inr h, t)" by blast
  from open_nvs [OF assms(1) t] have "inv t" "handle h" "ns_of h = ns" "look t = look s" by auto
  with finds [of t h k d len] assms(3,4) have "nvs_get_blob N h k len t = Inr d" by simp
  with t assms(4,5) show ?thesis
    by (simp add: read_blob_fixed_def read_blob_def storage_open_def andthen_def give_def)
qed

lemma read_short:
  assumes "inv s" and "ns \<in> spaces" and "look s ns k = Some d" and "length d < len"
  shows "\<exists>t. read_blob_fixed N ns (Some k) len s = Ret (None, t)"
proof -
  from opens [OF assms(1,2)] obtain h t where t: "nvs_open N ns NVS_READONLY s = (Inr h, t)" by blast
  from open_nvs [OF assms(1) t] have "inv t" "handle h" "ns_of h = ns" "look t = look s" by auto
  with finds [of t h k d len] assms(3,4) have "nvs_get_blob N h k len t = Inr d" by simp
  moreover from assms(4) have "0 < len" by simp
  ultimately show ?thesis using t assms(4)
    by (simp add: read_blob_fixed_def read_blob_def storage_open_def andthen_def give_def)
qed

lemma raw_read_back:
  assumes "inv s" and "ns \<in> spaces" and "look s ns k = Some (raw_bytes n v)" and "0 < n"
    and "256 ^ n = (2 :: nat) ^ LENGTH('w)"
  shows "\<exists>t. read_raw N ns (Some k) n s = Ret (v :: 'w::len word, t)"
proof -
  from read_back [OF assms(1-3) length_raw_bytes assms(4)] obtain t where
    "read_blob_fixed N ns (Some k) n s = Ret (Some (raw_bytes n v), t)" by blast
  then show ?thesis using raw_value_bytes [OF assms(5), of v] by (simp add: read_raw_def andthen_def give_def)
qed

end

end
