(* ===== verification/Jade_Storage_Theorems.thy ===== *)
theory Jade_Storage_Theorems
  imports Jade_Storage_Props
begin

text \<open>
  What holds of the storage on the NVS of the library build, and inputs on which it is
  seen: a fresh flash over maps that keep libwally's laws.
\<close>

section \<open>A flash to try things on\<close>

definition demo_wmap :: wmap_ops where
  "demo_wmap = \<lparr>wally_map_replace = (\<lambda>_ m k v. Some ((k, v) # filter (\<lambda>(k', v'). k' \<noteq> k) m)),
     wally_map_remove = (\<lambda>m k. Some (filter (\<lambda>(k', v'). k' \<noteq> k) m)),
     wally_map_get = map_of, wally_map_clear = (\<lambda>m. []), host_malloc = (\<lambda>_. True), host_pointer_size = 8\<rparr>"

definition fresh_flash :: nvs_flash where
  "fresh_flash = \<lparr>nvs_storage = [[], [], [], [], []], nvs_calls = 0\<rparr>"

lemma map_of_filter_key: "map_of (filter (\<lambda>(k', v'). k' \<noteq> k) m) = (map_of m)(k := None)"
  by (induction m) (auto simp: fun_eq_iff)

lemma demo_wmap_laws: "wmap_laws demo_wmap"
  by (simp add: wmap_laws_def demo_wmap_def map_of_filter_key)

lemma fresh_flash_inv: "nvs_inv demo_wmap fresh_flash"
  by (simp add: nvs_inv_def demo_wmap_laws fresh_flash_def) (simp add: demo_wmap_def)

section \<open>Settings\<close>

text \<open>A setter that returned true is followed by a getter that returns the value; no other entry changed.\<close>

definition reads_back ::
  "(nvs_flash, bool) act \<Rightarrow> (nvs_flash, 'v) act \<Rightarrow> 'v \<Rightarrow> string \<Rightarrow> string \<Rightarrow> nvs_flash \<Rightarrow> bool" where
  "reads_back setter getter v ns k s \<longleftrightarrow> (\<forall>t. setter s = Ret (True, t) \<longrightarrow>
     (\<exists>u. getter t = Ret (v, u)) \<and> same_but {(ns, k)} (nvs_look s) (nvs_look t))"

lemma raw_reads_back:
  assumes "nvs_inv W s" and "ns \<in> set nvs_spaces" and "0 < n" and "256 ^ n = (2 :: nat) ^ LENGTH('w)"
  shows "reads_back (store_raw (libjade_nvs W c) ns (Some k) n (v :: 'w::len word))
    (read_raw (libjade_nvs W c) ns (Some k) n) v ns k s"
  unfolding reads_back_def
proof (intro allI impI)
  fix t
  assume "store_raw (libjade_nvs W c) ns (Some k) n v s = Ret (True, t)"
  from libjade.store_raw [OF assms(1) this] have t: "nvs_inv W t"
    and at: "only_at ns k {Some (raw_bytes n v)} (nvs_look s) (nvs_look t)" by simp_all
  from only_atD(1) [OF at] have "nvs_look t ns k = Some (raw_bytes n v)" by simp
  from libjade.raw_read_back [OF t assms(2) this assms(3,4)] only_atD(2) [OF at]
  show "(\<exists>u. read_raw (libjade_nvs W c) ns (Some k) n t = Ret (v, u)) \<and> same_but {(ns, k)} (nvs_look s) (nvs_look t)"
    by blast
qed

lemma reads_back_mono:
  assumes "reads_back setter getter v ns k s" and "\<And>t u. getter t = Ret (v, u) \<Longrightarrow> \<exists>u. getter' t = Ret (v', u)"
  shows "reads_back setter getter' v' ns k s"
  using assms unfolding reads_back_def by blast

lemma blob_reads_back:
  assumes "nvs_inv W s" and "ns \<in> set nvs_spaces" and "d \<noteq> []"
  shows "reads_back (store_blob (libjade_nvs W c) ns (Some k) (Some d))
    (read_blob_fixed (libjade_nvs W c) ns (Some k) (length d)) (Some d) ns k s"
  unfolding reads_back_def
proof (intro allI impI)
  fix t
  assume "store_blob (libjade_nvs W c) ns (Some k) (Some d) s = Ret (True, t)"
  from libjade.store_blob [OF assms(1) this] have t: "nvs_inv W t"
    and at: "only_at ns k {Some d} (nvs_look s) (nvs_look t)" by simp_all
  from only_atD(1) [OF at] have "nvs_look t ns k = Some d" by simp
  from libjade.read_back [OF t assms(2) this refl] assms(3) only_atD(2) [OF at]
  show "(\<exists>u. read_blob_fixed (libjade_nvs W c) ns (Some k) (length d) t = Ret (Some d, u))
    \<and> same_but {(ns, k)} (nvs_look s) (nvs_look t)" by simp
qed

lemma short_qr_flags:
  assumes "nvs_inv W s"
  shows "reads_back (store_raw (libjade_nvs W c) DEFAULT_NAMESPACE (Some QR_FLAGS_FIELD) 2 (v :: u16))
    (storage_get_qr_flags (libjade_nvs W c)) (ucast v) DEFAULT_NAMESPACE QR_FLAGS_FIELD s"
  unfolding reads_back_def
proof (intro allI impI conjI)
  fix t
  assume "store_raw (libjade_nvs W c) DEFAULT_NAMESPACE (Some QR_FLAGS_FIELD) 2 v s = Ret (True, t)"
  from libjade.store_raw [OF assms(1) this] have t: "nvs_inv W t"
    and at: "only_at DEFAULT_NAMESPACE QR_FLAGS_FIELD {Some (raw_bytes 2 v)} (nvs_look s) (nvs_look t)" by simp_all
  from only_atD(2) [OF at] show "same_but {(DEFAULT_NAMESPACE, QR_FLAGS_FIELD)} (nvs_look s) (nvs_look t)" .
  have D: "DEFAULT_NAMESPACE \<in> set nvs_spaces" by (simp add: nvs_spaces_def)
  from only_atD(1) [OF at] have l: "nvs_look t DEFAULT_NAMESPACE QR_FLAGS_FIELD = Some (raw_bytes 2 v)" by simp
  from libjade.read_short [OF t D l, of 4] obtain t' where
    t': "read_blob_fixed (libjade_nvs W c) DEFAULT_NAMESPACE (Some QR_FLAGS_FIELD) 4 t = Ret (None, t')" by auto
  from libjade.read_blob_fixed [OF t t'] have "nvs_inv W t'" "nvs_look t' = nvs_look t" by simp_all
  with libjade.read_back [of W t', OF _ D, of QR_FLAGS_FIELD "raw_bytes 2 v" 2] l obtain u where
    "read_blob_fixed (libjade_nvs W c) DEFAULT_NAMESPACE (Some QR_FLAGS_FIELD) 2 t' = Ret (Some (raw_bytes 2 v), u)" by auto
  with t' show "\<exists>u. storage_get_qr_flags (libjade_nvs W c) t = Ret (ucast v, u)"
    by (simp add: storage_get_qr_flags_def andthen_def give_def)
qed

lemmas setting_defs = storage_set_idle_timeout_def storage_get_idle_timeout_def storage_set_brightness_def
  storage_get_brightness_def storage_set_gui_flags_def storage_get_gui_flags_def storage_set_ble_flags_def
  storage_get_ble_flags_def storage_set_qr_flags_def storage_set_key_flags_def storage_get_key_flags_def
  storage_set_otp_hotp_counter_def storage_get_otp_hotp_counter_def storage_set_network_type_restriction_def
  storage_set_wallet_erase_pin_def storage_get_wallet_erase_pin_def

text \<open>C39: Settings read back as they were set. On the NVS of the library build, for every
  scalar setting, the network type, the HOTP counters and the wallet-erase PIN: if the
  setter returns true, the getter then returns the value at its full width, and no other
  entry of the storage has changed. The QR flags, which used to be stored in 16 bits, are
  also read from a two-byte entry.\<close>

theorem settings_roundtrip:
  fixes W :: wmap_ops and c :: bool
  defines "N \<equiv> libjade_nvs W c"
  assumes "nvs_inv W s" and "pin \<noteq> []"
  shows "reads_back (storage_set_idle_timeout N vh) (storage_get_idle_timeout N) vh DEFAULT_NAMESPACE IDLE_TIMEOUT_FIELD s
    \<and> reads_back (storage_set_brightness N vb) (storage_get_brightness N) vb DEFAULT_NAMESPACE BRIGHTNESS_FIELD s
    \<and> reads_back (storage_set_gui_flags N vb) (storage_get_gui_flags N) vb DEFAULT_NAMESPACE GUI_FLAGS_FIELD s
    \<and> reads_back (storage_set_ble_flags N vb) (storage_get_ble_flags N) vb DEFAULT_NAMESPACE BLE_FLAGS_FIELD s
    \<and> reads_back (storage_set_qr_flags N vw) (storage_get_qr_flags N) vw DEFAULT_NAMESPACE QR_FLAGS_FIELD s
    \<and> reads_back (store_raw N DEFAULT_NAMESPACE (Some QR_FLAGS_FIELD) 2 vh) (storage_get_qr_flags N) (ucast vh)
        DEFAULT_NAMESPACE QR_FLAGS_FIELD s
    \<and> reads_back (storage_set_key_flags N vb) (storage_get_key_flags N) vb DEFAULT_NAMESPACE KEY_FLAGS_FIELD s
    \<and> reads_back (storage_set_network_type_restriction N vw) (storage_get_network_type_restriction N) vw
        DEFAULT_NAMESPACE NETWORK_TYPE_FIELD s
    \<and> reads_back (storage_set_otp_hotp_counter N (Some k) vd) (storage_get_otp_hotp_counter N (Some k)) vd
        HOTP_COUNTERS_NAMESPACE k s
    \<and> reads_back (storage_set_wallet_erase_pin N (Some pin)) (storage_get_wallet_erase_pin N (length pin)) (Some pin)
        DEFAULT_NAMESPACE WALLET_ERASE_PIN s"
proof -
  have spaces: "DEFAULT_NAMESPACE \<in> set nvs_spaces" "HOTP_COUNTERS_NAMESPACE \<in> set nvs_spaces"
    by (simp_all add: nvs_spaces_def)
  note raw = raw_reads_back [OF assms(2) spaces(1)]
  have raws: "reads_back (store_raw N DEFAULT_NAMESPACE (Some f) 1 vb) (read_raw N DEFAULT_NAMESPACE (Some f) 1) vb DEFAULT_NAMESPACE f s"
    "reads_back (store_raw N DEFAULT_NAMESPACE (Some f) 2 vh) (read_raw N DEFAULT_NAMESPACE (Some f) 2) vh DEFAULT_NAMESPACE f s"
    "reads_back (store_raw N DEFAULT_NAMESPACE (Some f) 4 vw) (read_raw N DEFAULT_NAMESPACE (Some f) 4) vw DEFAULT_NAMESPACE f s"
    for f unfolding N_def by (rule raw; simp)+
  have network: "read_raw N DEFAULT_NAMESPACE (Some NETWORK_TYPE_FIELD) 4 = storage_get_network_type_restriction N"
    by (simp add: read_raw_def storage_get_network_type_restriction_def cong: option.case_cong)
  have wide: "\<exists>u. storage_get_qr_flags N t = Ret (raw_value d, u)"
    if "read_blob_fixed N DEFAULT_NAMESPACE (Some QR_FLAGS_FIELD) 4 t = Ret (Some d, u)" for t u d
    using that by (simp add: storage_get_qr_flags_def andthen_def give_def)
  have qr4: "reads_back (storage_set_qr_flags N vw) (storage_get_qr_flags N) vw DEFAULT_NAMESPACE QR_FLAGS_FIELD s"
    using blob_reads_back [OF assms(2) spaces(1), of "raw_bytes 4 vw" c QR_FLAGS_FIELD] wide [of _ "raw_bytes 4 vw"]
    unfolding reads_back_def storage_set_qr_flags_def store_raw_def N_def [symmetric]
    by (metis length_raw_bytes list.size(3) raw_value_bytes_sized(3) zero_neq_numeral)
  have qr2: "reads_back (store_raw N DEFAULT_NAMESPACE (Some QR_FLAGS_FIELD) 2 vh) (storage_get_qr_flags N) (ucast vh)
      DEFAULT_NAMESPACE QR_FLAGS_FIELD s" unfolding N_def by (rule short_qr_flags [OF assms(2)])
  have nt: "reads_back (store_raw N DEFAULT_NAMESPACE (Some NETWORK_TYPE_FIELD) 4 vw) (storage_get_network_type_restriction N)
      vw DEFAULT_NAMESPACE NETWORK_TYPE_FIELD s" using raws(3) [of NETWORK_TYPE_FIELD] unfolding network .
  show ?thesis
    unfolding setting_defs
    using raws qr4 qr2 nt raw_reads_back [OF assms(2) spaces(2), where n = 8 and v = vd and c = c and k = k]
      blob_reads_back [OF assms(2) spaces(1) assms(3)]
    by (auto simp: N_def storage_set_qr_flags_def)
qed

lemmas storage_eval = storage_ops andthen_def give_def insist_def libjade_nvs_def libjade_nvs_open_def
  libjade_nvs_set_blob_def libjade_nvs_get_blob_def libjade_nvs_set_u32_def libjade_nvs_get_u32_def
  get_nvs_ns_def storage_names demo_wmap_def fresh_flash_def char_byte_def Let_def

theorem settings_roundtrip_witness:
  "\<exists>t u. storage_set_qr_flags (libjade_nvs demo_wmap False) 0x1FF fresh_flash = Ret (True, t)
    \<and> storage_get_qr_flags (libjade_nvs demo_wmap False) t = Ret (0x1FF, u)"
proof -
  let ?N = "libjade_nvs demo_wmap False"
  have "\<exists>t. storage_set_qr_flags ?N 0x1FF fresh_flash = Ret (True, t)"
    by (simp add: storage_set_qr_flags_def store_raw_def storage_eval)
  moreover from settings_roundtrip [OF fresh_flash_inv, where pin = "[1]" and c = False and vw = "0x1FF"] have
    "reads_back (storage_set_qr_flags ?N 0x1FF) (storage_get_qr_flags ?N) 0x1FF DEFAULT_NAMESPACE QR_FLAGS_FIELD fresh_flash"
    by simp
  ultimately show ?thesis unfolding reads_back_def by blast
qed

section \<open>The replay counter\<close>

text \<open>C17: No replay counter is handed out twice, unless the device is wiped in between. In
  any history of operations on the storage of the library build, each run to its end and
  however the writes fail in between, of two counters returned by
  \<^verbatim>\<open>storage_get_replay_counter\<close> the later one is the larger, provided that neither
  \<^verbatim>\<open>storage_erase\<close> nor an erasing start-up (\<^verbatim>\<open>storage_init\<close>) came between them; writing or
  erasing the PIN server's details, erasing keys, storing any other entry and an ordinary
  start-up do not set it back. The counter's entry is absent or four bytes at the
  start.\<close>

theorem replay_counter_never_repeats:
  assumes "nvs_inv W s" and "storage_run (libjade_nvs W c) s (before @ Handed i # between @ Handed j # after) t"
    and "Wiped \<notin> set between"
    and "nvs_look s DEFAULT_NAMESPACE REPLAY_COUNTER_FIELD = None
      \<or> (\<exists>v :: u32. nvs_look s DEFAULT_NAMESPACE REPLAY_COUNTER_FIELD = Some (raw_bytes 4 v))"
  shows "i < j"
proof -
  from assms(4) obtain n where "nvs_store.replay nvs_look s = Some n"
    using libjade.replay_raw [of s] by (auto simp: libjade.replay_def)
  from rises_between [OF libjade.replay_run [OF assms(2,1) this] assms(3)] show ?thesis
    by (simp add: word_less_nat_alt)
qed

text \<open>The fresh device is wiped, hands out a counter, is started, and hands out another.\<close>

lemma replay_twice: "storage_run (libjade_nvs demo_wmap False) fresh_flash [Wiped, Handed 0, Handed 1]
    \<lparr>nvs_storage = [[(map char_byte REPLAY_COUNTER_FIELD, raw_bytes 4 (2 :: u32))], [], [], [], []], nvs_calls = 2\<rparr>"
proof -
  let ?N = "libjade_nvs demo_wmap False"
  let ?f = "\<lambda>j n. \<lparr>nvs_storage = [[(map char_byte REPLAY_COUNTER_FIELD, raw_bytes 4 (j :: u32))], [], [], [], []], nvs_calls = n\<rparr>"
  have 0: "storage_erase ?N fresh_flash = Ret (True, fresh_flash)"
    by (simp add: storage_erase_def storage_eval libjade_nvs_flash_erase_def)
  have 1: "storage_get_replay_counter ?N fresh_flash = Ret (Some 0, ?f 1 1)"
    by (simp add: storage_get_replay_counter_def replay_advance_def storage_eval)
  have 2: "storage_init ?N (?f 1 1) = Ret (True, ?f 1 1)"
    by (simp add: storage_init_def storage_eval libjade_nvs_erase_key_def)
  have 3: "storage_get_replay_counter ?N (?f 1 1) = Ret (Some 1, ?f 2 2)"
    by (simp add: storage_get_replay_counter_def replay_advance_def storage_eval)
  have "fst (nvs_flash_init ?N (?f 1 1)) = ESP_OK" by (simp add: libjade_nvs_def)
  with storage_step.started [OF 2] have started: "storage_step ?N (?f 1 1) [] (?f 1 1)" by simp
  have "storage_run ?N fresh_flash ([Wiped] @ [Handed 0] @ [] @ [Handed 1] @ []) (?f 2 2)"
    by (intro storage_run.step [OF storage_step.wiped [OF 0]] storage_run.step [OF storage_step.replay [OF 1]]
        storage_run.step [OF started] storage_run.step [OF storage_step.replay [OF 3]] storage_run.start)
  then show ?thesis by simp
qed

theorem replay_counter_never_repeats_witness:
  "\<exists>t. storage_run (libjade_nvs demo_wmap False) fresh_flash [Wiped, Handed 0, Handed 1] t \<and> (0 :: u32) < 1"
proof -
  have "nvs_look fresh_flash DEFAULT_NAMESPACE REPLAY_COUNTER_FIELD = None"
    by (simp add: nvs_look_def fresh_flash_def get_nvs_ns_def)
  with replay_counter_never_repeats [OF fresh_flash_inv, of False "[Wiped]" 0 "[]" 1 "[]"] replay_twice
  show ?thesis by auto
qed

text \<open>After a wipe the counters repeat: the fresh device hands out 0 again.\<close>

lemma replay_after_wipe: "\<exists>t. storage_run (libjade_nvs demo_wmap False) fresh_flash [Handed 0, Wiped, Handed 0] t"
proof -
  let ?N = "libjade_nvs demo_wmap False"
  let ?f = "\<lambda>j n. \<lparr>nvs_storage = [[(map char_byte REPLAY_COUNTER_FIELD, raw_bytes 4 (j :: u32))], [], [], [], []], nvs_calls = n\<rparr>"
  have 1: "storage_get_replay_counter ?N fresh_flash = Ret (Some 0, ?f 1 1)"
    by (simp add: storage_get_replay_counter_def replay_advance_def storage_eval)
  have 2: "storage_erase ?N (?f 1 1) = Ret (True, fresh_flash\<lparr>nvs_calls := 1\<rparr>)"
    by (simp add: storage_erase_def storage_eval libjade_nvs_flash_erase_def)
  have 3: "storage_get_replay_counter ?N (fresh_flash\<lparr>nvs_calls := 1\<rparr>) = Ret (Some 0, ?f 1 2)"
    by (simp add: storage_get_replay_counter_def replay_advance_def storage_eval)
  have "storage_run ?N fresh_flash ([Handed 0] @ [Wiped] @ [Handed 0] @ []) (?f 1 2)"
    by (intro storage_run.step [OF storage_step.replay [OF 1]] storage_run.step [OF storage_step.wiped [OF 2]]
        storage_run.step [OF storage_step.replay [OF 3]] storage_run.start)
  then show ?thesis by auto
qed

section \<open>Counting entries\<close>

lemma count_loop:
  assumes "nvs_entry_next N = libjade_nvs_entry_next" and "idx \<le> length (nvs_storage s ! h)"
  shows "while_option more_entries (count_entry N s) (ESP_OK, Some (h, idx), count)
    = Some (ESP_ERR_NVS_NOT_FOUND, None, Suc (count + (length (nvs_storage s ! h) - idx)))"
  using assms(2)
proof (induction "length (nvs_storage s ! h) - idx" arbitrary: idx count)
  case 0
  with assms(1) show ?case
    by (subst while_option_unfold, subst while_option_unfold)
       (simp add: more_entries_def count_entry_def libjade_nvs_entry_next_def)
next
  case (Suc n)
  from Suc.hyps(2) have "idx < length (nvs_storage s ! h)" by simp
  with Suc.hyps(1) [of "Suc idx" "Suc count"] Suc.hyps(2) assms(1) show ?case
    by (subst while_option_unfold) (simp add: more_entries_def count_entry_def libjade_nvs_entry_next_def)
qed

lemma no_entries: "while_option more_entries (count_entry N s) (e, None, 0) = Some (e, None, 0)"
  by (subst while_option_unfold) (simp add: more_entries_def)

text \<open>In the library build every count of registrations is one too many. The iterator
  of \<^verbatim>\<open>libjade.c\<close> moves past the last entry before it reports the end, so
  \<^verbatim>\<open>get_entry_count\<close> always returns, but with one more than the number of entries of the
  namespace when there is any; a namespace that does not exist or is empty counts 0.\<close>

theorem entry_count_off_by_one:
  "get_entry_count (libjade_nvs W c) (Some ns) type s =
     (case get_nvs_ns ns of
        None \<Rightarrow> Ret (Some 0)
      | Some h \<Rightarrow>
          let n = length (nvs_storage s ! h) in
          Ret (Some (if host_malloc W (nvs_calls s) \<and> n > 0 then n + 1 else 0)))"
proof -
  have n: "nvs_entry_next (libjade_nvs W c) = libjade_nvs_entry_next"
    and f: "nvs_entry_find (libjade_nvs W c) = libjade_nvs_entry_find W" by (simp_all add: libjade_nvs_def)
  show ?thesis
    using count_loop [OF n, of 0 s "the (get_nvs_ns ns)" 0]
    by (cases "get_nvs_ns ns")
       (simp_all add: get_entry_count_def f libjade_nvs_entry_find_def no_entries Let_def)
qed

end
