(* ===== verification/Jade_Keychain.thy ===== *)
theory Jade_Keychain
  imports Jade_Storage
begin

text \<open>
  \<^verbatim>\<open>src/main/keychain.c\<close>, with \<^verbatim>\<open>aes.c\<close> and the service path functions of \<^verbatim>\<open>wallet.c\<close> it
  calls: the wallet keys in memory, their encrypted copy in the storage, the PIN counter
  around its decryption, the network restriction and the passphrase flags. The static
  variables of the file are the record \<^verbatim>\<open>keychain_state\<close>, which holds the storage too.
  libwally, libsodium and the random numbers are the record \<^verbatim>\<open>key_lib\<close>; a result \<^verbatim>\<open>None\<close> of
  one of its functions is an error code, and a \<^verbatim>\<open>JADE_WALLY_VERIFY\<close> that sees one stops
  the device. Wiping memory has no counterpart.
\<close>

section \<open>The library and the state\<close>

record 'x key_lib =
  wally_aes_cbc_encrypt :: "bytes \<Rightarrow> bytes \<Rightarrow> bytes \<Rightarrow> bytes option"
  wally_aes_cbc_decrypt :: "bytes \<Rightarrow> bytes \<Rightarrow> bytes \<Rightarrow> bytes option"
  wally_hmac_sha256 :: "bytes \<Rightarrow> bytes \<Rightarrow> bytes"
  wally_hmac_sha512 :: "bytes \<Rightarrow> bytes \<Rightarrow> bytes"
  ec_private_key_verify :: "bytes \<Rightarrow> bool"
  bip32_key_serialize :: "'x \<Rightarrow> bytes option"
  bip32_key_unserialize :: "bytes \<Rightarrow> 'x option"
  bip32_key_from_seed :: "bytes \<Rightarrow> 'x option"
  bip32_private_child :: "'x \<Rightarrow> u32 list \<Rightarrow> 'x option"
  bip32_public_child :: "'x \<Rightarrow> u32 list \<Rightarrow> 'x option"
  key_chain_code :: "'x \<Rightarrow> bytes"
  key_pub_key :: "'x \<Rightarrow> bytes"
  zero_key :: 'x
  asset_blinding_key_from_seed :: "bytes \<Rightarrow> bytes option"
  bip39_mnemonic_validate :: "string \<Rightarrow> bool"
  bip39_mnemonic_to_bytes :: "string \<Rightarrow> bytes option"
  bip39_mnemonic_from_bytes :: "bytes \<Rightarrow> string option"
  bip39_mnemonic_to_seed :: "string \<Rightarrow> string option \<Rightarrow> bytes option"
  service_key :: "nat \<Rightarrow> 'x"

text \<open>A pointer to a service key is its number among the static service keys.\<close>

record 'x keychain_t =
  kd_gaservice_path :: "u32 list"
  kd_master_unblinding_key :: bytes
  kd_seed :: bytes
  kd_xpriv :: 'x
  kd_cached_gaservice_main_root :: 'x
  kd_cached_gaservice_subact_root :: 'x
  kd_cached_service :: "nat option"
  kd_seed_len :: nat

datatype passphrase_freq_t = PASSPHRASE_NEVER | PASSPHRASE_ONCE | PASSPHRASE_ALWAYS

datatype passphrase_type_t = PASSPHRASE_WORDLIST | PASSPHRASE_FREETEXT

text \<open>\<^verbatim>\<open>mnemonic_entropy\<close> is the first \<^verbatim>\<open>mnemonic_entropy_len\<close> bytes of the buffer.\<close>

record ('s, 'x) keychain_state =
  kc_data :: "'x keychain_t option"
  kc_network_type_restriction :: u32
  kc_has_encrypted_blob :: bool
  kc_userdata :: byte
  kc_temporary :: bool
  kc_mnemonic_entropy :: bytes
  kc_key_flags :: byte
  kc_nvs :: 's

definition EC_PRIVATE_KEY_LEN :: nat where "EC_PRIVATE_KEY_LEN = 32"
definition AES_KEY_LEN_256 :: nat where "AES_KEY_LEN_256 = 32"
definition AES_BLOCK_LEN :: nat where "AES_BLOCK_LEN = 16"
definition HMAC_SHA256_LEN :: nat where "HMAC_SHA256_LEN = 32"
definition BIP39_ENTROPY_LEN_128 :: nat where "BIP39_ENTROPY_LEN_128 = 16"
definition BIP39_ENTROPY_LEN_256 :: nat where "BIP39_ENTROPY_LEN_256 = 32"
definition PASSPHRASE_MAX_LEN :: nat where "PASSPHRASE_MAX_LEN = 100"
definition SERIALIZED_KEY_LEN :: nat where "SERIALIZED_KEY_LEN = 78 + 64 + 64"

definition KEY_FLAGS_AUTO_DEFAULT_PASSPHRASE :: byte where "KEY_FLAGS_AUTO_DEFAULT_PASSPHRASE = 0x1"
definition KEY_FLAGS_USER_TO_ENTER_PASSPHRASE :: byte where "KEY_FLAGS_USER_TO_ENTER_PASSPHRASE = 0x2"
definition KEY_FLAGS_WORDLIST_PASSPHRASE :: byte where "KEY_FLAGS_WORDLIST_PASSPHRASE = 0x4"
definition KEY_FLAGS_CONFIRM_EXPORT_BLINDING_KEY :: byte where "KEY_FLAGS_CONFIRM_EXPORT_BLINDING_KEY = 0x80"

definition AES_PADDED_LEN :: "nat \<Rightarrow> nat" where "AES_PADDED_LEN len = (len div AES_BLOCK_LEN + 1) * AES_BLOCK_LEN"
definition AES_ENCRYPTED_LEN :: "nat \<Rightarrow> nat" where "AES_ENCRYPTED_LEN len = AES_BLOCK_LEN + AES_PADDED_LEN len"
definition ENCRYPTED_DATA_LEN :: "nat \<Rightarrow> nat" where "ENCRYPTED_DATA_LEN len = AES_ENCRYPTED_LEN len + HMAC_SHA256_LEN"

lemmas key_sizes = EC_PRIVATE_KEY_LEN_def AES_KEY_LEN_256_def AES_BLOCK_LEN_def HMAC_SHA256_LEN_def
  BIP39_ENTROPY_LEN_128_def BIP39_ENTROPY_LEN_256_def PASSPHRASE_MAX_LEN_def SERIALIZED_KEY_LEN_def
  AES_PADDED_LEN_def AES_ENCRYPTED_LEN_def ENCRYPTED_DATA_LEN_def

text \<open>A call on the storage inside the keychain.\<close>

definition on_nvs :: "('s, 'a) act \<Rightarrow> (('s, 'x) keychain_state, 'a) act" where
  "on_nvs m st = then_run (m (kc_nvs st)) (\<lambda>(a, s). Ret (a, st\<lparr>kc_nvs := s\<rparr>))"

lemma on_nvs_Ret [run_simps]:
  "on_nvs m st = Ret (a, t) \<longleftrightarrow> (\<exists>s. m (kc_nvs st) = Ret (a, s) \<and> t = st\<lparr>kc_nvs := s\<rparr>)"
  by (auto simp: on_nvs_def then_run_Ret_iff)

section \<open>AES\<close>

text \<open>The initialisation vector is the random draw \<^verbatim>\<open>iv\<close>.\<close>

definition aes_encrypt_bytes :: "'x key_lib \<Rightarrow> bytes \<Rightarrow> bytes \<Rightarrow> bytes \<Rightarrow> nat \<Rightarrow> bytes option run" where
  "aes_encrypt_bytes L iv aeskey bs output_len =
     jade_assert (length aeskey = AES_KEY_LEN_256) (
     jade_assert (length bs > 0) (
     jade_assert (output_len > AES_BLOCK_LEN) (
     let payload_len = AES_PADDED_LEN (length bs) in
     jade_assert (output_len = AES_BLOCK_LEN + payload_len) (
     then_run (wally_verify (wally_aes_cbc_encrypt L aeskey iv bs)) (\<lambda>out.
     jade_assert (length out = payload_len) (Ret (Some (iv @ out))))))))"

definition aes_decrypt_bytes :: "'x key_lib \<Rightarrow> bytes \<Rightarrow> bytes \<Rightarrow> nat \<Rightarrow> bytes option run" where
  "aes_decrypt_bytes L aeskey bs output_len =
     jade_assert (length aeskey = AES_KEY_LEN_256) (
     jade_assert (length bs > AES_BLOCK_LEN) (
     jade_assert (output_len > 0) (
     let payload_len = length bs - AES_BLOCK_LEN in
     jade_assert (payload_len mod AES_BLOCK_LEN = 0) (
     jade_assert (AES_PADDED_LEN output_len \<ge> payload_len) (
     case wally_aes_cbc_decrypt L aeskey (take AES_BLOCK_LEN bs) (drop AES_BLOCK_LEN bs) of
       None \<Rightarrow> Ret None
     | Some out \<Rightarrow> if length out > output_len then Ret None else Ret (Some out))))))"

section \<open>The service path\<close>

fun path_words :: "u32 list \<Rightarrow> bytes run" where
  "path_words [] = Ret []"
| "path_words (p # path) =
     jade_assert (p AND 0xFFFF0000 = 0) (
     then_run (path_words path) (\<lambda>rest. Ret (ucast (drop_bit 8 p) # ucast (p AND 0xFF) # rest)))"

definition wallet_serialize_gaservice_path :: "u32 list \<Rightarrow> bytes option run" where
  "wallet_serialize_gaservice_path gaservice_path =
     (if length gaservice_path \<noteq> 32 then Ret None
      else then_run (path_words gaservice_path) (\<lambda>s. Ret (Some s)))"

definition wallet_unserialize_gaservice_path :: "bytes \<Rightarrow> u32 list option" where
  "wallet_unserialize_gaservice_path serialized =
     (if length serialized \<noteq> 64 then None
      else Some (map (\<lambda>i. push_bit 8 (ucast (serialized ! (2 * i))) + ucast (serialized ! (2 * i + 1))) [0..<32]))"

definition GA_PATH_ROOT :: u32 where "GA_PATH_ROOT = 0x80000000 + 0x4741"

definition GA_KEY_MSG :: string where "GA_KEY_MSG = ''GreenAddress.it HD wallet path''"

definition wallet_calculate_gaservice_path :: "'x key_lib \<Rightarrow> 'x \<Rightarrow> u32 list option run" where
  "wallet_calculate_gaservice_path L root_key =
     then_run (wally_verify (bip32_private_child L root_key [GA_PATH_ROOT])) (\<lambda>derived.
     let extkeydata = key_chain_code L derived @ key_pub_key L derived;
         serialized = wally_hmac_sha512 L (map (\<lambda>c. of_nat (of_char c)) GA_KEY_MSG @ [0]) extkeydata
     in Ret (wallet_unserialize_gaservice_path serialized))"

definition wallet_get_gaservice_path_root :: "'x keychain_t option \<Rightarrow> bool \<Rightarrow> u32 list run" where
  "wallet_get_gaservice_path_root kc subaccount_root =
     (case kc of None \<Rightarrow> Crash
      | Some kc \<Rightarrow> Ret ((if subaccount_root then 3 else 1) # kd_gaservice_path kc))"

definition wallet_get_gaservice_root_key :: "'x key_lib \<Rightarrow> 'x keychain_t option \<Rightarrow> 'x \<Rightarrow> bool \<Rightarrow> 'x run" where
  "wallet_get_gaservice_root_key L kc service subaccount_root =
     then_run (wallet_get_gaservice_path_root kc subaccount_root) (\<lambda>root_path.
     wally_verify (bip32_public_child L service root_path))"

section \<open>Keys in memory\<close>

definition reload_key_flags :: "('s, 'h, 'i) nvs \<Rightarrow> (('s, 'x) keychain_state, unit) act" where
  "reload_key_flags N =
     andthen (on_nvs (storage_get_key_flags N)) (\<lambda>flags. update (\<lambda>st. st\<lparr>kc_key_flags := flags\<rparr>))"

definition keychain_clear :: "('s, 'h, 'i) nvs \<Rightarrow> (('s, 'x) keychain_state, unit) act" where
  "keychain_clear N =
     andthen (update (\<lambda>st. st\<lparr>kc_data := None, kc_mnemonic_entropy := []\<rparr>)) (\<lambda>_.
     andthen (reload_key_flags N) (\<lambda>_.
     update (\<lambda>st. st\<lparr>kc_userdata := 0, kc_temporary := False\<rparr>)))"

text \<open>\<^verbatim>\<open>src\<close> is \<^verbatim>\<open>None\<close> when it is the keychain already held, whose keys are then kept.\<close>

definition keychain_set ::
  "('s, 'h, 'i) nvs \<Rightarrow> 'x keychain_t option \<Rightarrow> byte \<Rightarrow> bool \<Rightarrow> (('s, 'x) keychain_state, unit) act" where
  "keychain_set N src userdata temporary =
     andthen (inspect (\<lambda>st. insist (src \<noteq> None \<or> kc_data st \<noteq> None))) (\<lambda>_.
     andthen (case src of
         None \<Rightarrow> give ()
       | Some k \<Rightarrow> andthen (keychain_clear N) (\<lambda>_. update (\<lambda>st. st\<lparr>kc_data := Some k\<rparr>))) (\<lambda>_.
     andthen (update (\<lambda>st. st\<lparr>kc_mnemonic_entropy := []\<rparr>)) (\<lambda>_.
     andthen (reload_key_flags N) (\<lambda>_.
     update (\<lambda>st. st\<lparr>kc_userdata := userdata, kc_temporary := temporary\<rparr>)))))"

definition keychain_get :: "('s, 'x) keychain_state \<Rightarrow> 'x keychain_t option" where
  "keychain_get st = kc_data st"

definition keychain_requires_passphrase :: "('s, 'x) keychain_state \<Rightarrow> bool" where
  "keychain_requires_passphrase st \<longleftrightarrow> kc_data st = None \<and> length (kc_mnemonic_entropy st) \<noteq> 0"

definition flag_set :: "byte \<Rightarrow> byte \<Rightarrow> bool" where
  "flag_set flags f \<longleftrightarrow> flags AND f \<noteq> 0"

fun keychain_set_passphrase_frequency :: "passphrase_freq_t \<Rightarrow> ('s, 'x) keychain_state \<Rightarrow> ('s, 'x) keychain_state" where
  "keychain_set_passphrase_frequency PASSPHRASE_NEVER st =
     st\<lparr>kc_key_flags := (kc_key_flags st OR KEY_FLAGS_AUTO_DEFAULT_PASSPHRASE) AND NOT KEY_FLAGS_USER_TO_ENTER_PASSPHRASE\<rparr>"
| "keychain_set_passphrase_frequency PASSPHRASE_ALWAYS st =
     st\<lparr>kc_key_flags := (kc_key_flags st AND NOT KEY_FLAGS_AUTO_DEFAULT_PASSPHRASE) OR KEY_FLAGS_USER_TO_ENTER_PASSPHRASE\<rparr>"
| "keychain_set_passphrase_frequency PASSPHRASE_ONCE st =
     st\<lparr>kc_key_flags := (kc_key_flags st OR KEY_FLAGS_AUTO_DEFAULT_PASSPHRASE) OR KEY_FLAGS_USER_TO_ENTER_PASSPHRASE\<rparr>"

definition keychain_get_passphrase_freq :: "('s, 'x) keychain_state \<Rightarrow> passphrase_freq_t" where
  "keychain_get_passphrase_freq st =
     (if flag_set (kc_key_flags st) KEY_FLAGS_USER_TO_ENTER_PASSPHRASE
      then if flag_set (kc_key_flags st) KEY_FLAGS_AUTO_DEFAULT_PASSPHRASE then PASSPHRASE_ONCE else PASSPHRASE_ALWAYS
      else PASSPHRASE_NEVER)"

definition keychain_set_passphrase_type :: "passphrase_type_t \<Rightarrow> ('s, 'x) keychain_state \<Rightarrow> ('s, 'x) keychain_state" where
  "keychain_set_passphrase_type type st =
     (if type = PASSPHRASE_WORDLIST then st\<lparr>kc_key_flags := kc_key_flags st OR KEY_FLAGS_WORDLIST_PASSPHRASE\<rparr>
      else st\<lparr>kc_key_flags := kc_key_flags st AND NOT KEY_FLAGS_WORDLIST_PASSPHRASE\<rparr>)"

definition keychain_get_passphrase_type :: "('s, 'x) keychain_state \<Rightarrow> passphrase_type_t" where
  "keychain_get_passphrase_type st =
     (if flag_set (kc_key_flags st) KEY_FLAGS_WORDLIST_PASSPHRASE then PASSPHRASE_WORDLIST else PASSPHRASE_FREETEXT)"

definition keychain_set_confirm_export_blinding_key :: "bool \<Rightarrow> ('s, 'x) keychain_state \<Rightarrow> ('s, 'x) keychain_state" where
  "keychain_set_confirm_export_blinding_key confirm_export st =
     (if confirm_export then st\<lparr>kc_key_flags := kc_key_flags st OR KEY_FLAGS_CONFIRM_EXPORT_BLINDING_KEY\<rparr>
      else st\<lparr>kc_key_flags := kc_key_flags st AND NOT KEY_FLAGS_CONFIRM_EXPORT_BLINDING_KEY\<rparr>)"

definition keychain_get_confirm_export_blinding_key :: "('s, 'x) keychain_state \<Rightarrow> bool" where
  "keychain_get_confirm_export_blinding_key st = flag_set (kc_key_flags st) KEY_FLAGS_CONFIRM_EXPORT_BLINDING_KEY"

definition keychain_persist_key_flags :: "('s, 'h, 'i) nvs \<Rightarrow> (('s, 'x) keychain_state, unit) act" where
  "keychain_persist_key_flags N =
     inspect (\<lambda>st.
       let flags = kc_key_flags st in
       andthen (on_nvs (storage_set_key_flags N
         (if flag_set flags KEY_FLAGS_AUTO_DEFAULT_PASSPHRASE \<and> flag_set flags KEY_FLAGS_USER_TO_ENTER_PASSPHRASE
          then flags AND NOT KEY_FLAGS_USER_TO_ENTER_PASSPHRASE else flags))) (\<lambda>_. give ()))"

definition keychain_has_pin :: "('s, 'x) keychain_state \<Rightarrow> bool" where
  "keychain_has_pin st = kc_has_encrypted_blob st"

definition keychain_set_temporary :: "(('s, 'x) keychain_state, unit) act" where
  "keychain_set_temporary =
     andthen (inspect (\<lambda>st. insist (kc_data st \<noteq> None))) (\<lambda>_.
     andthen (inspect (\<lambda>st. insist (length (kc_mnemonic_entropy st) \<noteq> 0))) (\<lambda>_.
     andthen (inspect (\<lambda>st. insist (\<not> kc_temporary st))) (\<lambda>_.
     andthen (inspect (\<lambda>st. insist (\<not> keychain_has_pin st))) (\<lambda>_.
     update (\<lambda>st. st\<lparr>kc_temporary := True\<rparr>)))))"

definition keychain_has_temporary :: "(('s, 'x) keychain_state, bool) act" where
  "keychain_has_temporary =
     inspect (\<lambda>st. andthen (insist (\<not> kc_temporary st \<or> kc_data st \<noteq> None)) (\<lambda>_. give (kc_temporary st)))"

definition keychain_get_userdata :: "('s, 'x) keychain_state \<Rightarrow> byte" where
  "keychain_get_userdata st = kc_userdata st"

definition keychain_cache_mnemonic_entropy :: "'x key_lib \<Rightarrow> string option \<Rightarrow> (('s, 'x) keychain_state, unit) act" where
  "keychain_cache_mnemonic_entropy L mnemonic =
     andthen (insist (mnemonic \<noteq> None)) (\<lambda>_.
     andthen (inspect (\<lambda>st. insist (\<not> kc_temporary st))) (\<lambda>_.
     andthen (inspect (\<lambda>st. insist (length (kc_mnemonic_entropy st) = 0))) (\<lambda>_.
     andthen (from_run (wally_verify (bip39_mnemonic_to_bytes L (the mnemonic)))) (\<lambda>entropy.
     andthen (update (\<lambda>st. st\<lparr>kc_mnemonic_entropy := entropy\<rparr>)) (\<lambda>_.
     insist (length entropy = BIP39_ENTROPY_LEN_128 \<or> length entropy = BIP39_ENTROPY_LEN_256))))))"

section \<open>The network restriction\<close>

definition keychain_clear_network_type_restriction :: "('s, 'h, 'i) nvs \<Rightarrow> (('s, 'x) keychain_state, unit) act" where
  "keychain_clear_network_type_restriction N =
     andthen keychain_has_temporary (\<lambda>temporary.
     andthen (if \<not> temporary
              then andthen (on_nvs (storage_set_network_type_restriction N (network_type_value NETWORK_TYPE_NONE))) (\<lambda>_. give ())
              else give ()) (\<lambda>_.
     update (\<lambda>st. st\<lparr>kc_network_type_restriction := network_type_value NETWORK_TYPE_NONE\<rparr>)))"

definition keychain_is_network_type_consistent :: "network_type_t \<Rightarrow> ('s, 'x) keychain_state \<Rightarrow> bool" where
  "keychain_is_network_type_consistent network_type st \<longleftrightarrow>
     kc_network_type_restriction st = network_type_value NETWORK_TYPE_NONE
     \<or> network_type_value network_type = kc_network_type_restriction st"

definition keychain_set_network_type_restriction ::
  "('s, 'h, 'i) nvs \<Rightarrow> network_type_t \<Rightarrow> (('s, 'x) keychain_state, unit) act" where
  "keychain_set_network_type_restriction N network_type =
     andthen (inspect (\<lambda>st. insist (keychain_is_network_type_consistent network_type st))) (\<lambda>_.
     inspect (\<lambda>st.
       if kc_network_type_restriction st = network_type_value NETWORK_TYPE_NONE then
         andthen (if keychain_has_pin st
                  then andthen keychain_has_temporary (\<lambda>temporary.
                    if \<not> temporary
                    then andthen (on_nvs (storage_set_network_type_restriction N (network_type_value network_type))) (\<lambda>_. give ())
                    else give ())
                  else give ()) (\<lambda>_.
         update (\<lambda>st. if kc_data st \<noteq> None then st\<lparr>kc_network_type_restriction := network_type_value network_type\<rparr> else st))
       else give ()))"

definition keychain_get_network_type_restriction :: "('s, 'x) keychain_state \<Rightarrow> u32" where
  "keychain_get_network_type_restriction st = kc_network_type_restriction st"

definition keychain_is_network_id_consistent :: "network_t \<Rightarrow> ('s, 'x) keychain_state \<Rightarrow> bool" where
  "keychain_is_network_id_consistent network_id st =
     keychain_is_network_type_consistent (network_to_type network_id) st"

section \<open>Deriving keys\<close>

definition keychain_cached_service ::
  "'x key_lib \<Rightarrow> nat option \<Rightarrow> bool \<Rightarrow> (('s, 'x) keychain_state, 'x option) act" where
  "keychain_cached_service L service subaccount_root =
     andthen (inspect (\<lambda>st. insist (kc_data st \<noteq> None))) (\<lambda>_.
     case service of
       None \<Rightarrow> andthen (update (\<lambda>st. st\<lparr>kc_data := map_option (\<lambda>k. k\<lparr>kd_cached_service := None\<rparr>) (kc_data st)\<rparr>)) (\<lambda>_. give None)
     | Some v \<Rightarrow>
         andthen (inspect (\<lambda>st.
           if kd_cached_service (the (kc_data st)) \<noteq> Some v then
             andthen (from_run (wallet_get_gaservice_root_key L (kc_data st) (service_key L v) False)) (\<lambda>main_root.
             andthen (from_run (wallet_get_gaservice_root_key L (kc_data st) (service_key L v) True)) (\<lambda>subact_root.
             update (\<lambda>st. st\<lparr>kc_data := map_option (\<lambda>k. k\<lparr>kd_cached_gaservice_main_root := main_root,
               kd_cached_gaservice_subact_root := subact_root, kd_cached_service := Some v\<rparr>) (kc_data st)\<rparr>)))
           else give ())) (\<lambda>_.
         inspect (\<lambda>st. give (Some (if subaccount_root then kd_cached_gaservice_subact_root (the (kc_data st))
                                   else kd_cached_gaservice_main_root (the (kc_data st)))))))"

definition keychain_get_new_mnemonic :: "'x key_lib \<Rightarrow> (nat \<Rightarrow> bytes) \<Rightarrow> nat \<Rightarrow> string run" where
  "keychain_get_new_mnemonic L get_random nwords =
     jade_assert (nwords = 12 \<or> nwords = 24) (
     let entropy = get_random (if nwords = 12 then BIP39_ENTROPY_LEN_128 else BIP39_ENTROPY_LEN_256) in
     then_run (wally_verify (bip39_mnemonic_from_bytes L entropy)) (\<lambda>mnemonic.
     jade_assert (bip39_mnemonic_validate L mnemonic) (Ret mnemonic)))"

definition keychain_derive_from_seed :: "'x key_lib \<Rightarrow> bytes \<Rightarrow> 'x keychain_t \<Rightarrow> 'x keychain_t run" where
  "keychain_derive_from_seed L seed keydata =
     jade_assert (length seed \<noteq> 0) (
     jade_assert (length seed \<le> 64) (
     then_run (wally_verify (bip32_key_from_seed L seed)) (\<lambda>xpriv.
     then_run (wally_verify (asset_blinding_key_from_seed L seed)) (\<lambda>unblinding.
     then_run (wallet_calculate_gaservice_path L xpriv) (\<lambda>path.
     Ret (keydata\<lparr>kd_seed := seed @ drop (length seed) (kd_seed keydata), kd_seed_len := length seed,
       kd_xpriv := xpriv, kd_master_unblinding_key := unblinding,
       kd_gaservice_path := (case path of None \<Rightarrow> kd_gaservice_path keydata | Some p \<Rightarrow> p),
       kd_cached_service := None\<rparr>))))))"

definition keychain_derive_from_mnemonic ::
  "'x key_lib \<Rightarrow> string option \<Rightarrow> string option \<Rightarrow> 'x keychain_t option \<Rightarrow> 'x keychain_t option run" where
  "keychain_derive_from_mnemonic L mnemonic passphrase keydata =
     (if mnemonic = None \<or> keydata = None then Ret None
      else if passphrase \<noteq> None \<and> length (the passphrase) > PASSPHRASE_MAX_LEN then Ret None
      else if \<not> bip39_mnemonic_validate L (the mnemonic) then Ret None
      else then_run (wally_verify (bip39_mnemonic_to_seed L (the mnemonic) passphrase)) (\<lambda>seed.
        jade_assert (length seed = 64) (
        then_run (keychain_derive_from_seed L seed (the keydata)) (\<lambda>k. Ret (Some k)))))"

definition zero_keychain :: "'x key_lib \<Rightarrow> 'x keychain_t" where
  "zero_keychain L = \<lparr>kd_gaservice_path = replicate 32 0, kd_master_unblinding_key = replicate 64 0,
     kd_seed = replicate 64 0, kd_xpriv = zero_key L, kd_cached_gaservice_main_root = zero_key L,
     kd_cached_gaservice_subact_root = zero_key L, kd_cached_service = None, kd_seed_len = 0\<rparr>"

definition keychain_complete_derivation_with_passphrase ::
  "'x key_lib \<Rightarrow> ('s, 'h, 'i) nvs \<Rightarrow> string option \<Rightarrow> (('s, 'x) keychain_state, bool) act" where
  "keychain_complete_derivation_with_passphrase L N passphrase =
     inspect (\<lambda>st.
       if passphrase = None \<or> \<not> keychain_requires_passphrase st then give False
       else case bip39_mnemonic_from_bytes L (kc_mnemonic_entropy st) of
         None \<Rightarrow> give False
       | Some mnemonic \<Rightarrow>
           andthen (from_run (keychain_derive_from_mnemonic L (Some mnemonic) passphrase (Some (zero_keychain L)))) (\<lambda>r. case r of
             None \<Rightarrow> give False
           | Some k \<Rightarrow> andthen (keychain_set N (Some k) 0 False) (\<lambda>_. give True)))"

section \<open>The encrypted wallet\<close>

definition serialize :: "'x key_lib \<Rightarrow> 'x keychain_t \<Rightarrow> bytes run" where
  "serialize L keydata =
     then_run (wally_verify (bip32_key_serialize L (kd_xpriv keydata))) (\<lambda>xpriv.
     then_run (wallet_serialize_gaservice_path (kd_gaservice_path keydata)) (\<lambda>path.
     jade_assert (path \<noteq> None) (Ret (xpriv @ the path @ kd_master_unblinding_key keydata))))"

definition unserialize :: "'x key_lib \<Rightarrow> bytes \<Rightarrow> 'x keychain_t \<Rightarrow> 'x keychain_t run" where
  "unserialize L decrypted keydata =
     jade_assert (length decrypted = SERIALIZED_KEY_LEN) (
     then_run (wally_verify (bip32_key_unserialize L (take 78 decrypted))) (\<lambda>xpriv.
     let path = wallet_unserialize_gaservice_path (take 64 (drop 78 decrypted)) in
     jade_assert (path \<noteq> None) (
     Ret (keydata\<lparr>kd_xpriv := xpriv, kd_gaservice_path := the path,
       kd_master_unblinding_key := drop (78 + 64) decrypted\<rparr>))))"

definition get_encrypted_blob :: "'x key_lib \<Rightarrow> bytes \<Rightarrow> bytes \<Rightarrow> bytes \<Rightarrow> nat \<Rightarrow> bytes option run" where
  "get_encrypted_blob L iv aeskey bs output_len =
     jade_assert (length aeskey \<noteq> 0) (
     jade_assert (length bs \<noteq> 0) (
     jade_assert (output_len = AES_ENCRYPTED_LEN (length bs) + HMAC_SHA256_LEN) (
     then_run (aes_encrypt_bytes L iv aeskey bs (output_len - HMAC_SHA256_LEN)) (\<lambda>r. case r of
       None \<Rightarrow> Ret None
     | Some out \<Rightarrow> Ret (Some (out @ wally_hmac_sha256 L aeskey out))))))"

text \<open>The keyed hash at the end of a blob is right for a key.\<close>

definition hmac_matches :: "'x key_lib \<Rightarrow> bytes \<Rightarrow> bytes \<Rightarrow> bool" where
  "hmac_matches L aeskey bs \<longleftrightarrow>
     wally_hmac_sha256 L aeskey (take (length bs - HMAC_SHA256_LEN) bs) = drop (length bs - HMAC_SHA256_LEN) bs"

definition get_decrypted_payload :: "'x key_lib \<Rightarrow> bytes \<Rightarrow> bytes \<Rightarrow> nat \<Rightarrow> bytes option run" where
  "get_decrypted_payload L aeskey bs output_len =
     jade_assert (length aeskey \<noteq> 0) (
     jade_assert (length bs > HMAC_SHA256_LEN) (
     jade_assert (output_len \<noteq> 0) (
     if \<not> hmac_matches L aeskey bs then Ret None
     else aes_decrypt_bytes L aeskey (take (length bs - HMAC_SHA256_LEN) bs) output_len)))"

definition keychain_encrypt_and_save_blob ::
  "'x key_lib \<Rightarrow> ('s, 'h, 'i) nvs \<Rightarrow> bytes \<Rightarrow> bytes option \<Rightarrow> bytes option \<Rightarrow> (('s, 'x) keychain_state, bool) act" where
  "keychain_encrypt_and_save_blob L N iv aeskey cleartext_blob =
     (if aeskey = None \<or> length (the aeskey) \<noteq> AES_KEY_LEN_256 then give False
      else if cleartext_blob = None \<or> length (the cleartext_blob) > SERIALIZED_KEY_LEN then give False
      else
        let blob = the cleartext_blob in
        andthen (from_run (get_encrypted_blob L iv (the aeskey) blob (ENCRYPTED_DATA_LEN (length blob)))) (\<lambda>r. case r of
          None \<Rightarrow> give False
        | Some encrypted \<Rightarrow> on_nvs (storage_set_encrypted_blob N (Some encrypted))))"

definition keychain_pin_attempts_remaining :: "('s, 'h, 'i) nvs \<Rightarrow> (('s, 'x) keychain_state, byte) act" where
  "keychain_pin_attempts_remaining N = on_nvs (storage_get_counter N)"

definition keychain_erase_encrypted :: "('s, 'h, 'i) nvs \<Rightarrow> (('s, 'x) keychain_state, unit) act" where
  "keychain_erase_encrypted N =
     andthen (on_nvs (storage_erase_encrypted_blob N)) (\<lambda>_.
     andthen (keychain_clear_network_type_restriction N) (\<lambda>_.
     update (\<lambda>st. st\<lparr>kc_has_encrypted_blob := False\<rparr>)))"

text \<open>The decrypted bytes, at most \<^verbatim>\<open>blob_len\<close> of them; the output pointers are given.\<close>

definition keychain_load_and_decrypt_blob ::
  "'x key_lib \<Rightarrow> ('s, 'h, 'i) nvs \<Rightarrow> bytes option \<Rightarrow> nat \<Rightarrow> (('s, 'x) keychain_state, bytes option) act" where
  "keychain_load_and_decrypt_blob L N aeskey blob_len =
     (if aeskey = None \<or> length (the aeskey) \<noteq> AES_KEY_LEN_256 \<or> blob_len < AES_PADDED_LEN SERIALIZED_KEY_LEN
      then give None
      else
        andthen (inspect (\<lambda>st. if \<not> keychain_has_pin st then give False else on_nvs (storage_decrement_counter N))) (\<lambda>go.
        if \<not> go then give None
        else
          andthen (on_nvs (storage_get_encrypted_blob N (ENCRYPTED_DATA_LEN SERIALIZED_KEY_LEN))) (\<lambda>r. case r of
            None \<Rightarrow>
              andthen (on_nvs (storage_erase_encrypted_blob N)) (\<lambda>_.
              andthen (update (\<lambda>st. st\<lparr>kc_has_encrypted_blob := False\<rparr>)) (\<lambda>_. give None))
          | Some encrypted \<Rightarrow>
              andthen (from_run (get_decrypted_payload L (the aeskey) encrypted blob_len)) (\<lambda>r. case r of
                None \<Rightarrow>
                  andthen (keychain_pin_attempts_remaining N) (\<lambda>left.
                  andthen (if left = 0 then keychain_erase_encrypted N else give ()) (\<lambda>_. give None))
              | Some cleartext \<Rightarrow> andthen (on_nvs (storage_restore_counter N)) (\<lambda>_. give (Some cleartext))))))"

definition keychain_store ::
  "'x key_lib \<Rightarrow> ('s, 'h, 'i) nvs \<Rightarrow> bytes \<Rightarrow> bytes option \<Rightarrow> (('s, 'x) keychain_state, bool) act" where
  "keychain_store L N iv aeskey =
     inspect (\<lambda>st.
       if aeskey = None \<or> length (the aeskey) \<noteq> AES_KEY_LEN_256 then give False
       else if kc_data st = None \<and> length (kc_mnemonic_entropy st) = 0 then give False
       else
         andthen (from_run
           (let entropy = kc_mnemonic_entropy st in
            if length entropy \<noteq> 0
            then jade_assert (length entropy = BIP39_ENTROPY_LEN_128 \<or> length entropy = BIP39_ENTROPY_LEN_256) (Ret entropy)
            else serialize L (the (kc_data st)))) (\<lambda>p_serialized_data.
         andthen (keychain_encrypt_and_save_blob L N iv aeskey (Some p_serialized_data)) (\<lambda>saved.
         if \<not> saved then give False
         else andthen (keychain_clear_network_type_restriction N) (\<lambda>_.
           andthen (update (\<lambda>st. st\<lparr>kc_has_encrypted_blob := True\<rparr>)) (\<lambda>_. give True)))))"

definition keychain_load ::
  "'x key_lib \<Rightarrow> ('s, 'h, 'i) nvs \<Rightarrow> bytes option \<Rightarrow> (('s, 'x) keychain_state, bool) act" where
  "keychain_load L N aeskey =
     inspect (\<lambda>st.
       if aeskey = None \<or> length (the aeskey) \<noteq> AES_KEY_LEN_256 then give False
       else if kc_data st \<noteq> None \<or> length (kc_mnemonic_entropy st) \<noteq> 0 then give False
       else if \<not> keychain_has_pin st then give False
       else
         andthen (keychain_load_and_decrypt_blob L N aeskey (AES_PADDED_LEN SERIALIZED_KEY_LEN)) (\<lambda>r. case r of
           None \<Rightarrow> give False
         | Some serialized \<Rightarrow>
             if length serialized = BIP39_ENTROPY_LEN_128 \<or> length serialized = BIP39_ENTROPY_LEN_256 then
               andthen (update (\<lambda>st. st\<lparr>kc_mnemonic_entropy := serialized\<rparr>)) (\<lambda>_. give True)
             else if length serialized = SERIALIZED_KEY_LEN then
               andthen (from_run (unserialize L serialized (zero_keychain L))) (\<lambda>keydata.
               andthen (keychain_set N (Some keydata) 0 False) (\<lambda>_. give True))
             else give False))"

definition keychain_reencrypt ::
  "'x key_lib \<Rightarrow> ('s, 'h, 'i) nvs \<Rightarrow> bytes \<Rightarrow> bytes option \<Rightarrow> bytes option \<Rightarrow> (('s, 'x) keychain_state, bool) act" where
  "keychain_reencrypt L N iv curr_aeskey new_aeskey =
     inspect (\<lambda>st.
       if curr_aeskey = None \<or> length (the curr_aeskey) \<noteq> AES_KEY_LEN_256
          \<or> new_aeskey = None \<or> length (the new_aeskey) \<noteq> AES_KEY_LEN_256 then give False
       else if \<not> keychain_has_pin st then give False
       else
         andthen (keychain_load_and_decrypt_blob L N curr_aeskey (AES_PADDED_LEN SERIALIZED_KEY_LEN)) (\<lambda>r. case r of
           None \<Rightarrow> give False
         | Some serialized \<Rightarrow> keychain_encrypt_and_save_blob L N iv new_aeskey (Some serialized)))"

definition keychain_get_new_privatekey :: "'x key_lib \<Rightarrow> (nat \<Rightarrow> bytes) \<Rightarrow> nat \<Rightarrow> bytes option" where
  "keychain_get_new_privatekey L get_random n =
     (if n \<noteq> EC_PRIVATE_KEY_LEN then None
      else List.find (ec_private_key_verify L) (map get_random [0..<4]))"

definition keychain_init_cache :: "('s, 'h, 'i) nvs \<Rightarrow> (('s, 'x) keychain_state, unit) act" where
  "keychain_init_cache N =
     andthen (on_nvs (storage_get_network_type_restriction N)) (\<lambda>restriction.
     andthen (update (\<lambda>st. st\<lparr>kc_network_type_restriction := restriction\<rparr>)) (\<lambda>_.
     andthen (keychain_pin_attempts_remaining N) (\<lambda>left.
     andthen (update (\<lambda>st. st\<lparr>kc_has_encrypted_blob := left > 0\<rparr>)) (\<lambda>_.
     reload_key_flags N))))"

text \<open>Switching on: the static variables have their initial values, the storage is as it was.\<close>

definition power_on :: "('s, 'h, 'i) nvs \<Rightarrow> (('s, 'x) keychain_state, unit) act" where
  "power_on N =
     andthen (update (\<lambda>st. \<lparr>kc_data = None, kc_network_type_restriction = network_type_value NETWORK_TYPE_NONE,
       kc_has_encrypted_blob = False, kc_userdata = 0, kc_temporary = False, kc_mnemonic_entropy = [],
       kc_key_flags = 0, kc_nvs = kc_nvs st\<rparr>)) (\<lambda>_. keychain_init_cache N)"

end
