(* ===== verification/Jade_Keychain_Props.thy ===== *)
theory Jade_Keychain_Props
  imports Jade_Keychain Jade_Storage_Props
begin

text \<open>
  The keychain over a storage that keeps its contract. \<^verbatim>\<open>attempts_left\<close> is what the stored
  PIN counter still allows; the lemmas give, for the operations that use the counter and
  the encrypted wallet, how both change, and for the others that they do not touch them.
\<close>

definition stored_blob :: "store \<Rightarrow> bytes option" where
  "stored_blob f = f DEFAULT_NAMESPACE BLOB_FIELD"

definition attempts_left :: "store \<Rightarrow> nat" where
  "attempts_left f = (case f DEFAULT_NAMESPACE PIN_COUNTER_FIELD of
     Some [c] \<Rightarrow> if 1 \<le> c \<and> c \<le> 3 then unat c else 0 | _ \<Rightarrow> 0)"

definition pin_entries :: "(string \<times> string) set" where
  "pin_entries = {(DEFAULT_NAMESPACE, PIN_COUNTER_FIELD), (DEFAULT_NAMESPACE, BLOB_FIELD)}"

lemma attempts_left_le: "attempts_left f \<le> 3"
  by (auto simp: attempts_left_def word_le_nat_alt split: option.split list.split)

lemma same_but_pin:
  "same_but X f g \<Longrightarrow> X \<inter> pin_entries = {} \<Longrightarrow> stored_blob g = stored_blob f \<and> attempts_left g = attempts_left f"
  by (auto simp: same_but_def pin_entries_def stored_blob_def attempts_left_def)

text \<open>Wrong attempts that the wallet may still survive; 0 when there is none.\<close>

definition survives :: "store \<Rightarrow> nat" where
  "survives f = (if stored_blob f = None then 0 else max 1 (attempts_left f))"

lemma survives_0: "survives f = 0 \<longleftrightarrow> stored_blob f = None"
  by (simp add: survives_def)

lemma survives_le: "survives f \<le> 3"
  using attempts_left_le [of f] by (simp add: survives_def)

context nvs_store
begin

lemma get_counter:
  assumes "inv s" and "storage_get_counter N s = Ret (c, t)"
  shows "inv t \<and> look t = look s \<and> (c \<noteq> 0 \<longrightarrow> look s DEFAULT_NAMESPACE PIN_COUNTER_FIELD = Some [c])"
proof -
  from assms(2) obtain r where r: "read_blob_fixed N DEFAULT_NAMESPACE (Some PIN_COUNTER_FIELD) 1 s = Ret (r, t)"
    and c: "c = (case r of None \<Rightarrow> 0 | Some d \<Rightarrow> hd d)" by (auto simp: storage_get_counter_def run_simps)
  from read_blob_fixed [OF assms(1) r] c show ?thesis
    by (cases r) (auto simp: length_Suc_conv)
qed

lemma erase_blob:
  assumes "inv s" and "storage_erase_encrypted_blob N s = Ret (r, t)"
  shows "inv t \<and> same_but pin_entries (look s) (look t) \<and> stored_blob (look t) \<in> {stored_blob (look s), None}
    \<and> attempts_left (look t) \<le> attempts_left (look s) \<and> (r \<longrightarrow> stored_blob (look t) = None)"
proof -
  from assms(2) obtain b u where u: "erase_key N DEFAULT_NAMESPACE (Some PIN_COUNTER_FIELD) s = Ret (b, u)"
    and t: "erase_key N DEFAULT_NAMESPACE (Some BLOB_FIELD) u = Ret (r, t)"
    by (auto simp: storage_erase_encrypted_blob_def run_simps)
  from erase_key [OF assms(1) u] have iu: "inv u"
    and au: "only_at DEFAULT_NAMESPACE PIN_COUNTER_FIELD (if b then {None} else {look s DEFAULT_NAMESPACE PIN_COUNTER_FIELD, None})
      (look s) (look u)" unfolding option.sel by blast+
  from erase_key [OF iu t] have it: "inv t"
    and at: "only_at DEFAULT_NAMESPACE BLOB_FIELD (if r then {None} else {look u DEFAULT_NAMESPACE BLOB_FIELD, None})
      (look u) (look t)" unfolding option.sel by blast+
  from au at it show ?thesis
    by (auto simp: only_at_def same_but_def pin_entries_def stored_blob_def attempts_left_def storage_names split: if_splits)
qed

lemma decrement:
  assumes "inv s" and "storage_decrement_counter N s = Ret (r, t)"
  shows "inv t \<and> same_but pin_entries (look s) (look t) \<and> attempts_left (look t) \<le> attempts_left (look s)
    \<and> stored_blob (look t) \<in> {stored_blob (look s), None}
    \<and> (r \<longrightarrow> attempts_left (look s) = Suc (attempts_left (look t)) \<and> stored_blob (look t) = stored_blob (look s)
        \<and> look t DEFAULT_NAMESPACE PIN_COUNTER_FIELD = Some [of_nat (attempts_left (look t))])"
proof -
  from assms(2) obtain c u where c: "storage_get_counter N s = Ret (c, u)"
    and rest: "(if c = 0 \<or> c > 3 then andthen (storage_erase_encrypted_blob N) (\<lambda>_. give False)
     else
       andthen (store_blob N DEFAULT_NAMESPACE (Some PIN_COUNTER_FIELD) (Some [c - 1])) (\<lambda>stored.
       if \<not> stored then andthen (storage_erase_encrypted_blob N) (\<lambda>_. give False)
       else give True)) u = Ret (r, t)" by (auto simp: storage_decrement_counter_def run_simps)
  from get_counter [OF assms(1) c] have u: "inv u" "look u = look s"
    and cnt: "c \<noteq> 0 \<Longrightarrow> look s DEFAULT_NAMESPACE PIN_COUNTER_FIELD = Some [c]" by auto
  show ?thesis
  proof (cases "c = 0 \<or> c > 3")
    case True
    with rest obtain b where "storage_erase_encrypted_blob N u = Ret (b, t)" "\<not> r" by (auto simp: run_simps)
    with erase_blob [OF u(1)] u show ?thesis by auto
  next
    case False
    with rest obtain b v where v: "store_blob N DEFAULT_NAMESPACE (Some PIN_COUNTER_FIELD) (Some [c - 1]) u = Ret (b, v)"
      and rest': "(if \<not> b then andthen (storage_erase_encrypted_blob N) (\<lambda>_. give False) else give True) v = Ret (r, t)"
      by (auto simp: run_simps)
    from False have c13: "1 \<le> c" "c \<le> 3" "c \<noteq> 0" by (simp_all add: not_less word_le_nat_alt Suc_le_eq unat_gt_0)
    from c13 have pred: "unat (c - 1) = unat c - 1" by (simp add: unat_minus_one)
    from cnt c13 have s: "attempts_left (look s) = unat c" by (simp add: attempts_left_def)
    from store_blob [OF u(1) v, unfolded option.sel u(2)] have iv: "inv v" and av: "only_at DEFAULT_NAMESPACE PIN_COUNTER_FIELD
      (if b then {Some [c - 1]} else {look s DEFAULT_NAMESPACE PIN_COUNTER_FIELD, Some [c - 1]}) (look s) (look v)"
      by blast+
    have next_: "attempts_left f = unat c - 1" if "f DEFAULT_NAMESPACE PIN_COUNTER_FIELD = Some [c - 1]" for f
    proof (cases "c = 1")
      case True
      with that show ?thesis by (simp add: attempts_left_def)
    next
      case False
      have "unat c \<noteq> 0" using c13(3) by (simp add: unat_eq_0)
      moreover have "unat c \<noteq> 1" using False word_eqI_unat [of c 1] by auto
      ultimately have "1 < unat c" by linarith
      with that pred c13 show ?thesis by (auto simp: attempts_left_def word_le_nat_alt)
    qed
    have vs: "same_but pin_entries (look s) (look v)" "stored_blob (look v) = stored_blob (look s)"
      using av by (auto simp: only_at_def same_but_def pin_entries_def stored_blob_def storage_names)
    have av': "b \<Longrightarrow> attempts_left (look v) = unat c - 1" "attempts_left (look v) \<le> unat c"
      using av next_ [of "look v"] s by (auto simp: only_at_def attempts_left_def split: if_splits)
    have c1: "0 < unat c" using c13 by (simp add: unat_gt_0)
    show ?thesis
    proof (cases b)
      case True
      with rest' have "r" "t = v" by (simp_all add: give_def)
      moreover have "look v DEFAULT_NAMESPACE PIN_COUNTER_FIELD = Some [c - 1]" using av True by (simp add: only_at_def)
      moreover have "of_nat (unat c - 1) = c - 1" using arg_cong [OF pred, of "of_nat :: nat \<Rightarrow> byte"] by simp
      ultimately show ?thesis using True iv vs av' s c1 by simp
    next
      case False
      with rest' obtain b' where "storage_erase_encrypted_blob N v = Ret (b', t)" "\<not> r" by (auto simp: run_simps)
      with erase_blob [OF iv] vs av' s show ?thesis by (auto intro: same_but_trans)
    qed
  qed
qed

end

context nvs_reliable
begin

lemma erase_key_ok:
  assumes "inv s" and "erase_key N ns name s = Ret (r, t)" and "ns \<in> spaces"
  shows "r"
proof -
  from opens [OF assms(1,3)] obtain h u where u: "nvs_open N ns NVS_READWRITE s = (Inr h, u)" by blast
  from open_nvs [OF assms(1) u] have i: "inv u" "handle h" by auto
  obtain e v where v: "nvs_erase_key N h (the name) u = (e, v)" by fastforce
  from erases [OF i v] erase [OF i v] have "e = ESP_OK \<or> e = ESP_ERR_NVS_NOT_FOUND" "inv v" by auto
  moreover from commits [OF \<open>inv v\<close> i(2)] obtain w where "nvs_commit N h v = (ESP_OK, w)" by blast
  ultimately show ?thesis using assms(2) u v
    by (auto simp: erase_key_def run_simps storage_open_def storage_remove_def storage_write_def)
qed

lemma erase_blob_ok:
  assumes "inv s" and "storage_erase_encrypted_blob N s = Ret (r, t)"
  shows "inv t \<and> stored_blob (look t) = None \<and> same_but pin_entries (look s) (look t)"
proof -
  from assms(2) obtain b u where "erase_key N DEFAULT_NAMESPACE (Some PIN_COUNTER_FIELD) s = Ret (b, u)"
    and t: "erase_key N DEFAULT_NAMESPACE (Some BLOB_FIELD) u = Ret (r, t)"
    by (auto simp: storage_erase_encrypted_blob_def run_simps)
  with erase_key [OF assms(1)] have "inv u" by blast
  from erase_key_ok [OF this t default_space] erase_blob [OF assms] show ?thesis by simp
qed

lemma get_counter_value:
  assumes "inv s" and "storage_get_counter N s = Ret (c, t)"
  shows "look s DEFAULT_NAMESPACE PIN_COUNTER_FIELD = Some [d] \<Longrightarrow> c = d"
proof -
  assume "look s DEFAULT_NAMESPACE PIN_COUNTER_FIELD = Some [d]"
  from read_back [OF assms(1) default_space this, of 1] assms(2) show ?thesis
    by (auto simp: storage_get_counter_def run_simps)
qed

lemma decrement_fails:
  assumes "inv s" and "storage_decrement_counter N s = Ret (False, t)"
  shows "stored_blob (look t) = None"
proof -
  from assms(2) obtain c u where c: "storage_get_counter N s = Ret (c, u)"
    and rest: "(if c = 0 \<or> c > 3 then andthen (storage_erase_encrypted_blob N) (\<lambda>_. give False)
     else
       andthen (store_blob N DEFAULT_NAMESPACE (Some PIN_COUNTER_FIELD) (Some [c - 1])) (\<lambda>stored.
       if \<not> stored then andthen (storage_erase_encrypted_blob N) (\<lambda>_. give False)
       else give True)) u = Ret (False, t)" by (auto simp: storage_decrement_counter_def run_simps)
  from get_counter [OF assms(1) c] have "inv u" by simp
  show ?thesis
  proof (cases "c = 0 \<or> c > 3")
    case True
    with rest erase_blob_ok [OF \<open>inv u\<close>] show ?thesis by (auto simp: run_simps)
  next
    case False
    with rest obtain b v where v: "store_blob N DEFAULT_NAMESPACE (Some PIN_COUNTER_FIELD) (Some [c - 1]) u = Ret (b, v)"
      and rest': "(if \<not> b then andthen (storage_erase_encrypted_blob N) (\<lambda>_. give False) else give True) v = Ret (False, t)"
      by (auto simp: run_simps)
    from store_blob [OF \<open>inv u\<close> v] have "inv v" by simp
    with rest' erase_blob_ok show ?thesis by (cases b) (auto simp: run_simps)
  qed
qed

end

section \<open>Operations of the keychain\<close>

context nvs_store
begin

text \<open>As \<^verbatim>\<open>touches\<close>, of the operations of the keychain.\<close>

definition ktouches :: "(string \<times> string) set \<Rightarrow> (('s, 'x) keychain_state, 'a) act \<Rightarrow> bool" where
  "ktouches X m \<longleftrightarrow> (\<forall>st r t. inv (kc_nvs st) \<longrightarrow> m st = Ret (r, t) \<longrightarrow>
     inv (kc_nvs t) \<and> same_but X (look (kc_nvs st)) (look (kc_nvs t)))"

lemma ktouchesD: "ktouches X m \<Longrightarrow> inv (kc_nvs st) \<Longrightarrow> m st = Ret (r, t) \<Longrightarrow>
    inv (kc_nvs t) \<and> same_but X (look (kc_nvs st)) (look (kc_nvs t))"
  by (simp add: ktouches_def)

lemma ktouches_give: "ktouches X (give a)"
  by (simp add: ktouches_def run_simps)

lemma ktouches_insist: "ktouches X (insist b)"
  by (simp add: ktouches_def run_simps)

lemma ktouches_from_run: "ktouches X (from_run m)"
  by (simp add: ktouches_def run_simps)

lemma ktouches_update: "(\<And>st. kc_nvs (f st) = kc_nvs st) \<Longrightarrow> ktouches X (update f)"
  by (simp add: ktouches_def run_simps)

lemma ktouches_inspect: "(\<And>st. ktouches X (f st)) \<Longrightarrow> ktouches X (inspect f)"
  unfolding ktouches_def run_simps by blast

lemma ktouches_on_nvs: "touches X m \<Longrightarrow> ktouches X (on_nvs m)"
  unfolding ktouches_def run_simps by (auto simp: touches_def)

lemma ktouches_andthen:
  assumes m: "ktouches X m" and f: "\<And>a. ktouches X (f a)"
  shows "ktouches X (andthen m f)"
  unfolding ktouches_def
proof (intro allI impI)
  fix st r t
  assume "inv (kc_nvs st)" and "andthen m f st = Ret (r, t)"
  then obtain a u where a: "m st = Ret (a, u)" "f a u = Ret (r, t)" by (auto simp: run_simps)
  from ktouchesD [OF m \<open>inv (kc_nvs st)\<close> a(1)] have u: "inv (kc_nvs u)" "same_but X (look (kc_nvs st)) (look (kc_nvs u))" by auto
  from ktouchesD [OF f u(1) a(2)] u(2)
  show "inv (kc_nvs t) \<and> same_but X (look (kc_nvs st)) (look (kc_nvs t))" by (blast intro: same_but_trans)
qed

lemmas ktouches_intros = ktouches_give ktouches_insist ktouches_from_run ktouches_update ktouches_inspect
  ktouches_andthen

lemma touches_read_raw: "touches X (read_raw N ns k n)"
  unfolding read_raw_def by (intro touches_andthen touches_read_fixed touches_give)

lemma touches_store_raw: "(ns, the k) \<in> X \<Longrightarrow> touches X (store_raw N ns k n v)"
  unfolding store_raw_def using touches_mono [OF touches_store_blob] by blast

lemma touches_network_type: "touches X (storage_get_network_type_restriction N)"
  unfolding storage_get_network_type_restriction_def by (intro touches_andthen touches_read_fixed touches_give)

lemma touches_get_counter: "touches X (storage_get_counter N)"
  unfolding storage_get_counter_def by (intro touches_andthen touches_read_fixed touches_give)

lemma ktouches_reload: "ktouches X (reload_key_flags N)"
  unfolding reload_key_flags_def storage_get_key_flags_def
  by (intro ktouches_intros ktouches_on_nvs touches_read_raw) simp

lemma ktouches_clear: "ktouches X (keychain_clear N)"
  unfolding keychain_clear_def by (intro ktouches_intros ktouches_reload) simp_all

lemma ktouches_set: "ktouches X (keychain_set N src ud temp)"
  unfolding keychain_set_def
  by (auto intro!: ktouches_intros ktouches_reload ktouches_clear split: option.split)

lemma ktouches_has_temporary: "ktouches X keychain_has_temporary"
  unfolding keychain_has_temporary_def by (intro ktouches_intros)

lemma ktouches_clear_restriction:
  "(DEFAULT_NAMESPACE, NETWORK_TYPE_FIELD) \<in> X \<Longrightarrow> ktouches X (keychain_clear_network_type_restriction N)"
  unfolding keychain_clear_network_type_restriction_def storage_set_network_type_restriction_def
  by (auto intro!: ktouches_intros ktouches_has_temporary ktouches_on_nvs touches_store_raw)

lemma clear_restriction_keeps:
  "keychain_clear_network_type_restriction N st = Ret (r, t) \<Longrightarrow>
    kc_data t = kc_data st \<and> kc_mnemonic_entropy t = kc_mnemonic_entropy st \<and> kc_has_encrypted_blob t = kc_has_encrypted_blob st
    \<and> kc_temporary t = kc_temporary st"
  by (auto simp: keychain_clear_network_type_restriction_def keychain_has_temporary_def run_simps split: if_splits)

lemma ktouches_set_restriction:
  "(DEFAULT_NAMESPACE, NETWORK_TYPE_FIELD) \<in> X \<Longrightarrow> ktouches X (keychain_set_network_type_restriction N nt)"
  unfolding keychain_set_network_type_restriction_def storage_set_network_type_restriction_def
  by (auto intro!: ktouches_intros ktouches_has_temporary ktouches_on_nvs touches_store_raw)

lemma ktouches_persist: "(DEFAULT_NAMESPACE, KEY_FLAGS_FIELD) \<in> X \<Longrightarrow> ktouches X (keychain_persist_key_flags N)"
  unfolding keychain_persist_key_flags_def storage_set_key_flags_def Let_def
  by (auto intro!: ktouches_intros ktouches_on_nvs touches_store_raw)

lemma ktouches_attempts: "ktouches X (keychain_pin_attempts_remaining N)"
  unfolding keychain_pin_attempts_remaining_def by (intro ktouches_on_nvs touches_get_counter)

lemma ktouches_power_on: "ktouches X (power_on N)"
  unfolding power_on_def keychain_init_cache_def
  by (intro ktouches_intros ktouches_on_nvs touches_network_type ktouches_attempts ktouches_reload) simp_all

end

context nvs_reliable
begin

lemma erase_encrypted_ok:
  fixes st :: "('a, 'x) keychain_state"
  assumes "inv (kc_nvs st)" and "keychain_erase_encrypted N st = Ret (r, t)"
  shows "inv (kc_nvs t) \<and> stored_blob (look (kc_nvs t)) = None \<and> kc_data t = kc_data st
    \<and> kc_mnemonic_entropy t = kc_mnemonic_entropy st \<and> \<not> kc_has_encrypted_blob t \<and> kc_temporary t = kc_temporary st"
proof -
  from assms(2) obtain b s u where s: "storage_erase_encrypted_blob N (kc_nvs st) = Ret (b, s)"
    and u: "keychain_clear_network_type_restriction N (st\<lparr>kc_nvs := s\<rparr>) = Ret ((), u)" and t: "t = u\<lparr>kc_has_encrypted_blob := False\<rparr>"
    by (auto simp: keychain_erase_encrypted_def run_simps)
  from erase_blob_ok [OF assms(1) s] have "inv s" "stored_blob (look s) = None" by auto
  moreover have k: "ktouches {(DEFAULT_NAMESPACE, NETWORK_TYPE_FIELD)}
      (keychain_clear_network_type_restriction N :: (('a, 'x) keychain_state, unit) act)"
    by (rule ktouches_clear_restriction) simp
  ultimately have same: "inv (kc_nvs u) \<and> same_but {(DEFAULT_NAMESPACE, NETWORK_TYPE_FIELD)} (look s) (look (kc_nvs u))"
    using ktouchesD [OF k, of "st\<lparr>kc_nvs := s\<rparr>" "()" u] u by simp
  then have "stored_blob (look (kc_nvs u)) = None"
    using \<open>stored_blob (look s) = None\<close> by (simp add: same_but_def stored_blob_def storage_names)
  with same clear_restriction_keeps [OF u] t show ?thesis by simp
qed

end

text \<open>A key that does not open the stored wallet.\<close>

definition wrong_key :: "'x key_lib \<Rightarrow> bytes \<Rightarrow> store \<Rightarrow> bool" where
  "wrong_key L k f \<longleftrightarrow> length k = AES_KEY_LEN_256 \<and> (\<forall>b. stored_blob f = Some b \<longrightarrow> \<not> hmac_matches L k b)"

context nvs_reliable
begin

text \<open>An attempt with a wrong key does not decrypt anything and costs one of the attempts.\<close>

lemma wrong_attempt:
  assumes "inv (kc_nvs st)" and wrong: "wrong_key L k (look (kc_nvs st))" and "keychain_has_pin st"
    and run: "keychain_load_and_decrypt_blob L N (Some k) (AES_PADDED_LEN SERIALIZED_KEY_LEN) st = Ret (r, t)"
  shows "r = None \<and> inv (kc_nvs t) \<and> survives (look (kc_nvs t)) \<le> survives (look (kc_nvs st)) - 1
    \<and> kc_data t = kc_data st \<and> kc_mnemonic_entropy t = kc_mnemonic_entropy st"
proof -
  let ?s = "kc_nvs st"
  have len: "\<not> (Some k = None \<or> length (the (Some k)) \<noteq> AES_KEY_LEN_256
      \<or> AES_PADDED_LEN SERIALIZED_KEY_LEN < AES_PADDED_LEN SERIALIZED_KEY_LEN)"
    using wrong by (simp add: wrong_key_def)
  from run len assms(3) obtain go u where d: "storage_decrement_counter N ?s = Ret (go, u)"
    and rest: "(if \<not> go then give None
        else
          andthen (on_nvs (storage_get_encrypted_blob N (ENCRYPTED_DATA_LEN SERIALIZED_KEY_LEN))) (\<lambda>r. case r of
            None \<Rightarrow>
              andthen (on_nvs (storage_erase_encrypted_blob N)) (\<lambda>_.
              andthen (update (\<lambda>st. st\<lparr>kc_has_encrypted_blob := False\<rparr>)) (\<lambda>_. give None))
          | Some encrypted \<Rightarrow>
              andthen (from_run (get_decrypted_payload L k encrypted (AES_PADDED_LEN SERIALIZED_KEY_LEN))) (\<lambda>r. case r of
                None \<Rightarrow>
                  andthen (keychain_pin_attempts_remaining N) (\<lambda>left.
                  andthen (if left = 0 then keychain_erase_encrypted N else give ()) (\<lambda>_. give None))
              | Some cleartext \<Rightarrow> andthen (on_nvs (storage_restore_counter N)) (\<lambda>_. give (Some cleartext)))))
      (st\<lparr>kc_nvs := u\<rparr>) = Ret (r, t)"
    unfolding keychain_load_and_decrypt_blob_def
    by (simp only: if_not_P if_False option.sel run_simps inspect_def not_False_eq_True simp_thms) (auto simp: run_simps)
  note dec = decrement [OF assms(1) d]
  show ?thesis
  proof (cases go)
    case False
    with rest decrement_fails [OF assms(1)] d dec show ?thesis by (auto simp: run_simps survives_def)
  next
    case True
    with dec have u: "inv u" "attempts_left (look ?s) = Suc (attempts_left (look u))" "stored_blob (look u) = stored_blob (look ?s)"
      by auto
    from True rest obtain e v where e: "read_blob N DEFAULT_NAMESPACE (Some BLOB_FIELD) (ENCRYPTED_DATA_LEN SERIALIZED_KEY_LEN) u = Ret (e, v)"
      and rest': "(case e of
            None \<Rightarrow>
              andthen (on_nvs (storage_erase_encrypted_blob N)) (\<lambda>_.
              andthen (update (\<lambda>st. st\<lparr>kc_has_encrypted_blob := False\<rparr>)) (\<lambda>_. give None))
          | Some encrypted \<Rightarrow>
              andthen (from_run (get_decrypted_payload L k encrypted (AES_PADDED_LEN SERIALIZED_KEY_LEN))) (\<lambda>r. case r of
                None \<Rightarrow>
                  andthen (keychain_pin_attempts_remaining N) (\<lambda>left.
                  andthen (if left = 0 then keychain_erase_encrypted N else give ()) (\<lambda>_. give None))
              | Some cleartext \<Rightarrow> andthen (on_nvs (storage_restore_counter N)) (\<lambda>_. give (Some cleartext))))
         (st\<lparr>kc_nvs := v\<rparr>) = Ret (r, t)"
      by (auto simp: storage_get_encrypted_blob_def andthen_Ret_iff on_nvs_Ret)
    from read_blob [OF u(1) e] have v: "inv v" "look v = look u" "\<And>d. e = Some d \<Longrightarrow> stored_blob (look u) = Some d"
      by (auto simp: stored_blob_def)
    show ?thesis
    proof (cases e)
      case None
      with rest' obtain b w where "storage_erase_encrypted_blob N v = Ret (b, w)" and t: "t = st\<lparr>kc_nvs := w, kc_has_encrypted_blob := False\<rparr>" "r = None"
        by (auto simp: run_simps)
      with erase_blob_ok [OF v(1)] show ?thesis by (simp add: survives_def)
    next
      case (Some d)
      with v u have "stored_blob (look ?s) = Some d" by simp
      with wrong have "\<not> hmac_matches L k d" by (simp add: wrong_key_def)
      with rest' Some obtain left w where w: "storage_get_counter N v = Ret (left, w)" and r: "r = None"
        and rest'': "(if left = 0 then keychain_erase_encrypted N else give ()) (st\<lparr>kc_nvs := w\<rparr>) = Ret ((), t)"
        by (auto simp: run_simps get_decrypted_payload_def keychain_pin_attempts_remaining_def split: option.splits)
      from get_counter [OF v(1) w] have iw: "inv w" "look w = look v" by auto
      show ?thesis
      proof (cases "left = 0")
        case False
        with rest'' have "t = st\<lparr>kc_nvs := w\<rparr>" by (simp add: run_simps)
        moreover from get_counter [OF v(1) w] False have "look u DEFAULT_NAMESPACE PIN_COUNTER_FIELD = Some [left]"
          by (simp add: v(2))
        with dec True False have "attempts_left (look u) \<noteq> 0" by (cases "attempts_left (look u)") auto
        ultimately show ?thesis using u iw v r by (simp add: survives_def)
      next
        case True
        with rest'' erase_encrypted_ok [of "st\<lparr>kc_nvs := w\<rparr>"] iw r show ?thesis by (simp add: survives_def)
      qed
    qed
  qed
qed

end

section \<open>Reading the wallet back\<close>

text \<open>No storage call that has its arguments stops the device.\<close>

lemma read_blob_fixed_total: "0 < n \<Longrightarrow> \<exists>r t. read_blob_fixed N ns (Some k) n s = Ret (r, t)"
  by (simp add: read_blob_fixed_def read_blob_def storage_open_def andthen_def give_def insist_def
      split: prod.split sum.split)

lemma reload_total:
  "\<exists>t. reload_key_flags N st = Ret ((), t) \<and> kc_data t = kc_data st \<and> kc_mnemonic_entropy t = kc_mnemonic_entropy st"
  using read_blob_fixed_total [of 1 N DEFAULT_NAMESPACE KEY_FLAGS_FIELD "kc_nvs st"]
  by (auto simp: reload_key_flags_def storage_get_key_flags_def read_raw_def andthen_def on_nvs_def give_def update_def)

lemma keychain_set_total:
  "\<exists>t. keychain_set N (Some k) ud temp st = Ret ((), t) \<and> kc_data t = Some k \<and> kc_mnemonic_entropy t = []"
proof -
  let ?st = "st\<lparr>kc_data := None, kc_mnemonic_entropy := []\<rparr>"
  obtain u where 1: "reload_key_flags N ?st = Ret ((), u)" using reload_total [of N ?st] by blast
  let ?st' = "u\<lparr>kc_userdata := 0, kc_temporary := False, kc_data := Some k, kc_mnemonic_entropy := []\<rparr>"
  obtain v where 2: "reload_key_flags N ?st' = Ret ((), v)" "kc_data v = Some k" "kc_mnemonic_entropy v = []"
    using reload_total [of N ?st'] by auto
  from 1 2 show ?thesis
    by (simp add: keychain_set_def keychain_clear_def inspect_def andthen_def update_def insist_def)
qed

context nvs_perfect
begin

lemma store_blob_ok:
  assumes "inv s" and "ns \<in> spaces" and "v \<noteq> []"
  shows "\<exists>t. store_blob N ns (Some k) (Some v) s = Ret (True, t)"
proof -
  from opens [OF assms(1,2)] obtain h u where u: "nvs_open N ns NVS_READWRITE s = (Inr h, u)" by blast
  from open_nvs [OF assms(1) u] have i: "inv u" "handle h" by auto
  from sets [OF i] obtain w where w: "nvs_set_blob N h k v u = (ESP_OK, w)" by blast
  from set_blob [OF i w] have "inv w" by simp
  from commits [OF this i(2)] obtain x where "nvs_commit N h w = (ESP_OK, x)" by blast
  with u w assms(3) show ?thesis by (simp add: store_blob_def storage_open_def storage_write_def andthen_def give_def)
qed

lemma decrement_ok:
  assumes "inv s" and "look s DEFAULT_NAMESPACE PIN_COUNTER_FIELD = Some [c]" and "c \<noteq> 0" and "\<not> c > 3"
  shows "\<exists>t. storage_decrement_counter N s = Ret (True, t)"
proof -
  from read_back [OF assms(1) default_space assms(2), of 1] obtain u where
    u: "read_blob_fixed N DEFAULT_NAMESPACE (Some PIN_COUNTER_FIELD) 1 s = Ret (Some [c], u)" by auto
  from read_blob_fixed [OF assms(1) u] have "inv u" by simp
  from store_blob_ok [OF this default_space, of "[c - 1]" PIN_COUNTER_FIELD] obtain t where
    "store_blob N DEFAULT_NAMESPACE (Some PIN_COUNTER_FIELD) (Some [c - 1]) u = Ret (True, t)" by auto
  with u assms(3,4) show ?thesis
    by (simp add: storage_decrement_counter_def storage_get_counter_def andthen_def give_def)
qed

lemma get_blob_ok:
  assumes "inv s" and "stored_blob (look s) = Some e" and "length e \<le> n" and "0 < n"
  shows "\<exists>t. storage_get_encrypted_blob N n s = Ret (Some e, t)"
proof -
  from opens [OF assms(1) default_space] obtain h t where t: "nvs_open N DEFAULT_NAMESPACE NVS_READONLY s = (Inr h, t)" by blast
  from open_nvs [OF assms(1) t] have "inv t" "handle h" "ns_of h = DEFAULT_NAMESPACE" "look t = look s" by auto
  with finds [of t h BLOB_FIELD e n] assms(2,3) have "nvs_get_blob N h BLOB_FIELD n t = Inr e" by (simp add: stored_blob_def)
  with t assms(4) show ?thesis by (simp add: storage_get_encrypted_blob_def read_blob_def storage_open_def andthen_def)
qed

text \<open>With attempts left, the right key decrypts the wallet.\<close>

lemma right_attempt:
  assumes "inv (kc_nvs st)" and "keychain_has_pin st" and "length k = AES_KEY_LEN_256"
    and "look (kc_nvs st) DEFAULT_NAMESPACE PIN_COUNTER_FIELD = Some [c]" and "c \<noteq> 0" and "\<not> c > 3"
    and "stored_blob (look (kc_nvs st)) = Some e" and "length e \<le> ENCRYPTED_DATA_LEN SERIALIZED_KEY_LEN"
    and "get_decrypted_payload L k e (AES_PADDED_LEN SERIALIZED_KEY_LEN) = Ret (Some p)"
  shows "\<exists>s. keychain_load_and_decrypt_blob L N (Some k) (AES_PADDED_LEN SERIALIZED_KEY_LEN) st
    = Ret (Some p, st\<lparr>kc_nvs := s\<rparr>)"
proof -
  from decrement_ok [OF assms(1,4,5,6)] obtain u where u: "storage_decrement_counter N (kc_nvs st) = Ret (True, u)" by blast
  from decrement [OF assms(1) u] assms(7) have iu: "inv u" and "stored_blob (look u) = Some e" by auto
  from get_blob_ok [OF this assms(8)] obtain v where v: "storage_get_encrypted_blob N (ENCRYPTED_DATA_LEN SERIALIZED_KEY_LEN) u = Ret (Some e, v)"
    by (auto simp: key_sizes)
  from touches_read [of "{}"] iu v have "inv v" by (auto simp: storage_get_encrypted_blob_def touches_def)
  from store_blob_ok [OF this default_space, of "[3]" PIN_COUNTER_FIELD] obtain w where
    "storage_restore_counter N v = Ret (True, w)" by (auto simp: storage_restore_counter_def)
  with u v assms(2,3,9) show ?thesis
    by (simp add: keychain_load_and_decrypt_blob_def inspect_def andthen_def on_nvs_def from_run_def give_def) blast
qed

end

text \<open>The service path is written in 16-bit words.\<close>

lemma word16_split:
  fixes p :: "u32"
  assumes "p AND 0xFFFF0000 = 0"
  shows "push_bit 8 (ucast (ucast (drop_bit 8 p) :: byte)) + ucast (ucast (p AND 0xFF) :: byte) = p"
proof -
  have m: "(0xFFFF0000 :: u32) = push_bit 16 (mask 16)" "(0xFF :: u32) = mask 8" by (simp_all add: mask_eq_exp_minus_1)
  have z: "\<not> bit p n" if "16 \<le> n" "n < 32" for n
  proof -
    from assms have "\<not> bit (p AND push_bit 16 (mask 16)) n" unfolding m by simp
    moreover have "n - 16 < 32" "n - 16 < 16" using that by simp_all
    ultimately show ?thesis using that by (simp add: bit_simps)
  qed
  have "push_bit 8 (ucast (ucast (drop_bit 8 p) :: byte)) AND ucast (ucast (p AND 0xFF) :: byte) = (0 :: u32)"
    unfolding m by (rule bit_word_eqI) (auto simp: bit_simps)
  then have "push_bit 8 (ucast (ucast (drop_bit 8 p) :: byte)) + ucast (ucast (p AND 0xFF) :: byte)
    = (push_bit 8 (ucast (ucast (drop_bit 8 p) :: byte)) OR ucast (ucast (p AND 0xFF) :: byte) :: u32)"
    by (metis add_0 word_plus_and_or)
  also have "\<dots> = p"
  proof (unfold m, rule bit_word_eqI)
    fix n assume "n < LENGTH(32)"
    with z [of n] show "bit (push_bit 8 (ucast (ucast (drop_bit 8 p) :: byte)) OR ucast (ucast (p AND mask 8) :: byte) :: u32) n = bit p n"
      by (cases "n < 16"; cases "n < 8") (auto simp: bit_simps)
  qed
  finally show ?thesis .
qed

lemma path_words_unserialize:
  assumes "path_words path = Ret d"
  shows "length d = 2 * length path \<and> (\<forall>i < length path.
    push_bit 8 (ucast (d ! (2 * i))) + ucast (d ! (2 * i + 1)) = path ! i)"
  using assms
proof (induction path arbitrary: d)
  case Nil
  then show ?case by simp
next
  case (Cons p path)
  then obtain rest where p: "p AND 0xFFFF0000 = 0" and rest: "path_words path = Ret rest"
    and d: "d = ucast (drop_bit 8 p) # ucast (p AND 0xFF) # rest" by (auto simp: run_simps)
  have "push_bit 8 (ucast (ucast (drop_bit 8 p) :: byte)) + ucast (ucast (p AND 0xFF) :: byte) = p"
    using p by (rule word16_split)
  with Cons.IH [OF rest] d show ?case by (auto simp: nth_Cons' less_Suc_eq_0_disj)
qed

lemma gaservice_path_roundtrip:
  assumes "wallet_serialize_gaservice_path path = Ret (Some d)"
  shows "length d = 64 \<and> wallet_unserialize_gaservice_path d = Some path"
proof -
  from assms have l: "length path = 32" and w: "path_words path = Ret d"
    by (auto simp: wallet_serialize_gaservice_path_def run_simps split: if_splits)
  from path_words_unserialize [OF w] l show ?thesis
    by (auto simp: wallet_unserialize_gaservice_path_def intro: nth_equalityI)
qed

end
