(* ===== verification/Jade_Keychain_Theorems.thy ===== *)
theory Jade_Keychain_Theorems
  imports Jade_Keychain_Props Jade_Storage_Theorems
begin

text \<open>
  The properties of the keychain: its state is consistent after any sequence of its
  operations, three wrong PINs remove the stored wallet whatever happens between them, and
  a stored wallet is read back after a restart.
\<close>

section \<open>Consistency of the state\<close>

text \<open>Every operation that changes the keychain.\<close>

inductive keychain_op ::
  "'x key_lib \<Rightarrow> ('s, 'h, 'i) nvs \<Rightarrow> ('s, 'x) keychain_state \<Rightarrow> ('s, 'x) keychain_state \<Rightarrow> bool" for L N where
  set: "keychain_set N src ud temp st = Ret (u, t) \<Longrightarrow> keychain_op L N st t"
| clear: "keychain_clear N st = Ret (u, t) \<Longrightarrow> keychain_op L N st t"
| frequency: "keychain_op L N st (keychain_set_passphrase_frequency freq st)"
| phrase_type: "keychain_op L N st (keychain_set_passphrase_type type st)"
| confirm_export: "keychain_op L N st (keychain_set_confirm_export_blinding_key b st)"
| persist: "keychain_persist_key_flags N st = Ret (u, t) \<Longrightarrow> keychain_op L N st t"
| set_temporary: "keychain_set_temporary st = Ret (u, t) \<Longrightarrow> keychain_op L N st t"
| cache_entropy: "keychain_cache_mnemonic_entropy L m st = Ret (u, t) \<Longrightarrow> keychain_op L N st t"
| clear_restriction: "keychain_clear_network_type_restriction N st = Ret (u, t) \<Longrightarrow> keychain_op L N st t"
| set_restriction: "keychain_set_network_type_restriction N nt st = Ret (u, t) \<Longrightarrow> keychain_op L N st t"
| service: "keychain_cached_service L sv sub st = Ret (r, t) \<Longrightarrow> keychain_op L N st t"
| complete: "keychain_complete_derivation_with_passphrase L N p st = Ret (b, t) \<Longrightarrow> keychain_op L N st t"
| store: "keychain_store L N iv k st = Ret (b, t) \<Longrightarrow> keychain_op L N st t"
| load: "keychain_load L N k st = Ret (b, t) \<Longrightarrow> keychain_op L N st t"
| reencrypt: "keychain_reencrypt L N iv k k' st = Ret (b, t) \<Longrightarrow> keychain_op L N st t"
| erase: "keychain_erase_encrypted N st = Ret (u, t) \<Longrightarrow> keychain_op L N st t"
| init: "keychain_init_cache N st = Ret (u, t) \<Longrightarrow> keychain_op L N st t"
| restart: "power_on N st = Ret (u, t) \<Longrightarrow> keychain_op L N st t"

inductive_cases keychain_opE: "keychain_op L N st t"

definition keychain_ok :: "('s, 'x) keychain_state \<Rightarrow> bool" where
  "keychain_ok st \<longleftrightarrow> (kc_temporary st \<longrightarrow> kc_data st \<noteq> None) \<and> length (kc_mnemonic_entropy st) \<in> {0, 16, 32}"

lemma keychain_ok_nvs [simp]: "keychain_ok (st\<lparr>kc_nvs := s\<rparr>) = keychain_ok st"
  "keychain_ok (st\<lparr>kc_key_flags := f\<rparr>) = keychain_ok st" "keychain_ok (st\<lparr>kc_has_encrypted_blob := b\<rparr>) = keychain_ok st"
  "keychain_ok (st\<lparr>kc_network_type_restriction := n\<rparr>) = keychain_ok st"
  by (simp_all add: keychain_ok_def)

definition keeps_ok :: "(('s, 'x) keychain_state, 'a) act \<Rightarrow> bool" where
  "keeps_ok m \<longleftrightarrow> (\<forall>st r t. keychain_ok st \<longrightarrow> m st = Ret (r, t) \<longrightarrow> keychain_ok t)"

lemma keeps_okD: "keeps_ok m \<Longrightarrow> keychain_ok st \<Longrightarrow> m st = Ret (r, t) \<Longrightarrow> keychain_ok t"
  by (simp add: keeps_ok_def)

lemma keeps_ok_simple: "keeps_ok (give a)" "keeps_ok (insist b)" "keeps_ok (from_run m)" "keeps_ok (on_nvs n)"
  by (auto simp: keeps_ok_def run_simps)

lemma keeps_ok_update: "(\<And>st. keychain_ok st \<Longrightarrow> keychain_ok (f st)) \<Longrightarrow> keeps_ok (update f)"
  by (simp add: keeps_ok_def run_simps)

lemma keeps_ok_inspect: "(\<And>st. keeps_ok (f st)) \<Longrightarrow> keeps_ok (inspect f)"
  unfolding keeps_ok_def inspect_Ret by blast

lemma keeps_ok_andthen: "keeps_ok m \<Longrightarrow> (\<And>a. keeps_ok (f a)) \<Longrightarrow> keeps_ok (andthen m f)"
  unfolding keeps_ok_def andthen_Ret_iff by blast

lemma keeps_ok_if: "(b \<Longrightarrow> keeps_ok m) \<Longrightarrow> (\<not> b \<Longrightarrow> keeps_ok n) \<Longrightarrow> keeps_ok (if b then m else n)"
  by simp

lemma keeps_ok_option: "keeps_ok n \<Longrightarrow> (\<And>a. keeps_ok (f a)) \<Longrightarrow> keeps_ok (case r of None \<Rightarrow> n | Some a \<Rightarrow> f a)"
  by (simp split: option.split)

lemmas keeps_ok_intros = keeps_ok_simple keeps_ok_update keeps_ok_inspect keeps_ok_andthen keeps_ok_if keeps_ok_option

lemma keeps_ok_reload: "keeps_ok (reload_key_flags N)"
  unfolding reload_key_flags_def by (intro keeps_ok_intros) simp

lemma keeps_ok_clear: "keeps_ok (keychain_clear N)"
  by (auto simp: keeps_ok_def keychain_clear_def reload_key_flags_def run_simps keychain_ok_def)

lemma keeps_ok_set: "keeps_ok (keychain_set N src ud temp)"
  by (auto simp: keeps_ok_def keychain_set_def reload_key_flags_def run_simps keychain_ok_def keychain_clear_def split: option.splits)

lemma keeps_ok_has_temporary: "keeps_ok keychain_has_temporary"
  unfolding keychain_has_temporary_def by (intro keeps_ok_intros)

lemma keeps_ok_restriction: "keeps_ok (keychain_clear_network_type_restriction N)"
  unfolding keychain_clear_network_type_restriction_def by (intro keeps_ok_intros keeps_ok_has_temporary) simp

lemma keeps_ok_set_restriction: "keeps_ok (keychain_set_network_type_restriction N nt)"
  unfolding keychain_set_network_type_restriction_def by (intro keeps_ok_intros keeps_ok_has_temporary) simp

lemma keeps_ok_attempts: "keeps_ok (keychain_pin_attempts_remaining N)"
  unfolding keychain_pin_attempts_remaining_def by (rule keeps_ok_simple)

lemma keeps_ok_erase: "keeps_ok (keychain_erase_encrypted N)"
  unfolding keychain_erase_encrypted_def by (intro keeps_ok_intros keeps_ok_restriction) simp

lemma keeps_ok_decrypt: "keeps_ok (keychain_load_and_decrypt_blob L N k n)"
  unfolding keychain_load_and_decrypt_blob_def by (intro keeps_ok_intros keeps_ok_erase keeps_ok_attempts) simp_all

lemma keeps_ok_save: "keeps_ok (keychain_encrypt_and_save_blob L N iv k b)"
  unfolding keychain_encrypt_and_save_blob_def Let_def by (intro keeps_ok_intros)

lemma keeps_ok_load: "keeps_ok (keychain_load L N k)"
  unfolding keychain_load_def
  by (intro keeps_ok_intros keeps_ok_decrypt keeps_ok_set)
     (auto simp: keychain_ok_def BIP39_ENTROPY_LEN_128_def BIP39_ENTROPY_LEN_256_def)

lemma keeps_ok_store: "keeps_ok (keychain_store L N iv k)"
  unfolding keychain_store_def by (intro keeps_ok_intros keeps_ok_save keeps_ok_restriction) simp

lemma keeps_ok_reencrypt: "keeps_ok (keychain_reencrypt L N iv k k')"
  unfolding keychain_reencrypt_def by (intro keeps_ok_intros keeps_ok_decrypt keeps_ok_save)

lemma keeps_ok_complete: "keeps_ok (keychain_complete_derivation_with_passphrase L N p)"
  unfolding keychain_complete_derivation_with_passphrase_def by (intro keeps_ok_intros keeps_ok_set)

lemma keeps_ok_persist: "keeps_ok (keychain_persist_key_flags N)"
  unfolding keychain_persist_key_flags_def Let_def by (intro keeps_ok_intros)

lemma keeps_ok_init: "keeps_ok (keychain_init_cache N)"
  unfolding keychain_init_cache_def by (intro keeps_ok_intros keeps_ok_attempts keeps_ok_reload) simp_all

lemma keeps_ok_power_on: "keeps_ok (power_on N)"
  unfolding power_on_def by (intro keeps_ok_andthen keeps_ok_update keeps_ok_init) (simp add: keychain_ok_def)

lemma keeps_ok_cache: "keeps_ok (keychain_cache_mnemonic_entropy L m)"
  by (auto simp: keeps_ok_def keychain_cache_mnemonic_entropy_def run_simps keychain_ok_def key_sizes)

lemma keeps_ok_temporary: "keeps_ok keychain_set_temporary"
  by (auto simp: keeps_ok_def keychain_set_temporary_def run_simps keychain_ok_def)

lemma keeps_ok_service: "keeps_ok (keychain_cached_service L sv sub)"
  unfolding keychain_cached_service_def by (intro keeps_ok_intros) (auto simp: keychain_ok_def)

lemma keychain_op_ok:
  assumes "keychain_op L N st t" and "keychain_ok st"
  shows "keychain_ok t"
  using assms
proof cases
  case (frequency freq)
  with assms(2) show ?thesis by (cases freq) simp_all
next
  case (phrase_type type)
  with assms(2) show ?thesis by (simp add: keychain_set_passphrase_type_def)
next
  case (confirm_export b)
  with assms(2) show ?thesis by (simp add: keychain_set_confirm_export_blinding_key_def)
qed (erule keeps_okD [OF keeps_ok_set assms(2)] keeps_okD [OF keeps_ok_clear assms(2)] keeps_okD [OF keeps_ok_persist assms(2)]
      keeps_okD [OF keeps_ok_temporary assms(2)] keeps_okD [OF keeps_ok_cache assms(2)] keeps_okD [OF keeps_ok_restriction assms(2)]
      keeps_okD [OF keeps_ok_set_restriction assms(2)] keeps_okD [OF keeps_ok_service assms(2)] keeps_okD [OF keeps_ok_complete assms(2)]
      keeps_okD [OF keeps_ok_store assms(2)] keeps_okD [OF keeps_ok_load assms(2)] keeps_okD [OF keeps_ok_reencrypt assms(2)]
      keeps_okD [OF keeps_ok_erase assms(2)] keeps_okD [OF keeps_ok_init assms(2)] keeps_okD [OF keeps_ok_power_on assms(2)])+

section \<open>Three wrong PINs\<close>

text \<open>
  The device in an attacker's hands: each wrong key tried counts one, on the load of a
  locked device or on a change of the PIN; between the attempts the device may be switched
  off and on, other keys used without the PIN, and other entries of the storage written.
\<close>

inductive pin_step ::
  "'x key_lib \<Rightarrow> wmap_ops \<Rightarrow> bool \<Rightarrow> nat \<Rightarrow> (nvs_flash, 'x) keychain_state \<Rightarrow> (nvs_flash, 'x) keychain_state \<Rightarrow> bool" for L W c where
  wrong_load: "kc_data st = None \<Longrightarrow> kc_mnemonic_entropy st = [] \<Longrightarrow> keychain_has_pin st \<Longrightarrow>
    wrong_key L k (nvs_look (kc_nvs st)) \<Longrightarrow> keychain_load L (libjade_nvs W c) (Some k) st = Ret (b, t) \<Longrightarrow> pin_step L W c 1 st t"
| wrong_change: "keychain_has_pin st \<Longrightarrow> wrong_key L k (nvs_look (kc_nvs st)) \<Longrightarrow> length k' = 32 \<Longrightarrow>
    keychain_reencrypt L (libjade_nvs W c) iv (Some k) (Some k') st = Ret (b, t) \<Longrightarrow> pin_step L W c 1 st t"
| restart: "power_on (libjade_nvs W c) st = Ret (u, t) \<Longrightarrow> pin_step L W c 0 st t"
| clear: "keychain_clear (libjade_nvs W c) st = Ret (u, t) \<Longrightarrow> pin_step L W c 0 st t"
| temporary: "keychain_set (libjade_nvs W c) src ud temp st = Ret (u, t) \<Longrightarrow> pin_step L W c 0 st t"
| flags: "keychain_persist_key_flags (libjade_nvs W c) st = Ret (u, t) \<Longrightarrow> pin_step L W c 0 st t"
| network: "keychain_set_network_type_restriction (libjade_nvs W c) nt st = Ret (u, t) \<Longrightarrow> pin_step L W c 0 st t"
| other_entry: "(ns, k) \<notin> pin_entries \<Longrightarrow> on_nvs (store_blob (libjade_nvs W c) ns (Some k) d) st = Ret (b, t) \<Longrightarrow> pin_step L W c 0 st t"

inductive pin_run ::
  "'x key_lib \<Rightarrow> wmap_ops \<Rightarrow> bool \<Rightarrow> nat \<Rightarrow> (nvs_flash, 'x) keychain_state \<Rightarrow> (nvs_flash, 'x) keychain_state \<Rightarrow> bool" for L W c where
  start: "pin_run L W c 0 st st"
| step: "pin_step L W c n st t \<Longrightarrow> pin_run L W c m t u \<Longrightarrow> pin_run L W c (n + m) st u"

lemma ktouches_survives:
  assumes "libjade.ktouches W X m" and "X \<inter> pin_entries = {}" and "nvs_inv W (kc_nvs st)" and "m st = Ret (r, t)"
  shows "nvs_inv W (kc_nvs t) \<and> survives (nvs_look (kc_nvs t)) = survives (nvs_look (kc_nvs st))"
proof -
  from libjade.ktouchesD [OF assms(1,3,4)] have "nvs_inv W (kc_nvs t)" "same_but X (nvs_look (kc_nvs st)) (nvs_look (kc_nvs t))" by auto
  with same_but_pin [OF _ assms(2)] show ?thesis by (simp add: survives_def)
qed

lemma load_wrong:
  assumes "nvs_inv W (kc_nvs st)" and "kc_data st = None" and "kc_mnemonic_entropy st = []" and "keychain_has_pin st"
    and "wrong_key L k (nvs_look (kc_nvs st))" and "keychain_load L (libjade_nvs W c) (Some k) st = Ret (b, t)"
  shows "nvs_inv W (kc_nvs t) \<and> survives (nvs_look (kc_nvs t)) \<le> survives (nvs_look (kc_nvs st)) - 1 \<and> \<not> b"
proof -
  have "length k = AES_KEY_LEN_256" using assms(5) by (simp add: wrong_key_def)
  with assms obtain r u where r: "keychain_load_and_decrypt_blob L (libjade_nvs W c) (Some k) (AES_PADDED_LEN SERIALIZED_KEY_LEN) st = Ret (r, u)"
    and rest: "r = None \<Longrightarrow> t = u \<and> \<not> b"
    by (auto simp: keychain_load_def run_simps split: option.splits)
  from libjade.wrong_attempt [OF assms(1,5,4) r] rest show ?thesis by simp
qed

lemma change_wrong:
  assumes "nvs_inv W (kc_nvs st)" and "keychain_has_pin st" and "wrong_key L k (nvs_look (kc_nvs st))" and "length k' = 32"
    and "keychain_reencrypt L (libjade_nvs W c) iv (Some k) (Some k') st = Ret (b, t)"
  shows "nvs_inv W (kc_nvs t) \<and> survives (nvs_look (kc_nvs t)) \<le> survives (nvs_look (kc_nvs st)) - 1"
proof -
  have "length k = AES_KEY_LEN_256" "length k' = AES_KEY_LEN_256" using assms(3,4) by (simp_all add: wrong_key_def AES_KEY_LEN_256_def)
  with assms obtain r u where r: "keychain_load_and_decrypt_blob L (libjade_nvs W c) (Some k) (AES_PADDED_LEN SERIALIZED_KEY_LEN) st = Ret (r, u)"
    and rest: "r = None \<Longrightarrow> t = u"
    by (auto simp: keychain_reencrypt_def run_simps split: option.splits)
  from libjade.wrong_attempt [OF assms(1,3,2) r] rest show ?thesis by simp
qed

lemma pin_step_survives:
  assumes "pin_step L W c n st t" and "nvs_inv W (kc_nvs st)"
  shows "nvs_inv W (kc_nvs t) \<and> survives (nvs_look (kc_nvs t)) \<le> survives (nvs_look (kc_nvs st)) - n"
  using assms
proof cases
  case (wrong_load k b)
  then show ?thesis using load_wrong [OF assms(2)] by blast
next
  case (wrong_change k k' iv b)
  then show ?thesis using change_wrong [OF assms(2)] by blast
next
  case (restart u)
  with ktouches_survives [OF libjade.ktouches_power_on _ assms(2), of "{}"] show ?thesis by simp
next
  case (clear u)
  with ktouches_survives [OF libjade.ktouches_clear _ assms(2), of "{}"] show ?thesis by simp
next
  case (temporary src ud temp u)
  with ktouches_survives [OF libjade.ktouches_set _ assms(2), of "{}"] show ?thesis by simp
next
  case (flags u)
  with ktouches_survives [OF libjade.ktouches_persist _ assms(2), of "{(DEFAULT_NAMESPACE, KEY_FLAGS_FIELD)}"]
  show ?thesis by (simp add: pin_entries_def storage_names)
next
  case (network nt u)
  with ktouches_survives [OF libjade.ktouches_set_restriction _ assms(2), of "{(DEFAULT_NAMESPACE, NETWORK_TYPE_FIELD)}"]
  show ?thesis by (simp add: pin_entries_def storage_names)
next
  case (other_entry ns k d b)
  with ktouches_survives [OF libjade.ktouches_on_nvs [OF libjade.touches_store_blob] _ assms(2), of ns "Some k"]
  show ?thesis by simp
qed

lemma pin_run_survives:
  assumes "pin_run L W c n st t" and "nvs_inv W (kc_nvs st)"
  shows "nvs_inv W (kc_nvs t) \<and> survives (nvs_look (kc_nvs t)) \<le> survives (nvs_look (kc_nvs st)) - n"
  using assms
proof (induction rule: pin_run.induct)
  case (start st)
  then show ?case by simp
next
  case (step n st t m u)
  from pin_step_survives [OF step.hyps(1) step.prems] step.IH show ?case by auto
qed

text \<open>Without a stored wallet no key loads one.\<close>

lemma load_nothing:
  assumes "nvs_inv W (kc_nvs st)" and "stored_blob (nvs_look (kc_nvs st)) = None"
    and "keychain_load L (libjade_nvs W c) k st = Ret (b, t)"
  shows "\<not> b"
proof (cases "k = None \<or> length (the k) \<noteq> AES_KEY_LEN_256 \<or> kc_data st \<noteq> None \<or> kc_mnemonic_entropy st \<noteq> [] \<or> \<not> keychain_has_pin st")
  case True
  with assms(3) show ?thesis by (auto simp: keychain_load_def run_simps split: if_splits)
next
  case False
  then obtain key where "k = Some key" "wrong_key L key (nvs_look (kc_nvs st))" using assms(2) by (auto simp: wrong_key_def)
  with False load_wrong [OF assms(1)] assms(3) show ?thesis by blast
qed

text \<open>C5: Three wrong PINs remove the wallet. On the library build, from any state of the
  device, after any history with at least three attempts with keys that do not match the
  stored wallet (to unlock a locked device or to change the PIN), with power cuts,
  temporary wallets, settings and failing allocations in between, the encrypted wallet is
  no longer in the storage, and no key, the right one included, loads it.\<close>

theorem three_wrong_pins_wipe:
  assumes "nvs_inv W (kc_nvs st)" and "pin_run L W c n st t" and "3 \<le> n"
  shows "nvs_look (kc_nvs t) DEFAULT_NAMESPACE BLOB_FIELD = None
    \<and> keychain_load L (libjade_nvs W c) k t \<noteq> Ret (True, u)"
proof -
  from pin_run_survives [OF assms(2,1)] survives_le [of "nvs_look (kc_nvs st)"] assms(3)
  have t: "nvs_inv W (kc_nvs t)" "survives (nvs_look (kc_nvs t)) = 0" by auto
  then have "stored_blob (nvs_look (kc_nvs t)) = None" by (simp add: survives_0)
  with load_nothing [OF t(1) this, of L c k True u] show ?thesis by (auto simp: stored_blob_def)
qed

definition demo_keys :: "unit key_lib" where
  "demo_keys = \<lparr>wally_aes_cbc_encrypt = (\<lambda>k iv d. Some (d @ replicate (16 - length d mod 16) (of_nat (16 - length d mod 16)))),
     wally_aes_cbc_decrypt = (\<lambda>k iv d. Some (take (length d - unat (last d)) d)),
     wally_hmac_sha256 = (\<lambda>k d. take 32 (k @ replicate 32 0)), wally_hmac_sha512 = (\<lambda>k d. replicate 64 0),
     ec_private_key_verify = (\<lambda>k. True),
     bip32_key_serialize = (\<lambda>x. Some (replicate 78 0)), bip32_key_unserialize = (\<lambda>d. Some ()),
     bip32_key_from_seed = (\<lambda>s. Some ()), bip32_private_child = (\<lambda>x p. Some x), bip32_public_child = (\<lambda>x p. Some x),
     key_chain_code = (\<lambda>x. replicate 32 0), key_pub_key = (\<lambda>x. replicate 33 0), zero_key = (),
     asset_blinding_key_from_seed = (\<lambda>s. Some (replicate 64 0)), bip39_mnemonic_validate = (\<lambda>m. True),
     bip39_mnemonic_to_bytes = (\<lambda>m. Some (replicate 16 0)), bip39_mnemonic_from_bytes = (\<lambda>b. Some ''m''),
     bip39_mnemonic_to_seed = (\<lambda>m p. Some (replicate 64 0)), service_key = (\<lambda>_. ())\<rparr>"

text \<open>A locked device with a stored wallet, whose right key is all ones, and \<^verbatim>\<open>n\<close> attempts left.\<close>

definition demo_blob :: bytes where
  "demo_blob = replicate 16 0 @ replicate 32 7 @ replicate 32 1"

definition demo_flash :: "byte \<Rightarrow> nat \<Rightarrow> nvs_flash" where
  "demo_flash n calls = \<lparr>nvs_storage = [[(map char_byte PIN_COUNTER_FIELD, [n]), (map char_byte BLOB_FIELD, demo_blob)], [], [], [], []],
     nvs_calls = calls\<rparr>"

definition demo_locked :: "nvs_flash \<Rightarrow> (nvs_flash, unit) keychain_state" where
  "demo_locked s = \<lparr>kc_data = None, kc_network_type_restriction = 0, kc_has_encrypted_blob = True, kc_userdata = 0,
     kc_temporary = False, kc_mnemonic_entropy = [], kc_key_flags = 0, kc_nvs = s\<rparr>"

abbreviation demo_nvs :: "(nvs_flash, nat, nat \<times> nat) nvs" where
  "demo_nvs \<equiv> libjade_nvs demo_wmap False"

lemma demo_decrement:
  "storage_decrement_counter demo_nvs (demo_flash n c) =
     (if n = 0 \<or> n > 3 then Ret (False, \<lparr>nvs_storage = [[], [], [], [], []], nvs_calls = c\<rparr>)
      else Ret (True, demo_flash (n - 1) (Suc c)))"
  by (simp add: storage_decrement_counter_def storage_get_counter_def storage_erase_encrypted_blob_def storage_ops
      andthen_def give_def insist_def libjade_nvs_def libjade_nvs_open_def libjade_nvs_set_blob_def
      libjade_nvs_get_blob_def libjade_nvs_erase_key_def get_nvs_ns_def storage_names demo_wmap_def demo_flash_def Let_def)

lemma demo_blob_read: "storage_get_encrypted_blob demo_nvs 256 (demo_flash n c) = Ret (Some demo_blob, demo_flash n c)"
  by (simp add: storage_get_encrypted_blob_def storage_ops andthen_def give_def insist_def libjade_nvs_def
      libjade_nvs_open_def libjade_nvs_get_blob_def get_nvs_ns_def storage_names demo_wmap_def demo_flash_def demo_blob_def)

lemma demo_counter: "storage_get_counter demo_nvs (demo_flash n c) = Ret (n, demo_flash n c)"
  by (simp add: storage_get_counter_def storage_ops andthen_def give_def insist_def libjade_nvs_def
      libjade_nvs_open_def libjade_nvs_get_blob_def get_nvs_ns_def storage_names demo_wmap_def demo_flash_def)

lemma demo_wrong: "wrong_key demo_keys (replicate 32 2) (nvs_look (demo_flash n c))"
  by (simp add: wrong_key_def stored_blob_def nvs_look_def get_nvs_ns_def demo_flash_def storage_names hmac_matches_def
      demo_keys_def demo_blob_def key_sizes)

lemma demo_wrong_load:
  assumes "n \<noteq> 0" and "n \<le> 3" and "n \<noteq> 1"
  shows "keychain_load demo_keys demo_nvs (Some (replicate 32 2)) (demo_locked (demo_flash n c))
    = Ret (False, demo_locked (demo_flash (n - 1) (Suc c)))"
proof -
  have "\<not> hmac_matches demo_keys (replicate 32 2) demo_blob" by (simp add: hmac_matches_def demo_keys_def demo_blob_def key_sizes)
  with assms show ?thesis
    by (simp add: keychain_load_def keychain_load_and_decrypt_blob_def inspect_def andthen_def on_nvs_def keychain_has_pin_def
        demo_locked_def demo_decrement demo_blob_read demo_counter from_run_def get_decrypted_payload_def jade_assert_def
        keychain_pin_attempts_remaining_def give_def key_sizes demo_blob_def)
qed

lemma demo_last_load:
  "\<exists>t. keychain_load demo_keys demo_nvs (Some (replicate 32 2)) (demo_locked (demo_flash 1 c)) = Ret (False, t)"
proof -
  have w: "\<not> hmac_matches demo_keys (replicate 32 2) demo_blob" by (simp add: hmac_matches_def demo_keys_def demo_blob_def key_sizes)
  have "\<exists>t. keychain_erase_encrypted demo_nvs (demo_locked (demo_flash 0 (Suc c))) = Ret ((), t)"
    by (simp add: keychain_erase_encrypted_def keychain_clear_network_type_restriction_def keychain_has_temporary_def
        storage_set_network_type_restriction_def store_raw_def storage_erase_encrypted_blob_def storage_ops on_nvs_def inspect_def
        update_def andthen_def give_def insist_def libjade_nvs_def libjade_nvs_open_def libjade_nvs_set_blob_def
        libjade_nvs_erase_key_def get_nvs_ns_def storage_names demo_wmap_def demo_flash_def demo_locked_def raw_bytes_def Let_def)
  then obtain t where t: "keychain_erase_encrypted demo_nvs (demo_locked (demo_flash 0 (Suc c))) = Ret ((), t)" by blast
  have "keychain_load demo_keys demo_nvs (Some (replicate 32 2)) (demo_locked (demo_flash 1 c)) = Ret (False, t)"
    using t w
    by (simp add: keychain_load_def keychain_load_and_decrypt_blob_def inspect_def andthen_def on_nvs_def keychain_has_pin_def
        demo_locked_def demo_decrement demo_blob_read demo_counter from_run_def get_decrypted_payload_def jade_assert_def
        keychain_pin_attempts_remaining_def give_def key_sizes demo_blob_def)
  then show ?thesis ..
qed

lemma demo_inv: "nvs_inv demo_wmap (demo_flash n c)"
  by (simp add: nvs_inv_def demo_wmap_laws demo_flash_def) (simp add: demo_wmap_def)

theorem three_wrong_pins_wipe_witness:
  "\<exists>t. pin_run demo_keys demo_wmap False 3 (demo_locked (demo_flash 3 0)) t
    \<and> nvs_look (kc_nvs (demo_locked (demo_flash 3 0))) DEFAULT_NAMESPACE BLOB_FIELD = Some demo_blob
    \<and> nvs_look (kc_nvs t) DEFAULT_NAMESPACE BLOB_FIELD = None"
proof -
  have attempt: "pin_step demo_keys demo_wmap False 1 (demo_locked (demo_flash n c)) t"
    if "keychain_load demo_keys demo_nvs (Some (replicate 32 2)) (demo_locked (demo_flash n c)) = Ret (False, t)" for n c t
    by (rule pin_step.wrong_load [OF _ _ _ _ that]) (simp_all add: demo_locked_def keychain_has_pin_def demo_wrong)
  obtain t where "keychain_load demo_keys demo_nvs (Some (replicate 32 2)) (demo_locked (demo_flash 1 2)) = Ret (False, t)"
    using demo_last_load by blast
  from attempt [OF this] have 3: "pin_step demo_keys demo_wmap False 1 (demo_locked (demo_flash 1 2)) t" .
  have 2: "pin_step demo_keys demo_wmap False 1 (demo_locked (demo_flash 2 1)) (demo_locked (demo_flash 1 2))"
    using attempt [OF demo_wrong_load [of 2 1]] by (simp add: numeral_2_eq_2 [symmetric])
  have 1: "pin_step demo_keys demo_wmap False 1 (demo_locked (demo_flash 3 0)) (demo_locked (demo_flash 2 1))"
    using attempt [OF demo_wrong_load [of 3 0]] by simp
  have "pin_run demo_keys demo_wmap False (1 + (1 + (1 + 0))) (demo_locked (demo_flash 3 0)) t"
    by (rule pin_run.step [OF 1 pin_run.step [OF 2 pin_run.step [OF 3 pin_run.start]]])
  then have run: "pin_run demo_keys demo_wmap False 3 (demo_locked (demo_flash 3 0)) t" by (simp add: numeral_3_eq_3)
  have i: "nvs_inv demo_wmap (kc_nvs (demo_locked (demo_flash 3 0)))" by (simp add: demo_locked_def demo_inv)
  have b: "nvs_look (kc_nvs (demo_locked (demo_flash 3 0))) DEFAULT_NAMESPACE BLOB_FIELD = Some demo_blob"
    by (simp add: demo_locked_def demo_flash_def nvs_look_def get_nvs_ns_def storage_names)
  from three_wrong_pins_wipe [OF i run, of None undefined] run b show ?thesis by auto
qed

text \<open>C18: The keychain stays consistent. From a consistent state (a temporary wallet is
  loaded whenever it is marked temporary, and cached mnemonic entropy has no length but 0,
  16 or 32), every operation of the keychain, on any storage, ends in a consistent state;
  so the assertion of \<^verbatim>\<open>keychain_has_temporary\<close>, which many operations start with, never
  stops the device.\<close>

theorem keychain_consistent:
  assumes "(keychain_op L N)\<^sup>*\<^sup>* st t" and "keychain_ok st"
  shows "keychain_ok t \<and> keychain_has_temporary t = Ret (kc_temporary t, t)"
proof -
  from assms have "keychain_ok t" by (induction rule: rtranclp_induct) (auto intro: keychain_op_ok)
  then show ?thesis
    by (auto simp: keychain_ok_def keychain_has_temporary_def inspect_def andthen_def insist_def give_def)
qed

theorem keychain_consistent_witness:
  "(keychain_op demo_keys demo_nvs)\<^sup>*\<^sup>* (demo_locked (demo_flash 3 0)) (demo_locked (demo_flash 2 1))
    \<and> keychain_has_temporary (demo_locked (demo_flash 2 1)) = Ret (False, demo_locked (demo_flash 2 1))"
proof -
  have "keychain_op demo_keys demo_nvs (demo_locked (demo_flash 3 0)) (demo_locked (demo_flash 2 1))"
    using keychain_op.load [OF demo_wrong_load [of 3 0]] by simp
  then have r: "(keychain_op demo_keys demo_nvs)\<^sup>*\<^sup>* (demo_locked (demo_flash 3 0)) (demo_locked (demo_flash 2 1))" by blast
  have "keychain_ok (demo_locked (demo_flash 3 0))" by (simp add: keychain_ok_def demo_locked_def)
  from keychain_consistent [OF r this] r show ?thesis by (simp add: demo_locked_def)
qed

section \<open>Storing and loading\<close>

text \<open>What libwally documents of its encryption, keyed hash and key serialisation.\<close>

definition key_laws :: "'x key_lib \<Rightarrow> bool" where
  "key_laws L \<longleftrightarrow>
     (\<forall>k iv d out. length k = 32 \<longrightarrow> length iv = 16 \<longrightarrow> wally_aes_cbc_encrypt L k iv d = Some out \<longrightarrow>
        wally_aes_cbc_decrypt L k iv out = Some d)
     \<and> (\<forall>k d. length (wally_hmac_sha256 L k d) = 32)
     \<and> (\<forall>x d. bip32_key_serialize L x = Some d \<longrightarrow> length d = 78 \<and> bip32_key_unserialize L d = Some x)"

lemma encrypted_payload:
  assumes "key_laws L" and "length k = AES_KEY_LEN_256" and "length iv = AES_BLOCK_LEN" and "length p \<le> SERIALIZED_KEY_LEN"
    and "get_encrypted_blob L iv k p (ENCRYPTED_DATA_LEN (length p)) = Ret (Some e)"
  shows "length e = ENCRYPTED_DATA_LEN (length p)
    \<and> get_decrypted_payload L k e (AES_PADDED_LEN SERIALIZED_KEY_LEN) = Ret (Some p)"
proof -
  from assms(5) obtain out where out: "wally_aes_cbc_encrypt L k iv p = Some out" "length out = AES_PADDED_LEN (length p)"
    and e: "e = iv @ out @ wally_hmac_sha256 L k (iv @ out)"
    by (auto simp: get_encrypted_blob_def aes_encrypt_bytes_def run_simps Let_def)
  from assms(1-3) out have dec: "wally_aes_cbc_decrypt L k iv out = Some p" and h: "length (wally_hmac_sha256 L k (iv @ out)) = 32"
    by (auto simp: key_laws_def key_sizes)
  have "length out mod 16 = 0" "16 < length (iv @ out)" using out(2) assms(3) by (simp_all add: key_sizes)
  moreover have "length out \<le> 224" "length p \<le> 208" using out(2) assms(4) by (simp_all add: key_sizes)
  moreover have t: "take (length e - 32) e = iv @ out" "drop (length e - 32) e = wally_hmac_sha256 L k (iv @ out)"
    using h by (simp_all add: e)
  moreover have "take 16 (iv @ out) = iv" "drop 16 (iv @ out) = out" using assms(3) by (simp_all add: key_sizes)
  ultimately show ?thesis using dec h assms(2,3) out(2)
    by (simp add: get_decrypted_payload_def hmac_matches_def aes_decrypt_bytes_def jade_assert_def key_sizes e)
qed

lemma store_wallet:
  assumes "nvs_inv_mem W (kc_nvs st)" and "keychain_store L (libjade_nvs W c) iv (Some k) st = Ret (True, t)"
  shows "\<exists>p e. length k = AES_KEY_LEN_256 \<and> length p \<le> SERIALIZED_KEY_LEN
    \<and> (kc_mnemonic_entropy st \<noteq> [] \<longrightarrow> p = kc_mnemonic_entropy st \<and> length p \<in> {16, 32})
    \<and> (kc_mnemonic_entropy st = [] \<longrightarrow> (\<exists>kd. kc_data st = Some kd \<and> serialize L kd = Ret p))
    \<and> get_encrypted_blob L iv k p (ENCRYPTED_DATA_LEN (length p)) = Ret (Some e)
    \<and> nvs_inv_mem W (kc_nvs t) \<and> stored_blob (nvs_look (kc_nvs t)) = Some e
    \<and> nvs_look (kc_nvs t) DEFAULT_NAMESPACE PIN_COUNTER_FIELD = Some [3]"
proof -
  let ?N = "libjade_nvs W c"
  from assms(2) have k: "length k = AES_KEY_LEN_256" and d: "kc_data st \<noteq> None \<or> length (kc_mnemonic_entropy st) \<noteq> 0"
    by (auto simp: keychain_store_def run_simps split: if_splits)
  with assms(2) obtain p u v where p: "(let entropy = kc_mnemonic_entropy st in
            if length entropy \<noteq> 0
            then jade_assert (length entropy = BIP39_ENTROPY_LEN_128 \<or> length entropy = BIP39_ENTROPY_LEN_256) (Ret entropy)
            else serialize L (the (kc_data st))) = Ret p"
    and u: "keychain_encrypt_and_save_blob L ?N iv (Some k) (Some p) st = Ret (True, u)"
    and v: "keychain_clear_network_type_restriction ?N u = Ret ((), v)" and t: "t = v\<lparr>kc_has_encrypted_blob := True\<rparr>"
    by (auto simp: keychain_store_def run_simps split: if_splits)
  from u k have len: "length p \<le> SERIALIZED_KEY_LEN" by (auto simp: keychain_encrypt_and_save_blob_def run_simps split: if_splits)
  with u k obtain e s where e: "get_encrypted_blob L iv k p (ENCRYPTED_DATA_LEN (length p)) = Ret (Some e)"
    and s: "storage_set_encrypted_blob ?N (Some e) (kc_nvs st) = Ret (True, s)" and u': "u = st\<lparr>kc_nvs := s\<rparr>"
    by (auto simp: keychain_encrypt_and_save_blob_def run_simps Let_def split: option.splits)
  from s obtain x where x: "store_blob ?N DEFAULT_NAMESPACE (Some PIN_COUNTER_FIELD) (Some [3]) (kc_nvs st) = Ret (True, x)"
    and y: "store_blob ?N DEFAULT_NAMESPACE (Some BLOB_FIELD) (Some e) x = Ret (True, s)"
    by (auto simp: storage_set_encrypted_blob_def storage_restore_counter_def run_simps split: if_splits)
  from libjade_mem.store_blob [OF assms(1) x] have ix: "nvs_inv_mem W x" "only_at DEFAULT_NAMESPACE PIN_COUNTER_FIELD {Some [3]} (nvs_look (kc_nvs st)) (nvs_look x)"
    by simp_all
  from libjade_mem.store_blob [OF ix(1) y] have sv: "nvs_inv_mem W s" "only_at DEFAULT_NAMESPACE BLOB_FIELD {Some e} (nvs_look x) (nvs_look s)"
    by simp_all
  have kt: "libjade_mem.ktouches W {(DEFAULT_NAMESPACE, NETWORK_TYPE_FIELD)}
      (keychain_clear_network_type_restriction ?N :: ((nvs_flash, 'x) keychain_state, unit) act)"
    by (rule libjade_mem.ktouches_clear_restriction) simp
  from libjade_mem.ktouchesD [OF kt _ v] u' sv(1) have v': "nvs_inv_mem W (kc_nvs v)"
    "same_but {(DEFAULT_NAMESPACE, NETWORK_TYPE_FIELD)} (nvs_look s) (nvs_look (kc_nvs v))" by simp_all
  have sb: "stored_blob (nvs_look s) = Some e" "nvs_look s DEFAULT_NAMESPACE PIN_COUNTER_FIELD = Some [3]"
    using ix(2) sv(2) by (auto simp: only_at_def stored_blob_def storage_names)
  have out: "stored_blob (nvs_look (kc_nvs t)) = Some e" "nvs_look (kc_nvs t) DEFAULT_NAMESPACE PIN_COUNTER_FIELD = Some [3]"
    using sb same_butD [OF v'(2)] by (simp_all add: t stored_blob_def storage_names)
  have "kc_mnemonic_entropy st \<noteq> [] \<longrightarrow> p = kc_mnemonic_entropy st \<and> length p \<in> {16, 32}"
    "kc_mnemonic_entropy st = [] \<longrightarrow> (\<exists>kd. kc_data st = Some kd \<and> serialize L kd = Ret p)"
    "nvs_inv_mem W (kc_nvs t)"
    using p d v' by (auto simp: t Let_def run_simps key_sizes split: if_splits)
  with k len e out show ?thesis by blast
qed

lemma power_on_locked:
  assumes "nvs_inv_mem W (kc_nvs st)" and "power_on (libjade_nvs W c) st = Ret (u, t)"
    and "nvs_look (kc_nvs st) DEFAULT_NAMESPACE PIN_COUNTER_FIELD = Some [3]"
  shows "nvs_inv_mem W (kc_nvs t) \<and> nvs_look (kc_nvs t) = nvs_look (kc_nvs st)
    \<and> kc_data t = None \<and> kc_mnemonic_entropy t = [] \<and> keychain_has_pin t"
proof -
  let ?N = "libjade_nvs W c"
  have kt: "libjade_mem.ktouches W {} (power_on ?N :: ((nvs_flash, 'x) keychain_state, unit) act)"
    by (rule libjade_mem.ktouches_power_on)
  from libjade_mem.ktouchesD [OF kt assms(1,2)] have t: "nvs_inv_mem W (kc_nvs t)" "nvs_look (kc_nvs t) = nvs_look (kc_nvs st)"
    by (auto simp: same_but_def fun_eq_iff)
  from assms(2) obtain r s left s' v where r: "storage_get_network_type_restriction ?N (kc_nvs st) = Ret (r, s)"
    and left: "storage_get_counter ?N s = Ret (left, s')"
    and v: "reload_key_flags ?N \<lparr>kc_data = None, kc_network_type_restriction = r, kc_has_encrypted_blob = left > 0, kc_userdata = 0,
      kc_temporary = False, kc_mnemonic_entropy = [], kc_key_flags = 0, kc_nvs = s'\<rparr> = Ret (v, t)"
    by (auto simp: power_on_def keychain_init_cache_def keychain_pin_attempts_remaining_def run_simps)
  from libjade_mem.touchesD [OF libjade_mem.touches_network_type assms(1) r, of "{}"]
  have s: "nvs_inv_mem W s" "nvs_look s = nvs_look (kc_nvs st)" by (auto simp: same_but_def fun_eq_iff)
  from libjade_mem.get_counter_value [OF s(1) left, of 3] assms(3) s(2) have "left = 3" by simp
  with v t show ?thesis by (auto simp: reload_key_flags_def run_simps keychain_has_pin_def)
qed

lemma power_on_total: "\<exists>u. power_on N st = Ret ((), u)"
proof -
  obtain r s where 1: "storage_get_network_type_restriction N (kc_nvs st) = Ret (r, s)"
    using read_blob_fixed_total [of 4 N DEFAULT_NAMESPACE NETWORK_TYPE_FIELD "kc_nvs st"]
    by (auto simp: storage_get_network_type_restriction_def read_raw_def andthen_def give_def)
  obtain left s' where 2: "storage_get_counter N s = Ret (left, s')"
    using read_blob_fixed_total [of 1 N DEFAULT_NAMESPACE PIN_COUNTER_FIELD s]
    by (auto simp: storage_get_counter_def andthen_def give_def)
  from 1 2 show ?thesis
    using reload_total [of N "\<lparr>kc_data = None, kc_network_type_restriction = r, kc_has_encrypted_blob = left > 0, kc_userdata = 0,
      kc_temporary = False, kc_mnemonic_entropy = [], kc_key_flags = 0, kc_nvs = s'\<rparr>"]
    by (auto simp: power_on_def keychain_init_cache_def keychain_pin_attempts_remaining_def update_def on_nvs_def andthen_def)
qed

text \<open>C13: A stored wallet comes back after a restart. On the library build with memory
  available, when \<^verbatim>\<open>keychain_store\<close> returned true under a key and the device has been
  switched off and on, \<^verbatim>\<open>keychain_load\<close> with the same key returns true: a wallet kept as
  mnemonic entropy is cached as the same entropy, waiting for the passphrase, and any other
  is loaded with the same extended private key, service path and unblinding key.\<close>

theorem stored_wallet_comes_back:
  assumes "nvs_inv_mem W (kc_nvs st)" and "key_laws L" and "length iv = 16"
    and "keychain_store L (libjade_nvs W c) iv (Some k) st = Ret (True, t)"
    and "\<forall>kd. kc_data st = Some kd \<longrightarrow> length (kd_master_unblinding_key kd) = 64"
  shows "\<exists>u v. power_on (libjade_nvs W c) t = Ret ((), u)
    \<and> keychain_load L (libjade_nvs W c) (Some k) u = Ret (True, v)
    \<and> (if kc_mnemonic_entropy st \<noteq> []
       then kc_data v = None \<and> kc_mnemonic_entropy v = kc_mnemonic_entropy st
       else \<exists>kd kd'. kc_data st = Some kd \<and> kc_data v = Some kd' \<and> kd_xpriv kd' = kd_xpriv kd
         \<and> kd_gaservice_path kd' = kd_gaservice_path kd \<and> kd_master_unblinding_key kd' = kd_master_unblinding_key kd)"
proof -
  let ?N = "libjade_nvs W c"
  obtain u where on: "power_on ?N t = Ret ((), u)" using power_on_total by blast
  from store_wallet [OF assms(1,4)] obtain p e where k: "length k = AES_KEY_LEN_256" and p: "length p \<le> SERIALIZED_KEY_LEN"
    and entropy: "kc_mnemonic_entropy st \<noteq> [] \<longrightarrow> p = kc_mnemonic_entropy st \<and> length p \<in> {16, 32}"
    and keys: "kc_mnemonic_entropy st = [] \<longrightarrow> (\<exists>kd. kc_data st = Some kd \<and> serialize L kd = Ret p)"
    and e: "get_encrypted_blob L iv k p (ENCRYPTED_DATA_LEN (length p)) = Ret (Some e)"
    and t: "nvs_inv_mem W (kc_nvs t)" "stored_blob (nvs_look (kc_nvs t)) = Some e"
      "nvs_look (kc_nvs t) DEFAULT_NAMESPACE PIN_COUNTER_FIELD = Some [3]" by blast
  from assms(3) have iv: "length iv = AES_BLOCK_LEN" by (simp add: key_sizes)
  from encrypted_payload [OF assms(2) k iv p e] have le: "length e \<le> ENCRYPTED_DATA_LEN SERIALIZED_KEY_LEN"
    and pay: "get_decrypted_payload L k e (AES_PADDED_LEN SERIALIZED_KEY_LEN) = Ret (Some p)" using p by (auto simp: key_sizes)
  from power_on_locked [OF t(1) on t(3)] t have u: "nvs_inv_mem W (kc_nvs u)" "kc_data u = None" "kc_mnemonic_entropy u = []"
    "keychain_has_pin u" "stored_blob (nvs_look (kc_nvs u)) = Some e" "nvs_look (kc_nvs u) DEFAULT_NAMESPACE PIN_COUNTER_FIELD = Some [3]"
    by simp_all
  from libjade_mem.right_attempt [OF u(1,4) k u(6) _ _ u(5) le pay] obtain s where
    s: "keychain_load_and_decrypt_blob L ?N (Some k) (AES_PADDED_LEN SERIALIZED_KEY_LEN) u = Ret (Some p, u\<lparr>kc_nvs := s\<rparr>)"
    by auto
  show ?thesis
  proof (cases "kc_mnemonic_entropy st = []")
    case False
    with entropy s u k on show ?thesis
      by (auto simp: keychain_load_def inspect_def andthen_def update_def give_def BIP39_ENTROPY_LEN_128_def BIP39_ENTROPY_LEN_256_def)
  next
    case True
    with keys obtain kd where kd: "kc_data st = Some kd" and ser: "serialize L kd = Ret p" by blast
    from ser obtain x path where x: "bip32_key_serialize L (kd_xpriv kd) = Some x"
      and path: "wallet_serialize_gaservice_path (kd_gaservice_path kd) = Ret (Some path)"
      and pp: "p = x @ path @ kd_master_unblinding_key kd" by (auto simp: serialize_def run_simps)
    from assms(2) x have x': "length x = 78" "bip32_key_unserialize L x = Some (kd_xpriv kd)" by (auto simp: key_laws_def)
    note path' = gaservice_path_roundtrip [OF path]
    have len: "length p = SERIALIZED_KEY_LEN" using assms(5) kd x' path' pp by (simp add: key_sizes)
    let ?kd = "(zero_keychain L)\<lparr>kd_xpriv := kd_xpriv kd, kd_gaservice_path := kd_gaservice_path kd,
      kd_master_unblinding_key := kd_master_unblinding_key kd\<rparr>"
    from len x' path' pp have un: "unserialize L p (zero_keychain L) = Ret ?kd"
      by (simp add: unserialize_def jade_assert_def wally_verify_def Let_def)
    obtain v where v: "keychain_set ?N (Some ?kd) 0 False (u\<lparr>kc_nvs := s\<rparr>) = Ret ((), v)" "kc_data v = Some ?kd"
      using keychain_set_total [of ?N ?kd 0 False "u\<lparr>kc_nvs := s\<rparr>"] by blast
    have "keychain_load L ?N (Some k) u = Ret (True, v)"
      using s u k un v len by (simp add: keychain_load_def inspect_def andthen_def from_run_def give_def key_sizes)
    with v kd True on show ?thesis by simp
  qed
qed

lemma demo_key_laws: "key_laws demo_keys"
proof -
  have "unat (of_nat n :: byte) = n" if "n \<le> 16" for n using that by (simp add: unat_of_nat)
  from this [of "16 - length d mod 16" for d :: bytes] show ?thesis
    by (auto simp add: key_laws_def demo_keys_def min_def simp del: of_nat_diff)
qed

definition demo_fresh_wallet :: "(nvs_flash, unit) keychain_state" where
  "demo_fresh_wallet = (demo_locked fresh_flash)\<lparr>kc_has_encrypted_blob := False, kc_mnemonic_entropy := replicate 16 5\<rparr>"

theorem stored_wallet_comes_back_witness:
  "\<exists>t u v. keychain_store demo_keys demo_nvs (replicate 16 0) (Some (replicate 32 1)) demo_fresh_wallet = Ret (True, t)
    \<and> power_on demo_nvs t = Ret ((), u) \<and> keychain_load demo_keys demo_nvs (Some (replicate 32 1)) u = Ret (True, v)
    \<and> kc_mnemonic_entropy v = replicate 16 5"
proof -
  have "\<exists>t. keychain_store demo_keys demo_nvs (replicate 16 0) (Some (replicate 32 1)) demo_fresh_wallet = Ret (True, t)"
    by (simp add: keychain_store_def keychain_encrypt_and_save_blob_def get_encrypted_blob_def aes_encrypt_bytes_def
        keychain_clear_network_type_restriction_def keychain_has_temporary_def
        storage_set_network_type_restriction_def store_raw_def storage_set_encrypted_blob_def storage_restore_counter_def storage_ops on_nvs_def inspect_def
        update_def andthen_def give_def insist_def from_run_def jade_assert_def wally_verify_def key_sizes demo_keys_def libjade_nvs_def libjade_nvs_open_def libjade_nvs_set_blob_def
        libjade_nvs_erase_key_def get_nvs_ns_def storage_names demo_wmap_def fresh_flash_def demo_fresh_wallet_def demo_locked_def raw_bytes_def Let_def)
  then obtain t where t: "keychain_store demo_keys demo_nvs (replicate 16 0) (Some (replicate 32 1)) demo_fresh_wallet = Ret (True, t)" by blast
  have "nvs_inv_mem demo_wmap (kc_nvs demo_fresh_wallet)"
    by (simp add: nvs_inv_mem_def demo_fresh_wallet_def demo_locked_def fresh_flash_inv) (simp add: demo_wmap_def)
  from stored_wallet_comes_back [OF this demo_key_laws _ t] t show ?thesis
    by (auto simp: demo_fresh_wallet_def demo_locked_def)
qed

end
