(* ===== verification/Jade_Idle.thy ===== *)
theory Jade_Idle
  imports Jade_Keychain
begin

text \<open>
  \<^verbatim>\<open>src/main/idletimer.c\<close>: the times of the last activity, and the task that dims the
  screen, restarts the device or switches it off when nothing happened for too long. A time
  is a tick count of 32 bits that wraps around. The task's loop is one definition per round:
  \<^verbatim>\<open>idletimer_round\<close> is given what the round sees of the world and says what it does and how
  long it sleeps. The mutex around the two times has no counterpart: each definition takes
  them at once, as the code does under the mutex.
\<close>

datatype idle_state_t = NORMAL | IDLE | IDLE_OTHER nat

record idle_vars =
  last_activity_registered :: u32
  last_ui_activity_registered :: u32
  min_timeout_override_secs :: u16
  screen_dimmed :: bool
  idle_state :: idle_state_t

definition DEFAULT_IDLE_TIMEOUT_SECS :: u16 where "DEFAULT_IDLE_TIMEOUT_SECS = 600"
definition UI_SCREEN_IDLE_TIMEOUT_SECS :: u32 where "UI_SCREEN_IDLE_TIMEOUT_SECS = 90"
definition TIMEOUT_SLEEP_PERIOD_SECS :: u32 where "TIMEOUT_SLEEP_PERIOD_SECS = 60"

text \<open>\<^verbatim>\<open>portTICK_PERIOD_MS\<close> is a setting of the build.\<close>

definition SECS_TO_TICKS :: "u32 \<Rightarrow> u32 \<Rightarrow> u32" where
  "SECS_TO_TICKS tick_ms secs = secs * 1000 div tick_ms"

definition set_screen_dimmed :: "bool \<Rightarrow> idle_vars \<Rightarrow> idle_vars" where
  "set_screen_dimmed dimmed v = v\<lparr>screen_dimmed := dimmed\<rparr>"

definition idletimer_set_min_timeout_secs :: "u16 \<Rightarrow> idle_vars \<Rightarrow> idle_vars" where
  "idletimer_set_min_timeout_secs min_timeout_secs v = v\<lparr>min_timeout_override_secs := min_timeout_secs\<rparr>"

definition idletimer_register_activity :: "u32 \<Rightarrow> bool \<Rightarrow> idle_vars \<Rightarrow> bool \<times> idle_vars" where
  "idletimer_register_activity now is_ui v =
     (let v = v\<lparr>idle_state := NORMAL, last_activity_registered := now\<rparr>;
          v = (if is_ui then v\<lparr>last_ui_activity_registered := last_activity_registered v\<rparr> else v)
      in if is_ui \<and> screen_dimmed v then (True, set_screen_dimmed False v) else (False, v))"

definition get_last_registered_activity :: "bool \<Rightarrow> idle_vars \<Rightarrow> u32" where
  "get_last_registered_activity ui v = (if ui then last_ui_activity_registered v else last_activity_registered v)"

section \<open>One round of the task\<close>

datatype reset_action_t = SCREEN_DIMMED | REBOOT | POWER_OFF

text \<open>
  What a round sees: the stored timeout, the time, whether USB power is there and whether a
  wallet is loaded; and, after the warning screen, whether a button was pressed and the
  variables at that time, which other tasks may have changed. \<^verbatim>\<open>ci\<close> is the build for
  unattended tests or the emulator.
\<close>

record idle_sees =
  stored_timeout :: u16
  checktime :: u32
  usb_powered :: bool
  wallet_loaded :: bool
  acted :: bool
  after_warning :: idle_vars

datatype idle_outcome =
    Sleeps u32 idle_vars
  | PowersOff idle_vars
  | Restarts idle_vars

definition idle_timeout_secs :: "idle_sees \<Rightarrow> idle_vars \<Rightarrow> u16" where
  "idle_timeout_secs sees v =
     (if stored_timeout sees < min_timeout_override_secs v then min_timeout_override_secs v else stored_timeout sees)"

text \<open>The end of a round: the check of the screen, and how long to sleep.\<close>

definition idle_finish :: "u32 \<Rightarrow> u32 \<Rightarrow> u32 \<Rightarrow> idle_vars \<Rightarrow> idle_outcome" where
  "idle_finish tick_ms projected_timeout_time now v =
     (let period = SECS_TO_TICKS tick_ms TIMEOUT_SLEEP_PERIOD_SECS;
          v = (if \<not> screen_dimmed v \<and>
                  get_last_registered_activity True v + SECS_TO_TICKS tick_ms UI_SCREEN_IDLE_TIMEOUT_SECS \<le> now
               then set_screen_dimmed True v else v);
          delay = (if projected_timeout_time > now \<and> projected_timeout_time < now + period
                   then projected_timeout_time - now else period)
      in Sleeps delay v)"

definition idletimer_round :: "bool \<Rightarrow> u32 \<Rightarrow> idle_sees \<Rightarrow> idle_vars \<Rightarrow> idle_outcome" where
  "idletimer_round ci tick_ms sees v =
     (let period = SECS_TO_TICKS tick_ms TIMEOUT_SLEEP_PERIOD_SECS;
          timeout_secs = idle_timeout_secs sees v;
          idle_timeout_disabled = (timeout_secs = 0xFFFF);
          timeout = SECS_TO_TICKS tick_ms (ucast timeout_secs);
          now = checktime sees;
          projected_timeout_time = get_last_registered_activity False v + timeout
      in if \<not> idle_timeout_disabled \<and> projected_timeout_time \<le> now
         then
           let action = (if \<not> usb_powered sees then POWER_OFF else if wallet_loaded sees then REBOOT else SCREEN_DIMMED);
               warned = (action \<noteq> SCREEN_DIMMED);
               v = (if warned then after_warning sees else v)
           in if warned \<and> (acted sees \<or> get_last_registered_activity False v > now)
              then Sleeps period v
              else
                let action = (if ci then SCREEN_DIMMED else action);
                    v = v\<lparr>idle_state := IDLE\<rparr>
                in (case action of
                      POWER_OFF \<Rightarrow> PowersOff v
                    | REBOOT \<Rightarrow> Restarts v
                    | SCREEN_DIMMED \<Rightarrow>
                        idle_finish tick_ms projected_timeout_time now
                          (if \<not> screen_dimmed v then set_screen_dimmed True v else v))
         else idle_finish tick_ms projected_timeout_time now v)"

text \<open>
  \<^verbatim>\<open>PowersOff\<close> and \<^verbatim>\<open>Restarts\<close> clear the keychain first.
\<close>

definition idle_clears_keychain ::
  "('s, 'h, 'i) nvs \<Rightarrow> idle_outcome \<Rightarrow> (('s, 'x) keychain_state, unit) act" where
  "idle_clears_keychain N outcome =
     (case outcome of Sleeps _ _ \<Rightarrow> give () | PowersOff _ \<Rightarrow> keychain_clear N | Restarts _ \<Rightarrow> keychain_clear N)"

definition idletimer_init :: "bool \<Rightarrow> ('s, 'h, 'i) nvs \<Rightarrow> idle_vars \<Rightarrow> ('s, idle_vars) act" where
  "idletimer_init software_reset N v =
     (let v = (if \<not> software_reset then v\<lparr>idle_state := NORMAL\<rparr> else v);
          v = set_screen_dimmed (idle_state v = IDLE) v
      in andthen (storage_get_idle_timeout N) (\<lambda>timeout_secs.
         if timeout_secs = 0
         then andthen (storage_set_idle_timeout N DEFAULT_IDLE_TIMEOUT_SECS) (\<lambda>_. give v)
         else give v))"

end
