(* ===== verification/Jade_Idle_Theorems.thy ===== *)
theory Jade_Idle_Theorems
  imports Jade_Idle Jade_Keychain_Props Jade_Storage_Theorems
begin

text \<open>
  The theorem on the idle timer: exactly when a round of its task locks the wallet, and
  that it wakes in time to do so.
\<close>

lemma sleep_bound:
  fixes n p x :: u32
  assumes "n < x" and "x < n + p"
  shows "x - n \<le> p"
proof -
  have 1: "unat (x - n) = unat x - unat n" using assms(1) by (simp add: unat_sub word_less_nat_alt word_le_nat_alt)
  have "unat (n + p) = (unat n + unat p) mod 2 ^ 32" by (simp add: unat_word_ariths)
  also have "\<dots> \<le> unat n + unat p" by simp
  finally have "unat x < unat n + unat p" using assms(2) by (simp add: word_less_nat_alt)
  with 1 show ?thesis by (simp add: word_le_nat_alt)
qed

lemma keychain_clear_total:
  "\<exists>t. keychain_clear N st = Ret ((), t) \<and> kc_data t = None \<and> kc_mnemonic_entropy t = []"
  using reload_total [of N "st\<lparr>kc_data := None, kc_mnemonic_entropy := []\<rparr>"]
  by (auto simp: keychain_clear_def andthen_def update_def)

definition locks :: "idle_outcome \<Rightarrow> bool" where
  "locks out = (case out of Sleeps _ _ \<Rightarrow> False | _ \<Rightarrow> True)"

text \<open>The two times of a round as the code computes them, in words that wrap around.\<close>

definition projected_time :: "u32 \<Rightarrow> idle_sees \<Rightarrow> idle_vars \<Rightarrow> u32" where
  "projected_time tick_ms sees v = last_activity_registered v + SECS_TO_TICKS tick_ms (ucast (idle_timeout_secs sees v))"

definition sleep_period :: "u32 \<Rightarrow> u32" where
  "sleep_period tick_ms = SECS_TO_TICKS tick_ms TIMEOUT_SLEEP_PERIOD_SECS"

lemma idle_round_words:
  fixes st :: "('s, 'x) keychain_state"
  shows "(locks (idletimer_round False tick_ms sees v) \<longleftrightarrow>
      idle_timeout_secs sees v \<noteq> 0xFFFF \<and> projected_time tick_ms sees v \<le> checktime sees \<and> \<not> (usb_powered sees \<and> \<not> wallet_loaded sees)
      \<and> \<not> acted sees \<and> last_activity_registered (after_warning sees) \<le> checktime sees)
    \<and> (case idletimer_round False tick_ms sees v of
        Sleeps d _ \<Rightarrow> d \<le> sleep_period tick_ms \<and> d = (if checktime sees < projected_time tick_ms sees v \<and> projected_time tick_ms sees v < checktime sees + sleep_period tick_ms
          then projected_time tick_ms sees v - checktime sees else sleep_period tick_ms)
      | out \<Rightarrow> \<exists>t. idle_clears_keychain N out st = Ret ((), t) \<and> kc_data t = None \<and> kc_mnemonic_entropy t = [])"
proof -
  let ?deadline = "projected_time tick_ms sees v" and ?period = "sleep_period tick_ms"
  let ?late = "idle_timeout_secs sees v \<noteq> 0xFFFF \<and> ?deadline \<le> checktime sees"
  have s: "?deadline - checktime sees \<le> ?period" if "checktime sees < ?deadline" "?deadline < checktime sees + ?period"
    using that by (rule sleep_bound)
  have fin: "idle_finish tick_ms ?deadline (checktime sees) w = Sleeps d w' \<Longrightarrow>
      d \<le> ?period \<and> d = (if checktime sees < ?deadline \<and> ?deadline < checktime sees + ?period then ?deadline - checktime sees else ?period)"
    "\<exists>d w'. idle_finish tick_ms ?deadline (checktime sees) w = Sleeps d w'" for d w w'
    using s by (auto simp: idle_finish_def Let_def sleep_period_def)
  have d: "get_last_registered_activity False v + SECS_TO_TICKS tick_ms (ucast (idle_timeout_secs sees v)) = ?deadline"
    by (simp add: get_last_registered_activity_def projected_time_def)
  note round = idletimer_round_def [of False tick_ms sees v, unfolded Let_def d, folded sleep_period_def]
  consider "\<not> ?late" | "?late" "usb_powered sees \<and> \<not> wallet_loaded sees" | "?late" "\<not> usb_powered sees \<or> wallet_loaded sees" by blast
  then show ?thesis
  proof cases
    case 1
    obtain d w' where f: "idle_finish tick_ms ?deadline (checktime sees) v = Sleeps d w'" using fin(2) by blast
    from 1 have "idletimer_round False tick_ms sees v = Sleeps d w'" unfolding round f by auto
    with 1 fin(1) [OF f] show ?thesis by (auto simp: locks_def)
  next
    case 2
    let ?w = "if \<not> screen_dimmed (v\<lparr>idle_state := IDLE\<rparr>) then set_screen_dimmed True (v\<lparr>idle_state := IDLE\<rparr>) else v\<lparr>idle_state := IDLE\<rparr>"
    obtain d w' where f: "idle_finish tick_ms ?deadline (checktime sees) ?w = Sleeps d w'" using fin(2) by blast
    from 2 have "idletimer_round False tick_ms sees v = Sleeps d w'" unfolding round using f by (cases "screen_dimmed v") auto
    with 2 fin(1) [OF f] show ?thesis by (auto simp: locks_def)
  next
    case 3
    let ?quiet = "\<not> (acted sees \<or> last_activity_registered (after_warning sees) > checktime sees)"
    have r: "idletimer_round False tick_ms sees v = (if ?quiet
        then (if usb_powered sees then Restarts else PowersOff) (after_warning sees\<lparr>idle_state := IDLE\<rparr>)
        else Sleeps ?period (after_warning sees))"
      using 3 unfolding round by (auto simp: get_last_registered_activity_def)
    have "\<not> (checktime sees < ?deadline)" using 3 by auto
    with 3 keychain_clear_total [of N st] show ?thesis
      unfolding r by (auto simp: locks_def idle_clears_keychain_def not_less)
  qed
qed

text \<open>The same times without a bound, as natural numbers of ticks.\<close>

definition idle_deadline :: "u32 \<Rightarrow> idle_sees \<Rightarrow> idle_vars \<Rightarrow> nat" where
  "idle_deadline tick_ms sees v = unat (last_activity_registered v) + unat (idle_timeout_secs sees v) * 1000 div unat tick_ms"

definition idle_period :: "u32 \<Rightarrow> nat" where
  "idle_period tick_ms = 60 * 1000 div unat tick_ms"

lemma unat_SECS_TO_TICKS:
  assumes "unat secs * 1000 < 2 ^ 32"
  shows "unat (SECS_TO_TICKS tick_ms secs) = unat secs * 1000 div unat tick_ms"
  using assms by (simp add: SECS_TO_TICKS_def unat_div unat_word_ariths)

lemma unat_sleep_period: "unat (sleep_period tick_ms) = idle_period tick_ms"
  by (simp add: sleep_period_def idle_period_def TIMEOUT_SLEEP_PERIOD_SECS_def unat_SECS_TO_TICKS)

lemma unat_projected_time:
  assumes "idle_deadline tick_ms sees v < 2 ^ 32"
  shows "unat (projected_time tick_ms sees v) = idle_deadline tick_ms sees v"
proof -
  let ?secs = "ucast (idle_timeout_secs sees v) :: u32"
  have secs: "unat ?secs = unat (idle_timeout_secs sees v)" by (simp add: unsigned_ucast_eq take_bit_nat_eq_self_iff less_le_trans [OF unsigned_less])
  moreover have "unat (idle_timeout_secs sees v) < 2 ^ 16" using unsigned_less [of "idle_timeout_secs sees v", where ?'a = nat] by simp
  ultimately have "unat (SECS_TO_TICKS tick_ms ?secs) = unat (idle_timeout_secs sees v) * 1000 div unat tick_ms"
    by (subst unat_SECS_TO_TICKS) auto
  with assms show ?thesis by (simp add: projected_time_def idle_deadline_def unat_word_ariths)
qed

text \<open>C22: The idle timer locks the wallet, and only then. Times are natural numbers of ticks
  here, and the statement is about a round whose deadline (last activity plus timeout) and
  whose time plus one sleeping period are below 2^32, where the 32-bit tick counter wraps
  around. Outside the test builds, such a round of the timer's task ends in switching off or
  restarting exactly when the timeout is not disabled, the deadline has passed, the device
  runs without USB power or holds a wallet, and neither a button nor any other activity
  answered the warning; that always clears the keys and the cached entropy from memory.
  Otherwise the task sleeps for at most its period of 60 seconds, and just until the deadline
  when that lies within it. Across a wrap of the counter the code compares the wrapped sums,
  and can sleep past the deadline or lock too early.\<close>

theorem idle_timer_locks_wallet:
  fixes st :: "('s, 'x) keychain_state"
  assumes "idle_deadline tick_ms sees v < 2 ^ 32" and "unat (checktime sees) + idle_period tick_ms < 2 ^ 32"
  shows "(locks (idletimer_round False tick_ms sees v) \<longleftrightarrow>
      idle_timeout_secs sees v \<noteq> 0xFFFF \<and> idle_deadline tick_ms sees v \<le> unat (checktime sees)
      \<and> \<not> (usb_powered sees \<and> \<not> wallet_loaded sees)
      \<and> \<not> acted sees \<and> unat (last_activity_registered (after_warning sees)) \<le> unat (checktime sees))
    \<and> (case idletimer_round False tick_ms sees v of
        Sleeps d _ \<Rightarrow> unat d \<le> idle_period tick_ms
          \<and> unat d = (if unat (checktime sees) < idle_deadline tick_ms sees v
                \<and> idle_deadline tick_ms sees v < unat (checktime sees) + idle_period tick_ms
              then idle_deadline tick_ms sees v - unat (checktime sees) else idle_period tick_ms)
      | out \<Rightarrow> \<exists>t. idle_clears_keychain N out st = Ret ((), t) \<and> kc_data t = None \<and> kc_mnemonic_entropy t = [])"
proof -
  let ?now = "checktime sees" and ?late = "projected_time tick_ms sees v" and ?period = "sleep_period tick_ms"
  note late = unat_projected_time [OF assms(1)] and period = unat_sleep_period [of tick_ms]
  have sum: "unat (?now + ?period) = unat ?now + idle_period tick_ms"
    using assms(2) by (simp add: unat_word_ariths period)
  have passed: "?late \<le> ?now \<longleftrightarrow> idle_deadline tick_ms sees v \<le> unat ?now" by (simp add: word_le_nat_alt late)
  have ahead: "?now < ?late \<longleftrightarrow> unat ?now < idle_deadline tick_ms sees v" by (simp add: word_less_nat_alt late)
  have within: "?late < ?now + ?period \<longleftrightarrow> idle_deadline tick_ms sees v < unat ?now + idle_period tick_ms"
    by (simp add: word_less_nat_alt late sum)
  have diff: "?now < ?late \<Longrightarrow> unat (?late - ?now) = idle_deadline tick_ms sees v - unat ?now"
    by (simp add: unat_sub late order_less_imp_le)
  note words = idle_round_words [of tick_ms sees v N st, unfolded passed within]
  show ?thesis
  proof (cases "idletimer_round False tick_ms sees v")
    case (Sleeps d w)
    with words diff show ?thesis by (auto simp: word_le_nat_alt period ahead split: if_splits)
  qed (use words in \<open>auto simp: word_le_nat_alt\<close>)
qed

text \<open>A wallet is loaded, the timeout is 300 seconds at one millisecond a tick, and the last
  activity was 400 seconds ago.\<close>

definition idle_example_vars :: idle_vars where
  "idle_example_vars = \<lparr>last_activity_registered = 100000, last_ui_activity_registered = 0, min_timeout_override_secs = 0,
     screen_dimmed = True, idle_state = NORMAL\<rparr>"

definition idle_example_sees :: idle_sees where
  "idle_example_sees = \<lparr>stored_timeout = 300, checktime = 500000, usb_powered = True, wallet_loaded = True, acted = False,
     after_warning = idle_example_vars\<rparr>"

lemmas idle_example_defs = idle_example_vars_def idle_example_sees_def idle_deadline_def idle_period_def idle_timeout_secs_def

theorem idle_timer_locks_wallet_witness:
  "locks (idletimer_round False 1 idle_example_sees idle_example_vars)
    \<and> (\<exists>d w. idletimer_round False 1 (idle_example_sees\<lparr>checktime := 390000\<rparr>) idle_example_vars = Sleeps d w \<and> unat d = 10000)"
proof -
  note round = idle_timer_locks_wallet [where tick_ms = 1 and v = idle_example_vars and N = "libjade_nvs demo_wmap False"]
  have 1: "locks (idletimer_round False 1 idle_example_sees idle_example_vars)"
    using round [of idle_example_sees, THEN conjunct1] by (simp add: idle_example_defs)
  have "\<not> locks (idletimer_round False 1 (idle_example_sees\<lparr>checktime := 390000\<rparr>) idle_example_vars)"
    using round [of "idle_example_sees\<lparr>checktime := 390000\<rparr>", THEN conjunct1] by (simp add: idle_example_defs)
  then obtain d w where d: "idletimer_round False 1 (idle_example_sees\<lparr>checktime := 390000\<rparr>) idle_example_vars = Sleeps d w"
    by (auto simp: locks_def split: idle_outcome.splits)
  with round [of "idle_example_sees\<lparr>checktime := 390000\<rparr>", THEN conjunct2] have "unat d = 10000" by (simp add: idle_example_defs)
  with 1 d show ?thesis by blast
qed

text \<open>
  Across a wrap of the tick counter the comparisons are of wrapped sums. At 2^32 - 3000 with
  the deadline 2000 ticks ahead the task sleeps its whole period of 6000; and a deadline that
  wraps to a small number has passed at once, here 500 seconds before its time.
\<close>

lemma idle_wrap_oversleeps:
  "let now = - 3000; deadline = - 1000 in unat (deadline - now) = 2000 \<and> (\<exists>w. idle_finish 10 deadline now v = Sleeps 6000 w)"
  by (simp add: idle_finish_def SECS_TO_TICKS_def TIMEOUT_SLEEP_PERIOD_SECS_def Let_def)

lemma idle_wrap_locks_early:
  "locks (idletimer_round False 1
     (idle_example_sees\<lparr>stored_timeout := 600, checktime := - 400000, after_warning := idle_example_vars\<lparr>last_activity_registered := - 500000\<rparr>\<rparr>)
     (idle_example_vars\<lparr>last_activity_registered := - 500000\<rparr>))"
  by code_simp

end
