(* ===== verification/Jade_Cbor.thy ===== *)
theory Jade_Cbor
  imports Jade_Prelude
begin

text \<open>
  \<^verbatim>\<open>src/main/utils/cbor_rpc.c\<close>: reading the fields of a request and building the
  fields of a reply. TinyCBOR is not part of the repository; its calls are the records
  \<^verbatim>\<open>cbor_reader\<close>, on a type \<^verbatim>\<open>'v\<close> of values, and \<^verbatim>\<open>cbor_writer\<close>, on a type \<^verbatim>\<open>'e\<close> of
  encoders. \<^verbatim>\<open>None\<close> is an error code. A C string is its bytes before the terminating zero.
  A pointer into the message is the list of the bytes from there to the end of the
  message; reading behind the end is \<^verbatim>\<open>Undef\<close>. An output parameter is a result, and a
  pointer that may not be null is a value.
\<close>

section \<open>The library\<close>

text \<open>
  \<^verbatim>\<open>cbor_parser_init\<close> fills in the value even when it fails. \<^verbatim>\<open>cbor_source_offset\<close> is
  where the value stands in its message. \<^verbatim>\<open>cbor_invalid_type\<close> says that
  \<^verbatim>\<open>cbor_value_get_type\<close> is \<^verbatim>\<open>CborInvalidType\<close>. \<^verbatim>\<open>cbor_value_copy_text_string\<close> yields the
  buffer after the call and the length written.
\<close>

record 'v cbor_reader =
  cbor_parser_init :: "bytes \<Rightarrow> bool \<times> 'v"
  cbor_value_advance :: "'v \<Rightarrow> 'v option"
  cbor_source_offset :: "'v \<Rightarrow> nat"
  cbor_value_is_valid :: "'v \<Rightarrow> bool"
  cbor_invalid_type :: "'v \<Rightarrow> bool"
  cbor_value_is_map :: "'v \<Rightarrow> bool"
  cbor_value_is_array :: "'v \<Rightarrow> bool"
  cbor_value_is_text_string :: "'v \<Rightarrow> bool"
  cbor_value_is_byte_string :: "'v \<Rightarrow> bool"
  cbor_value_is_boolean :: "'v \<Rightarrow> bool"
  cbor_value_is_unsigned_integer :: "'v \<Rightarrow> bool"
  cbor_value_is_null :: "'v \<Rightarrow> bool"
  cbor_value_is_length_known :: "'v \<Rightarrow> bool"
  cbor_value_map_find_value :: "'v \<Rightarrow> bytes \<Rightarrow> 'v option"
  cbor_value_get_string_length :: "'v \<Rightarrow> nat option"
  cbor_value_calculate_string_length :: "'v \<Rightarrow> nat option"
  cbor_value_get_next_byte :: "'v \<Rightarrow> bytes"
  cbor_value_copy_byte_string :: "'v \<Rightarrow> nat \<Rightarrow> bytes option"
  cbor_value_copy_text_string :: "'v \<Rightarrow> nat \<Rightarrow> (bytes \<times> nat) option"
  cbor_value_text_string_equals :: "'v \<Rightarrow> bytes \<Rightarrow> bool option"
  cbor_value_get_boolean :: "'v \<Rightarrow> bool option"
  cbor_value_get_uint64 :: "'v \<Rightarrow> u64 option"
  cbor_value_get_array_length :: "'v \<Rightarrow> nat option"
  cbor_value_enter_container :: "'v \<Rightarrow> 'v option"
  cbor_value_leave_container :: "'v \<Rightarrow> 'v \<Rightarrow> 'v option"
  cbor_value_at_end :: "'v \<Rightarrow> bool"
  cbor_value_advance_fixed :: "'v \<Rightarrow> 'v option"

record 'e cbor_writer =
  cbor_encoder_init :: "nat \<Rightarrow> 'e"
  cbor_encoder_create_map :: "'e \<Rightarrow> nat \<Rightarrow> 'e option"
  cbor_encoder_create_array :: "'e \<Rightarrow> nat \<Rightarrow> 'e option"
  cbor_encoder_close_container :: "'e \<Rightarrow> 'e \<Rightarrow> 'e option"
  cbor_encode_text_string :: "'e \<Rightarrow> bytes \<Rightarrow> 'e option"
  cbor_encode_byte_string :: "'e \<Rightarrow> bytes \<Rightarrow> 'e option"
  cbor_encode_uint :: "'e \<Rightarrow> u64 \<Rightarrow> 'e option"
  cbor_encode_int :: "'e \<Rightarrow> u64 \<Rightarrow> 'e option"
  cbor_encode_boolean :: "'e \<Rightarrow> bool \<Rightarrow> 'e option"
  cbor_encoder_get_buffer :: "'e \<Rightarrow> bytes"

definition cstr :: "string \<Rightarrow> bytes" where
  "cstr str = map char_byte str"

definition c_string :: "bytes \<Rightarrow> bytes" where
  "c_string buf = takeWhile (\<lambda>b. b \<noteq> 0) buf"

definition cbor_encode_text_stringz :: "'e cbor_writer \<Rightarrow> 'e \<Rightarrow> bytes \<Rightarrow> 'e option" where
  "cbor_encode_text_stringz W e str = cbor_encode_text_string W e (c_string str)"

definition MAXLEN_ID :: nat where "MAXLEN_ID = 16"
definition MAXLEN_METHOD :: nat where "MAXLEN_METHOD = 32"
definition MAX_PATH_LEN :: nat where "MAX_PATH_LEN = 16"

definition CBOR_RPC_INVALID_REQUEST :: int where "CBOR_RPC_INVALID_REQUEST = - 32600"
definition CBOR_RPC_UNKNOWN_METHOD :: int where "CBOR_RPC_UNKNOWN_METHOD = - 32601"
definition CBOR_RPC_BAD_PARAMETERS :: int where "CBOR_RPC_BAD_PARAMETERS = - 32602"
definition CBOR_RPC_INTERNAL_ERROR :: int where "CBOR_RPC_INTERNAL_ERROR = - 32603"
definition CBOR_RPC_USER_CANCELLED :: int where "CBOR_RPC_USER_CANCELLED = - 32000"
definition CBOR_RPC_PROTOCOL_ERROR :: int where "CBOR_RPC_PROTOCOL_ERROR = - 32001"
definition CBOR_RPC_HW_LOCKED :: int where "CBOR_RPC_HW_LOCKED = - 32002"
definition CBOR_RPC_NETWORK_MISMATCH :: int where "CBOR_RPC_NETWORK_MISMATCH = - 32003"

definition CBOR_RPC_TAG_METHOD :: bytes where "CBOR_RPC_TAG_METHOD = cstr ''method''"
definition CBOR_RPC_TAG_ID :: bytes where "CBOR_RPC_TAG_ID = cstr ''id''"
definition CBOR_RPC_TAG_SEQNUM :: bytes where "CBOR_RPC_TAG_SEQNUM = cstr ''seqnum''"
definition CBOR_RPC_TAG_SEQLEN :: bytes where "CBOR_RPC_TAG_SEQLEN = cstr ''seqlen''"
definition CBOR_RPC_TAG_RESULT :: bytes where "CBOR_RPC_TAG_RESULT = cstr ''result''"
definition CBOR_RPC_TAG_ERROR :: bytes where "CBOR_RPC_TAG_ERROR = cstr ''error''"
definition CBOR_RPC_TAG_CODE :: bytes where "CBOR_RPC_TAG_CODE = cstr ''code''"
definition CBOR_RPC_TAG_MESSAGE :: bytes where "CBOR_RPC_TAG_MESSAGE = cstr ''message''"
definition CBOR_RPC_TAG_DATA :: bytes where "CBOR_RPC_TAG_DATA = cstr ''data''"

definition CBOR_BINARY_MASK :: byte where "CBOR_BINARY_MASK = 0b01000000"
definition CBOR_TEXT_MASK :: byte where "CBOR_TEXT_MASK = 0b01100000"
definition CBOR_TYPE_MASK :: byte where "CBOR_TYPE_MASK = 0b11100000"
definition CBOR_LEN_MASK :: byte where "CBOR_LEN_MASK = 0b00011111"

section \<open>Finding a field\<close>

definition rpc_get_data :: "'v cbor_reader \<Rightarrow> bytes \<Rightarrow> 'v option \<Rightarrow> 'v option" where
  "rpc_get_data R field value =
     (case value of
        None \<Rightarrow> None
      | Some v \<Rightarrow>
          if \<not> cbor_value_is_valid R v then None
          else if \<not> cbor_value_is_map R v then None
          else case cbor_value_map_find_value R v field of
            None \<Rightarrow> None
          | Some r \<Rightarrow>
              if cbor_invalid_type R r then None
              else if \<not> cbor_value_is_valid R r then None
              else Some r)"

definition string_length :: "'v cbor_reader \<Rightarrow> 'v \<Rightarrow> nat option" where
  "string_length R v =
     (if cbor_value_is_length_known R v then cbor_value_get_string_length R v
      else cbor_value_calculate_string_length R v)"

definition rpc_get_string_len :: "'v cbor_reader \<Rightarrow> bytes \<Rightarrow> 'v \<Rightarrow> nat" where
  "rpc_get_string_len R field value =
     (case rpc_get_data R field (Some value) of
        None \<Rightarrow> 0
      | Some r \<Rightarrow>
          if \<not> cbor_value_is_text_string R r then 0
          else case string_length R r of None \<Rightarrow> 0 | Some n \<Rightarrow> n)"

definition rpc_message_valid :: "'v cbor_reader \<Rightarrow> 'v option \<Rightarrow> bool" where
  "rpc_message_valid R message =
     (case message of
        None \<Rightarrow> False
      | Some m \<Rightarrow>
          if \<not> cbor_value_is_valid R m then False
          else if \<not> cbor_value_is_map R m then False
          else let written = rpc_get_string_len R CBOR_RPC_TAG_ID m in
            \<not> (written = 0 \<or> written > MAXLEN_ID))"

definition rpc_request_valid :: "'v cbor_reader \<Rightarrow> 'v option \<Rightarrow> bool" where
  "rpc_request_valid R request =
     (if \<not> rpc_message_valid R request then False
      else let written = rpc_get_string_len R CBOR_RPC_TAG_METHOD (the request) in
        \<not> (written = 0 \<or> written > MAXLEN_METHOD))"

section \<open>Strings in place\<close>

definition get_skip :: "byte \<Rightarrow> nat run" where
  "get_skip lencode =
     jade_assert (lencode < 27)
       (Ret (if lencode < 24 then 1 else if lencode = 24 then 2 else if lencode = 25 then 3
             else if lencode = 26 then 5 else 0))"

text \<open>The data pointer and the size.\<close>

definition rpc_get_raw_type_ptr :: "'v cbor_reader \<Rightarrow> 'v \<Rightarrow> byte \<Rightarrow> (bytes option \<times> nat) run" where
  "rpc_get_raw_type_ptr R value masktype =
     (case cbor_value_get_next_byte R value of
        [] \<Rightarrow> Undef
      | b # rest \<Rightarrow>
          if b AND CBOR_TYPE_MASK \<noteq> masktype then Ret (None, 0)
          else case cbor_value_get_string_length R value of
            None \<Rightarrow> Ret (None, 0)
          | Some n \<Rightarrow>
              if n = 0 then Ret (None, 0)
              else then_run (get_skip (b AND CBOR_LEN_MASK)) (\<lambda>skip.
                Ret (Some (drop skip (b # rest)), n)))"

definition rpc_get_raw_bytes_ptr :: "'v cbor_reader \<Rightarrow> 'v \<Rightarrow> (bytes option \<times> nat) run" where
  "rpc_get_raw_bytes_ptr R value = rpc_get_raw_type_ptr R value CBOR_BINARY_MASK"

definition rpc_get_raw_string_ptr :: "'v cbor_reader \<Rightarrow> 'v \<Rightarrow> (bytes option \<times> nat) run" where
  "rpc_get_raw_string_ptr R value = rpc_get_raw_type_ptr R value CBOR_TEXT_MASK"

definition rpc_get_type_ptr :: "'v cbor_reader \<Rightarrow> bytes \<Rightarrow> 'v \<Rightarrow> byte \<Rightarrow> (bytes option \<times> nat) run" where
  "rpc_get_type_ptr R field value masktype =
     (case cbor_value_map_find_value R value field of
        None \<Rightarrow> Ret (None, 0)
      | Some r \<Rightarrow>
          if cbor_invalid_type R r \<or> \<not> cbor_value_is_valid R r then Ret (None, 0)
          else rpc_get_raw_type_ptr R r masktype)"

definition rpc_get_bytes_ptr :: "'v cbor_reader \<Rightarrow> bytes \<Rightarrow> 'v \<Rightarrow> (bytes option \<times> nat) run" where
  "rpc_get_bytes_ptr R field value = rpc_get_type_ptr R field value CBOR_BINARY_MASK"

definition rpc_get_string_ptr :: "'v cbor_reader \<Rightarrow> bytes \<Rightarrow> 'v \<Rightarrow> (bytes option \<times> nat) run" where
  "rpc_get_string_ptr R field value = rpc_get_type_ptr R field value CBOR_TEXT_MASK"

definition rpc_get_method :: "'v cbor_reader \<Rightarrow> 'v \<Rightarrow> (bytes option \<times> nat) run" where
  "rpc_get_method R value =
     jade_assert (cbor_value_is_valid R value) (
     jade_assert (cbor_value_is_map R value) (
     then_run (rpc_get_string_ptr R CBOR_RPC_TAG_METHOD value) (\<lambda>(data, written).
     jade_assert (written \<le> MAXLEN_METHOD) (Ret (data, written)))))"

definition rpc_get_id_ptr :: "'v cbor_reader \<Rightarrow> 'v option \<Rightarrow> (bytes option \<times> nat) run" where
  "rpc_get_id_ptr R value =
     (case value of None \<Rightarrow> Ret (None, 0) | Some v \<Rightarrow> rpc_get_string_ptr R CBOR_RPC_TAG_ID v)"

section \<open>Copies of fields\<close>

text \<open>The bytes written; none is also what a missing or unsuitable field gives.\<close>

definition rpc_get_bytes :: "'v cbor_reader \<Rightarrow> bytes \<Rightarrow> nat \<Rightarrow> 'v \<Rightarrow> bytes run" where
  "rpc_get_bytes R field max_len value =
     jade_assert (max_len > 0) (
     case rpc_get_data R field (Some value) of
       None \<Rightarrow> Ret []
     | Some r \<Rightarrow>
         if \<not> cbor_value_is_byte_string R r then Ret []
         else case string_length R r of
           None \<Rightarrow> Ret []
         | Some n \<Rightarrow>
             if n = 0 \<or> n > max_len then Ret []
             else case cbor_value_copy_byte_string R r max_len of
               None \<Rightarrow> Crash
             | Some d \<Rightarrow> jade_assert (length d > 0) (jade_assert (length d \<le> max_len) (Ret d)))"

definition rpc_get_n_bytes :: "'v cbor_reader \<Rightarrow> bytes \<Rightarrow> 'v \<Rightarrow> nat \<Rightarrow> (bool \<times> bytes) run" where
  "rpc_get_n_bytes R field value expected_size =
     jade_assert (expected_size \<noteq> 0) (
     then_run (rpc_get_bytes R field expected_size value) (\<lambda>d. Ret (length d = expected_size, d)))"

definition rpc_get_string :: "'v cbor_reader \<Rightarrow> bytes \<Rightarrow> nat \<Rightarrow> 'v \<Rightarrow> bytes run" where
  "rpc_get_string R field max_len value =
     jade_assert (max_len > 0) (
     case rpc_get_data R field (Some value) of
       None \<Rightarrow> Ret []
     | Some r \<Rightarrow>
         if \<not> cbor_value_is_text_string R r then Ret []
         else case string_length R r of
           None \<Rightarrow> Ret []
         | Some n \<Rightarrow>
             if n \<ge> max_len then Ret []
             else case cbor_value_copy_text_string R r max_len of
               None \<Rightarrow> Crash
             | Some (buf, local_written) \<Rightarrow>
                 jade_assert (local_written < max_len) (
                 if local_written \<ge> length buf then Undef
                 else jade_assert (buf ! local_written = 0) (Ret (take local_written buf))))"

definition rpc_get_boolean :: "'v cbor_reader \<Rightarrow> bytes \<Rightarrow> 'v \<Rightarrow> bool option" where
  "rpc_get_boolean R field value =
     (case rpc_get_data R field (Some value) of
        None \<Rightarrow> None
      | Some r \<Rightarrow> if cbor_value_is_boolean R r then cbor_value_get_boolean R r else None)"

definition rpc_get_uint64_t :: "'v cbor_reader \<Rightarrow> bytes \<Rightarrow> 'v \<Rightarrow> u64 option run" where
  "rpc_get_uint64_t R field value =
     (case rpc_get_data R field (Some value) of
        None \<Rightarrow> Ret None
      | Some r \<Rightarrow>
          if \<not> cbor_value_is_unsigned_integer R r then Ret None
          else case cbor_value_get_uint64 R r of None \<Rightarrow> Crash | Some v \<Rightarrow> Ret (Some v))"

definition rpc_get_sizet :: "'v cbor_reader \<Rightarrow> bytes \<Rightarrow> 'v \<Rightarrow> u32 option run" where
  "rpc_get_sizet R field value =
     (case rpc_get_data R field (Some value) of
        None \<Rightarrow> Ret None
      | Some r \<Rightarrow>
          if \<not> cbor_value_is_unsigned_integer R r then Ret None
          else case cbor_value_get_uint64 R r of
            None \<Rightarrow> Crash
          | Some tmp \<Rightarrow> if tmp > 0xFFFFFFFF then Ret None else Ret (Some (ucast (tmp AND 0xFFFFFFFF))))"

definition rpc_key_equals :: "'v cbor_reader \<Rightarrow> 'v \<Rightarrow> bytes \<Rightarrow> bytes \<Rightarrow> bool run" where
  "rpc_key_equals R value key data =
     jade_assert (cbor_value_is_valid R value) (
     jade_assert (cbor_value_is_map R value) (
     case cbor_value_map_find_value R value key of
       None \<Rightarrow> Crash
     | Some r \<Rightarrow>
         jade_assert (\<not> cbor_invalid_type R r) (
         jade_assert (cbor_value_is_valid R r) (
         jade_assert (cbor_value_is_text_string R r) (
         case cbor_value_text_string_equals R r data of None \<Rightarrow> Crash | Some b \<Rightarrow> Ret b)))))"

definition rpc_is_method :: "'v cbor_reader \<Rightarrow> 'v \<Rightarrow> bytes \<Rightarrow> bool run" where
  "rpc_is_method R value method = rpc_key_equals R value CBOR_RPC_TAG_METHOD method"

definition rpc_get_id :: "'v cbor_reader \<Rightarrow> 'v option \<Rightarrow> nat \<Rightarrow> bytes run" where
  "rpc_get_id R value datalen =
     jade_assert (datalen = MAXLEN_ID + 1) (
     case value of
       None \<Rightarrow> Ret []
     | Some v \<Rightarrow>
         if \<not> cbor_value_is_valid R v then Ret []
         else if \<not> cbor_value_is_map R v then Ret []
         else rpc_get_string R CBOR_RPC_TAG_ID datalen v)"

definition rpc_has_field_data :: "'v cbor_reader \<Rightarrow> bytes \<Rightarrow> 'v option \<Rightarrow> bool" where
  "rpc_has_field_data R field value =
     (case rpc_get_data R field value of None \<Rightarrow> False | Some r \<Rightarrow> \<not> cbor_value_is_null R r)"

definition rpc_get_array :: "'v cbor_reader \<Rightarrow> bytes \<Rightarrow> 'v \<Rightarrow> 'v option" where
  "rpc_get_array R field value =
     (case rpc_get_data R field (Some value) of
        None \<Rightarrow> None | Some r \<Rightarrow> if cbor_value_is_array R r then Some r else None)"

definition rpc_get_map :: "'v cbor_reader \<Rightarrow> bytes \<Rightarrow> 'v \<Rightarrow> 'v option" where
  "rpc_get_map R field value =
     (case rpc_get_data R field (Some value) of
        None \<Rightarrow> None | Some r \<Rightarrow> if cbor_value_is_map R r then Some r else None)"

section \<open>Key paths\<close>

text \<open>The loop over the array: the path elements and the iterator behind the last.\<close>

fun bip32_path_items :: "'v cbor_reader \<Rightarrow> nat \<Rightarrow> 'v \<Rightarrow> (u32 list \<times> 'v) option run" where
  "bip32_path_items R 0 item = Ret (Some ([], item))"
| "bip32_path_items R (Suc n) item =
     jade_assert (\<not> cbor_value_at_end R item) (
     if \<not> cbor_value_is_unsigned_integer R item then Ret None
     else case cbor_value_get_uint64 R item of
       None \<Rightarrow> Crash
     | Some tmp \<Rightarrow>
         if tmp > 0xFFFFFFFF then Ret None
         else case cbor_value_advance_fixed R item of
           None \<Rightarrow> Crash
         | Some item' \<Rightarrow>
             then_run (bip32_path_items R n item') (\<lambda>r.
             Ret (map_option (\<lambda>(path, rest). (ucast tmp # path, rest)) r)))"

text \<open>The path, and the caller's value, which is moved behind the array.\<close>

definition rpc_get_bip32_path_from_value :: "'v cbor_reader \<Rightarrow> 'v \<Rightarrow> nat \<Rightarrow> (u32 list \<times> 'v) option run" where
  "rpc_get_bip32_path_from_value R value max_path_len =
     jade_assert (max_path_len > 0) (
     if \<not> cbor_value_is_array R value then Ret None
     else case cbor_value_get_array_length R value of
       None \<Rightarrow> Ret None
     | Some num_array_items \<Rightarrow>
         if num_array_items > max_path_len then Ret None
         else case cbor_value_enter_container R value of
           None \<Rightarrow> Ret None
         | Some item \<Rightarrow>
             then_run (bip32_path_items R num_array_items item) (\<lambda>r. case r of
               None \<Rightarrow> Ret None
             | Some (path, rest) \<Rightarrow>
                 jade_assert (cbor_value_at_end R rest) (
                 case cbor_value_leave_container R value rest of
                   None \<Rightarrow> Ret None
                 | Some after \<Rightarrow> Ret (Some (path, after)))))"

definition rpc_get_bip32_path :: "'v cbor_reader \<Rightarrow> bytes \<Rightarrow> 'v \<Rightarrow> nat \<Rightarrow> u32 list option run" where
  "rpc_get_bip32_path R field value max_path_len =
     (case rpc_get_data R field (Some value) of
        None \<Rightarrow> Ret None
      | Some r \<Rightarrow> then_run (rpc_get_bip32_path_from_value R r max_path_len) (\<lambda>p. Ret (map_option fst p)))"

section \<open>Building replies\<close>

text \<open>An encoder call whose failure stops the device.\<close>

definition encoded :: "'e option \<Rightarrow> 'e run" where
  "encoded r = (case r of None \<Rightarrow> Crash | Some e \<Rightarrow> Ret e)"

lemma encoded_Ret [run_simps]: "encoded r = Ret e \<longleftrightarrow> r = Some e"
  by (auto simp: encoded_def split: option.splits)

definition add_uint_to_map :: "'e cbor_writer \<Rightarrow> 'e \<Rightarrow> bytes \<Rightarrow> u64 \<Rightarrow> 'e run" where
  "add_uint_to_map W container name value =
     then_run (encoded (cbor_encode_text_stringz W container name)) (\<lambda>e.
     encoded (cbor_encode_uint W e value))"

definition add_int_to_map :: "'e cbor_writer \<Rightarrow> 'e \<Rightarrow> bytes \<Rightarrow> u64 \<Rightarrow> 'e run" where
  "add_int_to_map W container name value =
     then_run (encoded (cbor_encode_text_stringz W container name)) (\<lambda>e.
     encoded (cbor_encode_int W e value))"

definition add_string_to_map :: "'e cbor_writer \<Rightarrow> 'e \<Rightarrow> bytes \<Rightarrow> bytes \<Rightarrow> 'e run" where
  "add_string_to_map W container name value =
     then_run (encoded (cbor_encode_text_stringz W container name)) (\<lambda>e.
     encoded (cbor_encode_text_stringz W e value))"

text \<open>\<^verbatim>\<open>len\<close> bytes from \<^verbatim>\<open>value\<close> on.\<close>

definition add_string_sized_to_map :: "'e cbor_writer \<Rightarrow> 'e \<Rightarrow> bytes \<Rightarrow> bytes \<Rightarrow> nat \<Rightarrow> 'e run" where
  "add_string_sized_to_map W container name value len =
     jade_assert (len \<noteq> 0) (
     then_run (encoded (cbor_encode_text_stringz W container name)) (\<lambda>e.
     if len > length value then Undef
     else encoded (cbor_encode_text_string W e (take len value))))"

fun encode_all :: "('e \<Rightarrow> 'a \<Rightarrow> 'e run) \<Rightarrow> 'a list \<Rightarrow> 'e \<Rightarrow> 'e run" where
  "encode_all encode [] e = Ret e"
| "encode_all encode (x # xs) e = then_run (encode e x) (encode_all encode xs)"

definition add_string_array_to_map :: "'e cbor_writer \<Rightarrow> 'e \<Rightarrow> bytes \<Rightarrow> bytes option list \<Rightarrow> 'e run" where
  "add_string_array_to_map W container name texts =
     then_run (encoded (cbor_encode_text_stringz W container name)) (\<lambda>e.
     then_run (encoded (cbor_encoder_create_array W e (length texts))) (\<lambda>array.
     then_run (encode_all (\<lambda>array text. case text of
         None \<Rightarrow> Crash | Some t \<Rightarrow> encoded (cbor_encode_text_stringz W array t)) texts array) (\<lambda>array.
     encoded (cbor_encoder_close_container W e array))))"

definition add_uint_array_to_map :: "'e cbor_writer \<Rightarrow> 'e \<Rightarrow> bytes \<Rightarrow> u32 list \<Rightarrow> 'e run" where
  "add_uint_array_to_map W container name values =
     then_run (encoded (cbor_encode_text_stringz W container name)) (\<lambda>e.
     then_run (encoded (cbor_encoder_create_array W e (length values))) (\<lambda>array.
     then_run (encode_all (\<lambda>array v. encoded (cbor_encode_uint W array (ucast v))) values array) (\<lambda>array.
     encoded (cbor_encoder_close_container W e array))))"

definition add_bytes_to_map :: "'e cbor_writer \<Rightarrow> 'e \<Rightarrow> bytes \<Rightarrow> bytes \<Rightarrow> 'e run" where
  "add_bytes_to_map W container name value =
     then_run (encoded (cbor_encode_text_stringz W container name)) (\<lambda>e.
     encoded (cbor_encode_byte_string W e value))"

definition add_boolean_to_map :: "'e cbor_writer \<Rightarrow> 'e \<Rightarrow> bytes \<Rightarrow> bool \<Rightarrow> 'e run" where
  "add_boolean_to_map W container name value =
     then_run (encoded (cbor_encode_text_stringz W container name)) (\<lambda>e.
     encoded (cbor_encode_boolean W e value))"

definition rpc_init_cbor :: "'e cbor_writer \<Rightarrow> 'e \<Rightarrow> bytes \<Rightarrow> nat \<Rightarrow> 'e run" where
  "rpc_init_cbor W map_container ident id_len =
     jade_assert (id_len \<noteq> 0) (
     then_run (add_string_sized_to_map W map_container CBOR_RPC_TAG_ID ident id_len) (\<lambda>e.
     encoded (cbor_encode_text_stringz W e CBOR_RPC_TAG_RESULT)))"

definition rpc_init_cbor_with_sequence :: "'e cbor_writer \<Rightarrow> 'e \<Rightarrow> bytes \<Rightarrow> nat \<Rightarrow> u32 \<Rightarrow> u32 \<Rightarrow> 'e run" where
  "rpc_init_cbor_with_sequence W map_container ident id_len seqnum seqlen =
     jade_assert (id_len \<noteq> 0) (
     jade_assert (seqnum \<le> seqlen) (
     then_run (add_string_sized_to_map W map_container CBOR_RPC_TAG_ID ident id_len) (\<lambda>e.
     then_run (add_uint_to_map W e CBOR_RPC_TAG_SEQNUM (ucast seqnum)) (\<lambda>e.
     then_run (add_uint_to_map W e CBOR_RPC_TAG_SEQLEN (ucast seqlen)) (\<lambda>e.
     encoded (cbor_encode_text_stringz W e CBOR_RPC_TAG_RESULT))))))"

text \<open>\<^verbatim>\<open>None\<close> is the answer false, when the data does not fit.\<close>

definition cbor_build_error_for ::
  "'e cbor_writer \<Rightarrow> bytes \<Rightarrow> int \<Rightarrow> bytes \<Rightarrow> bytes option \<Rightarrow> 'e \<Rightarrow> 'e option run" where
  "cbor_build_error_for W ident code message data container =
     jade_assert (length (c_string ident) \<le> MAXLEN_ID) (
     then_run (encoded (cbor_encoder_create_map W container 2)) (\<lambda>root.
     then_run (add_string_to_map W root CBOR_RPC_TAG_ID ident) (\<lambda>root.
     then_run (encoded (cbor_encode_text_stringz W root CBOR_RPC_TAG_ERROR)) (\<lambda>root.
     then_run (encoded (cbor_encoder_create_map W root (if data \<noteq> None then 3 else 2))) (\<lambda>err.
     then_run (add_int_to_map W err CBOR_RPC_TAG_CODE (of_int code)) (\<lambda>err.
     then_run (add_string_to_map W err CBOR_RPC_TAG_MESSAGE message) (\<lambda>err.
     then_run (case data of
         None \<Rightarrow> Ret (Some err)
       | Some d \<Rightarrow>
           then_run (encoded (cbor_encode_text_stringz W err CBOR_RPC_TAG_DATA)) (\<lambda>err.
           Ret (cbor_encode_byte_string W err d))) (\<lambda>r. case r of
       None \<Rightarrow> Ret None
     | Some err \<Rightarrow>
         then_run (encoded (cbor_encoder_close_container W root err)) (\<lambda>root.
         then_run (encoded (cbor_encoder_close_container W container root)) (\<lambda>container.
         Ret (Some container)))))))))))"

definition cbor_print_error_for ::
  "'e cbor_writer \<Rightarrow> bytes \<Rightarrow> int \<Rightarrow> bytes \<Rightarrow> bytes option \<Rightarrow> nat \<Rightarrow> bytes option run" where
  "cbor_print_error_for W ident code message data buffer_len =
     then_run (cbor_build_error_for W ident code message data (cbor_encoder_init W buffer_len)) (\<lambda>r.
     Ret (map_option (cbor_encoder_get_buffer W) r))"

end
