(* ===== verification/Jade_Process.thy ===== *)
theory Jade_Process
  imports Jade_Cbor
begin

text \<open>
  \<^verbatim>\<open>src/main/process.c\<close>: the queues between the tasks, the current message of a process
  and its clean-up actions, and the replies. A queue is one of FreeRTOS' ring buffers: the
  items in it, and, as a record of the past, the items its reader has taken. What FreeRTOS
  decides is the record \<^verbatim>\<open>rtos\<close>. A sender that finds no room waits until the reader has
  taken an item; the reader takes items then, and at no other time matters the difference.
\<close>

section \<open>Queues\<close>

datatype jade_msg_source_t = SOURCE_NONE | SOURCE_INTERNAL | SOURCE_SERIAL | SOURCE_QEMU_TCP | SOURCE_BLE
  | SOURCE_OTHER byte

definition source_byte :: "jade_msg_source_t \<Rightarrow> byte" where
  "source_byte src =
     (case src of SOURCE_NONE \<Rightarrow> 0 | SOURCE_INTERNAL \<Rightarrow> 1 | SOURCE_SERIAL \<Rightarrow> 2 | SOURCE_QEMU_TCP \<Rightarrow> 3
      | SOURCE_BLE \<Rightarrow> 4 | SOURCE_OTHER b \<Rightarrow> b)"

definition byte_source :: "byte \<Rightarrow> jade_msg_source_t" where
  "byte_source b =
     (if b = 0 then SOURCE_NONE else if b = 1 then SOURCE_INTERNAL else if b = 2 then SOURCE_SERIAL
      else if b = 3 then SOURCE_QEMU_TCP else if b = 4 then SOURCE_BLE else SOURCE_OTHER b)"

record ring =
  ring_max_item :: nat
  ring_items :: "bytes list"
  ring_taken :: "bytes list"

text \<open>
  \<^verbatim>\<open>ring_fits\<close>: an item fits behind the items of a ring; \<^verbatim>\<open>ring_capacity\<close>: the largest item
  of a ring of some size.
\<close>

record rtos =
  ring_fits :: "bytes list \<Rightarrow> bytes \<Rightarrow> bool"
  ring_capacity :: "nat \<Rightarrow> nat"

record build_config =
  bt_enabled :: bool
  qemu_tcp_enabled :: bool
  internal_enabled :: bool
  max_input_msg_size :: nat
  max_output_msg_size :: nat

text \<open>The static variables: \<^verbatim>\<open>ps_out\<close> and \<^verbatim>\<open>ps_handle\<close> are the rings and the tasks by source.\<close>

record process_vars =
  ps_shared_in :: "ring option"
  ps_out :: "jade_msg_source_t \<Rightarrow> ring option"
  ps_handle :: "jade_msg_source_t \<Rightarrow> bool"
  ps_last_message_source :: jade_msg_source_t
  ps_jade_id :: bytes

text \<open>
  The sender's loop: while there is no room, the oldest item leaves. With a reader it is
  taken; without one the sender throws it away.
\<close>

fun send_waiting :: "rtos \<Rightarrow> bool \<Rightarrow> bytes \<Rightarrow> bytes list \<Rightarrow> bytes list \<Rightarrow> bytes list \<times> bytes list" where
  "send_waiting F reader d [] taken = ([d], taken)"
| "send_waiting F reader d (x # xs) taken =
     (if ring_fits F (x # xs) d then (x # xs @ [d], taken)
      else send_waiting F reader d xs (if reader then taken @ [x] else taken))"

definition ring_send :: "rtos \<Rightarrow> bool \<Rightarrow> bytes \<Rightarrow> ring \<Rightarrow> ring" where
  "ring_send F reader d r =
     (let (items, taken) = send_waiting F reader d (ring_items r) (ring_taken r)
      in r\<lparr>ring_items := items, ring_taken := taken\<rparr>)"

definition create_ringbuffer :: "rtos \<Rightarrow> nat \<Rightarrow> ring run" where
  "create_ringbuffer F ringsize =
     jade_assert (ringsize mod 4 = 0)
       (Ret \<lparr>ring_max_item = ring_capacity F ringsize, ring_items = [], ring_taken = []\<rparr>)"

definition c_toupper :: "byte \<Rightarrow> byte" where
  "c_toupper b = (if 0x61 \<le> b \<and> b \<le> 0x7A then b - 0x20 else b)"

text \<open>\<^verbatim>\<open>hexout\<close> is what libwally writes for the six bytes of the MAC address.\<close>

definition deduce_jade_id :: "bytes \<Rightarrow> bytes run" where
  "deduce_jade_id hexout =
     (if length hexout < 12 then Undef
      else Ret (cstr ''Jade '' @ map c_toupper (take 6 (drop 6 hexout))))"

definition jade_process_init :: "build_config \<Rightarrow> rtos \<Rightarrow> bytes \<Rightarrow> (process_vars, bool) act" where
  "jade_process_init B F hexout st =
     (if ps_shared_in st \<noteq> None \<or>
         (\<exists>src \<in> {SOURCE_SERIAL, SOURCE_BLE, SOURCE_QEMU_TCP, SOURCE_INTERNAL}. ps_out st src \<noteq> None)
      then Ret (False, st)
      else then_run (deduce_jade_id hexout) (\<lambda>ident.
        then_run (create_ringbuffer F (2 * max_input_msg_size B + 32)) (\<lambda>input.
        then_run (create_ringbuffer F (2 * max_output_msg_size B + 32)) (\<lambda>output.
        Ret (True, st\<lparr>ps_jade_id := ident, ps_shared_in := Some input,
          ps_out := (\<lambda>src. if src = SOURCE_SERIAL \<or> src = SOURCE_QEMU_TCP \<and> qemu_tcp_enabled B
              \<or> src = SOURCE_BLE \<and> bt_enabled B \<or> src = SOURCE_INTERNAL \<and> internal_enabled B
            then Some output else None),
          ps_handle := (ps_handle st)(SOURCE_INTERNAL := ps_handle st SOURCE_INTERNAL \<or> internal_enabled B)\<rparr>)))))"

section \<open>Sending\<close>

definition jade_process_push_in_message :: "rtos \<Rightarrow> bytes \<Rightarrow> (process_vars, bool) act" where
  "jade_process_push_in_message F data st =
     (case ps_shared_in st of
        None \<Rightarrow> Undef
      | Some r \<Rightarrow>
          if length data > ring_max_item r then Ret (False, st)
          else Ret (True, st\<lparr>ps_shared_in := Some (ring_send F True data r)\<rparr>))"

definition jade_process_push_in_message_ex :: "rtos \<Rightarrow> bytes \<Rightarrow> jade_msg_source_t \<Rightarrow> (process_vars, bool) act" where
  "jade_process_push_in_message_ex F data src =
     andthen (insist (length data \<noteq> 0)) (\<lambda>_.
     jade_process_push_in_message F (source_byte src # data))"

text \<open>The sources a build sends to.\<close>

definition known_source :: "build_config \<Rightarrow> jade_msg_source_t \<Rightarrow> bool" where
  "known_source B src =
     (if qemu_tcp_enabled B then src = SOURCE_QEMU_TCP \<or> src = SOURCE_SERIAL \<or> src = SOURCE_INTERNAL
      else if \<not> bt_enabled B then src = SOURCE_SERIAL \<or> src = SOURCE_INTERNAL
      else src = SOURCE_SERIAL \<or> src = SOURCE_BLE \<or> src = SOURCE_INTERNAL)"

definition jade_process_push_out_message ::
  "build_config \<Rightarrow> rtos \<Rightarrow> bytes \<Rightarrow> jade_msg_source_t \<Rightarrow> (process_vars, unit) act" where
  "jade_process_push_out_message B F data src st =
     jade_assert (known_source B src) (
     case ps_out st src of
       None \<Rightarrow> Crash
     | Some r \<Rightarrow>
         if length data > ring_max_item r then Crash
         else Ret ((), st\<lparr>ps_out := (ps_out st)(src := Some (ring_send F (ps_handle st src) data r))\<rparr>))"

section \<open>Receiving\<close>

text \<open>
  What happens while a reader waits: an item arrives, or nothing does and the connections
  are looked at (USB power, and whether BLE is connected).
\<close>

datatype wait_event = Arrives bytes | Silence bool bool

text \<open>The item handed to the reader's callback, if any; \<^verbatim>\<open>None\<close> when still waiting.\<close>

fun get_in_waiting ::
  "bool \<Rightarrow> wait_event list \<Rightarrow> jade_msg_source_t \<Rightarrow> (bytes option \<times> jade_msg_source_t) option" where
  "get_in_waiting blocking [] last_src = None"
| "get_in_waiting blocking (Arrives d # events) last_src = Some (Some d, last_src)"
| "get_in_waiting blocking (Silence usb ble # events) last_src =
     (if blocking \<and> last_src \<noteq> SOURCE_NONE \<and> (last_src = SOURCE_SERIAL \<and> \<not> usb \<or> last_src = SOURCE_BLE \<and> \<not> ble)
      then Some (None, SOURCE_NONE)
      else if blocking then get_in_waiting blocking events last_src
      else Some (None, last_src))"

definition jade_process_get_in_message ::
  "bool \<Rightarrow> wait_event list \<Rightarrow> process_vars \<Rightarrow> (bytes option \<times> process_vars) option run" where
  "jade_process_get_in_message blocking events st =
     (case ps_shared_in st of
        None \<Rightarrow> Undef
      | Some r \<Rightarrow>
          (case ring_items r of
             x # xs \<Rightarrow> Ret (Some (Some x, st\<lparr>ps_shared_in := Some (r\<lparr>ring_items := xs, ring_taken := ring_taken r @ [x]\<rparr>)\<rparr>))
           | [] \<Rightarrow> Ret (map_option (\<lambda>(item, last_src).
               (item, st\<lparr>ps_last_message_source := last_src, ps_shared_in := Some (case item of
                   None \<Rightarrow> r | Some d \<Rightarrow> r\<lparr>ring_taken := ring_taken r @ [d]\<rparr>)\<rparr>))
               (get_in_waiting blocking events (ps_last_message_source st)))))"

definition jade_process_get_out_message ::
  "build_config \<Rightarrow> (bytes \<Rightarrow> bool) option \<Rightarrow> jade_msg_source_t \<Rightarrow> (process_vars, bool) act" where
  "jade_process_get_out_message B writer src st =
     (if \<not> (src = SOURCE_SERIAL \<or> src = SOURCE_INTERNAL \<or> src = SOURCE_BLE \<and> bt_enabled B
            \<or> src = SOURCE_QEMU_TCP \<and> qemu_tcp_enabled B) then Crash
      else case ps_out st src of
        None \<Rightarrow> Crash
      | Some r \<Rightarrow>
          (case ring_items r of
             [] \<Rightarrow> Ret (False, st)
           | x # xs \<Rightarrow> Ret (case writer of None \<Rightarrow> True | Some w \<Rightarrow> w x,
               st\<lparr>ps_out := (ps_out st)(src := Some (r\<lparr>ring_items := xs, ring_taken := ring_taken r @ [x]\<rparr>))\<rparr>)))"

section \<open>The current message\<close>

text \<open>\<^verbatim>\<open>'d\<close> is a clean-up action with its argument. A process without message has no value.\<close>

record 'v cbor_msg_t =
  msg_value :: "'v option"
  msg_cbor :: "bytes option"
  msg_source :: jade_msg_source_t

record ('v, 'd) jade_process_t =
  pr_ctx :: "'v cbor_msg_t"
  pr_on_exit :: "'d list"

definition no_message :: "'v cbor_msg_t" where
  "no_message = \<lparr>msg_value = None, msg_cbor = None, msg_source = SOURCE_NONE\<rparr>"

definition init_jade_process :: "('v, 'd) jade_process_t" where
  "init_jade_process = \<lparr>pr_ctx = no_message, pr_on_exit = []\<rparr>"

definition jade_process_free_current_message :: "('v, 'd) jade_process_t \<Rightarrow> ('v, 'd) jade_process_t" where
  "jade_process_free_current_message p =
     p\<lparr>pr_ctx := (pr_ctx p)\<lparr>msg_cbor := None, msg_source := SOURCE_NONE\<rparr>\<rparr>"

definition jade_process_transfer_current_message ::
  "('v, 'd) jade_process_t \<Rightarrow> ('v, 'd) jade_process_t \<Rightarrow> ('v, 'd) jade_process_t \<times> ('v, 'd) jade_process_t" where
  "jade_process_transfer_current_message p new =
     (let new = jade_process_free_current_message new
      in if msg_cbor (pr_ctx p) \<noteq> None
         then (p\<lparr>pr_ctx := (pr_ctx p)\<lparr>msg_cbor := None, msg_source := SOURCE_NONE\<rparr>\<rparr>, new\<lparr>pr_ctx := pr_ctx p\<rparr>)
         else (p, new))"

definition jade_process_call_on_exit :: "'d \<Rightarrow> ('v, 'd) jade_process_t \<Rightarrow> ('v, 'd) jade_process_t" where
  "jade_process_call_on_exit f p = p\<lparr>pr_on_exit := f # pr_on_exit p\<rparr>"

text \<open>Each action is taken off the list before it is called.\<close>

fun cleanup_deferred_functions :: "('d \<Rightarrow> ('w, unit) act) \<Rightarrow> bool \<Rightarrow> 'd list \<Rightarrow> ('w, unit) act" where
  "cleanup_deferred_functions run_fn call [] w = Ret ((), w)"
| "cleanup_deferred_functions run_fn call (f # fs) w =
     (if call then then_run (run_fn f w) (\<lambda>(_, w). cleanup_deferred_functions run_fn call fs w)
      else cleanup_deferred_functions run_fn call fs w)"

definition cleanup_jade_process ::
  "('d \<Rightarrow> ('w, unit) act) \<Rightarrow> ('v, 'd) jade_process_t \<Rightarrow> ('w, ('v, 'd) jade_process_t) act" where
  "cleanup_jade_process run_fn p =
     andthen (cleanup_deferred_functions run_fn True (pr_on_exit p)) (\<lambda>_.
     give (jade_process_free_current_message (p\<lparr>pr_on_exit := []\<rparr>)))"

text \<open>Reading an item from the queue as the current message, with its source in front.\<close>

definition process_cbor_msg :: "'v cbor_reader \<Rightarrow> bytes \<Rightarrow> 'v cbor_msg_t run" where
  "process_cbor_msg R data =
     jade_assert (length data > 2) (
     let cbor = tl data; (err, value) = cbor_parser_init R cbor
     in jade_assert (\<not> err)
       (Ret \<lparr>msg_value = Some value, msg_cbor = Some cbor, msg_source = byte_source (hd data)\<rparr>))"

definition jade_process_load_in_message ::
  "'v cbor_reader \<Rightarrow> bool \<Rightarrow> wait_event list \<Rightarrow> ('v, 'd) jade_process_t \<Rightarrow> process_vars
    \<Rightarrow> (('v, 'd) jade_process_t \<times> process_vars) option run" where
  "jade_process_load_in_message R blocking events p st =
     (let p = jade_process_free_current_message p
      in then_run (jade_process_get_in_message blocking events st) (\<lambda>r. case r of
           None \<Rightarrow> Ret None
         | Some (None, st) \<Rightarrow> Ret (Some (p, st))
         | Some (Some d, st) \<Rightarrow>
             then_run (process_cbor_msg R d) (\<lambda>ctx.
             Ret (Some (p\<lparr>pr_ctx := ctx\<rparr>, st\<lparr>ps_last_message_source := msg_source ctx\<rparr>)))))"

section \<open>Replies\<close>

definition jade_process_reply_to_message_ex ::
  "build_config \<Rightarrow> rtos \<Rightarrow> jade_msg_source_t \<Rightarrow> bytes \<Rightarrow> (process_vars, unit) act" where
  "jade_process_reply_to_message_ex B F src reply_payload = jade_process_push_out_message B F reply_payload src"

definition result_reply :: "'e cbor_writer \<Rightarrow> bytes \<Rightarrow> nat \<Rightarrow> ('e \<Rightarrow> 'e run) \<Rightarrow> bytes run" where
  "result_reply W ident output_size cb =
     (let root = cbor_encoder_init W output_size
      in then_run (encoded (cbor_encoder_create_map W root 2)) (\<lambda>map_encoder.
         then_run (rpc_init_cbor W map_encoder ident (length (c_string ident))) (\<lambda>map_encoder.
         then_run (cb map_encoder) (\<lambda>map_encoder.
         then_run (encoded (cbor_encoder_close_container W root map_encoder)) (\<lambda>root.
         Ret (cbor_encoder_get_buffer W root))))))"

definition jade_process_reply_to_message_result_with_id ::
  "build_config \<Rightarrow> rtos \<Rightarrow> 'e cbor_writer \<Rightarrow> bytes \<Rightarrow> nat \<Rightarrow> jade_msg_source_t \<Rightarrow> ('e \<Rightarrow> 'e run) \<Rightarrow> (process_vars, unit) act" where
  "jade_process_reply_to_message_result_with_id B F W ident output_size src cb =
     andthen (from_run (result_reply W ident output_size cb)) (\<lambda>payload.
     jade_process_reply_to_message_ex B F src payload)"

definition cbor_result_bytes_cb :: "'e cbor_writer \<Rightarrow> bytes \<Rightarrow> 'e \<Rightarrow> 'e run" where
  "cbor_result_bytes_cb W data container = encoded (cbor_encode_byte_string W container data)"

definition cbor_result_string_cb :: "'e cbor_writer \<Rightarrow> bytes \<Rightarrow> 'e \<Rightarrow> 'e run" where
  "cbor_result_string_cb W str container = encoded (cbor_encode_text_stringz W container str)"

definition cbor_result_boolean_cb :: "'e cbor_writer \<Rightarrow> bool \<Rightarrow> 'e \<Rightarrow> 'e run" where
  "cbor_result_boolean_cb W val container = encoded (cbor_encode_boolean W container val)"

definition cbor_result_uint64_cb :: "'e cbor_writer \<Rightarrow> u64 \<Rightarrow> 'e \<Rightarrow> 'e run" where
  "cbor_result_uint64_cb W val container = encoded (cbor_encode_uint W container val)"

definition jade_process_reply_to_message_result ::
  "build_config \<Rightarrow> rtos \<Rightarrow> 'v cbor_reader \<Rightarrow> 'e cbor_writer \<Rightarrow> 'v cbor_msg_t \<Rightarrow> nat \<Rightarrow> ('e \<Rightarrow> 'e run)
    \<Rightarrow> (process_vars, unit) act" where
  "jade_process_reply_to_message_result B F R W ctx output_size cb =
     andthen (insist (output_size \<noteq> 0)) (\<lambda>_.
     andthen (from_run (rpc_get_id R (msg_value ctx) (MAXLEN_ID + 1))) (\<lambda>ident.
     andthen (insist (length ident \<noteq> 0)) (\<lambda>_.
     jade_process_reply_to_message_result_with_id B F W ident output_size (msg_source ctx) cb)))"

definition jade_process_reply_to_message_ok ::
  "build_config \<Rightarrow> rtos \<Rightarrow> 'v cbor_reader \<Rightarrow> 'e cbor_writer \<Rightarrow> ('v, 'd) jade_process_t \<Rightarrow> (process_vars, unit) act" where
  "jade_process_reply_to_message_ok B F R W p =
     jade_process_reply_to_message_result B F R W (pr_ctx p) 64 (cbor_result_boolean_cb W True)"

definition jade_process_reply_to_message_fail ::
  "build_config \<Rightarrow> rtos \<Rightarrow> 'v cbor_reader \<Rightarrow> 'e cbor_writer \<Rightarrow> ('v, 'd) jade_process_t \<Rightarrow> (process_vars, unit) act" where
  "jade_process_reply_to_message_fail B F R W p =
     jade_process_reply_to_message_result B F R W (pr_ctx p) 64 (cbor_result_boolean_cb W False)"

text \<open>The error message, with the data if they fit and without them otherwise.\<close>

definition reject_payload ::
  "'e cbor_writer \<Rightarrow> bytes \<Rightarrow> int \<Rightarrow> bytes \<Rightarrow> bytes option \<Rightarrow> nat \<Rightarrow> bytes run" where
  "reject_payload W ident code message data buffer_len =
     jade_assert (buffer_len > 0) (
     then_run (cbor_print_error_for W ident code message data buffer_len) (\<lambda>r. case r of
       Some out \<Rightarrow> Ret out
     | None \<Rightarrow>
         then_run (cbor_print_error_for W ident code message None buffer_len) (\<lambda>r. case r of
           Some out \<Rightarrow> Ret out
         | None \<Rightarrow> Crash)))"

definition jade_process_reject_message_with_id ::
  "build_config \<Rightarrow> rtos \<Rightarrow> 'e cbor_writer \<Rightarrow> bytes \<Rightarrow> int \<Rightarrow> bytes \<Rightarrow> bytes option \<Rightarrow> nat \<Rightarrow> jade_msg_source_t
    \<Rightarrow> (process_vars, unit) act" where
  "jade_process_reject_message_with_id B F W ident code message data buffer_len src =
     andthen (from_run (reject_payload W ident code message data buffer_len)) (\<lambda>payload.
     jade_process_push_out_message B F payload src)"

definition jade_process_reject_message_ex ::
  "build_config \<Rightarrow> rtos \<Rightarrow> 'v cbor_reader \<Rightarrow> 'e cbor_writer \<Rightarrow> 'v cbor_msg_t \<Rightarrow> int \<Rightarrow> bytes \<Rightarrow> bytes option \<Rightarrow> nat
    \<Rightarrow> (process_vars, unit) act" where
  "jade_process_reject_message_ex B F R W ctx code message data buffer_len =
     andthen (from_run (rpc_get_id R (msg_value ctx) (MAXLEN_ID + 1))) (\<lambda>ident.
     jade_process_reject_message_with_id B F W (if length ident > 0 then ident else cstr ''00'') code message data
       buffer_len (msg_source ctx))"

definition JADE_MSG_REPLY_LEN :: nat where "JADE_MSG_REPLY_LEN = 256"
definition JADE_MSG_REPLY_OVERHEAD :: nat where "JADE_MSG_REPLY_OVERHEAD = 64"

definition HAS_CURRENT_MESSAGE :: "('v, 'd) jade_process_t \<Rightarrow> bool" where
  "HAS_CURRENT_MESSAGE p \<longleftrightarrow> msg_cbor (pr_ctx p) \<noteq> None \<and> length (the (msg_cbor (pr_ctx p))) \<noteq> 0
     \<and> msg_source (pr_ctx p) \<noteq> SOURCE_NONE"

definition jade_process_reject_message ::
  "build_config \<Rightarrow> rtos \<Rightarrow> 'v cbor_reader \<Rightarrow> 'e cbor_writer \<Rightarrow> ('v, 'd) jade_process_t \<Rightarrow> int \<Rightarrow> bytes
    \<Rightarrow> (process_vars, unit) act" where
  "jade_process_reject_message B F R W p code message =
     (if HAS_CURRENT_MESSAGE p
      then jade_process_reject_message_ex B F R W (pr_ctx p) code message None JADE_MSG_REPLY_LEN
      else give ())"

definition reply_buffer_len :: "nat \<Rightarrow> nat" where
  "reply_buffer_len datalen =
     (if datalen > JADE_MSG_REPLY_LEN - JADE_MSG_REPLY_OVERHEAD then datalen + JADE_MSG_REPLY_OVERHEAD
      else JADE_MSG_REPLY_LEN)"

definition bytes_reply :: "'e cbor_writer \<Rightarrow> nat \<Rightarrow> nat \<Rightarrow> ('e \<Rightarrow> 'e run) \<Rightarrow> bytes \<Rightarrow> bytes run" where
  "bytes_reply W buflen num_fields header data =
     (let root = cbor_encoder_init W buflen
      in then_run (encoded (cbor_encoder_create_map W root num_fields)) (\<lambda>map_encoder.
         then_run (header map_encoder) (\<lambda>map_encoder.
         then_run (encoded (cbor_encode_byte_string W map_encoder data)) (\<lambda>map_encoder.
         then_run (encoded (cbor_encoder_close_container W root map_encoder)) (\<lambda>root.
         Ret (cbor_encoder_get_buffer W root))))))"

definition jade_process_reply_to_message_bytes ::
  "build_config \<Rightarrow> rtos \<Rightarrow> 'v cbor_reader \<Rightarrow> 'e cbor_writer \<Rightarrow> 'v cbor_msg_t \<Rightarrow> bytes \<Rightarrow> (process_vars, unit) act" where
  "jade_process_reply_to_message_bytes B F R W ctx data =
     andthen (from_run (rpc_get_id_ptr R (msg_value ctx))) (\<lambda>(ident, written).
     andthen (insist (written \<noteq> 0)) (\<lambda>_.
     andthen (insist (ident \<noteq> None)) (\<lambda>_.
     andthen (from_run (bytes_reply W (reply_buffer_len (length data)) 2
       (\<lambda>m. rpc_init_cbor W m (the ident) written) data)) (\<lambda>payload.
     jade_process_push_out_message B F payload (msg_source ctx)))))"

definition jade_process_reply_to_message_bytes_sequence ::
  "build_config \<Rightarrow> rtos \<Rightarrow> 'v cbor_reader \<Rightarrow> 'e cbor_writer \<Rightarrow> 'v cbor_msg_t \<Rightarrow> u32 \<Rightarrow> u32 \<Rightarrow> bytes \<Rightarrow> nat
    \<Rightarrow> (process_vars, unit) act" where
  "jade_process_reply_to_message_bytes_sequence B F R W ctx seqnum seqlen data buflen =
     andthen (from_run (rpc_get_id_ptr R (msg_value ctx))) (\<lambda>(ident, written).
     andthen (insist (written \<noteq> 0)) (\<lambda>_.
     andthen (insist (ident \<noteq> None)) (\<lambda>_.
     andthen (from_run (bytes_reply W buflen 4
       (\<lambda>m. rpc_init_cbor_with_sequence W m (the ident) written seqnum seqlen) data)) (\<lambda>payload.
     jade_process_push_out_message B F payload (msg_source ctx)))))"

end
