(* ===== verification/Jade_Wire.thy ===== *)
theory Jade_Wire
  imports Jade_Process Jade_Idle
begin

text \<open>
  \<^verbatim>\<open>src/main/wire.c\<close>: the receive buffer of a connection, from which complete CBOR messages
  are cut. \<^verbatim>\<open>full_data_in\<close> is the source byte and the buffer \<^verbatim>\<open>buf\<close>, whose first
  \<^verbatim>\<open>read_ptr\<close> bytes are waiting. The handlers act on the queues and on the idle timer.
  The answer to \<^verbatim>\<open>get_version_info\<close> is built in \<^verbatim>\<open>dashboard.c\<close> and is a parameter here, as
  is the action of the main task; all ticks read in one call of \<^verbatim>\<open>handle_data\<close> are taken
  to be the same. The debug build's coverage dump is left out.
\<close>

record ('v, 'e) wire_env =
  we_reader :: "'v cbor_reader"
  we_writer :: "'e cbor_writer"
  we_rtos :: rtos
  we_build :: build_config
  we_version_info :: "jade_msg_source_t \<Rightarrow> 'e \<Rightarrow> 'e run"
  we_main_thread_action :: u32
  we_jade_v1 :: bool
  we_tick_ms :: u32

record wire_vars =
  wv_process :: process_vars
  wv_idle :: idle_vars

definition on_process :: "(process_vars, 'a) act \<Rightarrow> (wire_vars, 'a) act" where
  "on_process m st = then_run (m (wv_process st)) (\<lambda>(a, p). Ret (a, st\<lparr>wv_process := p\<rparr>))"

definition register_activity :: "u32 \<Rightarrow> (wire_vars, unit) act" where
  "register_activity now = update (\<lambda>st. st\<lparr>wv_idle := snd (idletimer_register_activity now False (wv_idle st))\<rparr>)"

definition PING :: bytes where "PING = cstr ''ping''"
definition VERINFO :: bytes where "VERINFO = cstr ''get_version_info''"

definition TIMEOUT_TICKS :: "('v, 'e) wire_env \<Rightarrow> u32" where
  "TIMEOUT_TICKS E = (if we_jade_v1 E then 3000 div we_tick_ms E else 2000 div we_tick_ms E)"

text \<open>\<^verbatim>\<open>strncmp\<close> for equality, on pointers: the bytes from there on.\<close>

fun strncmp_equal :: "nat \<Rightarrow> bytes \<Rightarrow> bytes \<Rightarrow> bool run" where
  "strncmp_equal 0 a b = Ret True"
| "strncmp_equal (Suc n) (x # a) (y # b) =
     (if x \<noteq> y then Ret False else if x = 0 then Ret True else strncmp_equal n a b)"
| "strncmp_equal (Suc n) a b = Undef"

text \<open>\<^verbatim>\<open>snprintf\<close> with \<^verbatim>\<open>%u\<close>.\<close>

fun decimal :: "nat \<Rightarrow> bytes" where
  "decimal n = (if n < 10 then [of_nat (48 + n)] else decimal (n div 10) @ [of_nat (48 + n mod 10)])"

declare decimal.simps [simp del]

definition SEND_REJECT_MSG ::
  "('v, 'e) wire_env \<Rightarrow> 'v cbor_msg_t \<Rightarrow> int \<Rightarrow> bytes \<Rightarrow> nat \<Rightarrow> (process_vars, unit) act" where
  "SEND_REJECT_MSG E ctx code msg rejectedlen =
     (let lenstr = decimal rejectedlen
      in andthen (insist (length lenstr > 0 \<and> length lenstr < 8)) (\<lambda>_.
         jade_process_reject_message_ex (we_build E) (we_rtos E) (we_reader E) (we_writer E) ctx code msg
           (Some lenstr) (max_output_msg_size (we_build E))))"

definition matches_method :: "bytes \<Rightarrow> nat \<Rightarrow> bytes \<Rightarrow> bool run" where
  "matches_method method method_len name =
     (if method_len = length name then strncmp_equal method_len method name else Ret False)"

text \<open>The \<^verbatim>\<open>nonblocking\<close> flag of a \<^verbatim>\<open>get_version_info\<close> request.\<close>

definition nonblocking :: "'v cbor_reader \<Rightarrow> 'v \<Rightarrow> bool" where
  "nonblocking R value =
     (case rpc_get_map R (cstr ''params'') value of
        None \<Rightarrow> False
      | Some params \<Rightarrow> rpc_get_boolean R (cstr ''nonblocking'') params = Some True)"

definition handleImmediateMessage :: "('v, 'e) wire_env \<Rightarrow> 'v \<Rightarrow> jade_msg_source_t \<Rightarrow> (process_vars, bool) act" where
  "handleImmediateMessage E value src =
     (let R = we_reader E; W = we_writer E;
          reply = jade_process_reply_to_message_result (we_build E) (we_rtos E) R W
            \<lparr>msg_value = Some value, msg_cbor = None, msg_source = src\<rparr>
      in andthen (from_run (rpc_get_method R value)) (\<lambda>(method, method_len).
         case method of
           None \<Rightarrow> give False
         | Some m \<Rightarrow>
             andthen (from_run (matches_method m method_len PING)) (\<lambda>ping.
             if ping
             then andthen (reply 64 (cbor_result_uint64_cb W (ucast (we_main_thread_action E)))) (\<lambda>_. give True)
             else andthen (from_run (matches_method m method_len VERINFO)) (\<lambda>verinfo.
               if verinfo \<and> nonblocking R value
               then andthen (reply 1024 (we_version_info E src)) (\<lambda>_. give True)
               else give False))))"

section \<open>Cutting messages from the buffer\<close>

text \<open>The length of the message at the start of the data, 0 if it is not complete.\<close>

definition message_length :: "'v cbor_reader \<Rightarrow> bytes \<Rightarrow> nat" where
  "message_length R data =
     (let (err, value) = cbor_parser_init R data
      in if err then 0
         else case cbor_value_advance R value of None \<Rightarrow> 0 | Some v \<Rightarrow> cbor_source_offset R v)"

text \<open>What is done with the message of \<^verbatim>\<open>msg_len\<close> bytes, and whether it counts as activity.\<close>

definition handle_message ::
  "('v, 'e) wire_env \<Rightarrow> jade_msg_source_t \<Rightarrow> bytes \<Rightarrow> nat \<Rightarrow> (process_vars, bool) act" where
  "handle_message E src data msg_len =
     (let value = snd (cbor_parser_init (we_reader E) data);
          ctx = \<lparr>msg_value = Some value, msg_cbor = None, msg_source = src\<rparr>
      in if \<not> rpc_request_valid (we_reader E) (Some value)
         then andthen (SEND_REJECT_MSG E ctx CBOR_RPC_INVALID_REQUEST
                (cstr ''Invalid RPC Request message (malformed)'') msg_len) (\<lambda>_. give False)
         else andthen (handleImmediateMessage E value src) (\<lambda>handled.
           if handled then give True
           else andthen (jade_process_push_in_message (we_rtos E) (source_byte src # take msg_len data)) (\<lambda>pushed.
             if pushed then give True
             else andthen (SEND_REJECT_MSG E ctx CBOR_RPC_INVALID_REQUEST
                    (cstr ''Input message too large to handle'') msg_len) (\<lambda>_. give False))))"

definition process_message ::
  "('v, 'e) wire_env \<Rightarrow> u32 \<Rightarrow> jade_msg_source_t \<Rightarrow> bytes \<Rightarrow> nat \<Rightarrow> (wire_vars, unit) act" where
  "process_message E now src data msg_len =
     andthen (on_process (handle_message E src data msg_len)) (\<lambda>active.
     if active then register_activity now else give ())"

definition reject_incomplete :: "('v, 'e) wire_env \<Rightarrow> jade_msg_source_t \<Rightarrow> bytes \<Rightarrow> (wire_vars, unit) act" where
  "reject_incomplete E src data =
     on_process (SEND_REJECT_MSG E
       \<lparr>msg_value = Some (snd (cbor_parser_init (we_reader E) data)), msg_cbor = None, msg_source = src\<rparr>
       CBOR_RPC_INVALID_REQUEST (cstr ''Invalid RPC Request message'') (length data))"

definition memmove_down :: "nat \<Rightarrow> nat \<Rightarrow> bytes \<Rightarrow> bytes" where
  "memmove_down from n buf = take n (drop from buf) @ drop n buf"

text \<open>
  The loop: the buffer, the bytes waiting in it and the variables at the end. A message
  longer than the bytes waiting would make the remaining length wrap around.
\<close>

function handle_data_loop ::
  "('v, 'e) wire_env \<Rightarrow> u32 \<Rightarrow> jade_msg_source_t \<Rightarrow> bytes \<Rightarrow> nat \<Rightarrow> bool \<Rightarrow> wire_vars
    \<Rightarrow> (bytes \<times> nat \<times> wire_vars) run" where
  "handle_data_loop E now src buf read_ptr reject_if_no_msg st =
     (let data = take read_ptr buf; msg_len = message_length (we_reader E) data
      in if msg_len = 0
         then if \<not> reject_if_no_msg then Ret (buf, read_ptr, st)
              else then_run (reject_incomplete E src data st) (\<lambda>(_, st). Ret (buf, 0, st))
         else case process_message E now src data msg_len st of
           Crash \<Rightarrow> Crash
         | Undef \<Rightarrow> Undef
         | Ret (_, st) \<Rightarrow>
             if msg_len = read_ptr then Ret (buf, 0, st)
             else if msg_len > read_ptr then Undef
             else handle_data_loop E now src (memmove_down msg_len (read_ptr - msg_len) buf) (read_ptr - msg_len) False st)"
  by pat_completeness auto

termination by (relation "measure (\<lambda>(E, now, src, buf, read_ptr, reject_if_no_msg, st). read_ptr)") auto

declare handle_data_loop.simps [simp del]

definition handle_data_impl ::
  "('v, 'e) wire_env \<Rightarrow> u32 \<Rightarrow> jade_msg_source_t \<Rightarrow> bytes \<Rightarrow> nat \<Rightarrow> bool \<Rightarrow> wire_vars
    \<Rightarrow> (bytes \<times> nat \<times> wire_vars) run" where
  "handle_data_impl E now src buf read_ptr reject_if_no_msg st =
     jade_assert (read_ptr \<le> max_input_msg_size (we_build E))
       (handle_data_loop E now src buf read_ptr reject_if_no_msg st)"

definition timed_out :: "('v, 'e) wire_env \<Rightarrow> u32 \<Rightarrow> u32 \<Rightarrow> bool" where
  "timed_out E now last_processing_time \<longleftrightarrow> now > last_processing_time + TIMEOUT_TICKS E"

text \<open>
  The new data lies in the buffer behind the bytes waiting. The result is the buffer, the
  bytes waiting in it, the new last processing time and the variables.
\<close>

definition handle_data ::
  "('v, 'e) wire_env \<Rightarrow> u32 \<Rightarrow> jade_msg_source_t \<Rightarrow> bytes \<Rightarrow> nat \<Rightarrow> nat \<Rightarrow> u32 \<Rightarrow> bool \<Rightarrow> wire_vars
    \<Rightarrow> (bytes \<times> nat \<times> u32 \<times> wire_vars) run" where
  "handle_data E now src buf read_ptr new_data_len last_processing_time force_reject_if_no_msg st =
     jade_assert (read_ptr + new_data_len \<le> max_input_msg_size (we_build E)) (
     jade_assert (now \<ge> last_processing_time) (
     then_run
       (if read_ptr > 0 \<and> timed_out E now last_processing_time
        then then_run (handle_data_impl E now src buf read_ptr True st) (\<lambda>(buf', read_ptr', st).
          jade_assert (read_ptr' = 0) (Ret (memmove_down read_ptr new_data_len buf', read_ptr', st)))
        else Ret (buf, read_ptr, st)) (\<lambda>(buf, read_ptr, st).
     let read_ptr = read_ptr + new_data_len;
         reject_if_no_msg = (force_reject_if_no_msg \<or> read_ptr = max_input_msg_size (we_build E))
     in then_run (handle_data_impl E now src buf read_ptr reject_if_no_msg st) (\<lambda>(buf, read_ptr, st).
        Ret (buf, read_ptr, now, st)))))"

end
