(* ===== verification/Jade_Wire_Props.thy ===== *)
theory Jade_Wire_Props
  imports Jade_Wire
begin

text \<open>
  The receive buffer against a queue of bytes. \<^verbatim>\<open>consume\<close> cuts messages from the front of
  a byte string, with no buffer, no moving of bytes and no read pointer;
  \<^verbatim>\<open>handle_data\<close> is shown to do the same. What is compared is the effect on the queues
  (\<^verbatim>\<open>process_vars\<close>), which does not depend on the idle timer.
\<close>

section \<open>The byte queue\<close>

function consume :: "('v, 'e) wire_env \<Rightarrow> jade_msg_source_t \<Rightarrow> bytes \<Rightarrow> (process_vars, bytes) act" where
  "consume E src data p =
     (let n = message_length (we_reader E) data
      in if n = 0 then Ret (data, p)
         else case handle_message E src data n p of
           Crash \<Rightarrow> Crash
         | Undef \<Rightarrow> Undef
         | Ret (_, p) \<Rightarrow>
             if n = length data then Ret ([], p)
             else if n > length data then Undef
             else consume E src (drop n data) p)"
  by pat_completeness auto

termination by (relation "measure (\<lambda>(E, src, data, p). length data)") auto

declare consume.simps [simp del]

definition discard :: "('v, 'e) wire_env \<Rightarrow> jade_msg_source_t \<Rightarrow> bytes \<Rightarrow> (process_vars, bytes) act" where
  "discard E src data =
     andthen (SEND_REJECT_MSG E
       \<lparr>msg_value = Some (snd (cbor_parser_init (we_reader E) data)), msg_cbor = None, msg_source = src\<rparr>
       CBOR_RPC_INVALID_REQUEST (cstr ''Invalid RPC Request message'') (length data)) (\<lambda>_. give [])"

text \<open>What arriving bytes do to the bytes waiting.\<close>

definition receive ::
  "('v, 'e) wire_env \<Rightarrow> jade_msg_source_t \<Rightarrow> bool \<Rightarrow> bool \<Rightarrow> bytes \<Rightarrow> bytes \<Rightarrow> (process_vars, bytes) act" where
  "receive E src stale reject pending new =
     andthen (if pending \<noteq> [] \<and> stale then discard E src pending else give pending) (\<lambda>pending.
     let data = pending @ new
     in if message_length (we_reader E) data = 0 \<and> (reject \<or> length data = max_input_msg_size (we_build E))
        then discard E src data
        else consume E src data)"

text \<open>The queues at the end of a run of the code.\<close>

definition queue_of :: "(bytes \<times> nat \<times> wire_vars) run \<Rightarrow> (bytes \<times> process_vars) run" where
  "queue_of m = then_run m (\<lambda>(buf, n, st). Ret (take n buf, wv_process st))"

lemma queue_of_simps [simp]: "queue_of (Ret (buf, n, st)) = Ret (take n buf, wv_process st)"
  "queue_of Crash = Crash" "queue_of Undef = Undef"
  by (simp_all add: queue_of_def)

text \<open>TinyCBOR finds no message that is longer than the data.\<close>

definition message_within :: "'v cbor_reader \<Rightarrow> bool" where
  "message_within R \<longleftrightarrow> (\<forall>data. message_length R data \<le> length data)"

section \<open>The loop\<close>

lemma process_message_queue:
  "process_message E now src data n st =
     then_run (handle_message E src data n (wv_process st)) (\<lambda>(active, p).
       Ret ((), st\<lparr>wv_process := p, wv_idle := if active then snd (idletimer_register_activity now False (wv_idle st)) else wv_idle st\<rparr>))"
  by (cases "handle_message E src data n (wv_process st)")
     (auto simp: process_message_def on_process_def andthen_def register_activity_def update_def give_def)

lemma reject_incomplete_queue:
  "reject_incomplete E src data st =
     then_run (discard E src data (wv_process st)) (\<lambda>(_, p). Ret ((), st\<lparr>wv_process := p\<rparr>))"
  by (simp add: reject_incomplete_def discard_def on_process_def andthen_def give_def then_run_assoc split_def)

lemma take_memmove: "n \<le> r \<Longrightarrow> r \<le> length buf \<Longrightarrow> take (r - n) (memmove_down n (r - n) buf) = drop n (take r buf)"
  by (simp add: memmove_down_def drop_take min_def)

lemma length_memmove: "n \<le> r \<Longrightarrow> r \<le> length buf \<Longrightarrow> length (memmove_down n (r - n) buf) = length buf"
  by (simp add: memmove_down_def)

lemma drop_memmove: "n \<le> r \<Longrightarrow> r \<le> length buf \<Longrightarrow> drop r (memmove_down n (r - n) buf) = drop r buf"
  by (simp add: memmove_down_def)

text \<open>The cases of one round.\<close>

lemma loop_cases:
  assumes "n = message_length (we_reader E) (take r buf)"
  shows "n = 0 \<Longrightarrow> \<not> reject \<Longrightarrow> handle_data_loop E now src buf r reject st = Ret (buf, r, st)"
    and "n = 0 \<Longrightarrow> reject \<Longrightarrow> handle_data_loop E now src buf r reject st =
      then_run (reject_incomplete E src (take r buf) st) (\<lambda>(_, st). Ret (buf, 0, st))"
    and "n \<noteq> 0 \<Longrightarrow> process_message E now src (take r buf) n st = Crash \<Longrightarrow> handle_data_loop E now src buf r reject st = Crash"
    and "n \<noteq> 0 \<Longrightarrow> process_message E now src (take r buf) n st = Undef \<Longrightarrow> handle_data_loop E now src buf r reject st = Undef"
    and "n \<noteq> 0 \<Longrightarrow> process_message E now src (take r buf) n st = Ret (u, st') \<Longrightarrow> handle_data_loop E now src buf r reject st =
      (if n = r then Ret (buf, 0, st') else if n > r then Undef
       else handle_data_loop E now src (memmove_down n (r - n) buf) (r - n) False st')"
  using assms by (subst handle_data_loop.simps, simp add: Let_def)+

lemma consume_cases:
  assumes "n = message_length (we_reader E) data"
  shows "n = 0 \<Longrightarrow> consume E src data p = Ret (data, p)"
    and "n \<noteq> 0 \<Longrightarrow> handle_message E src data n p = Crash \<Longrightarrow> consume E src data p = Crash"
    and "n \<noteq> 0 \<Longrightarrow> handle_message E src data n p = Undef \<Longrightarrow> consume E src data p = Undef"
    and "n \<noteq> 0 \<Longrightarrow> handle_message E src data n p = Ret (b, p') \<Longrightarrow> consume E src data p =
      (if n = length data then Ret ([], p') else if n > length data then Undef else consume E src (drop n data) p')"
  using assms by (subst consume.simps, simp add: Let_def)+

lemma discard_empty: "discard E src data p = Ret (d, p') \<Longrightarrow> d = []"
  by (auto simp: discard_def andthen_Ret_iff give_def)

lemma discard_queue:
  "queue_of (then_run (reject_incomplete E src data st) (\<lambda>(_, st). Ret (buf, 0, st))) = discard E src data (wv_process st)"
  by (cases "discard E src data (wv_process st)")
     (auto simp: reject_incomplete_queue queue_of_def dest: discard_empty)

lemma loop_consume:
  assumes "r \<le> length buf"
  shows "queue_of (handle_data_loop E now src buf r reject st) =
    (if message_length (we_reader E) (take r buf) = 0 \<and> reject then discard E src (take r buf) (wv_process st)
     else consume E src (take r buf) (wv_process st))"
  using assms
proof (induction E now src buf r reject st rule: handle_data_loop.induct)
  case (1 E now src buf r reject st)
  let ?data = "take r buf" let ?n = "message_length (we_reader E) ?data"
  note loop = loop_cases [OF refl, of E r buf] and queue = consume_cases [OF refl, of E ?data]
  show ?case
  proof (cases "?n = 0")
    case True
    then show ?thesis by (cases reject) (simp_all add: loop(1,2) queue(1) discard_queue)
  next
    case n: False
    show ?thesis
    proof (cases "handle_message E src ?data ?n (wv_process st)")
      case Crash
      with n show ?thesis by (simp add: loop(3) queue(2) process_message_queue)
    next
      case Undef
      with n show ?thesis by (simp add: loop(4) queue(3) process_message_queue)
    next
      case (Ret a)
      obtain active p where a: "a = (active, p)" by (cases a)
      let ?st = "st\<lparr>wv_process := p, wv_idle := if active then snd (idletimer_register_activity now False (wv_idle st)) else wv_idle st\<rparr>"
      have pm: "process_message E now src ?data ?n st = Ret ((), ?st)" using Ret a by (simp add: process_message_queue)
      have l: "length ?data = r" using 1(2) by simp
      show ?thesis
      proof (cases "?n < r")
        case True
        from 1(1) [OF refl refl n pm refl] True 1(2) have
          "queue_of (handle_data_loop E now src (memmove_down ?n (r - ?n) buf) (r - ?n) False ?st) =
            consume E src (drop ?n ?data) p" by (simp add: take_memmove length_memmove)
        with True n Ret a l show ?thesis by (simp add: loop(5) [OF n pm] queue(4) [OF n Ret [unfolded a]])
      next
        case False
        with n Ret a l show ?thesis by (simp add: loop(5) [OF n pm] queue(4) [OF n Ret [unfolded a]])
      qed
    qed
  qed
qed

text \<open>What the loop leaves: the bytes behind \<^verbatim>\<open>read_ptr\<close> in place, and no complete message.\<close>

lemma loop_leaves:
  assumes "handle_data_loop E now src buf r reject st = Ret (buf', r', st')" and "r \<le> length buf"
    and "message_within (we_reader E)"
  shows "length buf' = length buf \<and> drop r buf' = drop r buf \<and> r' \<le> r
    \<and> message_length (we_reader E) (take r' buf') = 0
    \<and> (reject \<and> message_length (we_reader E) (take r buf) = 0 \<longrightarrow> r' = 0)"
  using assms
proof (induction E now src buf r reject st rule: handle_data_loop.induct)
  case (1 E now src buf r reject st)
  let ?data = "take r buf" let ?n = "message_length (we_reader E) ?data"
  have empty: "message_length (we_reader E) [] = 0" using 1(4) by (simp add: message_within_def) (metis le_zero_eq list.size(3))
  note loop = loop_cases [OF refl, of E r buf]
  show ?case
  proof (cases "?n = 0")
    case True
    show ?thesis
    proof (cases reject)
      case True
      with \<open>?n = 0\<close> 1(2) empty show ?thesis by (auto simp: loop(2) run_simps)
    next
      case False
      with \<open>?n = 0\<close> 1(2) empty show ?thesis by (auto simp: loop(1))
    qed
  next
    case n: False
    obtain st1 where pm: "process_message E now src ?data ?n st = Ret ((), st1)"
      using 1(2) loop(3,4) [OF n, of now src st] by (cases "process_message E now src ?data ?n st") auto
    note this_round = loop(5) [OF n pm, of reject]
    have w: "?n \<le> r" using 1(3,4) by (simp add: message_within_def) (metis (no_types) dual_order.trans length_take min.cobounded2)
    show ?thesis
    proof (cases "?n < r")
      case True
      from True 1(2) this_round have rest: "handle_data_loop E now src (memmove_down ?n (r - ?n) buf) (r - ?n) False st1 = Ret (buf', r', st')"
        by simp
      have "length (memmove_down ?n (r - ?n) buf) = length buf" using True 1(3) by (simp add: length_memmove)
      with 1(1) [OF refl refl n pm refl _ _ rest] True 1(3,4) have
        ih: "length buf' = length buf" "drop (r - ?n) buf' = drop (r - ?n) (memmove_down ?n (r - ?n) buf)" "r' \<le> r - ?n"
        "message_length (we_reader E) (take r' buf') = 0" by auto
      have "drop r buf' = drop ?n (drop (r - ?n) buf')" using True by (simp add: add.commute)
      also have "\<dots> = drop r buf" using True 1(3) ih(2) by (simp add: memmove_down_def)
      finally show ?thesis using ih n by simp
    next
      case False
      with w have "?n = r" by simp
      with 1(2) this_round n empty show ?thesis by auto
    qed
  qed
qed

section \<open>One call\<close>

lemma handle_data_impl_queue:
  "r \<le> length buf \<Longrightarrow> length buf = max_input_msg_size (we_build E) \<Longrightarrow>
     handle_data_impl E now src buf r reject st = handle_data_loop E now src buf r reject st"
  by (simp add: handle_data_impl_def jade_assert_def)

lemma receive_fresh:
  assumes "\<not> (pending \<noteq> [] \<and> stale)"
  shows "receive E src stale reject pending new p =
    (if message_length (we_reader E) (pending @ new) = 0
        \<and> (reject \<or> length (pending @ new) = max_input_msg_size (we_build E))
     then discard E src (pending @ new) p else consume E src (pending @ new) p)"
  using assms by (auto simp: receive_def Let_def)

lemma receive_not_stale: "pending = [] \<or> \<not> stale \<Longrightarrow>
  receive E src stale reject pending new p = receive E src False reject pending new p"
  by (elim disjE) (simp_all add: receive_def)

lemma receive_stale:
  "pending \<noteq> [] \<Longrightarrow> receive E src True reject pending new p =
     then_run (discard E src pending p) (\<lambda>(_, p). receive E src False reject [] new p)"
  by (auto simp: receive_def andthen_def discard_def give_def then_run_def Let_def split: run.splits prod.splits)

lemma take_append_drop_new: "r + n \<le> length buf \<Longrightarrow> take (r + n) buf = take r buf @ take n (drop r buf)"
  by (simp add: take_add)

text \<open>The end of the call, once stale bytes are gone.\<close>

lemma append_and_parse:
  assumes "length buf = max_input_msg_size (we_build E)" and "r + n \<le> length buf"
  shows "queue_of (handle_data_impl E now src buf (r + n) (force \<or> r + n = max_input_msg_size (we_build E)) st) =
    receive E src False force (take r buf) (take n (drop r buf)) (wv_process st)"
  using assms by (simp add: handle_data_impl_queue loop_consume receive_fresh take_append_drop_new [symmetric])

section \<open>Messages in pieces\<close>

text \<open>
  What the code asks about a request: whether it is one, its id, its method and its
  \<^verbatim>\<open>nonblocking\<close> flag. A complete CBOR value is not changed by bytes that follow it: the
  parser finds the same length, and the answers are the same.
\<close>

definition method_text :: "'v cbor_reader \<Rightarrow> 'v \<Rightarrow> (bytes option \<times> nat) run" where
  "method_text R v = then_run (rpc_get_method R v) (\<lambda>(m, n). Ret (map_option (take n) m, n))"

definition same_request :: "'v cbor_reader \<Rightarrow> 'v \<Rightarrow> 'v \<Rightarrow> bool" where
  "same_request R v w \<longleftrightarrow>
     rpc_request_valid R (Some v) = rpc_request_valid R (Some w)
     \<and> rpc_get_id R (Some v) (MAXLEN_ID + 1) = rpc_get_id R (Some w) (MAXLEN_ID + 1)
     \<and> method_text R v = method_text R w
     \<and> nonblocking R v = nonblocking R w"

definition self_delimiting :: "'v cbor_reader \<Rightarrow> bool" where
  "self_delimiting R \<longleftrightarrow>
     (\<forall>data tail_bytes. message_length R data \<noteq> 0 \<longrightarrow>
        message_length R (data @ tail_bytes) = message_length R data
        \<and> same_request R (snd (cbor_parser_init R data)) (snd (cbor_parser_init R (data @ tail_bytes))))"

lemma strncmp_take: "strncmp_equal n (take n a) b = strncmp_equal n a b"
  by (induction n a b rule: strncmp_equal.induct) (auto simp: take_Suc split: list.split)

lemma matches_take: "matches_method (take n m) n name = matches_method m n name"
  by (simp add: matches_method_def strncmp_take)

lemma reply_same:
  assumes "same_request R v w"
  shows "jade_process_reply_to_message_result B F R W \<lparr>msg_value = Some v, msg_cbor = None, msg_source = src\<rparr> room cb
    = jade_process_reply_to_message_result B F R W \<lparr>msg_value = Some w, msg_cbor = None, msg_source = src\<rparr> room cb"
  using assms by (simp add: jade_process_reply_to_message_result_def same_request_def)

lemma reject_same:
  assumes "same_request (we_reader E) v w"
  shows "SEND_REJECT_MSG E \<lparr>msg_value = Some v, msg_cbor = None, msg_source = src\<rparr> code msg n
    = SEND_REJECT_MSG E \<lparr>msg_value = Some w, msg_cbor = None, msg_source = src\<rparr> code msg n"
  using assms by (simp add: SEND_REJECT_MSG_def jade_process_reject_message_ex_def same_request_def)

text \<open>The handler sees the method only through its text.\<close>

lemma handle_immediate_text:
  "handleImmediateMessage E value src =
    (let R = we_reader E; W = we_writer E;
         reply = jade_process_reply_to_message_result (we_build E) (we_rtos E) R W
           \<lparr>msg_value = Some value, msg_cbor = None, msg_source = src\<rparr>
     in andthen (from_run (method_text R value)) (\<lambda>(method, method_len).
        case method of
          None \<Rightarrow> give False
        | Some m \<Rightarrow>
            andthen (from_run (matches_method m method_len PING)) (\<lambda>ping.
            if ping
            then andthen (reply 64 (cbor_result_uint64_cb W (ucast (we_main_thread_action E)))) (\<lambda>_. give True)
            else andthen (from_run (matches_method m method_len VERINFO)) (\<lambda>verinfo.
              if verinfo \<and> nonblocking R value
              then andthen (reply 1024 (we_version_info E src)) (\<lambda>_. give True)
              else give False))))"
  unfolding handleImmediateMessage_def Let_def method_text_def
  by (rule ext, cases "rpc_get_method (we_reader E) value")
     (auto simp: andthen_def from_run_def matches_take cong: if_cong split: option.splits)

lemma handle_immediate_same:
  assumes "same_request (we_reader E) v w"
  shows "handleImmediateMessage E v src = handleImmediateMessage E w src"
proof -
  from assms have same: "method_text (we_reader E) v = method_text (we_reader E) w" "nonblocking (we_reader E) v = nonblocking (we_reader E) w"
    by (simp_all add: same_request_def)
  show ?thesis unfolding handle_immediate_text Let_def reply_same [OF assms] same ..
qed

lemma handle_message_append:
  assumes "self_delimiting (we_reader E)" and "message_length (we_reader E) data = n" and "n \<noteq> 0" and "n \<le> length data"
  shows "handle_message E src (data @ tail_bytes) n = handle_message E src data n"
proof -
  let ?v = "\<lambda>d. snd (cbor_parser_init (we_reader E) d)"
  have same: "same_request (we_reader E) (?v data) (?v (data @ tail_bytes))" using assms(1-3) by (auto simp: self_delimiting_def)
  then have "rpc_request_valid (we_reader E) (Some (?v (data @ tail_bytes))) = rpc_request_valid (we_reader E) (Some (?v data))"
    by (simp add: same_request_def)
  moreover have "take n (data @ tail_bytes) = take n data" using assms(4) by simp
  ultimately show ?thesis
    by (simp only: handle_message_def Let_def handle_immediate_same [OF same] reject_same [OF same])
qed

lemma consume_append:
  assumes "self_delimiting (we_reader E)" and "message_within (we_reader E)"
  shows "consume E src (xs @ ys) p = then_run (consume E src xs p) (\<lambda>(rest, p). consume E src (rest @ ys) p)"
  using assms
proof (induction E src xs p rule: consume.induct)
  case (1 E src xs p)
  let ?n = "message_length (we_reader E) xs"
  note whole = consume_cases [OF refl, of E "xs @ ys"] and front = consume_cases [OF refl, of E xs]
  show ?case
  proof (cases "?n = 0")
    case True
    then show ?thesis by (simp add: front(1))
  next
    case n: False
    have le: "?n \<le> length xs" using 1(3) by (simp add: message_within_def)
    have N: "message_length (we_reader E) (xs @ ys) = ?n" using 1(2) n by (simp add: self_delimiting_def)
    have m: "handle_message E src (xs @ ys) ?n p = handle_message E src xs ?n p"
      using handle_message_append [OF 1(2) refl n le] by simp
    show ?thesis
    proof (cases "handle_message E src xs ?n p")
      case (Ret a)
      obtain b p' where a: "a = (b, p')" by (cases a)
      have front': "consume E src xs p = (if ?n = length xs then Ret ([], p') else consume E src (drop ?n xs) p')"
        using front(4) [OF n Ret [unfolded a]] le by simp
      have whole': "consume E src (xs @ ys) p =
        (if ?n = length xs + length ys then Ret ([], p') else consume E src (drop ?n xs @ ys) p')"
        using whole(4) [unfolded N, OF n, of src p b p'] Ret a m le by simp
      show ?thesis
      proof (cases "?n = length xs")
        case True
        have "message_length (we_reader E) [] = 0" using 1(3) by (simp add: message_within_def) (metis le_zero_eq list.size(3))
        then have "consume E src [] p' = Ret ([], p')" by (simp add: consume_cases(1))
        with True show ?thesis by (simp add: front' whole')
      next
        case False
        with le have "?n < length xs" by simp
        with 1(1) [OF refl n Ret a [symmetric] False _ 1(2,3)] False show ?thesis by (simp add: front' whole')
      qed
    qed (use n m in \<open>simp_all add: front(2,3) whole(2,3) [unfolded N]\<close>)
  qed
qed

text \<open>
  A connection: chunks arrive at given times, each written behind the bytes waiting, as the
  tasks that read from the serial port and from Bluetooth do.
\<close>

fun feed ::
  "('v, 'e) wire_env \<Rightarrow> jade_msg_source_t \<Rightarrow> (u32 \<times> bytes) list \<Rightarrow> bytes \<Rightarrow> nat \<Rightarrow> u32 \<Rightarrow> wire_vars
    \<Rightarrow> (bytes \<times> nat \<times> u32 \<times> wire_vars) run" where
  "feed E src [] buf r last_time st = Ret (buf, r, last_time, st)"
| "feed E src ((now, d) # chunks) buf r last_time st =
     then_run (handle_data E now src (take r buf @ d @ drop (r + length d) buf) r (length d) last_time False st)
       (\<lambda>(buf, r, last_time, st). feed E src chunks buf r last_time st)"

text \<open>The bytes left when all complete messages are cut from the front.\<close>

function leftover :: "'v cbor_reader \<Rightarrow> bytes \<Rightarrow> bytes" where
  "leftover R data =
     (let n = message_length R data
      in if n = 0 then data else if n < length data then leftover R (drop n data) else [])"
  by pat_completeness auto

termination by (relation "measure (\<lambda>(R, data). length data)") auto

declare leftover.simps [simp del]

lemma consume_leftover:
  assumes "consume E src data p = Ret (rest, p')"
  shows "rest = leftover (we_reader E) data"
  using assms
proof (induction E src data p rule: consume.induct)
  case (1 E src data p)
  let ?n = "message_length (we_reader E) data"
  note front = consume_cases [OF refl, of E data] and left = leftover.simps [of "we_reader E" data]
  show ?case
  proof (cases "?n = 0")
    case True
    with 1(2) show ?thesis unfolding left by (simp add: front(1))
  next
    case n: False
    then obtain b q where m: "handle_message E src data ?n p = Ret (b, q)"
      using 1(2) front(2,3) [OF n, of src p] by (cases "handle_message E src data ?n p") auto
    note this_round = front(4) [OF n m]
    consider "?n = length data" | "?n < length data" using 1(2) this_round by (auto split: if_splits)
    then show ?thesis
    proof cases
      case 1
      with \<open>consume E src data p = Ret (rest, p')\<close> n this_round show ?thesis unfolding left by simp
    next
      case 2
      with 1(2) this_round have "consume E src (drop ?n data) q = Ret (rest, p')" by simp
      from 1(1) [OF refl n m refl _ _ this] 2 n show ?thesis unfolding left by simp
    qed
  qed
qed

lemma leftover_none:
  assumes "message_within R"
  shows "message_length R (leftover R data) = 0"
  using assms
proof (induction R data rule: leftover.induct)
  case (1 R data)
  from 1(2) have "message_length R [] \<le> length ([] :: bytes)" unfolding message_within_def by blast
  with 1 show ?case by (simp add: leftover.simps [of R data] Let_def)
qed

text \<open>
  A connection where no bytes are lost: time does not run back, no chunk finds bytes waiting
  that have timed out, and no chunk overruns the buffer, or fills it with no complete message
  at its front.
\<close>

fun in_time :: "('v, 'e) wire_env \<Rightarrow> bytes \<Rightarrow> u32 \<Rightarrow> (u32 \<times> bytes) list \<Rightarrow> bool" where
  "in_time E waiting last_time [] \<longleftrightarrow> True"
| "in_time E waiting last_time ((now, d) # chunks) \<longleftrightarrow>
     last_time \<le> now \<and> (waiting = [] \<or> \<not> timed_out E now last_time)
     \<and> (let data = waiting @ d
        in (length data < max_input_msg_size (we_build E)
            \<or> length data = max_input_msg_size (we_build E) \<and> message_length (we_reader E) data \<noteq> 0)
          \<and> in_time E (leftover (we_reader E) data) now chunks)"

end
