(* ===== verification/Jade_Requests.thy ===== *)
theory Jade_Requests
  imports Jade_Wire_Props
begin

text \<open>
  Replies and requests: that the buffers of the fixed-size replies are large enough, and
  what the handler of a request does with every valid one. TinyCBOR's side is stated as
  \<^verbatim>\<open>writer_laws\<close> and \<^verbatim>\<open>text_field\<close>.
\<close>

section \<open>What TinyCBOR documents of its encoder\<close>

text \<open>The bytes of the head of an item, which holds a number.\<close>

definition head_len :: "nat \<Rightarrow> nat" where
  "head_len n = (if n < 24 then 1 else if n < 2 ^ 8 then 2 else if n < 2 ^ 16 then 3 else if n < 2 ^ 32 then 5 else 9)"

lemma head_len_le: "head_len n \<le> 9" "n < 24 \<Longrightarrow> head_len n = 1" "n < 2 ^ 8 \<Longrightarrow> head_len n \<le> 2" "n < 2 ^ 32 \<Longrightarrow> head_len n \<le> 5"
  "n < 2 ^ 16 \<Longrightarrow> head_len n \<le> 3"
  by (auto simp: head_len_def)

text \<open>
  The room left in the buffer of an encoder, and the items left in its container. An item
  is written if there is room for it and the container expects one; a container is closed
  if it is complete. \<^verbatim>\<open>whole\<close> is the size of the buffer.
\<close>

record 'e writer_view =
  room :: "'e \<Rightarrow> nat"
  left :: "'e \<Rightarrow> nat"
  whole :: "'e \<Rightarrow> nat"

definition writes :: "'e writer_view \<Rightarrow> ('e \<Rightarrow> 'e option) \<Rightarrow> nat \<Rightarrow> bool" where
  "writes V encode n \<longleftrightarrow>
     (\<forall>e. n \<le> room V e \<longrightarrow> 0 < left V e \<longrightarrow>
        (\<exists>e'. encode e = Some e' \<and> room V e' = room V e - n \<and> left V e' = left V e - 1 \<and> whole V e' = whole V e))"

definition writer_laws :: "'e cbor_writer \<Rightarrow> 'e writer_view \<Rightarrow> bool" where
  "writer_laws W V \<longleftrightarrow>
     (\<forall>n. room V (cbor_encoder_init W n) = n \<and> left V (cbor_encoder_init W n) = 1 \<and> whole V (cbor_encoder_init W n) = n)
     \<and> (\<forall>str. writes V (\<lambda>e. cbor_encode_text_string W e str) (head_len (length str) + length str))
     \<and> (\<forall>d. writes V (\<lambda>e. cbor_encode_byte_string W e d) (head_len (length d) + length d))
     \<and> (\<forall>v. writes V (\<lambda>e. cbor_encode_uint W e v) (head_len (unat v)))
     \<and> (\<forall>v. writes V (\<lambda>e. cbor_encode_int W e v) (head_len (if sint v < 0 then nat (- 1 - sint v) else nat (sint v))))
     \<and> (\<forall>b. writes V (\<lambda>e. cbor_encode_boolean W e b) 1)
     \<and> (\<forall>e k. head_len k \<le> room V e \<longrightarrow> 0 < left V e \<longrightarrow>
          (\<exists>s. cbor_encoder_create_map W e k = Some s \<and> room V s = room V e - head_len k \<and> left V s = 2 * k \<and> whole V s = whole V e))
     \<and> (\<forall>e s. left V s = 0 \<longrightarrow> 0 < left V e \<longrightarrow> whole V s = whole V e \<longrightarrow>
          (\<exists>e'. cbor_encoder_close_container W e s = Some e' \<and> room V e' = room V s \<and> left V e' = left V e - 1 \<and> whole V e' = whole V e))
     \<and> (\<forall>e. length (cbor_encoder_get_buffer W e) \<le> whole V e)"

lemma writer_lawsD:
  assumes "writer_laws W V"
  shows "room V (cbor_encoder_init W n) = n" "left V (cbor_encoder_init W n) = 1" "whole V (cbor_encoder_init W n) = n"
    "writes V (\<lambda>e. cbor_encode_text_string W e str) (head_len (length str) + length str)"
    "writes V (\<lambda>e. cbor_encode_byte_string W e str) (head_len (length str) + length str)"
    "writes V (\<lambda>e. cbor_encode_uint W e v) (head_len (unat v))"
    "writes V (\<lambda>e. cbor_encode_int W e v) (head_len (if sint v < 0 then nat (- 1 - sint v) else nat (sint v)))"
    "writes V (\<lambda>e. cbor_encode_boolean W e b) 1"
    "head_len k \<le> room V e \<Longrightarrow> 0 < left V e \<Longrightarrow>
      \<exists>s. cbor_encoder_create_map W e k = Some s \<and> room V s = room V e - head_len k \<and> left V s = 2 * k \<and> whole V s = whole V e"
    "left V s = 0 \<Longrightarrow> 0 < left V e \<Longrightarrow> whole V s = whole V e \<Longrightarrow>
      \<exists>e'. cbor_encoder_close_container W e s = Some e' \<and> room V e' = room V s \<and> left V e' = left V e - 1 \<and> whole V e' = whole V e"
    "length (cbor_encoder_get_buffer W e) \<le> whole V e"
  using assms unfolding writer_laws_def by blast+

text \<open>A step that surely writes at most so many bytes and so many items.\<close>

definition puts :: "'e writer_view \<Rightarrow> ('e \<Rightarrow> 'e run) \<Rightarrow> nat \<Rightarrow> nat \<Rightarrow> bool" where
  "puts V step n k \<longleftrightarrow>
     (\<forall>e. n \<le> room V e \<longrightarrow> k \<le> left V e \<longrightarrow>
        (\<exists>e'. step e = Ret e' \<and> room V e - n \<le> room V e' \<and> left V e' = left V e - k \<and> whole V e' = whole V e))"

lemma putsD: "puts V step n k \<Longrightarrow> n \<le> room V e \<Longrightarrow> k \<le> left V e \<Longrightarrow>
  \<exists>e'. step e = Ret e' \<and> room V e - n \<le> room V e' \<and> left V e' = left V e - k \<and> whole V e' = whole V e"
  by (simp add: puts_def)

lemma puts_writes:
  assumes "writes V encode m" and "m \<le> n"
  shows "puts V (\<lambda>e. encoded (encode e)) n 1"
  unfolding puts_def
proof (intro allI impI)
  fix e
  assume "n \<le> room V e" and "1 \<le> left V e"
  with assms obtain e' where "encode e = Some e'" "room V e' = room V e - m" "left V e' = left V e - 1" "whole V e' = whole V e"
    unfolding writes_def by (metis One_nat_def Suc_le_eq le_trans)
  with assms(2) show "\<exists>e'. encoded (encode e) = Ret e' \<and> room V e - n \<le> room V e' \<and> left V e' = left V e - 1 \<and> whole V e' = whole V e"
    by (auto simp: encoded_def)
qed

lemma puts_then: "puts V f m j \<Longrightarrow> puts V g n k \<Longrightarrow> puts V (\<lambda>e. then_run (f e) g) (m + n) (j + k)"
  unfolding puts_def
proof (intro allI impI)
  fix e
  assume f: "\<forall>e. m \<le> room V e \<longrightarrow> j \<le> left V e \<longrightarrow>
      (\<exists>e'. f e = Ret e' \<and> room V e - m \<le> room V e' \<and> left V e' = left V e - j \<and> whole V e' = whole V e)"
    and g: "\<forall>e. n \<le> room V e \<longrightarrow> k \<le> left V e \<longrightarrow>
      (\<exists>e'. g e = Ret e' \<and> room V e - n \<le> room V e' \<and> left V e' = left V e - k \<and> whole V e' = whole V e)"
    and room: "m + n \<le> room V e" and left: "j + k \<le> left V e"
  from f room left obtain e1 where e1: "f e = Ret e1" "room V e - m \<le> room V e1" "left V e1 = left V e - j" "whole V e1 = whole V e"
    by (metis add_leD1)
  with room left have "n \<le> room V e1" "k \<le> left V e1" by linarith+
  with g obtain e2 where "g e1 = Ret e2" "room V e1 - n \<le> room V e2" "left V e2 = left V e1 - k" "whole V e2 = whole V e1"
    by blast
  with e1 show "\<exists>e'. then_run (f e) g = Ret e' \<and> room V e - (m + n) \<le> room V e' \<and> left V e' = left V e - (j + k)
      \<and> whole V e' = whole V e"
    by auto
qed

lemma puts_weaken: "puts V f m k \<Longrightarrow> m \<le> n \<Longrightarrow> puts V f n k"
  unfolding puts_def by (meson diff_le_mono2 le_trans)

lemma puts_text:
  assumes "writer_laws W V" and "length (c_string str) \<le> l" and "head_len l + l \<le> n"
  shows "puts V (\<lambda>e. encoded (cbor_encode_text_stringz W e str)) n 1"
proof -
  have "head_len (length (c_string str)) \<le> head_len l" using assms(2) by (auto simp: head_len_def)
  with assms(2,3) have "head_len (length (c_string str)) + length (c_string str) \<le> n" by linarith
  from puts_writes [OF writer_lawsD(4) [OF assms(1)] this] show ?thesis by (simp only: cbor_encode_text_stringz_def)
qed

lemma puts_sized:
  assumes "writer_laws W V" and "len \<noteq> 0" and "len \<le> length str" and "len < 24" and "c_string name = name" and "length name < 24"
  shows "puts V (\<lambda>e. add_string_sized_to_map W e name str len) (2 + length name + len) 2"
proof -
  have n: "puts V (\<lambda>e. encoded (cbor_encode_text_stringz W e name)) (1 + length name) 1"
    using assms by (intro puts_text [of W V name "length name"]) (simp_all add: head_len_le)
  have "head_len (length (take len str)) + length (take len str) \<le> 1 + len" using assms(3,4) by (simp add: head_len_le)
  from puts_writes [OF writer_lawsD(4) [OF assms(1)] this]
  have s: "puts V (\<lambda>e. encoded (cbor_encode_text_string W e (take len str))) (1 + len) 1" .
  from puts_then [OF n s] show ?thesis
    using assms(2,3) by (simp add: add_string_sized_to_map_def jade_assert_def add.commute add.left_commute numeral_2_eq_2)
qed

lemma c_string_cstr [simp]: "0 \<notin> set bs \<Longrightarrow> c_string bs = bs"
  by (auto simp: c_string_def takeWhile_eq_all_conv)

lemmas rpc_tags = CBOR_RPC_TAG_METHOD_def CBOR_RPC_TAG_ID_def CBOR_RPC_TAG_RESULT_def CBOR_RPC_TAG_ERROR_def
  CBOR_RPC_TAG_CODE_def CBOR_RPC_TAG_MESSAGE_def CBOR_RPC_TAG_DATA_def CBOR_RPC_TAG_SEQNUM_def CBOR_RPC_TAG_SEQLEN_def

lemma rpc_tag_texts:
  "c_string CBOR_RPC_TAG_ID = CBOR_RPC_TAG_ID" "length CBOR_RPC_TAG_ID = 2"
  "c_string CBOR_RPC_TAG_RESULT = CBOR_RPC_TAG_RESULT" "length CBOR_RPC_TAG_RESULT = 6"
  "c_string CBOR_RPC_TAG_ERROR = CBOR_RPC_TAG_ERROR" "length CBOR_RPC_TAG_ERROR = 5"
  "c_string CBOR_RPC_TAG_CODE = CBOR_RPC_TAG_CODE" "length CBOR_RPC_TAG_CODE = 4"
  "c_string CBOR_RPC_TAG_MESSAGE = CBOR_RPC_TAG_MESSAGE" "length CBOR_RPC_TAG_MESSAGE = 7"
  "c_string CBOR_RPC_TAG_DATA = CBOR_RPC_TAG_DATA" "length CBOR_RPC_TAG_DATA = 4"
  by (simp_all add: rpc_tags cstr_def char_byte_def)

lemma puts_tag: "writer_laws W V \<Longrightarrow> c_string name = name \<Longrightarrow> length name < 24 \<Longrightarrow>
    puts V (\<lambda>e. encoded (cbor_encode_text_stringz W e name)) (1 + length name) 1"
  using puts_text [of W V name "length name" "1 + length name"] by (simp add: head_len_le)

section \<open>The fixed-size replies fit\<close>

lemma map_fits:
  assumes "writer_laws W V" and "puts V body n 4" and "n < len"
  shows "\<exists>out. then_run (encoded (cbor_encoder_create_map W (cbor_encoder_init W len) 2)) (\<lambda>m.
    then_run (body m) (\<lambda>m. then_run (encoded (cbor_encoder_close_container W (cbor_encoder_init W len) m))
      (\<lambda>root. Ret (cbor_encoder_get_buffer W root)))) = Ret out \<and> length out \<le> len"
proof -
  let ?root = "cbor_encoder_init W len"
  note r = writer_lawsD(1-3) [OF assms(1), of len]
  obtain s where s: "cbor_encoder_create_map W ?root 2 = Some s" "room V s = len - 1" "left V s = 4" "whole V s = len"
    using writer_lawsD(9) [OF assms(1), of 2 ?root] r assms(3) by (auto simp: head_len_def)
  have "n \<le> room V s" "4 \<le> left V s" using s assms(3) by simp_all
  from putsD [OF assms(2) this] obtain m where m: "body s = Ret m" "left V m = left V s - 4" "whole V m = whole V s" by blast
  then have "left V m = 0" "0 < left V ?root" "whole V m = whole V ?root" using s(3,4) r by simp_all
  from writer_lawsD(10) [OF assms(1) this] r obtain e where
    e: "cbor_encoder_close_container W ?root m = Some e" "whole V e = len" by auto
  have "length (cbor_encoder_get_buffer W e) \<le> whole V e" by (rule writer_lawsD(11) [OF assms(1)])
  with e m s show ?thesis by (simp add: encoded_def)
qed

lemma puts_init:
  assumes "writer_laws W V" and "l \<noteq> 0" and "l \<le> length ident" and "l \<le> MAXLEN_ID"
  shows "puts V (\<lambda>e. rpc_init_cbor W e ident l) 27 3"
proof -
  have idp: "puts V (\<lambda>e. add_string_sized_to_map W e CBOR_RPC_TAG_ID ident l) (4 + l) 2"
    using puts_sized [OF assms(1-3) _ rpc_tag_texts(1)] assms(4) by (simp add: rpc_tag_texts MAXLEN_ID_def)
  have res: "puts V (\<lambda>e. encoded (cbor_encode_text_stringz W e CBOR_RPC_TAG_RESULT)) 7 1"
    using puts_tag [OF assms(1) rpc_tag_texts(3)] by (simp add: rpc_tag_texts)
  from puts_weaken [OF puts_then [OF idp res], of 27] assms(2,4) show ?thesis
    by (simp add: rpc_init_cbor_def jade_assert_def MAXLEN_ID_def)
qed

lemma reply_result_fits:
  assumes "writer_laws W V" and "c_string ident \<noteq> []" and "length (c_string ident) \<le> MAXLEN_ID"
    and "puts V cb n 1" and "28 + n \<le> len"
  shows "\<exists>out. result_reply W ident len cb = Ret out \<and> length out \<le> len"
proof -
  have l: "length (c_string ident) \<noteq> 0" "length (c_string ident) \<le> length ident"
    using assms(2) by (auto simp: c_string_def length_takeWhile_le)
  have p: "puts V (\<lambda>e. then_run (rpc_init_cbor W e ident (length (c_string ident))) cb) (27 + n) 4"
    using puts_then [OF puts_init [OF assms(1) l assms(3)] assms(4)] by (simp add: eval_nat_numeral)
  have "27 + n < len" using assms(5) by simp
  from map_fits [OF assms(1) p this] show ?thesis unfolding result_reply_def Let_def then_run_assoc .
qed

lemma bytes_reply_fits:
  assumes "writer_laws W V" and "l \<noteq> 0" and "l \<le> length ident" and "l \<le> MAXLEN_ID" and "37 + length d \<le> len"
  shows "\<exists>out. bytes_reply W len 2 (\<lambda>m. rpc_init_cbor W m ident l) d = Ret out \<and> length out \<le> len"
proof -
  have b: "puts V (\<lambda>e. encoded (cbor_encode_byte_string W e d)) (9 + length d) 1"
    by (rule puts_writes [OF writer_lawsD(5) [OF assms(1)]]) (simp add: head_len_le)
  have p: "puts V (\<lambda>e. then_run (rpc_init_cbor W e ident l) (\<lambda>e. encoded (cbor_encode_byte_string W e d))) (27 + (9 + length d)) 4"
    using puts_then [OF puts_init [OF assms(1-4)] b] by (simp add: eval_nat_numeral)
  have "27 + (9 + length d) < len" using assms(5) by simp
  from map_fits [OF assms(1) p this] show ?thesis unfolding bytes_reply_def Let_def then_run_assoc .
qed

lemma puts_int: "writer_laws W V \<Longrightarrow> puts V (\<lambda>e. encoded (cbor_encode_int W e v)) 9 1"
  by (rule puts_writes [OF writer_lawsD(7)]) (simp_all add: head_len_le)

lemma puts_bytes: "writer_laws W V \<Longrightarrow> puts V (\<lambda>e. encoded (cbor_encode_byte_string W e d)) (9 + length d) 1"
  by (rule puts_writes [OF writer_lawsD(5)]) (simp_all add: head_len_le)

lemma puts_stringz: "writer_laws W V \<Longrightarrow> length (c_string str) \<le> l \<Longrightarrow> puts V (\<lambda>e. encoded (cbor_encode_text_stringz W e str)) (head_len l + l) 1"
  by (rule puts_text [OF _ _ order_refl])

text \<open>The room an error message needs.\<close>

definition error_room :: "bytes \<Rightarrow> bytes option \<Rightarrow> nat" where
  "error_room message data = 55 + length message + (case data of None \<Rightarrow> 0 | Some d \<Rightarrow> 14 + length d)"

lemma error_fits:
  assumes "writer_laws W V" and "length (c_string ident) \<le> MAXLEN_ID" and "length message < 2 ^ 16"
    and "error_room message data \<le> len"
  shows "\<exists>out. cbor_print_error_for W ident code message data len = Ret (Some out) \<and> length out \<le> len"
proof -
  let ?root = "cbor_encoder_init W len"
  have id: "puts V (\<lambda>e. add_string_to_map W e CBOR_RPC_TAG_ID ident) (3 + (1 + 16)) (1 + 1)"
    unfolding add_string_to_map_def
    by (rule puts_then)
       (use puts_tag [OF assms(1) rpc_tag_texts(1)] puts_stringz [OF assms(1) assms(2)] in
         \<open>simp_all add: rpc_tag_texts MAXLEN_ID_def head_len_def numeral_3_eq_3\<close>)
  have err: "puts V (\<lambda>e. encoded (cbor_encode_text_stringz W e CBOR_RPC_TAG_ERROR)) 6 1"
    using puts_tag [OF assms(1) rpc_tag_texts(5)] by (simp add: rpc_tag_texts)
  have code: "puts V (\<lambda>e. add_int_to_map W e CBOR_RPC_TAG_CODE c) (5 + 9) (1 + 1)" for c
    unfolding add_int_to_map_def
    by (rule puts_then [OF _ puts_int [OF assms(1)]]) (use puts_tag [OF assms(1) rpc_tag_texts(7)] in \<open>simp add: rpc_tag_texts\<close>)
  have "length (c_string message) \<le> length message" by (simp add: c_string_def length_takeWhile_le)
  from puts_weaken [OF puts_stringz [OF assms(1) this]] have
    m: "puts V (\<lambda>e. encoded (cbor_encode_text_stringz W e message)) (3 + length message) 1"
    using assms(3) by (simp add: head_len_le)
  have msg: "puts V (\<lambda>e. add_string_to_map W e CBOR_RPC_TAG_MESSAGE message) (8 + (3 + length message)) (1 + 1)"
    unfolding add_string_to_map_def
    by (rule puts_then [OF _ m]) (use puts_tag [OF assms(1) rpc_tag_texts(9)] in \<open>simp add: rpc_tag_texts\<close>)
  have dat: "puts V (\<lambda>e. then_run (encoded (cbor_encode_text_stringz W e CBOR_RPC_TAG_DATA))
      (\<lambda>e. encoded (cbor_encode_byte_string W e d))) (5 + (9 + length d)) (1 + 1)" for d
    by (rule puts_then [OF _ puts_bytes [OF assms(1)]]) (use puts_tag [OF assms(1) rpc_tag_texts(11)] in \<open>simp add: rpc_tag_texts\<close>)
  note init = writer_lawsD(1-3) [OF assms(1), of len]
  have l: "55 + length message \<le> len" using assms(4) by (simp add: error_room_def)
  obtain root where root: "cbor_encoder_create_map W ?root 2 = Some root" "room V root = len - 1" "left V root = 4" "whole V root = len"
    using writer_lawsD(9) [OF assms(1), of 2 ?root] init l by (auto simp: head_len_def)
  from puts_then [OF id err] root l obtain root2 where
    root2: "then_run (add_string_to_map W root CBOR_RPC_TAG_ID ident) (\<lambda>e. encoded (cbor_encode_text_stringz W e CBOR_RPC_TAG_ERROR)) = Ret root2"
      "room V root - 26 \<le> room V root2" "left V root2 = 1" "whole V root2 = len"
    unfolding puts_def by (auto dest!: spec [of _ root])
  let ?k = "if data \<noteq> None then 3 else 2"
  have "head_len ?k = 1" by (simp add: head_len_def)
  moreover have "1 \<le> room V root2" "0 < left V root2" using root2(2,3) root(2) l by simp_all
  ultimately obtain e where e: "cbor_encoder_create_map W root2 ?k = Some e" "room V e = room V root2 - 1" "left V e = 2 * ?k" "whole V e = len"
    using root2(4) writer_lawsD(9) [OF assms(1), of ?k root2] by metis
  have "(5 + 9) + (8 + (3 + length message)) \<le> room V e" "(1 + 1) + (1 + 1) \<le> left V e"
    using e(2,3) root2(2) root(2) l by simp_all
  from putsD [OF puts_then [OF code msg] this, of "of_int code"] obtain e2 where
    e2: "then_run (add_int_to_map W e CBOR_RPC_TAG_CODE (of_int code)) (\<lambda>e. add_string_to_map W e CBOR_RPC_TAG_MESSAGE message) = Ret e2"
      "room V e - (14 + (11 + length message)) \<le> room V e2" "left V e2 = 2 * ?k - 4" "whole V e2 = len"
    using e(3,4) by auto
  obtain e3 where e3: "(case data of None \<Rightarrow> Ret (Some e2)
       | Some d \<Rightarrow> then_run (encoded (cbor_encode_text_stringz W e2 CBOR_RPC_TAG_DATA)) (\<lambda>e. Ret (cbor_encode_byte_string W e d)))
       = Ret (Some e3)" "left V e3 = 0" "whole V e3 = len"
  proof (cases data)
    case None
    with e2 show ?thesis by (intro that [of e2]) simp_all
  next
    case (Some d)
    have "14 + length d \<le> room V e2" using e2(2) e(2) root2(2) root(2) assms(4) Some by (simp add: error_room_def)
    moreover have "left V e2 = 2" using e2(3) Some by simp
    ultimately obtain e3 where "then_run (encoded (cbor_encode_text_stringz W e2 CBOR_RPC_TAG_DATA))
        (\<lambda>e. encoded (cbor_encode_byte_string W e d)) = Ret e3" "left V e3 = 0" "whole V e3 = len"
      using dat [of d] e2(4) unfolding puts_def by (auto dest!: spec [of _ e2])
    with Some show ?thesis by (intro that [of e3]) (auto simp: run_simps)
  qed
  from writer_lawsD(10) [OF assms(1) e3(2), of root2] root2(3,4) e3(3) obtain root3 where
    root3: "cbor_encoder_close_container W root2 e3 = Some root3" "left V root3 = 0" "whole V root3 = len" by auto
  from writer_lawsD(10) [OF assms(1) root3(2), of ?root] init root3(3) obtain out where
    out: "cbor_encoder_close_container W ?root root3 = Some out" "whole V out = len" by auto
  have "length (cbor_encoder_get_buffer W out) \<le> len" using writer_lawsD(11) [OF assms(1), of out] out(2) by simp
  moreover obtain r1 where r1: "add_string_to_map W root CBOR_RPC_TAG_ID ident = Ret r1"
    "encoded (cbor_encode_text_stringz W r1 CBOR_RPC_TAG_ERROR) = Ret root2" using root2(1) by (auto simp: then_run_Ret_iff)
  moreover obtain d1 where d1: "add_int_to_map W e CBOR_RPC_TAG_CODE (of_int code) = Ret d1"
    "add_string_to_map W d1 CBOR_RPC_TAG_MESSAGE message = Ret e2" using e2(1) by (auto simp: then_run_Ret_iff)
  moreover have "cbor_build_error_for W ident code message data ?root = Ret (Some out)"
    unfolding cbor_build_error_for_def using assms(2) root(1) r1 e(1) d1 e3(1) root3(1) out(1)
    by (simp add: jade_assert_def encoded_def)
  ultimately show ?thesis by (simp add: cbor_print_error_for_def)
qed

lemma reject_fits:
  assumes "writer_laws W V" and "length (c_string ident) \<le> MAXLEN_ID" and "length message < 2 ^ 16"
    and "error_room message data \<le> len"
  shows "\<exists>out. reject_payload W ident code message data len = Ret out \<and> length out \<le> len"
  using error_fits [OF assms, of code] assms(4) by (auto simp: reject_payload_def jade_assert_def error_room_def)

section \<open>Text fields of a complete message\<close>

text \<open>The bytes of the head of a text string, from its first byte.\<close>

definition text_head :: "byte \<Rightarrow> nat" where
  "text_head b = (let c = b AND CBOR_LEN_MASK in
     if c < 24 then 1 else if c = 24 then 2 else if c = 25 then 3 else if c = 26 then 5 else 9)"

text \<open>
  What TinyCBOR answers about a text string in a complete message: its length, a copy of it
  with a terminating zero, and, if it is in one piece, its bytes behind the head.
\<close>

definition text_field :: "'v cbor_reader \<Rightarrow> 'v \<Rightarrow> bytes \<Rightarrow> 'v \<Rightarrow> byte \<Rightarrow> bytes \<Rightarrow> bool" where
  "text_field R v field r b text \<longleftrightarrow>
     rpc_get_data R field (Some v) = Some r
     \<and> cbor_value_is_text_string R r
     \<and> string_length R r = Some (length text)
     \<and> (\<not> cbor_value_is_length_known R r \<longrightarrow> cbor_value_get_string_length R r = None)
     \<and> (\<forall>n > length text. \<exists>junk. cbor_value_copy_text_string R r n = Some (text @ 0 # junk, length text))
     \<and> b AND CBOR_TYPE_MASK = CBOR_TEXT_MASK
     \<and> (\<exists>rest. cbor_value_get_next_byte R r = b # rest
          \<and> (cbor_value_is_length_known R r \<longrightarrow> take (length text) (drop (text_head b) (b # rest)) = text))"

lemma text_field_len: "text_field R v field r b text \<Longrightarrow> rpc_get_string_len R field v = length text"
  by (simp add: text_field_def rpc_get_string_len_def)

lemma text_field_copy:
  assumes "text_field R v field r b text" and "length text < n"
  shows "rpc_get_string R field n v = Ret text"
proof -
  from assms obtain junk where "cbor_value_copy_text_string R r n = Some (text @ 0 # junk, length text)"
    by (auto simp: text_field_def)
  with assms show ?thesis by (simp add: rpc_get_string_def text_field_def jade_assert_def)
qed

lemma find_field: "rpc_get_data R field (Some v) = Some r \<Longrightarrow>
  cbor_value_map_find_value R v field = Some r \<and> \<not> cbor_invalid_type R r \<and> cbor_value_is_valid R r
  \<and> cbor_value_is_valid R v \<and> cbor_value_is_map R v"
  by (auto simp: rpc_get_data_def split: if_splits option.splits)

lemma text_field_method:
  assumes "text_field R v CBOR_RPC_TAG_METHOD r b text" and "text \<noteq> []" and "length text \<le> MAXLEN_METHOD"
  shows "rpc_get_method R v =
    (if \<not> cbor_value_is_length_known R r then Ret (None, 0)
     else if 27 \<le> b AND CBOR_LEN_MASK then Crash
     else Ret (Some (drop (text_head b) (cbor_value_get_next_byte R r)), length text))"
    and "cbor_value_is_length_known R r \<Longrightarrow> take (length text) (drop (text_head b) (cbor_value_get_next_byte R r)) = text"
proof -
  from assms(1) obtain rest where nb: "cbor_value_get_next_byte R r = b # rest"
    "cbor_value_is_length_known R r \<longrightarrow> take (length text) (drop (text_head b) (b # rest)) = text"
    by (auto simp: text_field_def)
  then show "cbor_value_is_length_known R r \<Longrightarrow> take (length text) (drop (text_head b) (cbor_value_get_next_byte R r)) = text" by simp
  have data: "rpc_get_data R CBOR_RPC_TAG_METHOD (Some v) = Some r" using assms(1) by (simp add: text_field_def)
  note find = find_field [OF this]
  have n: "cbor_value_is_length_known R r \<Longrightarrow> cbor_value_get_string_length R r = Some (length text)"
    "\<not> cbor_value_is_length_known R r \<Longrightarrow> cbor_value_get_string_length R r = None"
    using assms(1) by (auto simp: text_field_def string_length_def)
  have b: "b AND CBOR_TYPE_MASK = CBOR_TEXT_MASK" using assms(1) by (simp add: text_field_def)
  have skip: "get_skip (b AND CBOR_LEN_MASK) = (if 27 \<le> b AND CBOR_LEN_MASK then Crash else Ret (text_head b))"
  proof -
    have "\<not> c < 24 \<Longrightarrow> c \<noteq> 24 \<Longrightarrow> c \<noteq> 25 \<Longrightarrow> c \<noteq> 26 \<Longrightarrow> 27 \<le> c" for c :: byte
      by (simp add: word_less_nat_alt word_le_nat_alt word_unat_eq_iff)
    then show ?thesis by (auto simp: get_skip_def jade_assert_def text_head_def Let_def not_less)
  qed
  show "rpc_get_method R v =
    (if \<not> cbor_value_is_length_known R r then Ret (None, 0)
     else if 27 \<le> b AND CBOR_LEN_MASK then Crash
     else Ret (Some (drop (text_head b) (cbor_value_get_next_byte R r)), length text))"
    using find n b assms(2,3)
    by (simp add: rpc_get_method_def jade_assert_def rpc_get_string_ptr_def rpc_get_type_ptr_def rpc_get_raw_type_ptr_def nb skip)
qed

lemma strncmp_text: "length b \<le> length a \<Longrightarrow> 0 \<notin> set b \<Longrightarrow> strncmp_equal (length b) a b = Ret (take (length b) a = b)"
proof (induction b arbitrary: a)
  case (Cons y b)
  then show ?case by (cases a) auto
qed simp

lemma matches_text:
  assumes "take (length text) m = text" and "0 \<notin> set name"
  shows "matches_method m (length text) name = Ret (text = name)"
proof (cases "length text = length name")
  case True
  then have "length name \<le> length m" using assms(1) by (metis length_take min.cobounded1)
  with strncmp_text [OF this assms(2)] True assms(1) show ?thesis by (simp add: matches_method_def) 
next
  case False
  then show ?thesis by (auto simp: matches_method_def)
qed

end
