(* ===== verification/Jade_Request_Theorems.thy ===== *)
theory Jade_Request_Theorems
  imports Jade_Requests Jade_Storage_Theorems
begin

text \<open>
  The theorems on single requests: the replies of a fixed size fit their buffers, what
  becomes of every valid request and which ones stop the device, and the truncated message
  whose rejection stops it.
\<close>

section \<open>A library for the witnesses\<close>

text \<open>
  An encoder is the size of its buffer, what was written and the items left. The reader
  knows one message: a map with an id \<^verbatim>\<open>"7"\<close> and a method \<^verbatim>\<open>"ping"\<close> whose length is
  written in the eight-byte form.
\<close>

type_synonym demo_encoder = "nat \<times> bytes \<times> nat"

definition demo_item :: "nat \<Rightarrow> bytes \<Rightarrow> demo_encoder \<Rightarrow> demo_encoder option" where
  "demo_item n payload e =
     (case e of (limit, out, items) \<Rightarrow>
        if length out + n \<le> limit \<and> 0 < items
        then Some (limit, out @ take n (payload @ replicate n 0), items - 1) else None)"

definition demo_writer :: "demo_encoder cbor_writer" where
  "demo_writer = \<lparr>cbor_encoder_init = (\<lambda>n. (n, [], 1)),
     cbor_encoder_create_map = (\<lambda>(limit, out, items) k.
       if length out + head_len k \<le> limit then Some (limit, out @ replicate (head_len k) 0, 2 * k) else None),
     cbor_encoder_create_array = (\<lambda>(limit, out, items) k.
       if length out + head_len k \<le> limit then Some (limit, out @ replicate (head_len k) 0, k) else None),
     cbor_encoder_close_container = (\<lambda>(limit, _, items) (_, out, _). Some (limit, take limit out, items - 1)),
     cbor_encode_text_string = (\<lambda>e str. demo_item (head_len (length str) + length str) str e),
     cbor_encode_byte_string = (\<lambda>e d. demo_item (head_len (length d) + length d) d e),
     cbor_encode_uint = (\<lambda>e v. demo_item (head_len (unat v)) [] e),
     cbor_encode_int = (\<lambda>e v. demo_item (head_len (if sint v < 0 then nat (- 1 - sint v) else nat (sint v))) [] e),
     cbor_encode_boolean = (\<lambda>e b. demo_item 1 [] e),
     cbor_encoder_get_buffer = (\<lambda>(limit, out, _). take limit out)\<rparr>"

definition demo_view :: "demo_encoder writer_view" where
  "demo_view = \<lparr>room = (\<lambda>(limit, out, _). limit - length out), left = (\<lambda>(_, _, items). items), whole = (\<lambda>(limit, _, _). limit)\<rparr>"

lemma demo_item_writes: "0 < n \<Longrightarrow> writes demo_view (demo_item n payload) n"
  by (auto simp: writes_def demo_item_def demo_view_def)

lemma head_len_pos [simp]: "0 < head_len n"
  by (simp add: head_len_def)

lemma demo_writer_laws: "writer_laws demo_writer demo_view"
  unfolding writer_laws_def
proof (intro conjI allI impI)
  show "writes demo_view (\<lambda>e. cbor_encode_text_string demo_writer e str) (head_len (length str) + length str)" for str
    by (simp add: demo_writer_def demo_item_writes)
  show "writes demo_view (\<lambda>e. cbor_encode_byte_string demo_writer e str) (head_len (length str) + length str)" for str
    by (simp add: demo_writer_def demo_item_writes)
  show "writes demo_view (\<lambda>e. cbor_encode_uint demo_writer e v) (head_len (unat v))" for v
    by (simp add: demo_writer_def demo_item_writes)
  show "writes demo_view (\<lambda>e. cbor_encode_int demo_writer e v)
      (head_len (if sint v < 0 then nat (- 1 - sint v) else nat (sint v)))" for v
    by (simp add: demo_writer_def demo_item_writes)
  show "writes demo_view (\<lambda>e. cbor_encode_boolean demo_writer e b) 1" for b
    by (simp add: demo_writer_def demo_item_writes)
  show "\<exists>s. cbor_encoder_create_map demo_writer e k = Some s \<and> room demo_view s = room demo_view e - head_len k
      \<and> left demo_view s = 2 * k \<and> whole demo_view s = whole demo_view e"
    if "head_len k \<le> room demo_view e" for e k
    using that head_len_pos [of k] by (cases e) (auto simp: demo_writer_def demo_view_def simp del: head_len_pos)
  show "\<exists>e'. cbor_encoder_close_container demo_writer e s = Some e' \<and> room demo_view e' = room demo_view s
      \<and> left demo_view e' = left demo_view e - 1 \<and> whole demo_view e' = whole demo_view e"
    if "whole demo_view s = whole demo_view e" for e s
    using that by (cases e, cases s) (auto simp: demo_writer_def demo_view_def)
qed (auto simp: demo_writer_def demo_view_def split: prod.splits)

section \<open>Replies\<close>

text \<open>C40: The replies of a fixed size fit. For an id as the device reads it (at most 16
  bytes, and not empty as a C string), the boolean replies and the answer to a ping fit
  their 64 bytes, a reply with bytes fits the buffer computed for it, and a rejection fits
  its 256 bytes for every message text of up to 200 characters: none of the encoder's
  assertions stops the device.\<close>

theorem replies_fit:
  assumes "writer_laws W V" and "c_string ident \<noteq> []" and "length ident \<le> MAXLEN_ID"
  shows "(\<exists>out. result_reply W ident 64 (cbor_result_boolean_cb W b) = Ret out \<and> length out \<le> 64)
    \<and> (\<exists>out. result_reply W ident 64 (cbor_result_uint64_cb W v) = Ret out \<and> length out \<le> 64)
    \<and> (\<exists>out. bytes_reply W (reply_buffer_len (length d)) 2 (\<lambda>m. rpc_init_cbor W m ident (length ident)) d = Ret out
        \<and> length out \<le> reply_buffer_len (length d))
    \<and> (length message > 200 \<or> (\<exists>out. reject_payload W ident code message None JADE_MSG_REPLY_LEN = Ret out
        \<and> length out \<le> JADE_MSG_REPLY_LEN))"
proof -
  have l: "length (c_string ident) \<le> MAXLEN_ID"
    using assms(3) length_takeWhile_le [of "\<lambda>b. b \<noteq> 0" ident] by (simp add: c_string_def)
  have bool: "puts V (cbor_result_boolean_cb W b) 1 1"
    unfolding cbor_result_boolean_cb_def by (rule puts_writes [OF writer_lawsD(8) [OF assms(1)]]) simp
  have uint: "puts V (cbor_result_uint64_cb W v) 9 1"
    unfolding cbor_result_uint64_cb_def by (rule puts_writes [OF writer_lawsD(6) [OF assms(1)]]) (simp add: head_len_le)
  have "length ident \<noteq> 0" using assms(2) by (auto simp: c_string_def)
  then have "\<exists>out. bytes_reply W (reply_buffer_len (length d)) 2 (\<lambda>m. rpc_init_cbor W m ident (length ident)) d = Ret out
        \<and> length out \<le> reply_buffer_len (length d)"
    using assms(3) by (intro bytes_reply_fits [OF assms(1)])
      (simp_all add: reply_buffer_len_def JADE_MSG_REPLY_LEN_def JADE_MSG_REPLY_OVERHEAD_def)
  moreover have "\<exists>out. reject_payload W ident code message None JADE_MSG_REPLY_LEN = Ret out
        \<and> length out \<le> JADE_MSG_REPLY_LEN" if "length message \<le> 200"
    using that by (intro reject_fits [OF assms(1) l]) (simp_all add: error_room_def JADE_MSG_REPLY_LEN_def)
  ultimately show ?thesis
    using reply_result_fits [OF assms(1,2) l bool, of 64] reply_result_fits [OF assms(1,2) l uint, of 64] by force
qed

theorem replies_fit_witness:
  "\<exists>out. reject_payload demo_writer (cstr ''7'') CBOR_RPC_BAD_PARAMETERS (replicate 200 0x41) None JADE_MSG_REPLY_LEN = Ret out
    \<and> length out \<le> 256"
proof -
  have "c_string (cstr ''7'') \<noteq> []" "length (cstr ''7'') \<le> MAXLEN_ID"
    by (simp_all add: c_string_def cstr_def char_byte_def MAXLEN_ID_def)
  from replies_fit [OF demo_writer_laws this, of undefined undefined undefined "replicate 200 0x41" CBOR_RPC_BAD_PARAMETERS] show ?thesis
    by (auto simp: JADE_MSG_REPLY_LEN_def)
qed

section \<open>Requests\<close>

text \<open>The answer to a ping, once the method is read.\<close>

lemma ping_reply:
  assumes "writer_laws W V" and "text_field R v CBOR_RPC_TAG_ID r b ident" and "ident \<noteq> []" and "length ident \<le> MAXLEN_ID"
    and "known_source B src" and "ps_out p src = Some out" and "64 \<le> ring_max_item out"
  shows "hd ident = 0 \<Longrightarrow> jade_process_reply_to_message_result B F R W
      \<lparr>msg_value = Some v, msg_cbor = None, msg_source = src\<rparr> 64 (cbor_result_uint64_cb W a) p = Crash"
    and "hd ident \<noteq> 0 \<Longrightarrow> \<exists>reply. jade_process_reply_to_message_result B F R W
      \<lparr>msg_value = Some v, msg_cbor = None, msg_source = src\<rparr> 64 (cbor_result_uint64_cb W a) p
        = Ret ((), p\<lparr>ps_out := (ps_out p)(src := Some (ring_send F (ps_handle p src) reply out))\<rparr>)"
proof -
  have data: "rpc_get_data R CBOR_RPC_TAG_ID (Some v) = Some r" using assms(2) by (simp add: text_field_def)
  have "rpc_get_id R (Some v) (MAXLEN_ID + 1) = Ret ident"
    using find_field [OF data] text_field_copy [OF assms(2), of "MAXLEN_ID + 1"] assms(4)
    by (simp add: rpc_get_id_def jade_assert_def)
  then have reply: "jade_process_reply_to_message_result B F R W
      \<lparr>msg_value = Some v, msg_cbor = None, msg_source = src\<rparr> 64 (cbor_result_uint64_cb W a) p
    = andthen (from_run (result_reply W ident 64 (cbor_result_uint64_cb W a))) (\<lambda>payload.
        jade_process_push_out_message B F payload src) p"
    using assms(3) by (simp add: jade_process_reply_to_message_result_def andthen_def from_run_def insist_def
        jade_process_reply_to_message_result_with_id_def jade_process_reply_to_message_ex_def)
  have l: "length (c_string ident) \<le> MAXLEN_ID"
    using assms(4) length_takeWhile_le [of "\<lambda>b. b \<noteq> 0" ident] by (simp add: c_string_def)
  show "jade_process_reply_to_message_result B F R W
      \<lparr>msg_value = Some v, msg_cbor = None, msg_source = src\<rparr> 64 (cbor_result_uint64_cb W a) p = Crash" if "hd ident = 0"
  proof -
    have "c_string ident = []" using that assms(3) by (cases ident) (simp_all add: c_string_def)
    moreover have "\<exists>m. cbor_encoder_create_map W (cbor_encoder_init W 64) 2 = Some m"
      using writer_lawsD(9) [OF assms(1), of 2 "cbor_encoder_init W 64"] writer_lawsD(1,2) [OF assms(1), of 64]
      by (auto simp: head_len_def)
    ultimately have "result_reply W ident 64 (cbor_result_uint64_cb W a) = Crash"
      by (auto simp: result_reply_def rpc_init_cbor_def jade_assert_def encoded_def)
    then show ?thesis by (simp add: reply andthen_def from_run_def)
  qed
  show "\<exists>reply. jade_process_reply_to_message_result B F R W
      \<lparr>msg_value = Some v, msg_cbor = None, msg_source = src\<rparr> 64 (cbor_result_uint64_cb W a) p
        = Ret ((), p\<lparr>ps_out := (ps_out p)(src := Some (ring_send F (ps_handle p src) reply out))\<rparr>)" if "hd ident \<noteq> 0"
  proof -
    have c: "c_string ident \<noteq> []" using that assms(3) by (cases ident) (simp_all add: c_string_def)
    have u: "puts V (cbor_result_uint64_cb W a) 9 1"
      unfolding cbor_result_uint64_cb_def by (rule puts_writes [OF writer_lawsD(6) [OF assms(1)]]) (simp add: head_len_le)
    from reply_result_fits [OF assms(1) c l u, of 64] obtain payload where
      "result_reply W ident 64 (cbor_result_uint64_cb W a) = Ret payload" "length payload \<le> 64" by auto
    with assms(5-7) show ?thesis
      by (auto simp: reply andthen_def from_run_def jade_process_push_out_message_def jade_assert_def)
  qed
qed

text \<open>C19: What becomes of a valid request, and which ones stop the device. For a request
  that is complete and valid (and is not a non-blocking version query), with the queues in
  place: if its method is a text in one piece whose length is written in the eight-byte form
  of CBOR, reading the method stops the device; if it is a ping in one piece whose id begins
  with a zero byte, answering it stops the device; any other ping in one piece is answered
  to its source; everything else is put on the queue of the main task, unchanged and with
  its source in front.\<close>

theorem valid_request_outcome:
  assumes "writer_laws (we_writer E) V" and "snd (cbor_parser_init (we_reader E) data) = v"
    and "rpc_request_valid (we_reader E) (Some v)" and "\<not> nonblocking (we_reader E) v"
    and "text_field (we_reader E) v CBOR_RPC_TAG_ID ri bi ident"
    and "text_field (we_reader E) v CBOR_RPC_TAG_METHOD rm bm method"
    and "known_source (we_build E) src" and "ps_out p src = Some out" and "64 \<le> ring_max_item out"
    and "ps_shared_in p = Some inp" and "n < ring_max_item inp"
  shows "(cbor_value_is_length_known (we_reader E) rm \<and> (27 \<le> bm AND CBOR_LEN_MASK \<or> method = PING \<and> hd ident = 0) \<longrightarrow>
      handle_message E src data n p = Crash)
    \<and> (cbor_value_is_length_known (we_reader E) rm \<and> \<not> 27 \<le> bm AND CBOR_LEN_MASK \<and> method = PING \<and> hd ident \<noteq> 0 \<longrightarrow>
      (\<exists>reply. handle_message E src data n p =
         Ret (True, p\<lparr>ps_out := (ps_out p)(src := Some (ring_send (we_rtos E) (ps_handle p src) reply out))\<rparr>)))
    \<and> (\<not> cbor_value_is_length_known (we_reader E) rm \<or> \<not> 27 \<le> bm AND CBOR_LEN_MASK \<and> method \<noteq> PING \<longrightarrow>
      handle_message E src data n p =
        Ret (True, p\<lparr>ps_shared_in := Some (ring_send (we_rtos E) True (source_byte src # take n data) inp)\<rparr>))"
proof -
  let ?R = "we_reader E" let ?known = "cbor_value_is_length_known ?R rm"
  have lens: "ident \<noteq> []" "length ident \<le> MAXLEN_ID" "method \<noteq> []" "length method \<le> MAXLEN_METHOD"
    using assms(3) text_field_len [OF assms(5)] text_field_len [OF assms(6)]
    by (auto simp: rpc_request_valid_def rpc_message_valid_def Let_def split: if_splits)
  note get = text_field_method [OF assms(6) lens(3,4)]
  note answer = ping_reply [OF assms(1,5) lens(1,2) assms(7-9)]
  have push: "jade_process_push_in_message (we_rtos E) (source_byte src # take n data) p
    = Ret (True, p\<lparr>ps_shared_in := Some (ring_send (we_rtos E) True (source_byte src # take n data) inp)\<rparr>)"
    using assms(10,11) by (simp add: jade_process_push_in_message_def)
  have names: "0 \<notin> set PING" "0 \<notin> set VERINFO" by (simp_all add: PING_def VERINFO_def cstr_def char_byte_def)
  have whole: "handle_message E src data n p =
    then_run (handleImmediateMessage E v src p) (\<lambda>(handled, p). if handled then Ret (True, p)
      else then_run (jade_process_push_in_message (we_rtos E) (source_byte src # take n data) p) (\<lambda>(pushed, p).
        if pushed then Ret (True, p) else andthen (SEND_REJECT_MSG E \<lparr>msg_value = Some v, msg_cbor = None, msg_source = src\<rparr>
          CBOR_RPC_INVALID_REQUEST (cstr ''Input message too large to handle'') n) (\<lambda>_. give False) p))"
    using assms(2,3) by (auto simp: handle_message_def Let_def andthen_def give_def then_run_def split: run.splits prod.splits)
  show ?thesis
  proof (cases "?known \<and> \<not> 27 \<le> bm AND CBOR_LEN_MASK")
    case False
    then have "handleImmediateMessage E v src p = (if ?known then Crash else Ret (False, p))"
      using get(1) by (auto simp: handleImmediateMessage_def Let_def andthen_def from_run_def give_def)
    with False push show ?thesis by (auto simp: whole)
  next
    case go: True
    let ?m = "drop (text_head bm) (cbor_value_get_next_byte ?R rm)"
    have m: "rpc_get_method ?R v = Ret (Some ?m, length method)" using get(1) go by simp
    have matches: "matches_method ?m (length method) name = Ret (method = name)" if "0 \<notin> set name" for name
      using matches_text [OF get(2) that] go by simp
    have h: "handleImmediateMessage E v src p = (if method = PING
      then then_run (jade_process_reply_to_message_result (we_build E) (we_rtos E) ?R (we_writer E)
          \<lparr>msg_value = Some v, msg_cbor = None, msg_source = src\<rparr> 64
          (cbor_result_uint64_cb (we_writer E) (ucast (we_main_thread_action E))) p) (\<lambda>(_, p). Ret (True, p))
      else Ret (False, p))"
      using assms(4) m matches [OF names(1)] matches [OF names(2)]
      by (auto simp: handleImmediateMessage_def Let_def andthen_def from_run_def give_def)
    show ?thesis
    proof (cases "method = PING")
      case False
      with go h push show ?thesis by (simp add: whole)
    next
      case ping: True
      show ?thesis
      proof (cases "hd ident = 0")
        case True
        from answer(1) [OF this] show ?thesis using ping True go h by (simp add: whole)
      next
        case False
        with answer(2) [OF False, of "we_rtos E" "ucast (we_main_thread_action E)"] ping go h False show ?thesis by (auto simp: whole)
      qed
    qed
  qed
qed

text \<open>The reader: complete, or with the message ending inside the id.\<close>

datatype demo_value = DemoMessage | DemoId | DemoMethod

definition demo_text :: "demo_value \<Rightarrow> bytes" where
  "demo_text v = (case v of DemoMessage \<Rightarrow> [] | DemoId \<Rightarrow> cstr ''7'' | DemoMethod \<Rightarrow> cstr ''ping'')"

definition demo_head :: "demo_value \<Rightarrow> bytes" where
  "demo_head v = (case v of DemoMessage \<Rightarrow> [0xA2] | DemoId \<Rightarrow> [0x61] | DemoMethod \<Rightarrow> [0x7B, 0, 0, 0, 0, 0, 0, 0, 4])"

definition demo_reader :: "bool \<Rightarrow> demo_value cbor_reader" where
  "demo_reader complete = \<lparr>cbor_parser_init = (\<lambda>d. (d = [], DemoMessage)),
     cbor_value_advance = (\<lambda>v. if complete then Some v else None), cbor_source_offset = (\<lambda>v. 27),
     cbor_value_is_valid = (\<lambda>v. True), cbor_invalid_type = (\<lambda>v. False), cbor_value_is_map = (\<lambda>v. v = DemoMessage),
     cbor_value_is_array = (\<lambda>v. False), cbor_value_is_text_string = (\<lambda>v. v \<noteq> DemoMessage),
     cbor_value_is_byte_string = (\<lambda>v. False), cbor_value_is_boolean = (\<lambda>v. False),
     cbor_value_is_unsigned_integer = (\<lambda>v. False), cbor_value_is_null = (\<lambda>v. False), cbor_value_is_length_known = (\<lambda>v. True),
     cbor_value_map_find_value = (\<lambda>v field. if field = CBOR_RPC_TAG_ID then Some DemoId
       else if field = CBOR_RPC_TAG_METHOD then Some DemoMethod else None),
     cbor_value_get_string_length = (\<lambda>v. Some (length (demo_text v))),
     cbor_value_calculate_string_length = (\<lambda>v. Some (length (demo_text v))),
     cbor_value_get_next_byte = (\<lambda>v. demo_head v @ demo_text v),
     cbor_value_copy_byte_string = (\<lambda>v n. None),
     cbor_value_copy_text_string = (\<lambda>v n. if complete \<and> length (demo_text v) < n
       then Some (demo_text v @ [0], length (demo_text v)) else None),
     cbor_value_text_string_equals = (\<lambda>v str. Some (demo_text v = str)), cbor_value_get_boolean = (\<lambda>v. None),
     cbor_value_get_uint64 = (\<lambda>v. None), cbor_value_get_array_length = (\<lambda>v. None), cbor_value_enter_container = (\<lambda>v. None),
     cbor_value_leave_container = (\<lambda>v w. None), cbor_value_at_end = (\<lambda>v. True), cbor_value_advance_fixed = (\<lambda>v. None)\<rparr>"

definition demo_env :: "'v cbor_reader \<Rightarrow> nat \<Rightarrow> ('v, demo_encoder) wire_env" where
  "demo_env R limit = \<lparr>we_reader = R, we_writer = demo_writer,
     we_rtos = \<lparr>ring_fits = (\<lambda>items d. length items < 4), ring_capacity = (\<lambda>n. n div 2 - 8)\<rparr>,
     we_build = \<lparr>bt_enabled = False, qemu_tcp_enabled = False, internal_enabled = False, max_input_msg_size = limit, max_output_msg_size = 3072\<rparr>,
     we_version_info = (\<lambda>src. cbor_result_boolean_cb demo_writer True), we_main_thread_action = 0, we_jade_v1 = False, we_tick_ms = 10\<rparr>"

definition demo_ring :: ring where
  "demo_ring = \<lparr>ring_max_item = 3000, ring_items = [], ring_taken = []\<rparr>"

definition demo_process :: process_vars where
  "demo_process = \<lparr>ps_shared_in = Some demo_ring, ps_out = (\<lambda>src. Some demo_ring), ps_handle = (\<lambda>src. True),
     ps_last_message_source = SOURCE_NONE, ps_jade_id = []\<rparr>"

lemma demo_text_fields:
  "text_field (demo_reader True) DemoMessage CBOR_RPC_TAG_ID DemoId 0x61 (cstr ''7'')"
  "text_field (demo_reader True) DemoMessage CBOR_RPC_TAG_METHOD DemoMethod 0x7B (cstr ''ping'')"
  by (simp_all add: text_field_def demo_reader_def rpc_get_data_def string_length_def demo_text_def demo_head_def text_head_def
      CBOR_RPC_TAG_ID_def CBOR_RPC_TAG_METHOD_def CBOR_TYPE_MASK_def CBOR_TEXT_MASK_def CBOR_LEN_MASK_def cstr_def)

theorem valid_request_outcome_witness:
  "handle_message (demo_env (demo_reader True) 17408) SOURCE_SERIAL (replicate 27 0) 27 demo_process = Crash"
proof -
  let ?E = "demo_env (demo_reader True) 17408"
  have lens: "rpc_get_string_len (demo_reader True) CBOR_RPC_TAG_ID DemoMessage = 1"
    "rpc_get_string_len (demo_reader True) CBOR_RPC_TAG_METHOD DemoMessage = 4"
    using text_field_len [OF demo_text_fields(1)] text_field_len [OF demo_text_fields(2)] by (simp_all add: cstr_def)
  have "rpc_request_valid (demo_reader True) (Some DemoMessage)"
    using lens by (simp add: rpc_request_valid_def rpc_message_valid_def Let_def MAXLEN_ID_def MAXLEN_METHOD_def)
       (simp add: demo_reader_def)
  moreover have "\<not> nonblocking (demo_reader True) DemoMessage"
    by (simp add: nonblocking_def rpc_get_map_def rpc_get_data_def demo_reader_def cstr_def CBOR_RPC_TAG_ID_def CBOR_RPC_TAG_METHOD_def)
  ultimately have "cbor_value_is_length_known (demo_reader True) DemoMethod
      \<and> (27 \<le> (0x7B :: byte) AND CBOR_LEN_MASK \<or> cstr ''ping'' = PING \<and> hd (cstr ''7'') = 0) \<longrightarrow>
    handle_message ?E SOURCE_SERIAL (replicate 27 0) 27 demo_process = Crash"
    using valid_request_outcome [of ?E demo_view "replicate 27 0" DemoMessage DemoId "0x61" "cstr ''7''" DemoMethod "0x7B"
        "cstr ''ping''" SOURCE_SERIAL demo_process demo_ring demo_ring 27] demo_writer_laws demo_text_fields
    by (simp add: demo_env_def demo_process_def demo_ring_def known_source_def) (simp add: demo_reader_def)
  then show ?thesis by (simp add: demo_reader_def CBOR_LEN_MASK_def)
qed

text \<open>C23: A truncated id stops the device. If the bytes waiting in the receive buffer are an
  incomplete message that ends inside its id (the id's length is readable and at most 16,
  its bytes cannot be copied), and they time out, the next call of \<^verbatim>\<open>handle_data\<close> stops the
  device: rejecting the message reads the id with an assertion that the copy succeeds.\<close>

theorem truncated_id_stops_device:
  assumes "0 < read_ptr" and "timed_out E now last_time" and "last_time \<le> now"
    and "read_ptr + n \<le> max_input_msg_size (we_build E)" and "length buf = max_input_msg_size (we_build E)"
    and "message_length (we_reader E) (take read_ptr buf) = 0"
    and "rpc_get_data (we_reader E) CBOR_RPC_TAG_ID (Some (snd (cbor_parser_init (we_reader E) (take read_ptr buf)))) = Some r"
    and "cbor_value_is_text_string (we_reader E) r" and "string_length (we_reader E) r = Some k" and "k \<le> MAXLEN_ID"
    and "cbor_value_copy_text_string (we_reader E) r (MAXLEN_ID + 1) = None"
  shows "handle_data E now src buf read_ptr n last_time force st = Crash"
proof -
  let ?v = "snd (cbor_parser_init (we_reader E) (take read_ptr buf))"
  have "rpc_get_id (we_reader E) (Some ?v) (MAXLEN_ID + 1) = Crash"
    using find_field [OF assms(7)] assms(7-11) by (simp add: rpc_get_id_def jade_assert_def rpc_get_string_def)
  then have "reject_incomplete E src (take read_ptr buf) st = Crash"
    by (simp add: reject_incomplete_def on_process_def SEND_REJECT_MSG_def jade_process_reject_message_ex_def andthen_def
        from_run_def insist_def Let_def)
  with assms(1-6) show ?thesis
    by (simp add: handle_data_def jade_assert_def handle_data_impl_queue loop_cases(2))
qed

theorem truncated_id_stops_device_witness:
  "\<forall>st. handle_data (demo_env (demo_reader False) 64) 1000 SOURCE_SERIAL (replicate 64 0xA2) 5 1 0 False st = Crash"
proof
  fix st :: wire_vars
  let ?E = "demo_env (demo_reader False) 64"
  have "timed_out ?E 1000 0" by (simp add: timed_out_def TIMEOUT_TICKS_def demo_env_def)
  moreover have "message_length (demo_reader False) d = 0" for d by (simp add: message_length_def demo_reader_def)
  moreover have "rpc_get_data (demo_reader False) CBOR_RPC_TAG_ID (Some DemoMessage) = Some DemoId"
    by (simp add: rpc_get_data_def demo_reader_def)
  ultimately show "handle_data ?E 1000 SOURCE_SERIAL (replicate 64 0xA2) 5 1 0 False st = Crash"
    using truncated_id_stops_device [of 5 ?E 1000 0 1 "replicate 64 0xA2" DemoId 1]
    by (simp add: demo_env_def demo_reader_def string_length_def demo_text_def cstr_def MAXLEN_ID_def)
qed

end
