(* ===== verification/Jade_Wire_Theorems.thy ===== *)
theory Jade_Wire_Theorems
  imports Jade_Request_Theorems
begin

text \<open>
  The theorems on message framing: the receive buffer refines a queue of bytes, and how the
  bytes were cut into chunks does not matter.
\<close>

section \<open>A reader for the witnesses\<close>

text \<open>A message begins with its length in one byte; none of them is a request.\<close>

definition frame_reader :: "bytes cbor_reader" where
  "frame_reader = \<lparr>cbor_parser_init = (\<lambda>d. (d = [], d)),
     cbor_value_advance = (\<lambda>v. if 0 < hd v \<and> unat (hd v) \<le> length v then Some v else None),
     cbor_source_offset = (\<lambda>v. unat (hd v)),
     cbor_value_is_valid = (\<lambda>v. False), cbor_invalid_type = (\<lambda>v. True), cbor_value_is_map = (\<lambda>v. False),
     cbor_value_is_array = (\<lambda>v. False), cbor_value_is_text_string = (\<lambda>v. False),
     cbor_value_is_byte_string = (\<lambda>v. False), cbor_value_is_boolean = (\<lambda>v. False),
     cbor_value_is_unsigned_integer = (\<lambda>v. False), cbor_value_is_null = (\<lambda>v. False), cbor_value_is_length_known = (\<lambda>v. True),
     cbor_value_map_find_value = (\<lambda>v field. None), cbor_value_get_string_length = (\<lambda>v. None),
     cbor_value_calculate_string_length = (\<lambda>v. None), cbor_value_get_next_byte = (\<lambda>v. v),
     cbor_value_copy_byte_string = (\<lambda>v n. None), cbor_value_copy_text_string = (\<lambda>v n. None),
     cbor_value_text_string_equals = (\<lambda>v str. None), cbor_value_get_boolean = (\<lambda>v. None),
     cbor_value_get_uint64 = (\<lambda>v. None), cbor_value_get_array_length = (\<lambda>v. None), cbor_value_enter_container = (\<lambda>v. None),
     cbor_value_leave_container = (\<lambda>v w. None), cbor_value_at_end = (\<lambda>v. True), cbor_value_advance_fixed = (\<lambda>v. None)\<rparr>"

lemma frame_length: "message_length frame_reader d = (if d \<noteq> [] \<and> unat (hd d) \<le> length d then unat (hd d) else 0)"
  by (auto simp: message_length_def frame_reader_def word_less_nat_alt)

lemma frame_within: "message_within frame_reader"
  by (simp add: message_within_def frame_length)

lemma frame_self_delimiting: "self_delimiting frame_reader"
  by (auto simp: self_delimiting_def frame_length same_request_def method_text_def rpc_get_method_def jade_assert_def
      rpc_request_valid_def rpc_message_valid_def rpc_get_id_def nonblocking_def rpc_get_map_def rpc_get_data_def)
     (simp_all add: frame_reader_def)

definition demo_wire :: wire_vars where
  "demo_wire = \<lparr>wv_process = demo_process, wv_idle = \<lparr>last_activity_registered = 0, last_ui_activity_registered = 0,
     min_timeout_override_secs = 0, screen_dimmed = False, idle_state = NORMAL\<rparr>\<rparr>"

lemma demo_env_sel [simp]: "we_reader (demo_env R limit) = R" "max_input_msg_size (we_build (demo_env R limit)) = limit"
  "TIMEOUT_TICKS (demo_env R limit) = 200"
  by (simp_all add: demo_env_def TIMEOUT_TICKS_def)

section \<open>Refinement\<close>

text \<open>C20: The receive buffer is a queue of bytes. When the buffer holds no complete message
  before a call of \<^verbatim>\<open>handle_data\<close>, its effect on the queues and on the bytes waiting is
  that of appending the new bytes (after rejecting stale ones) and cutting messages from the
  front, also when that stops the device: neither the assertion that a timeout leaves the
  buffer empty nor an overrun of the buffer adds an outcome. Afterwards the buffer has its
  size and again holds no complete message.\<close>

theorem handle_data_refines:
  assumes "message_within (we_reader E)" and "length buf = max_input_msg_size (we_build E)"
    and "read_ptr + n \<le> length buf" and "last_time \<le> now"
    and "message_length (we_reader E) (take read_ptr buf) = 0"
  shows "then_run (handle_data E now src buf read_ptr n last_time force st)
      (\<lambda>(buf', r', last', st'). Ret (take r' buf', wv_process st'))
    = receive E src (timed_out E now last_time) force (take read_ptr buf) (take n (drop read_ptr buf)) (wv_process st)
    \<and> (\<forall>buf' r' last' st'. handle_data E now src buf read_ptr n last_time force st = Ret (buf', r', last', st') \<longrightarrow>
        length buf' = length buf \<and> r' \<le> read_ptr + n \<and> last' = now
        \<and> message_length (we_reader E) (take r' buf') = 0)"
proof -
  let ?M = "max_input_msg_size (we_build E)"
  let ?finish = "\<lambda>buf r st. then_run (handle_data_impl E now src buf (r + n) (force \<or> r + n = ?M) st)
    (\<lambda>(buf, r, st). Ret (buf, r, now, st))"
  have finish: "then_run (?finish buf1 r1 st1) (\<lambda>(buf', r', last', st'). Ret (take r' buf', wv_process st'))
      = receive E src False force (take r1 buf1) (take n (drop r1 buf1)) (wv_process st1)
    \<and> (\<forall>buf' r' last' st'. ?finish buf1 r1 st1 = Ret (buf', r', last', st') \<longrightarrow>
        length buf' = length buf \<and> r' \<le> read_ptr + n \<and> last' = now \<and> message_length (we_reader E) (take r' buf') = 0)"
    if "length buf1 = length buf" "r1 \<le> read_ptr" for buf1 r1 st1
  proof -
    have l: "length buf1 = ?M" "r1 + n \<le> length buf1" using that assms(2,3) by simp_all
    have impl: "handle_data_impl E now src buf1 (r1 + n) (force \<or> r1 + n = ?M) st1
      = handle_data_loop E now src buf1 (r1 + n) (force \<or> r1 + n = ?M) st1" using l by (intro handle_data_impl_queue)
    have "then_run (?finish buf1 r1 st1) (\<lambda>(buf', r', last', st'). Ret (take r' buf', wv_process st'))
      = queue_of (handle_data_impl E now src buf1 (r1 + n) (force \<or> r1 + n = ?M) st1)"
      unfolding queue_of_def then_run_assoc by (simp add: split_def)
    with append_and_parse [OF l, of now src force st1] have
      "then_run (?finish buf1 r1 st1) (\<lambda>(buf', r', last', st'). Ret (take r' buf', wv_process st'))
        = receive E src False force (take r1 buf1) (take n (drop r1 buf1)) (wv_process st1)" by simp
    moreover have "length buf' = length buf \<and> r' \<le> read_ptr + n \<and> last' = now \<and> message_length (we_reader E) (take r' buf') = 0"
      if "?finish buf1 r1 st1 = Ret (buf', r', last', st')" for buf' r' last' st'
    proof -
      from that have "handle_data_loop E now src buf1 (r1 + n) (force \<or> r1 + n = ?M) st1 = Ret (buf', r', st')"
        and last: "last' = now" unfolding impl by (simp_all add: then_run_Ret_iff split_def) (metis prod.collapse)
      from loop_leaves [OF this(1) l(2) assms(1)] last \<open>length buf1 = length buf\<close> \<open>r1 \<le> read_ptr\<close> show ?thesis by linarith
    qed
    ultimately show ?thesis by blast
  qed
  show ?thesis
  proof (cases "read_ptr > 0 \<and> timed_out E now last_time")
    case False
    then have code: "handle_data E now src buf read_ptr n last_time force st = ?finish buf read_ptr st"
      using assms(2-4) by (subst handle_data_def) (auto simp only: jade_assert_def Let_def if_True if_False then_run_simps prod.case)
    have spec: "receive E src (timed_out E now last_time) force (take read_ptr buf) (take n (drop read_ptr buf)) (wv_process st)
      = receive E src False force (take read_ptr buf) (take n (drop read_ptr buf)) (wv_process st)"
      using False by (intro receive_not_stale) auto
    show ?thesis unfolding code spec by (rule finish) simp_all
  next
    case True
    let ?buf = "memmove_down read_ptr n buf"
    have stale: "handle_data_impl E now src buf read_ptr True st
      = then_run (reject_incomplete E src (take read_ptr buf) st) (\<lambda>(_, st). Ret (buf, 0, st))"
      using assms(2,3,5) by (simp add: handle_data_impl_queue loop_cases(2))
    have buf: "length ?buf = length buf" "take n ?buf = take n (drop read_ptr buf)"
      using assms(3) by (simp_all add: memmove_down_def)
    have "take read_ptr buf \<noteq> []" using True assms(3) by auto
    then have spec: "receive E src (timed_out E now last_time) force (take read_ptr buf) (take n (drop read_ptr buf)) (wv_process st)
      = then_run (discard E src (take read_ptr buf) (wv_process st)) (\<lambda>(_, p). receive E src False force [] (take n (drop read_ptr buf)) p)"
      using True by (simp add: receive_stale)
    have code: "handle_data E now src buf read_ptr n last_time force st
      = then_run (discard E src (take read_ptr buf) (wv_process st)) (\<lambda>(_, p). ?finish ?buf 0 (st\<lparr>wv_process := p\<rparr>))"
      using True assms(2-4)
      by (simp add: handle_data_def jade_assert_def Let_def stale reject_incomplete_queue then_run_assoc split_def)
    show ?thesis
    proof (cases "discard E src (take read_ptr buf) (wv_process st)")
      case (Ret a)
      obtain b p where a: "a = (b, p)" by (cases a)
      from finish [OF buf(1), of 0 "st\<lparr>wv_process := p\<rparr>"] show ?thesis
        unfolding code spec Ret a then_run_simps prod.case buf drop_0 take_0 by simp
    qed (simp_all add: code spec)
  qed
qed

theorem handle_data_refines_witness:
  "then_run (handle_data (demo_env frame_reader 64) 10 SOURCE_SERIAL ([5, 1] @ replicate 62 1) 2 4 0 False demo_wire)
      (\<lambda>(buf', r', last', st'). Ret (take r' buf', wv_process st'))
    = receive (demo_env frame_reader 64) SOURCE_SERIAL False False [5, 1] [1, 1, 1, 1] demo_process"
proof -
  let ?E = "demo_env frame_reader 64"
  have "\<not> timed_out ?E 10 0" by (simp add: timed_out_def)
  moreover have "message_length frame_reader [5, 1] = 0" by (simp add: frame_length)
  moreover have "take 4 (replicate 62 (1 :: byte)) = [1, 1, 1, 1]" by (simp add: eval_nat_numeral)
  ultimately show ?thesis
    using handle_data_refines [of ?E "[5, 1] @ replicate 62 1" 2 4 0 10 SOURCE_SERIAL False demo_wire] frame_within
    by (simp add: demo_wire_def)
qed

text \<open>The same statement as a fact for the theorems on several calls.\<close>

lemma handle_data_in_time:
  assumes "message_within (we_reader E)" and "length buf = max_input_msg_size (we_build E)" and "last_time \<le> now"
    and "r = 0 \<or> \<not> timed_out E now last_time"
    and "r + length d < length buf \<or> r + length d = length buf \<and> message_length (we_reader E) (take r buf @ d) \<noteq> 0"
  shows "queue_of (then_run (handle_data E now src (take r buf @ d @ drop (r + length d) buf) r (length d) last_time False st)
      (\<lambda>(buf', r', last', st'). Ret (buf', r', st')))
    = consume E src (take r buf @ d) (wv_process st)"
    and "handle_data E now src (take r buf @ d @ drop (r + length d) buf) r (length d) last_time False st
      = Ret (buf', r', last', st') \<Longrightarrow> length buf' = length buf \<and> r' \<le> length buf \<and> last' = now"
proof -
  let ?buf = "take r buf @ d @ drop (r + length d) buf" and ?full = "r + length d = max_input_msg_size (we_build E)"
  have fits: "r + length d \<le> length buf" using assms(5) by linarith
  have l: "length ?buf = max_input_msg_size (we_build E)" "r + length d \<le> length ?buf" "length ?buf = length buf"
    using assms(2) fits by simp_all
  have t: "take (r + length d) ?buf = take r buf @ d" using fits by simp
  have impl: "handle_data_impl E now src ?buf (r + length d) ?full st = handle_data_loop E now src ?buf (r + length d) ?full st"
    using l by (intro handle_data_impl_queue) simp_all
  have fresh: "\<not> (0 < r \<and> timed_out E now last_time)" using assms(4) by blast
  have code: "handle_data E now src ?buf r (length d) last_time False st
      = then_run (handle_data_loop E now src ?buf (r + length d) ?full st) (\<lambda>(buf, r, st). Ret (buf, r, now, st))"
    using l assms(3) fresh unfolding handle_data_def Let_def by (simp only: jade_assert_def if_True simp_thms impl
        if_False then_run_simps prod.case HOL.simp_thms)
  have id: "then_run m (\<lambda>(buf, r, st). Ret (buf, r, st)) = m" for m :: "(bytes \<times> nat \<times> wire_vars) run"
    by (cases m) auto
  have cut: "\<not> (message_length (we_reader E) (take r buf @ d) = 0 \<and> ?full)" using assms(2,5) by auto
  show "queue_of (then_run (handle_data E now src ?buf r (length d) last_time False st)
      (\<lambda>(buf', r', last', st'). Ret (buf', r', st'))) = consume E src (take r buf @ d) (wv_process st)"
    using loop_consume [OF l(2), of E now src ?full st] id cut unfolding code then_run_assoc t by (simp add: split_def)
  show "length buf' = length buf \<and> r' \<le> length buf \<and> last' = now"
    if "handle_data E now src ?buf r (length d) last_time False st = Ret (buf', r', last', st')"
  proof -
    from that have "handle_data_loop E now src ?buf (r + length d) ?full st = Ret (buf', r', st')" and "last' = now"
      unfolding code by (simp_all add: then_run_Ret_iff split_def) (metis prod.collapse)
    with loop_leaves [OF this(1) l(2) assms(1)] l(3) fits show ?thesis by simp
  qed
qed

text \<open>C21: How the bytes were cut into chunks does not matter. When no chunk finds bytes waiting
  that have timed out (by the code's comparison of 32-bit tick counts), and none overruns the buffer or fills it with no complete message at
  its front, the messages handled, the replies sent and the bytes left over are those of all
  the bytes in one piece, whatever the chunks and however many bytes they are in all; this
  includes when the device stops. A chunk may come at any later time while nothing is waiting.
  The clock is taken not to run back, which the code asserts, and TinyCBOR to find no message
  longer than the data and the same message, with the same answers to the questions the code
  asks of it, whatever bytes follow it.\<close>

theorem chunks_do_not_matter:
  assumes "message_within (we_reader E)" and "self_delimiting (we_reader E)"
    and "length buf = max_input_msg_size (we_build E)" and "r \<le> length buf"
    and "message_length (we_reader E) (take r buf) = 0" and "in_time E (take r buf) last_time chunks"
  shows "then_run (feed E src chunks buf r last_time st) (\<lambda>(buf', r', last', st'). Ret (take r' buf', wv_process st'))
    = consume E src (take r buf @ concat (map snd chunks)) (wv_process st)"
  using assms(3-)
proof (induction chunks arbitrary: buf r last_time st)
  case Nil
  then show ?case by (simp add: consume_cases(1))
next
  case (Cons chunk chunks)
  obtain now d where chunk: "chunk = (now, d)" by (cases chunk)
  let ?buf = "take r buf @ d @ drop (r + length d) buf"
  let ?ds = "concat (map snd chunks)"
  have d: "last_time \<le> now" "r = 0 \<or> \<not> timed_out E now last_time"
      "r + length d < length buf \<or> r + length d = length buf \<and> message_length (we_reader E) (take r buf @ d) \<noteq> 0"
    and later: "in_time E (leftover (we_reader E) (take r buf @ d)) now chunks"
    using Cons.prems by (auto simp: chunk Let_def)
  note call = handle_data_in_time [OF assms(1) Cons.prems(1) d, of src st]
  have whole: "consume E src (take r buf @ concat (map snd (chunk # chunks))) (wv_process st)
    = then_run (consume E src (take r buf @ d) (wv_process st)) (\<lambda>(rest, p). consume E src (rest @ ?ds) p)"
    using consume_append [OF assms(2,1), of src "take r buf @ d" ?ds "wv_process st"] by (simp add: chunk)
  show ?case
  proof (cases "handle_data E now src ?buf r (length d) last_time False st")
    case (Ret a)
    obtain buf' r' last' st' where a: "a = (buf', r', last', st')" by (cases a)
    have c: "consume E src (take r buf @ d) (wv_process st) = Ret (take r' buf', wv_process st')"
      using call(1) Ret a by simp
    have l: "length buf' = length buf" "r' \<le> length buf" "last' = now" using call(2) Ret a by simp_all
    have left: "take r' buf' = leftover (we_reader E) (take r buf @ d)" using consume_leftover [OF c] .
    have "message_length (we_reader E) (take r' buf') = 0" unfolding left by (rule leftover_none [OF assms(1)])
    with Cons.IH [of buf' r' now st'] Cons.prems(1) l later left show ?thesis
      unfolding whole c by (simp add: chunk Ret a)
  qed (use call(1) whole in \<open>simp_all add: chunk\<close>)
qed

text \<open>The second chunk ends a message, so the third may come after any time.\<close>

theorem chunks_do_not_matter_witness:
  "then_run (feed (demo_env frame_reader 64) SOURCE_SERIAL [(10, [1, 1]), (20, [1]), (90000, [1, 2, 9, 7])] ([5, 1] @ replicate 62 0) 2 0 demo_wire)
      (\<lambda>(buf', r', last', st'). Ret (take r' buf', wv_process st'))
    = consume (demo_env frame_reader 64) SOURCE_SERIAL [5, 1, 1, 1, 1, 1, 2, 9, 7] demo_process"
proof -
  let ?E = "demo_env frame_reader 64"
  have "in_time ?E [5, 1] 0 [(10, [1, 1]), (20, [1]), (90000, [1, 2, 9, 7])]"
    by (simp add: timed_out_def frame_length leftover.simps)
  moreover have "message_length frame_reader [5, 1] = 0" by (simp add: frame_length)
  ultimately show ?thesis
    using chunks_do_not_matter [of ?E "[5, 1] @ replicate 62 0" 2 0 "[(10, [1, 1]), (20, [1]), (90000, [1, 2, 9, 7])]" SOURCE_SERIAL demo_wire]
      frame_within frame_self_delimiting
    by (simp add: demo_wire_def)
qed

end
