(* ===== verification/Jade_Wallet.thy ===== *)
theory Jade_Wallet
  imports Jade_Keychain
begin

text \<open>
  \<^verbatim>\<open>src/main/wallet.c\<close>: paths, script variants, public keys and the scripts of single-sig,
  multisig and Green wallets, with the path helpers of \<^verbatim>\<open>utils/util.h\<close> and \<^verbatim>\<open>util.c\<close>. The
  keychain, which the functions fetch with \<^verbatim>\<open>keychain_get\<close>, is an argument; the functions
  that only assert it is there take it for that. libwally's keys, encodings and script
  builders are the record \<^verbatim>\<open>wallet_lib\<close>; output buffers are results, so a function that
  returns \<^verbatim>\<open>false\<close> gives \<^verbatim>\<open>None\<close>. Pointers that no caller passes as null are values.
\<close>

section \<open>The library\<close>

text \<open>
  \<^verbatim>\<open>witness_program\<close>, \<^verbatim>\<open>multisig_script\<close>, \<^verbatim>\<open>csv_script\<close> and \<^verbatim>\<open>p2tr_script\<close> take their flag
  first: SHA-256 (else HASH160), sorted, optimised and Elements.
\<close>

record 'x wallet_lib =
  wl_keys :: "'x key_lib"
  key_priv_key :: "'x \<Rightarrow> bytes"
  key_hash160 :: "'x \<Rightarrow> bytes"
  key_with_version :: "u32 \<Rightarrow> 'x \<Rightarrow> 'x"
  key_from_base58 :: "string \<Rightarrow> 'x option"
  key_to_base58 :: "'x \<Rightarrow> string option"
  key_serialize_public :: "'x \<Rightarrow> bytes option"
  base58_to_bytes :: "string \<Rightarrow> bytes option"
  base58_from_bytes :: "bytes \<Rightarrow> string option"
  path_from_str :: "string \<Rightarrow> u32 list option"
  path_str_is_hardened :: "string \<Rightarrow> bool option"
  hex_from_bytes :: "bytes \<Rightarrow> string option"
  hex_to_bytes :: "string \<Rightarrow> bytes option"
  witness_program :: "bool \<Rightarrow> bytes \<Rightarrow> bytes option"
  p2sh_script :: "bytes \<Rightarrow> bytes option"
  p2pkh_script :: "bytes \<Rightarrow> bytes option"
  p2tr_script :: "bool \<Rightarrow> bytes \<Rightarrow> bytes option"
  multisig_script :: "bool \<Rightarrow> nat \<Rightarrow> bytes \<Rightarrow> bytes option"
  csv_script :: "bool \<Rightarrow> nat \<Rightarrow> bytes \<Rightarrow> bytes option"

section \<open>Path elements\<close>

definition BIP32_INITIAL_HARDENED_CHILD :: u32 where "BIP32_INITIAL_HARDENED_CHILD = 0x80000000"

definition ishardened :: "u32 \<Rightarrow> bool" where "ishardened n \<longleftrightarrow> n AND 0x80000000 \<noteq> 0"
definition harden :: "u32 \<Rightarrow> u32" where "harden n = n OR 0x80000000"
definition unharden :: "u32 \<Rightarrow> u32" where "unharden n = n AND NOT 0x80000000"

text \<open>The loop, from element \<^verbatim>\<open>i\<close> on.\<close>

fun unhardened_tail :: "nat \<Rightarrow> nat \<Rightarrow> u32 list \<Rightarrow> nat" where
  "unhardened_tail i path_tail_start [] = path_tail_start"
| "unhardened_tail i path_tail_start (p # path) =
     unhardened_tail (Suc i) (if ishardened p then i + 1 else path_tail_start) path"

definition path_get_unhardened_tail_index :: "u32 list \<Rightarrow> nat" where
  "path_get_unhardened_tail_index path = unhardened_tail 0 0 path"

definition GASERVICE_PATH_LEN :: nat where "GASERVICE_PATH_LEN = 32"
definition GASERVICE_ROOT_PATH_LEN :: nat where "GASERVICE_ROOT_PATH_LEN = 1 + 32"
definition MAX_GASERVICE_PATH_TAIL_LEN :: nat where "MAX_GASERVICE_PATH_TAIL_LEN = 1 + 1"
definition MAX_GASERVICE_PATH_LEN :: nat where
  "MAX_GASERVICE_PATH_LEN = GASERVICE_ROOT_PATH_LEN + MAX_GASERVICE_PATH_TAIL_LEN"
definition GA_USER_PATH_MAX_LEN :: nat where "GA_USER_PATH_MAX_LEN = 4"
definition GA_RECOVERY_PATH_LEN :: nat where "GA_RECOVERY_PATH_LEN = 2"

definition MAX_PATH_STR_LEN :: "nat \<Rightarrow> nat" where
  "MAX_PATH_STR_LEN max_path_elems = 1 + ((1 + 10 + 1) * max_path_elems) + 1"

definition is_potential_green_recovery_path :: "u32 list \<Rightarrow> bool" where
  "is_potential_green_recovery_path path \<longleftrightarrow>
     (if length path \<noteq> GA_RECOVERY_PATH_LEN then False else path ! 0 = 1 \<and> \<not> ishardened (path ! 1))"

text \<open>The subaccount of the path.\<close>

definition is_potential_green_user_path :: "u32 list \<Rightarrow> u32 option" where
  "is_potential_green_user_path path =
     (if length path \<noteq> GA_USER_PATH_MAX_LEN
      then if is_potential_green_recovery_path path then Some 0 else None
      else if path ! 0 = harden 3 \<and> ishardened (path ! 1) \<and> path ! 2 = 1 \<and> path ! 3 \<noteq> 0 \<and> \<not> ishardened (path ! 3)
      then Some (unharden (path ! 1))
      else None)"

definition is_potential_green_server_path :: "u32 list \<Rightarrow> u32 option" where
  "is_potential_green_server_path path =
     (let path_len = length path;
          tail_len = (if path_len = MAX_GASERVICE_PATH_LEN then 2 else 1)
      in if path_len = MAX_GASERVICE_PATH_LEN - 1 \<and> path ! 0 \<noteq> 1 then None
         else if path_len = MAX_GASERVICE_PATH_LEN \<and> path ! 0 \<noteq> 3 then None
         else if path_len \<noteq> MAX_GASERVICE_PATH_LEN - 1 \<and> path_len \<noteq> MAX_GASERVICE_PATH_LEN then None
         else if list_ex (\<lambda>i. i < path_len - tail_len \<and> path ! i > 0xffff \<or> ishardened (path ! i)) [1..<path_len]
         then None
         else Some (if path_len = MAX_GASERVICE_PATH_LEN then path ! (path_len - 2) else 0))"

section \<open>Constants\<close>

definition SUBACT_ROOT :: u32 where "SUBACT_ROOT = BIP32_INITIAL_HARDENED_CHILD + 3"
definition SUBACT_FLOOR :: u32 where "SUBACT_FLOOR = BIP32_INITIAL_HARDENED_CHILD"
definition SUBACT_CEILING :: u32 where "SUBACT_CEILING = BIP32_INITIAL_HARDENED_CHILD + 16384"
definition PATH_BRANCH :: u32 where "PATH_BRANCH = 1"
definition MAX_PATH_PTR :: u32 where "MAX_PATH_PTR = 10000"
definition BIP44_COIN_BTC :: u32 where "BIP44_COIN_BTC = BIP32_INITIAL_HARDENED_CHILD"
definition BIP44_COIN_TEST :: u32 where "BIP44_COIN_TEST = BIP32_INITIAL_HARDENED_CHILD + 1"
definition BIP44_COIN_LTC :: u32 where "BIP44_COIN_LTC = BIP32_INITIAL_HARDENED_CHILD + 2"
definition BIP44_COIN_LBTC :: u32 where "BIP44_COIN_LBTC = BIP32_INITIAL_HARDENED_CHILD + 1776"
definition BIP44_PURPOSE :: u32 where "BIP44_PURPOSE = BIP32_INITIAL_HARDENED_CHILD + 44"
definition BIP45_PURPOSE :: u32 where "BIP45_PURPOSE = BIP32_INITIAL_HARDENED_CHILD + 45"
definition BIP48_PURPOSE :: u32 where "BIP48_PURPOSE = BIP32_INITIAL_HARDENED_CHILD + 48"
definition BIP49_PURPOSE :: u32 where "BIP49_PURPOSE = BIP32_INITIAL_HARDENED_CHILD + 49"
definition BIP84_PURPOSE :: u32 where "BIP84_PURPOSE = BIP32_INITIAL_HARDENED_CHILD + 84"
definition BIP86_PURPOSE :: u32 where "BIP86_PURPOSE = BIP32_INITIAL_HARDENED_CHILD + 86"
definition MAX_ALLOWED_SIGNERS :: nat where "MAX_ALLOWED_SIGNERS = 15"
definition MAX_CSV_BLOCKS_ALLOWED :: nat where "MAX_CSV_BLOCKS_ALLOWED = 65535"

definition EC_PUBLIC_KEY_LEN :: nat where "EC_PUBLIC_KEY_LEN = 33"
definition BIP32_SERIALIZED_LEN :: nat where "BIP32_SERIALIZED_LEN = 78"
definition BIP32_KEY_FINGERPRINT_LEN :: nat where "BIP32_KEY_FINGERPRINT_LEN = 4"
definition WALLY_SCRIPTPUBKEY_P2PKH_LEN :: nat where "WALLY_SCRIPTPUBKEY_P2PKH_LEN = 25"
definition WALLY_SCRIPTPUBKEY_P2SH_LEN :: nat where "WALLY_SCRIPTPUBKEY_P2SH_LEN = 23"
definition WALLY_SCRIPTPUBKEY_P2WPKH_LEN :: nat where "WALLY_SCRIPTPUBKEY_P2WPKH_LEN = 22"
definition WALLY_SCRIPTPUBKEY_P2WSH_LEN :: nat where "WALLY_SCRIPTPUBKEY_P2WSH_LEN = 34"
definition WALLY_SCRIPTPUBKEY_P2TR_LEN :: nat where "WALLY_SCRIPTPUBKEY_P2TR_LEN = 34"

lemmas script_sizes = EC_PUBLIC_KEY_LEN_def BIP32_SERIALIZED_LEN_def WALLY_SCRIPTPUBKEY_P2PKH_LEN_def
  WALLY_SCRIPTPUBKEY_P2SH_LEN_def WALLY_SCRIPTPUBKEY_P2WPKH_LEN_def WALLY_SCRIPTPUBKEY_P2WSH_LEN_def
  WALLY_SCRIPTPUBKEY_P2TR_LEN_def

definition MULTISIG_SCRIPT_LEN :: "nat \<Rightarrow> nat" where
  "MULTISIG_SCRIPT_LEN n = 3 + (n * (EC_PUBLIC_KEY_LEN + 1))"
definition CSV_MIN_SCRIPT_LEN :: nat where "CSV_MIN_SCRIPT_LEN = 9 + (2 * (EC_PUBLIC_KEY_LEN + 1)) + 1 + 1"
definition CSV_MAX_SCRIPT_LEN :: nat where "CSV_MAX_SCRIPT_LEN = 9 + (2 * (EC_PUBLIC_KEY_LEN + 1)) + 1 + 3"
definition CSV_MIN_SCRIPT_LEN_OPT :: nat where "CSV_MIN_SCRIPT_LEN_OPT = 6 + (2 * (EC_PUBLIC_KEY_LEN + 1)) + 1 + 1"
definition CSV_MAX_SCRIPT_LEN_OPT :: nat where "CSV_MAX_SCRIPT_LEN_OPT = 6 + (2 * (EC_PUBLIC_KEY_LEN + 1)) + 1 + 3"

section \<open>Script variants\<close>

text \<open>
  An enum variable loaded from a stored byte may hold a number no constant has:
  \<^verbatim>\<open>VARIANT_OTHER\<close>.
\<close>

datatype script_variant_t = GREEN | P2PKH | P2WPKH | P2WPKH_P2SH | MULTI_P2WSH | MULTI_P2SH | MULTI_P2WSH_P2SH
  | P2TR | VARIANT_OTHER byte

fun variant_byte :: "script_variant_t \<Rightarrow> byte" where
  "variant_byte GREEN = 0"
| "variant_byte P2PKH = 1"
| "variant_byte P2WPKH = 2"
| "variant_byte P2WPKH_P2SH = 3"
| "variant_byte MULTI_P2WSH = 4"
| "variant_byte MULTI_P2SH = 5"
| "variant_byte MULTI_P2WSH_P2SH = 6"
| "variant_byte P2TR = 7"
| "variant_byte (VARIANT_OTHER b) = b"

definition variant_of_byte :: "byte \<Rightarrow> script_variant_t" where
  "variant_of_byte b =
     (case find (\<lambda>v. variant_byte v = b)
        [GREEN, P2PKH, P2WPKH, P2WPKH_P2SH, MULTI_P2WSH, MULTI_P2SH, MULTI_P2WSH_P2SH, P2TR] of
        Some v \<Rightarrow> v | None \<Rightarrow> VARIANT_OTHER b)"

definition VARIANT_P2PKH :: string where "VARIANT_P2PKH = ''pkh(k)''"
definition VARIANT_P2WPKH :: string where "VARIANT_P2WPKH = ''wpkh(k)''"
definition VARIANT_P2WPKH_P2SH :: string where "VARIANT_P2WPKH_P2SH = ''sh(wpkh(k))''"
definition VARIANT_P2TR :: string where "VARIANT_P2TR = ''tr(k)''"
definition VARIANT_MULTI_P2WSH :: string where "VARIANT_MULTI_P2WSH = ''wsh(multi(k))''"
definition VARIANT_MULTI_P2SH :: string where "VARIANT_MULTI_P2SH = ''sh(multi(k))''"
definition VARIANT_MULTI_P2WSH_P2SH :: string where "VARIANT_MULTI_P2WSH_P2SH = ''sh(wsh(multi(k)))''"

fun script_length_for_variant :: "script_variant_t \<Rightarrow> nat" where
  "script_length_for_variant P2PKH = WALLY_SCRIPTPUBKEY_P2PKH_LEN"
| "script_length_for_variant P2WPKH = WALLY_SCRIPTPUBKEY_P2WPKH_LEN"
| "script_length_for_variant P2TR = WALLY_SCRIPTPUBKEY_P2TR_LEN"
| "script_length_for_variant GREEN = WALLY_SCRIPTPUBKEY_P2SH_LEN"
| "script_length_for_variant P2WPKH_P2SH = WALLY_SCRIPTPUBKEY_P2SH_LEN"
| "script_length_for_variant MULTI_P2SH = WALLY_SCRIPTPUBKEY_P2SH_LEN"
| "script_length_for_variant MULTI_P2WSH_P2SH = WALLY_SCRIPTPUBKEY_P2SH_LEN"
| "script_length_for_variant MULTI_P2WSH = WALLY_SCRIPTPUBKEY_P2WSH_LEN"
| "script_length_for_variant (VARIANT_OTHER b) = 0"

definition get_script_variant_string :: "script_variant_t \<Rightarrow> string option" where
  "get_script_variant_string variant =
     (case variant of P2PKH \<Rightarrow> Some VARIANT_P2PKH | P2WPKH \<Rightarrow> Some VARIANT_P2WPKH
      | P2WPKH_P2SH \<Rightarrow> Some VARIANT_P2WPKH_P2SH | P2TR \<Rightarrow> Some VARIANT_P2TR
      | MULTI_P2WSH \<Rightarrow> Some VARIANT_MULTI_P2WSH | MULTI_P2SH \<Rightarrow> Some VARIANT_MULTI_P2SH
      | MULTI_P2WSH_P2SH \<Rightarrow> Some VARIANT_MULTI_P2WSH_P2SH | _ \<Rightarrow> None)"

definition get_script_variant_purpose :: "script_variant_t \<Rightarrow> u32 run" where
  "get_script_variant_purpose variant =
     (case variant of P2PKH \<Rightarrow> Ret BIP44_PURPOSE | P2WPKH \<Rightarrow> Ret BIP84_PURPOSE | P2WPKH_P2SH \<Rightarrow> Ret BIP49_PURPOSE
      | P2TR \<Rightarrow> Ret BIP86_PURPOSE | MULTI_P2SH \<Rightarrow> Ret BIP45_PURPOSE | MULTI_P2WSH \<Rightarrow> Ret BIP48_PURPOSE
      | MULTI_P2WSH_P2SH \<Rightarrow> Ret BIP48_PURPOSE | _ \<Rightarrow> Crash)"

definition get_script_variant :: "string option \<Rightarrow> nat \<Rightarrow> script_variant_t option" where
  "get_script_variant variant variant_len =
     (case variant of
        None \<Rightarrow> Some GREEN
      | Some v \<Rightarrow>
          if variant_len = 0 then Some GREEN
          else if v = VARIANT_P2PKH then Some P2PKH
          else if v = VARIANT_P2WPKH then Some P2WPKH
          else if v = VARIANT_P2WPKH_P2SH then Some P2WPKH_P2SH
          else if v = VARIANT_P2TR then Some P2TR
          else if v = VARIANT_MULTI_P2SH then Some MULTI_P2SH
          else if v = VARIANT_MULTI_P2WSH then Some MULTI_P2WSH
          else if v = VARIANT_MULTI_P2WSH_P2SH then Some MULTI_P2WSH_P2SH
          else None)"

definition get_singlesig_variant_from_script_type :: "script_type \<Rightarrow> script_variant_t option" where
  "get_singlesig_variant_from_script_type t =
     (case t of WALLY_SCRIPT_TYPE_P2WPKH \<Rightarrow> Some P2WPKH | WALLY_SCRIPT_TYPE_P2PKH \<Rightarrow> Some P2PKH
      | WALLY_SCRIPT_TYPE_P2SH \<Rightarrow> Some P2WPKH_P2SH | WALLY_SCRIPT_TYPE_P2TR \<Rightarrow> Some P2TR | _ \<Rightarrow> None)"

definition is_greenaddress :: "script_variant_t \<Rightarrow> bool" where
  "is_greenaddress variant \<longleftrightarrow> variant = GREEN"

definition is_singlesig :: "script_variant_t \<Rightarrow> bool" where
  "is_singlesig variant \<longleftrightarrow> variant = P2PKH \<or> variant = P2WPKH \<or> variant = P2WPKH_P2SH \<or> variant = P2TR"

definition is_multisig :: "script_variant_t \<Rightarrow> bool" where
  "is_multisig variant \<longleftrightarrow> variant = MULTI_P2SH \<or> variant = MULTI_P2WSH \<or> variant = MULTI_P2WSH_P2SH"

section \<open>Paths\<close>

text \<open>
  \<^verbatim>\<open>text_so_far\<close> is everything the \<^verbatim>\<open>snprintf\<close> calls produced: its length is \<^verbatim>\<open>pos\<close>, and the
  buffer keeps all of it but its last place, which is the zero's.
\<close>

fun path_elements :: "nat \<Rightarrow> bool \<Rightarrow> bool \<Rightarrow> u32 list \<Rightarrow> string \<Rightarrow> string option" where
  "path_elements output_len path_only is_first [] text_so_far = Some (take (output_len - 1) text_so_far)"
| "path_elements output_len path_only is_first (p # parts) text_so_far =
     (let item = (if path_only \<and> is_first then [] else ''/'') @ decimal_string (unat (unharden p))
                   @ (if ishardened p then [CHR 0x27] else [])
      in if length item > output_len - length text_so_far then None
         else path_elements output_len path_only False parts (text_so_far @ item))"

definition wallet_bip32_path_as_str :: "u32 list \<Rightarrow> nat \<Rightarrow> bool \<Rightarrow> string option run" where
  "wallet_bip32_path_as_str parts output_len path_only =
     jade_assert (output_len > 16)
       (Ret (path_elements output_len path_only True parts (if path_only then [] else ''m'')))"

definition wallet_bip32_path_from_str :: "'x wallet_lib \<Rightarrow> string \<Rightarrow> nat \<Rightarrow> u32 list option" where
  "wallet_bip32_path_from_str L pathstr path_len =
     (case path_from_str L pathstr of
        None \<Rightarrow> None
      | Some path \<Rightarrow> if length path > path_len then None else Some path)"

fun get_bip44_coin_type :: "network_t \<Rightarrow> u32 run" where
  "get_bip44_coin_type NETWORK_BITCOIN = Ret BIP44_COIN_BTC"
| "get_bip44_coin_type NETWORK_LITECOIN = Ret BIP44_COIN_LTC"
| "get_bip44_coin_type NETWORK_LIQUID = Ret BIP44_COIN_LBTC"
| "get_bip44_coin_type NETWORK_BITCOIN_TESTNET = Ret BIP44_COIN_TEST"
| "get_bip44_coin_type NETWORK_LIQUID_TESTNET = Ret BIP44_COIN_TEST"
| "get_bip44_coin_type NETWORK_BITCOIN_REGTEST = Ret BIP44_COIN_TEST"
| "get_bip44_coin_type NETWORK_LIQUID_REGTEST = Ret BIP44_COIN_TEST"
| "get_bip44_coin_type NETWORK_LITECOIN_TESTNET = Ret BIP44_COIN_TEST"
| "get_bip44_coin_type NETWORK_LITECOIN_REGTEST = Ret BIP44_COIN_TEST"
| "get_bip44_coin_type NETWORK_NONE = Crash"

definition wallet_get_default_xpub_export_path :: "network_t \<Rightarrow> script_variant_t \<Rightarrow> u16 \<Rightarrow> u32 list run" where
  "wallet_get_default_xpub_export_path network_id variant account =
     jade_assert (\<not> is_greenaddress variant) (
     then_run (get_script_variant_purpose variant) (\<lambda>purpose.
     if variant = MULTI_P2SH then Ret [purpose]
     else then_run (get_bip44_coin_type network_id) (\<lambda>coin_type.
       Ret ([purpose, coin_type, harden (ucast account)]
            @ (if is_multisig variant
               then [harden (if variant = MULTI_P2WSH then 2 else if variant = MULTI_P2WSH_P2SH then 1 else 0)]
               else [])))))"

definition wallet_is_expected_singlesig_path ::
  "network_t \<Rightarrow> script_variant_t \<Rightarrow> bool \<Rightarrow> u32 list \<Rightarrow> bool run" where
  "wallet_is_expected_singlesig_path network_id script_variant is_change path =
     jade_assert (is_singlesig script_variant) (
     if length path \<noteq> 5 then Ret False
     else then_run (get_script_variant_purpose script_variant) (\<lambda>purpose.
       if path ! 0 \<noteq> purpose then Ret False
       else then_run (get_bip44_coin_type network_id) (\<lambda>expected_coin_type.
         if path ! 1 \<noteq> expected_coin_type then Ret False
         else if path ! 2 < SUBACT_FLOOR \<or> path ! 2 \<ge> SUBACT_CEILING then Ret False
         else if path ! 3 \<noteq> (if is_change then 1 else 0) then Ret False
         else if path ! 4 \<ge> MAX_PATH_PTR then Ret False
         else Ret True)))"

text \<open>The cosigner's index is compared as the 32-bit element of the path.\<close>

definition wallet_is_expected_multisig_path :: "nat \<Rightarrow> bool \<Rightarrow> u32 list \<Rightarrow> bool" where
  "wallet_is_expected_multisig_path cosigner_index is_change path =
     (let path_len = length path in
      if path_len = 0 \<or> path_len > 3 then False
      else if path_len > 0 \<and> path ! (path_len - 1) \<ge> MAX_PATH_PTR then False
      else if path_len > 1 \<and> path ! (path_len - 2) \<noteq> (if is_change then 1 else 0) then False
      else if path_len > 2 \<and> unat (path ! (path_len - 3)) \<noteq> cosigner_index then False
      else True)"

definition wallet_build_receive_path :: "u32 \<Rightarrow> u32 \<Rightarrow> u32 \<Rightarrow> u32 list" where
  "wallet_build_receive_path subaccount branch pointer =
     (if subaccount > 0 then [SUBACT_ROOT, harden subaccount, branch, pointer] else [branch, pointer])"

text \<open>The tail of the service's path, and whether it is a subaccount's.\<close>

definition wallet_get_gaservice_path_tail :: "u32 list \<Rightarrow> (u32 list \<times> bool) option" where
  "wallet_get_gaservice_path_tail path =
     (if length path = 2 \<and> path ! 0 = PATH_BRANCH \<and> path ! 1 < MAX_PATH_PTR then Some ([path ! 1], False)
      else if length path = 4 \<and> path ! 0 = SUBACT_ROOT \<and> path ! 1 > SUBACT_FLOOR \<and> path ! 1 < SUBACT_CEILING
        \<and> path ! 2 = PATH_BRANCH \<and> path ! 3 < MAX_PATH_PTR
      then Some ([unharden (path ! 1), path ! 3], True)
      else None)"

definition wallet_get_gaservice_path :: "'x keychain_t option \<Rightarrow> u32 list \<Rightarrow> u32 list option run" where
  "wallet_get_gaservice_path kc path =
     (if length path = 0 then Ret None
      else case wallet_get_gaservice_path_tail path of
        None \<Rightarrow> Ret None
      | Some (tail, is_subaccount_path) \<Rightarrow>
          then_run (wallet_get_gaservice_path_root kc is_subaccount_path) (\<lambda>root. Ret (Some (root @ tail))))"

end
