(* ===== verification/Jade_Scripts.thy ===== *)
theory Jade_Scripts
  imports Jade_Wallet
begin

text \<open>
  The second part of \<^verbatim>\<open>src/main/wallet.c\<close>: deriving keys and building the scripts of
  single-sig, multisig and Green wallets, and the search for a script among the leaves of
  a key.
\<close>

section \<open>Keys\<close>

text \<open>An error of the derivation itself stops the device; a key that does not parse does not.\<close>

definition wallet_derive_pubkey :: "'x wallet_lib \<Rightarrow> bytes \<Rightarrow> u32 list \<Rightarrow> 'x option run" where
  "wallet_derive_pubkey L serialised_key path =
     (if length serialised_key \<noteq> BIP32_SERIALIZED_LEN then Ret None
      else if length path > 0
      then case bip32_key_unserialize (wl_keys L) serialised_key of
             None \<Rightarrow> Ret None
           | Some root \<Rightarrow> then_run (wally_verify (bip32_public_child (wl_keys L) root path)) (\<lambda>hdkey. Ret (Some hdkey))
      else Ret (bip32_key_unserialize (wl_keys L) serialised_key))"

definition wallet_derive_from_xpub :: "'x wallet_lib \<Rightarrow> string \<Rightarrow> u32 list \<Rightarrow> 'x option run" where
  "wallet_derive_from_xpub L xpub path =
     (case base58_to_bytes L xpub of
        None \<Rightarrow> Ret None
      | Some bs \<Rightarrow> if length bs \<noteq> BIP32_SERIALIZED_LEN then Ret None else wallet_derive_pubkey L bs path)"

definition wallet_get_privkey :: "'x wallet_lib \<Rightarrow> 'x keychain_t option \<Rightarrow> u32 list \<Rightarrow> bytes run" where
  "wallet_get_privkey L kc path =
     (case kc of None \<Rightarrow> Crash
      | Some k \<Rightarrow> jade_assert (length path > 0) (
          then_run (wally_verify (bip32_private_child (wl_keys L) (kd_xpriv k) path)) (\<lambda>derived.
          Ret (drop 1 (key_priv_key L derived)))))"

definition wallet_get_fingerprint :: "'x wallet_lib \<Rightarrow> 'x keychain_t option \<Rightarrow> bytes run" where
  "wallet_get_fingerprint L kc =
     (case kc of None \<Rightarrow> Crash | Some k \<Rightarrow> Ret (take BIP32_KEY_FINGERPRINT_LEN (key_hash160 L (kd_xpriv k))))"

text \<open>\<^verbatim>\<open>public\<close> is the flag \<^verbatim>\<open>BIP32_FLAG_KEY_PUBLIC\<close>; the root itself is copied as it is.\<close>

definition wallet_get_hdkey :: "'x wallet_lib \<Rightarrow> 'x keychain_t option \<Rightarrow> u32 list \<Rightarrow> bool \<Rightarrow> 'x option run" where
  "wallet_get_hdkey L kc path public =
     (case kc of None \<Rightarrow> Crash
      | Some k \<Rightarrow>
          if length path = 0 then Ret (Some (kd_xpriv k))
          else Ret ((if public then bip32_public_child else bip32_private_child) (wl_keys L) (kd_xpriv k) path))"

definition wallet_get_xpub ::
  "'x wallet_lib \<Rightarrow> wally_consts \<Rightarrow> 'x keychain_t option \<Rightarrow> network_t \<Rightarrow> u32 list \<Rightarrow> string option run" where
  "wallet_get_xpub L w kc network_id path =
     jade_assert (kc \<noteq> None) (
     then_run (network_to_bip32_version w network_id) (\<lambda>version.
     then_run (wallet_get_hdkey L kc path True) (\<lambda>derived.
     case derived of
       None \<Rightarrow> Ret None
     | Some d \<Rightarrow> then_run (wally_verify (key_to_base58 L (key_with_version L version d))) (\<lambda>xpub. Ret (Some xpub)))))"

definition wallet_hmac_with_master_key :: "'x wallet_lib \<Rightarrow> 'x keychain_t option \<Rightarrow> bytes \<Rightarrow> bytes option run" where
  "wallet_hmac_with_master_key L kc data =
     (case kc of None \<Rightarrow> Crash
      | Some k \<Rightarrow>
          if length data = 0 then Ret None
          else Ret (Some (wally_hmac_sha256 (wl_keys L) (drop 1 (key_priv_key L (kd_xpriv k))) data)))"

section \<open>The Green service\<close>

text \<open>A pointer to a service key is its number: main, test, liquid, liquid test.\<close>

fun network_to_ga_service :: "network_t \<Rightarrow> nat option" where
  "network_to_ga_service NETWORK_BITCOIN = Some 0"
| "network_to_ga_service NETWORK_LIQUID = Some 2"
| "network_to_ga_service NETWORK_BITCOIN_TESTNET = Some 1"
| "network_to_ga_service NETWORK_BITCOIN_REGTEST = Some 1"
| "network_to_ga_service NETWORK_LIQUID_REGTEST = Some 1"
| "network_to_ga_service NETWORK_LIQUID_TESTNET = Some 3"
| "network_to_ga_service NETWORK_LITECOIN = None"
| "network_to_ga_service NETWORK_LITECOIN_TESTNET = None"
| "network_to_ga_service NETWORK_LITECOIN_REGTEST = None"
| "network_to_ga_service NETWORK_NONE = None"

definition wallet_get_gaservice_fingerprint :: "'x wallet_lib \<Rightarrow> network_t \<Rightarrow> bytes option" where
  "wallet_get_gaservice_fingerprint L network_id =
     map_option (\<lambda>v. take BIP32_KEY_FINGERPRINT_LEN (key_hash160 L (service_key (wl_keys L) v)))
       (network_to_ga_service network_id)"

definition wallet_get_gaservice_key ::
  "'x wallet_lib \<Rightarrow> network_t \<Rightarrow> u32 list \<Rightarrow> (('s, 'x) keychain_state, 'x option) act" where
  "wallet_get_gaservice_key L network_id path =
     andthen (inspect (\<lambda>st. insist (length path > 0 \<and> keychain_get st \<noteq> None))) (\<lambda>_.
     case network_to_ga_service network_id of
       None \<Rightarrow> give None
     | Some service \<Rightarrow>
         case wallet_get_gaservice_path_tail path of
           None \<Rightarrow> give None
         | Some (tail, is_subaccount_path) \<Rightarrow>
             andthen (keychain_cached_service (wl_keys L) (Some service) is_subaccount_path) (\<lambda>root.
             andthen (from_run (wally_verify root)) (\<lambda>root.
             andthen (from_run (wally_verify (bip32_public_child (wl_keys L) root tail))) (\<lambda>gakey.
             give (Some gakey)))))"

section \<open>Scripts\<close>

text \<open>\<^verbatim>\<open>sha\<close> is the flag \<^verbatim>\<open>WALLY_SCRIPT_SHA256\<close>, else \<^verbatim>\<open>WALLY_SCRIPT_HASH160\<close>.\<close>

definition wallet_p2sh_p2wsh_scriptpubkey_for_bytes :: "'x wallet_lib \<Rightarrow> bytes \<Rightarrow> bool \<Rightarrow> nat \<Rightarrow> bytes run" where
  "wallet_p2sh_p2wsh_scriptpubkey_for_bytes L bs sha output_len =
     jade_assert (length bs > 0) (
     jade_assert (output_len \<ge> WALLY_SCRIPTPUBKEY_P2SH_LEN) (
     then_run (wally_verify (witness_program L sha bs)) (\<lambda>redeem_script.
     jade_assert (length redeem_script = (if sha then WALLY_SCRIPTPUBKEY_P2WSH_LEN else WALLY_SCRIPTPUBKEY_P2WPKH_LEN)) (
     then_run (wally_verify (p2sh_script L redeem_script)) (\<lambda>out.
     jade_assert (length out = WALLY_SCRIPTPUBKEY_P2SH_LEN) (Ret out))))))"

definition wallet_build_multisig :: "'x wallet_lib \<Rightarrow> bool \<Rightarrow> nat \<Rightarrow> bytes \<Rightarrow> nat \<Rightarrow> bytes run" where
  "wallet_build_multisig L is_sorted threshold pubkeys output_len =
     (let num_pubkeys = length pubkeys div EC_PUBLIC_KEY_LEN in
     jade_assert (num_pubkeys * EC_PUBLIC_KEY_LEN = length pubkeys) (
     jade_assert (threshold > 0) (
     jade_assert (threshold \<le> num_pubkeys) (
     jade_assert (output_len \<ge> MULTISIG_SCRIPT_LEN num_pubkeys) (
     then_run (wally_verify (multisig_script L is_sorted threshold pubkeys)) (\<lambda>out.
     jade_assert (length out = MULTISIG_SCRIPT_LEN num_pubkeys) (Ret out)))))))"

definition wallet_build_csv :: "'x wallet_lib \<Rightarrow> network_t \<Rightarrow> bytes \<Rightarrow> nat \<Rightarrow> nat \<Rightarrow> bytes run" where
  "wallet_build_csv L network_id pubkeys blocks output_len =
     jade_assert (network_id \<noteq> NETWORK_NONE) (
     jade_assert (length pubkeys = 2 * EC_PUBLIC_KEY_LEN) (
     jade_assert (blocks > 0) (
     jade_assert (blocks \<le> MAX_CSV_BLOCKS_ALLOWED) (
     jade_assert (output_len \<ge> CSV_MAX_SCRIPT_LEN) (
     then_run (network_is_liquid network_id) (\<lambda>liquid.
     if liquid
     then then_run (wally_verify (csv_script L False blocks pubkeys)) (\<lambda>out.
       jade_assert (length out \<ge> CSV_MIN_SCRIPT_LEN \<and> length out \<le> CSV_MAX_SCRIPT_LEN) (Ret out))
     else then_run (wally_verify (csv_script L True blocks pubkeys)) (\<lambda>out.
       jade_assert (length out \<ge> CSV_MIN_SCRIPT_LEN_OPT \<and> length out \<le> CSV_MAX_SCRIPT_LEN_OPT) (Ret out))))))))"

definition wallet_build_ga_script_ex ::
  "'x wallet_lib \<Rightarrow> network_t \<Rightarrow> 'x option \<Rightarrow> 'x option \<Rightarrow> nat \<Rightarrow> u32 list \<Rightarrow> nat
    \<Rightarrow> (('s, 'x) keychain_state, bytes option) act" where
  "wallet_build_ga_script_ex L network_id user_key recovery_hdkey csv_blocks path output_len =
     andthen (inspect (\<lambda>st. insist (keychain_get st \<noteq> None))) (\<lambda>_.
     if csv_blocks > MAX_CSV_BLOCKS_ALLOWED \<or> length path = 0 \<or> output_len < script_length_for_variant GREEN
     then give None
     else if csv_blocks \<noteq> 0 \<and> recovery_hdkey \<noteq> None then give None
     else andthen (from_run (if csv_blocks \<noteq> 0 then network_is_allowable_csv_blocks network_id (of_nat csv_blocks)
                             else Ret True)) (\<lambda>allowed.
     if \<not> allowed then give None
     else andthen (wallet_get_gaservice_key L network_id path) (\<lambda>gakey.
     case gakey of
       None \<Rightarrow> give None
     | Some gakey \<Rightarrow>
     andthen (case user_key of
         Some k \<Rightarrow> give (Some (key_pub_key (wl_keys L) k))
       | None \<Rightarrow> andthen (inspect (\<lambda>st. from_run (wallet_get_hdkey L (keychain_get st) path True))) (\<lambda>derived.
           give (map_option (key_pub_key (wl_keys L)) derived))) (\<lambda>user_pubkey.
     case user_pubkey of
       None \<Rightarrow> give None
     | Some user_pubkey \<Rightarrow>
     let pubkeys = key_pub_key (wl_keys L) gakey @ user_pubkey
           @ (case recovery_hdkey of None \<Rightarrow> [] | Some r \<Rightarrow> key_pub_key (wl_keys L) r)
     in andthen (from_run
          (if csv_blocks \<noteq> 0 then wallet_build_csv L network_id pubkeys csv_blocks (MULTISIG_SCRIPT_LEN 3)
           else wallet_build_multisig L False 2 pubkeys (MULTISIG_SCRIPT_LEN 3))) (\<lambda>script.
        andthen (from_run (wallet_p2sh_p2wsh_scriptpubkey_for_bytes L script True output_len)) (\<lambda>out.
        give (Some out)))))))"

definition wallet_build_ga_script ::
  "'x wallet_lib \<Rightarrow> network_t \<Rightarrow> string option \<Rightarrow> nat \<Rightarrow> u32 list \<Rightarrow> nat
    \<Rightarrow> (('s, 'x) keychain_state, bytes option) act" where
  "wallet_build_ga_script L network_id xpubrecovery csv_blocks path output_len =
     andthen (inspect (\<lambda>st. insist (keychain_get st \<noteq> None))) (\<lambda>_.
     if csv_blocks > MAX_CSV_BLOCKS_ALLOWED \<or> length path = 0 \<or> output_len < script_length_for_variant GREEN
     then give None
     else case xpubrecovery of
       None \<Rightarrow> wallet_build_ga_script_ex L network_id None None csv_blocks path output_len
     | Some xpub \<Rightarrow>
         andthen (from_run (wallet_derive_from_xpub L xpub [path ! (length path - 1)])) (\<lambda>recovery_hdkey.
         case recovery_hdkey of
           None \<Rightarrow> give None
         | Some r \<Rightarrow> wallet_build_ga_script_ex L network_id None (Some r) csv_blocks path output_len))"

definition wallet_build_singlesig_script ::
  "'x wallet_lib \<Rightarrow> 'x keychain_t option \<Rightarrow> network_t \<Rightarrow> script_variant_t \<Rightarrow> 'x \<Rightarrow> nat \<Rightarrow> bytes option run" where
  "wallet_build_singlesig_script L kc network_id script_variant hdkey output_len =
     jade_assert (kc \<noteq> None) (
     if \<not> is_singlesig script_variant \<or> output_len < script_length_for_variant script_variant then Ret None
     else
       let pubkey = key_pub_key (wl_keys L) hdkey in
       then_run (case script_variant of
           P2WPKH_P2SH \<Rightarrow> wallet_p2sh_p2wsh_scriptpubkey_for_bytes L pubkey False output_len
         | P2WPKH \<Rightarrow> wally_verify (witness_program L False pubkey)
         | P2PKH \<Rightarrow> wally_verify (p2pkh_script L pubkey)
         | P2TR \<Rightarrow> then_run (network_is_liquid network_id) (\<lambda>liquid. wally_verify (p2tr_script L liquid pubkey))
         | _ \<Rightarrow> Crash) (\<lambda>out.
       jade_assert (length out = script_length_for_variant script_variant) (Ret (Some out))))"

definition wallet_build_multisig_script ::
  "'x wallet_lib \<Rightarrow> 'x keychain_t option \<Rightarrow> script_variant_t \<Rightarrow> bool \<Rightarrow> byte \<Rightarrow> bytes \<Rightarrow> nat \<Rightarrow> bytes option run" where
  "wallet_build_multisig_script L kc script_variant is_sorted threshold pubkeys output_len =
     jade_assert (kc \<noteq> None) (
     if \<not> is_multisig script_variant \<or> threshold = 0 \<or> length pubkeys = 0
        \<or> output_len < script_length_for_variant script_variant then Ret None
     else
       then_run (wallet_build_multisig L is_sorted (unat threshold) pubkeys (MULTISIG_SCRIPT_LEN MAX_ALLOWED_SIGNERS)) (\<lambda>multisig_script.
       then_run (case script_variant of
           MULTI_P2WSH_P2SH \<Rightarrow> wallet_p2sh_p2wsh_scriptpubkey_for_bytes L multisig_script True output_len
         | MULTI_P2WSH \<Rightarrow> wally_verify (witness_program L True multisig_script)
         | MULTI_P2SH \<Rightarrow> wally_verify (p2sh_script L multisig_script)
         | _ \<Rightarrow> Crash) (\<lambda>out.
       jade_assert (length out = script_length_for_variant script_variant) (Ret (Some out)))))"

section \<open>Searching for a script\<close>

text \<open>The loops over the leaves: whether the script was found, and the index reached.\<close>

fun search_leaves :: "(nat \<Rightarrow> bytes option run) \<Rightarrow> bytes \<Rightarrow> nat \<Rightarrow> nat \<Rightarrow> (bool \<times> nat) run" where
  "search_leaves generate script 0 index = Ret (False, index)"
| "search_leaves generate script (Suc n) index =
     then_run (generate index) (\<lambda>generated.
     case generated of
       None \<Rightarrow> Ret (False, index)
     | Some g \<Rightarrow> if g = script then Ret (True, index) else search_leaves generate script n (Suc index))"

text \<open>\<^verbatim>\<open>*index + search_depth\<close> is computed in 32 bits.\<close>

definition search_end :: "nat \<Rightarrow> nat \<Rightarrow> nat" where
  "search_end index search_depth = (index + search_depth) mod 2 ^ 32"

definition wallet_search_for_singlesig_script ::
  "'x wallet_lib \<Rightarrow> 'x keychain_t option \<Rightarrow> network_t \<Rightarrow> script_variant_t \<Rightarrow> 'x \<Rightarrow> nat \<Rightarrow> nat \<Rightarrow> bytes
    \<Rightarrow> (bool \<times> nat) run" where
  "wallet_search_for_singlesig_script L kc network_id script_variant search_root index search_depth script =
     jade_assert (kc \<noteq> None) (
     if \<not> is_singlesig script_variant \<or> search_depth = 0 \<or> length script \<noteq> script_length_for_variant script_variant
     then Ret (False, index)
     else search_leaves (\<lambda>i.
         then_run (wally_verify (bip32_public_child (wl_keys L) search_root [of_nat i])) (\<lambda>derived.
         wallet_build_singlesig_script L kc network_id script_variant derived WALLY_SCRIPTPUBKEY_P2WSH_LEN))
       script (search_end index search_depth - index) index)"

fun leaf_pubkeys :: "'x wallet_lib \<Rightarrow> 'x list \<Rightarrow> nat \<Rightarrow> bytes run" where
  "leaf_pubkeys L [] i = Ret []"
| "leaf_pubkeys L (root # roots) i =
     then_run (wally_verify (bip32_public_child (wl_keys L) root [of_nat i])) (\<lambda>derived.
     then_run (leaf_pubkeys L roots i) (\<lambda>rest. Ret (key_pub_key (wl_keys L) derived @ rest)))"

definition wallet_search_for_multisig_script ::
  "'x wallet_lib \<Rightarrow> 'x keychain_t option \<Rightarrow> script_variant_t \<Rightarrow> bool \<Rightarrow> byte \<Rightarrow> 'x list \<Rightarrow> nat \<Rightarrow> nat \<Rightarrow> bytes
    \<Rightarrow> (bool \<times> nat) run" where
  "wallet_search_for_multisig_script L kc script_variant is_sorted threshold search_roots index search_depth script =
     jade_assert (kc \<noteq> None) (
     if \<not> is_multisig script_variant \<or> threshold = 0 \<or> length search_roots = 0 \<or> length search_roots > MAX_ALLOWED_SIGNERS
        \<or> search_depth = 0 \<or> length script \<noteq> script_length_for_variant script_variant
     then Ret (False, index)
     else search_leaves (\<lambda>i.
         then_run (leaf_pubkeys L search_roots i) (\<lambda>pubkeys.
         wallet_build_multisig_script L kc script_variant is_sorted threshold pubkeys WALLY_SCRIPTPUBKEY_P2WSH_LEN))
       script (search_end index search_depth - index) index)"

end
