(* ===== verification/Jade_Multisig.thy ===== *)
theory Jade_Multisig
  imports Jade_Scripts Jade_Cbor
begin

text \<open>
  \<^verbatim>\<open>src/main/signer.c\<close> and \<^verbatim>\<open>src/main/multisig.c\<close>: the cosigners of a multisig wallet and
  the record that registers it: writing it with its HMAC, reading it back in each of its
  four versions, loading it from the storage, and the export file. A read pointer is a
  position in the record; reading behind the record's end is \<^verbatim>\<open>Undef\<close>.
\<close>

section \<open>Signers\<close>

datatype signer_path = NumericPath "u32 list" | StringPath string

record signer_t =
  sg_fingerprint :: bytes
  sg_derivation :: "u32 list"
  sg_xpub :: string
  sg_path :: signer_path

fun signer_path_len :: "signer_path \<Rightarrow> nat" where
  "signer_path_len (NumericPath path) = length path"
| "signer_path_len (StringPath path_str) = length path_str"

fun signer_path_allowed :: "'x wallet_lib \<Rightarrow> bool \<Rightarrow> signer_path \<Rightarrow> bool" where
  "signer_path_allowed L accept_string_path (StringPath path_str) \<longleftrightarrow>
     accept_string_path \<and> path_str_is_hardened L path_str = Some False"
| "signer_path_allowed L accept_string_path (NumericPath path) \<longleftrightarrow> list_all (\<lambda>p. \<not> ishardened p) path"

text \<open>Whether the xpub given for a signer with our fingerprint is ours.\<close>

definition signer_is_ours :: "'x wallet_lib \<Rightarrow> 'x keychain_t option \<Rightarrow> signer_t \<Rightarrow> 'x \<Rightarrow> bool option run" where
  "signer_is_ours L kc signer hdkey_provided =
     then_run (wallet_get_hdkey L kc (sg_derivation signer) True) (\<lambda>r. case r of
       None \<Rightarrow> Ret None
     | Some hdkey_calculated \<Rightarrow>
         Ret (Some (key_pub_key (wl_keys L) hdkey_provided = key_pub_key (wl_keys L) hdkey_calculated
           \<and> key_chain_code (wl_keys L) hdkey_provided = key_chain_code (wl_keys L) hdkey_calculated)))"

fun validate_each_signer ::
  "'x wallet_lib \<Rightarrow> 'x keychain_t option \<Rightarrow> bool \<Rightarrow> bytes \<Rightarrow> signer_t list \<Rightarrow> bool \<Rightarrow> nat
    \<Rightarrow> (bool \<times> nat) option run" where
  "validate_each_signer L kc accept_string_path fingerprint [] found num_elements = Ret (Some (found, num_elements))"
| "validate_each_signer L kc accept_string_path fingerprint (signer # signers) found num_elements =
     (if \<not> signer_path_allowed L accept_string_path (sg_path signer) then Ret None
      else then_run (wallet_derive_from_xpub L (sg_xpub signer) []) (\<lambda>r. case r of
        None \<Rightarrow> Ret None
      | Some hdkey_provided \<Rightarrow>
          then_run (if fingerprint = sg_fingerprint signer then signer_is_ours L kc signer hdkey_provided
                    else Ret (Some False)) (\<lambda>r. case r of
            None \<Rightarrow> Ret None
          | Some ours \<Rightarrow>
              validate_each_signer L kc accept_string_path fingerprint signers (found \<or> ours)
                (num_elements + length (sg_derivation signer) + signer_path_len (sg_path signer)))))"

text \<open>The total number of path elements, when the signers are valid and one of them is ours.\<close>

definition validate_signers ::
  "'x wallet_lib \<Rightarrow> 'x keychain_t option \<Rightarrow> signer_t list \<Rightarrow> bool \<Rightarrow> bytes \<Rightarrow> nat option run" where
  "validate_signers L kc signers accept_string_path wallet_fingerprint =
     (if length signers = 0 \<or> length signers > MAX_ALLOWED_SIGNERS
         \<or> length wallet_fingerprint \<noteq> BIP32_KEY_FINGERPRINT_LEN then Ret None
      else then_run (validate_each_signer L kc accept_string_path wallet_fingerprint signers False 0) (\<lambda>r. case r of
        None \<Rightarrow> Ret None
      | Some (found, num_elements) \<Rightarrow> Ret (if found then Some num_elements else None)))"

section \<open>Writing the record\<close>

definition CURRENT_MULTISIG_RECORD_VERSION :: byte where "CURRENT_MULTISIG_RECORD_VERSION = 3"
definition MIN_MULTISIG_BYTES_LEN :: nat where "MIN_MULTISIG_BYTES_LEN = 4 + 78 + 32"
definition MAX_MULTISIG_NAME_SIZE :: nat where "MAX_MULTISIG_NAME_SIZE = 16"
definition MAX_MULTISIG_REGISTRATIONS :: nat where "MAX_MULTISIG_REGISTRATIONS = 16"
definition MULTISIG_MASTER_BLINDING_KEY_SIZE :: nat where "MULTISIG_MASTER_BLINDING_KEY_SIZE = 32"

definition IS_VALID_BLINDING_KEY :: "bytes option \<Rightarrow> bool" where
  "IS_VALID_BLINDING_KEY k = (case k of None \<Rightarrow> True | Some d \<Rightarrow> length d = MULTISIG_MASTER_BLINDING_KEY_SIZE)"

definition MULTISIG_BYTES_LEN :: "nat \<Rightarrow> nat \<Rightarrow> nat \<Rightarrow> nat" where
  "MULTISIG_BYTES_LEN master_blinding_key_len num_signers total_num_path_elements =
     (6 * 1) + master_blinding_key_len + (num_signers * (6 + BIP32_SERIALIZED_LEN))
       + (total_num_path_elements * 4) + HMAC_SHA256_LEN"

definition MAX_MULTISIG_BYTES_LEN :: nat where
  "MAX_MULTISIG_BYTES_LEN =
     MULTISIG_BYTES_LEN MULTISIG_MASTER_BLINDING_KEY_SIZE MAX_ALLOWED_SIGNERS (MAX_ALLOWED_SIGNERS * 2 * MAX_PATH_LEN)"

lemmas multisig_sizes = MIN_MULTISIG_BYTES_LEN_def MULTISIG_MASTER_BLINDING_KEY_SIZE_def MULTISIG_BYTES_LEN_def
  MAX_MULTISIG_BYTES_LEN_def MAX_ALLOWED_SIGNERS_def MAX_PATH_LEN_def BIP32_SERIALIZED_LEN_def HMAC_SHA256_LEN_def

text \<open>A path in memory, and an array of path elements copied from there.\<close>

definition path_bytes :: "u32 list \<Rightarrow> bytes" where
  "path_bytes path = concat (map (raw_bytes 4) path)"

fun path_of_bytes :: "bytes \<Rightarrow> u32 list" where
  "path_of_bytes (a # b # c # d # rest) = raw_value [a, b, c, d] # path_of_bytes rest"
| "path_of_bytes _ = []"

text \<open>The loop over the signers: what it writes, and the path elements counted.\<close>

fun write_signers :: "'x wallet_lib \<Rightarrow> nat \<Rightarrow> nat \<Rightarrow> signer_t list \<Rightarrow> (bytes \<times> nat) option run" where
  "write_signers L num_elements counted [] = Ret (Some ([], counted))"
| "write_signers L num_elements counted (signer # signers) =
     (let counted = counted + length (sg_derivation signer) + signer_path_len (sg_path signer) in
      jade_assert (counted \<le> num_elements) (
      jade_assert (length (sg_derivation signer) \<le> MAX_PATH_LEN) (
      case base58_to_bytes L (sg_xpub signer) of
        None \<Rightarrow> Ret None
      | Some xpub \<Rightarrow>
          if length xpub \<noteq> BIP32_SERIALIZED_LEN then Ret None
          else case sg_path signer of
            StringPath _ \<Rightarrow> Ret None
          | NumericPath path \<Rightarrow>
              jade_assert (length path \<le> MAX_PATH_LEN) (
              then_run (write_signers L num_elements counted signers) (\<lambda>r.
              Ret (map_option (\<lambda>(rest, counted).
                (sg_fingerprint signer @ [of_nat (length (sg_derivation signer))] @ path_bytes (sg_derivation signer)
                   @ xpub @ [of_nat (length path)] @ path_bytes path @ rest, counted)) r))))))"

definition multisig_data_to_bytes ::
  "'x wallet_lib \<Rightarrow> 'x keychain_t option \<Rightarrow> script_variant_t \<Rightarrow> bool \<Rightarrow> byte \<Rightarrow> bytes option \<Rightarrow> signer_t list
    \<Rightarrow> nat \<Rightarrow> nat \<Rightarrow> bytes option run" where
  "multisig_data_to_bytes L kc variant is_sorted threshold master_blinding_key signers total_num_path_elements output_len =
     (let num_signers = length signers;
          key = (case master_blinding_key of None \<Rightarrow> [] | Some k \<Rightarrow> k) in
      jade_assert (threshold > 0) (
      jade_assert (IS_VALID_BLINDING_KEY master_blinding_key) (
      jade_assert (num_signers \<ge> unat threshold) (
      jade_assert (num_signers \<le> MAX_ALLOWED_SIGNERS) (
      jade_assert (total_num_path_elements \<le> num_signers * 2 * MAX_PATH_LEN) (
      jade_assert (output_len = MULTISIG_BYTES_LEN (length key) num_signers total_num_path_elements) (
      then_run (write_signers L total_num_path_elements 0 signers) (\<lambda>r. case r of
        None \<Rightarrow> Ret None
      | Some (signer_bytes, counted) \<Rightarrow>
          jade_assert (counted = total_num_path_elements) (
          let written = [CURRENT_MULTISIG_RECORD_VERSION, variant_byte variant, if is_sorted then 1 else 0, threshold,
                of_nat (length key)] @ key @ [of_nat num_signers] @ signer_bytes in
          jade_assert (length written + HMAC_SHA256_LEN = output_len) (
          then_run (wallet_hmac_with_master_key L kc written) (\<lambda>hmac.
          Ret (map_option (\<lambda>h. written @ h) hmac))))))))))))"

section \<open>Reading the record\<close>

text \<open>The number of xpubs is the length of their list.\<close>

record multisig_data_t =
  md_variant :: script_variant_t
  md_sorted :: bool
  md_threshold :: byte
  md_master_blinding_key :: bytes
  md_xpubs :: "bytes list"

definition read_at :: "bytes \<Rightarrow> nat \<Rightarrow> nat \<Rightarrow> bytes run" where
  "read_at bs pos n = (if pos + n \<le> length bs then Ret (take n (drop pos bs)) else Undef)"

definition read_byte_at :: "bytes \<Rightarrow> nat \<Rightarrow> byte run" where
  "read_byte_at bs pos = (if pos < length bs then Ret (bs ! pos) else Undef)"

definition read_simple_signers :: "bytes \<Rightarrow> nat \<Rightarrow> nat \<Rightarrow> byte \<Rightarrow> bytes list option run" where
  "read_simple_signers bs pos signer_bytes_len version =
     jade_assert (signer_bytes_len \<noteq> 0) (
     jade_assert (version < 3) (
     let num_xpubs = signer_bytes_len div BIP32_SERIALIZED_LEN in
     if num_xpubs = 0 \<or> num_xpubs > MAX_ALLOWED_SIGNERS then Ret None
     else if num_xpubs * BIP32_SERIALIZED_LEN \<noteq> signer_bytes_len then Ret None
     else then_run (read_at bs pos signer_bytes_len) (\<lambda>xpubs.
       Ret (Some (map (\<lambda>i. take BIP32_SERIALIZED_LEN (drop (i * BIP32_SERIALIZED_LEN) xpubs)) [0..<num_xpubs])))))"

text \<open>A copy the caller asked for, at the place it is read.\<close>

definition read_if :: "bool \<Rightarrow> bytes \<Rightarrow> nat \<Rightarrow> nat \<Rightarrow> bytes run" where
  "read_if wanted bs pos n = (if wanted then read_at bs pos n else Ret [])"

text \<open>The xpub for addresses: the one stored, or that of the additional path behind it.\<close>

definition parent_xpub :: "'x wallet_lib \<Rightarrow> bytes \<Rightarrow> u32 list \<Rightarrow> bytes option run" where
  "parent_xpub L xpub path =
     (if path = [] then Ret (Some xpub)
      else then_run (wallet_derive_pubkey L xpub path) (\<lambda>r. Ret (case r of
        None \<Rightarrow> None
      | Some hdkey \<Rightarrow> key_serialize_public L hdkey)))"

text \<open>
  The loop: the xpubs, the details of the first \<^verbatim>\<open>details\<close> signers, and the position behind
  the last. The buffer for an xpub's text has 120 characters.
\<close>

fun read_signers :: "'x wallet_lib \<Rightarrow> bytes \<Rightarrow> nat \<Rightarrow> nat \<Rightarrow> nat \<Rightarrow> (bytes list \<times> signer_t list \<times> nat) option run" where
  "read_signers L bs details 0 pos = Ret (Some ([], [], pos))"
| "read_signers L bs details (Suc n) pos =
     (let wanted = details > 0 in
      then_run (read_if wanted bs pos 4) (\<lambda>fingerprint.
      then_run (read_byte_at bs (pos + 4)) (\<lambda>derivation_len.
      if unat derivation_len > MAX_PATH_LEN then Ret None
      else
      let pos = pos + 5 in
      then_run (read_if wanted bs pos (unat derivation_len * 4)) (\<lambda>derivation.
      let pos = pos + unat derivation_len * 4 in
      then_run (read_at bs pos BIP32_SERIALIZED_LEN) (\<lambda>xpub.
      let pos = pos + BIP32_SERIALIZED_LEN;
          xpub_text = (if wanted then base58_from_bytes L xpub else Some [])
      in case xpub_text of
        None \<Rightarrow> Ret None
      | Some xpub_str \<Rightarrow>
      if length xpub_str \<ge> 120 then Ret None
      else
      then_run (read_byte_at bs pos) (\<lambda>path_len.
      if unat path_len > MAX_PATH_LEN then Ret None
      else
      let pos = pos + 1 in
      then_run (if path_len \<noteq> 0 then read_at bs pos (unat path_len * 4) else Ret []) (\<lambda>path.
      then_run (parent_xpub L xpub (path_of_bytes path)) (\<lambda>parent.
      case parent of
        None \<Rightarrow> Ret None
      | Some parent \<Rightarrow>
      then_run (read_signers L bs (details - 1) n (pos + unat path_len * 4)) (\<lambda>r. Ret (map_option
        (\<lambda>(xpubs, signers, pos).
          (parent # xpubs,
           (if wanted then [\<lparr>sg_fingerprint = fingerprint, sg_derivation = path_of_bytes derivation,
              sg_xpub = xpub_str, sg_path = NumericPath (path_of_bytes path)\<rparr>] else []) @ signers,
           pos)) r))))))))))"

definition read_complete_signers ::
  "'x wallet_lib \<Rightarrow> bytes \<Rightarrow> nat \<Rightarrow> nat \<Rightarrow> byte \<Rightarrow> nat \<Rightarrow> (bytes list \<times> signer_t list \<times> nat) option run" where
  "read_complete_signers L bs pos signer_bytes_len version details =
     jade_assert (signer_bytes_len \<noteq> 0) (
     jade_assert (version \<ge> 3) (
     then_run (read_byte_at bs pos) (\<lambda>num_signers.
     if num_signers = 0 \<or> unat num_signers > MAX_ALLOWED_SIGNERS then Ret None
     else then_run (read_signers L bs details (unat num_signers) (pos + 1)) (\<lambda>r. case r of
       None \<Rightarrow> Ret None
     | Some (xpubs, signers, read_ptr) \<Rightarrow>
         if read_ptr \<noteq> pos + signer_bytes_len then Ret None
         else Ret (Some (xpubs, signers, unat num_signers))))))"

text \<open>The version, the header's fields and the position behind them.\<close>

definition read_blinding_key :: "bytes \<Rightarrow> nat \<Rightarrow> byte \<Rightarrow> (bytes \<times> nat) option run" where
  "read_blinding_key bs pos version =
     (if version > 1
      then then_run (read_byte_at bs pos) (\<lambda>keylen.
        if keylen = 0 then Ret (Some ([], pos + 1))
        else if unat keylen \<noteq> MULTISIG_MASTER_BLINDING_KEY_SIZE then Ret None
        else then_run (read_at bs (pos + 1) (unat keylen)) (\<lambda>key. Ret (Some (key, pos + 1 + unat keylen))))
      else Ret (Some ([], pos)))"

text \<open>
  The record, the details of the first \<^verbatim>\<open>details\<close> signers, and the number of signers
  reported. The length of the signers' bytes is a subtraction of pointers.
\<close>

definition multisig_data_from_bytes ::
  "'x wallet_lib \<Rightarrow> 'x keychain_t option \<Rightarrow> bytes \<Rightarrow> nat \<Rightarrow> (multisig_data_t \<times> signer_t list \<times> nat) option run" where
  "multisig_data_from_bytes L kc bs details =
     jade_assert (length bs \<ge> MIN_MULTISIG_BYTES_LEN) (
     let body_len = length bs - HMAC_SHA256_LEN in
     then_run (wallet_hmac_with_master_key L kc (take body_len bs)) (\<lambda>hmac_calculated.
     if hmac_calculated \<noteq> Some (drop body_len bs) then Ret None
     else
     let version = bs ! 0 in
     if version > CURRENT_MULTISIG_RECORD_VERSION then Ret None
     else
     let variant = variant_of_byte (bs ! 1);
         (is_sorted, pos) = (if version > 0 then (bs ! 2 \<noteq> 0, 3) else (False, 2));
         threshold = bs ! pos
     in then_run (read_blinding_key bs (pos + 1) version) (\<lambda>r. case r of
       None \<Rightarrow> Ret None
     | Some (key, pos) \<Rightarrow>
         let signer_bytes_len = (if pos \<le> body_len then body_len - pos else 2 ^ 32 - (pos - body_len));
             data = \<lambda>xpubs. \<lparr>md_variant = variant, md_sorted = is_sorted, md_threshold = threshold,
               md_master_blinding_key = key, md_xpubs = xpubs\<rparr>
         in if version < 3
            then then_run (read_simple_signers bs pos signer_bytes_len version) (\<lambda>r.
              Ret (map_option (\<lambda>xpubs. (data xpubs, [], 0)) r))
            else then_run (read_complete_signers L bs pos signer_bytes_len version details) (\<lambda>r.
              Ret (map_option (\<lambda>(xpubs, signers, written). (data xpubs, signers, written)) r)))))"

section \<open>Records in the storage\<close>

text \<open>
  A loop over the storage that never ends never returns to its caller, which is the same
  to it as a device that stops. \<^verbatim>\<open>junk\<close> is what an uninitialised name buffer holds.
\<close>

definition stored_names :: "(('s \<Rightarrow> (string list \<times> bool) run option)) \<Rightarrow> (('s, 'x) keychain_state, string list \<times> bool) act" where
  "stored_names names =
     inspect (\<lambda>st. from_run (case names (kc_nvs st) of None \<Rightarrow> Crash | Some r \<Rightarrow> r))"

text \<open>
  The record with the details of its signers, and the error message. The last check only
  sets the message: the function returns \<^verbatim>\<open>true\<close> all the same.
\<close>

definition multisig_data_sane :: "multisig_data_t \<Rightarrow> bool" where
  "multisig_data_sane d \<longleftrightarrow> \<not> (\<not> is_multisig (md_variant d) \<or> md_threshold d = 0
     \<or> unat (md_threshold d) > length (md_xpubs d) \<or> length (md_xpubs d) = 0
     \<or> length (md_xpubs d) > MAX_ALLOWED_SIGNERS
     \<or> length (md_master_blinding_key d) \<noteq> 0 \<and> length (md_master_blinding_key d) \<noteq> MULTISIG_MASTER_BLINDING_KEY_SIZE)"

definition multisig_load_from_storage ::
  "('s, 'h, 'i) nvs \<Rightarrow> 'x wallet_lib \<Rightarrow> string \<Rightarrow> nat
    \<Rightarrow> (('s, 'x) keychain_state, (multisig_data_t \<times> signer_t list \<times> nat) option \<times> string option) act" where
  "multisig_load_from_storage N L multisig_name details =
     andthen (on_nvs (storage_get_multisig_registration N (Some multisig_name) MAX_MULTISIG_BYTES_LEN)) (\<lambda>registration.
     case registration of
       None \<Rightarrow> give (None, Some ''Cannot find named multisig wallet'')
     | Some bs \<Rightarrow>
         andthen (inspect (\<lambda>st. from_run (multisig_data_from_bytes L (keychain_get st) bs details))) (\<lambda>r.
         case r of
           None \<Rightarrow> give (None, Some ''Cannot de-serialise multisig wallet data'')
         | Some (d, signers, written) \<Rightarrow>
             give (Some (d, signers, written),
                   if \<not> multisig_data_sane d then Some ''Multisig wallet data invalid'' else None)))"

definition variant_matches_script_type :: "script_variant_t \<Rightarrow> script_type option \<Rightarrow> bool" where
  "variant_matches_script_type variant script_type \<longleftrightarrow>
     script_type = None
     \<or> script_type = Some WALLY_SCRIPT_TYPE_P2WSH \<and> variant = MULTI_P2WSH
     \<or> script_type = Some WALLY_SCRIPT_TYPE_P2SH \<and> (variant = MULTI_P2SH \<or> variant = MULTI_P2WSH_P2SH)"

fun valid_records ::
  "('s, 'h, 'i) nvs \<Rightarrow> 'x wallet_lib \<Rightarrow> script_type option \<Rightarrow> string list \<Rightarrow> (('s, 'x) keychain_state, string list) act" where
  "valid_records N L script_type [] = give []"
| "valid_records N L script_type (name # names) =
     andthen (multisig_load_from_storage N L name 0) (\<lambda>(loaded, errmsg).
     andthen (valid_records N L script_type names) (\<lambda>rest.
     give (case loaded of
         None \<Rightarrow> rest
       | Some (d, _, _) \<Rightarrow> if variant_matches_script_type (md_variant d) script_type then name # rest else rest)))"

definition multisig_get_valid_record_names ::
  "('s, 'h, 'i) nvs \<Rightarrow> 'x wallet_lib \<Rightarrow> string \<Rightarrow> script_type option \<Rightarrow> nat \<Rightarrow> (('s, 'x) keychain_state, string list) act" where
  "multisig_get_valid_record_names N L junk script_type num_names =
     andthen (insist (num_names > 0)) (\<lambda>_.
     andthen (stored_names (storage_get_all_multisig_registration_names N junk num_names)) (\<lambda>(names, all).
     if \<not> all \<or> length names = 0 then give [] else valid_records N L script_type names))"

definition multisig_get_master_blinding_key :: "multisig_data_t \<Rightarrow> nat \<Rightarrow> (bytes option \<times> string option) run" where
  "multisig_get_master_blinding_key d master_blinding_key_len =
     jade_assert (master_blinding_key_len = 64) (
     if length (md_master_blinding_key d) \<noteq> MULTISIG_MASTER_BLINDING_KEY_SIZE
     then Ret (None, Some ''No blinding key for multisig record'')
     else Ret (Some (replicate (master_blinding_key_len - length (md_master_blinding_key d)) 0
                       @ md_master_blinding_key d), None))"

section \<open>Paths of a request\<close>

text \<open>
  The loop over the signers' paths: whether an unusual path and whether another final
  element was seen. \<^verbatim>\<open>expected\<close> is the final element of the first path.
\<close>

fun signer_paths_seen ::
  "'v cbor_reader \<Rightarrow> bool \<Rightarrow> nat \<Rightarrow> nat \<Rightarrow> 'v \<Rightarrow> u32 \<Rightarrow> bool \<Rightarrow> bool \<Rightarrow> (bool \<times> bool) option run" where
  "signer_paths_seen R is_change i 0 item expected unusual mismatch = Ret (Some (unusual, mismatch))"
| "signer_paths_seen R is_change i (Suc n) item expected unusual mismatch =
     jade_assert (\<not> cbor_value_at_end R item) (
     then_run (rpc_get_bip32_path_from_value R item MAX_PATH_LEN) (\<lambda>r. case r of
       None \<Rightarrow> Ret None
     | Some (path, item) \<Rightarrow>
         if length path = 0 then Ret None
         else
           let final = path ! (length path - 1) in
           signer_paths_seen R is_change (Suc i) n item (if i = 0 then final else expected)
             (unusual \<or> \<not> wallet_is_expected_multisig_path i is_change path)
             (mismatch \<or> i \<noteq> 0 \<and> final \<noteq> expected)))"

text \<open>Whether all paths are as expected, and whether the final elements are consistent.\<close>

definition multisig_validate_paths :: "'v cbor_reader \<Rightarrow> bool \<Rightarrow> 'v \<Rightarrow> (bool \<times> bool) option run" where
  "multisig_validate_paths R is_change all_signer_paths =
     (case cbor_value_get_array_length R all_signer_paths of
        None \<Rightarrow> Ret None
      | Some num_array_items \<Rightarrow>
          if num_array_items = 0 then Ret None
          else case cbor_value_enter_container R all_signer_paths of
            None \<Rightarrow> Crash
          | Some item \<Rightarrow>
              then_run (signer_paths_seen R is_change 0 num_array_items item 0 False False) (\<lambda>r.
              Ret (map_option (\<lambda>(unusual, mismatch). (\<not> unusual, \<not> mismatch)) r)))"

fun signer_pubkeys :: "'v cbor_reader \<Rightarrow> 'x wallet_lib \<Rightarrow> bytes list \<Rightarrow> 'v \<Rightarrow> bytes option run" where
  "signer_pubkeys R L [] item = Ret (Some [])"
| "signer_pubkeys R L (xpub # xpubs) item =
     jade_assert (\<not> cbor_value_at_end R item) (
     then_run (rpc_get_bip32_path_from_value R item MAX_PATH_LEN) (\<lambda>r. case r of
       None \<Rightarrow> Ret None
     | Some (path, item) \<Rightarrow>
         if length path = 0 then Ret None
         else if list_ex ishardened path then Ret None
         else then_run (wallet_derive_pubkey L xpub path) (\<lambda>hdkey. case hdkey of
           None \<Rightarrow> Ret None
         | Some k \<Rightarrow>
             then_run (signer_pubkeys R L xpubs item) (\<lambda>rest.
             Ret (map_option (\<lambda>rest. key_pub_key (wl_keys L) k @ rest) rest)))))"

definition multisig_get_pubkeys ::
  "'v cbor_reader \<Rightarrow> 'x wallet_lib \<Rightarrow> bytes list \<Rightarrow> 'v \<Rightarrow> nat \<Rightarrow> bytes option run" where
  "multisig_get_pubkeys R L xpubs all_signer_paths pubkeys_len =
     jade_assert (length xpubs \<ge> 1) (
     jade_assert (pubkeys_len \<ge> length xpubs * EC_PUBLIC_KEY_LEN) (
     if cbor_value_get_array_length R all_signer_paths \<noteq> Some (length xpubs) then Ret None
     else case cbor_value_enter_container R all_signer_paths of
       None \<Rightarrow> Crash
     | Some item \<Rightarrow> signer_pubkeys R L xpubs item))"

section \<open>The export file\<close>

definition MSIG_FILE_NAME :: string where "MSIG_FILE_NAME = ''Name''"
definition MSIG_FILE_FORMAT :: string where "MSIG_FILE_FORMAT = ''Format''"
definition MSIG_FILE_SORTED :: string where "MSIG_FILE_SORTED = ''Sorted''"
definition MSIG_FILE_POLICY :: string where "MSIG_FILE_POLICY = ''Policy''"
definition MSIG_FILE_BLINDING_KEY :: string where "MSIG_FILE_BLINDING_KEY = ''BlindingKey''"
definition MSIG_FILE_DERIVATION :: string where "MSIG_FILE_DERIVATION = ''Derivation''"

lemmas msig_fields = MSIG_FILE_NAME_def MSIG_FILE_FORMAT_def MSIG_FILE_SORTED_def MSIG_FILE_POLICY_def
  MSIG_FILE_BLINDING_KEY_def MSIG_FILE_DERIVATION_def

definition MULTISIG_FILE_MAX_LEN :: "nat \<Rightarrow> nat" where
  "MULTISIG_FILE_MAX_LEN num_signers =
     32 + 22 + 17 + 19 + 14 + 78 + (num_signers * (13 + MAX_PATH_STR_LEN MAX_PATH_LEN + 122))"

text \<open>
  The text written so far decides the room left. The check leaves a place for the zero;
  the end of line takes it and puts the zero one further, outside the buffer if the text
  filled it.
\<close>

definition write_text :: "nat \<Rightarrow> string \<Rightarrow> bool \<Rightarrow> string \<Rightarrow> string option run" where
  "write_text output_len line add_eol so_far =
     (let room = output_len - length so_far in
      if length line \<ge> room then Ret None
      else if add_eol \<and> length line + 1 \<ge> room then Undef
      else Ret (Some (so_far @ line @ (if add_eol then [CHR 0x0A] else []))))"

text \<open>A \<^verbatim>\<open>WRITE_TEXT\<close> that fails returns from the function.\<close>

definition or_false :: "'a option run \<Rightarrow> ('a \<Rightarrow> 'b option run) \<Rightarrow> 'b option run" where
  "or_false m f = then_run m (\<lambda>r. case r of None \<Rightarrow> Ret None | Some a \<Rightarrow> f a)"

definition WRITE_KEY_VALUE_LINE :: "nat \<Rightarrow> string \<Rightarrow> string \<Rightarrow> string \<Rightarrow> string option run" where
  "WRITE_KEY_VALUE_LINE output_len key value so_far =
     or_false (write_text output_len key False so_far) (\<lambda>so_far.
     or_false (write_text output_len '': '' False so_far) (\<lambda>so_far.
     write_text output_len value True so_far))"

definition export_format :: "script_variant_t \<Rightarrow> string option" where
  "export_format variant =
     (if variant = MULTI_P2WSH then Some ''P2WSH''
      else if variant = MULTI_P2WSH_P2SH then Some ''P2SH-P2WSH''
      else if variant = MULTI_P2SH then Some ''P2SH''
      else None)"

fun export_signers :: "'x wallet_lib \<Rightarrow> nat \<Rightarrow> signer_t list \<Rightarrow> string \<Rightarrow> string option run" where
  "export_signers L output_len [] so_far = Ret (Some so_far)"
| "export_signers L output_len (signer # signers) so_far =
     (case sg_path signer of
        StringPath _ \<Rightarrow> Ret None
      | NumericPath path \<Rightarrow>
          if path \<noteq> [] then Ret None
          else
            or_false (wallet_bip32_path_as_str (sg_derivation signer) (MAX_PATH_STR_LEN MAX_PATH_LEN) False) (\<lambda>buf.
            or_false (WRITE_KEY_VALUE_LINE output_len MSIG_FILE_DERIVATION buf so_far) (\<lambda>so_far.
            then_run (wally_verify (hex_from_bytes L (sg_fingerprint signer))) (\<lambda>fingerprint_hex.
            or_false (WRITE_KEY_VALUE_LINE output_len fingerprint_hex (sg_xpub signer) so_far) (\<lambda>so_far.
            export_signers L output_len signers so_far)))))"

definition multisig_create_export_file ::
  "'x wallet_lib \<Rightarrow> string \<Rightarrow> multisig_data_t \<Rightarrow> signer_t list \<Rightarrow> nat \<Rightarrow> string option run" where
  "multisig_create_export_file L multisig_name d signer_details output_len =
     jade_assert (length signer_details = length (md_xpubs d)) (
     jade_assert (output_len \<ge> MULTISIG_FILE_MAX_LEN (length signer_details)) (
     or_false (write_text output_len ''# Exported by Blockstream Jade'' True []) (\<lambda>so_far.
     or_false (WRITE_KEY_VALUE_LINE output_len MSIG_FILE_NAME multisig_name so_far) (\<lambda>so_far.
     let buf = decimal_string (unat (md_threshold d)) @ '' of '' @ decimal_string (length (md_xpubs d)) in
     jade_assert (length buf < MAX_PATH_STR_LEN MAX_PATH_LEN) (
     or_false (WRITE_KEY_VALUE_LINE output_len MSIG_FILE_POLICY buf so_far) (\<lambda>so_far.
     case export_format (md_variant d) of
       None \<Rightarrow> Ret None
     | Some format \<Rightarrow>
     or_false (WRITE_KEY_VALUE_LINE output_len MSIG_FILE_FORMAT format so_far) (\<lambda>so_far.
     or_false (if \<not> md_sorted d then WRITE_KEY_VALUE_LINE output_len MSIG_FILE_SORTED ''False'' so_far
               else Ret (Some so_far)) (\<lambda>so_far.
     or_false (if md_master_blinding_key d \<noteq> []
               then then_run (wally_verify (hex_from_bytes L (md_master_blinding_key d))) (\<lambda>blinding_key_hex.
                 WRITE_KEY_VALUE_LINE output_len MSIG_FILE_BLINDING_KEY blinding_key_hex so_far)
               else Ret (Some so_far)) (\<lambda>so_far.
     or_false (export_signers L output_len signer_details so_far) (\<lambda>so_far.
     jade_assert (length so_far < output_len) (Ret (Some so_far))))))))))))"

end
