(* ===== verification/Jade_Register.thy ===== *)
theory Jade_Register
  imports Jade_Multisig
begin

text \<open>
  \<^verbatim>\<open>src/main/process/register_multisig.c\<close>: registering a multisig wallet, and reading the
  registration from a text file as other wallets export it. The file is a list of
  characters, which may hold zeros; the functions for C strings see the part before the
  first. A field that was read is an option. The user's decisions are the record
  \<^verbatim>\<open>register_ui\<close>.
\<close>

section \<open>Registering\<close>

text \<open>
  \<^verbatim>\<open>ui_show_multisig\<close> is shown the name, the sorted flag, the threshold, the signers, the
  blinding key in hex, our fingerprint, and whether a record is overwritten.
\<close>

record register_ui =
  ui_show_multisig :: "string \<Rightarrow> bool \<Rightarrow> nat \<Rightarrow> signer_t list \<Rightarrow> string option \<Rightarrow> bytes \<Rightarrow> bool \<Rightarrow> bool"
  ui_truncate_name :: "string \<Rightarrow> bool"

text \<open>A return code, 0 for success, and the error message.\<close>

type_synonym outcome = "int \<times> string option"

text \<open>
  What becomes of a valid record: it is stored already, there is no room for it, or it
  goes to the user.
\<close>

datatype registration_check = AlreadyStored | NoRoom | AskUser

definition check_existing ::
  "('s, 'h, 'i) nvs \<Rightarrow> string \<Rightarrow> bytes \<Rightarrow> bool \<Rightarrow> (('s, 'x) keychain_state, registration_check) act" where
  "check_existing N multisig_name registration overwriting =
     (if overwriting
      then andthen (on_nvs (storage_get_multisig_registration N (Some multisig_name) (length registration))) (\<lambda>existing.
        give (if existing = Some registration then AlreadyStored else AskUser))
      else andthen (inspect (\<lambda>st. from_run (storage_get_multisig_registration_count N (kc_nvs st)))) (\<lambda>r. case r of
          None \<Rightarrow> (\<lambda>_. Crash)
        | Some n \<Rightarrow> give (if n \<ge> MAX_MULTISIG_REGISTRATIONS then NoRoom else AskUser)))"

definition register_multisig ::
  "('s, 'h, 'i) nvs \<Rightarrow> 'x wallet_lib \<Rightarrow> register_ui \<Rightarrow> string \<Rightarrow> string \<Rightarrow> script_variant_t \<Rightarrow> bool \<Rightarrow> nat
    \<Rightarrow> signer_t list \<Rightarrow> bytes option \<Rightarrow> (('s, 'x) keychain_state, outcome) act" where
  "register_multisig N L U junk multisig_name script_variant is_sorted threshold signers master_blinding_key =
     andthen (insist (is_multisig script_variant \<and> threshold \<noteq> 0 \<and> length signers \<noteq> 0)) (\<lambda>_.
     if \<not> storage_key_name_valid multisig_name then give (CBOR_RPC_BAD_PARAMETERS, Some ''Invalid multisig name'')
     else if length signers > MAX_ALLOWED_SIGNERS
     then give (CBOR_RPC_BAD_PARAMETERS, Some ''Invalid multisig co-signers'')
     else if threshold > length signers then give (CBOR_RPC_BAD_PARAMETERS, Some ''Invalid multisig threshold'')
     else
       andthen (inspect (\<lambda>st. from_run (wallet_get_fingerprint L (keychain_get st)))) (\<lambda>wallet_fingerprint.
       andthen (inspect (\<lambda>st. from_run (validate_signers L (keychain_get st) signers False wallet_fingerprint))) (\<lambda>r.
       case r of
         None \<Rightarrow> give (CBOR_RPC_BAD_PARAMETERS, Some ''Failed to validate co-signers'')
       | Some num_elements \<Rightarrow>
         let key_len = (case master_blinding_key of None \<Rightarrow> 0 | Some k \<Rightarrow> length k);
             registration_len = MULTISIG_BYTES_LEN key_len (length signers) num_elements in
         andthen (inspect (\<lambda>st. from_run (multisig_data_to_bytes L (keychain_get st) script_variant is_sorted
           (of_nat threshold) master_blinding_key signers num_elements registration_len))) (\<lambda>r.
         case r of
           None \<Rightarrow> give (CBOR_RPC_INTERNAL_ERROR, Some ''Failed to serialise multisig'')
         | Some registration \<Rightarrow>
           andthen (inspect (\<lambda>st. case storage_multisig_name_exists N junk (Some multisig_name) (kc_nvs st) of
               None \<Rightarrow> (\<lambda>_. Crash) | Some r \<Rightarrow> from_run r)) (\<lambda>overwriting.
           andthen (check_existing N multisig_name registration overwriting) (\<lambda>verdict.
           case verdict of
             AlreadyStored \<Rightarrow> give (0, None)
           | NoRoom \<Rightarrow> give (CBOR_RPC_BAD_PARAMETERS, Some ''Already have maximum number of multisig wallets'')
           | AskUser \<Rightarrow>
             andthen (case master_blinding_key of
                 None \<Rightarrow> give None
               | Some k \<Rightarrow> andthen (from_run (wally_verify (hex_from_bytes L k))) (\<lambda>h. give (Some h)))
               (\<lambda>master_blinding_key_hex.
             if \<not> ui_show_multisig U multisig_name is_sorted threshold signers master_blinding_key_hex
                  wallet_fingerprint overwriting
             then give (CBOR_RPC_USER_CANCELLED, Some ''User declined to register multisig'')
             else
               andthen (on_nvs (storage_set_multisig_registration N (Some multisig_name) (Some registration))) (\<lambda>saved.
               if \<not> saved then give (CBOR_RPC_INTERNAL_ERROR, Some ''Failed to persist multisig data'')
               else give (0, None)))))))))"

section \<open>Lines of the file\<close>

text \<open>
  The text behind the reader, or \<^verbatim>\<open>None\<close> when the last line ended at the end of the file;
  the next line that is neither empty nor a comment, and the text behind it.
\<close>

definition rest_len :: "string option \<Rightarrow> nat" where
  "rest_len rest = (case rest of None \<Rightarrow> 0 | Some t \<Rightarrow> Suc (length t))"

lemma rest_len_simps [simp]: "rest_len None = 0" "rest_len (Some t) = Suc (length t)"
  by (simp_all add: rest_len_def)

lemma dropWhile_Cons_shorter: "dropWhile P xs = y # ys \<Longrightarrow> length ys < length xs"
  by (metis Suc_le_eq length_Cons length_dropWhile_le)

function get_next_line :: "string option \<Rightarrow> (string \<times> string option) option" where
  "get_next_line None = None"
| "get_next_line (Some rest) =
     (let line = takeWhile (\<lambda>c. c \<noteq> CHR 0x0A) rest;
          after = (case dropWhile (\<lambda>c. c \<noteq> CHR 0x0A) rest of [] \<Rightarrow> None | _ # t \<Rightarrow> Some t)
      in if line = [] \<or> hd line = CHR ''#'' then get_next_line after else Some (line, after))"
  by pat_completeness auto

termination
  by (relation "measure rest_len") (auto split: list.splits dest: dropWhile_Cons_shorter)

declare get_next_line.simps [simp del]

lemma get_next_line_shorter: "get_next_line rest = Some (line, after) \<Longrightarrow> rest_len after < rest_len rest"
proof (induction rest rule: get_next_line.induct)
  case 1
  then show ?case by (simp add: get_next_line.simps)
next
  case (2 rest)
  let ?after = "case dropWhile (\<lambda>c. c \<noteq> CHR 0x0A) rest of [] \<Rightarrow> None | _ # t \<Rightarrow> Some t"
  have "rest_len ?after < rest_len (Some rest)"
    by (auto split: list.splits dest: dropWhile_Cons_shorter)
  with 2 show ?case
    by (auto simp: get_next_line.simps(2) [of rest] Let_def split: if_splits dest: less_trans)
qed

definition isspace :: "char \<Rightarrow> bool" where
  "isspace c \<longleftrightarrow> c \<in> {CHR '' '', CHR 0x09, CHR 0x0A, CHR 0x0B, CHR 0x0C, CHR 0x0D}"

text \<open>
  The length of the name and the value. The loop over white space looks at the character
  at the end of the line, which is outside the file when the line is its last.
\<close>

definition split_line :: "string \<Rightarrow> bool \<Rightarrow> nat \<Rightarrow> (nat \<times> string) option run" where
  "split_line line at_eof output_len =
     jade_assert (output_len \<noteq> 0) (
     jade_assert (line \<noteq> []) (
     if CHR '':'' \<notin> set line then Ret None
     else
       let name_len = length (takeWhile (\<lambda>c. c \<noteq> CHR '':'') line);
           value = dropWhile isspace (drop (name_len + 1) line)
       in if name_len = 0 then Ret None
          else if value = [] \<and> at_eof then Undef
          else if value = [] \<or> length value \<ge> output_len then Ret None
          else Ret (Some (name_len, value))))"

text \<open>\<^verbatim>\<open>strtoul\<close> in base ten on 32 bits.\<close>

definition is_digit :: "char \<Rightarrow> bool" where
  "is_digit c \<longleftrightarrow> of_char c \<ge> (48::nat) \<and> of_char c \<le> (57::nat)"

definition digits_value :: "string \<Rightarrow> nat" where
  "digits_value ds = foldl (\<lambda>n c. n * 10 + (of_char c - 48)) 0 ds"

text \<open>The value and the number of characters read.\<close>

definition strtoul :: "string \<Rightarrow> nat \<times> nat" where
  "strtoul s =
     (let spaces = length (takeWhile isspace s);
          s1 = drop spaces s;
          sign = (case s1 of c # _ \<Rightarrow> c = CHR ''-'' \<or> c = CHR ''+'' | [] \<Rightarrow> False);
          negative = (sign \<and> hd s1 = CHR ''-'');
          ds = takeWhile is_digit (if sign then tl s1 else s1);
          n = digits_value ds
      in if ds = [] then (0, 0)
         else (if n \<ge> 2 ^ 32 then 2 ^ 32 - 1 else if negative then (2 ^ 32 - n) mod 2 ^ 32 else n,
               spaces + (if sign then 1 else 0) + length ds))"

section \<open>Fields of the file\<close>

record file_fields =
  ff_name :: "(string \<times> bool) option"
  ff_policy :: "(nat \<times> nat) option"
  ff_format :: "script_variant_t option"
  ff_sorted :: "bool option"
  ff_blinding_key :: "bytes option"
  ff_derivation :: "u32 list option"
  ff_signers :: "signer_t list"

definition no_fields :: file_fields where
  "no_fields = \<lparr>ff_name = None, ff_policy = None, ff_format = None, ff_sorted = None, ff_blinding_key = None,
     ff_derivation = None, ff_signers = []\<rparr>"

definition have_mandatory :: "file_fields \<Rightarrow> bool" where
  "have_mandatory f \<longleftrightarrow> ff_name f \<noteq> None \<and> ff_policy f \<noteq> None \<and> ff_format f \<noteq> None \<and> ff_derivation f \<noteq> None"

text \<open>The name, and whether it was truncated.\<close>

definition read_name :: "string \<Rightarrow> string \<times> bool" where
  "read_name value =
     (map (\<lambda>c. if isspace c then CHR ''_'' else c) (c_text (take (MAX_MULTISIG_NAME_SIZE - 1) value)),
      length value > MAX_MULTISIG_NAME_SIZE - 1)"

text \<open>\<^verbatim>\<open>N of M\<close>.\<close>

definition read_policy :: "string \<Rightarrow> (nat \<times> nat) option" where
  "read_policy value =
     (let first = takeWhile (\<lambda>c. c \<noteq> CHR '' '') value;
          behind = drop (length first + 1) value;
          second = takeWhile (\<lambda>c. c \<noteq> CHR '' '') behind;
          third = drop (length second + 1) behind
      in if CHR '' '' \<notin> set value \<or> CHR '' '' \<notin> set behind then None
         else
           let (threshold, end1) = strtoul (c_text first); (nsigners, end2) = strtoul (c_text third) in
           if threshold = 0 \<or> nsigners = 0 \<or> threshold > nsigners \<or> nsigners > MAX_ALLOWED_SIGNERS
              \<or> end1 \<noteq> length first \<or> end2 \<noteq> length third \<or> \<not> same_text (c_text second) ''of''
           then None else Some (threshold, nsigners))"

definition read_format :: "string \<Rightarrow> script_variant_t option" where
  "read_format value =
     (let v = c_text value in
      if same_text v ''P2WSH'' then Some MULTI_P2WSH
      else if same_text v ''P2WSH-P2SH'' \<or> same_text v ''P2SH-P2WSH'' then Some MULTI_P2WSH_P2SH
      else if same_text v ''P2SH'' then Some MULTI_P2SH
      else None)"

definition read_sorted :: "string \<Rightarrow> bool option" where
  "read_sorted value =
     (let v = c_text value in
      if same_text v ''TRUE'' then Some True else if same_text v ''FALSE'' then Some False else None)"

text \<open>The xpub in the version this device works with.\<close>

definition read_xpub :: "'x wallet_lib \<Rightarrow> bytes \<Rightarrow> string \<Rightarrow> string option run" where
  "read_xpub L xpub_version value =
     (if length value < 4 \<or> length value \<ge> 120 then Ret None
      else case base58_to_bytes L (c_text value) of
        None \<Rightarrow> Ret None
      | Some serialised \<Rightarrow>
          if length serialised \<noteq> BIP32_SERIALIZED_LEN then Ret None
          else if take 4 serialised = xpub_version then Ret (Some (c_text value))
          else case base58_from_bytes L (xpub_version @ drop 4 serialised) of
            None \<Rightarrow> Ret None
          | Some xpub \<Rightarrow> jade_assert (length xpub < 120) (Ret (Some xpub)))"

definition read_signer ::
  "'x wallet_lib \<Rightarrow> bytes \<Rightarrow> string \<Rightarrow> string \<Rightarrow> file_fields \<Rightarrow> (string + file_fields) run" where
  "read_signer L xpub_version name value f =
     (if \<not> have_mandatory f then fail ''Insufficient information records''
      else if length (ff_signers f) \<ge> snd (the (ff_policy f)) then fail ''Invalid number of signers''
      else case hex_to_bytes L name of
        None \<Rightarrow> fail ''Invalid signer fingerprint''
      | Some fingerprint \<Rightarrow>
          if length fingerprint \<noteq> BIP32_KEY_FINGERPRINT_LEN then fail ''Invalid signer fingerprint''
          else then_run (read_xpub L xpub_version value) (\<lambda>xpub. case xpub of
            None \<Rightarrow> fail ''Invalid signer xpub''
          | Some xpub \<Rightarrow>
              ok (f\<lparr>ff_signers := ff_signers f @ [\<lparr>sg_fingerprint = fingerprint,
                sg_derivation = the (ff_derivation f), sg_xpub = xpub, sg_path = NumericPath []\<rparr>]\<rparr>)))"

text \<open>The handling of one line, whose name is the first \<^verbatim>\<open>name_len\<close> characters.\<close>

definition process_line ::
  "'x wallet_lib \<Rightarrow> bytes \<Rightarrow> string \<Rightarrow> string \<Rightarrow> file_fields \<Rightarrow> (string + file_fields) run" where
  "process_line L xpub_version name value f =
     (if same_text name MSIG_FILE_NAME then
        if ff_name f \<noteq> None then fail ''Invalid multisig file''
        else if \<not> storage_key_name_valid (fst (read_name value)) then fail ''Invalid multisig name''
        else ok (f\<lparr>ff_name := Some (read_name value)\<rparr>)
      else if same_text name MSIG_FILE_POLICY then
        if ff_policy f \<noteq> None then fail ''Invalid multisig file''
        else (case read_policy value of
            None \<Rightarrow> fail ''Invalid multisig policy''
          | Some p \<Rightarrow> ok (f\<lparr>ff_policy := Some p\<rparr>))
      else if same_text name MSIG_FILE_FORMAT then
        if ff_format f \<noteq> None then fail ''Invalid multisig file''
        else (case read_format value of
            None \<Rightarrow> fail ''Invalid multisig format''
          | Some v \<Rightarrow> ok (f\<lparr>ff_format := Some v\<rparr>))
      else if same_text name MSIG_FILE_SORTED then
        if ff_sorted f \<noteq> None then fail ''Invalid multisig file''
        else (case read_sorted value of
            None \<Rightarrow> fail ''Invalid sorted flag''
          | Some b \<Rightarrow> ok (f\<lparr>ff_sorted := Some b\<rparr>))
      else if same_text name MSIG_FILE_BLINDING_KEY then
        if ff_blinding_key f \<noteq> None then fail ''Invalid multisig file''
        else if length value \<noteq> 2 * MULTISIG_MASTER_BLINDING_KEY_SIZE then fail ''Invalid master blinding key''
        else (case hex_to_bytes L value of
            None \<Rightarrow> fail ''Invalid master blinding key''
          | Some k \<Rightarrow>
              if length k \<noteq> MULTISIG_MASTER_BLINDING_KEY_SIZE then fail ''Invalid master blinding key''
              else ok (f\<lparr>ff_blinding_key := Some k\<rparr>))
      else if same_text name MSIG_FILE_DERIVATION then
        (case wallet_bip32_path_from_str L value MAX_PATH_LEN of
            None \<Rightarrow> fail ''Invalid derivation path''
          | Some path \<Rightarrow>
              if path = [] then fail ''Invalid derivation path'' else ok (f\<lparr>ff_derivation := Some path\<rparr>))
      else if length name = BIP32_KEY_FINGERPRINT_LEN * 2 then read_signer L xpub_version name value f
      else fail ''Invalid multisig file'')"

function read_multisig_file ::
  "'x wallet_lib \<Rightarrow> bytes \<Rightarrow> string option \<Rightarrow> file_fields \<Rightarrow> (string + file_fields) run" where
  "read_multisig_file L xpub_version rest f =
     (case get_next_line rest of
        None \<Rightarrow> ok f
      | Some (line, after) \<Rightarrow>
          then_run (split_line line (after = None) 128) (\<lambda>r. case r of
            None \<Rightarrow> fail ''Invalid multisig file''
          | Some (name_len, value) \<Rightarrow>
              seq (process_line L xpub_version (take name_len line) value f) (read_multisig_file L xpub_version after)))"
  by pat_completeness auto

termination
  by (relation "measure (\<lambda>(L, xpub_version, rest, f). rest_len rest)") (auto dest: get_next_line_shorter)

declare read_multisig_file.simps [simp del]

text \<open>
  The record of the file, once everything mandatory was read; the device's network
  restriction decides the version of the xpubs.
\<close>

definition BIP32_VER_MAIN_PUBLIC :: u32 where "BIP32_VER_MAIN_PUBLIC = 0x0488B21E"
definition BIP32_VER_TEST_PUBLIC :: u32 where "BIP32_VER_TEST_PUBLIC = 0x043587CF"

definition uint32_to_be :: "u32 \<Rightarrow> bytes" where
  "uint32_to_be val = [ucast (drop_bit 24 val), ucast (drop_bit 16 val), ucast (drop_bit 8 val), ucast val]"

definition register_multisig_file ::
  "('s, 'h, 'i) nvs \<Rightarrow> 'x wallet_lib \<Rightarrow> register_ui \<Rightarrow> string \<Rightarrow> string \<Rightarrow> (('s, 'x) keychain_state, outcome) act" where
  "register_multisig_file N L U junk multisig_file =
     andthen (insist (multisig_file \<noteq> [])) (\<lambda>_.
     inspect (\<lambda>st.
       let xpub_version = uint32_to_be
             (if keychain_get_network_type_restriction st = network_type_value NETWORK_TYPE_TEST
              then BIP32_VER_TEST_PUBLIC else BIP32_VER_MAIN_PUBLIC) in
       andthen (from_run (read_multisig_file L xpub_version (Some multisig_file) no_fields)) (\<lambda>r. case r of
         Inl errmsg \<Rightarrow> give (CBOR_RPC_BAD_PARAMETERS, Some errmsg)
       | Inr f \<Rightarrow>
           if \<not> have_mandatory f then give (CBOR_RPC_BAD_PARAMETERS, Some ''Insufficient information records'')
           else if length (ff_signers f) \<noteq> snd (the (ff_policy f))
           then give (CBOR_RPC_BAD_PARAMETERS, Some ''Invalid number of signers'')
           else
             let (multisig_name, name_truncated) = the (ff_name f) in
             andthen (insist (\<not> name_truncated \<or> length multisig_name = MAX_MULTISIG_NAME_SIZE - 1)) (\<lambda>_.
             if name_truncated \<and> \<not> ui_truncate_name U multisig_name
             then give (CBOR_RPC_BAD_PARAMETERS, Some ''Invalid multisig name'')
             else register_multisig N L U junk multisig_name (the (ff_format f))
               (case ff_sorted f of None \<Rightarrow> True | Some b \<Rightarrow> b) (fst (the (ff_policy f))) (ff_signers f)
               (ff_blinding_key f)))))"

end
