(* ===== verification/Jade_Multisig_Props.thy ===== *)
theory Jade_Multisig_Props
  imports Jade_Register Jade_Storage_Theorems
begin

text \<open>
  Lemmas on the multisig records: what is written is read back, part by part.
\<close>

section \<open>Reading at a position\<close>

lemma read_at_append [simp]: "read_at (pre @ x @ post) (length pre) (length x) = Ret x"
  by (simp add: read_at_def)

lemma read_at_here: "n = length x \<Longrightarrow> p = length pre \<Longrightarrow> read_at (pre @ x @ post) p n = Ret x"
  by simp

lemma read_byte_at_here: "p = length pre \<Longrightarrow> read_byte_at (pre @ b # post) p = Ret b"
  by (simp add: read_byte_at_def)

lemma length_path_bytes [simp]: "length (path_bytes path) = 4 * length path"
  by (induction path) (simp_all add: path_bytes_def raw_bytes_def)

lemma four_bytes: "\<exists>a b c d. raw_bytes 4 w = [a, b, c, d]"
  using length_raw_bytes [of 4 w] by (auto simp: length_Suc_conv eval_nat_numeral simp del: length_raw_bytes)

lemma path_of_path_bytes [simp]: "path_of_bytes (path_bytes path) = path"
proof (induction path)
  case Nil
  then show ?case by (simp add: path_bytes_def)
next
  case (Cons p path)
  obtain a b c d where w: "raw_bytes 4 p = [a, b, c, d]" using four_bytes by blast
  have "raw_value [a, b, c, d] = p" using raw_value_bytes_sized(3) [of p] w by simp
  with Cons w show ?case by (simp add: path_bytes_def)
qed

lemma unat_small_byte: "n < 256 \<Longrightarrow> unat (of_nat n :: byte) = n"
  by (simp add: unat_of_nat)

section \<open>One signer\<close>

text \<open>The bytes of a signer, and what the reader makes of them.\<close>

definition signer_chunk :: "bytes \<Rightarrow> u32 list \<Rightarrow> bytes \<Rightarrow> u32 list \<Rightarrow> bytes" where
  "signer_chunk fingerprint derivation xpub path =
     fingerprint @ [of_nat (length derivation)] @ path_bytes derivation @ xpub @ [of_nat (length path)] @ path_bytes path"

definition signer_parent :: "'x wallet_lib \<Rightarrow> signer_t \<Rightarrow> bytes option run" where
  "signer_parent L signer =
     (case (base58_to_bytes L (sg_xpub signer), sg_path signer) of
        (Some xpub, NumericPath path) \<Rightarrow> parent_xpub L xpub path
      | _ \<Rightarrow> Ret None)"

definition signer_fits :: "signer_t \<Rightarrow> bool" where
  "signer_fits signer \<longleftrightarrow> length (sg_fingerprint signer) = 4 \<and> length (sg_xpub signer) < 120"

text \<open>The text of a key in Base58Check is determined by its bytes.\<close>

definition base58_canonical :: "'x wallet_lib \<Rightarrow> bool" where
  "base58_canonical L \<longleftrightarrow> (\<forall>s b. base58_to_bytes L s = Some b \<longrightarrow> base58_from_bytes L b = Some s)"

lemma write_signers_Cons:
  assumes "write_signers L n c (s # ss) = Ret (Some (bs, c'))"
  obtains xpub path rest where "base58_to_bytes L (sg_xpub s) = Some xpub" "length xpub = 78"
    "sg_path s = NumericPath path" "length (sg_derivation s) \<le> 16" "length path \<le> 16"
    "write_signers L n (c + length (sg_derivation s) + length path) ss = Ret (Some (rest, c'))"
    "bs = signer_chunk (sg_fingerprint s) (sg_derivation s) xpub path @ rest"
  using assms
  by (auto simp: Let_def run_simps signer_chunk_def multisig_sizes split: option.splits signer_path.splits if_splits)

lemma read_signer_chunk:
  assumes "length fp = 4" and "length d \<le> 16" and "length x = 78" and "length p \<le> 16"
    and "base58_from_bytes L x = Some s" and "length s < 120" and "parent_xpub L x p = Ret (Some xp)"
    and bs: "bs = pre @ signer_chunk fp d x p @ post"
  shows "read_signers L bs details (Suc n) (length pre) =
    then_run (read_signers L bs (details - 1) n (length (pre @ signer_chunk fp d x p))) (\<lambda>r. Ret (map_option
      (\<lambda>(xs, ss, q). (xp # xs, (if details > 0 then [\<lparr>sg_fingerprint = fp, sg_derivation = d, sg_xpub = s,
        sg_path = NumericPath p\<rparr>] else []) @ ss, q)) r))"
proof -
  let ?dl = "of_nat (length d) :: byte" and ?pl = "of_nat (length p) :: byte" and ?p0 = "length pre"
  let ?p1 = "?p0 + 5 + 4 * length d + 78"
  have lens: "unat ?dl = length d" "unat ?pl = length p" using assms(2,4) by (simp_all add: unat_small_byte)
  have "?pl = 0 \<longleftrightarrow> unat ?pl = 0" by (simp only: unat_eq_0)
  then have empty: "?pl = 0 \<longleftrightarrow> p = []" using lens(2) by simp
  have r1: "read_at bs ?p0 4 = Ret fp"
    using assms(1) unfolding bs signer_chunk_def by (simp add: read_at_def)
  have r2: "read_byte_at bs (?p0 + 4) = Ret ?dl"
    using read_byte_at_here [of "?p0 + 4" "pre @ fp" ?dl] assms(1) unfolding bs signer_chunk_def by simp
  have r3: "read_at bs (?p0 + 5) (length d * 4) = Ret (path_bytes d)"
    using read_at_here [of "length d * 4" "path_bytes d" "?p0 + 5" "pre @ fp @ [?dl]"] assms(1)
    unfolding bs signer_chunk_def by simp
  have r4: "read_at bs (?p0 + 5 + length d * 4) 78 = Ret x"
    using read_at_here [of 78 x "?p0 + 5 + length d * 4" "pre @ fp @ [?dl] @ path_bytes d"] assms(1,3)
    unfolding bs signer_chunk_def by simp
  have r5: "read_byte_at bs (?p0 + 5 + length d * 4 + 78) = Ret ?pl"
    using read_byte_at_here [of "?p0 + 5 + length d * 4 + 78" "pre @ fp @ [?dl] @ path_bytes d @ x" ?pl] assms(1,3)
    unfolding bs signer_chunk_def by simp
  have r6: "read_at bs (?p0 + 5 + length d * 4 + 78 + 1) (length p * 4) = Ret (path_bytes p)"
    using read_at_here [of "length p * 4" "path_bytes p" "?p0 + 5 + length d * 4 + 78 + 1"
        "pre @ fp @ [?dl] @ path_bytes d @ x @ [?pl]" post] assms(1,3)
    unfolding bs signer_chunk_def by simp
  have r6': "(if ?pl \<noteq> 0 then read_at bs (?p0 + 5 + length d * 4 + 78 + 1) (length p * 4) else Ret []) = Ret (path_bytes p)"
    using r6 empty by (auto simp: path_bytes_def)
  have len: "length (pre @ signer_chunk fp d x p) = ?p0 + 5 + length d * 4 + 78 + 1 + length p * 4"
    using assms(1,3) by (simp add: signer_chunk_def)
  have small: "16 < length d \<longleftrightarrow> False" "16 < length p \<longleftrightarrow> False" "120 \<le> length s \<longleftrightarrow> False"
    using assms(2,4,6) by auto
  have pos: "0 < details \<Longrightarrow> (details > 0) = True" "\<not> 0 < details \<Longrightarrow> (details > 0) = False" by simp_all
  show ?thesis
  proof (cases "details > 0")
    case True
    show ?thesis
      unfolding read_signers.simps(2) Let_def MAX_PATH_LEN_def BIP32_SERIALIZED_LEN_def read_if_def len
      by (simp only: pos(1) [OF True] r1 r2 r3 r4 r5 r6' lens small path_of_path_bytes assms(5,7) then_run_simps
          if_True if_False option.case)
  next
    case False
    show ?thesis
      unfolding read_signers.simps(2) Let_def MAX_PATH_LEN_def BIP32_SERIALIZED_LEN_def read_if_def len
      by (simp only: pos(2) [OF False] r1 r2 r3 r4 r5 r6' lens small path_of_path_bytes assms(5,7) then_run_simps
          if_True if_False option.case list.size not_numeral_le_zero append_Nil)
  qed
qed

lemma read_written_signers:
  assumes "base58_canonical L"
  shows "write_signers L n c signers = Ret (Some (bs, c')) \<Longrightarrow> list_all signer_fits signers
    \<Longrightarrow> list_all2 (\<lambda>s x. signer_parent L s = Ret (Some x)) signers xpubs
    \<Longrightarrow> read_signers L (pre @ bs @ post) details (length signers) (length pre)
      = Ret (Some (xpubs, take details signers, length (pre @ bs)))"
proof (induction signers arbitrary: c bs pre details xpubs)
  case Nil
  then show ?case by simp
next
  case (Cons s ss)
  obtain x p rest where w: "base58_to_bytes L (sg_xpub s) = Some x" "length x = 78" "sg_path s = NumericPath p"
    "length (sg_derivation s) \<le> 16" "length p \<le> 16"
    "write_signers L n (c + length (sg_derivation s) + length p) ss = Ret (Some (rest, c'))"
    "bs = signer_chunk (sg_fingerprint s) (sg_derivation s) x p @ rest"
    using write_signers_Cons [OF Cons.prems(1)] .
  obtain xp xps where xs: "xpubs = xp # xps" "signer_parent L s = Ret (Some xp)"
    "list_all2 (\<lambda>s x. signer_parent L s = Ret (Some x)) ss xps"
    using Cons.prems(3) by (auto simp: list_all2_Cons1)
  let ?chunk = "signer_chunk (sg_fingerprint s) (sg_derivation s) x p"
  have head: "signer_fits s" and fits_tail: "list_all signer_fits ss"
    using Cons.prems(2) by simp_all
  have fits: "length (sg_fingerprint s) = 4" "length (sg_xpub s) < 120" "list_all signer_fits ss"
    using head fits_tail unfolding signer_fits_def by simp_all
  have "base58_from_bytes L x = Some (sg_xpub s)" using assms w(1) by (simp add: base58_canonical_def)
  moreover have "parent_xpub L x p = Ret (Some xp)" using xs(2) w(1,3) by (simp add: signer_parent_def)
  moreover have b: "pre @ bs @ post = pre @ ?chunk @ rest @ post" by (simp add: w(7))
  ultimately have step: "read_signers L (pre @ bs @ post) details (Suc (length ss)) (length pre) =
    then_run (read_signers L (pre @ bs @ post) (details - 1) (length ss) (length (pre @ ?chunk))) (\<lambda>r. Ret (map_option
      (\<lambda>(xs, ss, q). (xp # xs, (if details > 0 then [\<lparr>sg_fingerprint = sg_fingerprint s,
        sg_derivation = sg_derivation s, sg_xpub = sg_xpub s, sg_path = NumericPath p\<rparr>] else []) @ ss, q)) r))"
    using fits w(2,4,5) by (intro read_signer_chunk) auto
  have "read_signers L ((pre @ ?chunk) @ rest @ post) (details - 1) (length ss) (length (pre @ ?chunk))
      = Ret (Some (xps, take (details - 1) ss, length ((pre @ ?chunk) @ rest)))"
    by (rule Cons.IH [OF w(6) fits(3) xs(3)])
  then have ih: "read_signers L (pre @ bs @ post) (details - 1) (length ss) (length (pre @ ?chunk))
      = Ret (Some (xps, take (details - 1) ss, length (pre @ bs)))" by (simp add: w(7))
  have "\<lparr>sg_fingerprint = sg_fingerprint s, sg_derivation = sg_derivation s, sg_xpub = sg_xpub s,
      sg_path = NumericPath p\<rparr> = s" using w(3) by (cases s) simp
  with step ih show ?case unfolding xs(1) by (cases details) simp_all
qed

section \<open>The record\<close>

lemma variant_roundtrip [simp]: "is_multisig v \<Longrightarrow> variant_of_byte (variant_byte v) = v"
  by (cases v) (simp_all add: variant_of_byte_def is_multisig_def)

definition key_bytes :: "bytes option \<Rightarrow> bytes" where
  "key_bytes k = (case k of None \<Rightarrow> [] | Some d \<Rightarrow> d)"

definition record_head :: "script_variant_t \<Rightarrow> bool \<Rightarrow> byte \<Rightarrow> bytes \<Rightarrow> nat \<Rightarrow> bytes" where
  "record_head variant is_sorted threshold key n =
     [CURRENT_MULTISIG_RECORD_VERSION, variant_byte variant, if is_sorted then 1 else 0, threshold, of_nat (length key)]
       @ key @ [of_nat n]"

lemma multisig_data_to_bytes_Ret:
  assumes "multisig_data_to_bytes L kc variant is_sorted threshold mbk signers n len = Ret (Some bs)"
  obtains sb h where "threshold > 0" "unat threshold \<le> length signers" "length signers \<le> MAX_ALLOWED_SIGNERS"
    "IS_VALID_BLINDING_KEY mbk" "write_signers L n 0 signers = Ret (Some (sb, n))"
    "wallet_hmac_with_master_key L kc (record_head variant is_sorted threshold (key_bytes mbk) (length signers) @ sb) = Ret (Some h)"
    "bs = (record_head variant is_sorted threshold (key_bytes mbk) (length signers) @ sb) @ h"
    "len = MULTISIG_BYTES_LEN (length (key_bytes mbk)) (length signers) n"
    "length (record_head variant is_sorted threshold (key_bytes mbk) (length signers) @ sb) + 32 = len"
  using assms unfolding multisig_data_to_bytes_def
  by (auto simp: run_simps Let_def record_head_def HMAC_SHA256_LEN_def simp flip: key_bytes_def split: option.splits)

lemma wallet_hmac_length:
  assumes "wallet_hmac_with_master_key L kc body = Ret (Some h)"
    and "\<And>k d. length (wally_hmac_sha256 (wl_keys L) k d) = 32"
  shows "length h = 32"
  using assms by (auto simp: wallet_hmac_with_master_key_def split: option.splits if_splits)

lemma read_blinding_key_head:
  assumes "key = [] \<or> length key = MULTISIG_MASTER_BLINDING_KEY_SIZE"
  shows "read_blinding_key (record_head variant is_sorted threshold key n @ post) 4 CURRENT_MULTISIG_RECORD_VERSION
    = Ret (Some (key, 5 + length key))"
proof (cases "key = []")
  case True
  then show ?thesis
    by (simp add: read_blinding_key_def record_head_def CURRENT_MULTISIG_RECORD_VERSION_def read_byte_at_def)
next
  case False
  then have 32: "length key = 32" using assms by (simp add: multisig_sizes)
  let ?bs = "record_head variant is_sorted threshold key n @ post"
  have len: "read_byte_at ?bs 4 = Ret 32" by (simp add: record_head_def read_byte_at_def 32)
  have "read_at ?bs 5 32 = Ret key"
    unfolding read_at_def record_head_def using 32 by simp
  then show ?thesis
    by (simp add: read_blinding_key_def CURRENT_MULTISIG_RECORD_VERSION_def len multisig_sizes 32)
qed

lemma length_record_head [simp]: "length (record_head variant is_sorted threshold key n) = 6 + length key"
  by (simp add: record_head_def)

lemma record_head_nth:
  "(record_head variant is_sorted threshold key n @ post) ! 0 = CURRENT_MULTISIG_RECORD_VERSION"
  "(record_head variant is_sorted threshold key n @ post) ! 1 = variant_byte variant"
  "(record_head variant is_sorted threshold key n @ post) ! 2 = (if is_sorted then 1 else 0)"
  "(record_head variant is_sorted threshold key n @ post) ! 3 = threshold"
  by (simp_all add: record_head_def)

lemma write_signers_length:
  "write_signers L n c signers = Ret (Some (bs, c')) \<Longrightarrow> list_all signer_fits signers
    \<Longrightarrow> length bs + 4 * c = 84 * length signers + 4 * c'"
proof (induction signers arbitrary: c bs)
  case Nil
  then show ?case by simp
next
  case (Cons s ss)
  obtain x p rest where w: "length x = 78" "sg_path s = NumericPath p"
    "write_signers L n (c + length (sg_derivation s) + length p) ss = Ret (Some (rest, c'))"
    "bs = signer_chunk (sg_fingerprint s) (sg_derivation s) x p @ rest"
    using write_signers_Cons [OF Cons.prems(1)] .
  have "signer_fits s" and fits_tail: "list_all signer_fits ss" using Cons.prems(2) by simp_all
  then have "length (sg_fingerprint s) = 4" by (simp add: signer_fits_def)
  with Cons.IH [OF w(3) fits_tail] w(1,4) show ?case by (simp add: signer_chunk_def)
qed

text \<open>The signers behind the head, read up to the HMAC.\<close>

lemma read_complete_written:
  assumes "base58_canonical L" and "write_signers L n 0 signers = Ret (Some (sb, c'))"
    and "list_all signer_fits signers"
    and "list_all2 (\<lambda>s x. signer_parent L s = Ret (Some x)) signers xpubs"
    and "0 < length signers" and "length signers \<le> MAX_ALLOWED_SIGNERS"
  shows "read_complete_signers L (record_head variant is_sorted threshold key (length signers) @ sb @ h) (5 + length key)
      (1 + length sb) CURRENT_MULTISIG_RECORD_VERSION details
    = Ret (Some (xpubs, take details signers, length signers))"
proof -
  let ?head = "record_head variant is_sorted threshold key (length signers)"
  let ?num = "of_nat (length signers) :: byte"
  have num: "unat ?num = length signers" using assms(6) by (intro unat_small_byte) (simp add: multisig_sizes)
  then have nz: "?num \<noteq> 0" using assms(5) by (metis less_irrefl unat_0)
  have count: "read_byte_at (?head @ sb @ h) (5 + length key) = Ret ?num"
    by (simp add: read_byte_at_def record_head_def nth_append)
  have "read_signers L (?head @ sb @ h) details (length signers) (length ?head)
      = Ret (Some (xpubs, take details signers, length (?head @ sb)))"
    by (rule read_written_signers [OF assms(1-4)])
  then have "read_signers L (?head @ sb @ h) details (length signers) (5 + length key + 1)
      = Ret (Some (xpubs, take details signers, 6 + length key + length sb))" by simp
  with num nz assms(6) show ?thesis
    unfolding read_complete_signers_def count CURRENT_MULTISIG_RECORD_VERSION_def by (simp add: jade_assert_def)
qed

text \<open>The whole record.\<close>

lemma record_reads_back:
  assumes written: "multisig_data_to_bytes L kc variant is_sorted threshold key signers n len = Ret (Some bs)"
    and "is_multisig variant" and "list_all signer_fits signers"
    and "list_all2 (\<lambda>s x. signer_parent L s = Ret (Some x)) signers xpubs"
    and "base58_canonical L" and "\<forall>k d. length (wally_hmac_sha256 (wl_keys L) k d) = 32"
  shows "length bs = len \<and> multisig_data_from_bytes L kc bs details =
    Ret (Some (\<lparr>md_variant = variant, md_sorted = is_sorted, md_threshold = threshold,
      md_master_blinding_key = key_bytes key, md_xpubs = xpubs\<rparr>, take details signers, length signers))"
proof -
  let ?key = "key_bytes key"
  let ?head = "record_head variant is_sorted threshold ?key (length signers)"
  obtain sb h where d: "threshold > 0" "unat threshold \<le> length signers" "length signers \<le> MAX_ALLOWED_SIGNERS"
    "IS_VALID_BLINDING_KEY key" "write_signers L n 0 signers = Ret (Some (sb, n))"
    "wallet_hmac_with_master_key L kc (?head @ sb) = Ret (Some h)" "bs = (?head @ sb) @ h"
    "len = MULTISIG_BYTES_LEN (length ?key) (length signers) n" "length (?head @ sb) + 32 = len"
    using multisig_data_to_bytes_Ret [OF written] .
  have h: "length h = 32" using assms(6) by (blast intro: wallet_hmac_length [OF d(6)])
  have "unat threshold > 0" using d(1) by (simp add: unat_gt_0 word_gt_0)
  then have some: "0 < length signers" using d(2) by linarith
  have key: "?key = [] \<or> length ?key = MULTISIG_MASTER_BLINDING_KEY_SIZE"
    using d(4) by (auto simp: IS_VALID_BLINDING_KEY_def key_bytes_def split: option.splits)
  have sb: "length sb = 84 * length signers + 4 * n"
    using write_signers_length [OF d(5) assms(3)] by simp
  have body: "length bs - HMAC_SHA256_LEN = 6 + length ?key + length sb" using d(7) h by (simp add: HMAC_SHA256_LEN_def)
  have mac: "wallet_hmac_with_master_key L kc (take (6 + length ?key + length sb) bs)
      = Ret (Some (drop (6 + length ?key + length sb) bs))"
    using d(6,7) by simp
  have "84 \<le> length sb" using sb some by linarith
  then have enough: "MIN_MULTISIG_BYTES_LEN \<le> length bs" using d(7) h by (simp add: multisig_sizes)
  have bs: "bs = ?head @ sb @ h" using d(7) by simp
  have blind: "read_blinding_key bs (3 + 1) CURRENT_MULTISIG_RECORD_VERSION = Ret (Some (?key, 5 + length ?key))"
    using read_blinding_key_head [OF key] unfolding bs by simp
  have rest: "5 + length ?key \<le> 6 + length ?key + length sb"
    "6 + length ?key + length sb - (5 + length ?key) = 1 + length sb" by simp_all
  have signers: "read_complete_signers L bs (5 + length ?key) (1 + length sb) CURRENT_MULTISIG_RECORD_VERSION details
      = Ret (Some (xpubs, take details signers, length signers))"
    unfolding bs by (rule read_complete_written [OF assms(5) d(5) assms(3,4) some d(3)])
  have version: "\<not> CURRENT_MULTISIG_RECORD_VERSION < 3" "CURRENT_MULTISIG_RECORD_VERSION > 0"
    by (simp_all add: CURRENT_MULTISIG_RECORD_VERSION_def)
  have at: "bs ! 0 = CURRENT_MULTISIG_RECORD_VERSION" "bs ! 1 = variant_byte variant"
    "bs ! 2 = (if is_sorted then 1 else 0)" "bs ! 3 = threshold"
    unfolding bs by (rule record_head_nth)+
  have "multisig_data_from_bytes L kc bs details =
    Ret (Some (\<lparr>md_variant = variant, md_sorted = is_sorted, md_threshold = threshold,
      md_master_blinding_key = ?key, md_xpubs = xpubs\<rparr>, take details signers, length signers))"
    unfolding multisig_data_from_bytes_def Let_def body mac at
    using version enough
    by (simp add: blind [simplified] signers [simplified] rest variant_roundtrip [OF assms(2)] at(4) jade_assert_def)
  moreover have "length bs = len" using d(7,9) h by simp
  ultimately show ?thesis by simp
qed

end
