(* ===== verification/Jade_Register_Props.thy ===== *)
theory Jade_Register_Props
  imports Jade_Multisig_Props Jade_Keychain_Theorems
begin

text \<open>
  Registering a multisig wallet over any storage that keeps the contract, and loading
  the record.
\<close>

section \<open>The record of a registration\<close>

text \<open>The signers are valid for the keychain, and these are the bytes of their record.\<close>

definition registers ::
  "'x wallet_lib \<Rightarrow> 'x keychain_t option \<Rightarrow> script_variant_t \<Rightarrow> bool \<Rightarrow> nat \<Rightarrow> signer_t list \<Rightarrow> bytes option \<Rightarrow> bytes \<Rightarrow> bool" where
  "registers L kc variant is_sorted threshold signers key bs \<longleftrightarrow>
     (\<exists>fingerprint n. wallet_get_fingerprint L kc = Ret fingerprint
       \<and> validate_signers L kc signers False fingerprint = Ret (Some n)
       \<and> multisig_data_to_bytes L kc variant is_sorted (of_nat threshold) key signers n
           (MULTISIG_BYTES_LEN (length (key_bytes key)) (length signers) n) = Ret (Some bs))"

text \<open>The user was shown all of it and agreed.\<close>

definition confirmed ::
  "'x wallet_lib \<Rightarrow> register_ui \<Rightarrow> 'x keychain_t option \<Rightarrow> string \<Rightarrow> bool \<Rightarrow> nat \<Rightarrow> signer_t list \<Rightarrow> bytes option \<Rightarrow> bool" where
  "confirmed L U kc name is_sorted threshold signers key \<longleftrightarrow>
     (\<exists>fingerprint overwriting. wallet_get_fingerprint L kc = Ret fingerprint
       \<and> (key \<noteq> None \<longrightarrow> hex_from_bytes L (the key) \<noteq> None)
       \<and> ui_show_multisig U name is_sorted threshold signers
           (case key of None \<Rightarrow> None | Some k \<Rightarrow> hex_from_bytes L k) fingerprint overwriting)"

lemma length_key_bytes: "(case key of None \<Rightarrow> 0 | Some k \<Rightarrow> length k) = length (key_bytes key)"
  by (simp add: key_bytes_def split: option.splits)

text \<open>How a registration ends.\<close>

lemma register_multisig_ends:
  assumes "register_multisig N L U junk name variant is_sorted threshold signers key st = Ret ((code, errmsg), st')"
  obtains (refused) "code \<noteq> 0" "st' = st"
  | (checked) bs overwriting v where "registers L (keychain_get st) variant is_sorted threshold signers key bs"
      "check_existing N name bs overwriting st = Ret (v, st')" "code = 0 \<Longrightarrow> v = AlreadyStored"
  | (stored) bs overwriting st1 where "registers L (keychain_get st) variant is_sorted threshold signers key bs"
      "check_existing N name bs overwriting st = Ret (AskUser, st1)"
      "confirmed L U (keychain_get st) name is_sorted threshold signers key"
      "on_nvs (store_blob N MULTISIG_NAMESPACE (Some name) (Some bs)) st1 = Ret (code = 0, st')"
  using assms unfolding register_multisig_def Let_def length_key_bytes
  by (elim andthenE) ((auto elim!: andthenE simp: inspect_Ret from_run_Ret insist_Ret_iff give_Ret_iff registers_def confirmed_def
      CBOR_RPC_BAD_PARAMETERS_def CBOR_RPC_INTERNAL_ERROR_def CBOR_RPC_USER_CANCELLED_def storage_set_multisig_registration_def wally_verify_def
      split: if_split_asm option.split_asm registration_check.split_asm run.split_asm; blast))

context nvs_store
begin

lemma check_existing:
  assumes "inv (kc_nvs st)" and "check_existing N name registration overwriting st = Ret (v, st')"
  shows "inv (kc_nvs st') \<and> look (kc_nvs st') = look (kc_nvs st) \<and> st' = st\<lparr>kc_nvs := kc_nvs st'\<rparr>
    \<and> (v = AlreadyStored \<longrightarrow> look (kc_nvs st) MULTISIG_NAMESPACE name = Some registration)"
proof (cases overwriting)
  case True
  then obtain r s where r: "read_blob N MULTISIG_NAMESPACE (Some name) (length registration) (kc_nvs st) = Ret (r, s)"
    and "st' = st\<lparr>kc_nvs := s\<rparr>" "v = (if r = Some registration then AlreadyStored else AskUser)"
    using assms(2) by (auto simp: check_existing_def storage_get_multisig_registration_def run_simps)
  with read_blob [OF assms(1) r] show ?thesis by auto
next
  case False
  then have "st' = st \<and> v \<noteq> AlreadyStored"
    using assms(2) by (auto simp: check_existing_def run_simps inspect_def split: option.splits if_splits)
  with assms(1) show ?thesis by simp
qed

text \<open>What a registration did to the storage, by its outcome.\<close>

lemma register_multisig:
  assumes "inv (kc_nvs st)"
    and "register_multisig N L U junk name variant is_sorted threshold signers key st = Ret ((code, errmsg), st')"
  shows "inv (kc_nvs st') \<and> st' = st\<lparr>kc_nvs := kc_nvs st'\<rparr>
    \<and> (look (kc_nvs st') = look (kc_nvs st)
         \<and> (code = 0 \<longrightarrow> (\<exists>bs. registers L (keychain_get st) variant is_sorted threshold signers key bs
              \<and> look (kc_nvs st') MULTISIG_NAMESPACE name = Some bs))
       \<or> (\<exists>bs. registers L (keychain_get st) variant is_sorted threshold signers key bs
              \<and> confirmed L U (keychain_get st) name is_sorted threshold signers key
              \<and> only_at MULTISIG_NAMESPACE name
                  (if code = 0 then {Some bs} else {look (kc_nvs st) MULTISIG_NAMESPACE name, Some bs})
                  (look (kc_nvs st)) (look (kc_nvs st'))))"
  using assms(2)
proof (cases rule: register_multisig_ends)
  case refused
  with assms(1) show ?thesis by simp
next
  case (checked bs overwriting v)
  from check_existing [OF assms(1) checked(2)] checked show ?thesis by auto
next
  case (stored bs overwriting st1)
  from check_existing [OF assms(1) stored(2)] have st1: "inv (kc_nvs st1)" "look (kc_nvs st1) = look (kc_nvs st)"
    "st1 = st\<lparr>kc_nvs := kc_nvs st1\<rparr>" by simp_all
  from stored(4) obtain s where s: "store_blob N MULTISIG_NAMESPACE (Some name) (Some bs) (kc_nvs st1) = Ret (code = 0, s)"
    "st' = st1\<lparr>kc_nvs := s\<rparr>" by (auto simp: on_nvs_Ret)
  have st': "st' = st\<lparr>kc_nvs := s\<rparr>" unfolding s(2) by (subst st1(3)) simp
  from store_blob [OF st1(1) s(1)] stored(1,3) show ?thesis unfolding st' by (auto simp: st1(2))
qed

end

lemma register_multisig_guards:
  assumes "register_multisig N L U junk name variant is_sorted threshold signers key st = Ret ((0, errmsg), st')"
  shows "is_multisig variant" and "0 < threshold" and "threshold \<le> length signers"
  using assms unfolding register_multisig_def
  by (auto elim!: andthenE simp: insist_Ret_iff give_Ret_iff CBOR_RPC_BAD_PARAMETERS_def split: if_split_asm)

section \<open>Loading the record\<close>

context nvs_reliable
begin

lemma read_blob_back:
  assumes "inv s" and "ns \<in> spaces" and "look s ns k = Some d" and "length d \<le> len" and "0 < len"
  shows "\<exists>t. read_blob N ns (Some k) len s = Ret (Some d, t)"
proof -
  from opens [OF assms(1,2)] obtain h t where t: "nvs_open N ns NVS_READONLY s = (Inr h, t)" by blast
  from open_nvs [OF assms(1) t] have "inv t" "handle h" "ns_of h = ns" "look t = look s" by auto
  with finds [of t h k d len] assms(3,4) have "nvs_get_blob N h k len t = Inr d" by simp
  with t assms(4,5) show ?thesis
    by (simp add: read_blob_def storage_open_def andthen_def give_def)
qed

end

lemma record_length_bound:
  assumes "multisig_data_to_bytes L kc variant is_sorted threshold key signers n len = Ret (Some bs)"
    and "\<forall>k d. length (wally_hmac_sha256 (wl_keys L) k d) = 32"
  shows "0 < length bs \<and> length bs \<le> MAX_MULTISIG_BYTES_LEN"
proof -
  have "n \<le> length signers * 2 * MAX_PATH_LEN"
    using assms(1) unfolding multisig_data_to_bytes_def Let_def by (auto simp: jade_assert_Ret)
  moreover obtain h where "length bs = len" "length signers \<le> MAX_ALLOWED_SIGNERS" "IS_VALID_BLINDING_KEY key"
    "len = MULTISIG_BYTES_LEN (length (key_bytes key)) (length signers) n"
    using assms(1) by (rule multisig_data_to_bytes_Ret) (auto dest: wallet_hmac_length simp: assms(2))
  moreover have "length (key_bytes key) \<le> 32"
    using \<open>IS_VALID_BLINDING_KEY key\<close>
    by (auto simp: IS_VALID_BLINDING_KEY_def key_bytes_def multisig_sizes split: option.splits)
  ultimately show ?thesis by (simp add: multisig_sizes)
qed

lemma record_sane:
  assumes "multisig_data_to_bytes L kc variant is_sorted threshold key signers n len = Ret (Some bs)"
    and "is_multisig variant" and "length xpubs = length signers"
  shows "multisig_data_sane \<lparr>md_variant = variant, md_sorted = is_sorted, md_threshold = threshold,
    md_master_blinding_key = key_bytes key, md_xpubs = xpubs\<rparr>"
proof -
  from assms(1) obtain h where d: "threshold > 0" "unat threshold \<le> length signers" "length signers \<le> MAX_ALLOWED_SIGNERS"
    "IS_VALID_BLINDING_KEY key" by (rule multisig_data_to_bytes_Ret) auto
  have "unat threshold > 0" using d(1) by (simp add: unat_gt_0 word_gt_0)
  with d assms(2,3) show ?thesis
    by (auto simp: multisig_data_sane_def IS_VALID_BLINDING_KEY_def key_bytes_def split: option.splits)
qed

end
