(* ===== verification/Jade_Multisig_Theorems.thy ===== *)
theory Jade_Multisig_Theorems
  imports Jade_Register_Props Jade_Keychain_Theorems
begin

text \<open>
  The properties of the multisig records and of their registration.
\<close>

section \<open>Writing and reading a record\<close>

text \<open>C16: A record that was written is read back as it was: the variant, the sorted flag, the
threshold and the blinding key; the xpub of every signer with its additional path applied;
and the details of as many signers as asked for, with the number of all of them. The
parameters are the library's Base58 (the text of a key is determined by its bytes) and
HMAC (32 bytes); the signers' fingerprints have four bytes and their texts fit the buffer
of the reader, as the code that collects them has checked.\<close>

theorem multisig_record_roundtrip:
  assumes written: "multisig_data_to_bytes L kc variant is_sorted threshold key signers n len = Ret (Some bs)"
    and "is_multisig variant" and "list_all signer_fits signers"
    and "list_all2 (\<lambda>s x. signer_parent L s = Ret (Some x)) signers xpubs"
    and "base58_canonical L" and "\<forall>k d. length (wally_hmac_sha256 (wl_keys L) k d) = 32"
  shows "length bs = len \<and> multisig_data_from_bytes L kc bs details =
    Ret (Some (\<lparr>md_variant = variant, md_sorted = is_sorted, md_threshold = threshold,
      md_master_blinding_key = key_bytes key, md_xpubs = xpubs\<rparr>, take details signers, length signers))"
  using assms by (rule record_reads_back)

text \<open>A library whose Base58 text has a character for each byte, and a wallet of two signers.\<close>

definition demo_wallet_lib :: "unit wallet_lib" where
  "demo_wallet_lib = \<lparr>wl_keys = demo_keys, key_priv_key = (\<lambda>_. replicate 33 7), key_hash160 = (\<lambda>_. replicate 20 9),
     key_with_version = (\<lambda>_ x. x), key_from_base58 = (\<lambda>_. Some ()), key_to_base58 = (\<lambda>_. Some ''xpub''),
     key_serialize_public = (\<lambda>_. Some (replicate 78 5)), base58_to_bytes = (\<lambda>s. Some (map char_byte s)),
     base58_from_bytes = (\<lambda>b. Some (map byte_char b)), path_from_str = (\<lambda>_. Some [1]),
     path_str_is_hardened = (\<lambda>_. Some False), hex_from_bytes = (\<lambda>b. Some (replicate (2 * length b) CHR ''0'')),
     hex_to_bytes = (\<lambda>s. Some (replicate (length s div 2) 0)), witness_program = (\<lambda>_ _. None), p2sh_script = (\<lambda>_. None),
     p2pkh_script = (\<lambda>_. None), p2tr_script = (\<lambda>_ _. None), multisig_script = (\<lambda>_ _ _. None),
     csv_script = (\<lambda>_ _ _. None)\<rparr>"

definition demo_keychain :: "unit keychain_t" where
  "demo_keychain = \<lparr>kd_gaservice_path = [], kd_master_unblinding_key = replicate 64 0, kd_seed = replicate 64 0,
     kd_xpriv = (), kd_cached_gaservice_main_root = (), kd_cached_gaservice_subact_root = (),
     kd_cached_service = None, kd_seed_len = 64\<rparr>"

definition demo_signer :: "byte \<Rightarrow> u32 list \<Rightarrow> char \<Rightarrow> signer_t" where
  "demo_signer b d c = \<lparr>sg_fingerprint = replicate 4 b, sg_derivation = d, sg_xpub = replicate 78 c, sg_path = NumericPath []\<rparr>"

definition demo_record :: bytes where
  "demo_record = [3, 4, 1, 2, 0, 2] @ (replicate 4 9 @ [1, 44, 0, 0, 0] @ replicate 78 97 @ [0])
     @ (replicate 4 8 @ [0] @ replicate 78 98 @ [0]) @ replicate 32 7"

lemma demo_lib_laws: "base58_canonical demo_wallet_lib" "\<forall>k d. length (wally_hmac_sha256 (wl_keys demo_wallet_lib) k d) = 32"
  by (auto simp: base58_canonical_def demo_wallet_lib_def demo_keys_def comp_def)

lemma demo_parents: "list_all2 (\<lambda>s x. signer_parent demo_wallet_lib s = Ret (Some x))
    [demo_signer 9 [44] CHR ''a'', demo_signer 8 [] CHR ''b''] [replicate 78 97, replicate 78 98]"
  by (simp add: signer_parent_def demo_wallet_lib_def demo_signer_def parent_xpub_def char_byte_def)

lemma demo_signers_fit: "list_all signer_fits [demo_signer 9 [44] CHR ''a'', demo_signer 8 [] CHR ''b'']"
  by (simp add: signer_fits_def demo_signer_def)

theorem multisig_record_roundtrip_witness:
  "multisig_data_from_bytes demo_wallet_lib (Some demo_keychain) demo_record 1 =
    Ret (Some (\<lparr>md_variant = MULTI_P2WSH, md_sorted = True, md_threshold = 2, md_master_blinding_key = [],
      md_xpubs = [replicate 78 97, replicate 78 98]\<rparr>, [demo_signer 9 [44] CHR ''a''], 2))"
proof -
  have written: "multisig_data_to_bytes demo_wallet_lib (Some demo_keychain) MULTI_P2WSH True 2 None
      [demo_signer 9 [44] CHR ''a'', demo_signer 8 [] CHR ''b''] 1 210 = Ret (Some demo_record)"
    by code_simp
  show ?thesis
    using multisig_record_roundtrip [OF written _ demo_signers_fit demo_parents demo_lib_laws, of 1]
    by (simp add: is_multisig_def key_bytes_def)
qed

section \<open>Registering\<close>

text \<open>C14: A multisig wallet is stored only as the user saw it. On the NVS of the library build,
a registration touches no other entry of the storage and nothing of the keychain. When it
succeeds, the entry of that name holds the record of these signers, which were validated
against the wallet's own fingerprint. If the entry changed, by a success or a failure, the
user was shown the name, the threshold, the signers and the blinding key, and agreed, and
the entry is that record.\<close>

theorem register_multisig_consent:
  assumes "nvs_inv W (kc_nvs st)"
    and "register_multisig (libjade_nvs W c) L U junk name variant is_sorted threshold signers key st
      = Ret ((code, errmsg), st')"
  shows "nvs_inv W (kc_nvs st') \<and> st' = st\<lparr>kc_nvs := kc_nvs st'\<rparr>
    \<and> same_but {(MULTISIG_NAMESPACE, name)} (nvs_look (kc_nvs st)) (nvs_look (kc_nvs st'))
    \<and> (code = 0 \<longrightarrow> (\<exists>bs. registers L (keychain_get st) variant is_sorted threshold signers key bs
          \<and> nvs_look (kc_nvs st') MULTISIG_NAMESPACE name = Some bs))
    \<and> (nvs_look (kc_nvs st') MULTISIG_NAMESPACE name \<noteq> nvs_look (kc_nvs st) MULTISIG_NAMESPACE name \<longrightarrow>
         confirmed L U (keychain_get st) name is_sorted threshold signers key
         \<and> (\<exists>bs. registers L (keychain_get st) variant is_sorted threshold signers key bs
               \<and> nvs_look (kc_nvs st') MULTISIG_NAMESPACE name = Some bs))"
  using libjade.register_multisig [OF assms] by (auto simp: only_at_def same_but_def split: if_splits)

definition agreeing_ui :: register_ui where
  "agreeing_ui = \<lparr>ui_show_multisig = (\<lambda>_ _ _ _ _ _ _. True), ui_truncate_name = (\<lambda>_. True)\<rparr>"

definition demo_unlocked :: "nvs_flash \<Rightarrow> (nvs_flash, unit) keychain_state" where
  "demo_unlocked s = (demo_locked s)\<lparr>kc_data := Some demo_keychain\<rparr>"

abbreviation demo_signers :: "signer_t list" where
  "demo_signers \<equiv> [demo_signer 9 [44] CHR ''a'', demo_signer 8 [] CHR ''b'']"

definition registered_flash :: nvs_flash where
  "registered_flash = \<lparr>nvs_storage = [[], [(map char_byte ''w'', demo_record)], [], [], []], nvs_calls = 1\<rparr>"

lemma demo_registration:
  "register_multisig (libjade_nvs demo_wmap False) demo_wallet_lib agreeing_ui [] ''w'' MULTI_P2WSH True 2 demo_signers None
    (demo_unlocked fresh_flash) = Ret ((0, None), demo_unlocked registered_flash)"
  by code_simp

theorem register_multisig_consent_witness:
  "confirmed demo_wallet_lib agreeing_ui (Some demo_keychain) ''w'' True 2 demo_signers None
    \<and> (\<exists>bs. registers demo_wallet_lib (Some demo_keychain) MULTI_P2WSH True 2 demo_signers None bs
      \<and> nvs_look registered_flash MULTISIG_NAMESPACE ''w'' = Some bs)"
proof -
  have "nvs_look (kc_nvs (demo_unlocked registered_flash)) MULTISIG_NAMESPACE ''w''
      \<noteq> nvs_look (kc_nvs (demo_unlocked fresh_flash)) MULTISIG_NAMESPACE ''w''" by code_simp
  moreover have "nvs_inv demo_wmap (kc_nvs (demo_unlocked fresh_flash))"
    using fresh_flash_inv by (simp add: demo_unlocked_def demo_locked_def)
  ultimately show ?thesis
    using register_multisig_consent [OF _ demo_registration] by (simp add: demo_unlocked_def demo_locked_def keychain_get_def)
qed

text \<open>C15: A registered wallet whose additional paths can be derived can be used. On the NVS of
  the library build, after a registration that succeeded, loading the record by its name
  gives the variant, the threshold, the blinding key, every signer's xpub with its additional
  path applied and the signers' details as they were registered, without an error message,
  also when the same record was stored already. It is about signers whose additional path
  derives from their xpub: the registration checks that the path is not hardened and that the
  xpub parses, but does not derive it, so that an xpub of depth 255 with a path is registered
  and cannot be loaded. The fingerprints have the 4 bytes and the xpub texts the fewer than
  120 characters of \<^verbatim>\<open>signer_t\<close>; of the libraries it takes that Base58Check text is
  determined by its bytes and that an HMAC has 32 bytes, and of the storage that its maps
  follow libwally's laws for lookup and update.\<close>

theorem registered_multisig_loads:
  assumes inv: "nvs_inv W (kc_nvs st)"
    and done_ok: "register_multisig (libjade_nvs W c) L U junk name variant is_sorted threshold signers key st
      = Ret ((0, errmsg), st')"
    and "list_all signer_fits signers" and "list_all2 (\<lambda>s x. signer_parent L s = Ret (Some x)) signers xpubs"
    and "base58_canonical L" and hmac: "\<forall>k d. length (wally_hmac_sha256 (wl_keys L) k d) = 32"
  shows "\<exists>t. multisig_load_from_storage (libjade_nvs W c) L name details st' =
    Ret ((Some (\<lparr>md_variant = variant, md_sorted = is_sorted, md_threshold = of_nat threshold,
      md_master_blinding_key = key_bytes key, md_xpubs = xpubs\<rparr>, take details signers, length signers), None), t)"
proof -
  note guards = register_multisig_guards [OF done_ok]
  from libjade.register_multisig [OF inv done_ok] obtain bs where inv': "nvs_inv W (kc_nvs st')"
    and same: "kc_data st' = kc_data st" and look: "nvs_look (kc_nvs st') MULTISIG_NAMESPACE name = Some bs"
    and reg: "registers L (keychain_get st) variant is_sorted threshold signers key bs"
    by (fastforce simp: only_at_def dest: arg_cong [where f = kc_data])
  from reg obtain n where written: "multisig_data_to_bytes L (keychain_get st) variant is_sorted (of_nat threshold) key signers n
      (MULTISIG_BYTES_LEN (length (key_bytes key)) (length signers) n) = Ret (Some bs)"
    by (auto simp: registers_def)
  let ?d = "\<lparr>md_variant = variant, md_sorted = is_sorted, md_threshold = of_nat threshold,
      md_master_blinding_key = key_bytes key, md_xpubs = xpubs\<rparr>"
  have parsed: "multisig_data_from_bytes L (keychain_get st) bs details = Ret (Some (?d, take details signers, length signers))"
    using record_reads_back [OF written guards(1) assms(3-6)] by simp
  have len: "0 < length bs" "length bs \<le> MAX_MULTISIG_BYTES_LEN" using record_length_bound [OF written hmac] by simp_all
  then have "0 < MAX_MULTISIG_BYTES_LEN" by linarith
  with libjade.read_blob_back [OF inv' _ look len(2)] obtain s where
    s: "read_blob (libjade_nvs W c) MULTISIG_NAMESPACE (Some name) MAX_MULTISIG_BYTES_LEN (kc_nvs st') = Ret (Some bs, s)"
    by (auto simp: nvs_spaces_def)
  have sane: "multisig_data_sane ?d" using record_sane [OF written guards(1)] assms(4) by (auto dest: list_all2_lengthD)
  show ?thesis
    using s parsed sane same
    by (simp add: multisig_load_from_storage_def storage_get_multisig_registration_def andthen_def on_nvs_def inspect_def
        from_run_def give_def keychain_get_def)
qed

theorem registered_multisig_loads_witness:
  "\<exists>t. multisig_load_from_storage (libjade_nvs demo_wmap False) demo_wallet_lib ''w'' 1 (demo_unlocked registered_flash) =
    Ret ((Some (\<lparr>md_variant = MULTI_P2WSH, md_sorted = True, md_threshold = 2, md_master_blinding_key = [],
      md_xpubs = [replicate 78 97, replicate 78 98]\<rparr>, [demo_signer 9 [44] CHR ''a''], 2), None), t)"
proof -
  have "nvs_inv demo_wmap (kc_nvs (demo_unlocked fresh_flash))"
    using fresh_flash_inv by (simp add: demo_unlocked_def demo_locked_def)
  from registered_multisig_loads [OF this demo_registration demo_signers_fit demo_parents demo_lib_laws, of 1]
  show ?thesis by (simp add: key_bytes_def eval_nat_numeral)
qed

end
