(* ===== verification/Jade_Address.thy ===== *)
theory Jade_Address
  imports Jade_Network Jade_Multisig
begin

text \<open>
  \<^verbatim>\<open>src/main/utils/address.c\<close>: scripts as addresses, for the screen, and addresses as
  scripts. A text written to a buffer of \<^verbatim>\<open>output_len\<close> characters stops the device when it
  does not fit. libwally's encoders are the record \<^verbatim>\<open>address_lib\<close>.
\<close>

record address_lib =
  script_type_of :: "bytes \<Rightarrow> script_type option"
  segwit_address :: "bytes \<Rightarrow> string \<Rightarrow> string option"
  base58_check :: "bytes \<Rightarrow> string option"
  hex_text :: "bytes \<Rightarrow> string option"
  confidential_segwit :: "string \<Rightarrow> string \<Rightarrow> string \<Rightarrow> bytes \<Rightarrow> string option"
  confidential_base58 :: "string \<Rightarrow> byte \<Rightarrow> bytes \<Rightarrow> string option"
  address_script :: "string \<Rightarrow> network_t \<Rightarrow> bytes option"
  segwit_script :: "string \<Rightarrow> string \<Rightarrow> bytes option"

definition MAX_ADDRESS_LEN :: nat where "MAX_ADDRESS_LEN = 128"
definition OP_RETURN :: byte where "OP_RETURN = 0x6a"

section \<open>Scripts as addresses\<close>

text \<open>\<^verbatim>\<open>snprintf\<close> with the assertion that the text is not empty and fits.\<close>

definition printed :: "nat \<Rightarrow> string \<Rightarrow> string run" where
  "printed output_len t = jade_assert (length t > 0 \<and> length t < output_len) (Ret t)"

definition base58_addr :: "address_lib \<Rightarrow> byte \<Rightarrow> bytes \<Rightarrow> string run" where
  "base58_addr A prefix script =
     then_run (read_buf 20 (Some script)) (\<lambda>h. wally_verify (base58_check A (prefix # h)))"

definition render_op_return :: "address_lib \<Rightarrow> bytes \<Rightarrow> bool \<Rightarrow> nat \<Rightarrow> string run" where
  "render_op_return A script has_value output_len =
     jade_assert (length script > 0) (
     jade_assert (script ! 0 = OP_RETURN) (
     jade_assert (output_len \<ge> 64) (
     let opdesc = (if has_value then ''Burning Asset - OP_RETURN: '' else ''OP_RETURN: '') in
     if length script > 3 \<and> unat (script ! 1) = length script - 2
        \<and> output_len > length opdesc + 2 * (length script - 2)
     then then_run (wally_verify (hex_text A (drop 2 script))) (\<lambda>payload_hex. printed output_len (opdesc @ payload_hex))
     else printed output_len (opdesc @ ''<script length: '' @ decimal_string (length script) @ '' - cannot be displayed>''))))"

text \<open>The address itself, or what is shown for a script that has none.\<close>

definition script_address_text ::
  "address_lib \<Rightarrow> wally_consts \<Rightarrow> network_t \<Rightarrow> bytes \<Rightarrow> script_type \<Rightarrow> string option run" where
  "script_address_text A w network_id script output_type =
     (case output_type of
        WALLY_SCRIPT_TYPE_P2WPKH \<Rightarrow> then_run (network_to_bech32_prefix network_id) (\<lambda>hrp.
          then_run (wally_verify (segwit_address A script hrp)) (\<lambda>t. Ret (Some t)))
      | WALLY_SCRIPT_TYPE_P2WSH \<Rightarrow> then_run (network_to_bech32_prefix network_id) (\<lambda>hrp.
          then_run (wally_verify (segwit_address A script hrp)) (\<lambda>t. Ret (Some t)))
      | WALLY_SCRIPT_TYPE_P2TR \<Rightarrow> then_run (network_to_bech32_prefix network_id) (\<lambda>hrp.
          then_run (wally_verify (segwit_address A script hrp)) (\<lambda>t. Ret (Some t)))
      | WALLY_SCRIPT_TYPE_P2PKH \<Rightarrow> then_run (network_to_p2pkh_prefix w network_id) (\<lambda>prefix.
          then_run (base58_addr A prefix (drop 3 script)) (\<lambda>t. Ret (Some t)))
      | WALLY_SCRIPT_TYPE_P2SH \<Rightarrow> then_run (network_to_p2sh_prefix w network_id) (\<lambda>prefix.
          then_run (base58_addr A prefix (drop 2 script)) (\<lambda>t. Ret (Some t)))
      | _ \<Rightarrow> Ret None)"

definition script_to_address ::
  "address_lib \<Rightarrow> wally_consts \<Rightarrow> network_t \<Rightarrow> bytes option \<Rightarrow> bool \<Rightarrow> nat \<Rightarrow> string run" where
  "script_to_address A w network_id script has_value output_len =
     then_run (network_is_liquid network_id) (\<lambda>liquid.
     jade_assert (\<not> liquid) (
     jade_assert (output_len \<noteq> 0) (
     if script = None \<or> script = Some [] then printed output_len ''No Address''
     else
       then_run (wally_verify (script_type_of A (the script))) (\<lambda>output_type.
       then_run (script_address_text A w network_id (the script) output_type) (\<lambda>tmp_str. case tmp_str of
         Some t \<Rightarrow> printed output_len t
       | None \<Rightarrow>
           if output_type = WALLY_SCRIPT_TYPE_OP_RETURN then render_op_return A (the script) has_value output_len
           else printed output_len ''Unknown Address'')))))"

text \<open>
  With a blinding key, an address becomes a confidential one; what is shown instead of an
  address stays.
\<close>

definition confidential_text ::
  "address_lib \<Rightarrow> wally_consts \<Rightarrow> network_t \<Rightarrow> script_type \<Rightarrow> bytes \<Rightarrow> string \<Rightarrow> string run" where
  "confidential_text A w network_id output_type blinding_key t =
     (if output_type \<in> {WALLY_SCRIPT_TYPE_P2WPKH, WALLY_SCRIPT_TYPE_P2WSH, WALLY_SCRIPT_TYPE_P2TR}
      then then_run (network_to_bech32_prefix network_id) (\<lambda>hrp.
        then_run (network_to_blech32_prefix network_id) (\<lambda>conf.
        wally_verify (confidential_segwit A t hrp conf blinding_key)))
      else then_run (network_to_confidential_prefix w network_id) (\<lambda>prefix.
        wally_verify (confidential_base58 A t prefix blinding_key)))"

definition elements_script_to_address ::
  "address_lib \<Rightarrow> wally_consts \<Rightarrow> network_t \<Rightarrow> bytes option \<Rightarrow> bool \<Rightarrow> bytes option \<Rightarrow> nat \<Rightarrow> string run" where
  "elements_script_to_address A w network_id script has_value blinding_key output_len =
     then_run (network_is_liquid network_id) (\<lambda>liquid.
     jade_assert liquid (
     jade_assert (output_len \<noteq> 0) (
     if script = None \<or> script = Some [] then printed output_len ''[FEE]''
     else
       then_run (wally_verify (script_type_of A (the script))) (\<lambda>output_type.
       then_run (script_address_text A w network_id (the script) output_type) (\<lambda>tmp_str. case tmp_str of
         Some t \<Rightarrow>
           then_run (case blinding_key of None \<Rightarrow> Ret t
             | Some k \<Rightarrow> confidential_text A w network_id output_type k t) (printed output_len)
       | None \<Rightarrow>
           if output_type = WALLY_SCRIPT_TYPE_OP_RETURN then render_op_return A (the script) has_value output_len
           else printed output_len ((if blinding_key \<noteq> None then ''[C] '' else []) @ ''Unknown Address''))))))"

section \<open>Addresses as scripts\<close>

datatype uri_scheme_t = URI_SCHEME_NONE | URI_SCHEME_BITCOIN | URI_SCHEME_LITECOIN

record address_data_t =
  ad_address :: string
  ad_network_id :: network_t
  ad_script :: bytes

text \<open>The address without the scheme and the parameters of a URI.\<close>

definition address_from_uri :: "string \<Rightarrow> (string \<times> uri_scheme_t) option" where
  "address_from_uri address =
     (if CHR '':'' \<in> set address
      then
        let before = takeWhile (\<lambda>c. c \<noteq> CHR '':'') address;
            start = drop (length before + 1) address;
            raw = takeWhile (\<lambda>c. c \<noteq> CHR ''?'') start
        in if same_text before ''bitcoin'' \<and> length raw < MAX_ADDRESS_LEN then Some (raw, URI_SCHEME_BITCOIN)
           else if same_text before ''litecoin'' \<and> length raw < MAX_ADDRESS_LEN then Some (raw, URI_SCHEME_LITECOIN)
           else None
      else if length address < MAX_ADDRESS_LEN then Some (address, URI_SCHEME_NONE)
      else None)"

definition try_parse_address :: "address_lib \<Rightarrow> network_t \<Rightarrow> string \<Rightarrow> address_data_t option run" where
  "try_parse_address A network_id address =
     then_run (case (if network_id \<noteq> NETWORK_BITCOIN_REGTEST \<and> network_id \<noteq> NETWORK_LITECOIN_REGTEST
                     then address_script A address network_id else None) of
         Some script \<Rightarrow> Ret (Some script)
       | None \<Rightarrow> then_run (network_to_bech32_prefix network_id) (\<lambda>hrp. Ret (segwit_script A address hrp))) (\<lambda>r.
     case r of
       None \<Rightarrow> Ret None
     | Some script \<Rightarrow> jade_assert (length script \<le> MAX_ADDRESS_LEN) (
         Ret (Some \<lparr>ad_address = address, ad_network_id = network_id, ad_script = script\<rparr>)))"

fun try_networks :: "address_lib \<Rightarrow> string \<Rightarrow> network_t list \<Rightarrow> address_data_t option run" where
  "try_networks A address [] = Ret None"
| "try_networks A address (n # ns) =
     then_run (try_parse_address A n address) (\<lambda>r. case r of
       Some d \<Rightarrow> Ret (Some d) | None \<Rightarrow> try_networks A address ns)"

definition parse_address :: "address_lib \<Rightarrow> string \<Rightarrow> address_data_t option run" where
  "parse_address A address =
     (case address_from_uri address of
        None \<Rightarrow> Ret None
      | Some (raw, scheme) \<Rightarrow>
          then_run (try_networks A raw
            ((if scheme \<noteq> URI_SCHEME_LITECOIN
              then [NETWORK_BITCOIN, NETWORK_BITCOIN_TESTNET, NETWORK_BITCOIN_REGTEST] else [])
             @ (if scheme \<noteq> URI_SCHEME_BITCOIN
                then [NETWORK_LITECOIN, NETWORK_LITECOIN_TESTNET, NETWORK_LITECOIN_REGTEST] else []))) (\<lambda>r.
          case r of
            None \<Rightarrow> Ret None
          | Some d \<Rightarrow> jade_assert (length raw > 0 \<and> ad_script d \<noteq> []) (Ret (Some d))))"

end
