(* ===== verification/Jade_Txscreens.thy ===== *)
theory Jade_Txscreens
  imports Jade_Address
begin

text \<open>
  What the user sees and confirms before a transaction is signed:
  \<^verbatim>\<open>src/main/ui/sign_tx.c\<close> for Bitcoin and Litecoin and for MWEB, with the helpers of
  \<^verbatim>\<open>src/main/process/sign_utils.c\<close> and \<^verbatim>\<open>process_utils.c\<close>. A screen is a value; the user is a
  function from the screens shown so far and the next one to the decision. An amount on a
  screen is the number its text is printed from. The fields of \<^verbatim>\<open>output_info_t\<close> that only
  Liquid uses are left out.
\<close>

section \<open>Screens\<close>

datatype screen =
    ItemScreen string bool bool string u64 string "string option"
  | FinalScreen string u64 string "string option"
  | QuestionScreen string "string list"
  | AddressScreen string
  | MessageScreen "string list"

type_synonym shown = "(screen \<times> bool) list"
type_synonym user = "shown \<Rightarrow> screen \<Rightarrow> bool"

definition ask :: "user \<Rightarrow> screen \<Rightarrow> (shown, bool) act" where
  "ask U scr log = Ret (U log scr, log @ [(scr, U log scr)])"

text \<open>A message the user can only acknowledge.\<close>

definition tell :: "string list \<Rightarrow> (shown, unit) act" where
  "tell message log = Ret ((), log @ [(MessageScreen message, True)])"

lemma ask_Ret [run_simps]: "ask U scr log = Ret (b, log') \<longleftrightarrow> b = U log scr \<and> log' = log @ [(scr, b)]"
  by (auto simp: ask_def)

lemma tell_Ret [run_simps]: "tell m log = Ret (u, log') \<longleftrightarrow> log' = log @ [(MessageScreen m, True)]"
  by (auto simp: tell_def)

section \<open>The transaction\<close>

text \<open>\<^verbatim>\<open>tx_rest\<close> stands for the parts that only libwally reads.\<close>

record tx_output =
  to_satoshi :: u64
  to_script :: "bytes option"

record wally_tx =
  tx_num_inputs :: nat
  tx_outputs :: "tx_output list"
  tx_rest :: bytes

record output_info_t =
  oi_message :: string
  oi_flags :: byte

definition OUTPUT_FLAG_VALIDATED :: byte where "OUTPUT_FLAG_VALIDATED = 4"
definition OUTPUT_FLAG_CHANGE :: byte where "OUTPUT_FLAG_CHANGE = 8"
definition OUTPUT_FLAG_MWEB :: byte where "OUTPUT_FLAG_MWEB = 32"

definition flagged :: "output_info_t \<Rightarrow> byte \<Rightarrow> bool" where
  "flagged i f \<longleftrightarrow> oi_flags i AND f \<noteq> 0"

datatype script_flavour_t = SCRIPT_FLAVOUR_NONE | SCRIPT_FLAVOUR_SINGLESIG | SCRIPT_FLAVOUR_MULTISIG
  | SCRIPT_FLAVOUR_OTHER | SCRIPT_FLAVOUR_MIXED

text \<open>The flavour, and whether the script is pay-to-taproot.\<close>

definition get_script_flavour :: "address_lib \<Rightarrow> bytes \<Rightarrow> (script_flavour_t \<times> bool) run" where
  "get_script_flavour A script =
     then_run (wally_verify (script_type_of A script)) (\<lambda>script_type. Ret (case script_type of
       WALLY_SCRIPT_TYPE_P2PKH \<Rightarrow> (SCRIPT_FLAVOUR_SINGLESIG, False)
     | WALLY_SCRIPT_TYPE_P2WPKH \<Rightarrow> (SCRIPT_FLAVOUR_SINGLESIG, False)
     | WALLY_SCRIPT_TYPE_P2TR \<Rightarrow> (SCRIPT_FLAVOUR_SINGLESIG, True)
     | WALLY_SCRIPT_TYPE_MULTISIG \<Rightarrow> (SCRIPT_FLAVOUR_MULTISIG, False)
     | _ \<Rightarrow> (SCRIPT_FLAVOUR_OTHER, False)))"

definition update_aggregate_scripts_flavour :: "script_flavour_t \<Rightarrow> script_flavour_t \<Rightarrow> script_flavour_t" where
  "update_aggregate_scripts_flavour new_script_flavour aggregate =
     (if aggregate = SCRIPT_FLAVOUR_NONE then new_script_flavour
      else if aggregate \<noteq> new_script_flavour then SCRIPT_FLAVOUR_MIXED
      else aggregate)"

section \<open>Transparent outputs\<close>

definition network_ticker :: "network_t \<Rightarrow> string run" where
  "network_ticker network_id =
     then_run (network_is_litecoin network_id) (\<lambda>ltc. Ret (if ltc then ''LTC'' else ''BTC''))"

definition display_output :: "tx_output \<Rightarrow> output_info_t option \<Rightarrow> bool \<Rightarrow> bool" where
  "display_output out info show_scriptless =
     (if \<not> show_scriptless \<and> to_script out = None then False
      else case info of
        None \<Rightarrow> True
      | Some i \<Rightarrow>
          if flagged i OUTPUT_FLAG_MWEB then False
          else if oi_message i \<noteq> [] then True
          else if flagged i OUTPUT_FLAG_VALIDATED \<and> flagged i OUTPUT_FLAG_CHANGE then False
          else True)"

text \<open>The outputs of the transaction with what is known of each.\<close>

definition with_info :: "wally_tx \<Rightarrow> output_info_t list option \<Rightarrow> (tx_output \<times> output_info_t option) list" where
  "with_info tx output_info =
     (case output_info of
        None \<Rightarrow> map (\<lambda>o'. (o', None)) (tx_outputs tx)
      | Some infos \<Rightarrow> zip (tx_outputs tx) (map Some infos))"

definition displayable_outputs :: "wally_tx \<Rightarrow> output_info_t list option \<Rightarrow> bool \<Rightarrow> nat" where
  "displayable_outputs tx output_info show_scriptless =
     (let nDisplayable = length (filter (\<lambda>(o', i). display_output o' i show_scriptless) (with_info tx output_info)) in
      if nDisplayable > 0 then nDisplayable
      else case output_info of
        Some infos \<Rightarrow> if list_ex (\<lambda>i. flagged i OUTPUT_FLAG_MWEB) infos then 0 else length (tx_outputs tx)
      | None \<Rightarrow> length (tx_outputs tx))"

definition output_screen ::
  "address_lib \<Rightarrow> wally_consts \<Rightarrow> network_t \<Rightarrow> nat \<Rightarrow> nat \<Rightarrow> tx_output \<Rightarrow> output_info_t option \<Rightarrow> screen run" where
  "output_screen A w network_id n total_shown out info =
     then_run (printed 16 (''Output '' @ decimal_string n @ ''/'' @ decimal_string total_shown)) (\<lambda>title.
     then_run (script_to_address A w network_id (to_script out) (to_satoshi out > 0) MAX_ADDRESS_LEN) (\<lambda>address.
     then_run (network_ticker network_id) (\<lambda>ticker.
     Ret (ItemScreen title (case info of None \<Rightarrow> False | Some i \<Rightarrow> flagged i OUTPUT_FLAG_VALIDATED) True address
       (to_satoshi out) ticker
       (case info of None \<Rightarrow> None | Some i \<Rightarrow> if oi_message i \<noteq> [] then Some (oi_message i) else None)))))"

text \<open>The number of outputs displayed, or nothing when the user declined one.\<close>

fun show_outputs ::
  "user \<Rightarrow> address_lib \<Rightarrow> wally_consts \<Rightarrow> network_t \<Rightarrow> bool \<Rightarrow> nat \<Rightarrow> nat \<Rightarrow> (tx_output \<times> output_info_t option) list
    \<Rightarrow> (shown, nat option) act" where
  "show_outputs U A w network_id hiddenOutputs n total_shown [] = give (Some n)"
| "show_outputs U A w network_id hiddenOutputs n total_shown ((out, info) # outs) =
     (if hiddenOutputs \<and> \<not> display_output out info True
      then show_outputs U A w network_id hiddenOutputs n total_shown outs
      else andthen (from_run (output_screen A w network_id (n + 1) total_shown out info)) (\<lambda>scr.
        andthen (ask U scr) (\<lambda>b.
        if \<not> b then give None
        else show_outputs U A w network_id hiddenOutputs (n + 1) total_shown outs)))"

definition show_btc_transaction_outputs_activity ::
  "user \<Rightarrow> address_lib \<Rightarrow> wally_consts \<Rightarrow> network_t \<Rightarrow> wally_tx \<Rightarrow> output_info_t list option \<Rightarrow> (shown, bool) act" where
  "show_btc_transaction_outputs_activity U A w network_id tx output_info =
     andthen (from_run (network_is_liquid network_id)) (\<lambda>liquid.
     andthen (insist (\<not> liquid)) (\<lambda>_.
     let nTotalOutputsDisplayed = displayable_outputs tx output_info True;
         hiddenOutputs = nTotalOutputsDisplayed < length (tx_outputs tx) in
     andthen (show_outputs U A w network_id hiddenOutputs 0 nTotalOutputsDisplayed (with_info tx output_info)) (\<lambda>r.
     case r of
       None \<Rightarrow> give False
     | Some nDisplayedOutput \<Rightarrow>
         andthen (insist (nDisplayedOutput = nTotalOutputsDisplayed)) (\<lambda>_. give True))))"

section \<open>Fees\<close>

definition show_btc_final_confirmation_activity ::
  "user \<Rightarrow> network_t \<Rightarrow> u64 \<Rightarrow> string option \<Rightarrow> (shown, bool) act" where
  "show_btc_final_confirmation_activity U network_id fee warning_msg =
     andthen (from_run (network_is_liquid network_id)) (\<lambda>liquid.
     andthen (insist (\<not> liquid)) (\<lambda>_.
     andthen (from_run (network_ticker network_id)) (\<lambda>ticker.
     ask U (FinalScreen ''Send Transaction'' fee ticker warning_msg))))"

definition WARN_MSG_HIGH_FEES :: string where
  "WARN_MSG_HIGH_FEES = ''Fee amount higher than spend amount!''"
definition WARN_MSG_MIXED_INPUTS :: string where
  "WARN_MSG_MIXED_INPUTS = ''Your transaction inputs are of varying types.''"

text \<open>The amount spent: the outputs that are not flagged as change.\<close>

fun deduct_change :: "(tx_output \<times> output_info_t option) list \<Rightarrow> u64 \<Rightarrow> u64 run" where
  "deduct_change [] spend_amount = Ret spend_amount"
| "deduct_change ((out, info) # outs) spend_amount =
     (if (case info of None \<Rightarrow> False | Some i \<Rightarrow> flagged i OUTPUT_FLAG_CHANGE)
      then jade_assert (spend_amount \<ge> to_satoshi out) (deduct_change outs (spend_amount - to_satoshi out))
      else deduct_change outs spend_amount)"

definition show_btc_fee_confirmation_activity ::
  "user \<Rightarrow> network_t \<Rightarrow> wally_tx \<Rightarrow> output_info_t list option \<Rightarrow> script_flavour_t \<Rightarrow> u64 \<Rightarrow> u64 \<Rightarrow> (shown, bool) act" where
  "show_btc_fee_confirmation_activity U network_id tx outinfo aggregate_inputs_scripts_flavour input_amount output_amount =
     andthen (insist (input_amount \<noteq> 0 \<and> output_amount \<noteq> 0 \<and> input_amount \<ge> output_amount)) (\<lambda>_.
     let fees = input_amount - output_amount in
     andthen (from_run (deduct_change (with_info tx outinfo) output_amount)) (\<lambda>spend_amount.
     let warn_fees = (fees \<noteq> 0 \<and> fees \<ge> spend_amount);
         warn_scripts = (aggregate_inputs_scripts_flavour = SCRIPT_FLAVOUR_MIXED);
         warning_msg =
           (if warn_fees \<and> warn_scripts then Some (WARN_MSG_HIGH_FEES @ '' '' @ WARN_MSG_MIXED_INPUTS)
            else if warn_scripts then Some WARN_MSG_MIXED_INPUTS
            else if warn_fees then Some WARN_MSG_HIGH_FEES
            else None)
     in show_btc_final_confirmation_activity U network_id fees warning_msg))"

section \<open>MWEB\<close>

definition show_mweb_scan_key_export_activity :: "user \<Rightarrow> network_t \<Rightarrow> (shown, bool) act" where
  "show_mweb_scan_key_export_activity U network =
     andthen (from_run (network_is_litecoin network)) (\<lambda>ltc.
     andthen (insist ltc) (\<lambda>_.
     andthen (from_run (network_to_name network)) (\<lambda>name.
     andthen (from_run (printed 48 (''scan key for '' @ name @ ''?''))) (\<lambda>line2.
     ask U (QuestionScreen ''MWEB Scan Key'' [''Export MWEB'', line2])))))"

definition show_mweb_watch_keys_export_activity :: "user \<Rightarrow> network_t \<Rightarrow> (shown, bool) act" where
  "show_mweb_watch_keys_export_activity U network =
     andthen (from_run (network_is_litecoin network)) (\<lambda>ltc.
     andthen (insist ltc) (\<lambda>_.
     ask U (QuestionScreen ''MWEB Watch Keys''
       [''Export MWEB watch-only'', ''keys? This reveals all'', ''MWEB balances/addresses.''])))"

definition show_mweb_address_activity :: "user \<Rightarrow> string \<Rightarrow> network_t \<Rightarrow> (shown, bool) act" where
  "show_mweb_address_activity U address network =
     andthen (from_run (network_is_litecoin network)) (\<lambda>ltc.
     andthen (insist ltc) (\<lambda>_. ask U (AddressScreen address)))"

definition show_mweb_output_activity ::
  "user \<Rightarrow> string \<Rightarrow> string \<Rightarrow> u64 \<Rightarrow> network_t \<Rightarrow> (shown, bool) act" where
  "show_mweb_output_activity U title address amount network =
     andthen (from_run (network_is_litecoin network)) (\<lambda>ltc.
     andthen (insist ltc) (\<lambda>_.
     andthen (from_run (network_ticker network)) (\<lambda>ticker.
     ask U (ItemScreen title False True address amount ticker None))))"

definition show_mweb_pegin_activity :: "user \<Rightarrow> u64 \<Rightarrow> network_t \<Rightarrow> (shown, bool) act" where
  "show_mweb_pegin_activity U amount network =
     andthen (from_run (network_is_litecoin network)) (\<lambda>ltc.
     andthen (insist ltc) (\<lambda>_.
     andthen (from_run (network_ticker network)) (\<lambda>ticker.
     ask U (ItemScreen ''MWEB Pegin'' False False ''Transparent -> MWEB'' amount ticker None))))"

section \<open>Signature hashes\<close>

definition WALLY_SIGTYPE_SW_V1 :: u32 where "WALLY_SIGTYPE_SW_V1 = 3"
definition WALLY_SIGHASH_DEFAULT :: u32 where "WALLY_SIGHASH_DEFAULT = 0"
definition WALLY_SIGHASH_ALL :: u32 where "WALLY_SIGHASH_ALL = 1"

text \<open>Outside Liquid.\<close>

definition sighash_is_supported :: "u32 \<Rightarrow> u32 \<Rightarrow> bool" where
  "sighash_is_supported sig_type sighash =
     (if sig_type = WALLY_SIGTYPE_SW_V1 then sighash = WALLY_SIGHASH_DEFAULT \<or> sighash = WALLY_SIGHASH_ALL
      else sighash = WALLY_SIGHASH_ALL)"

end
