(* ===== verification/Jade_Keyiter.thy ===== *)
theory Jade_Keyiter
  imports Jade_Multisig Mweb_Session Jade_Txscreens
begin

text \<open>
  \<^verbatim>\<open>src/main/utils/psbt.c\<close>: iterating over the keys of a PSBT's input or output that belong to
  this wallet. The fields of the PSBT that signing only reads are \<^verbatim>\<open>std_input\<close> and
  \<^verbatim>\<open>std_output\<close>, beside the \<^verbatim>\<open>psbt\<close> with those it writes; \<^verbatim>\<open>wp_tx\<close> is the transaction of a
  PSBT of version 0. libwally's keypath maps are the
  record \<^verbatim>\<open>keypath_lib\<close>.
\<close>

section \<open>The PSBT\<close>

text \<open>\<^verbatim>\<open>in_utxo\<close> is the best UTXO of the input: its value and its script, or null.\<close>

record std_input =
  in_keypaths :: wmap
  in_taproot_leaf_paths :: wmap
  in_taproot_leaf_scripts :: nat
  in_utxo :: "(u64 \<times> bytes option) option"
  in_sighash :: u32

record std_output =
  out_keypaths :: wmap
  out_taproot_leaf_paths :: wmap
  out_taproot_tree :: nat

record wallet_psbt =
  wp_psbt :: psbt
  wp_inputs :: "std_input list"
  wp_outputs :: "std_output list"
  wp_version :: u32
  wp_tx :: "wally_tx option"

text \<open>
  \<^verbatim>\<open>keypath_get_key\<close> is \<^verbatim>\<open>wally_map_keypath_get_bip32_key_from\<close> or its public variant: an error,
  nothing found, or the derived key and the position of the found one, counted from one.
  \<^verbatim>\<open>keypath_path\<close> is the whole path: it is written if it fits, and its length is reported in
  any case.
\<close>

record 'x keypath_lib =
  keypath_get_key :: "bool \<Rightarrow> wmap \<Rightarrow> u32 \<Rightarrow> 'x \<Rightarrow> ('x \<times> u32) option option"
  keypath_path :: "wmap \<Rightarrow> u32 \<Rightarrow> u32 list option"
  keypath_fingerprint :: "wmap \<Rightarrow> u32 \<Rightarrow> bytes option"
  map_get_integer :: "wmap \<Rightarrow> nat \<Rightarrow> bool"
  map_find :: "wmap \<Rightarrow> bytes \<Rightarrow> nat option"
  map_item_key :: "wmap \<Rightarrow> u32 \<Rightarrow> bytes option"

record 'x key_iter =
  ki_hdkey :: 'x
  ki_index :: nat
  ki_key_index :: u32
  ki_is_input :: bool
  ki_is_private :: bool
  ki_is_taproot :: bool
  ki_is_valid :: bool
  ki_is_ga_2of3_recovery_key :: bool

section \<open>The iterator\<close>

definition PSBT_IN_TAP_MERKLE_ROOT :: nat where "PSBT_IN_TAP_MERKLE_ROOT = 0x18"

definition key_iter_is_supported_taproot ::
  "'x keypath_lib \<Rightarrow> wallet_psbt \<Rightarrow> 'x key_iter \<Rightarrow> wmap \<Rightarrow> bool" where
  "key_iter_is_supported_taproot P p iter keypaths =
     (if length (wm_items keypaths) > 1 then False
      else if ki_is_input iter
      then if in_taproot_leaf_scripts (wp_inputs p ! ki_index iter) \<noteq> 0 then False
           else if map_get_integer P (pi_psbt_fields (ps_inputs (wp_psbt p) ! ki_index iter)) PSBT_IN_TAP_MERKLE_ROOT then False
           else True
      else if out_taproot_tree (wp_outputs p ! ki_index iter) \<noteq> 0 then False
      else True)"

definition keypaths_at :: "wallet_psbt \<Rightarrow> bool \<Rightarrow> bool \<Rightarrow> nat \<Rightarrow> wmap" where
  "keypaths_at p is_input is_taproot n =
     (if is_input
      then (if is_taproot then in_taproot_leaf_paths else in_keypaths) (wp_inputs p ! n)
      else (if is_taproot then out_taproot_leaf_paths else out_keypaths) (wp_outputs p ! n))"

definition key_iter_get_keypaths :: "wallet_psbt \<Rightarrow> 'x key_iter \<Rightarrow> wmap run" where
  "key_iter_get_keypaths p iter =
     jade_assert (ki_is_valid iter) (Ret (keypaths_at p (ki_is_input iter) (ki_is_taproot iter) (ki_index iter)))"

text \<open>
  A path of up to \<^verbatim>\<open>claimed\<close> elements is written to an array of \<^verbatim>\<open>room\<close> elements; the code
  passes the size in bytes where the number of elements is expected.
\<close>

definition path_into :: "'x keypath_lib \<Rightarrow> wmap \<Rightarrow> u32 \<Rightarrow> nat \<Rightarrow> nat \<Rightarrow> u32 list run" where
  "path_into P keypaths n room claimed =
     then_run (wally_verify (keypath_path P keypaths n)) (\<lambda>path.
     if length path \<le> claimed \<and> length path > room then Undef else Ret path)"

fun green_2of3_recovery_key ::
  "'x wallet_lib \<Rightarrow> 'x keypath_lib \<Rightarrow> 'x keychain_t option \<Rightarrow> wmap \<Rightarrow> u32 \<Rightarrow> nat list \<Rightarrow> 'x option run" where
  "green_2of3_recovery_key L P kc keypaths server_subaccount [] = Ret None"
| "green_2of3_recovery_key L P kc keypaths server_subaccount (n # ns) =
     then_run (path_into P keypaths (of_nat n) GA_USER_PATH_MAX_LEN (GA_USER_PATH_MAX_LEN * 4)) (\<lambda>path.
     if is_potential_green_user_path path \<noteq> Some server_subaccount
     then green_2of3_recovery_key L P kc keypaths server_subaccount ns
     else case kc of None \<Rightarrow> Crash | Some k \<Rightarrow> Ret (bip32_private_child (wl_keys L) (kd_xpriv k) (take 2 path)))"

definition key_iter_get_green_2of3_recovery_key ::
  "'x wallet_lib \<Rightarrow> 'x keypath_lib \<Rightarrow> 'x keychain_t option \<Rightarrow> 'x key_iter \<Rightarrow> wmap \<Rightarrow> u32 \<Rightarrow> 'x option run" where
  "key_iter_get_green_2of3_recovery_key L P kc iter keypaths server_subaccount =
     jade_assert (ki_is_valid iter) (
     jade_assert (server_subaccount \<noteq> 0) (
     green_2of3_recovery_key L P kc keypaths server_subaccount [1..<length (wm_items keypaths)]))"

text \<open>The key found with the wallet's key, or else with the recovery key, and whether it was the latter.\<close>

definition find_recovery_key ::
  "'x wallet_lib \<Rightarrow> 'x keypath_lib \<Rightarrow> 'x keychain_t option \<Rightarrow> 'x key_iter \<Rightarrow> wmap \<Rightarrow> (('x \<times> u32) option) run" where
  "find_recovery_key L P kc iter keypaths =
     (if length (wm_items keypaths) \<noteq> 3 then Ret None
      else then_run (path_into P keypaths 0 MAX_GASERVICE_PATH_LEN (MAX_GASERVICE_PATH_LEN * 4)) (\<lambda>path.
      case is_potential_green_server_path path of
        None \<Rightarrow> Ret None
      | Some server_subaccount \<Rightarrow>
          if server_subaccount = 0 then Ret None
          else then_run (key_iter_get_green_2of3_recovery_key L P kc iter keypaths server_subaccount) (\<lambda>r. case r of
            None \<Rightarrow> Ret None
          | Some recovery_hdkey \<Rightarrow>
              Ret (case keypath_get_key P (ki_is_private iter) keypaths (ki_key_index iter) recovery_hdkey of
                None \<Rightarrow> None | Some found \<Rightarrow> found))))"

text \<open>The iterator at the next index; before a first taproot key, the taproot fields are checked.\<close>

definition at_next_index :: "'x keypath_lib \<Rightarrow> wallet_psbt \<Rightarrow> wmap \<Rightarrow> 'x key_iter \<Rightarrow> 'x key_iter" where
  "at_next_index P p keypaths iter =
     (let iter = iter\<lparr>ki_key_index := ki_key_index iter + 1\<rparr> in
      if ki_is_taproot iter \<and> ki_key_index iter = 0
      then iter\<lparr>ki_is_valid := key_iter_is_supported_taproot P p iter keypaths\<rparr> else iter)"

definition key_iter_next ::
  "'x wallet_lib \<Rightarrow> 'x keypath_lib \<Rightarrow> 'x keychain_t option \<Rightarrow> wallet_psbt \<Rightarrow> 'x key_iter \<Rightarrow> 'x key_iter run" where
  "key_iter_next L P kc p iter =
     then_run (key_iter_get_keypaths p iter) (\<lambda>keypaths.
     let iter = at_next_index P p keypaths iter
     in if \<not> ki_is_valid iter then Ret iter
        else case kc of None \<Rightarrow> Crash | Some k \<Rightarrow>
          then_run (wally_verify (keypath_get_key P (ki_is_private iter) keypaths (ki_key_index iter) (kd_xpriv k))) (\<lambda>found.
          case found of
            Some (hdkey, n) \<Rightarrow> Ret (iter\<lparr>ki_hdkey := hdkey, ki_key_index := n - 1\<rparr>)
          | None \<Rightarrow> then_run (find_recovery_key L P kc iter keypaths) (\<lambda>found.
              Ret (case found of
                Some (hdkey, n) \<Rightarrow>
                  iter\<lparr>ki_hdkey := hdkey, ki_key_index := n - 1, ki_is_ga_2of3_recovery_key := True\<rparr>
              | None \<Rightarrow> iter\<lparr>ki_is_valid := False\<rparr>))))"

definition key_iter_init ::
  "'x wallet_lib \<Rightarrow> 'x keypath_lib \<Rightarrow> 'x keychain_t option \<Rightarrow> wallet_psbt \<Rightarrow> nat \<Rightarrow> bool \<Rightarrow> bool \<Rightarrow> 'x key_iter run" where
  "key_iter_init L P kc p n is_input is_private =
     jade_assert (n < (if is_input then length (wp_inputs p) else length (wp_outputs p))) (
     key_iter_next L P kc p
       \<lparr>ki_hdkey = zero_key (wl_keys L), ki_index = n, ki_key_index = - 1, ki_is_input = is_input,
        ki_is_private = is_private,
        ki_is_taproot = (wm_items (if is_input then in_taproot_leaf_paths (wp_inputs p ! n)
                                   else out_taproot_leaf_paths (wp_outputs p ! n)) \<noteq> []),
        ki_is_valid = True, ki_is_ga_2of3_recovery_key = False\<rparr>)"

definition key_iter_input_begin ::
  "'x wallet_lib \<Rightarrow> 'x keypath_lib \<Rightarrow> 'x keychain_t option \<Rightarrow> wallet_psbt \<Rightarrow> nat \<Rightarrow> 'x key_iter run" where
  "key_iter_input_begin L P kc p n = key_iter_init L P kc p n True True"

definition key_iter_input_begin_public ::
  "'x wallet_lib \<Rightarrow> 'x keypath_lib \<Rightarrow> 'x keychain_t option \<Rightarrow> wallet_psbt \<Rightarrow> nat \<Rightarrow> 'x key_iter run" where
  "key_iter_input_begin_public L P kc p n = key_iter_init L P kc p n True False"

definition key_iter_output_begin_public ::
  "'x wallet_lib \<Rightarrow> 'x keypath_lib \<Rightarrow> 'x keychain_t option \<Rightarrow> wallet_psbt \<Rightarrow> nat \<Rightarrow> 'x key_iter run" where
  "key_iter_output_begin_public L P kc p n = key_iter_init L P kc p n False False"

definition key_iter_get_num_keys :: "wallet_psbt \<Rightarrow> 'x key_iter \<Rightarrow> nat run" where
  "key_iter_get_num_keys p iter = then_run (key_iter_get_keypaths p iter) (\<lambda>m. Ret (length (wm_items m)))"

definition key_iter_contains_pubkey :: "'x keypath_lib \<Rightarrow> wallet_psbt \<Rightarrow> 'x key_iter \<Rightarrow> bytes \<Rightarrow> bool run" where
  "key_iter_contains_pubkey P p iter pubkey =
     then_run (key_iter_get_keypaths p iter) (\<lambda>m. Ret (case map_find P m pubkey of None \<Rightarrow> False | Some written \<Rightarrow> written \<noteq> 0))"

definition key_iter_get_pubkey_at ::
  "'x keypath_lib \<Rightarrow> wallet_psbt \<Rightarrow> 'x key_iter \<Rightarrow> u32 \<Rightarrow> nat \<Rightarrow> bytes option run" where
  "key_iter_get_pubkey_at P p iter key_index pubkey_len =
     then_run (key_iter_get_keypaths p iter) (\<lambda>m. Ret (case map_item_key P m key_index of
       None \<Rightarrow> None | Some k \<Rightarrow> if length k = pubkey_len then Some k else None))"

definition key_iter_get_fingerprint_at :: "'x keypath_lib \<Rightarrow> wallet_psbt \<Rightarrow> 'x key_iter \<Rightarrow> u32 \<Rightarrow> bytes run" where
  "key_iter_get_fingerprint_at P p iter key_index =
     then_run (key_iter_get_keypaths p iter) (\<lambda>m. wally_verify (keypath_fingerprint P m key_index))"

definition key_iter_get_path_at ::
  "'x keypath_lib \<Rightarrow> wallet_psbt \<Rightarrow> 'x key_iter \<Rightarrow> u32 \<Rightarrow> nat \<Rightarrow> u32 list option run" where
  "key_iter_get_path_at P p iter key_index path_len =
     then_run (key_iter_get_keypaths p iter) (\<lambda>m. Ret (case keypath_path P m key_index of
       None \<Rightarrow> None | Some path \<Rightarrow> if length path \<le> path_len then Some path else None))"

definition key_iter_get_path :: "'x keypath_lib \<Rightarrow> wallet_psbt \<Rightarrow> 'x key_iter \<Rightarrow> nat \<Rightarrow> u32 list option run" where
  "key_iter_get_path P p iter path_len = key_iter_get_path_at P p iter (ki_key_index iter) path_len"

end
