(* ===== verification/Jade_Descriptor.thy ===== *)
theory Jade_Descriptor
  imports Jade_Multisig
begin

text \<open>
  \<^verbatim>\<open>src/main/descriptor.c\<close>: descriptor wallets, their record in the storage, and the scripts
  they generate, with the functions of \<^verbatim>\<open>wallet.c\<close> that call it. libwally's descriptors are
  the record \<^verbatim>\<open>descriptor_lib\<close>. The temporary task that a function runs in, for its stack, is
  not represented: the function is run. Lengths of texts are those of the lists.
\<close>

section \<open>Data\<close>

datatype descriptor_type_t = DESCRIPTOR_TYPE_UNKNOWN | DESCRIPTOR_TYPE_MINISCRIPT_ONLY | DESCRIPTOR_TYPE_MIXED
  | DESCRIPTOR_TYPE_OTHER byte

fun descriptor_type_byte :: "descriptor_type_t \<Rightarrow> byte" where
  "descriptor_type_byte DESCRIPTOR_TYPE_UNKNOWN = 0"
| "descriptor_type_byte DESCRIPTOR_TYPE_MINISCRIPT_ONLY = 1"
| "descriptor_type_byte DESCRIPTOR_TYPE_MIXED = 2"
| "descriptor_type_byte (DESCRIPTOR_TYPE_OTHER b) = b"

definition descriptor_type_of_byte :: "byte \<Rightarrow> descriptor_type_t" where
  "descriptor_type_of_byte b =
     (if b = 0 then DESCRIPTOR_TYPE_UNKNOWN else if b = 1 then DESCRIPTOR_TYPE_MINISCRIPT_ONLY
      else if b = 2 then DESCRIPTOR_TYPE_MIXED else DESCRIPTOR_TYPE_OTHER b)"

record string_value_t =
  sv_value :: string
  sv_key :: string

record descriptor_data_t =
  dd_values :: "string_value_t list"
  dd_script :: string
  dd_type :: descriptor_type_t

definition MAX_DESCRIPTOR_NAME_SIZE :: nat where "MAX_DESCRIPTOR_NAME_SIZE = 16"
definition MAX_DESCRIPTOR_REGISTRATIONS :: nat where "MAX_DESCRIPTOR_REGISTRATIONS = 16"
definition MAX_DESCRIPTOR_SCRIPT_LEN :: nat where "MAX_DESCRIPTOR_SCRIPT_LEN = 512"
definition CURRENT_DESCRIPTOR_RECORD_VERSION :: byte where "CURRENT_DESCRIPTOR_RECORD_VERSION = 0"
definition MIN_DESCRIPTOR_BYTES_LEN :: nat where "MIN_DESCRIPTOR_BYTES_LEN = 2 + 2 + 4 + 1 + 0 + 0"
definition MAX_DESCRIPTOR_ALLOWED_DEPTH :: nat where "MAX_DESCRIPTOR_ALLOWED_DEPTH = 12"
definition MAX_DESCRIPTOR_PARSING_DEPTH :: nat where "MAX_DESCRIPTOR_PARSING_DEPTH = 25"

definition string_values_len :: "string_value_t list \<Rightarrow> nat" where
  "string_values_len vs = sum_list (map (\<lambda>v. length (sv_key v) + length (sv_value v)) vs)"

definition DESCRIPTOR_BYTES_LEN :: "descriptor_data_t \<Rightarrow> nat" where
  "DESCRIPTOR_BYTES_LEN d =
     2 * 1 + 2 + length (dd_script d) + 1 + length (dd_values d) * 2 * 2 + string_values_len (dd_values d) + HMAC_SHA256_LEN"

definition MAX_DESCRIPTOR_BYTES_LEN :: nat where
  "MAX_DESCRIPTOR_BYTES_LEN =
     2 + 2 + MAX_DESCRIPTOR_SCRIPT_LEN + 1 + MAX_ALLOWED_SIGNERS * 2 * 2 + MAX_ALLOWED_SIGNERS * (160 + 16) + HMAC_SHA256_LEN"

section \<open>Parsing\<close>

text \<open>The flags of libwally that the code tests, and its functions.\<close>

record key_features =
  kf_private :: bool
  kf_uncompressed :: bool
  kf_raw :: bool
  kf_parented :: bool

record parse_flags =
  pf_policy_template :: bool
  pf_miniscript_only :: bool
  pf_depth :: nat

record 'd descriptor_lib =
  descriptor_parse :: "string \<Rightarrow> (string \<times> string) list \<Rightarrow> network_t \<Rightarrow> parse_flags \<Rightarrow> 'd option"
  descriptor_depth :: "'d \<Rightarrow> nat option"
  descriptor_num_variants :: "'d \<Rightarrow> nat option"
  descriptor_private_ranged :: "'d \<Rightarrow> (bool \<times> bool) option"
  descriptor_num_paths :: "'d \<Rightarrow> nat option"
  descriptor_num_keys :: "'d \<Rightarrow> nat option"
  descriptor_key_features :: "'d \<Rightarrow> nat \<Rightarrow> key_features option"
  descriptor_fingerprint :: "'d \<Rightarrow> nat \<Rightarrow> bytes option"
  descriptor_origin_path_str :: "'d \<Rightarrow> nat \<Rightarrow> string option"
  descriptor_key :: "'d \<Rightarrow> nat \<Rightarrow> string option"
  descriptor_child_path_str :: "'d \<Rightarrow> nat \<Rightarrow> string option"
  descriptor_address :: "'d \<Rightarrow> nat \<Rightarrow> nat \<Rightarrow> string option"
  descriptor_script_max :: "'d \<Rightarrow> nat \<Rightarrow> nat \<Rightarrow> nat option"
  descriptor_script :: "'d \<Rightarrow> nat \<Rightarrow> nat \<Rightarrow> bytes option"

fun parse_types ::
  "(descriptor_type_t \<Rightarrow> 'd option) \<Rightarrow> descriptor_type_t list \<Rightarrow> ('d \<times> descriptor_type_t) option" where
  "parse_types parse [] = None"
| "parse_types parse (t # ts) = (case parse t of None \<Rightarrow> parse_types parse ts | Some d \<Rightarrow> Some (d, t))"

text \<open>The descriptor, its type and its depth, or the error message.\<close>

definition parse_descriptor ::
  "'d descriptor_lib \<Rightarrow> descriptor_data_t \<Rightarrow> network_t \<Rightarrow> (string + 'd \<times> descriptor_type_t \<times> nat) run" where
  "parse_descriptor D descriptor network_id =
     (let types = (if dd_type descriptor = DESCRIPTOR_TYPE_UNKNOWN
                   then [DESCRIPTOR_TYPE_MIXED, DESCRIPTOR_TYPE_MINISCRIPT_ONLY] else [dd_type descriptor]);
          values = map (\<lambda>v. (sv_key v, sv_value v)) (dd_values descriptor);
          parse = (\<lambda>t. descriptor_parse D (c_text (dd_script descriptor)) values network_id
            \<lparr>pf_policy_template = values \<noteq> [], pf_miniscript_only = (t = DESCRIPTOR_TYPE_MINISCRIPT_ONLY),
             pf_depth = MAX_DESCRIPTOR_PARSING_DEPTH\<rparr>)
      in case parse_types parse types of
        None \<Rightarrow> fail ''Failed to parse descriptor''
      | Some (d, t) \<Rightarrow>
          then_run (wally_verify (descriptor_depth D d)) (\<lambda>depth.
          if depth > MAX_DESCRIPTOR_ALLOWED_DEPTH then fail ''Descriptor/script too deep''
          else then_run (wally_verify (descriptor_num_variants D d)) (\<lambda>num_variants.
          if num_variants \<noteq> 1 then fail ''Descriptors with multiple variants not supported''
          else then_run (wally_verify (descriptor_private_ranged D d)) (\<lambda>(is_private, is_ranged).
          if is_private then fail ''Descriptors with private keys are not supported''
          else if \<not> is_ranged then fail ''Descriptors without any wildcards are not supported''
          else then_run (wally_verify (descriptor_num_paths D d)) (\<lambda>num_paths.
          if num_paths > 2 then fail ''Descriptors with more than two paths are not supported''
          else ok (d, t, depth))))))"

text \<open>
  The details of one key. The text of the child path is copied to a buffer of 64
  characters whatever its length.
\<close>

definition descriptor_signer :: "'x wallet_lib \<Rightarrow> 'd descriptor_lib \<Rightarrow> 'd \<Rightarrow> nat \<Rightarrow> (string + signer_t) run" where
  "descriptor_signer L D d i =
     seq (need (descriptor_key_features D d i) ''Failed to get key features'') (\<lambda>f.
     seq (check (\<not> kf_private f \<and> \<not> kf_uncompressed f \<and> \<not> kf_raw f \<and> kf_parented f) ''Invalid key features'') (\<lambda>_.
     seq (need (descriptor_fingerprint D d i) ''Failed to get signer fingerprint'') (\<lambda>fingerprint.
     seq (need (descriptor_origin_path_str D d i) ''Failed to get derivation path string'') (\<lambda>origin.
     seq (need (wallet_bip32_path_from_str L origin MAX_PATH_LEN) ''Failed to parse derivation path string'') (\<lambda>derivation.
     seq (need (descriptor_key D d i) ''Failed to get key/xpub string'') (\<lambda>xpub.
     seq (check (length xpub < 120) ''Failed to get key xpub string'') (\<lambda>_.
     seq (need (descriptor_child_path_str D d i) ''Failed to get child path string'') (\<lambda>path_str.
     if length path_str \<ge> MAX_PATH_LEN * 4 then Undef
     else ok \<lparr>sg_fingerprint = fingerprint, sg_derivation = derivation, sg_xpub = xpub, sg_path = StringPath path_str\<rparr>))))))))"

fun descriptor_signers :: "'x wallet_lib \<Rightarrow> 'd descriptor_lib \<Rightarrow> 'd \<Rightarrow> nat list \<Rightarrow> (string + signer_t list) run" where
  "descriptor_signers L D d [] = ok []"
| "descriptor_signers L D d (i # is') =
     seq (descriptor_signer L D d i) (\<lambda>s. seq (descriptor_signers L D d is') (\<lambda>ss. ok (s # ss)))"

text \<open>The type, the signers if asked for, and their number.\<close>

definition descriptor_get_signers ::
  "'x wallet_lib \<Rightarrow> 'd descriptor_lib \<Rightarrow> descriptor_data_t \<Rightarrow> network_t \<Rightarrow> nat option
    \<Rightarrow> (string + descriptor_type_t \<times> signer_t list \<times> nat) run" where
  "descriptor_get_signers L D descriptor network_id signers_len =
     jade_assert (signers_len \<noteq> Some 0) (
     seq (parse_descriptor D descriptor network_id) (\<lambda>(d, t, depth).
     case descriptor_num_keys D d of
       None \<Rightarrow> fail ''Failed to get signer pubkeys from descriptor''
     | Some num_keys \<Rightarrow>
         if num_keys = 0 then fail ''Failed to get signer pubkeys from descriptor''
         else case signers_len of
           None \<Rightarrow> ok (t, [], num_keys)
         | Some room \<Rightarrow>
             if room < num_keys then fail ''Insufficient output to fetch signer details from descriptor''
             else seq (descriptor_signers L D d [0..<num_keys]) (\<lambda>ss. ok (t, ss, num_keys))))"

section \<open>Addresses and scripts\<close>

definition descriptor_to_address ::
  "'d descriptor_lib \<Rightarrow> descriptor_data_t \<Rightarrow> network_t \<Rightarrow> nat \<Rightarrow> nat \<Rightarrow> (string + string) run" where
  "descriptor_to_address D descriptor network_id multi_index child_num =
     jade_assert (network_id \<noteq> NETWORK_NONE) (
     seq (parse_descriptor D descriptor network_id) (\<lambda>(d, t, depth).
     need (descriptor_address D d multi_index child_num) ''Failed to obtain address from descriptor''))"

text \<open>A script of the length libwally announced, which is not empty.\<close>

definition descriptor_to_script_impl :: "'d descriptor_lib \<Rightarrow> 'd \<Rightarrow> nat \<Rightarrow> nat \<Rightarrow> bytes option" where
  "descriptor_to_script_impl D d multi_index child_num =
     (case descriptor_script_max D d multi_index child_num of
        None \<Rightarrow> None
      | Some maxlen \<Rightarrow>
          if maxlen = 0 then None
          else case descriptor_script D d multi_index child_num of
            None \<Rightarrow> None
          | Some script \<Rightarrow> if script = [] \<or> length script > maxlen then None else Some script)"

definition descriptor_to_script ::
  "'d descriptor_lib \<Rightarrow> descriptor_data_t \<Rightarrow> network_t \<Rightarrow> nat \<Rightarrow> nat \<Rightarrow> (string + bytes) run" where
  "descriptor_to_script D descriptor network_id multi_index child_num =
     jade_assert (network_id \<noteq> NETWORK_NONE) (
     seq (parse_descriptor D descriptor network_id) (\<lambda>(d, t, depth).
     need (descriptor_to_script_impl D d multi_index child_num) ''Failed to obtain script from descriptor''))"

text \<open>Whether it was found, and the child number reached; the maximum is that of the first.\<close>

definition descriptor_search_for_script_impl ::
  "'d descriptor_lib \<Rightarrow> 'd \<Rightarrow> nat \<Rightarrow> nat \<Rightarrow> nat \<Rightarrow> bytes \<Rightarrow> (bool \<times> nat) run" where
  "descriptor_search_for_script_impl D d multi_index child_num search_depth script =
     (case descriptor_script_max D d multi_index child_num of
        None \<Rightarrow> Ret (False, child_num)
      | Some maxlen \<Rightarrow>
          if maxlen = 0 \<or> maxlen < length script then Ret (False, child_num)
          else search_leaves (\<lambda>i. Ret (case descriptor_script D d multi_index i of
                 None \<Rightarrow> None
               | Some s \<Rightarrow> if s = [] \<or> length s > maxlen then None else Some s))
            script (search_end child_num search_depth - child_num) child_num)"

definition descriptor_search_for_script ::
  "'d descriptor_lib \<Rightarrow> descriptor_data_t \<Rightarrow> network_t \<Rightarrow> nat \<Rightarrow> nat \<Rightarrow> nat \<Rightarrow> bytes \<Rightarrow> (bool \<times> nat) run" where
  "descriptor_search_for_script D descriptor network_id multi_index child_num search_depth script =
     jade_assert (network_id \<noteq> NETWORK_NONE) (
     jade_assert (search_depth \<noteq> 0) (
     jade_assert (script \<noteq> []) (
     then_run (parse_descriptor D descriptor network_id) (\<lambda>r. case r of
       Inl errmsg \<Rightarrow> Ret (False, child_num)
     | Inr (d, t, depth) \<Rightarrow> descriptor_search_for_script_impl D d multi_index child_num search_depth script))))"

definition wallet_build_descriptor_script ::
  "'d descriptor_lib \<Rightarrow> 'x keychain_t option \<Rightarrow> network_t \<Rightarrow> descriptor_data_t \<Rightarrow> nat \<Rightarrow> nat \<Rightarrow> nat \<Rightarrow> bytes option run" where
  "wallet_build_descriptor_script D kc network_id descriptor multi_index index output_len =
     jade_assert (kc \<noteq> None) (
     if network_id = NETWORK_NONE \<or> output_len = 0 then Ret None
     else then_run (descriptor_to_script D descriptor network_id multi_index index) (\<lambda>r. Ret (case r of
       Inl errmsg \<Rightarrow> None
     | Inr script \<Rightarrow> if script = [] \<or> length script > output_len then None else Some script)))"

definition wallet_search_for_descriptor_script ::
  "'d descriptor_lib \<Rightarrow> 'x keychain_t option \<Rightarrow> network_t \<Rightarrow> descriptor_data_t \<Rightarrow> nat \<Rightarrow> nat \<Rightarrow> nat \<Rightarrow> bytes
    \<Rightarrow> (bool \<times> nat) run" where
  "wallet_search_for_descriptor_script D kc network_id descriptor multi_index index search_depth script =
     jade_assert (kc \<noteq> None) (
     if length (dd_values descriptor) > MAX_ALLOWED_SIGNERS \<or> search_depth = 0 then Ret (False, index)
     else descriptor_search_for_script D descriptor network_id multi_index index search_depth script)"

section \<open>The record\<close>

definition value_bytes :: "string_value_t \<Rightarrow> bytes" where
  "value_bytes v =
     raw_bytes 2 (of_nat (length (sv_key v)) :: u16) @ map char_byte (sv_key v)
       @ raw_bytes 2 (of_nat (length (sv_value v)) :: u16) @ map char_byte (sv_value v)"

definition descriptor_to_bytes ::
  "'x wallet_lib \<Rightarrow> 'x keychain_t option \<Rightarrow> descriptor_data_t \<Rightarrow> nat \<Rightarrow> bytes option run" where
  "descriptor_to_bytes L kc d output_len =
     jade_assert (output_len = DESCRIPTOR_BYTES_LEN d) (
     jade_assert (length (dd_script d) \<noteq> 0) (
     jade_assert (length (dd_values d) \<le> MAX_ALLOWED_SIGNERS) (
     let written = [CURRENT_DESCRIPTOR_RECORD_VERSION, descriptor_type_byte (dd_type d)]
           @ raw_bytes 2 (of_nat (length (dd_script d)) :: u16) @ map char_byte (dd_script d)
           @ [of_nat (length (dd_values d))] @ concat (map value_bytes (dd_values d)) in
     jade_assert (length written + HMAC_SHA256_LEN = output_len) (
     then_run (wallet_hmac_with_master_key L kc written) (\<lambda>hmac. Ret (map_option (\<lambda>h. written @ h) hmac))))))"

text \<open>
  A text with its two-byte length, at most \<^verbatim>\<open>room\<close> characters, and the position behind it.
\<close>

definition read_text :: "bytes \<Rightarrow> nat \<Rightarrow> nat \<Rightarrow> (string \<times> nat) option run" where
  "read_text bs pos room =
     then_run (read_at bs pos 2) (\<lambda>l.
     let len = unat (raw_value l :: u16) in
     if len > room then Ret None
     else then_run (read_at bs (pos + 2) len) (\<lambda>t. Ret (Some (map byte_char t, pos + 2 + len))))"

text \<open>
  The terminating zero is written behind the text. For a key of 16 characters it goes to
  the length of the value, which is written next; for a value of 160 characters it goes to
  the first character of the key. A sixteenth value is outside the array.
\<close>

fun read_values :: "bytes \<Rightarrow> nat \<Rightarrow> nat \<Rightarrow> nat \<Rightarrow> (string_value_t list \<times> nat) option run" where
  "read_values bs i 0 pos = Ret (Some ([], pos))"
| "read_values bs i (Suc n) pos =
     (if i \<ge> MAX_ALLOWED_SIGNERS then Undef
      else
      then_run (read_text bs pos 16) (\<lambda>r. case r of
        None \<Rightarrow> Ret None
      | Some (key, pos) \<Rightarrow>
      then_run (read_text bs pos 160) (\<lambda>r. case r of
        None \<Rightarrow> Ret None
      | Some (value, pos) \<Rightarrow>
      let key = (if length value = 160 then (case key of [] \<Rightarrow> [] | _ # cs \<Rightarrow> CHR 0x00 # cs) else key) in
      then_run (read_values bs (Suc i) n pos) (\<lambda>r. Ret (map_option
        (\<lambda>(vs, pos). (\<lparr>sv_value = value, sv_key = key\<rparr> # vs, pos)) r)))))"

text \<open>
  A record shorter than the HMAC gives a length that wraps around. The zero behind a
  script of 512 characters goes to the low byte of its length, which is zero.
\<close>

definition descriptor_from_bytes ::
  "'x wallet_lib \<Rightarrow> 'x keychain_t option \<Rightarrow> bytes \<Rightarrow> descriptor_data_t option run" where
  "descriptor_from_bytes L kc bs =
     jade_assert (length bs \<ge> MIN_DESCRIPTOR_BYTES_LEN) (
     if length bs < HMAC_SHA256_LEN then Undef
     else
     let body_len = length bs - HMAC_SHA256_LEN in
     then_run (wallet_hmac_with_master_key L kc (take body_len bs)) (\<lambda>hmac_calculated.
     if hmac_calculated \<noteq> Some (drop body_len bs) then Ret None
     else
     let version = bs ! 0 in
     if version > CURRENT_DESCRIPTOR_RECORD_VERSION then Ret None
     else
     then_run (read_text bs 2 MAX_DESCRIPTOR_SCRIPT_LEN) (\<lambda>r. case r of
       None \<Rightarrow> Ret None
     | Some (script, pos) \<Rightarrow>
     then_run (read_byte_at bs pos) (\<lambda>num_values.
     then_run (read_values bs 0 (unat num_values) (pos + 1)) (\<lambda>r. case r of
       None \<Rightarrow> Ret None
     | Some (vs, read_ptr) \<Rightarrow>
         jade_assert (read_ptr + HMAC_SHA256_LEN = length bs) (
         Ret (Some \<lparr>dd_values = vs, dd_script = script, dd_type = descriptor_type_of_byte (bs ! 1)\<rparr>)))))))"

section \<open>Records in the storage\<close>

text \<open>As for multisig records, the last check only sets the message.\<close>

definition descriptor_load_from_storage ::
  "('s, 'h, 'i) nvs \<Rightarrow> 'x wallet_lib \<Rightarrow> string
    \<Rightarrow> (('s, 'x) keychain_state, descriptor_data_t option \<times> string option) act" where
  "descriptor_load_from_storage N L descriptor_name =
     andthen (on_nvs (storage_get_descriptor_registration N (Some descriptor_name) MAX_DESCRIPTOR_BYTES_LEN)) (\<lambda>registration.
     case registration of
       None \<Rightarrow> give (None, Some ''Cannot find named descriptor wallet'')
     | Some bs \<Rightarrow>
         andthen (inspect (\<lambda>st. from_run (descriptor_from_bytes L (keychain_get st) bs))) (\<lambda>r.
         case r of
           None \<Rightarrow> give (None, Some ''Cannot de-serialise descriptor wallet data'')
         | Some d \<Rightarrow>
             give (Some d, if length (dd_script d) > MAX_DESCRIPTOR_SCRIPT_LEN
                 \<or> length (dd_values d) > MAX_ALLOWED_SIGNERS
               then Some ''Descriptor wallet data invalid'' else None)))"

fun valid_descriptors ::
  "('s, 'h, 'i) nvs \<Rightarrow> 'x wallet_lib \<Rightarrow> string list \<Rightarrow> (('s, 'x) keychain_state, string list) act" where
  "valid_descriptors N L [] = give []"
| "valid_descriptors N L (name # names) =
     andthen (descriptor_load_from_storage N L name) (\<lambda>(loaded, errmsg).
     andthen (valid_descriptors N L names) (\<lambda>rest. give (if loaded = None then rest else name # rest)))"

definition descriptor_get_valid_record_names ::
  "('s, 'h, 'i) nvs \<Rightarrow> 'x wallet_lib \<Rightarrow> string \<Rightarrow> nat \<Rightarrow> (('s, 'x) keychain_state, string list) act" where
  "descriptor_get_valid_record_names N L junk num_names =
     andthen (insist (num_names > 0)) (\<lambda>_.
     andthen (stored_names (storage_get_all_descriptor_registration_names N junk num_names)) (\<lambda>(names, all).
     if \<not> all \<or> length names = 0 then give [] else valid_descriptors N L names))"

end
