(* ===== verification/Jade_Signers.thy ===== *)
theory Jade_Signers
  imports Jade_Keyiter Jade_Descriptor Jade_Register
begin

text \<open>
  The first half of \<^verbatim>\<open>src/main/process/sign_psbt.c\<close>, for PSBTs that are not Elements PSBTs:
  which inputs and outputs belong to this wallet. An output is change when its script is
  the one the wallet, a registered multisig or a registered descriptor generates from the
  PSBT's key paths. A script is a list of bytes or null; libwally's functions on a PSBT
  are the record \<^verbatim>\<open>psbt_lib\<close>, whose scripts are nothing when they do not fit the buffer.
\<close>

record 'x psbt_lib =
  pl_keypaths :: "'x keypath_lib"
  pl_address :: address_lib
  pl_extract :: "wallet_psbt \<Rightarrow> wally_tx option"
  pl_tx_is_elements :: "wally_tx \<Rightarrow> bool option"
  pl_total_output :: "wally_tx \<Rightarrow> u64 option"
  pl_signature_type :: "wallet_psbt \<Rightarrow> nat \<Rightarrow> u32 option"
  pl_output_script :: "wallet_psbt \<Rightarrow> nat \<Rightarrow> nat \<Rightarrow> bytes option"
  pl_csv_blocks :: "bytes \<Rightarrow> u32 option"
  pl_signing_script :: "wallet_psbt \<Rightarrow> nat \<Rightarrow> bytes option"
  pl_scriptcode :: "wallet_psbt \<Rightarrow> nat \<Rightarrow> bytes \<Rightarrow> bytes option"
  pl_signature_hash :: "wallet_psbt \<Rightarrow> nat \<Rightarrow> wally_tx \<Rightarrow> bytes \<Rightarrow> bytes option"
  pl_sign_input :: "wallet_psbt \<Rightarrow> nat \<Rightarrow> u32 \<Rightarrow> bytes \<Rightarrow> 'x \<Rightarrow> psbt \<times> bool"
  pl_signing_cache :: bool
  pl_with_pub_key :: "bytes \<Rightarrow> 'x"

text \<open>What the device's other parts are: the storage, libwally for keys and descriptors, the user.\<close>

record ('s, 'h, 'i, 'x, 'd) sign_env =
  sv_nvs :: "('s, 'h, 'i) nvs"
  sv_junk :: string
  sv_wallet :: "'x wallet_lib"
  sv_descriptors :: "'d descriptor_lib"
  sv_psbt :: "'x psbt_lib"
  sv_consts :: wally_consts
  sv_mweb :: "'x session_env"
  sv_user :: user

definition PSBT_SIGNING_SINGLESIG :: byte where "PSBT_SIGNING_SINGLESIG = 0x1"
definition PSBT_SIGNING_MULTISIG :: byte where "PSBT_SIGNING_MULTISIG = 0x2"
definition PSBT_SIGNING_GREEN_MULTISIG :: byte where "PSBT_SIGNING_GREEN_MULTISIG = 0x4"
definition PSBT_SIGNING_SINGLE_MULTISIG_RECORD :: byte where "PSBT_SIGNING_SINGLE_MULTISIG_RECORD = 0x10"
definition PSBT_SIGNING_MULTISIG_CHANGE_ABANDONED :: byte where "PSBT_SIGNING_MULTISIG_CHANGE_ABANDONED = 0x20"

lemmas signing_bits = PSBT_SIGNING_SINGLESIG_def PSBT_SIGNING_MULTISIG_def PSBT_SIGNING_GREEN_MULTISIG_def
  PSBT_SIGNING_SINGLE_MULTISIG_RECORD_def PSBT_SIGNING_MULTISIG_CHANGE_ABANDONED_def

section \<open>Green multisig\<close>

text \<open>The paths seen so far, empty when not seen, and the recovery public key.\<close>

record green_scan =
  gs_path :: "u32 list"
  gs_user :: "u32 list"
  gs_ga :: "u32 list"
  gs_recovery :: "u32 list"
  gs_recovery_key :: "bytes option"

text \<open>One key; nothing when the signers cannot be those of a Green multisig.\<close>

definition green_key ::
  "'x keypath_lib \<Rightarrow> wallet_psbt \<Rightarrow> 'x key_iter \<Rightarrow> nat \<Rightarrow> bytes \<Rightarrow> bytes \<Rightarrow> bool \<Rightarrow> green_scan \<Rightarrow> nat \<Rightarrow> green_scan option run" where
  "green_key P p iter num_keys wallet_fingerprint ga_fingerprint want_recovery s ikey =
     then_run (key_iter_get_fingerprint_at P p iter (of_nat ikey)) (\<lambda>key_fingerprint.
     if key_fingerprint = ga_fingerprint then
       (if gs_ga s \<noteq> [] then Ret None
        else then_run (key_iter_get_path_at P p iter (of_nat ikey) MAX_GASERVICE_PATH_LEN) (\<lambda>r.
          Ret (map_option (\<lambda>path. s\<lparr>gs_ga := path\<rparr>) r)))
     else if key_fingerprint = wallet_fingerprint then
       then_run (if num_keys = 3 \<and> ki_is_ga_2of3_recovery_key iter \<and> length (gs_path s) = GA_RECOVERY_PATH_LEN
           then if gs_recovery s \<noteq> [] then Ret None
             else then_run (key_iter_get_path_at P p iter (of_nat ikey) GA_RECOVERY_PATH_LEN) (\<lambda>r.
               Ret (map_option (\<lambda>path. s\<lparr>gs_recovery := path\<rparr>) r))
           else Ret (Some s)) (\<lambda>r. case r of
         None \<Rightarrow> Ret None
       | Some s \<Rightarrow>
           if gs_user s \<noteq> [] then Ret None
           else then_run (key_iter_get_path_at P p iter (of_nat ikey) GA_USER_PATH_MAX_LEN) (\<lambda>r.
             Ret (map_option (\<lambda>path. s\<lparr>gs_user := path\<rparr>) r)))
     else if num_keys \<noteq> 3 then Ret None
     else
       then_run (key_iter_get_path_at P p iter (of_nat ikey) GA_USER_PATH_MAX_LEN) (\<lambda>r. case r of
         None \<Rightarrow> Ret None
       | Some path \<Rightarrow>
           let s = s\<lparr>gs_path := path\<rparr> in
           if ki_is_ga_2of3_recovery_key iter \<and> gs_user s = [] \<and> is_potential_green_user_path path \<noteq> None
           then Ret (Some (s\<lparr>gs_user := path\<rparr>))
           else if gs_recovery s = [] \<and> is_potential_green_recovery_path path
           then let s = s\<lparr>gs_recovery := path\<rparr> in
             if want_recovery
             then then_run (key_iter_get_pubkey_at P p iter (of_nat ikey) EC_PUBLIC_KEY_LEN) (\<lambda>k.
               Ret (map_option (\<lambda>k. s\<lparr>gs_recovery_key := Some k\<rparr>) k))
             else Ret (Some s)
           else Ret None))"

fun green_keys ::
  "(green_scan \<Rightarrow> nat \<Rightarrow> green_scan option run) \<Rightarrow> green_scan \<Rightarrow> nat list \<Rightarrow> green_scan option run" where
  "green_keys visit s [] = Ret (Some s)"
| "green_keys visit s (ikey # ikeys) =
     then_run (visit s ikey) (\<lambda>r. case r of None \<Rightarrow> Ret None | Some s \<Rightarrow> green_keys visit s ikeys)"

text \<open>
  The service path is accepted when it \<^emph>\<open>differs\<close> from the expected one: \<^verbatim>\<open>sodium_memcmp\<close> is
  zero for equal memory, and its result is used as it is.
\<close>

definition green_paths_match :: "'x keychain_t option \<Rightarrow> 'x key_iter \<Rightarrow> nat \<Rightarrow> green_scan \<Rightarrow> bool run" where
  "green_paths_match kc iter num_keys s =
     (if gs_user s = [] \<or> gs_ga s = [] \<or> num_keys = 3 \<and> gs_recovery s = [] then Ret False
      else
        let user_ptr = last (gs_user s) in
        if last (gs_ga s) \<noteq> user_ptr \<or> num_keys = 3 \<and> last (gs_recovery s) \<noteq> user_ptr then Ret False
        else if num_keys = 3 \<and> ki_is_ga_2of3_recovery_key iter then Ret True
        else then_run (wallet_get_gaservice_path kc (gs_user s)) (\<lambda>r. Ret (case r of
          None \<Rightarrow> False
        | Some expected_ga_path \<Rightarrow> length (gs_ga s) = length expected_ga_path \<and> expected_ga_path \<noteq> gs_ga s)))"

text \<open>The answer, and the recovery public key if asked for and seen.\<close>

definition is_green_multisig_signers ::
  "'x wallet_lib \<Rightarrow> 'x keypath_lib \<Rightarrow> 'x keychain_t option \<Rightarrow> wallet_psbt \<Rightarrow> network_t \<Rightarrow> 'x key_iter \<Rightarrow> bool
    \<Rightarrow> (bool \<times> bytes option) run" where
  "is_green_multisig_signers L P kc p network_id iter want_recovery =
     jade_assert (network_id \<noteq> NETWORK_NONE) (
     then_run (key_iter_get_num_keys p iter) (\<lambda>num_keys.
     if num_keys \<noteq> 2 \<and> num_keys \<noteq> 3 then Ret (False, None)
     else
       then_run (wallet_get_fingerprint L kc) (\<lambda>wallet_fingerprint.
       case wallet_get_gaservice_fingerprint L network_id of
         None \<Rightarrow> Ret (False, None)
       | Some ga_fingerprint \<Rightarrow>
           then_run (green_keys (green_key P p iter num_keys wallet_fingerprint ga_fingerprint want_recovery)
             \<lparr>gs_path = [], gs_user = [], gs_ga = [], gs_recovery = [], gs_recovery_key = None\<rparr> [0..<num_keys]) (\<lambda>r.
           case r of
             None \<Rightarrow> Ret (False, None)
           | Some s \<Rightarrow> then_run (green_paths_match kc iter num_keys s) (\<lambda>b. Ret (b, gs_recovery_key s))))))"

section \<open>Generating the scripts\<close>

definition script_given :: "bytes option \<Rightarrow> bool" where
  "script_given target_script \<longleftrightarrow> target_script \<noteq> None \<and> target_script \<noteq> Some []"

text \<open>The blocks of a csv script are read when there is a recovery key, where it is unsupported.\<close>

definition verify_ga_script_matches ::
  "'x wallet_lib \<Rightarrow> 'x psbt_lib \<Rightarrow> network_t \<Rightarrow> 'x \<Rightarrow> 'x option \<Rightarrow> u32 list \<Rightarrow> bytes option
    \<Rightarrow> (('s, 'x) keychain_state, bool) act" where
  "verify_ga_script_matches L PL network_id user_key recovery_key path target_script =
     andthen (insist (network_id \<noteq> NETWORK_NONE \<and> script_given target_script)) (\<lambda>_.
     let csv = (if recovery_key \<noteq> None then pl_csv_blocks PL (the target_script) else None);
         csv_blocks = (case csv of None \<Rightarrow> 0 | Some b \<Rightarrow> b) in
     andthen (from_run (if csv \<noteq> None then network_is_known_csv_blocks network_id csv_blocks else Ret True)) (\<lambda>known.
     if \<not> known then give False
     else andthen (wallet_build_ga_script_ex L network_id (Some user_key) recovery_key (unat csv_blocks) path
         WALLY_SCRIPTPUBKEY_P2WSH_LEN) (\<lambda>trial_script.
       give (trial_script \<noteq> None \<and> trial_script = target_script))))"

definition verify_singlesig_script_matches ::
  "'x wallet_lib \<Rightarrow> 'x keychain_t option \<Rightarrow> network_t \<Rightarrow> script_variant_t \<Rightarrow> 'x \<Rightarrow> bytes option \<Rightarrow> bool run" where
  "verify_singlesig_script_matches L kc network_id script_variant hdkey target_script =
     jade_assert (is_singlesig script_variant \<and> target_script \<noteq> None) (
     if script_length_for_variant script_variant \<noteq> length (the target_script) then Ret False
     else then_run (wallet_build_singlesig_script L kc network_id script_variant hdkey WALLY_SCRIPTPUBKEY_P2WSH_LEN)
       (\<lambda>trial_script. Ret (trial_script \<noteq> None \<and> trial_script = target_script)))"

text \<open>The keys of the registered signers, or nothing when one is not among the keys of the PSBT.\<close>

fun derived_pubkeys ::
  "'x wallet_lib \<Rightarrow> 'x keypath_lib \<Rightarrow> wallet_psbt \<Rightarrow> 'x key_iter \<Rightarrow> u32 list \<Rightarrow> bytes list \<Rightarrow> bytes option run" where
  "derived_pubkeys L P p iter path [] = Ret (Some [])"
| "derived_pubkeys L P p iter path (xpub # xpubs) =
     then_run (wallet_derive_pubkey L xpub path) (\<lambda>hdkey. case hdkey of
       None \<Rightarrow> Ret None
     | Some hdkey \<Rightarrow>
         let pubkey = key_pub_key (wl_keys L) hdkey in
         then_run (key_iter_contains_pubkey P p iter pubkey) (\<lambda>present.
         if \<not> present then Ret None
         else then_run (derived_pubkeys L P p iter path xpubs) (\<lambda>r. Ret (map_option (\<lambda>ks. pubkey @ ks) r))))"

definition verify_multisig_script_matches ::
  "'x wallet_lib \<Rightarrow> 'x keypath_lib \<Rightarrow> 'x keychain_t option \<Rightarrow> wallet_psbt \<Rightarrow> multisig_data_t \<Rightarrow> u32 list \<Rightarrow> 'x key_iter
    \<Rightarrow> bytes option \<Rightarrow> bool run" where
  "verify_multisig_script_matches L P kc p multisig_data path iter target_script =
     jade_assert (path \<noteq> [] \<and> ki_is_valid iter \<and> script_given target_script) (
     if script_length_for_variant (md_variant multisig_data) \<noteq> length (the target_script) then Ret False
     else
       then_run (key_iter_get_num_keys p iter) (\<lambda>num_keys.
       if length (md_xpubs multisig_data) \<noteq> num_keys then Ret False
       else
         then_run (derived_pubkeys L P p iter path (md_xpubs multisig_data)) (\<lambda>r. case r of
           None \<Rightarrow> Ret False
         | Some pubkeys \<Rightarrow>
             then_run (wallet_build_multisig_script L kc (md_variant multisig_data) (md_sorted multisig_data)
               (md_threshold multisig_data) pubkeys WALLY_SCRIPTPUBKEY_P2WSH_LEN) (\<lambda>trial_script.
             Ret (trial_script \<noteq> None \<and> trial_script = target_script)))))"

definition verify_descriptor_script_matches_impl ::
  "'d descriptor_lib \<Rightarrow> 'x keychain_t option \<Rightarrow> descriptor_data_t \<Rightarrow> network_t \<Rightarrow> nat \<Rightarrow> nat \<Rightarrow> bytes option \<Rightarrow> bool run" where
  "verify_descriptor_script_matches_impl D kc descriptor network_id multi_index index target_script =
     jade_assert (network_id \<noteq> NETWORK_NONE \<and> script_given target_script) (
     then_run (wallet_build_descriptor_script D kc network_id descriptor multi_index index WALLY_SCRIPTPUBKEY_P2WSH_LEN)
       (\<lambda>trial_script. Ret (trial_script \<noteq> None \<and> trial_script = target_script)))"

definition verify_descriptor_script_matches ::
  "'d descriptor_lib \<Rightarrow> 'x keychain_t option \<Rightarrow> wallet_psbt \<Rightarrow> descriptor_data_t \<Rightarrow> network_t \<Rightarrow> u32 list \<Rightarrow> 'x key_iter
    \<Rightarrow> bytes option \<Rightarrow> bool run" where
  "verify_descriptor_script_matches D kc p descriptor network_id path iter target_script =
     jade_assert (network_id \<noteq> NETWORK_NONE \<and> path \<noteq> [] \<and> ki_is_valid iter \<and> script_given target_script) (
     then_run (key_iter_get_num_keys p iter) (\<lambda>num_keys.
     if length (dd_values descriptor) > num_keys then Ret False
     else
       let index = unat (last path) in
       then_run (if length path > 1
           then verify_descriptor_script_matches_impl D kc descriptor network_id 1 index target_script
           else Ret False) (\<lambda>matches.
       if matches then Ret True
       else verify_descriptor_script_matches_impl D kc descriptor network_id 0 index target_script)))"

section \<open>Registered records\<close>

text \<open>The first record of those named that generates the script, with its name.\<close>

fun first_multisig ::
  "('s, 'h, 'i, 'x, 'd) sign_env \<Rightarrow> wallet_psbt \<Rightarrow> 'x key_iter \<Rightarrow> u32 list \<Rightarrow> bytes option \<Rightarrow> string list
    \<Rightarrow> (('s, 'x) keychain_state, (string \<times> multisig_data_t) option) act" where
  "first_multisig V p iter path target_script [] = give None"
| "first_multisig V p iter path target_script (name # names) =
     andthen (multisig_load_from_storage (sv_nvs V) (sv_wallet V) name 0) (\<lambda>(loaded, errmsg). case loaded of
       None \<Rightarrow> first_multisig V p iter path target_script names
     | Some (d, _, _) \<Rightarrow>
         andthen (inspect (\<lambda>st. from_run (verify_multisig_script_matches (sv_wallet V) (pl_keypaths (sv_psbt V))
           (keychain_get st) p d path iter target_script))) (\<lambda>matches.
         if \<not> matches then first_multisig V p iter path target_script names
         else andthen (insist (length name < NVS_KEY_NAME_MAX_SIZE)) (\<lambda>_. give (Some (name, d)))))"

definition get_suitable_multisig_record ::
  "('s, 'h, 'i, 'x, 'd) sign_env \<Rightarrow> wallet_psbt \<Rightarrow> 'x key_iter \<Rightarrow> u32 list \<Rightarrow> bytes option
    \<Rightarrow> (('s, 'x) keychain_state, (string \<times> multisig_data_t) option) act" where
  "get_suitable_multisig_record V p iter path target_script =
     andthen (insist (ki_is_valid iter \<and> script_given target_script)) (\<lambda>_.
     andthen (stored_names (storage_get_all_multisig_registration_names (sv_nvs V) (sv_junk V) MAX_MULTISIG_REGISTRATIONS))
       (\<lambda>(names, all). if \<not> all then give None else first_multisig V p iter path target_script names))"

fun first_descriptor ::
  "('s, 'h, 'i, 'x, 'd) sign_env \<Rightarrow> wallet_psbt \<Rightarrow> 'x key_iter \<Rightarrow> u32 list \<Rightarrow> bytes option \<Rightarrow> network_t \<Rightarrow> string list
    \<Rightarrow> (('s, 'x) keychain_state, (string \<times> descriptor_data_t) option) act" where
  "first_descriptor V p iter path target_script network_id [] = give None"
| "first_descriptor V p iter path target_script network_id (name # names) =
     andthen (descriptor_load_from_storage (sv_nvs V) (sv_wallet V) name) (\<lambda>(loaded, errmsg). case loaded of
       None \<Rightarrow> first_descriptor V p iter path target_script network_id names
     | Some d \<Rightarrow>
         andthen (inspect (\<lambda>st. from_run (verify_descriptor_script_matches (sv_descriptors V) (keychain_get st) p d
           network_id path iter target_script))) (\<lambda>matches.
         if \<not> matches then first_descriptor V p iter path target_script network_id names
         else andthen (insist (length name < NVS_KEY_NAME_MAX_SIZE)) (\<lambda>_. give (Some (name, d)))))"

definition get_suitable_descriptor_record ::
  "('s, 'h, 'i, 'x, 'd) sign_env \<Rightarrow> wallet_psbt \<Rightarrow> 'x key_iter \<Rightarrow> u32 list \<Rightarrow> bytes option \<Rightarrow> network_t
    \<Rightarrow> (('s, 'x) keychain_state, (string \<times> descriptor_data_t) option) act" where
  "get_suitable_descriptor_record V p iter path target_script network_id =
     andthen (insist (ki_is_valid iter \<and> script_given target_script \<and> network_id \<noteq> NETWORK_NONE)) (\<lambda>_.
     andthen (stored_names (storage_get_all_descriptor_registration_names (sv_nvs V) (sv_junk V) MAX_DESCRIPTOR_REGISTRATIONS))
       (\<lambda>(names, all). if \<not> all then give None else first_descriptor V p iter path target_script network_id names))"

section \<open>Change\<close>

text \<open>What the inputs have shown about the wallet that is spending.\<close>

record spending =
  sp_flags :: byte
  sp_wallet_name :: string
  sp_multisig :: "multisig_data_t option"
  sp_descriptor :: "descriptor_data_t option"

definition mark :: "byte \<Rightarrow> output_info_t \<Rightarrow> output_info_t" where
  "mark f outinfo = outinfo\<lparr>oi_flags := oi_flags outinfo OR f\<rparr>"

definition mark_validated :: "bool \<Rightarrow> output_info_t \<Rightarrow> output_info_t" where
  "mark_validated is_change outinfo =
     (let outinfo = mark OUTPUT_FLAG_VALIDATED outinfo in if is_change then mark OUTPUT_FLAG_CHANGE outinfo else outinfo)"

text \<open>The message for an unusual path, which must fit the 128 characters there are for it.\<close>

definition path_warning :: "string \<Rightarrow> u32 list \<Rightarrow> output_info_t \<Rightarrow> output_info_t run" where
  "path_warning label path outinfo =
     then_run (wallet_bip32_path_as_str path (MAX_PATH_STR_LEN MAX_PATH_LEN) False) (\<lambda>path_str.
     then_run (printed 128 (label @ (case path_str of Some s \<Rightarrow> s | None \<Rightarrow> ''too long''))) (\<lambda>message.
     Ret (outinfo\<lparr>oi_message := message\<rparr>)))"

definition update_singlesig_output ::
  "('s, 'h, 'i, 'x, 'd) sign_env \<Rightarrow> 'x keychain_t option \<Rightarrow> network_t \<Rightarrow> byte \<Rightarrow> 'x key_iter \<Rightarrow> u32 list \<Rightarrow> bool \<Rightarrow> bytes
    \<Rightarrow> output_info_t \<Rightarrow> output_info_t run" where
  "update_singlesig_output V kc network_id signing_flags iter path is_change tx_script outinfo =
     jade_assert (ki_key_index iter = 0) (
     if signing_flags AND PSBT_SIGNING_SINGLESIG = 0 then Ret outinfo
     else case script_type_of (pl_address (sv_psbt V)) tx_script of
       None \<Rightarrow> Ret outinfo
     | Some script_type \<Rightarrow>
         (case get_singlesig_variant_from_script_type script_type of
            None \<Rightarrow> Ret outinfo
          | Some script_variant \<Rightarrow>
              then_run (verify_singlesig_script_matches (sv_wallet V) kc network_id script_variant (ki_hdkey iter)
                (Some tx_script)) (\<lambda>matches.
              if \<not> matches then Ret outinfo
              else
                let outinfo = mark_validated is_change outinfo in
                then_run (wallet_is_expected_singlesig_path network_id script_variant is_change path) (\<lambda>expected.
                if expected then Ret outinfo else path_warning ''Unusual receive path: '' path outinfo))))"

text \<open>Reading a recovery key that was not filled in is outside what C defines.\<close>

definition update_green_output ::
  "('s, 'h, 'i, 'x, 'd) sign_env \<Rightarrow> wallet_psbt \<Rightarrow> network_t \<Rightarrow> 'x key_iter \<Rightarrow> nat \<Rightarrow> u32 list \<Rightarrow> bytes \<Rightarrow> output_info_t
    \<Rightarrow> (('s, 'x) keychain_state, output_info_t) act" where
  "update_green_output V p network_id iter num_keys path tx_script outinfo =
     andthen (insist (unat (ki_key_index iter) < num_keys)) (\<lambda>_.
     andthen (inspect (\<lambda>st. from_run (is_green_multisig_signers (sv_wallet V) (pl_keypaths (sv_psbt V)) (keychain_get st) p
       network_id iter (num_keys = 3)))) (\<lambda>(is_green, recovery_pub_key).
     if \<not> is_green then give outinfo
     else
       andthen (if ki_is_ga_2of3_recovery_key iter then give True
         else andthen (from_run (if num_keys = 3 \<and> recovery_pub_key = None then Undef else Ret ())) (\<lambda>_.
           verify_ga_script_matches (sv_wallet V) (sv_psbt V) network_id (ki_hdkey iter)
             (if num_keys = 3 then map_option (pl_with_pub_key (sv_psbt V)) recovery_pub_key else None) path (Some tx_script))) (\<lambda>matches.
       give (if matches then mark_validated True outinfo else outinfo))))"

definition update_multisig_output ::
  "('s, 'h, 'i, 'x, 'd) sign_env \<Rightarrow> 'x keychain_t option \<Rightarrow> wallet_psbt \<Rightarrow> network_t \<Rightarrow> spending \<Rightarrow> 'x key_iter \<Rightarrow> nat \<Rightarrow> u32 list
    \<Rightarrow> bool \<Rightarrow> bytes \<Rightarrow> output_info_t \<Rightarrow> output_info_t run" where
  "update_multisig_output V kc p network_id sp iter num_keys path is_change tx_script outinfo =
     jade_assert (unat (ki_key_index iter) < num_keys) (
     jade_assert ((sp_multisig sp = None) \<noteq> (sp_descriptor sp = None)) (
     let tail = drop (path_get_unhardened_tail_index path) path in
     then_run (case sp_multisig sp of None \<Rightarrow> Ret True
       | Some d \<Rightarrow> verify_multisig_script_matches (sv_wallet V) (pl_keypaths (sv_psbt V)) kc p d tail iter (Some tx_script)) (\<lambda>matches.
     if \<not> matches then Ret outinfo
     else then_run (case sp_descriptor sp of None \<Rightarrow> Ret True
       | Some d \<Rightarrow> verify_descriptor_script_matches (sv_descriptors V) kc p d network_id tail iter (Some tx_script)) (\<lambda>matches.
     if \<not> matches then Ret outinfo
     else
       let outinfo = mark_validated is_change outinfo in
       if wallet_is_expected_multisig_path (unat (ki_key_index iter)) is_change tail then Ret outinfo
       else path_warning ''Unusual change path suffix: '' path outinfo))))"

definition update_output ::
  "('s, 'h, 'i, 'x, 'd) sign_env \<Rightarrow> wallet_psbt \<Rightarrow> network_t \<Rightarrow> spending \<Rightarrow> nat \<Rightarrow> output_info_t
    \<Rightarrow> (('s, 'x) keychain_state, output_info_t) act" where
  "update_output V p network_id sp n outinfo =
     (if MWEB_OUT_IS_MWEB (po_mweb_output_keyset (ps_outputs (wp_psbt p) ! n)) then give (mark OUTPUT_FLAG_MWEB outinfo)
      else
        andthen (insist (\<not> flagged outinfo (OUTPUT_FLAG_VALIDATED OR OUTPUT_FLAG_CHANGE))) (\<lambda>_.
        inspect (\<lambda>st.
        let kc = keychain_get st; L = sv_wallet V; P = pl_keypaths (sv_psbt V) in
        andthen (from_run (key_iter_output_begin_public L P kc p n)) (\<lambda>iter.
        if \<not> ki_is_valid iter then give outinfo
        else andthen (from_run (key_iter_get_path P p iter MAX_PATH_LEN)) (\<lambda>path. case path of
          None \<Rightarrow> give outinfo
        | Some path \<Rightarrow>
            let is_change = (length path \<ge> 2 \<and> path ! (length path - 2) = 1) in
            (case pl_output_script (sv_psbt V) p n WALLY_SCRIPTPUBKEY_P2WSH_LEN of
               None \<Rightarrow> give outinfo
             | Some tx_script \<Rightarrow>
                 andthen (from_run (key_iter_get_num_keys p iter)) (\<lambda>num_keys.
                 if num_keys = 1
                 then from_run (update_singlesig_output V kc network_id (sp_flags sp) iter path is_change tx_script outinfo)
                 else if sp_flags sp = PSBT_SIGNING_GREEN_MULTISIG OR PSBT_SIGNING_MULTISIG_CHANGE_ABANDONED
                 then update_green_output V p network_id iter num_keys path tx_script outinfo
                 else if sp_flags sp = PSBT_SIGNING_MULTISIG OR PSBT_SIGNING_SINGLE_MULTISIG_RECORD
                 then from_run (update_multisig_output V kc p network_id sp iter num_keys path is_change tx_script outinfo)
                 else give outinfo)))))))"

text \<open>All outputs from the \<^verbatim>\<open>n\<close>th on, starting from information that is all zero.\<close>

definition no_info :: output_info_t where
  "no_info = \<lparr>oi_message = [], oi_flags = 0\<rparr>"

fun update_outputs ::
  "('s, 'h, 'i, 'x, 'd) sign_env \<Rightarrow> wallet_psbt \<Rightarrow> network_t \<Rightarrow> spending \<Rightarrow> nat list
    \<Rightarrow> (('s, 'x) keychain_state, output_info_t list) act" where
  "update_outputs V p network_id sp [] = give []"
| "update_outputs V p network_id sp (n # ns) =
     andthen (update_output V p network_id sp n no_info) (\<lambda>outinfo.
     andthen (update_outputs V p network_id sp ns) (\<lambda>rest. give (outinfo # rest)))"

definition psbt_update_outputs ::
  "('s, 'h, 'i, 'x, 'd) sign_env \<Rightarrow> wallet_psbt \<Rightarrow> network_t \<Rightarrow> spending
    \<Rightarrow> (('s, 'x) keychain_state, output_info_t list) act" where
  "psbt_update_outputs V p network_id sp =
     andthen (insist (network_id \<noteq> NETWORK_NONE \<and> (sp_multisig sp = None \<or> sp_descriptor sp = None))) (\<lambda>_.
     update_outputs V p network_id sp [0..<length (ps_outputs (wp_psbt p))])"

section \<open>The network of a PSBT\<close>

definition psbt_has_litecoin_coin_type :: "'x keypath_lib \<Rightarrow> wallet_psbt \<Rightarrow> bool" where
  "psbt_has_litecoin_coin_type P p \<longleftrightarrow>
     list_ex (\<lambda>i. list_ex (\<lambda>k. case keypath_path P (in_keypaths i) (of_nat k) of
         None \<Rightarrow> False
       | Some path \<Rightarrow>
           if length path < 2 \<or> length path > MAX_PATH_LEN then False
           else path ! 1 = BIP32_INITIAL_HARDENED_CHILD + 2)
       [0..<length (wm_items (in_keypaths i))]) (wp_inputs p)"

definition network_from_psbt_type :: "'x keypath_lib \<Rightarrow> ('s, 'x) keychain_state \<Rightarrow> wallet_psbt \<Rightarrow> network_t" where
  "network_from_psbt_type P st p =
     (let is_test = (keychain_get_network_type_restriction st = network_type_value NETWORK_TYPE_TEST) in
      if psbt_has_litecoin_coin_type P p then (if is_test then NETWORK_LITECOIN_TESTNET else NETWORK_LITECOIN)
      else if list_ex (\<lambda>i. MWEB_IN_HAS_OUTPUT_ID (pi_mweb_keyset i)) (ps_inputs (wp_psbt p))
      then (if is_test then NETWORK_LITECOIN_TESTNET else NETWORK_LITECOIN)
      else (if is_test then NETWORK_BITCOIN_TESTNET else NETWORK_BITCOIN))"

end
