(* ===== verification/Jade_Signpsbt.thy ===== *)
theory Jade_Signpsbt
  imports Jade_Signers
begin

text \<open>
  \<^verbatim>\<open>sign_psbt\<close> of \<^verbatim>\<open>src/main/process/sign_psbt.c\<close>, for PSBTs that are not Elements PSBTs:
  the inputs are examined, the outputs checked for change, the MWEB session begun, the user
  asked, the inputs signed and the session committed. Each phase is an act on the state
  \<^verbatim>\<open>sign_state\<close>; a phase that ends the function gives its return code and message as \<^verbatim>\<open>Inl\<close>.
\<close>

record ('s, 'x) sign_state =
  sn_kc :: "('s, 'x) keychain_state"
  sn_shown :: shown
  sn_psbt :: wallet_psbt
  sn_session :: "mweb_session option"
  sn_gens :: bool
  sn_progress :: "(nat \<times> nat) list"

type_synonym ('s, 'x, 'a) phase = "(('s, 'x) sign_state, outcome + 'a) act"

definition on_kc :: "(('s, 'x) keychain_state, 'a) act \<Rightarrow> (('s, 'x) sign_state, 'e + 'a) act" where
  "on_kc m st = then_run (m (sn_kc st)) (\<lambda>(a, kc). Ret (Inr a, st\<lparr>sn_kc := kc\<rparr>))"

definition on_screen :: "(shown, 'a) act \<Rightarrow> (('s, 'x) sign_state, 'e + 'a) act" where
  "on_screen m st = then_run (m (sn_shown st)) (\<lambda>(a, log). Ret (Inr a, st\<lparr>sn_shown := log\<rparr>))"

definition pure_run :: "'a run \<Rightarrow> ('t, 'e + 'a) act" where
  "pure_run m = from_run (then_run m (\<lambda>a. Ret (Inr a)))"

definition require :: "bool \<Rightarrow> 'e \<Rightarrow> ('t, 'e + unit) act" where
  "require b e = (if b then carry () else leave e)"

abbreviation declined :: outcome where
  "declined \<equiv> (CBOR_RPC_USER_CANCELLED, Some ''User declined to sign psbt'')"

abbreviation bad :: "string \<Rightarrow> outcome" where
  "bad msg \<equiv> (CBOR_RPC_BAD_PARAMETERS, Some msg)"

abbreviation internal :: "string \<Rightarrow> outcome" where
  "internal msg \<equiv> (CBOR_RPC_INTERNAL_ERROR, Some msg)"

text \<open>The MWEB session works on the same keychain and the same library.\<close>

definition mweb_env :: "('s, 'h, 'i, 'x, 'd) sign_env \<Rightarrow> 'x keychain_t option \<Rightarrow> 'x session_env" where
  "mweb_env V kc = (sv_mweb V)\<lparr>se_keychain := map_option kd_xpriv kc,
     se_fingerprint := (\<lambda>k. take BIP32_KEY_FINGERPRINT_LEN (key_hash160 (sv_wallet V) k)),
     se_item_fingerprint := (\<lambda>m. keypath_fingerprint (pl_keypaths (sv_psbt V)) m 0),
     se_script_type := script_type_of (pl_address (sv_psbt V))\<rparr>"

section \<open>The transaction\<close>

definition WALLY_PSBT_VERSION_0 :: u32 where "WALLY_PSBT_VERSION_0 = 0"

definition fetch_tx :: "('s, 'h, 'i, 'x, 'd) sign_env \<Rightarrow> wallet_psbt \<Rightarrow> (outcome + wally_tx) run" where
  "fetch_tx V p =
     seq (if wp_version p = WALLY_PSBT_VERSION_0 then ok (wp_tx p)
          else (case pl_extract (sv_psbt V) p of
              None \<Rightarrow> fail (bad ''Failed to extract valid txn from passed psbt'') | Some tx \<Rightarrow> ok (Some tx))) (\<lambda>tx.
     case tx of None \<Rightarrow> Crash
     | Some tx \<Rightarrow>
         jade_assert (tx_num_inputs tx = length (ps_inputs (wp_psbt p))
           \<and> length (tx_outputs tx) = length (ps_outputs (wp_psbt p))) (ok tx))"

text \<open>The checks of Liquid transactions are left out.\<close>

definition params_txn_validate :: "'x psbt_lib \<Rightarrow> wally_tx \<Rightarrow> string option run" where
  "params_txn_validate PL tx =
     then_run (wally_verify (pl_tx_is_elements PL tx)) (\<lambda>is_elements.
     Ret (if is_elements then Some ''Transaction is the wrong type for the current network'' else None))"

section \<open>The inputs\<close>

text \<open>What the loop over the inputs has gathered; one signature type for each input passed, 0 if not signed.\<close>

record input_pass =
  ip_spending :: spending
  ip_sig_types :: "byte list"
  ip_input_amount :: u64
  ip_mweb_amount :: u64
  ip_mweb_count :: nat
  ip_mweb_incomplete :: bool
  ip_flavour :: script_flavour_t

definition no_pass :: input_pass where
  "no_pass = \<lparr>ip_spending = \<lparr>sp_flags = 0, sp_wallet_name = [], sp_multisig = None, sp_descriptor = None\<rparr>,
     ip_sig_types = [], ip_input_amount = 0, ip_mweb_amount = 0, ip_mweb_count = 0, ip_mweb_incomplete = False,
     ip_flavour = SCRIPT_FLAVOUR_NONE\<rparr>"

definition MWEB_IN_SPENT_OUTPUT_PUBKEY :: nat where "MWEB_IN_SPENT_OUTPUT_PUBKEY = 0x92"
definition MWEB_IN_INPUT_FEATURES :: nat where "MWEB_IN_INPUT_FEATURES = 0x94"
definition MWEB_IN_ADDRESS_INDEX :: nat where "MWEB_IN_ADDRESS_INDEX = 0x96"
definition MWEB_IN_INPUT_AMOUNT :: nat where "MWEB_IN_INPUT_AMOUNT = 0x97"

definition unsigned_input :: "input_pass \<Rightarrow> input_pass" where
  "unsigned_input ip = ip\<lparr>ip_sig_types := ip_sig_types ip @ [0]\<rparr>"

definition count_mweb_amount :: "psbt_input \<Rightarrow> input_pass \<Rightarrow> input_pass" where
  "count_mweb_amount i ip =
     (if in_has (pi_mweb_keyset i) MWEB_IN_INPUT_AMOUNT
      then ip\<lparr>ip_mweb_amount := ip_mweb_amount ip + pi_mweb_input_amount i\<rparr>
      else ip\<lparr>ip_mweb_incomplete := True\<rparr>)"

definition mweb_input_fields :: "psbt_input \<Rightarrow> bool" where
  "mweb_input_fields i \<longleftrightarrow>
     (\<forall>key \<in> set [MWEB_IN_SPENT_OUTPUT_PUBKEY, MWEB_IN_SPENT_OUTPUT_COMMIT_KEY, MWEB_IN_INPUT_FEATURES,
        MWEB_IN_ADDRESS_INDEX, MWEB_IN_INPUT_AMOUNT, MWEB_IN_KEY_EXCHANGE_PUBKEY_KEY]. in_has (pi_mweb_keyset i) key)
     \<and> wm_items (pi_mweb_scan_key_origin i) \<noteq> [] \<and> wm_items (pi_mweb_spend_key_origin i) \<noteq> []"

definition pass_mweb_input ::
  "('s, 'h, 'i, 'x, 'd) sign_env \<Rightarrow> 'x keychain_t option \<Rightarrow> psbt_input \<Rightarrow> input_pass \<Rightarrow> (outcome + input_pass) run" where
  "pass_mweb_input V kc i ip =
     (let ip = unsigned_input (count_mweb_amount i ip); P = pl_keypaths (sv_psbt V) in
      if in_has (pi_mweb_keyset i) MWEB_IN_INPUT_SIGNATURE_KEY then ok ip
      else case keypath_fingerprint P (pi_mweb_scan_key_origin i) 0 of
        None \<Rightarrow> ok ip
      | Some scan_fp \<Rightarrow>
          (case keypath_fingerprint P (pi_mweb_spend_key_origin i) 0 of
             None \<Rightarrow> ok ip
           | Some spend_fp \<Rightarrow>
               then_run (wallet_get_fingerprint (sv_wallet V) kc) (\<lambda>wallet_fp.
               let wallet_fp_le = rev wallet_fp in
               if scan_fp \<noteq> wallet_fp_le \<or> spend_fp \<noteq> wallet_fp_le then ok ip
               else if \<not> mweb_input_fields i then fail (bad ''Missing required MWEB input fields'')
               else ok (ip\<lparr>ip_mweb_count := ip_mweb_count ip + 1\<rparr>))))"

text \<open>
  The wallet behind a multisig input: the record already found must fit this input too, or
  one that fits is searched for. Otherwise the detection of change is abandoned.
\<close>

definition abandon :: "spending \<Rightarrow> spending" where
  "abandon sp = sp\<lparr>sp_flags := sp_flags sp OR PSBT_SIGNING_MULTISIG_CHANGE_ABANDONED\<rparr>"

definition recheck_record ::
  "('s, 'h, 'i, 'x, 'd) sign_env \<Rightarrow> 'x keychain_t option \<Rightarrow> wallet_psbt \<Rightarrow> network_t \<Rightarrow> 'x key_iter \<Rightarrow> u32 list \<Rightarrow> bytes option
    \<Rightarrow> spending \<Rightarrow> spending run" where
  "recheck_record V kc p network_id iter tail script sp =
     jade_assert ((sp_multisig sp = None) \<noteq> (sp_descriptor sp = None)) (
     then_run (case sp_multisig sp of None \<Rightarrow> Ret True
       | Some d \<Rightarrow> verify_multisig_script_matches (sv_wallet V) (pl_keypaths (sv_psbt V)) kc p d tail iter script) (\<lambda>b1.
     then_run (case sp_descriptor sp of None \<Rightarrow> Ret True
       | Some d \<Rightarrow> verify_descriptor_script_matches (sv_descriptors V) kc p d network_id tail iter script) (\<lambda>b2.
     Ret (if b1 \<and> b2 then sp else abandon sp))))"

definition search_records ::
  "('s, 'h, 'i, 'x, 'd) sign_env \<Rightarrow> wallet_psbt \<Rightarrow> network_t \<Rightarrow> 'x key_iter \<Rightarrow> u32 list \<Rightarrow> bytes option \<Rightarrow> spending
    \<Rightarrow> (('s, 'x) keychain_state, spending) act" where
  "search_records V p network_id iter tail script sp =
     (let found = sp\<lparr>sp_flags := sp_flags sp OR PSBT_SIGNING_SINGLE_MULTISIG_RECORD\<rparr> in
      andthen (get_suitable_multisig_record V p iter tail script) (\<lambda>r. case r of
        Some (name, d) \<Rightarrow> give (found\<lparr>sp_wallet_name := name, sp_multisig := Some d\<rparr>)
      | None \<Rightarrow> andthen (get_suitable_descriptor_record V p iter tail script network_id) (\<lambda>r. case r of
          Some (name, d) \<Rightarrow> give (found\<lparr>sp_wallet_name := name, sp_descriptor := Some d\<rparr>)
        | None \<Rightarrow> give (abandon sp))))"

definition track_record ::
  "('s, 'h, 'i, 'x, 'd) sign_env \<Rightarrow> wallet_psbt \<Rightarrow> network_t \<Rightarrow> 'x key_iter \<Rightarrow> bytes option \<Rightarrow> spending
    \<Rightarrow> (('s, 'x) keychain_state, spending) act" where
  "track_record V p network_id iter script sp =
     (if sp_flags sp AND PSBT_SIGNING_MULTISIG_CHANGE_ABANDONED \<noteq> 0 then give sp
      else if sp_flags sp AND (PSBT_SIGNING_SINGLESIG OR PSBT_SIGNING_GREEN_MULTISIG) \<noteq> 0 then give (abandon sp)
      else andthen (from_run (key_iter_get_path (pl_keypaths (sv_psbt V)) p iter MAX_PATH_LEN)) (\<lambda>path. case path of
        None \<Rightarrow> give sp
      | Some path \<Rightarrow>
          let tail = drop (path_get_unhardened_tail_index path) path in
          if sp_flags sp AND PSBT_SIGNING_SINGLE_MULTISIG_RECORD \<noteq> 0
          then inspect (\<lambda>st. from_run (recheck_record V (keychain_get st) p network_id iter tail script sp))
          else search_records V p network_id iter tail script sp))"

text \<open>An input of this wallet: its signature type, its flavour, its signers.\<close>

definition note_flavour ::
  "address_lib \<Rightarrow> bytes option \<Rightarrow> u32 \<Rightarrow> script_flavour_t \<Rightarrow> script_flavour_t run" where
  "note_flavour A script sig_type flavour =
     (if \<not> script_given script then Ret flavour
      else then_run (get_script_flavour A (the script)) (\<lambda>(script_flavour, is_p2tr).
        jade_assert (is_p2tr = (sig_type = WALLY_SIGTYPE_SW_V1)) (
        Ret (update_aggregate_scripts_flavour script_flavour flavour))))"

definition pass_own_input ::
  "('s, 'h, 'i, 'x, 'd) sign_env \<Rightarrow> wallet_psbt \<Rightarrow> network_t \<Rightarrow> nat \<Rightarrow> 'x key_iter \<Rightarrow> bytes option \<Rightarrow> input_pass
    \<Rightarrow> (('s, 'x, input_pass) phase)" where
  "pass_own_input V p network_id n iter script ip =
     attempt (pure_run (wally_verify (pl_signature_type (sv_psbt V) p n))) (\<lambda>sig_type.
     attempt (pure_run (jade_assert (sig_type \<noteq> 0) (Ret ()))) (\<lambda>_.
     attempt (pure_run (key_iter_get_num_keys p iter)) (\<lambda>num_keys.
     attempt (if num_keys > 1
         then inspect (\<lambda>st. attempt (pure_run (is_green_multisig_signers (sv_wallet V) (pl_keypaths (sv_psbt V))
             (keychain_get (sn_kc st)) p network_id iter False)) (\<lambda>(is_green, _).
           carry (if is_green then PSBT_SIGNING_GREEN_MULTISIG else PSBT_SIGNING_MULTISIG)))
         else carry PSBT_SIGNING_SINGLESIG) (\<lambda>flag.
     let sp = (ip_spending ip)\<lparr>sp_flags := sp_flags (ip_spending ip) OR flag\<rparr>;
         sighash = in_sighash (wp_inputs p ! n) in
     attempt (require (sighash = 0 \<or> sighash_is_supported sig_type sighash) (bad ''Unsupported sighash value'')) (\<lambda>_.
     attempt (pure_run (note_flavour (pl_address (sv_psbt V)) script sig_type (ip_flavour ip))) (\<lambda>flavour.
     attempt (on_kc (track_record V p network_id iter script sp)) (\<lambda>sp.
     carry (ip\<lparr>ip_spending := sp, ip_sig_types := ip_sig_types ip @ [ucast sig_type], ip_flavour := flavour\<rparr>))))))))"

definition pass_input ::
  "('s, 'h, 'i, 'x, 'd) sign_env \<Rightarrow> wallet_psbt \<Rightarrow> network_t \<Rightarrow> nat \<Rightarrow> input_pass \<Rightarrow> (('s, 'x, input_pass) phase)" where
  "pass_input V p network_id n ip =
     (let i = ps_inputs (wp_psbt p) ! n in
      if MWEB_IN_HAS_OUTPUT_ID (pi_mweb_keyset i)
      then inspect (\<lambda>st. from_run (pass_mweb_input V (keychain_get (sn_kc st)) i ip))
      else (case in_utxo (wp_inputs p ! n) of
          None \<Rightarrow> leave (bad ''Input utxo missing'')
        | Some (satoshi, script) \<Rightarrow>
            let ip = ip\<lparr>ip_input_amount := ip_input_amount ip + satoshi\<rparr> in
            inspect (\<lambda>st.
            attempt (pure_run (key_iter_input_begin_public (sv_wallet V) (pl_keypaths (sv_psbt V))
              (keychain_get (sn_kc st)) p n)) (\<lambda>iter.
            if \<not> ki_is_valid iter then carry (unsigned_input ip)
            else pass_own_input V p network_id n iter script ip))))"

fun pass_inputs ::
  "('s, 'h, 'i, 'x, 'd) sign_env \<Rightarrow> wallet_psbt \<Rightarrow> network_t \<Rightarrow> nat list \<Rightarrow> input_pass \<Rightarrow> (('s, 'x, input_pass) phase)" where
  "pass_inputs V p network_id [] ip = carry ip"
| "pass_inputs V p network_id (n # ns) ip =
     attempt (pass_input V p network_id n ip) (pass_inputs V p network_id ns)"

section \<open>Amounts and the MWEB session\<close>

text \<open>The total of the outputs. The sum of the two input amounts may wrap around.\<close>

definition total_input_amount :: "input_pass \<Rightarrow> u64" where
  "total_input_amount ip = ip_input_amount ip + ip_mweb_amount ip"

definition check_amounts :: "'x psbt_lib \<Rightarrow> wally_tx \<Rightarrow> input_pass \<Rightarrow> (outcome + u64) run" where
  "check_amounts PL tx ip =
     then_run (wally_verify (pl_total_output PL tx)) (\<lambda>output_amount.
     if output_amount > total_input_amount ip \<and> \<not> ip_mweb_incomplete ip
     then fail (bad ''Total input amounts less than total output amounts'')
     else ok output_amount)"

definition begin_mweb :: "('s, 'h, 'i, 'x, 'd) sign_env \<Rightarrow> network_t \<Rightarrow> (('s, 'x, unit) phase)" where
  "begin_mweb V network_id st =
     (let p = wp_psbt (sn_psbt st) in
      if \<not> sign_psbt_has_mweb_component (Some p) then carry () st
      else then_run (mweb_session_begin (mweb_env V (keychain_get (sn_kc st))) (sn_gens st) True (Some p)
          (network_value network_id) True) (\<lambda>r.
        let st = st\<lparr>sn_session := br_session r, sn_gens := br_gens r, sn_progress := sn_progress st @ br_progress r,
              sn_psbt := (sn_psbt st)\<lparr>wp_psbt := the (br_psbt r)\<rparr>\<rparr>
        in require (br_err r = MWEB_OK)
          (if br_err r = MWEB_ERR_USER_CANCEL then CBOR_RPC_USER_CANCELLED else CBOR_RPC_BAD_PARAMETERS,
           Some (mweb_err_to_string (br_err r))) st))"

section \<open>Asking the user\<close>

text \<open>A screen the user must accept.\<close>

definition confirm :: "(shown, bool) act \<Rightarrow> (('s, 'x, unit) phase)" where
  "confirm m = attempt (on_screen m) (\<lambda>b. require b declined)"

definition MWEB_OUT_STEALTH_ADDRESS :: byte where "MWEB_OUT_STEALTH_ADDRESS = 0x90"

text \<open>The stealth address of an output as it stands in the map of unknown fields.\<close>

definition stealth_payload :: "'x keypath_lib \<Rightarrow> psbt_output \<Rightarrow> bytes option" where
  "stealth_payload P po =
     (case map_find P (po_unknowns po) [MWEB_OUT_STEALTH_ADDRESS] of
        None \<Rightarrow> None
      | Some found \<Rightarrow>
          if found = 0 \<or> length (snd (wm_items (po_unknowns po) ! (found - 1))) \<noteq> 66 then None
          else Some (snd (wm_items (po_unknowns po) ! (found - 1))))"

definition count_title :: "string \<Rightarrow> nat \<Rightarrow> nat \<Rightarrow> string run" where
  "count_title label n total_shown = printed 32 (label @ decimal_string n @ ''/'' @ decimal_string total_shown)"

definition show_mweb_out ::
  "('s, 'h, 'i, 'x, 'd) sign_env \<Rightarrow> network_t \<Rightarrow> nat \<Rightarrow> nat \<Rightarrow> nat \<Rightarrow> (('s, 'x, unit) phase)" where
  "show_mweb_out V network_id mweb_out_total mweb_out_num n = inspect (\<lambda>st.
     attempt (from_run (need (stealth_payload (pl_keypaths (sv_psbt V)) (ps_outputs (wp_psbt (sn_psbt st)) ! n))
       (bad ''MWEB output missing valid stealth address''))) (\<lambda>payload.
     attempt (from_run (need (mweb_network_hrp network_id) (bad ''MWEB output on unsupported network''))) (\<lambda>hrp.
     attempt (pure_run (mweb_bech32_encode_payload (Some payload) (Some hrp) (Some 128))) (\<lambda>bech32_buf.
     attempt (from_run (need bech32_buf (internal ''Failed to encode MWEB stealth address''))) (\<lambda>bech32_buf.
     attempt (from_run (need (snd (mweb_session_get_output_value (sn_session st) n True))
       (internal ''MWEB output not in verified session''))) (\<lambda>mweb_out_satoshi.
     attempt (pure_run (count_title ''MWEB Out '' mweb_out_num mweb_out_total)) (\<lambda>title.
     confirm (show_mweb_output_activity (sv_user V) title bech32_buf mweb_out_satoshi network_id))))))))"

fun show_mweb_outs ::
  "('s, 'h, 'i, 'x, 'd) sign_env \<Rightarrow> network_t \<Rightarrow> nat \<Rightarrow> nat \<Rightarrow> nat list \<Rightarrow> (('s, 'x, unit) phase)" where
  "show_mweb_outs V network_id mweb_out_total mweb_out_num [] = carry ()"
| "show_mweb_outs V network_id mweb_out_total mweb_out_num (n # ns) =
     attempt (show_mweb_out V network_id mweb_out_total (mweb_out_num + 1) n) (\<lambda>_.
     show_mweb_outs V network_id mweb_out_total (mweb_out_num + 1) ns)"

definition show_pegout ::
  "('s, 'h, 'i, 'x, 'd) sign_env \<Rightarrow> network_t \<Rightarrow> nat \<Rightarrow> nat \<Rightarrow> (('s, 'x, unit) phase)" where
  "show_pegout V network_id npeg p = inspect (\<lambda>st.
     attempt (from_run (need (snd (mweb_session_get_pegout (sn_session st) p))
       (internal ''Failed to read MWEB pegout entry''))) (\<lambda>(peg_amount, peg_script, peg_script_len, kernel_index).
     attempt (pure_run (script_to_address (pl_address (sv_psbt V)) (sv_consts V) network_id (Some peg_script)
       (peg_amount > 0) MAX_ADDRESS_LEN)) (\<lambda>peg_addr.
     attempt (pure_run (count_title ''Pegout '' (p + 1) npeg)) (\<lambda>peg_title.
     attempt (confirm (show_mweb_output_activity (sv_user V) peg_title peg_addr peg_amount network_id)) (\<lambda>_ st.
     carry () (st\<lparr>sn_session := mweb_session_mark_pegout_confirmed (sn_session st) p\<rparr>))))))"

fun show_pegouts ::
  "('s, 'h, 'i, 'x, 'd) sign_env \<Rightarrow> network_t \<Rightarrow> nat \<Rightarrow> nat list \<Rightarrow> (('s, 'x, unit) phase)" where
  "show_pegouts V network_id npeg [] = carry ()"
| "show_pegouts V network_id npeg (p # ps) =
     attempt (show_pegout V network_id npeg p) (\<lambda>_. show_pegouts V network_id npeg ps)"

definition show_pegin :: "('s, 'h, 'i, 'x, 'd) sign_env \<Rightarrow> network_t \<Rightarrow> (('s, 'x, unit) phase)" where
  "show_pegin V network_id = inspect (\<lambda>st.
     if mweb_session_has_pegin (sn_session st)
     then confirm (show_mweb_pegin_activity (sv_user V) (mweb_session_pegin_amount (sn_session st)) network_id)
     else carry ())"

text \<open>The MWEB part of what is shown, on Litecoin networks.\<close>

definition mweb_output_indices :: "psbt \<Rightarrow> nat list" where
  "mweb_output_indices p =
     filter (\<lambda>n. MWEB_OUT_IS_MWEB (po_mweb_output_keyset (ps_outputs p ! n))) [0..<length (ps_outputs p)]"

definition show_mweb :: "('s, 'h, 'i, 'x, 'd) sign_env \<Rightarrow> network_t \<Rightarrow> (('s, 'x, unit) phase)" where
  "show_mweb V network_id =
     attempt (pure_run (network_is_litecoin network_id)) (\<lambda>ltc.
     if \<not> ltc then carry ()
     else inspect (\<lambda>st.
       let ns = mweb_output_indices (wp_psbt (sn_psbt st)); npeg = mweb_session_pegout_count (sn_session st) in
       attempt (show_mweb_outs V network_id (length ns) 0 ns) (\<lambda>_.
       attempt (show_pegouts V network_id npeg [0..<npeg]) (\<lambda>_.
       show_pegin V network_id))))"

text \<open>The fee: the one signed in the kernel, or else what the transparent outputs leave.\<close>

definition show_fee ::
  "('s, 'h, 'i, 'x, 'd) sign_env \<Rightarrow> network_t \<Rightarrow> wally_tx \<Rightarrow> output_info_t list \<Rightarrow> input_pass \<Rightarrow> u64 \<Rightarrow> (('s, 'x, unit) phase)" where
  "show_fee V network_id tx infos ip output_amount = inspect (\<lambda>st.
     if sn_session st \<noteq> None
     then confirm (show_btc_final_confirmation_activity (sv_user V) network_id (mweb_session_total_fee (sn_session st)) None)
     else confirm (show_btc_fee_confirmation_activity (sv_user V) network_id tx (Some infos) (ip_flavour ip)
       (total_input_amount ip) output_amount))"

definition warn_nothing :: "input_pass \<Rightarrow> (('s, 'x, unit) phase)" where
  "warn_nothing ip =
     (if sp_flags (ip_spending ip) = 0 \<and> ip_mweb_count ip = 0
      then on_screen (tell [''There are no relevant'', ''inputs to be signed'']) else carry ())"

section \<open>Signing\<close>

text \<open>
  Every key of this wallet signs. The loop ends when the iterator finds no further key, and
  whether that happens depends on libwally, so a loop that does not end is \<^verbatim>\<open>None\<close>.
\<close>

partial_function (option) sign_keys ::
  "('s, 'h, 'i, 'x, 'd) sign_env \<Rightarrow> nat \<Rightarrow> bytes \<Rightarrow> 'x key_iter \<Rightarrow> ('s, 'x) sign_state
    \<Rightarrow> ((outcome + unit) \<times> ('s, 'x) sign_state) run option" where
  "sign_keys V n txhash iter st =
     (if \<not> ki_is_valid iter then Some (Ret (Inr (), st))
      else
        let (psbt, signed) = pl_sign_input (sv_psbt V) (sn_psbt st) n (ki_key_index iter) txhash (ki_hdkey iter);
            st = st\<lparr>sn_psbt := (sn_psbt st)\<lparr>wp_psbt := psbt\<rparr>\<rparr>
        in if \<not> signed then Some (Ret (Inl (internal ''Failed to generate signature''), st))
           else (case key_iter_next (sv_wallet V) (pl_keypaths (sv_psbt V)) (keychain_get (sn_kc st)) (sn_psbt st) iter of
               Crash \<Rightarrow> Some Crash | Undef \<Rightarrow> Some Undef
             | Ret iter \<Rightarrow> sign_keys V n txhash iter st))"

declare sign_keys.simps [code]

text \<open>Going on after a part that may not end, or may end the function.\<close>

definition resume ::
  "((('e + 'a) \<times> 't) run) option \<Rightarrow> ('a \<Rightarrow> 't \<Rightarrow> ((('e + 'b) \<times> 't) run) option) \<Rightarrow> ((('e + 'b) \<times> 't) run) option" where
  "resume m f = (case m of None \<Rightarrow> None | Some Crash \<Rightarrow> Some Crash | Some Undef \<Rightarrow> Some Undef
     | Some (Ret (Inl e, st)) \<Rightarrow> Some (Ret (Inl e, st)) | Some (Ret (Inr a, st)) \<Rightarrow> f a st)"

definition input_hash :: "('s, 'h, 'i, 'x, 'd) sign_env \<Rightarrow> wallet_psbt \<Rightarrow> wally_tx \<Rightarrow> nat \<Rightarrow> bytes option" where
  "input_hash V p tx n =
     (case pl_signing_script (sv_psbt V) p n of None \<Rightarrow> None | Some script \<Rightarrow>
      (case pl_scriptcode (sv_psbt V) p n script of None \<Rightarrow> None | Some scriptcode \<Rightarrow>
       pl_signature_hash (sv_psbt V) p n tx scriptcode))"

definition sign_input ::
  "('s, 'h, 'i, 'x, 'd) sign_env \<Rightarrow> wally_tx \<Rightarrow> nat \<Rightarrow> ('s, 'x) sign_state
    \<Rightarrow> ((outcome + unit) \<times> ('s, 'x) sign_state) run option" where
  "sign_input V tx n st =
     (case input_hash V (sn_psbt st) tx n of
        None \<Rightarrow> Some (Ret (Inl (internal ''Failed to generate tx input hash''), st))
      | Some txhash \<Rightarrow>
          (case key_iter_input_begin (sv_wallet V) (pl_keypaths (sv_psbt V)) (keychain_get (sn_kc st)) (sn_psbt st) n of
             Crash \<Rightarrow> Some Crash | Undef \<Rightarrow> Some Undef
           | Ret iter \<Rightarrow> sign_keys V n txhash iter st))"

fun sign_inputs ::
  "('s, 'h, 'i, 'x, 'd) sign_env \<Rightarrow> wally_tx \<Rightarrow> (nat \<times> byte) list \<Rightarrow> ('s, 'x) sign_state
    \<Rightarrow> ((outcome + unit) \<times> ('s, 'x) sign_state) run option" where
  "sign_inputs V tx [] st = Some (Ret (Inr (), st))"
| "sign_inputs V tx ((n, sig_type) # ns) st =
     (if sig_type = 0 then sign_inputs V tx ns st
      else resume (sign_input V tx n st) (\<lambda>_. sign_inputs V tx ns))"

section \<open>Committing\<close>

definition commit_mweb :: "('s, 'h, 'i, 'x, 'd) sign_env \<Rightarrow> (('s, 'x, unit) phase)" where
  "commit_mweb V st =
     (if sn_session st = None then carry () st
      else then_run (mweb_session_commit (mweb_env V (keychain_get (sn_kc st))) (sn_session st)
          (Some (wp_psbt (sn_psbt st)))) (\<lambda>(cerr, psbt).
        let st = st\<lparr>sn_session := None, sn_psbt := (sn_psbt st)\<lparr>wp_psbt := the psbt\<rparr>\<rparr>
        in require (cerr = MWEB_OK) (internal (mweb_err_to_string cerr)) st))"

section \<open>The whole function\<close>

text \<open>What is established before anything is shown.\<close>

definition examine ::
  "('s, 'h, 'i, 'x, 'd) sign_env \<Rightarrow> network_t \<Rightarrow> (('s, 'x, wally_tx \<times> input_pass \<times> output_info_t list \<times> u64) phase)" where
  "examine V network_id = inspect (\<lambda>st.
     let p = sn_psbt st in
     attempt (from_run (fetch_tx V p)) (\<lambda>tx.
     attempt (pure_run (params_txn_validate (sv_psbt V) tx)) (\<lambda>errmsg.
     attempt (require (errmsg = None) (CBOR_RPC_BAD_PARAMETERS, errmsg)) (\<lambda>_.
     attempt (pass_inputs V p network_id [0..<length (ps_inputs (wp_psbt p))] no_pass) (\<lambda>ip.
     attempt (on_kc (psbt_update_outputs V p network_id (ip_spending ip))) (\<lambda>infos.
     attempt (from_run (check_amounts (sv_psbt V) tx ip)) (\<lambda>output_amount.
     carry (tx, ip, infos, output_amount))))))))"

definition ask_user ::
  "('s, 'h, 'i, 'x, 'd) sign_env \<Rightarrow> network_t \<Rightarrow> wally_tx \<Rightarrow> input_pass \<Rightarrow> output_info_t list \<Rightarrow> u64 \<Rightarrow> (('s, 'x, unit) phase)" where
  "ask_user V network_id tx ip infos output_amount =
     attempt (confirm (show_btc_transaction_outputs_activity (sv_user V) (pl_address (sv_psbt V)) (sv_consts V)
       network_id tx (Some infos))) (\<lambda>_.
     attempt (show_mweb V network_id) (\<lambda>_.
     attempt (show_fee V network_id tx infos ip output_amount) (\<lambda>_.
     warn_nothing ip)))"

definition approve ::
  "('s, 'h, 'i, 'x, 'd) sign_env \<Rightarrow> network_t \<Rightarrow> (('s, 'x, wally_tx \<times> input_pass) phase)" where
  "approve V network_id =
     attempt (examine V network_id) (\<lambda>(tx, ip, infos, output_amount).
     attempt (begin_mweb V network_id) (\<lambda>_.
     attempt (ask_user V network_id tx ip infos output_amount) (\<lambda>_.
     attempt (pure_run (jade_assert (pl_signing_cache (sv_psbt V)) (Ret ()))) (\<lambda>_.
     carry (tx, ip)))))"

definition sign_psbt_steps ::
  "('s, 'h, 'i, 'x, 'd) sign_env \<Rightarrow> network_t \<Rightarrow> ('s, 'x) sign_state
    \<Rightarrow> ((outcome + unit) \<times> ('s, 'x) sign_state) run option" where
  "sign_psbt_steps V network_id st =
     resume (Some (approve V network_id st)) (\<lambda>(tx, ip) st.
     resume (sign_inputs V tx (enumerate 0 (ip_sig_types ip)) st) (\<lambda>_ st.
     Some (commit_mweb V st)))"

text \<open>A session that was not committed is aborted, whichever way the function ends.\<close>

definition cleanup :: "((outcome + unit) \<times> ('s, 'x) sign_state) \<Rightarrow> outcome \<times> ('s, 'x) sign_state" where
  "cleanup = (\<lambda>(r, st).
     (case r of Inl e \<Rightarrow> e | Inr _ \<Rightarrow> (0, None),
      if sn_session st = None then st
      else st\<lparr>sn_psbt := (sn_psbt st)\<lparr>wp_psbt := the (mweb_session_abort (sn_session st) (Some (wp_psbt (sn_psbt st))))\<rparr>,
              sn_session := None\<rparr>))"

definition sign_psbt ::
  "('s, 'h, 'i, 'x, 'd) sign_env \<Rightarrow> network_t \<Rightarrow> ('s, 'x) sign_state \<Rightarrow> (outcome \<times> ('s, 'x) sign_state) run option" where
  "sign_psbt V network_id st =
     (case network_is_liquid network_id of
        Crash \<Rightarrow> Some Crash | Undef \<Rightarrow> Some Undef
      | Ret liquid \<Rightarrow>
          if liquid then Some (Ret (bad ''Network/psbt type mismatch'', st))
          else map_option (\<lambda>r. then_run r (\<lambda>r. Ret (cleanup r)))
            (sign_psbt_steps V network_id (st\<lparr>sn_session := None\<rparr>)))"

end
