(* ===== verification/Jade_Signpsbt_Props.thy ===== *)
theory Jade_Signpsbt_Props
  imports Jade_Signpsbt
begin

text \<open>
  Lemmas on signing a PSBT: the loop over the keys ends; what the user has seen when a
  phase succeeds; what each phase leaves unchanged.
\<close>

section \<open>The iterator moves forward\<close>

text \<open>What libwally documents: the search starts at the given item, and the position is counted from one.\<close>

definition keypath_laws :: "'x keypath_lib \<Rightarrow> bool" where
  "keypath_laws P \<longleftrightarrow> (\<forall>priv m start key k n. keypath_get_key P priv m start key = Some (Some (k, n)) \<longrightarrow>
     unat start < unat n \<and> unat n \<le> length (wm_items m))"

definition keypaths_of :: "wallet_psbt \<Rightarrow> 'x key_iter \<Rightarrow> wmap" where
  "keypaths_of p iter = keypaths_at p (ki_is_input iter) (ki_is_taproot iter) (ki_index iter)"

lemma keypaths_of_write [simp]: "keypaths_of (p\<lparr>wp_psbt := q\<rparr>) iter = keypaths_of p iter"
  by (simp add: keypaths_of_def keypaths_at_def)

definition room_ahead :: "'x key_iter \<Rightarrow> bool" where
  "room_ahead iter \<longleftrightarrow> unat (ki_key_index iter) + 1 < 2 ^ 32"

lemma next_index:
  "keypath_laws P \<Longrightarrow> keypath_get_key P priv m start key = Some (Some (k, n)) \<Longrightarrow>
    unat start \<le> unat (n - 1) \<and> unat (n - 1) + 1 \<le> length (wm_items m) \<and> unat (n - 1) + 1 < 2 ^ 32" for n :: u32
proof -
  assume "keypath_laws P" "keypath_get_key P priv m start key = Some (Some (k, n))"
  then have a: "unat start < unat n" "unat n \<le> length (wm_items m)" by (simp_all add: keypath_laws_def)
  then have "n \<noteq> 0" by auto
  then have "unat (n - 1) = unat n - 1" by (simp add: unat_minus_one)
  moreover have "unat n < 2 ^ 32" using unsigned_less [of n, where ?'a = nat] by simp
  ultimately show ?thesis using a by simp
qed

lemma find_recovery_key_from:
  assumes "find_recovery_key L P kc iter keypaths = Ret (Some (k, n))"
  shows "\<exists>key. keypath_get_key P (ki_is_private iter) keypaths (ki_key_index iter) key = Some (Some (k, n))"
proof -
  let ?found = "\<lambda>sub. then_run (key_iter_get_green_2of3_recovery_key L P kc iter keypaths sub) (\<lambda>r. case r of
       None \<Rightarrow> Ret None
     | Some recovery_hdkey \<Rightarrow>
         Ret (case keypath_get_key P (ki_is_private iter) keypaths (ki_key_index iter) recovery_hdkey of
           None \<Rightarrow> None | Some found \<Rightarrow> found))"
  obtain path where "(case is_potential_green_server_path path of
        None \<Rightarrow> Ret None | Some sub \<Rightarrow> if sub = 0 then Ret None else ?found sub) = Ret (Some (k, n))"
    using assms unfolding find_recovery_key_def by (auto simp only: then_run_Ret_iff split: if_split_asm)
  then obtain sub where "?found sub = Ret (Some (k, n))"
    by (cases "is_potential_green_server_path path") (auto split: if_split_asm)
  then obtain r where r: "(case r of
       None \<Rightarrow> Ret None
     | Some recovery_hdkey \<Rightarrow>
         Ret (case keypath_get_key P (ki_is_private iter) keypaths (ki_key_index iter) recovery_hdkey of
           None \<Rightarrow> None | Some found \<Rightarrow> found)) = Ret (Some (k, n))"
    by (auto simp only: then_run_Ret_iff)
  then obtain hdkey where h: "r = Some hdkey" by (cases r) simp_all
  show ?thesis
    using r h by (cases "keypath_get_key P (ki_is_private iter) keypaths (ki_key_index iter) hdkey") auto
qed

lemma key_iter_next_from:
  assumes "keypath_laws P" and "key_iter_next L P kc p iter = Ret iter'"
  shows "keypaths_of p iter' = keypaths_of p iter"
    and "ki_is_valid iter' \<Longrightarrow> unat (ki_key_index iter + 1) \<le> unat (ki_key_index iter')
      \<and> unat (ki_key_index iter') < length (wm_items (keypaths_of p iter')) \<and> room_ahead iter'"
proof -
  let ?start = "ki_key_index iter + 1"
  define it where "it = at_next_index P p (keypaths_of p iter) iter"
  have it: "ki_key_index it = ?start" "keypaths_of p it = keypaths_of p iter" "ki_is_private it = ki_is_private iter"
    "ki_is_input it = ki_is_input iter" "ki_is_taproot it = ki_is_taproot iter" "ki_index it = ki_index iter"
    by (simp_all add: it_def at_next_index_def Let_def keypaths_of_def)
  from assms(2) have v: "ki_is_valid iter" by (auto simp: key_iter_next_def key_iter_get_keypaths_def run_simps)
  have same: "keypaths_of p (it\<lparr>ki_hdkey := a, ki_key_index := b, ki_is_ga_2of3_recovery_key := c\<rparr>) = keypaths_of p iter"
    "keypaths_of p (it\<lparr>ki_hdkey := a, ki_key_index := b\<rparr>) = keypaths_of p iter"
    "keypaths_of p (it\<lparr>ki_is_valid := False\<rparr>) = keypaths_of p iter" for a b c
    using it by (simp_all add: keypaths_of_def)
  consider "iter' = it" "\<not> ki_is_valid it"
    | hdkey n priv key where "keypath_get_key P priv (keypaths_of p iter) ?start key = Some (Some (hdkey, n))"
      "iter' = it\<lparr>ki_hdkey := hdkey, ki_key_index := n - 1\<rparr>
       \<or> iter' = it\<lparr>ki_hdkey := hdkey, ki_key_index := n - 1, ki_is_ga_2of3_recovery_key := True\<rparr>"
    | "iter' = it\<lparr>ki_is_valid := False\<rparr>"
  proof -
    have e: "key_iter_next L P kc p iter = (if \<not> ki_is_valid it then Ret it
        else case kc of None \<Rightarrow> Crash | Some k \<Rightarrow>
          then_run (wally_verify (keypath_get_key P (ki_is_private it) (keypaths_of p iter) (ki_key_index it) (kd_xpriv k))) (\<lambda>found.
          case found of
            Some (hdkey, n) \<Rightarrow> Ret (it\<lparr>ki_hdkey := hdkey, ki_key_index := n - 1\<rparr>)
          | None \<Rightarrow> then_run (find_recovery_key L P kc it (keypaths_of p iter)) (\<lambda>found.
              Ret (case found of
                Some (hdkey, n) \<Rightarrow> it\<lparr>ki_hdkey := hdkey, ki_key_index := n - 1, ki_is_ga_2of3_recovery_key := True\<rparr>
              | None \<Rightarrow> it\<lparr>ki_is_valid := False\<rparr>))))"
      unfolding it_def keypaths_of_def key_iter_next_def Let_def
      using v by (simp add: key_iter_get_keypaths_def jade_assert_def)
    show thesis
    proof (cases "ki_is_valid it")
      case False
      then show ?thesis using e assms(2) that(1) by simp
    next
      case True
      obtain k where k: "kc = Some k" using True e assms(2) by (cases kc) simp_all
      obtain found where f: "keypath_get_key P (ki_is_private it) (keypaths_of p iter) (ki_key_index it) (kd_xpriv k) = Some found"
        using True e assms(2) k
        by (cases "keypath_get_key P (ki_is_private it) (keypaths_of p iter) (ki_key_index it) (kd_xpriv k)")
          (simp_all add: wally_verify_def)
      have r: "(case found of
            Some (hdkey, n) \<Rightarrow> Ret (it\<lparr>ki_hdkey := hdkey, ki_key_index := n - 1\<rparr>)
          | None \<Rightarrow> then_run (find_recovery_key L P kc it (keypaths_of p iter)) (\<lambda>found.
              Ret (case found of
                Some (hdkey, n) \<Rightarrow> it\<lparr>ki_hdkey := hdkey, ki_key_index := n - 1, ki_is_ga_2of3_recovery_key := True\<rparr>
              | None \<Rightarrow> it\<lparr>ki_is_valid := False\<rparr>))) = Ret iter'"
        using True e assms(2) k f by (cases found) (auto simp: wally_verify_def)
      show ?thesis
      proof (cases found)
        case (Some hn)
        obtain hdkey n where "hn = (hdkey, n)" by (cases hn)
        with Some f r it that(2) show ?thesis by simp
      next
        case None
        with r obtain found where fr: "find_recovery_key L P kc it (keypaths_of p iter) = Ret found"
          and r: "iter' = (case found of
                Some (hdkey, n) \<Rightarrow> it\<lparr>ki_hdkey := hdkey, ki_key_index := n - 1, ki_is_ga_2of3_recovery_key := True\<rparr>
              | None \<Rightarrow> it\<lparr>ki_is_valid := False\<rparr>)" by (auto simp: run_simps)
        show ?thesis
        proof (cases found)
          case None
          with r that(3) show ?thesis by simp
        next
          case (Some hn)
          obtain hdkey n where hn: "hn = (hdkey, n)" by (cases hn)
          with fr Some find_recovery_key_from it obtain key where
            "keypath_get_key P (ki_is_private it) (keypaths_of p iter) ?start key = Some (Some (hdkey, n))" by metis
          with Some r hn that(2) show ?thesis by simp
        qed
      qed
    qed
  qed
  note cases = this
  show "keypaths_of p iter' = keypaths_of p iter"
    by (rule cases) (auto simp: same it)
  assume valid: "ki_is_valid iter'"
  show "unat ?start \<le> unat (ki_key_index iter')
      \<and> unat (ki_key_index iter') < length (wm_items (keypaths_of p iter')) \<and> room_ahead iter'"
  proof (rule cases)
    fix hdkey n priv key
    assume get: "keypath_get_key P priv (keypaths_of p iter) ?start key = Some (Some (hdkey, n))"
      and iter': "iter' = it\<lparr>ki_hdkey := hdkey, ki_key_index := n - 1\<rparr>
       \<or> iter' = it\<lparr>ki_hdkey := hdkey, ki_key_index := n - 1, ki_is_ga_2of3_recovery_key := True\<rparr>"
    from next_index [OF assms(1) get] iter' show ?thesis
      by (elim disjE) (simp_all add: same room_ahead_def)
  qed (use valid in simp_all)
qed

lemma key_iter_next_forward:
  assumes "keypath_laws P" and "key_iter_next L P kc p iter = Ret iter'" and "room_ahead iter" and "ki_is_valid iter'"
  shows "unat (ki_key_index iter) < unat (ki_key_index iter')
    \<and> unat (ki_key_index iter') < length (wm_items (keypaths_of p iter')) \<and> room_ahead iter'"
proof -
  have "unat (ki_key_index iter + 1) = unat (ki_key_index iter) + 1"
    using assms(3) by (simp add: room_ahead_def unat_word_ariths(1))
  with key_iter_next_from(2) [OF assms(1,2,4)] show ?thesis by linarith
qed

lemma sign_keys_ends:
  assumes "keypath_laws (pl_keypaths (sv_psbt V))" and "room_ahead iter"
  shows "sign_keys V n txhash iter st \<noteq> None"
  using assms(2)
proof (induction "length (wm_items (keypaths_of (sn_psbt st) iter)) - unat (ki_key_index iter)" arbitrary: iter st
    rule: less_induct)
  case less
  obtain psbt signed where sign: "pl_sign_input (sv_psbt V) (sn_psbt st) n (ki_key_index iter) txhash (ki_hdkey iter) = (psbt, signed)"
    by (cases "pl_sign_input (sv_psbt V) (sn_psbt st) n (ki_key_index iter) txhash (ki_hdkey iter)")
  let ?st = "st\<lparr>sn_psbt := (sn_psbt st)\<lparr>wp_psbt := psbt\<rparr>\<rparr>"
  show ?case
  proof (cases "key_iter_next (sv_wallet V) (pl_keypaths (sv_psbt V)) (keychain_get (sn_kc ?st)) (sn_psbt ?st) iter")
    case (Ret iter')
    note fwd = key_iter_next_from(1) [OF assms(1) Ret]
    have "sign_keys V n txhash iter' ?st \<noteq> None"
    proof (cases "ki_is_valid iter'")
      case True
      note ahead = key_iter_next_forward [OF assms(1) Ret less.prems True]
      show ?thesis
      proof (rule less.hyps)
        show "length (wm_items (keypaths_of (sn_psbt ?st) iter')) - unat (ki_key_index iter')
            < length (wm_items (keypaths_of (sn_psbt st) iter)) - unat (ki_key_index iter)"
          using ahead fwd by auto
      qed (use ahead in simp)
    next
      case False
      then show ?thesis by (simp add: sign_keys.simps)
    qed
    with Ret sign show ?thesis by (simp add: sign_keys.simps [of V n txhash iter] Let_def)
  qed (use sign in \<open>simp_all add: sign_keys.simps [of V n txhash iter] Let_def\<close>)
qed

lemma input_begin_room:
  assumes "keypath_laws P" and "key_iter_input_begin L P kc p n = Ret iter" and "ki_is_valid iter"
  shows "room_ahead iter"
  using assms(2) key_iter_next_from(2) [OF assms(1) _ assms(3)]
  by (auto simp: key_iter_input_begin_def key_iter_init_def run_simps)

lemma sign_input_ends: "keypath_laws (pl_keypaths (sv_psbt V)) \<Longrightarrow> sign_input V tx n st \<noteq> None"
proof -
  assume laws: "keypath_laws (pl_keypaths (sv_psbt V))"
  have "sign_keys V n txhash iter st \<noteq> None"
    if "key_iter_input_begin (sv_wallet V) (pl_keypaths (sv_psbt V)) (keychain_get (sn_kc st)) (sn_psbt st) n = Ret iter"
    for txhash iter
    using sign_keys_ends [OF laws input_begin_room [OF laws that]] by (cases "ki_is_valid iter") (auto simp: sign_keys.simps)
  then show ?thesis by (simp add: sign_input_def split: option.splits run.splits)
qed

lemma resume_not_None: "m \<noteq> None \<Longrightarrow> (\<And>a st. f a st \<noteq> None) \<Longrightarrow> resume m f \<noteq> None"
  by (auto simp: resume_def split: option.splits run.splits sum.splits prod.splits)

lemma sign_inputs_end:
  assumes "keypath_laws (pl_keypaths (sv_psbt V))"
  shows "sign_inputs V tx ns st \<noteq> None"
proof (induction ns arbitrary: st)
  case (Cons n ns)
  obtain m sig_type where "n = (m, sig_type)" by (cases n)
  moreover have "resume (sign_input V tx m st) (\<lambda>_. sign_inputs V tx ns) \<noteq> None"
    by (rule resume_not_None [OF sign_input_ends [OF assms] Cons.IH])
  ultimately show ?case using Cons.IH by simp
qed simp

lemma sign_psbt_ends:
  assumes "keypath_laws (pl_keypaths (sv_psbt V))"
  shows "sign_psbt V network_id st \<noteq> None"
proof -
  have "sign_psbt_steps V network_id st' \<noteq> None" for st'
  proof -
    have "(case a of (tx, ip) \<Rightarrow> \<lambda>st. resume (sign_inputs V tx (enumerate 0 (ip_sig_types ip)) st)
        (\<lambda>_ st. Some (commit_mweb V st))) s \<noteq> None" for a s
      using resume_not_None [OF sign_inputs_end [OF assms], of "\<lambda>_ st. Some (commit_mweb V st)"]
      by (simp split: prod.split)
    then show ?thesis unfolding sign_psbt_steps_def by (intro resume_not_None) simp_all
  qed
  then show ?thesis by (simp add: sign_psbt_def split: run.splits)
qed

end
