(* ===== verification/Jade_Consent.thy ===== *)
theory Jade_Consent
  imports Jade_Signpsbt_Props Mweb_Session_Props
begin

text \<open>
  What the user has seen and accepted when \<^verbatim>\<open>sign_psbt\<close> succeeds, and what is left of a PSBT
  when it does not. Every phase is characterised by the screens it appends to the log and
  by what it leaves unchanged in the state.
\<close>

section \<open>Phases\<close>

lemma on_kc_Ret [run_simps]:
  "on_kc m st = Ret (r, t) \<longleftrightarrow> (\<exists>a kc. m (sn_kc st) = Ret (a, kc) \<and> r = Inr a \<and> t = st\<lparr>sn_kc := kc\<rparr>)"
  by (auto simp: on_kc_def then_run_Ret_iff)

lemma on_screen_Ret [run_simps]:
  "on_screen m st = Ret (r, t) \<longleftrightarrow> (\<exists>a log. m (sn_shown st) = Ret (a, log) \<and> r = Inr a \<and> t = st\<lparr>sn_shown := log\<rparr>)"
  by (auto simp: on_screen_def then_run_Ret_iff)

lemma pure_run_Ret [run_simps]: "pure_run m st = Ret (r, t) \<longleftrightarrow> (\<exists>a. m = Ret a \<and> r = Inr a \<and> t = st)"
  by (auto simp: pure_run_def from_run_def then_run_Ret_iff)

lemma require_Ret [run_simps]:
  "require b e st = Ret (r, t) \<longleftrightarrow> t = st \<and> r = (if b then Inr () else Inl e)"
  by (auto simp: require_def give_def)

lemma from_need_Ret [run_simps]:
  "from_run (need x e) st = Ret (Inr a, t) \<longleftrightarrow> x = Some a \<and> t = st"
  "from_run (need x e) st = Ret (Inl e', t) \<longleftrightarrow> x = None \<and> e' = e \<and> t = st"
  by (auto simp: from_run_def then_run_Ret_iff need_iff)

lemma confirm_Inr [run_simps]:
  "confirm m st = Ret (Inr u, t) \<longleftrightarrow> (\<exists>log. m (sn_shown st) = Ret (True, log) \<and> t = st\<lparr>sn_shown := log\<rparr>)"
  by (auto simp: confirm_def run_simps split: if_splits)

lemma confirm_Inl [run_simps]:
  "confirm m st = Ret (Inl e, t) \<longleftrightarrow> e = declined \<and> (\<exists>log. m (sn_shown st) = Ret (False, log) \<and> t = st\<lparr>sn_shown := log\<rparr>)"
  by (auto simp: confirm_def run_simps split: if_splits)

section \<open>Screens\<close>

text \<open>\<^verbatim>\<open>adds log new log'\<close>: the screens of \<^verbatim>\<open>new\<close> were shown next, and all were accepted.\<close>

definition adds :: "shown \<Rightarrow> shown \<Rightarrow> shown \<Rightarrow> bool" where
  "adds log new log' \<longleftrightarrow> log' = log @ new \<and> list_all snd new"

lemma adds_trans: "adds a x b \<Longrightarrow> adds b y c \<Longrightarrow> adds a (x @ y) c"
  by (simp add: adds_def)

lemma adds_Nil [simp]: "adds a [] a"
  by (simp add: adds_def)

lemma show_outputs_accepted:
  "show_outputs U A w net hid n tot outs log = Ret (Some m, log') \<Longrightarrow>
    \<exists>new. adds log new log' \<and>
      (\<forall>(out, info) \<in> set outs. hid \<longrightarrow> display_output out info True \<longrightarrow>
        (\<exists>k scr. output_screen A w net k tot out info = Ret scr \<and> (scr, True) \<in> set new))
    \<and> (\<not> hid \<longrightarrow> (\<forall>(out, info) \<in> set outs.
        \<exists>k scr. output_screen A w net k tot out info = Ret scr \<and> (scr, True) \<in> set new))"
proof (induction outs arbitrary: n log)
  case Nil
  then show ?case by (auto simp: give_Ret_iff intro: exI [of _ "[]"])
next
  case (Cons oi outs)
  obtain out info where oi: "oi = (out, info)" by (cases oi)
  show ?case
  proof (cases "hid \<and> \<not> display_output out info True")
    case True
    with Cons oi show ?thesis by fastforce
  next
    case False
    with Cons.prems oi obtain scr where scr: "output_screen A w net (n + 1) tot out info = Ret scr"
      and U: "U log scr"
      and rest: "show_outputs U A w net hid (n + 1) tot outs (log @ [(scr, True)]) = Ret (Some m, log')"
      by (auto simp: run_simps from_run_Ret split: if_splits)
    from Cons.IH [OF rest] obtain new where new: "adds (log @ [(scr, True)]) new log'"
      and shown: "(\<forall>(out, info) \<in> set outs. hid \<longrightarrow> display_output out info True \<longrightarrow>
        (\<exists>k scr. output_screen A w net k tot out info = Ret scr \<and> (scr, True) \<in> set new))
    \<and> (\<not> hid \<longrightarrow> (\<forall>(out, info) \<in> set outs.
        \<exists>k scr. output_screen A w net k tot out info = Ret scr \<and> (scr, True) \<in> set new))" by blast
    show ?thesis
      by (rule exI [of _ "(scr, True) # new"]) (use new shown scr oi in \<open>fastforce simp: adds_def\<close>)
  qed
qed

lemma final_confirmation_accepted:
  "show_btc_final_confirmation_activity U net fee warn log = Ret (True, log') \<longleftrightarrow>
    (\<exists>ticker. network_is_liquid net = Ret False \<and> network_ticker net = Ret ticker
      \<and> U log (FinalScreen ''Send Transaction'' fee ticker warn)
      \<and> log' = log @ [(FinalScreen ''Send Transaction'' fee ticker warn, True)])"
  by (auto simp: show_btc_final_confirmation_activity_def run_simps from_run_Ret insist_Ret_iff)

lemma mweb_output_accepted:
  "show_mweb_output_activity U title addr amount net log = Ret (True, log') \<longleftrightarrow>
    (\<exists>ticker. network_is_litecoin net = Ret True \<and> network_ticker net = Ret ticker
      \<and> U log (ItemScreen title False True addr amount ticker None)
      \<and> log' = log @ [(ItemScreen title False True addr amount ticker None, True)])"
  by (auto simp: show_mweb_output_activity_def run_simps from_run_Ret insist_Ret_iff)

lemma pegin_accepted:
  "show_mweb_pegin_activity U amount net log = Ret (True, log') \<longleftrightarrow>
    (\<exists>ticker. network_is_litecoin net = Ret True \<and> network_ticker net = Ret ticker
      \<and> U log (ItemScreen ''MWEB Pegin'' False False ''Transparent -> MWEB'' amount ticker None)
      \<and> log' = log @ [(ItemScreen ''MWEB Pegin'' False False ''Transparent -> MWEB'' amount ticker None, True)])"
  by (auto simp: show_mweb_pegin_activity_def run_simps from_run_Ret insist_Ret_iff)

lemma ticker_litecoin: "network_is_litecoin net = Ret True \<Longrightarrow> network_ticker net = Ret t \<longleftrightarrow> t = ''LTC''"
  by (auto simp: network_ticker_def)

lemma btc_outputs_accepted:
  assumes "show_btc_transaction_outputs_activity U A w net tx infos log = Ret (True, log')"
  shows "\<exists>new. adds log new log' \<and> (\<forall>(out, info) \<in> set (with_info tx infos). display_output out info True \<longrightarrow>
    (\<exists>k tot scr. output_screen A w net k tot out info = Ret scr \<and> (scr, True) \<in> set new))"
proof -
  from assms obtain m where "show_outputs U A w net (displayable_outputs tx infos True < length (tx_outputs tx)) 0
      (displayable_outputs tx infos True) (with_info tx infos) log = Ret (Some m, log')"
    by (auto simp: show_btc_transaction_outputs_activity_def Let_def run_simps from_run_Ret insist_Ret_iff
        split: option.split_asm)
  from show_outputs_accepted [OF this] show ?thesis by (cases "displayable_outputs tx infos True < length (tx_outputs tx)") fastforce+
qed

text \<open>What the screen of one MWEB output shows.\<close>

definition mweb_out_screen :: "'x keypath_lib \<Rightarrow> network_t \<Rightarrow> psbt_output \<Rightarrow> u64 \<Rightarrow> screen \<Rightarrow> bool" where
  "mweb_out_screen P net po amount scr \<longleftrightarrow> (\<exists>payload hrp addr title.
     stealth_payload P po = Some payload \<and> mweb_network_hrp net = Some hrp
     \<and> mweb_bech32_encode_payload (Some payload) (Some hrp) (Some 128) = Ret (Some addr)
     \<and> scr = ItemScreen title False True addr amount ''LTC'' None)"

text \<open>
  The screen of one MWEB output for the stealth address its commitment is derived from.
  libwally reads the field 0x90 of an output into the structure and keeps the record in the map
  of unknown fields; the screen takes it from the map, the session from the structure, and
  nothing in the firmware compares them. \<^verbatim>\<open>one_address\<close> says of a PSBT that they agree.
\<close>

definition address_screen :: "network_t \<Rightarrow> psbt_output \<Rightarrow> u64 \<Rightarrow> screen \<Rightarrow> bool" where
  "address_screen net po amount scr \<longleftrightarrow> (\<exists>hrp addr title. mweb_network_hrp net = Some hrp
     \<and> mweb_bech32_encode_payload (Some (po_mweb_stealth_address po)) (Some hrp) (Some 128) = Ret (Some addr)
     \<and> scr = ItemScreen title False True addr amount ''LTC'' None)"

definition one_address :: "'x keypath_lib \<Rightarrow> psbt \<Rightarrow> bool" where
  "one_address P p \<longleftrightarrow> list_all (\<lambda>po. case stealth_payload P po of None \<Rightarrow> True | Some payload \<Rightarrow> payload = po_mweb_stealth_address po)
     (ps_outputs p)"

lemma one_address_screen:
  assumes "mweb_out_screen P net (ps_outputs p ! n) amount scr" and "one_address P p" and "n < length (ps_outputs p)"
  shows "address_screen net (ps_outputs p ! n) amount scr"
  using assms by (auto simp: mweb_out_screen_def address_screen_def one_address_def list_all_length)

lemma show_mweb_out_accepted:
  assumes "show_mweb_out V net tot num n st = Ret (Inr u, t)"
  shows "\<exists>amount scr. t = st\<lparr>sn_shown := sn_shown st @ [(scr, True)]\<rparr>
    \<and> snd (mweb_session_get_output_value (sn_session st) n True) = Some amount
    \<and> mweb_out_screen (pl_keypaths (sv_psbt V)) net (ps_outputs (wp_psbt (sn_psbt st)) ! n) amount scr"
  using assms
  by (auto simp: show_mweb_out_def run_simps inspect_Ret mweb_output_accepted ticker_litecoin mweb_out_screen_def) blast

lemma show_mweb_outs_accepted:
  "show_mweb_outs V net tot num ns st = Ret (Inr u, t) \<Longrightarrow>
    \<exists>new. t = st\<lparr>sn_shown := sn_shown st @ new\<rparr> \<and> list_all snd new
      \<and> (\<forall>n \<in> set ns. \<exists>amount scr. snd (mweb_session_get_output_value (sn_session st) n True) = Some amount
          \<and> mweb_out_screen (pl_keypaths (sv_psbt V)) net (ps_outputs (wp_psbt (sn_psbt st)) ! n) amount scr
          \<and> (scr, True) \<in> set new)"
proof (induction ns arbitrary: num st)
  case Nil
  then show ?case by (intro exI [of _ "[]"]) (simp add: give_Ret_iff)
next
  case (Cons n ns)
  from Cons.prems obtain st1 where 1: "show_mweb_out V net tot (num + 1) n st = Ret (Inr (), st1)"
    and 2: "show_mweb_outs V net tot (num + 1) ns st1 = Ret (Inr u, t)" by (auto simp: run_simps)
  from show_mweb_out_accepted [OF 1] obtain amount scr where st1: "st1 = st\<lparr>sn_shown := sn_shown st @ [(scr, True)]\<rparr>"
    and scr: "snd (mweb_session_get_output_value (sn_session st) n True) = Some amount"
      "mweb_out_screen (pl_keypaths (sv_psbt V)) net (ps_outputs (wp_psbt (sn_psbt st)) ! n) amount scr" by blast
  from Cons.IH [OF 2] st1 obtain new where "t = st\<lparr>sn_shown := sn_shown st @ (scr, True) # new\<rparr>" "list_all snd new"
    "\<forall>n \<in> set ns. \<exists>amount scr. snd (mweb_session_get_output_value (sn_session st) n True) = Some amount
          \<and> mweb_out_screen (pl_keypaths (sv_psbt V)) net (ps_outputs (wp_psbt (sn_psbt st)) ! n) amount scr
          \<and> (scr, True) \<in> set new" by auto
  with scr show ?case by (intro exI [of _ "(scr, True) # new"]) (auto, blast)
qed

text \<open>What the screen of one pegout shows; confirming one leaves the others as they are.\<close>

definition pegout_screen ::
  "address_lib \<Rightarrow> wally_consts \<Rightarrow> network_t \<Rightarrow> u64 \<Rightarrow> bytes \<Rightarrow> screen \<Rightarrow> bool" where
  "pegout_screen A w net amount script scr \<longleftrightarrow> (\<exists>addr title.
     script_to_address A w net (Some script) (amount > 0) MAX_ADDRESS_LEN = Ret addr
     \<and> scr = ItemScreen title False True addr amount ''LTC'' None)"

lemma confirm_all_Cons [simp]:
  "confirm_all (p # ps) s = confirm_all ps (mweb_session_mark_pegout_confirmed s p)" "confirm_all [] s = s"
  by (simp_all add: confirm_all_def)

lemma get_pegout_marked [simp]:
  "mweb_session_get_pegout (mweb_session_mark_pegout_confirmed s p) q = mweb_session_get_pegout s q"
  by (cases "q = p")
    (auto simp: mweb_session_get_pegout_def mweb_session_mark_pegout_confirmed_def Let_def nth_list_update split: option.split)

lemma show_pegout_accepted:
  assumes "show_pegout V net npeg p st = Ret (Inr u, t)"
  shows "\<exists>amount script len k scr.
    t = st\<lparr>sn_shown := sn_shown st @ [(scr, True)], sn_session := mweb_session_mark_pegout_confirmed (sn_session st) p\<rparr>
    \<and> snd (mweb_session_get_pegout (sn_session st) p) = Some (amount, script, len, k)
    \<and> pegout_screen (pl_address (sv_psbt V)) (sv_consts V) net amount script scr"
  using assms
  by (fastforce simp: show_pegout_def run_simps inspect_Ret mweb_output_accepted ticker_litecoin pegout_screen_def)

lemma show_pegouts_accepted:
  "show_pegouts V net npeg ps st = Ret (Inr u, t) \<Longrightarrow>
    \<exists>new. t = st\<lparr>sn_shown := sn_shown st @ new, sn_session := confirm_all ps (sn_session st)\<rparr> \<and> list_all snd new
      \<and> (\<forall>p \<in> set ps. \<exists>amount script len k scr. snd (mweb_session_get_pegout (sn_session st) p) = Some (amount, script, len, k)
          \<and> pegout_screen (pl_address (sv_psbt V)) (sv_consts V) net amount script scr \<and> (scr, True) \<in> set new)"
proof (induction ps arbitrary: st)
  case Nil
  then show ?case by (intro exI [of _ "[]"]) (simp add: give_Ret_iff)
next
  case (Cons p ps)
  from Cons.prems obtain st1 where 1: "show_pegout V net npeg p st = Ret (Inr (), st1)"
    and 2: "show_pegouts V net npeg ps st1 = Ret (Inr u, t)" by (auto simp: run_simps)
  from show_pegout_accepted [OF 1] obtain amount script len k scr where
    st1: "st1 = st\<lparr>sn_shown := sn_shown st @ [(scr, True)], sn_session := mweb_session_mark_pegout_confirmed (sn_session st) p\<rparr>"
    and scr: "snd (mweb_session_get_pegout (sn_session st) p) = Some (amount, script, len, k)"
      "pegout_screen (pl_address (sv_psbt V)) (sv_consts V) net amount script scr" by blast
  from Cons.IH [OF 2] st1 obtain new where
    "t = st\<lparr>sn_shown := sn_shown st @ (scr, True) # new, sn_session := confirm_all (p # ps) (sn_session st)\<rparr>" "list_all snd new"
    "\<forall>p \<in> set ps. \<exists>amount script len k scr. snd (mweb_session_get_pegout (sn_session st) p) = Some (amount, script, len, k)
          \<and> pegout_screen (pl_address (sv_psbt V)) (sv_consts V) net amount script scr \<and> (scr, True) \<in> set new" by auto
  with scr show ?case by (intro exI [of _ "(scr, True) # new"]) (auto, blast)
qed

section \<open>Phases that only ask\<close>

text \<open>
  A \<^emph>\<open>calm\<close> phase leaves the PSBT as it is, changes the session only by confirming pegouts,
  appends to the log, has everything accepted when it succeeds, and fails with an error code.
\<close>

definition calm :: "(('s, 'x, 'a) phase) \<Rightarrow> bool" where
  "calm m \<longleftrightarrow> (\<forall>st r t. m st = Ret (r, t) \<longrightarrow>
     sn_psbt t = sn_psbt st
     \<and> (\<exists>ps. sn_session t = confirm_all ps (sn_session st))
     \<and> (\<exists>new. sn_shown t = sn_shown st @ new \<and> (\<forall>a. r = Inr a \<longrightarrow> list_all snd new))
     \<and> (\<forall>e. r = Inl e \<longrightarrow> fst e \<noteq> 0))"

named_theorems calm_intros

lemma calmD:
  assumes "calm m" and "m st = Ret (r, t)"
  obtains ps new where "sn_psbt t = sn_psbt st" and "sn_session t = confirm_all ps (sn_session st)"
    and "sn_shown t = sn_shown st @ new" and "\<forall>a. r = Inr a \<longrightarrow> list_all snd new"
    and "\<forall>e. r = Inl e \<longrightarrow> fst e \<noteq> 0"
proof -
  from assms(1)[unfolded calm_def, rule_format, OF assms(2)] that show thesis by auto
qed

lemma confirm_all_append: "confirm_all qs (confirm_all ps s) = confirm_all (ps @ qs) s"
  by (simp add: confirm_all_def)

lemma calm_attempt [calm_intros]:
  assumes "calm m" and "\<And>a. calm (f a)"
  shows "calm (attempt m f)"
  unfolding calm_def
proof (intro allI impI)
  fix st r t
  assume run: "attempt m f st = Ret (r, t)"
  show "sn_psbt t = sn_psbt st \<and> (\<exists>ps. sn_session t = confirm_all ps (sn_session st))
     \<and> (\<exists>new. sn_shown t = sn_shown st @ new \<and> (\<forall>a. r = Inr a \<longrightarrow> list_all snd new))
     \<and> (\<forall>e. r = Inl e \<longrightarrow> fst e \<noteq> 0)"
    using run
  proof (cases rule: attempt_Ret)
    case (left e)
    from calmD [OF assms(1) left(1)] obtain ps new where "sn_psbt t = sn_psbt st"
      "sn_session t = confirm_all ps (sn_session st)" "sn_shown t = sn_shown st @ new" "fst e \<noteq> 0" by auto
    with left(2) show ?thesis by auto
  next
    case (right a u)
    from calmD [OF assms(1) right(1)] obtain ps new where 1: "sn_psbt u = sn_psbt st"
      "sn_session u = confirm_all ps (sn_session st)" "sn_shown u = sn_shown st @ new" "list_all snd new" by auto
    from calmD [OF assms(2) right(2)] obtain qs new' where 2: "sn_psbt t = sn_psbt u"
      "sn_session t = confirm_all qs (sn_session u)" "sn_shown t = sn_shown u @ new'"
      "\<forall>a. r = Inr a \<longrightarrow> list_all snd new'" "\<forall>e. r = Inl e \<longrightarrow> fst e \<noteq> 0" by auto
    have "sn_shown t = sn_shown st @ (new @ new')" using 1 2 by simp
    moreover have "sn_session t = confirm_all (ps @ qs) (sn_session st)" using 1 2 by (simp add: confirm_all_append)
    moreover have "\<forall>a. r = Inr a \<longrightarrow> list_all snd (new @ new')" using 1 2 by simp
    ultimately show ?thesis using 1(1) 2(1,5) by auto
  qed
qed

lemma calm_same:
  assumes "\<And>st r t. m st = Ret (r, t) \<Longrightarrow> sn_psbt t = sn_psbt st \<and> sn_session t = sn_session st
    \<and> sn_shown t = sn_shown st \<and> (\<forall>e. r = Inl e \<longrightarrow> fst e \<noteq> 0)"
  shows "calm m"
  unfolding calm_def
proof (intro allI impI)
  fix st r t
  assume "m st = Ret (r, t)"
  from assms [OF this] show "sn_psbt t = sn_psbt st \<and> (\<exists>ps. sn_session t = confirm_all ps (sn_session st))
     \<and> (\<exists>new. sn_shown t = sn_shown st @ new \<and> (\<forall>a. r = Inr a \<longrightarrow> list_all snd new))
     \<and> (\<forall>e. r = Inl e \<longrightarrow> fst e \<noteq> 0)"
    by (auto intro: exI [of _ "[]"])
qed

lemma calm_carry [calm_intros]: "calm (carry a)"
  by (rule calm_same) (simp add: give_Ret_iff)

lemma calm_leave [calm_intros]: "fst e \<noteq> 0 \<Longrightarrow> calm (leave e)"
  by (rule calm_same) (simp add: give_Ret_iff)

lemma calm_pure_run [calm_intros]: "calm (pure_run m)"
  by (rule calm_same) (auto simp: run_simps)

lemma calm_on_kc [calm_intros]: "calm (on_kc m)"
  by (rule calm_same) (auto simp: run_simps)

lemma calm_require [calm_intros]: "fst e \<noteq> 0 \<Longrightarrow> calm (require b e)"
  by (rule calm_same) (auto simp: run_simps)

lemma calm_from_run [calm_intros]: "(\<And>e. m = fail e \<Longrightarrow> fst e \<noteq> 0) \<Longrightarrow> calm (from_run m)"
  by (rule calm_same) (auto simp: from_run_Ret)

lemma calm_inspect [calm_intros]: "(\<And>st. calm (f st)) \<Longrightarrow> calm (inspect f)"
  unfolding calm_def inspect_def by metis

lemma calm_if [calm_intros]: "(b \<Longrightarrow> calm m) \<Longrightarrow> (\<not> b \<Longrightarrow> calm n) \<Longrightarrow> calm (if b then m else n)"
  by simp

lemma rpc_errors [simp]: "CBOR_RPC_USER_CANCELLED \<noteq> 0" "CBOR_RPC_BAD_PARAMETERS \<noteq> 0" "CBOR_RPC_INTERNAL_ERROR \<noteq> 0"
  by (simp_all add: CBOR_RPC_USER_CANCELLED_def CBOR_RPC_BAD_PARAMETERS_def CBOR_RPC_INTERNAL_ERROR_def)

text \<open>An activity appends to the log, and what it appends was accepted if it says so.\<close>

definition logs :: "(shown, bool) act \<Rightarrow> bool" where
  "logs m \<longleftrightarrow> (\<forall>log b log'. m log = Ret (b, log') \<longrightarrow> (\<exists>new. log' = log @ new \<and> (b \<longrightarrow> list_all snd new)))"

lemma calm_confirm [calm_intros]: "logs m \<Longrightarrow> calm (confirm m)"
  unfolding calm_def
proof (intro allI impI)
  fix st r t
  assume "logs m" and run: "confirm m st = Ret (r, t)"
  then obtain b log where log: "m (sn_shown st) = Ret (b, log)" "t = st\<lparr>sn_shown := log\<rparr>"
    and r: "r = (if b then Inr () else Inl declined)"
    by (auto simp: confirm_def attempt_def run_simps)
  with \<open>logs m\<close> obtain new where "log = sn_shown st @ new" "b \<longrightarrow> list_all snd new" unfolding logs_def by blast
  then show "sn_psbt t = sn_psbt st \<and> (\<exists>ps. sn_session t = confirm_all ps (sn_session st))
     \<and> (\<exists>new. sn_shown t = sn_shown st @ new \<and> (\<forall>a. r = Inr a \<longrightarrow> list_all snd new))
     \<and> (\<forall>e. r = Inl e \<longrightarrow> fst e \<noteq> 0)"
    using log r by (auto intro: exI [of _ "[]"] exI [of _ new])
qed

lemma show_outputs_log:
  "show_outputs U A w net hid n tot outs log = Ret (r, log') \<Longrightarrow> \<exists>new. log' = log @ new \<and> (r \<noteq> None \<longrightarrow> list_all snd new)"
proof (induction outs arbitrary: n log)
  case Nil
  then show ?case by (simp add: give_Ret_iff)
next
  case (Cons oi outs)
  obtain out info where "oi = (out, info)" by (cases oi)
  with Cons.prems consider "show_outputs U A w net hid n tot outs log = Ret (r, log')"
    | scr where "log' = log @ [(scr, False)]" "r = None"
    | scr where "show_outputs U A w net hid (n + 1) tot outs (log @ [(scr, True)]) = Ret (r, log')"
    by (auto simp: run_simps from_run_Ret give_Ret_iff split: if_splits)
  then show ?case
  proof cases
    case 1
    then show ?thesis by (rule Cons.IH)
  next
    case 2
    then show ?thesis by simp
  next
    case (3 scr)
    from Cons.IH [OF 3] show ?thesis by auto
  qed
qed

lemma logs_activities [calm_intros]:
  "logs (show_btc_transaction_outputs_activity U A w net tx infos)"
  "logs (show_btc_final_confirmation_activity U net fee warn)"
  "logs (show_btc_fee_confirmation_activity U net tx infos flavour ins outs)"
  "logs (show_mweb_output_activity U title addr amount net)"
  "logs (show_mweb_pegin_activity U amount net)"
proof -
  show "logs (show_btc_transaction_outputs_activity U A w net tx infos)"
    unfolding logs_def
  proof (intro allI impI)
    fix log b log'
    assume "show_btc_transaction_outputs_activity U A w net tx infos log = Ret (b, log')"
    then obtain hid tot outs r where "show_outputs U A w net hid 0 tot outs log = Ret (r, log')" "b \<longrightarrow> r \<noteq> None"
      by (auto simp: show_btc_transaction_outputs_activity_def Let_def run_simps from_run_Ret insist_Ret_iff give_Ret_iff
          split: option.split_asm)
    with show_outputs_log show "\<exists>new. log' = log @ new \<and> (b \<longrightarrow> list_all snd new)" by blast
  qed
  show final: "logs (show_btc_final_confirmation_activity U net fee warn)" for fee warn
    by (auto simp: logs_def show_btc_final_confirmation_activity_def run_simps from_run_Ret insist_Ret_iff)
  show "logs (show_btc_fee_confirmation_activity U net tx infos flavour ins outs)"
    unfolding logs_def
  proof (intro allI impI)
    fix log b log'
    assume "show_btc_fee_confirmation_activity U net tx infos flavour ins outs log = Ret (b, log')"
    then obtain fee warn where "show_btc_final_confirmation_activity U net fee warn log = Ret (b, log')"
      by (auto simp: show_btc_fee_confirmation_activity_def Let_def run_simps from_run_Ret insist_Ret_iff)
    with final show "\<exists>new. log' = log @ new \<and> (b \<longrightarrow> list_all snd new)" unfolding logs_def by blast
  qed
qed (auto simp: logs_def show_mweb_output_activity_def show_mweb_pegin_activity_def run_simps from_run_Ret insist_Ret_iff)

lemma calm_tell [calm_intros]: "calm (on_screen (tell msg))"
  unfolding calm_def by (auto simp: run_simps intro: exI [of _ "[]"])

lemma calm_mark [calm_intros]:
  "calm (\<lambda>st. carry () (st\<lparr>sn_session := mweb_session_mark_pegout_confirmed (sn_session st) p\<rparr>))"
  unfolding calm_def by (auto simp: give_Ret_iff intro: exI [of _ "[p]"])

lemma calm_case_prod [calm_intros]: "(\<And>a b. calm (f a b)) \<Longrightarrow> calm (case x of (a, b) \<Rightarrow> f a b)"
  by (simp split: prod.split)

lemma calm_case_option [calm_intros]:
  "(x = None \<Longrightarrow> calm m) \<Longrightarrow> (\<And>a. x = Some a \<Longrightarrow> calm (f a)) \<Longrightarrow> calm (case x of None \<Rightarrow> m | Some a \<Rightarrow> f a)"
  by (simp split: option.split)

lemma calm_Let [calm_intros]: "(\<And>x. x = a \<Longrightarrow> calm (f x)) \<Longrightarrow> calm (let x = a in f x)"
  by simp

lemma calm_need [calm_intros]: "fst e \<noteq> 0 \<Longrightarrow> calm (from_run (need x e))"
  by (rule calm_from_run) (simp add: need_iff)

lemma calm_pass_mweb_input [calm_intros]: "calm (from_run (pass_mweb_input V kc i ip))"
  by (rule calm_from_run) (auto simp: pass_mweb_input_def Let_def then_run_Ret_iff split: if_splits option.splits)

lemma calm_pass_input: "calm (pass_input V p net n ip)"
  unfolding pass_input_def pass_own_input_def
  by (intro calm_intros) simp_all

lemma calm_pass_inputs [calm_intros]: "calm (pass_inputs V p net ns ip)"
  by (induction ns arbitrary: ip) (simp_all add: calm_carry calm_attempt calm_pass_input)

lemma calm_fetch_tx [calm_intros]: "calm (from_run (fetch_tx V p))"
  by (rule calm_from_run) (auto simp: fetch_tx_def run_simps split: if_splits option.splits)

lemma calm_check_amounts [calm_intros]: "calm (from_run (check_amounts PL tx ip))"
  by (rule calm_from_run) (auto simp: check_amounts_def then_run_Ret_iff split: if_splits)

lemma calm_show_mweb_outs [calm_intros]: "calm (show_mweb_outs V net tot num ns)"
proof (induction ns arbitrary: num)
  case (Cons n ns)
  have "calm (show_mweb_out V net tot num n)" for num
    unfolding show_mweb_out_def by (intro calm_intros) simp_all
  with Cons show ?case by (simp add: calm_attempt)
qed (simp add: calm_carry)

lemma calm_show_pegouts [calm_intros]: "calm (show_pegouts V net npeg ps)"
proof (induction ps)
  case (Cons p ps)
  have "calm (show_pegout V net npeg p)"
    unfolding show_pegout_def by (intro calm_intros) simp_all
  with Cons show ?case by (simp add: calm_attempt)
qed (simp add: calm_carry)

lemma calm_show_mweb [calm_intros]: "calm (show_mweb V net)"
  unfolding show_mweb_def show_pegin_def by (intro calm_intros)

lemma calm_show_fee [calm_intros]: "calm (show_fee V net tx infos ip amount)"
  unfolding show_fee_def by (intro calm_intros)

lemma calm_warn_nothing [calm_intros]: "calm (warn_nothing ip)"
  unfolding warn_nothing_def by (intro calm_intros)

section \<open>Beginning the session\<close>

definition has_mweb :: "wallet_psbt \<Rightarrow> bool" where
  "has_mweb p \<longleftrightarrow> sign_psbt_has_mweb_component (Some (wp_psbt p))"

text \<open>The laws of libwally the session needs, and the PSBT the session can put back.\<close>

definition restorable :: "('s, 'h, 'i, 'x, 'd) sign_env \<Rightarrow> wallet_psbt \<Rightarrow> bool" where
  "restorable V p \<longleftrightarrow> wally_laws (se_wally (sv_mweb V)) \<and> list_all proof_normal (ps_outputs (wp_psbt p))"

lemma mweb_env_wally [simp]: "se_wally (mweb_env V kc) = se_wally (sv_mweb V)"
  by (simp add: mweb_env_def)

text \<open>\<^verbatim>\<open>begun V net p s\<close>: a session begun on the PSBT \<^verbatim>\<open>p\<close>.\<close>

definition begun :: "('s, 'h, 'i, 'x, 'd) sign_env \<Rightarrow> network_t \<Rightarrow> psbt \<Rightarrow> mweb_session \<Rightarrow> bool" where
  "begun V net p s \<longleftrightarrow> (\<exists>kc g r. mweb_session_begin (mweb_env V kc) g True (Some p) (network_value net) True = Ret r
     \<and> br_session r = Some s)"

lemma begin_mweb_Ret:
  assumes "begin_mweb V net st = Ret (r, t)" and "sn_session st = None" and "restorable V (sn_psbt st)"
  shows "sn_psbt t = sn_psbt st \<and> sn_shown t = sn_shown st
    \<and> (\<forall>e. r = Inl e \<longrightarrow> fst e \<noteq> 0 \<and> sn_session t = None)
    \<and> (\<forall>u. r = Inr u \<longrightarrow> (if has_mweb (sn_psbt st)
          then \<exists>s. sn_session t = Some s \<and> begun V net (wp_psbt (sn_psbt st)) s else sn_session t = None))"
proof (cases "has_mweb (sn_psbt st)")
  case False
  with assms show ?thesis by (auto simp: begin_mweb_def has_mweb_def give_Ret_iff)
next
  case True
  let ?p = "wp_psbt (sn_psbt st)"
  from True assms(1) obtain b where b: "mweb_session_begin (mweb_env V (keychain_get (sn_kc st))) (sn_gens st) True (Some ?p)
      (network_value net) True = Ret b"
    and run: "require (br_err b = MWEB_OK)
        (if br_err b = MWEB_ERR_USER_CANCEL then CBOR_RPC_USER_CANCELLED else CBOR_RPC_BAD_PARAMETERS,
         Some (mweb_err_to_string (br_err b)))
        (st\<lparr>sn_session := br_session b, sn_gens := br_gens b, sn_progress := sn_progress st @ br_progress b,
            sn_psbt := (sn_psbt st)\<lparr>wp_psbt := the (br_psbt b)\<rparr>\<rparr>) = Ret (r, t)"
    by (auto simp: begin_mweb_def has_mweb_def Let_def then_run_Ret_iff)
  from begin_keeps [OF _ _ b] assms(3) have k: "br_psbt b = Some ?p" "br_err b = MWEB_OK \<longleftrightarrow> br_session b \<noteq> None"
    by (simp_all add: restorable_def)
  show ?thesis
  proof (cases "br_session b")
    case None
    with run k True show ?thesis by (auto simp: require_Ret)
  next
    case (Some s)
    with b have "begun V net ?p s" unfolding begun_def by blast
    with Some run k True show ?thesis by (simp add: require_Ret)
  qed
qed

lemma calm_examine: "calm (examine V net)"
  unfolding examine_def by (intro calm_intros) simp_all

lemma calm_ask_user: "calm (ask_user V net tx ip infos amount)"
  unfolding ask_user_def by (intro calm_intros)

text \<open>
  The PSBT as it came, and no session or one begun on it of which only pegouts were
  confirmed since.
\<close>

definition untouched :: "('s, 'h, 'i, 'x, 'd) sign_env \<Rightarrow> network_t \<Rightarrow> wallet_psbt \<Rightarrow> ('s, 'x) sign_state \<Rightarrow> bool" where
  "untouched V net p t \<longleftrightarrow> sn_psbt t = p
     \<and> (sn_session t = None \<or> (\<exists>s ps. begun V net (wp_psbt p) s \<and> sn_session t = confirm_all ps (Some s)))"

lemma confirm_all_None [simp]: "confirm_all ps None = None"
  by (induction ps) (simp_all add: mweb_session_mark_pegout_confirmed_def)

lemma untouched_calm: "untouched V net p st \<Longrightarrow> calm m \<Longrightarrow> m st = Ret (r, t) \<Longrightarrow> untouched V net p t"
proof -
  assume u: "untouched V net p st" and m: "calm m" and run: "m st = Ret (r, t)"
  show ?thesis
    by (rule calmD [OF m run]) (use u in \<open>unfold untouched_def, metis confirm_all_append confirm_all_None\<close>)
qed

lemma approve_fails:
  assumes "approve V net st = Ret (Inl e, t)" and "sn_session st = None" and "restorable V (sn_psbt st)"
  shows "fst e \<noteq> 0 \<and> untouched V net (sn_psbt st) t"
proof -
  have u0: "untouched V net (sn_psbt st) st" using assms(2) by (simp add: untouched_def)
  from assms(1) consider "examine V net st = Ret (Inl e, t)"
    | x st1 where "examine V net st = Ret (Inr x, st1)" "begin_mweb V net st1 = Ret (Inl e, t)"
    | tx ip infos amount st1 st2 where "examine V net st = Ret (Inr (tx, ip, infos, amount), st1)"
      "begin_mweb V net st1 = Ret (Inr (), st2)"
      "attempt (ask_user V net tx ip infos amount) (\<lambda>_.
         attempt (pure_run (jade_assert (pl_signing_cache (sv_psbt V)) (Ret ()))) (\<lambda>_. carry (tx, ip))) st2 = Ret (Inl e, t)"
    unfolding approve_def by (fastforce simp: attempt_Inl split: prod.splits)
  then show ?thesis
  proof cases
    case 1
    from calmD [OF calm_examine 1] have "fst e \<noteq> 0" by auto
    with untouched_calm [OF u0 calm_examine 1] show ?thesis by simp
  next
    case (2 x st1)
    from calmD [OF calm_examine 2(1)] assms(2) have 1: "sn_psbt st1 = sn_psbt st" "sn_session st1 = None" by auto
    from begin_mweb_Ret [OF 2(2) 1(2)] assms(3) 1 show ?thesis by (simp add: untouched_def)
  next
    case (3 tx ip infos amount st1 st2)
    from calmD [OF calm_examine 3(1)] assms(2) have 1: "sn_psbt st1 = sn_psbt st" "sn_session st1 = None" by auto
    from begin_mweb_Ret [OF 3(2) 1(2)] assms(3) 1 have "untouched V net (sn_psbt st) st2"
      by (auto simp: untouched_def split: if_split_asm) (metis confirm_all_Cons(2))
    moreover have calm: "calm (attempt (ask_user V net tx ip infos amount) (\<lambda>_.
         attempt (pure_run (jade_assert (pl_signing_cache (sv_psbt V)) (Ret ()))) (\<lambda>_. carry (tx, ip))))"
      by (intro calm_intros calm_ask_user)
    moreover from calmD [OF calm 3(3)] have "fst e \<noteq> 0" by auto
    ultimately show ?thesis using untouched_calm 3(3) by blast
  qed
qed

lemma approve_succeeds:
  assumes "approve V net st = Ret (Inr (tx, ip), t)" and "sn_session st = None" and "restorable V (sn_psbt st)"
  obtains infos amount st1 st2 st3 where "examine V net st = Ret (Inr (tx, ip, infos, amount), st1)"
    and "begin_mweb V net st1 = Ret (Inr (), st2)" and "ask_user V net tx ip infos amount st2 = Ret (Inr (), t)"
    and "sn_psbt t = sn_psbt st" and "sn_psbt st2 = sn_psbt st"
    and "\<exists>new. sn_shown st2 = sn_shown st @ new \<and> list_all snd new" and "untouched V net (sn_psbt st) t"
    and "if has_mweb (sn_psbt st) then \<exists>s. sn_session st2 = Some s \<and> begun V net (wp_psbt (sn_psbt st)) s
      else sn_session st2 = None"
    and "has_mweb (sn_psbt st) \<Longrightarrow> \<exists>s ps. begun V net (wp_psbt (sn_psbt st)) s \<and> sn_session t = confirm_all ps (Some s)"
proof -
  from assms(1) obtain infos amount st1 st2 where e: "examine V net st = Ret (Inr (tx, ip, infos, amount), st1)"
    and b: "begin_mweb V net st1 = Ret (Inr (), st2)" and a: "ask_user V net tx ip infos amount st2 = Ret (Inr (), t)"
    unfolding approve_def by (fastforce simp: attempt_Inr pure_run_Ret give_Ret_iff split: prod.splits)
  from calmD [OF calm_examine e] assms(2) obtain new where 1: "sn_psbt st1 = sn_psbt st" "sn_session st1 = None"
    "sn_shown st1 = sn_shown st @ new" "list_all snd new" by auto
  from begin_mweb_Ret [OF b 1(2)] assms(3) 1(1) have 2: "sn_psbt st2 = sn_psbt st" "sn_shown st2 = sn_shown st1"
    "if has_mweb (sn_psbt st) then \<exists>s. sn_session st2 = Some s \<and> begun V net (wp_psbt (sn_psbt st)) s
      else sn_session st2 = None" by (auto split: if_split_asm)
  then have u: "untouched V net (sn_psbt st) st2"
    by (auto simp: untouched_def split: if_split_asm) (metis confirm_all_Cons(2))
  have "untouched V net (sn_psbt st) t" by (rule untouched_calm [OF u calm_ask_user a])
  then have "sn_psbt t = sn_psbt st" by (simp add: untouched_def)
  moreover have "\<exists>s ps. begun V net (wp_psbt (sn_psbt st)) s \<and> sn_session t = confirm_all ps (Some s)" if "has_mweb (sn_psbt st)"
    using calmD [OF calm_ask_user a] 2(3) that by (metis (full_types))
  moreover have "\<exists>new. sn_shown st2 = sn_shown st @ new \<and> list_all snd new" using 1 2 by auto
  ultimately show thesis using that [OF e b a] \<open>untouched V net (sn_psbt st) t\<close> 2 by blast
qed

section \<open>Signing leaves the MWEB fields alone\<close>

text \<open>What libwally documents: signing an input adds to its maps of signatures, and to nothing else.\<close>

definition std_signed :: "psbt \<Rightarrow> psbt \<Rightarrow> bool" where
  "std_signed p q \<longleftrightarrow> list_all2 std_input_touched (ps_inputs p) (ps_inputs q) \<and> q\<lparr>ps_inputs := ps_inputs p\<rparr> = p"

definition signing_laws :: "'x psbt_lib \<Rightarrow> bool" where
  "signing_laws PL \<longleftrightarrow> (\<forall>p n i h k q b. pl_sign_input PL p n i h k = (q, b) \<longrightarrow> std_signed (wp_psbt p) q)"

lemma std_touched_trans: "std_input_touched i j \<Longrightarrow> std_input_touched j k \<Longrightarrow> std_input_touched i k"
  by (cases i; cases j; cases k) (simp add: std_input_touched_def)

lemma std_signed_refl: "std_signed p p"
  by (simp add: std_signed_def list_all2_refl std_input_touched_def)

lemma std_signed_trans: "std_signed p q \<Longrightarrow> std_signed q r \<Longrightarrow> std_signed p r"
  by (cases p; cases q; cases r) (auto simp: std_signed_def elim: list_all2_trans [rotated 1] intro: std_touched_trans)

lemma std_signed_writes: "std_signed p q \<Longrightarrow> session_writes s p q"
proof -
  assume "std_signed p q"
  then have ins: "list_all2 std_input_touched (ps_inputs p) (ps_inputs q)"
    and rest: "ps_outputs q = ps_outputs p" "ps_mweb_kernels q = ps_mweb_kernels p"
    by (cases p; cases q; simp add: std_signed_def)+
  then have "inputs_written (map si_psbt_index (ms_inputs s)) (ps_inputs p) (ps_inputs q)"
    by (auto simp: inputs_written_def list_all2_conv_all_nth std_touched_input)
  with rest show ?thesis
    by (simp add: session_writes_def output_rb.touch_all_refl kernel_rb.touch_refl)
qed

text \<open>The effect of the signing loops: signatures, and an error code if one fails.\<close>

definition only_signs :: "('s, 'x) sign_state \<Rightarrow> (outcome + unit) \<times> ('s, 'x) sign_state \<Rightarrow> bool" where
  "only_signs st = (\<lambda>(r, t). (\<exists>q. t = st\<lparr>sn_psbt := (sn_psbt st)\<lparr>wp_psbt := q\<rparr>\<rparr> \<and> std_signed (wp_psbt (sn_psbt st)) q)
     \<and> (\<forall>e. r = Inl e \<longrightarrow> fst e \<noteq> 0))"

lemma only_signs_here: "(\<And>e. r = Inl e \<Longrightarrow> fst e \<noteq> 0) \<Longrightarrow> only_signs st (r, st)"
  by (auto simp: only_signs_def std_signed_refl intro!: exI [of _ "wp_psbt (sn_psbt st)"])

lemma only_signs_trans: "only_signs st (Inr u, t) \<Longrightarrow> only_signs t x \<Longrightarrow> only_signs st x"
  by (cases x) (auto simp: only_signs_def, blast intro: std_signed_trans)

lemma sign_keys_only_signs:
  fixes V :: "('s, 'h, 'i, 'x, 'd) sign_env" and st :: "('s, 'x) sign_state"
  assumes laws: "signing_laws (sv_psbt V)" and "sign_keys V n h iter st = Some y" and "y = Ret x"
  shows "only_signs st x"
proof -
  define P where "P = (\<lambda>(V :: ('s, 'h, 'i, 'x, 'd) sign_env) (n :: nat) (h :: bytes) (iter :: 'x key_iter) st (y :: ((outcome + unit) \<times> ('s, 'x) sign_state) run).
    \<forall>x. y = Ret x \<longrightarrow> signing_laws (sv_psbt V) \<longrightarrow> only_signs st x)"
  have "P V n h iter st y"
  proof (rule sign_keys.raw_induct [OF _ assms(2)])
    fix self :: "('s, 'h, 'i, 'x, 'd) sign_env \<Rightarrow> nat \<Rightarrow> bytes \<Rightarrow> 'x key_iter \<Rightarrow> ('s, 'x) sign_state
      \<Rightarrow> ((outcome + unit) \<times> ('s, 'x) sign_state) run option" and V n h iter st y
    assume IH: "\<And>V n h iter st y. self V n h iter st = Some y \<Longrightarrow> P V n h iter st y"
      and body: "(if \<not> ki_is_valid iter then Some (Ret (Inr (), st))
      else
        let (psbt, signed) = pl_sign_input (sv_psbt V) (sn_psbt st) n (ki_key_index iter) h (ki_hdkey iter);
            st = st\<lparr>sn_psbt := (sn_psbt st)\<lparr>wp_psbt := psbt\<rparr>\<rparr>
        in if \<not> signed then Some (Ret (Inl (internal ''Failed to generate signature''), st))
           else (case key_iter_next (sv_wallet V) (pl_keypaths (sv_psbt V)) (keychain_get (sn_kc st)) (sn_psbt st) iter of
               Crash \<Rightarrow> Some Crash | Undef \<Rightarrow> Some Undef
             | Ret iter \<Rightarrow> self V n h iter st)) = Some y"
    show "P V n h iter st y"
      unfolding P_def
    proof (intro impI allI)
      fix x
      assume y: "y = Ret x" and laws: "signing_laws (sv_psbt V)"
      obtain q signed where sign: "pl_sign_input (sv_psbt V) (sn_psbt st) n (ki_key_index iter) h (ki_hdkey iter) = (q, signed)"
        by (cases "pl_sign_input (sv_psbt V) (sn_psbt st) n (ki_key_index iter) h (ki_hdkey iter)")
      let ?st = "st\<lparr>sn_psbt := (sn_psbt st)\<lparr>wp_psbt := q\<rparr>\<rparr>"
      have q: "std_signed (wp_psbt (sn_psbt st)) q" using laws sign unfolding signing_laws_def by blast
      then have stepped: "only_signs st (Inr (), ?st)" by (auto simp: only_signs_def)
      show "only_signs st x"
      proof (cases "ki_is_valid iter")
        case False
        with body y show ?thesis by (auto intro: only_signs_here)
      next
        case valid: True
        show ?thesis
        proof (cases signed)
          case False
          with body y sign valid q show ?thesis by (auto simp: only_signs_def Let_def)
        next
          case True
          with body y sign valid obtain it where "self V n h it ?st = Some (Ret x)"
            by (auto simp: Let_def split: run.split_asm)
          from IH [OF this] laws have "only_signs ?st x" unfolding P_def by blast
          with stepped show ?thesis by (rule only_signs_trans)
        qed
      qed
    qed
  qed
  with assms show ?thesis unfolding P_def by blast
qed

lemma sign_inputs_only_sign:
  assumes laws: "signing_laws (sv_psbt V)"
  shows "sign_inputs V tx ns st = Some (Ret x) \<Longrightarrow> only_signs st x"
proof (induction ns arbitrary: st)
  case Nil
  then show ?case by (auto intro: only_signs_here)
next
  case (Cons m ns)
  obtain n sig_type where m: "m = (n, sig_type)" by (cases m)
  have one: "only_signs st y" if "sign_input V tx n st = Some (Ret y)" for y
  proof (cases "input_hash V (sn_psbt st) tx n")
    case None
    with that show ?thesis by (auto simp: sign_input_def intro: only_signs_here)
  next
    case (Some h)
    with that obtain it where "sign_keys V n h it st = Some (Ret y)" by (auto simp: sign_input_def split: run.split_asm)
    from sign_keys_only_signs [OF laws this] show ?thesis by simp
  qed
  show ?case
  proof (cases "sig_type = 0")
    case True
    with Cons m show ?thesis by simp
  next
    case False
    with Cons.prems m consider e t where "sign_input V tx n st = Some (Ret (Inl e, t))" "x = (Inl e, t)"
      | t where "sign_input V tx n st = Some (Ret (Inr (), t))" "sign_inputs V tx ns t = Some (Ret x)"
      by (auto simp: resume_def split: option.split_asm run.split_asm sum.split_asm)
    then show ?thesis
    proof cases
      case (1 e t)
      with one show ?thesis by simp
    next
      case (2 t)
      from only_signs_trans [OF one [OF 2(1)] Cons.IH [OF 2(2)]] show ?thesis .
    qed
  qed
qed

section \<open>The whole function\<close>

text \<open>The two ways \<^verbatim>\<open>sign_psbt\<close> returns.\<close>

lemma resume_Ret:
  "resume m f = Some (Ret x) \<longleftrightarrow>
     (\<exists>e st. m = Some (Ret (Inl e, st)) \<and> x = (Inl e, st))
     \<or> (\<exists>a st. m = Some (Ret (Inr a, st)) \<and> f a st = Some (Ret x))"
  by (auto simp: resume_def split: option.split run.split sum.split)

lemma commit_mweb_Ret:
  assumes "commit_mweb V t = Ret (r, t')" and "restorable V p" and "std_signed (wp_psbt p) (wp_psbt (sn_psbt t))"
    and "sn_session t = None \<or> (\<exists>s ps. begun V net (wp_psbt p) s \<and> sn_session t = confirm_all ps (Some s))"
  shows "sn_session t' = None \<and> sn_shown t' = sn_shown t
    \<and> (\<forall>e. r = Inl e \<longrightarrow> fst e \<noteq> 0 \<and> wp_psbt (sn_psbt t') = wp_psbt p)"
proof (cases "sn_session t")
  case None
  with assms(1) show ?thesis by (auto simp: commit_mweb_def give_Ret_iff)
next
  case (Some s')
  with assms(4) obtain s ps where b: "begun V net (wp_psbt p) s" and s': "sn_session t = confirm_all ps (Some s)" by auto
  from assms(1) Some obtain cerr q where c: "mweb_session_commit (mweb_env V (keychain_get (sn_kc t))) (sn_session t)
      (Some (wp_psbt (sn_psbt t))) = Ret (cerr, q)"
    and run: "require (cerr = MWEB_OK) (internal (mweb_err_to_string cerr))
      (t\<lparr>sn_session := None, sn_psbt := (sn_psbt t)\<lparr>wp_psbt := the q\<rparr>\<rparr>) = Ret (r, t')"
    by (auto simp: commit_mweb_def then_run_Ret_iff Let_def)
  from b obtain kc g rb where rb: "mweb_session_begin (mweb_env V kc) g True (Some (wp_psbt p)) (network_value net) True = Ret rb"
    "br_session rb = Some s" unfolding begun_def by blast
  have "q = Some (wp_psbt p)" if "cerr \<noteq> MWEB_OK"
    by (rule failed_commit_restores [OF _ _ rb std_signed_writes [OF assms(3)] c [unfolded s'] that])
      (use assms(2) in \<open>simp_all add: restorable_def\<close>)
  with run show ?thesis by (auto simp: require_Ret)
qed

text \<open>The data of the session does not depend on the wallet's key.\<close>

lemma committed_to_env [simp]: "committed_to (mweb_env V kc) n po po' = committed_to (sv_mweb V) n po po'"
  by (simp add: committed_to_def derived_for_def mweb_env_def)

lemma commit_mweb_outputs:
  assumes "commit_mweb V t = Ret (Inr u, t')" and "restorable V p" and "std_signed (wp_psbt p) (wp_psbt (sn_psbt t))"
    and "begun V net (wp_psbt p) s" and "sn_session t = confirm_all ps (Some s)" and "n \<in> set (mweb_outputs (wp_psbt p))"
  shows "committed_to (sv_mweb V) n (ps_outputs (wp_psbt p) ! n) (ps_outputs (wp_psbt (sn_psbt t')) ! n)"
proof -
  have some: "sn_session t \<noteq> None" using assms(5) confirm_all_Some [of ps s] by auto
  from assms(1) some obtain q where
      c: "mweb_session_commit (mweb_env V (keychain_get (sn_kc t))) (sn_session t) (Some (wp_psbt (sn_psbt t))) = Ret (MWEB_OK, q)"
    and t': "wp_psbt (sn_psbt t') = the q"
    by (auto simp: commit_mweb_def then_run_Ret_iff Let_def require_Ret split: if_split_asm)
  then obtain p'' where q: "q = Some p''"
    using some commit_steps_not_ok by (auto simp: mweb_session_commit_def split: option.split_asm run.split_asm sum.split_asm)
  from assms(4) obtain kc g rb where rb: "mweb_session_begin (mweb_env V kc) g True (Some (wp_psbt p)) (network_value net) True = Ret rb"
    "br_session rb = Some s" unfolding begun_def by blast
  have "wally_laws (se_wally (mweb_env V kc))" using assms(2) by (simp add: restorable_def)
  from commit_writes_outputs [OF this rb std_signed_writes [OF assms(3)] c [unfolded assms(5) q] assms(6)]
  show ?thesis by (simp add: t' q)
qed

lemma cleanup_restores:
  assumes "restorable V p" and "std_signed (wp_psbt p) (wp_psbt (sn_psbt t))"
    and "begun V net (wp_psbt p) s" and "sn_session t = confirm_all ps (Some s)"
  shows "wp_psbt (sn_psbt (snd (cleanup (r, t)))) = wp_psbt p"
proof -
  from assms(3) obtain kc g rb where rb: "mweb_session_begin (mweb_env V kc) g True (Some (wp_psbt p)) (network_value net) True = Ret rb"
    "br_session rb = Some s" unfolding begun_def by blast
  have "mweb_session_abort (sn_session t) (Some (wp_psbt (sn_psbt t))) = Some (wp_psbt p)"
    unfolding assms(4) by (rule abort_after_begin [OF _ _ rb std_signed_writes [OF assms(2)]])
      (use assms(1) in \<open>simp_all add: restorable_def\<close>)
  moreover obtain es where "confirm_all ps (Some s) = Some (s\<lparr>ms_pegouts := es\<rparr>)" using confirm_all_Some by blast
  ultimately show ?thesis using assms(4) by (simp add: cleanup_def)
qed

lemma sign_psbt_Ret:
  assumes "sign_psbt V net st = Some (Ret (outcome, t))" and "restorable V (sn_psbt st)" and "signing_laws (sv_psbt V)"
    and "has_mweb (sn_psbt st)"
  obtains (refused) "fst outcome \<noteq> 0" "wp_psbt (sn_psbt t) = wp_psbt (sn_psbt st)"
    | (signed) tx ip st1 st2 where "outcome = (0, None)"
      "approve V net (st\<lparr>sn_session := None\<rparr>) = Ret (Inr (tx, ip), st1)"
      "sign_inputs V tx (enumerate 0 (ip_sig_types ip)) st1 = Some (Ret (Inr (), st2))"
      "commit_mweb V st2 = Ret (Inr (), t)" "sn_shown t = sn_shown st1"
proof -
  let ?st = "st\<lparr>sn_session := None\<rparr>" and ?p = "sn_psbt st"
  have r: "restorable V (sn_psbt ?st)" "sn_session ?st = None" using assms(2) by simp_all
  from assms(1) consider "outcome = bad ''Network/psbt type mismatch''" "t = st"
    | x where "sign_psbt_steps V net ?st = Some (Ret x)" "(outcome, t) = cleanup x"
    by (auto simp: sign_psbt_def then_run_Ret_iff split: run.split_asm if_split_asm)
  then show thesis
  proof cases
    case 1
    then show thesis by (intro refused) simp_all
  next
    case (2 x)
    have ended: thesis if "x = (Inl e, t1)" "fst e \<noteq> 0" "std_signed (wp_psbt ?p) (wp_psbt (sn_psbt t1))"
      "begun V net (wp_psbt ?p) s \<and> sn_session t1 = confirm_all ps (Some s) \<or> sn_session t1 = None \<and> wp_psbt (sn_psbt t1) = wp_psbt ?p"
      for e t1 s ps
    proof (rule refused)
      show "fst outcome \<noteq> 0" using 2(2) that(1,2) by (simp add: cleanup_def)
      show "wp_psbt (sn_psbt t) = wp_psbt ?p"
        using that(4)
      proof
        assume "begun V net (wp_psbt ?p) s \<and> sn_session t1 = confirm_all ps (Some s)"
        with cleanup_restores [OF assms(2) that(3), of net s ps "Inl e"] 2(2) that(1) show ?thesis
          by (metis snd_conv)
      next
        assume "sn_session t1 = None \<and> wp_psbt (sn_psbt t1) = wp_psbt ?p"
        with 2(2) that(1) show ?thesis by (simp add: cleanup_def)
      qed
    qed
    from 2(1) [unfolded sign_psbt_steps_def, THEN resume_Ret [THEN iffD1]]
    consider e t1 where "approve V net ?st = Ret (Inl e, t1)" "x = (Inl e, t1)"
      | tx ip st1 where "approve V net ?st = Ret (Inr (tx, ip), st1)"
        "resume (sign_inputs V tx (enumerate 0 (ip_sig_types ip)) st1) (\<lambda>_ st. Some (commit_mweb V st)) = Some (Ret x)"
      by auto
    then show thesis
    proof cases
      case (1 e t1)
      from approve_fails [OF 1(1) r(2,1)] have f: "fst e \<noteq> 0" "untouched V net ?p t1" by simp_all
      then obtain s ps where "begun V net (wp_psbt ?p) s \<and> sn_session t1 = confirm_all ps (Some s)
          \<or> sn_session t1 = None \<and> wp_psbt (sn_psbt t1) = wp_psbt ?p" by (auto simp: untouched_def)
      with f show thesis using ended [OF 1(2) f(1)] by (simp add: untouched_def std_signed_refl)
    next
      case a: (2 tx ip st1)
      obtain s ps where s: "begun V net (wp_psbt ?p) s" "sn_session st1 = confirm_all ps (Some s)" and p1: "sn_psbt st1 = ?p"
        by (rule approve_succeeds [OF a(1) r(2,1)]) (use assms(4) in auto)
      from a(2) [THEN resume_Ret [THEN iffD1]] consider
          e t1 where "sign_inputs V tx (enumerate 0 (ip_sig_types ip)) st1 = Some (Ret (Inl e, t1))" "x = (Inl e, t1)"
        | st2 where "sign_inputs V tx (enumerate 0 (ip_sig_types ip)) st1 = Some (Ret (Inr (), st2))" "commit_mweb V st2 = Ret x"
        by auto
      then show thesis
      proof cases
        case (1 e t1)
        from sign_inputs_only_sign [OF assms(3) 1(1)] p1 s
        have "fst e \<noteq> 0" "std_signed (wp_psbt ?p) (wp_psbt (sn_psbt t1))" "sn_session t1 = confirm_all ps (Some s)"
          by (cases e; auto simp: only_signs_def)+
        with s(1) ended [OF 1(2)] show thesis by blast
      next
        case (2 st2)
        from sign_inputs_only_sign [OF assms(3) 2(1)] p1 s
        have o: "std_signed (wp_psbt ?p) (wp_psbt (sn_psbt st2))" "sn_session st2 = confirm_all ps (Some s)"
          "sn_shown st2 = sn_shown st1" by (auto simp: only_signs_def)
        obtain r' t1 where x: "x = (r', t1)" by (cases x)
        from commit_mweb_Ret [OF 2(2) [unfolded x] assms(2) o(1)] o(2) s(1)
        have c: "sn_session t1 = None" "sn_shown t1 = sn_shown st2"
          "\<forall>e. r' = Inl e \<longrightarrow> fst e \<noteq> 0 \<and> wp_psbt (sn_psbt t1) = wp_psbt ?p" by blast+
        have t: "t = t1" "outcome = (case r' of Inl e \<Rightarrow> e | Inr _ \<Rightarrow> (0, None))"
          using \<open>(outcome, t) = cleanup x\<close> c(1) x by (simp_all add: cleanup_def)
        show thesis
        proof (cases r')
          case (Inl e)
          with t c show thesis by (intro refused) auto
        next
          case (Inr u)
          with t x 2 show thesis by (intro signed [OF _ a(1) 2(1)]) (use c(2) o(3) in auto)
        qed
      qed
    qed
  qed
qed

section \<open>What has been accepted\<close>

lemma get_output_value_confirmed [simp]:
  "mweb_session_get_output_value (confirm_all ps s) n b = mweb_session_get_output_value s n b"
proof (cases s)
  case (Some s')
  obtain es where "confirm_all ps (Some s') = Some (s'\<lparr>ms_pegouts := es\<rparr>)" using confirm_all_Some by blast
  with Some show ?thesis by (simp add: mweb_session_get_output_value_def)
qed simp

lemma totals_confirmed [simp]:
  "mweb_session_total_fee (confirm_all ps s) = mweb_session_total_fee s"
  "mweb_session_has_pegin (confirm_all ps s) = mweb_session_has_pegin s"
  "mweb_session_pegin_amount (confirm_all ps s) = mweb_session_pegin_amount s"
  "confirm_all ps s = None \<longleftrightarrow> s = None"
proof (induction ps arbitrary: s)
  case (Cons p ps)
  have marked: "mweb_session_total_fee (mweb_session_mark_pegout_confirmed s p) = mweb_session_total_fee s"
    "mweb_session_has_pegin (mweb_session_mark_pegout_confirmed s p) = mweb_session_has_pegin s"
    "mweb_session_pegin_amount (mweb_session_mark_pegout_confirmed s p) = mweb_session_pegin_amount s"
    "mweb_session_mark_pegout_confirmed s p = None \<longleftrightarrow> s = None" for s
    by (auto simp: mweb_session_total_fee_def mweb_session_has_pegin_def mweb_session_pegin_amount_def
        mweb_session_mark_pegout_confirmed_def split: option.split)
  { case 1 show ?case by (simp add: Cons(1) marked(1)) }
  { case 2 show ?case by (simp add: Cons(2) marked(2)) }
  { case 3 show ?case by (simp add: Cons(3) marked(3)) }
  { case 4 show ?case by (simp add: Cons(4) marked(4)) }
qed simp_all

text \<open>\<^verbatim>\<open>mweb_accepted V net p s new\<close>: the screens of \<^verbatim>\<open>new\<close> show all that the session moves.\<close>

definition mweb_accepted ::
  "('s, 'h, 'i, 'x, 'd) sign_env \<Rightarrow> network_t \<Rightarrow> psbt \<Rightarrow> mweb_session \<Rightarrow> shown \<Rightarrow> bool" where
  "mweb_accepted V net p s new \<longleftrightarrow>
     (\<forall>n \<in> set (mweb_outputs p). \<exists>amount scr. snd (mweb_session_get_output_value (Some s) n True) = Some amount
        \<and> mweb_out_screen (pl_keypaths (sv_psbt V)) net (ps_outputs p ! n) amount scr \<and> (scr, True) \<in> set new)
     \<and> (\<forall>q < mweb_session_pegout_count (Some s). \<exists>amount script len k scr.
        snd (mweb_session_get_pegout (Some s) q) = Some (amount, script, len, k)
        \<and> pegout_screen (pl_address (sv_psbt V)) (sv_consts V) net amount script scr \<and> (scr, True) \<in> set new)
     \<and> (mweb_session_has_pegin (Some s) \<longrightarrow> (ItemScreen ''MWEB Pegin'' False False ''Transparent -> MWEB''
          (mweb_session_pegin_amount (Some s)) ''LTC'' None, True) \<in> set new)
     \<and> (FinalScreen ''Send Transaction'' (mweb_session_total_fee (Some s)) ''LTC'' None, True) \<in> set new"

definition outputs_accepted ::
  "('s, 'h, 'i, 'x, 'd) sign_env \<Rightarrow> network_t \<Rightarrow> wally_tx \<Rightarrow> output_info_t list \<Rightarrow> shown \<Rightarrow> bool" where
  "outputs_accepted V net tx infos new \<longleftrightarrow>
     (\<forall>(out, info) \<in> set (with_info tx (Some infos)). display_output out info True \<longrightarrow>
        (\<exists>k tot scr. output_screen (pl_address (sv_psbt V)) (sv_consts V) net k tot out info = Ret scr
           \<and> (scr, True) \<in> set new))"

lemma accepted_mono:
  "mweb_accepted V net p s new \<Longrightarrow> set new \<subseteq> set new' \<Longrightarrow> mweb_accepted V net p s new'"
  "outputs_accepted V net tx infos new \<Longrightarrow> set new \<subseteq> set new' \<Longrightarrow> outputs_accepted V net tx infos new'"
  unfolding mweb_accepted_def outputs_accepted_def by blast+

lemma show_mweb_accepted:
  assumes "show_mweb V net st = Ret (Inr u, t)" and "network_is_litecoin net = Ret True"
  shows "\<exists>new. sn_shown t = sn_shown st @ new
    \<and> (\<forall>n \<in> set (mweb_outputs (wp_psbt (sn_psbt st))). \<exists>amount scr. snd (mweb_session_get_output_value (sn_session st) n True) = Some amount
        \<and> mweb_out_screen (pl_keypaths (sv_psbt V)) net (ps_outputs (wp_psbt (sn_psbt st)) ! n) amount scr \<and> (scr, True) \<in> set new)
    \<and> (\<forall>q < mweb_session_pegout_count (sn_session st). \<exists>amount script len k scr.
        snd (mweb_session_get_pegout (sn_session st) q) = Some (amount, script, len, k)
        \<and> pegout_screen (pl_address (sv_psbt V)) (sv_consts V) net amount script scr \<and> (scr, True) \<in> set new)
    \<and> (mweb_session_has_pegin (sn_session st) \<longrightarrow> (ItemScreen ''MWEB Pegin'' False False ''Transparent -> MWEB''
          (mweb_session_pegin_amount (sn_session st)) ''LTC'' None, True) \<in> set new)
    \<and> (\<exists>ps. sn_session t = confirm_all ps (sn_session st))"
proof -
  let ?ns = "mweb_outputs (wp_psbt (sn_psbt st))" and ?npeg = "mweb_session_pegout_count (sn_session st)"
  have ns: "mweb_output_indices (wp_psbt (sn_psbt st)) = ?ns" by (simp add: mweb_output_indices_def mweb_outputs_def)
  from assms obtain st1 st2 where 1: "show_mweb_outs V net (length ?ns) 0 ?ns st = Ret (Inr (), st1)"
    and 2: "show_pegouts V net ?npeg [0..<?npeg] st1 = Ret (Inr (), st2)" and 3: "show_pegin V net st2 = Ret (Inr u, t)"
    by (auto simp: show_mweb_def run_simps inspect_Ret Let_def ns)
  from show_mweb_outs_accepted [OF 1] obtain a where a: "st1 = st\<lparr>sn_shown := sn_shown st @ a\<rparr>"
    and outs: "\<forall>n \<in> set ?ns. \<exists>amount scr. snd (mweb_session_get_output_value (sn_session st) n True) = Some amount
        \<and> mweb_out_screen (pl_keypaths (sv_psbt V)) net (ps_outputs (wp_psbt (sn_psbt st)) ! n) amount scr \<and> (scr, True) \<in> set a"
    by blast
  from show_pegouts_accepted [OF 2] a obtain b where
    b: "st2 = st\<lparr>sn_shown := sn_shown st @ a @ b, sn_session := confirm_all [0..<?npeg] (sn_session st)\<rparr>"
    and pegs: "\<forall>q \<in> set [0..<?npeg]. \<exists>amount script len k scr. snd (mweb_session_get_pegout (sn_session st) q) = Some (amount, script, len, k)
        \<and> pegout_screen (pl_address (sv_psbt V)) (sv_consts V) net amount script scr \<and> (scr, True) \<in> set b" by auto
  from 3 b obtain c where c: "sn_shown t = sn_shown st @ a @ b @ c" "sn_session t = confirm_all [0..<?npeg] (sn_session st)"
    "mweb_session_has_pegin (sn_session st) \<longrightarrow> (ItemScreen ''MWEB Pegin'' False False ''Transparent -> MWEB''
          (mweb_session_pegin_amount (sn_session st)) ''LTC'' None, True) \<in> set c"
    by (auto simp: show_pegin_def inspect_Ret run_simps pegin_accepted ticker_litecoin [OF assms(2)] split: if_split_asm)
  show ?thesis
    by (rule exI [of _ "a @ b @ c"]) (use outs pegs c in \<open>fastforce simp: atLeast0LessThan\<close>)
qed

lemma ask_user_accepted:
  assumes "ask_user V net tx ip infos amount st = Ret (Inr u, t)" and "network_is_litecoin net = Ret True"
    and "sn_session st = Some s"
  shows "\<exists>new. sn_shown t = sn_shown st @ new \<and> list_all snd new
    \<and> outputs_accepted V net tx infos new \<and> mweb_accepted V net (wp_psbt (sn_psbt st)) s new"
proof -
  from assms(1) obtain st1 st2 st3 where
    1: "confirm (show_btc_transaction_outputs_activity (sv_user V) (pl_address (sv_psbt V)) (sv_consts V) net tx (Some infos)) st
        = Ret (Inr (), st1)"
    and 2: "show_mweb V net st1 = Ret (Inr (), st2)" and 3: "show_fee V net tx infos ip amount st2 = Ret (Inr (), st3)"
    and 4: "warn_nothing ip st3 = Ret (Inr u, t)" by (auto simp: ask_user_def attempt_Inr)
  from 1 obtain log where log: "show_btc_transaction_outputs_activity (sv_user V) (pl_address (sv_psbt V)) (sv_consts V) net tx (Some infos)
      (sn_shown st) = Ret (True, log)" and st1: "st1 = st\<lparr>sn_shown := log\<rparr>" by (auto simp: confirm_Inr)
  from btc_outputs_accepted [OF log] obtain a where a: "log = sn_shown st @ a" and outs: "outputs_accepted V net tx infos a"
    by (auto simp: adds_def outputs_accepted_def)
  from show_mweb_accepted [OF 2 assms(2)] st1 a assms(3) obtain b ps where b: "sn_shown st2 = sn_shown st @ a @ b"
    and ps: "sn_session st2 = confirm_all ps (Some s)"
    and m: "(\<forall>n \<in> set (mweb_outputs (wp_psbt (sn_psbt st))). \<exists>amount scr. snd (mweb_session_get_output_value (Some s) n True) = Some amount
        \<and> mweb_out_screen (pl_keypaths (sv_psbt V)) net (ps_outputs (wp_psbt (sn_psbt st)) ! n) amount scr \<and> (scr, True) \<in> set b)
    \<and> (\<forall>q < mweb_session_pegout_count (Some s). \<exists>amount script len k scr.
        snd (mweb_session_get_pegout (Some s) q) = Some (amount, script, len, k)
        \<and> pegout_screen (pl_address (sv_psbt V)) (sv_consts V) net amount script scr \<and> (scr, True) \<in> set b)
    \<and> (mweb_session_has_pegin (Some s) \<longrightarrow> (ItemScreen ''MWEB Pegin'' False False ''Transparent -> MWEB''
          (mweb_session_pegin_amount (Some s)) ''LTC'' None, True) \<in> set b)" by auto
  have "sn_session st2 \<noteq> None" using ps by simp
  then obtain y where y: "sn_session st2 = Some y" by blast
  have fee: "mweb_session_total_fee (Some y) = mweb_session_total_fee (Some s)" using ps y totals_confirmed(1) by metis
  from 3 b y fee have c: "sn_shown st3 = sn_shown st @ a @ b @ [(FinalScreen ''Send Transaction'' (mweb_session_total_fee (Some s)) ''LTC'' None, True)]"
    by (auto simp: show_fee_def inspect_Ret run_simps final_confirmation_accepted ticker_litecoin [OF assms(2)] split: if_split_asm)
  let ?abc = "a @ b @ [(FinalScreen ''Send Transaction'' (mweb_session_total_fee (Some s)) ''LTC'' None, True)]"
  have "outputs_accepted V net tx infos ?abc" using outs by (rule accepted_mono) auto
  moreover have "mweb_accepted V net (wp_psbt (sn_psbt st)) s ?abc" using m unfolding mweb_accepted_def by (auto; blast)
  moreover obtain d where "sn_shown t = sn_shown st3 @ d"
    by (rule calmD [OF calm_warn_nothing 4])
  moreover obtain new where "sn_shown t = sn_shown st @ new" "list_all snd new"
    by (rule calmD [OF calm_ask_user assms(1)]) auto
  ultimately show ?thesis using c accepted_mono [of V net _ _ ?abc "?abc @ d"] by (intro exI [of _ new]) auto
qed

end
