(* ===== verification/Jade_Change.thy ===== *)
theory Jade_Change
  imports Jade_Consent
begin

text \<open>
  When an output of the transaction is not shown: what \<^verbatim>\<open>psbt_update_outputs\<close> has established
  about an output it flags as change, and all that a successful \<^verbatim>\<open>sign_psbt\<close> has asked for.
\<close>

section \<open>Change\<close>

text \<open>
  \<^verbatim>\<open>own_change V p net sp k n\<close>: in the keychain state \<^verbatim>\<open>k\<close>, the \<^verbatim>\<open>n\<close>th output has a key of the
  wallet, and its script is the one generated from this key on a change path of the wallet,
  or the one of the registered record the inputs have shown, or the signers are those of a
  Green multisig and its script is the Green one. In the last case the script is not looked
  at when the wallet's key is the recovery key of a 2of3.
\<close>

definition own_singlesig ::
  "('s, 'h, 'i, 'x, 'd) sign_env \<Rightarrow> 'x keychain_t option \<Rightarrow> network_t \<Rightarrow> 'x key_iter \<Rightarrow> u32 list \<Rightarrow> bytes \<Rightarrow> bool" where
  "own_singlesig V kc net iter path script \<longleftrightarrow> (\<exists>v.
     wallet_build_singlesig_script (sv_wallet V) kc net v (ki_hdkey iter) WALLY_SCRIPTPUBKEY_P2WSH_LEN = Ret (Some script)
     \<and> wallet_is_expected_singlesig_path net v True path = Ret True)"

definition own_green ::
  "('s, 'h, 'i, 'x, 'd) sign_env \<Rightarrow> wallet_psbt \<Rightarrow> network_t \<Rightarrow> ('s, 'x) keychain_state \<Rightarrow> 'x key_iter \<Rightarrow> u32 list
    \<Rightarrow> bytes \<Rightarrow> bool" where
  "own_green V p net k iter path script \<longleftrightarrow> (\<exists>num_keys key. key_iter_get_num_keys p iter = Ret num_keys
     \<and> is_green_multisig_signers (sv_wallet V) (pl_keypaths (sv_psbt V)) (keychain_get k) p net iter (num_keys = 3) = Ret (True, key)
     \<and> (if ki_is_ga_2of3_recovery_key iter then True
        else \<exists>k'. verify_ga_script_matches (sv_wallet V) (sv_psbt V) net (ki_hdkey iter)
             (if num_keys = 3 then map_option (pl_with_pub_key (sv_psbt V)) key else None) path (Some script) k
             = Ret (True, k')))"

definition own_registered ::
  "('s, 'h, 'i, 'x, 'd) sign_env \<Rightarrow> 'x keychain_t option \<Rightarrow> wallet_psbt \<Rightarrow> network_t \<Rightarrow> spending \<Rightarrow> 'x key_iter
    \<Rightarrow> u32 list \<Rightarrow> bytes \<Rightarrow> bool" where
  "own_registered V kc p net sp iter path script \<longleftrightarrow>
     (let tail = drop (path_get_unhardened_tail_index path) path in
      wallet_is_expected_multisig_path (unat (ki_key_index iter)) True tail
      \<and> ((\<exists>d. sp_multisig sp = Some d \<and> sp_descriptor sp = None
            \<and> verify_multisig_script_matches (sv_wallet V) (pl_keypaths (sv_psbt V)) kc p d tail iter (Some script) = Ret True)
         \<or> (\<exists>d. sp_descriptor sp = Some d \<and> sp_multisig sp = None
            \<and> verify_descriptor_script_matches (sv_descriptors V) kc p d net tail iter (Some script) = Ret True)))"

definition own_change ::
  "('s, 'h, 'i, 'x, 'd) sign_env \<Rightarrow> wallet_psbt \<Rightarrow> network_t \<Rightarrow> spending \<Rightarrow> ('s, 'x) keychain_state \<Rightarrow> nat \<Rightarrow> bool" where
  "own_change V p net sp k n \<longleftrightarrow> (\<exists>iter path script.
     key_iter_output_begin_public (sv_wallet V) (pl_keypaths (sv_psbt V)) (keychain_get k) p n = Ret iter \<and> ki_is_valid iter
     \<and> key_iter_get_path (pl_keypaths (sv_psbt V)) p iter MAX_PATH_LEN = Ret (Some path)
     \<and> pl_output_script (sv_psbt V) p n WALLY_SCRIPTPUBKEY_P2WSH_LEN = Some script
     \<and> (if sp_flags sp = PSBT_SIGNING_GREEN_MULTISIG OR PSBT_SIGNING_MULTISIG_CHANGE_ABANDONED
          then own_green V p net k iter path script
        else if sp_flags sp = PSBT_SIGNING_MULTISIG OR PSBT_SIGNING_SINGLE_MULTISIG_RECORD
          then 2 \<le> length path \<and> path ! (length path - 2) = 1 \<and> own_registered V (keychain_get k) p net sp iter path script
        else sp_flags sp AND PSBT_SIGNING_SINGLESIG \<noteq> 0 \<and> 2 \<le> length path \<and> path ! (length path - 2) = 1
          \<and> own_singlesig V (keychain_get k) net iter path script))"

text \<open>What makes \<^verbatim>\<open>display_output\<close> hide an output, of which nothing was known.\<close>

definition hidden :: "output_info_t \<Rightarrow> bool" where
  "hidden info \<longleftrightarrow> oi_message info = [] \<and> flagged info OUTPUT_FLAG_VALIDATED \<and> flagged info OUTPUT_FLAG_CHANGE"

lemma display_output_True: "display_output out (Some info) True \<longleftrightarrow> \<not> flagged info OUTPUT_FLAG_MWEB \<and> \<not> hidden info"
  by (auto simp: display_output_def hidden_def)

lemma not_hidden_no_info [simp]: "\<not> hidden no_info"
  by (simp add: hidden_def flagged_def no_info_def)

lemma not_hidden_receive: "\<not> hidden (mark_validated False no_info)"
  by (simp add: hidden_def flagged_def no_info_def mark_validated_def mark_def Let_def OUTPUT_FLAG_VALIDATED_def
      OUTPUT_FLAG_CHANGE_def)

lemma path_warning_message: "path_warning (c # label) path info = Ret info' \<Longrightarrow> \<not> hidden info'"
  by (auto simp: path_warning_def then_run_Ret_iff printed_def jade_assert_def hidden_def Let_def split: if_split_asm)

lemma flags_bits:
  "(PSBT_SIGNING_GREEN_MULTISIG OR PSBT_SIGNING_MULTISIG_CHANGE_ABANDONED) AND PSBT_SIGNING_SINGLESIG = 0"
  "(PSBT_SIGNING_MULTISIG OR PSBT_SIGNING_SINGLE_MULTISIG_RECORD) AND PSBT_SIGNING_SINGLESIG = 0"
  "PSBT_SIGNING_MULTISIG OR PSBT_SIGNING_SINGLE_MULTISIG_RECORD
     \<noteq> PSBT_SIGNING_GREEN_MULTISIG OR PSBT_SIGNING_MULTISIG_CHANGE_ABANDONED"
  by (simp_all add: signing_bits)

lemma then_run_RetE: "then_run m f = Ret b \<Longrightarrow> (\<And>a. m = Ret a \<Longrightarrow> f a = Ret b \<Longrightarrow> thesis) \<Longrightarrow> thesis"
  by (auto simp only: then_run_Ret_iff)

lemma after_match: "then_run m (\<lambda>b. if \<not> b then Ret x else f) = Ret y \<Longrightarrow> y = x \<or> m = Ret True \<and> f = Ret y"
  by (erule then_run_RetE) (simp split: if_split_asm)

lemma update_singlesig_cases:
  assumes "update_singlesig_output V kc net flags iter path is_change script no_info = Ret info"
  shows "info = no_info \<or> (\<exists>v expected. flags AND PSBT_SIGNING_SINGLESIG \<noteq> 0
      \<and> verify_singlesig_script_matches (sv_wallet V) kc net v (ki_hdkey iter) (Some script) = Ret True
      \<and> wallet_is_expected_singlesig_path net v is_change path = Ret expected
      \<and> (if expected then Ret (mark_validated is_change no_info)
         else path_warning ''Unusual receive path: '' path (mark_validated is_change no_info)) = Ret info)"
proof (cases "flags AND PSBT_SIGNING_SINGLESIG = 0")
  case True
  with assms show ?thesis by (simp add: update_singlesig_output_def jade_assert_Ret)
next
  case False
  show ?thesis
  proof (cases "Option.bind (script_type_of (pl_address (sv_psbt V)) script) get_singlesig_variant_from_script_type")
    case None
    with False assms show ?thesis
      by (cases "script_type_of (pl_address (sv_psbt V)) script") (simp_all add: update_singlesig_output_def jade_assert_Ret)
  next
    case (Some v)
    then obtain type where "script_type_of (pl_address (sv_psbt V)) script = Some type"
      "get_singlesig_variant_from_script_type type = Some v" by (auto simp: bind_eq_Some_conv)
    with False assms have "then_run (verify_singlesig_script_matches (sv_wallet V) kc net v (ki_hdkey iter) (Some script))
      (\<lambda>matches. if \<not> matches then Ret no_info
        else then_run (wallet_is_expected_singlesig_path net v is_change path) (\<lambda>expected.
          if expected then Ret (mark_validated is_change no_info)
          else path_warning ''Unusual receive path: '' path (mark_validated is_change no_info))) = Ret info"
      by (simp only: update_singlesig_output_def jade_assert_Ret if_False option.case Let_def)
    from after_match [OF this] show ?thesis
    proof
      assume m: "verify_singlesig_script_matches (sv_wallet V) kc net v (ki_hdkey iter) (Some script) = Ret True
        \<and> then_run (wallet_is_expected_singlesig_path net v is_change path) (\<lambda>expected.
          if expected then Ret (mark_validated is_change no_info)
          else path_warning ''Unusual receive path: '' path (mark_validated is_change no_info)) = Ret info"
      then obtain expected where "wallet_is_expected_singlesig_path net v is_change path = Ret expected"
        "(if expected then Ret (mark_validated is_change no_info)
          else path_warning ''Unusual receive path: '' path (mark_validated is_change no_info)) = Ret info"
        by (blast elim: then_run_RetE)
      with m False show ?thesis by blast
    qed simp
  qed
qed

lemma update_singlesig_hidden:
  assumes "update_singlesig_output V kc net flags iter path is_change script no_info = Ret info" and "hidden info"
  shows "flags AND PSBT_SIGNING_SINGLESIG \<noteq> 0 \<and> is_change \<and> own_singlesig V kc net iter path script"
proof -
  from update_singlesig_cases [OF assms(1)] assms(2) obtain v expected where v: "flags AND PSBT_SIGNING_SINGLESIG \<noteq> 0"
    "verify_singlesig_script_matches (sv_wallet V) kc net v (ki_hdkey iter) (Some script) = Ret True"
    "wallet_is_expected_singlesig_path net v is_change path = Ret expected"
    and info: "(if expected then Ret (mark_validated is_change no_info)
         else path_warning ''Unusual receive path: '' path (mark_validated is_change no_info)) = Ret info" by auto
  have expected using info assms(2) path_warning_message by (auto split: if_split_asm)
  with info assms(2) have is_change by (cases is_change) (auto simp: not_hidden_receive)
  have "wallet_build_singlesig_script (sv_wallet V) kc net v (ki_hdkey iter) WALLY_SCRIPTPUBKEY_P2WSH_LEN = Ret (Some script)"
    using v(2) by (auto simp: verify_singlesig_script_matches_def jade_assert_Ret then_run_Ret_iff split: if_split_asm)
  with v(1,3) \<open>expected\<close> \<open>is_change\<close> show ?thesis by (auto simp: own_singlesig_def)
qed

lemma update_multisig_cases:
  assumes "update_multisig_output V kc p net sp iter num_keys path is_change script no_info = Ret info"
  shows "(sp_multisig sp = None) \<noteq> (sp_descriptor sp = None)" and "info = no_info \<or>
    (case sp_multisig sp of None \<Rightarrow> Ret True
       | Some d \<Rightarrow> verify_multisig_script_matches (sv_wallet V) (pl_keypaths (sv_psbt V)) kc p d
           (drop (path_get_unhardened_tail_index path) path) iter (Some script)) = Ret True
    \<and> (case sp_descriptor sp of None \<Rightarrow> Ret True
       | Some d \<Rightarrow> verify_descriptor_script_matches (sv_descriptors V) kc p d net
           (drop (path_get_unhardened_tail_index path) path) iter (Some script)) = Ret True
    \<and> (if wallet_is_expected_multisig_path (unat (ki_key_index iter)) is_change
           (drop (path_get_unhardened_tail_index path) path) then Ret (mark_validated is_change no_info)
         else path_warning ''Unusual change path suffix: '' path (mark_validated is_change no_info)) = Ret info"
proof -
  let ?tail = "drop (path_get_unhardened_tail_index path) path"
  let ?multi = "case sp_multisig sp of None \<Rightarrow> Ret True
       | Some d \<Rightarrow> verify_multisig_script_matches (sv_wallet V) (pl_keypaths (sv_psbt V)) kc p d ?tail iter (Some script)"
  let ?descr = "case sp_descriptor sp of None \<Rightarrow> Ret True
       | Some d \<Rightarrow> verify_descriptor_script_matches (sv_descriptors V) kc p d net ?tail iter (Some script)"
  let ?rest = "if wallet_is_expected_multisig_path (unat (ki_key_index iter)) is_change ?tail then Ret (mark_validated is_change no_info)
         else path_warning ''Unusual change path suffix: '' path (mark_validated is_change no_info)"
  from assms show "(sp_multisig sp = None) \<noteq> (sp_descriptor sp = None)"
    by (simp_all only: update_multisig_output_def jade_assert_Ret Let_def) simp
  from assms have run: "then_run ?multi (\<lambda>matches. if \<not> matches then Ret no_info
      else then_run ?descr (\<lambda>matches. if \<not> matches then Ret no_info else ?rest)) = Ret info"
    by (simp only: update_multisig_output_def jade_assert_Ret Let_def)
  show "info = no_info \<or> ?multi = Ret True \<and> ?descr = Ret True \<and> ?rest = Ret info"
    using after_match [OF run] by (auto dest!: after_match)
qed

lemma update_multisig_hidden:
  assumes "update_multisig_output V kc p net sp iter num_keys path is_change script no_info = Ret info" and "hidden info"
  shows "is_change \<and> own_registered V kc p net sp iter path script"
proof -
  let ?tail = "drop (path_get_unhardened_tail_index path) path"
  note one = update_multisig_cases(1) [OF assms(1)]
  from update_multisig_cases(2) [OF assms(1)] assms(2) have m: "(case sp_multisig sp of None \<Rightarrow> Ret True
       | Some d \<Rightarrow> verify_multisig_script_matches (sv_wallet V) (pl_keypaths (sv_psbt V)) kc p d ?tail iter (Some script)) = Ret True"
    and d: "(case sp_descriptor sp of None \<Rightarrow> Ret True
       | Some d \<Rightarrow> verify_descriptor_script_matches (sv_descriptors V) kc p d net ?tail iter (Some script)) = Ret True"
    and info: "(if wallet_is_expected_multisig_path (unat (ki_key_index iter)) is_change ?tail then Ret (mark_validated is_change no_info)
         else path_warning ''Unusual change path suffix: '' path (mark_validated is_change no_info)) = Ret info" by auto
  have expected: "wallet_is_expected_multisig_path (unat (ki_key_index iter)) is_change ?tail"
    using info assms(2) path_warning_message by (auto split: if_split_asm)
  with info assms(2) have is_change by (cases is_change) (auto simp: not_hidden_receive)
  with one m d expected show ?thesis
    unfolding own_registered_def Let_def by (cases "sp_multisig sp"; cases "sp_descriptor sp") simp_all
qed

lemma update_green_hidden:
  assumes "update_green_output V p net iter num_keys path script no_info st = Ret (info, t)" and "hidden info"
    and "key_iter_get_num_keys p iter = Ret num_keys"
  shows "own_green V p net st iter path script"
proof -
  from assms(1,2) obtain key where green: "is_green_multisig_signers (sv_wallet V) (pl_keypaths (sv_psbt V)) (keychain_get st) p net
      iter (num_keys = 3) = Ret (True, key)"
    and "if ki_is_ga_2of3_recovery_key iter then True else (\<exists>t. verify_ga_script_matches (sv_wallet V) (sv_psbt V) net (ki_hdkey iter)
             (if num_keys = 3 then map_option (pl_with_pub_key (sv_psbt V)) key else None) path (Some script) st = Ret (True, t))"
    unfolding update_green_output_def
    by (auto simp: run_simps inspect_Ret from_run_Ret insist_Ret_iff give_Ret_iff split: if_split_asm)
  with assms(3) show ?thesis unfolding own_green_def by blast
qed

text \<open>What \<^verbatim>\<open>update_output\<close> does for an output of the wallet that is not an MWEB output.\<close>

definition judge_output ::
  "('s, 'h, 'i, 'x, 'd) sign_env \<Rightarrow> wallet_psbt \<Rightarrow> network_t \<Rightarrow> spending \<Rightarrow> 'x keychain_t option \<Rightarrow> 'x key_iter \<Rightarrow> u32 list
    \<Rightarrow> bytes \<Rightarrow> nat \<Rightarrow> (('s, 'x) keychain_state, output_info_t) act" where
  "judge_output V p net sp kc iter path script num_keys =
     (if num_keys = 1
      then from_run (update_singlesig_output V kc net (sp_flags sp) iter path
        (length path \<ge> 2 \<and> path ! (length path - 2) = 1) script no_info)
      else if sp_flags sp = PSBT_SIGNING_GREEN_MULTISIG OR PSBT_SIGNING_MULTISIG_CHANGE_ABANDONED
      then update_green_output V p net iter num_keys path script no_info
      else if sp_flags sp = PSBT_SIGNING_MULTISIG OR PSBT_SIGNING_SINGLE_MULTISIG_RECORD
      then from_run (update_multisig_output V kc p net sp iter num_keys path
        (length path \<ge> 2 \<and> path ! (length path - 2) = 1) script no_info)
      else give no_info)"

lemma update_output_cases:
  assumes "update_output V p net sp n no_info st = Ret (info, t)"
    and "\<not> MWEB_OUT_IS_MWEB (po_mweb_output_keyset (ps_outputs (wp_psbt p) ! n))"
  obtains (nothing) "info = no_info"
    | (judged) iter path script num_keys
      where "key_iter_output_begin_public (sv_wallet V) (pl_keypaths (sv_psbt V)) (keychain_get st) p n = Ret iter"
      and "ki_is_valid iter" and "key_iter_get_path (pl_keypaths (sv_psbt V)) p iter MAX_PATH_LEN = Ret (Some path)"
      and "pl_output_script (sv_psbt V) p n WALLY_SCRIPTPUBKEY_P2WSH_LEN = Some script"
      and "key_iter_get_num_keys p iter = Ret num_keys"
      and "judge_output V p net sp (keychain_get st) iter path script num_keys st = Ret (info, t)"
proof -
  let ?P = "pl_keypaths (sv_psbt V)"
  from assms obtain iter where iter: "key_iter_output_begin_public (sv_wallet V) ?P (keychain_get st) p n = Ret iter"
    and 1: "(if \<not> ki_is_valid iter then give no_info
        else andthen (from_run (key_iter_get_path ?P p iter MAX_PATH_LEN)) (\<lambda>path. case path of
          None \<Rightarrow> give no_info
        | Some path \<Rightarrow>
            (case pl_output_script (sv_psbt V) p n WALLY_SCRIPTPUBKEY_P2WSH_LEN of
               None \<Rightarrow> give no_info
             | Some script \<Rightarrow> andthen (from_run (key_iter_get_num_keys p iter))
                 (judge_output V p net sp (keychain_get st) iter path script)))) st = Ret (info, t)"
    unfolding update_output_def judge_output_def
    by (auto simp only: if_False andthen_Ret_iff insist_Ret_iff inspect_Ret Let_def from_run_Ret)
  show thesis
  proof (cases "info = no_info")
    case False
    with 1 have valid: "ki_is_valid iter" by (auto simp: give_Ret_iff split: if_split_asm)
    with 1 False obtain path where path: "key_iter_get_path ?P p iter MAX_PATH_LEN = Ret (Some path)"
      and 2: "(case pl_output_script (sv_psbt V) p n WALLY_SCRIPTPUBKEY_P2WSH_LEN of
               None \<Rightarrow> give no_info
             | Some script \<Rightarrow> andthen (from_run (key_iter_get_num_keys p iter))
                 (judge_output V p net sp (keychain_get st) iter path script)) st = Ret (info, t)"
      by (auto simp: andthen_Ret_iff from_run_Ret give_Ret_iff split: option.split_asm)
    from 2 False obtain script where script: "pl_output_script (sv_psbt V) p n WALLY_SCRIPTPUBKEY_P2WSH_LEN = Some script"
      and 3: "andthen (from_run (key_iter_get_num_keys p iter)) (judge_output V p net sp (keychain_get st) iter path script) st
        = Ret (info, t)"
      by (cases "pl_output_script (sv_psbt V) p n WALLY_SCRIPTPUBKEY_P2WSH_LEN") (auto simp: give_Ret_iff)
    from 3 obtain num_keys where num: "key_iter_get_num_keys p iter = Ret num_keys"
      and j: "judge_output V p net sp (keychain_get st) iter path script num_keys st = Ret (info, t)"
      by (auto simp: andthen_Ret_iff from_run_Ret)
    show thesis by (rule judged [OF iter valid path script num j])
  qed (rule nothing)
qed

lemma update_output_hidden:
  assumes "update_output V p net sp n no_info st = Ret (info, t)" and "hidden info"
    and "\<not> MWEB_OUT_IS_MWEB (po_mweb_output_keyset (ps_outputs (wp_psbt p) ! n))"
  shows "own_change V p net sp st n"
proof (rule update_output_cases [OF assms(1,3)])
  assume "info = no_info"
  with assms(2) show ?thesis by simp
next
  fix iter path script num_keys
  assume iter: "key_iter_output_begin_public (sv_wallet V) (pl_keypaths (sv_psbt V)) (keychain_get st) p n = Ret iter"
    and valid: "ki_is_valid iter" and path: "key_iter_get_path (pl_keypaths (sv_psbt V)) p iter MAX_PATH_LEN = Ret (Some path)"
    and script: "pl_output_script (sv_psbt V) p n WALLY_SCRIPTPUBKEY_P2WSH_LEN = Some script"
    and num: "key_iter_get_num_keys p iter = Ret num_keys"
    and run: "judge_output V p net sp (keychain_get st) iter path script num_keys st = Ret (info, t)"
  note run = run [unfolded judge_output_def]
  show ?thesis
    unfolding own_change_def
  proof (intro exI conjI)
    show "if sp_flags sp = PSBT_SIGNING_GREEN_MULTISIG OR PSBT_SIGNING_MULTISIG_CHANGE_ABANDONED
          then own_green V p net st iter path script
        else if sp_flags sp = PSBT_SIGNING_MULTISIG OR PSBT_SIGNING_SINGLE_MULTISIG_RECORD
          then 2 \<le> length path \<and> path ! (length path - 2) = 1 \<and> own_registered V (keychain_get st) p net sp iter path script
        else sp_flags sp AND PSBT_SIGNING_SINGLESIG \<noteq> 0 \<and> 2 \<le> length path \<and> path ! (length path - 2) = 1
          \<and> own_singlesig V (keychain_get st) net iter path script"
    proof (cases "num_keys = 1")
      case True
      with run have "update_singlesig_output V (keychain_get st) net (sp_flags sp) iter path
          (length path \<ge> 2 \<and> path ! (length path - 2) = 1) script no_info = Ret info" by (simp add: from_run_Ret)
      from update_singlesig_hidden [OF this assms(2)] show ?thesis
        using flags_bits(1,2) by (simp split: if_split) metis
    next
      case False
      consider (green) "sp_flags sp = PSBT_SIGNING_GREEN_MULTISIG OR PSBT_SIGNING_MULTISIG_CHANGE_ABANDONED"
        | (registered) "sp_flags sp = PSBT_SIGNING_MULTISIG OR PSBT_SIGNING_SINGLE_MULTISIG_RECORD"
          "sp_flags sp \<noteq> PSBT_SIGNING_GREEN_MULTISIG OR PSBT_SIGNING_MULTISIG_CHANGE_ABANDONED"
        | (other) "sp_flags sp \<noteq> PSBT_SIGNING_GREEN_MULTISIG OR PSBT_SIGNING_MULTISIG_CHANGE_ABANDONED"
          "sp_flags sp \<noteq> PSBT_SIGNING_MULTISIG OR PSBT_SIGNING_SINGLE_MULTISIG_RECORD" by blast
      then show ?thesis
      proof cases
        case green
        with False run have "update_green_output V p net iter num_keys path script no_info st = Ret (info, t)" by simp
        from update_green_hidden [OF this assms(2) num] green show ?thesis by simp
      next
        case registered
        with False run have "update_multisig_output V (keychain_get st) p net sp iter num_keys path
          (length path \<ge> 2 \<and> path ! (length path - 2) = 1) script no_info = Ret info" by (simp add: from_run_Ret)
        from update_multisig_hidden [OF this assms(2)] registered show ?thesis by simp
      next
        case other
        with False run assms(2) show ?thesis by (auto simp: give_Ret_iff)
      qed
    qed
  qed (use iter valid path script in simp_all)
qed

text \<open>Only MWEB outputs are flagged as such.\<close>

lemma not_mweb_flag [simp]: "\<not> flagged no_info OUTPUT_FLAG_MWEB" "\<not> flagged (mark_validated b no_info) OUTPUT_FLAG_MWEB"
  by (simp_all add: flagged_def no_info_def mark_validated_def mark_def Let_def OUTPUT_FLAG_VALIDATED_def
      OUTPUT_FLAG_CHANGE_def OUTPUT_FLAG_MWEB_def)

lemma path_warning_flags: "path_warning label path info = Ret info' \<Longrightarrow> oi_flags info' = oi_flags info"
  by (auto simp: path_warning_def then_run_Ret_iff printed_def jade_assert_def Let_def split: if_split_asm)

lemma warned_flag: "(if b then Ret (mark_validated c no_info) else path_warning label path (mark_validated c no_info)) = Ret info
    \<Longrightarrow> \<not> flagged info OUTPUT_FLAG_MWEB"
  using not_mweb_flag(2) [of c] path_warning_flags [of label path "mark_validated c no_info" info]
  by (auto simp: flagged_def split: if_split_asm)

lemma update_output_not_mweb:
  assumes "update_output V p net sp n no_info st = Ret (info, t)"
    and "\<not> MWEB_OUT_IS_MWEB (po_mweb_output_keyset (ps_outputs (wp_psbt p) ! n))"
  shows "\<not> flagged info OUTPUT_FLAG_MWEB"
proof (rule update_output_cases [OF assms])
  fix iter path script num_keys
  assume run: "judge_output V p net sp (keychain_get st) iter path script num_keys st = Ret (info, t)"
  let ?c = "length path \<ge> 2 \<and> path ! (length path - 2) = 1"
  from run consider "update_singlesig_output V (keychain_get st) net (sp_flags sp) iter path ?c script no_info = Ret info"
    | "update_green_output V p net iter num_keys path script no_info st = Ret (info, t)"
    | "update_multisig_output V (keychain_get st) p net sp iter num_keys path ?c script no_info = Ret info"
    | "info = no_info"
    by (auto simp: judge_output_def from_run_Ret give_Ret_iff split: if_split_asm)
  then show ?thesis
  proof cases
    case 1
    from update_singlesig_cases [OF this] show ?thesis by (auto dest: warned_flag)
  next
    case 2
    then have "info = no_info \<or> info = mark_validated True no_info"
      unfolding update_green_output_def
      by (auto simp: run_simps inspect_Ret from_run_Ret insist_Ret_iff give_Ret_iff split: if_split_asm)
    then show ?thesis by auto
  next
    case 3
    from update_multisig_cases(2) [OF this] show ?thesis by (auto dest: warned_flag)
  qed simp
qed simp

section \<open>The wallet's key stays\<close>

text \<open>The master key in the keychain; the cached keys of the Green service may change.\<close>

definition master_key :: "('s, 'x) keychain_state \<Rightarrow> 'x option" where
  "master_key st = map_option kd_xpriv (keychain_get st)"

definition keeps_key :: "(('s, 'x) keychain_state, 'a) act \<Rightarrow> bool" where
  "keeps_key m \<longleftrightarrow> (\<forall>st r t. m st = Ret (r, t) \<longrightarrow> master_key t = master_key st)"

named_theorems keeps_intros

lemma keeps_keyD: "keeps_key m \<Longrightarrow> m st = Ret (r, t) \<Longrightarrow> master_key t = master_key st"
  by (simp add: keeps_key_def)

lemma keeps_andthen [keeps_intros]: "keeps_key m \<Longrightarrow> (\<And>a. keeps_key (f a)) \<Longrightarrow> keeps_key (andthen m f)"
  by (auto simp: keeps_key_def andthen_Ret_iff)

lemma keeps_basic [keeps_intros]:
  "keeps_key (give a)" "keeps_key (from_run x)" "keeps_key (insist b)" "keeps_key (on_nvs m')"
  "keeps_key (stored_names names)"
  by (auto simp: keeps_key_def run_simps stored_names_def on_nvs_Ret master_key_def keychain_get_def)

lemma keeps_inspect [keeps_intros]: "(\<And>st. keeps_key (f st)) \<Longrightarrow> keeps_key (inspect f)"
  by (auto simp: keeps_key_def inspect_Ret)

lemma keeps_control [keeps_intros]:
  "(b \<Longrightarrow> keeps_key m) \<Longrightarrow> (\<not> b \<Longrightarrow> keeps_key n) \<Longrightarrow> keeps_key (if b then m else n)"
  "(x = None \<Longrightarrow> keeps_key m) \<Longrightarrow> (\<And>a. x = Some a \<Longrightarrow> keeps_key (f a)) \<Longrightarrow> keeps_key (case x of None \<Rightarrow> m | Some a \<Rightarrow> f a)"
  "(\<And>a b. keeps_key (g a b)) \<Longrightarrow> keeps_key (case y of (a, b) \<Rightarrow> g a b)"
  "(\<And>x. x = z \<Longrightarrow> keeps_key (h x)) \<Longrightarrow> keeps_key (let x = z in h x)"
  by (simp_all split: option.split prod.split)

lemma keeps_cached_service [keeps_intros]: "keeps_key (keychain_cached_service K service b)"
  unfolding keeps_key_def keychain_cached_service_def
  by (auto simp: run_simps master_key_def keychain_get_def inspect_Ret from_run_Ret give_Ret_iff Let_def option.map_comp comp_def
      split: option.split_asm if_split_asm)

lemma keeps_ga_script [keeps_intros]: "keeps_key (wallet_build_ga_script_ex L net user rec csv path len)"
  unfolding wallet_build_ga_script_ex_def wallet_get_gaservice_key_def by (intro keeps_intros)

lemma keeps_update_output [keeps_intros]: "keeps_key (update_output V p net sp n info)"
  unfolding update_output_def update_green_output_def verify_ga_script_matches_def by (intro keeps_intros)

lemma keeps_update_outputs [keeps_intros]: "keeps_key (update_outputs V p net sp ns)"
  by (induction ns) (auto intro!: keeps_intros)

lemma keeps_records [keeps_intros]:
  "keeps_key (first_multisig V p iter path script names)" "keeps_key (first_descriptor V p iter path script net names)"
proof -
  show "keeps_key (first_multisig V p iter path script names)"
    by (induction names) (auto simp: multisig_load_from_storage_def intro!: keeps_intros)
  show "keeps_key (first_descriptor V p iter path script net names)"
    by (induction names) (auto simp: descriptor_load_from_storage_def intro!: keeps_intros)
qed

lemma keeps_track_record [keeps_intros]: "keeps_key (track_record V p net iter script sp)"
  unfolding track_record_def search_records_def get_suitable_multisig_record_def get_suitable_descriptor_record_def
  by (intro keeps_intros)

text \<open>The same of the phases.\<close>

definition same_key :: "(('s, 'x, 'a) phase) \<Rightarrow> bool" where
  "same_key m \<longleftrightarrow> (\<forall>st r t. m st = Ret (r, t) \<longrightarrow> master_key (sn_kc t) = master_key (sn_kc st))"

lemma same_keyD: "same_key m \<Longrightarrow> m st = Ret (r, t) \<Longrightarrow> master_key (sn_kc t) = master_key (sn_kc st)"
  by (simp add: same_key_def)

lemma same_attempt [keeps_intros]: "same_key m \<Longrightarrow> (\<And>a. same_key (f a)) \<Longrightarrow> same_key (attempt m f)"
  unfolding same_key_def by (metis attempt_Ret)

lemma same_basic [keeps_intros]:
  "same_key (carry a)" "same_key (leave e)" "same_key (pure_run x)" "same_key (require b e')" "same_key (from_run y)"
  by (auto simp: same_key_def run_simps from_run_Ret give_Ret_iff)

lemma same_on_kc [keeps_intros]: "keeps_key m \<Longrightarrow> same_key (on_kc m)"
  by (auto simp: same_key_def on_kc_Ret keeps_key_def)

lemma same_control [keeps_intros]:
  "(\<And>st. same_key (g st)) \<Longrightarrow> same_key (inspect g)"
  "(b \<Longrightarrow> same_key m) \<Longrightarrow> (\<not> b \<Longrightarrow> same_key n) \<Longrightarrow> same_key (if b then m else n)"
  "(x = None \<Longrightarrow> same_key m) \<Longrightarrow> (\<And>a. x = Some a \<Longrightarrow> same_key (f a)) \<Longrightarrow> same_key (case x of None \<Rightarrow> m | Some a \<Rightarrow> f a)"
  "(\<And>a c. same_key (h a c)) \<Longrightarrow> same_key (case y of (a, c) \<Rightarrow> h a c)"
  "(\<And>v. v = z \<Longrightarrow> same_key (k v)) \<Longrightarrow> same_key (let v = z in k v)"
  by (simp_all add: same_key_def inspect_def split: option.split prod.split)

lemma same_pass_inputs [keeps_intros]: "same_key (pass_inputs V p net ns ip)"
proof (induction ns arbitrary: ip)
  case (Cons n ns)
  have "same_key (pass_input V p net n ip)"
    unfolding pass_input_def pass_own_input_def by (intro keeps_intros)
  with Cons show ?case by (simp add: same_attempt)
qed (simp add: same_basic)

section \<open>What a successful signing has established\<close>

lemma update_outputs_nth:
  assumes "update_outputs V p net sp ns st = Ret (infos, t)"
  shows "length infos = length ns \<and> (\<forall>j < length ns. \<exists>st1 st2. update_outputs V p net sp (take j ns) st = Ret (take j infos, st1)
    \<and> update_output V p net sp (ns ! j) no_info st1 = Ret (infos ! j, st2))"
  using assms
proof (induction ns arbitrary: infos st)
  case Nil
  then show ?case by (simp add: give_Ret_iff)
next
  case (Cons n ns)
  from Cons.prems obtain info st1 rest where 1: "update_output V p net sp n no_info st = Ret (info, st1)"
    and 2: "update_outputs V p net sp ns st1 = Ret (rest, t)" and infos: "infos = info # rest"
    by (auto simp: andthen_Ret_iff give_Ret_iff)
  note IH = Cons.IH [OF 2]
  have "\<exists>st1 st2. update_outputs V p net sp (take j (n # ns)) st = Ret (take j infos, st1)
    \<and> update_output V p net sp ((n # ns) ! j) no_info st1 = Ret (infos ! j, st2)" if "j < length (n # ns)" for j
    using that IH 1 infos by (cases j) (auto simp: andthen_Ret_iff give_Ret_iff)
  with IH infos show ?case by simp
qed

text \<open>
  An output of the transaction: it is an MWEB output, or it is change in the keychain state
  reached when its turn comes (\<^verbatim>\<open>k0\<close> is the one before the first output; only the cached keys of
  the Green service change on the way), or it was shown and accepted.
\<close>

definition accounted ::
  "('s, 'h, 'i, 'x, 'd) sign_env \<Rightarrow> network_t \<Rightarrow> wallet_psbt \<Rightarrow> spending \<Rightarrow> 'x option \<Rightarrow> ('s, 'x) keychain_state
    \<Rightarrow> wally_tx \<Rightarrow> shown \<Rightarrow> nat \<Rightarrow> bool" where
  "accounted V net p sp key k0 tx new n \<longleftrightarrow>
     MWEB_OUT_IS_MWEB (po_mweb_output_keyset (ps_outputs (wp_psbt p) ! n))
     \<or> (\<exists>infos k. update_outputs V p net sp [0..<n] k0 = Ret (infos, k) \<and> master_key k = key \<and> own_change V p net sp k n)
     \<or> (\<exists>title verified addr warning.
          script_to_address (pl_address (sv_psbt V)) (sv_consts V) net (to_script (tx_outputs tx ! n))
            (to_satoshi (tx_outputs tx ! n) > 0) MAX_ADDRESS_LEN = Ret addr
          \<and> (\<exists>ticker. network_ticker net = Ret ticker
            \<and> (ItemScreen title verified True addr (to_satoshi (tx_outputs tx ! n)) ticker warning, True) \<in> set new))"

lemma examine_Ret:
  assumes "examine V net st = Ret (Inr (tx, ip, infos, amount), st1)"
  obtains st2 kc' where "fetch_tx V (sn_psbt st) = ok tx" and "length (tx_outputs tx) = length (ps_outputs (wp_psbt (sn_psbt st)))"
    and "pass_inputs V (sn_psbt st) net [0..<length (ps_inputs (wp_psbt (sn_psbt st)))] no_pass st = Ret (Inr ip, st2)"
    and "update_outputs V (sn_psbt st) net (ip_spending ip) [0..<length (ps_outputs (wp_psbt (sn_psbt st)))] (sn_kc st2)
      = Ret (infos, kc')"
    and "master_key (sn_kc st2) = master_key (sn_kc st)"
proof -
  from assms have f: "fetch_tx V (sn_psbt st) = ok tx"
    and "\<exists>st2. pass_inputs V (sn_psbt st) net [0..<length (ps_inputs (wp_psbt (sn_psbt st)))] no_pass st = Ret (Inr ip, st2)
      \<and> on_kc (psbt_update_outputs V (sn_psbt st) net (ip_spending ip)) st2 = Ret (Inr infos :: outcome + output_info_t list, st1)"
    unfolding examine_def
    by (auto simp: inspect_Ret Let_def attempt_Inr pure_run_Ret require_Ret from_run_Ret give_Ret_iff split: if_split_asm)
  then obtain st2 where p: "pass_inputs V (sn_psbt st) net [0..<length (ps_inputs (wp_psbt (sn_psbt st)))] no_pass st = Ret (Inr ip, st2)"
    and u: "on_kc (psbt_update_outputs V (sn_psbt st) net (ip_spending ip)) st2 = Ret (Inr infos :: outcome + output_info_t list, st1)"
    by blast
  have len: "length (tx_outputs tx) = length (ps_outputs (wp_psbt (sn_psbt st)))"
    using f unfolding fetch_tx_def by (auto simp: run_simps split: option.split_asm if_split_asm)
  from u obtain kc' where "update_outputs V (sn_psbt st) net (ip_spending ip) [0..<length (ps_outputs (wp_psbt (sn_psbt st)))]
      (sn_kc st2) = Ret (infos, kc')"
    by (auto simp: on_kc_Ret psbt_update_outputs_def andthen_Ret_iff insist_Ret_iff)
  from that [OF f len p this] same_keyD [OF same_pass_inputs p] show thesis by simp
qed

lemma examined_accounted:
  fixes V :: "('s, 'h, 'i, 'x, 'd) sign_env"
  assumes "examine V net st = Ret (Inr (tx, ip, infos, amount), st1)" and "outputs_accepted V net tx infos new"
    and n: "n < length (ps_outputs (wp_psbt (sn_psbt st)))"
    and pass: "pass_inputs V (sn_psbt st) net [0..<length (ps_inputs (wp_psbt (sn_psbt st)))] no_pass st = Ret (Inr ip, st2)"
  shows "accounted V net (sn_psbt st) (ip_spending ip) (master_key (sn_kc st)) (sn_kc st2) tx new n"
proof -
  let ?p = "sn_psbt st"
  obtain kc' where len: "length (tx_outputs tx) = length (ps_outputs (wp_psbt ?p))"
    and u: "update_outputs V ?p net (ip_spending ip) [0..<length (ps_outputs (wp_psbt ?p))] (sn_kc st2) = Ret (infos, kc')"
    and key: "master_key (sn_kc st2) = master_key (sn_kc st)" by (rule examine_Ret [OF assms(1)]) (use pass in auto)
  from update_outputs_nth [OF u] n obtain k1 k2 where li: "length infos = length (ps_outputs (wp_psbt ?p))"
    and before: "update_outputs V ?p net (ip_spending ip) [0..<n] (sn_kc st2) = Ret (take n infos, k1)"
    and one: "update_output V ?p net (ip_spending ip) n no_info k1 = Ret (infos ! n, k2)"
    by (auto simp: take_upt)
  have k1: "master_key k1 = master_key (sn_kc st2)" by (rule keeps_keyD [OF keeps_update_outputs before])
  show ?thesis
  proof (cases "MWEB_OUT_IS_MWEB (po_mweb_output_keyset (ps_outputs (wp_psbt ?p) ! n))")
    case True
    then show ?thesis by (simp add: accounted_def)
  next
    case std: False
    show ?thesis
    proof (cases "hidden (infos ! n)")
      case True
      from update_output_hidden [OF one True std] key k1 before show ?thesis
        unfolding accounted_def by (metis (no_types, lifting))
    next
      case False
      with update_output_not_mweb [OF one std]
      have d: "display_output (tx_outputs tx ! n) (Some (infos ! n)) True" by (simp add: display_output_True)
      have "(tx_outputs tx ! n, Some (infos ! n)) \<in> set (with_info tx (Some infos))"
        using n len li by (auto simp: with_info_def in_set_zip intro!: exI [of _ n])
      with assms(2) d obtain k tot scr where "output_screen (pl_address (sv_psbt V)) (sv_consts V) net k tot (tx_outputs tx ! n)
          (Some (infos ! n)) = Ret scr" "(scr, True) \<in> set new" by (fastforce simp: outputs_accepted_def)
      then show ?thesis unfolding accounted_def output_screen_def by (auto simp: run_simps)
    qed
  qed
qed

lemma ask_user_outputs:
  assumes "ask_user V net tx ip infos amount st = Ret (Inr u, t)"
  shows "\<exists>new. sn_shown t = sn_shown st @ new \<and> list_all snd new \<and> outputs_accepted V net tx infos new"
proof -
  from assms obtain st1 where
    1: "confirm (show_btc_transaction_outputs_activity (sv_user V) (pl_address (sv_psbt V)) (sv_consts V) net tx (Some infos)) st
        = Ret (Inr (), st1)"
    and rest: "attempt (show_mweb V net) (\<lambda>_. attempt (show_fee V net tx infos ip amount) (\<lambda>_. warn_nothing ip)) st1 = Ret (Inr u, t)"
    by (auto simp: ask_user_def attempt_Inr)
  from 1 obtain log where log: "show_btc_transaction_outputs_activity (sv_user V) (pl_address (sv_psbt V)) (sv_consts V) net tx (Some infos)
      (sn_shown st) = Ret (True, log)" and st1: "st1 = st\<lparr>sn_shown := log\<rparr>" by (auto simp: confirm_Inr)
  from btc_outputs_accepted [OF log] obtain a where a: "log = sn_shown st @ a" "list_all snd a"
    and outs: "outputs_accepted V net tx infos a" by (auto simp: adds_def outputs_accepted_def)
  have "calm (attempt (show_mweb V net) (\<lambda>_. attempt (show_fee V net tx infos ip amount) (\<lambda>_. warn_nothing ip)))"
    by (intro calm_intros)
  from calmD [OF this rest] obtain b where b: "sn_shown t = sn_shown st1 @ b" "list_all snd b" by auto
  have "outputs_accepted V net tx infos (a @ b)" using outs by (rule accepted_mono) auto
  with a b st1 show ?thesis by auto
qed

lemma sign_psbt_succeeds:
  assumes "sign_psbt V net st = Some (Ret ((0, e), t))" and "restorable V (sn_psbt st)" and "signing_laws (sv_psbt V)"
  obtains tx ip st1 st2 where "approve V net (st\<lparr>sn_session := None\<rparr>) = Ret (Inr (tx, ip), st1)"
    and "sign_inputs V tx (enumerate 0 (ip_sig_types ip)) st1 = Some (Ret (Inr (), st2))"
    and "commit_mweb V st2 = Ret (Inr (), t)" and "sn_shown t = sn_shown st1" and "e = None"
    and "std_signed (wp_psbt (sn_psbt st)) (wp_psbt (sn_psbt st2))" and "sn_session st2 = sn_session st1"
proof -
  let ?st = "st\<lparr>sn_session := None\<rparr>" and ?p = "sn_psbt st"
  have r: "restorable V (sn_psbt ?st)" "sn_session ?st = None" using assms(2) by simp_all
  from assms(1) obtain x where x: "sign_psbt_steps V net ?st = Some (Ret x)" "((0, e), t) = cleanup x"
    by (auto simp: sign_psbt_def then_run_Ret_iff split: run.split_asm if_split_asm)
  have code: "fst e' = 0" if "x = (Inl e', t1)" for e' t1 using x(2) that by (auto simp: cleanup_def)
  from x(1) [unfolded sign_psbt_steps_def, THEN resume_Ret [THEN iffD1]] code approve_fails [OF _ r(2,1)]
  obtain tx ip st1 where a: "approve V net ?st = Ret (Inr (tx, ip), st1)"
    and b: "resume (sign_inputs V tx (enumerate 0 (ip_sig_types ip)) st1) (\<lambda>_ st. Some (commit_mweb V st)) = Some (Ret x)"
    by fastforce
  have p1: "sn_psbt st1 = ?p" and u1: "untouched V net ?p st1" by (rule approve_succeeds [OF a r(2,1)]; simp)+
  from b [THEN resume_Ret [THEN iffD1]] code sign_inputs_only_sign [OF assms(3)]
  obtain st2 where s: "sign_inputs V tx (enumerate 0 (ip_sig_types ip)) st1 = Some (Ret (Inr (), st2))" and c: "commit_mweb V st2 = Ret x"
    by (fastforce simp: only_signs_def)
  from sign_inputs_only_sign [OF assms(3) s] p1
  have o: "std_signed (wp_psbt ?p) (wp_psbt (sn_psbt st2))" "sn_session st2 = sn_session st1" "sn_shown st2 = sn_shown st1"
    by (auto simp: only_signs_def)
  obtain r' t1 where x1: "x = (r', t1)" by (cases x)
  have "sn_session st2 = None \<or> (\<exists>s ps. begun V net (wp_psbt ?p) s \<and> sn_session st2 = confirm_all ps (Some s))"
    using u1 o(2) by (simp add: untouched_def)
  from commit_mweb_Ret [OF c [unfolded x1] assms(2) o(1) this]
  have t1: "sn_session t1 = None" "sn_shown t1 = sn_shown st2" "\<forall>e. r' = Inl e \<longrightarrow> fst e \<noteq> 0" by blast+
  have ok: "r' = Inr ()" using t1(3) code x1 by (cases r') auto
  with x(2) x1 t1(1) have "t = t1" "e = None" by (simp_all add: cleanup_def)
  with that [OF a s] c x1 ok t1(2) o show thesis by simp
qed

end
