(* ===== verification/Jade_Signpsbt_Theorems.thy ===== *)
theory Jade_Signpsbt_Theorems
  imports Jade_Change Mweb_Session_Theorems Jade_Multisig_Theorems
begin

text \<open>
  The properties of \<^verbatim>\<open>sign_psbt\<close>: it returns; what was shown and accepted when it succeeds;
  what is left of the PSBT when it does not; and the examples, a complete signing of the
  session's example PSBT and one of a PSBT without MWEB parts.
\<close>

section \<open>A device for the examples\<close>

text \<open>A library for which no transparent key is the wallet's and every keypath is its fingerprint's.\<close>

definition demo_keypaths :: "unit keypath_lib" where
  "demo_keypaths = \<lparr>keypath_get_key = (\<lambda>_ _ _ _. Some None), keypath_path = (\<lambda>_ _. None),
     keypath_fingerprint = (\<lambda>_ _. Some [4, 3, 2, 1]), map_get_integer = (\<lambda>_ _. False), map_find = (\<lambda>_ _. Some 1),
     map_item_key = (\<lambda>_ _. None)\<rparr>"

definition demo_addresses :: address_lib where
  "demo_addresses = \<lparr>script_type_of = (\<lambda>_. Some WALLY_SCRIPT_TYPE_P2WPKH), segwit_address = (\<lambda>_ _. Some ''addr''),
     base58_check = (\<lambda>_. None), hex_text = (\<lambda>_. None), confidential_segwit = (\<lambda>_ _ _ _. None),
     confidential_base58 = (\<lambda>_ _ _. None), address_script = (\<lambda>_ _. None), segwit_script = (\<lambda>_ _. None)\<rparr>"

definition demo_tx :: "nat \<Rightarrow> u64 \<Rightarrow> wally_tx" where
  "demo_tx ins satoshi = \<lparr>tx_num_inputs = ins, tx_outputs = [\<lparr>to_satoshi = satoshi, to_script = Some [0x51]\<rparr>], tx_rest = []\<rparr>"

definition demo_psbt_lib :: "wally_tx \<Rightarrow> unit psbt_lib" where
  "demo_psbt_lib tx = \<lparr>pl_keypaths = demo_keypaths, pl_address = demo_addresses, pl_extract = (\<lambda>_. Some tx),
     pl_tx_is_elements = (\<lambda>_. Some False), pl_total_output = (\<lambda>tx. Some (sum_list (map to_satoshi (tx_outputs tx)))),
     pl_signature_type = (\<lambda>_ _. Some 1), pl_output_script = (\<lambda>_ _ _. None), pl_csv_blocks = (\<lambda>_. None),
     pl_signing_script = (\<lambda>_ _. None), pl_scriptcode = (\<lambda>_ _ _. None), pl_signature_hash = (\<lambda>_ _ _ _. None),
     pl_sign_input = (\<lambda>p _ _ _ _. (wp_psbt p, True)), pl_signing_cache = True, pl_with_pub_key = (\<lambda>_. ())\<rparr>"

definition demo_consts :: wally_consts where
  "demo_consts = \<lparr>BIP32_VER_MAIN_PRIVATE = 0x0488ADE4, BIP32_VER_TEST_PRIVATE = 0x04358394, P2PKH_MAINNET = 0, P2PKH_LITECOIN = 0x30,
     P2PKH_LIQUID = 0x39, P2PKH_TESTNET = 0x6f, P2PKH_LIQUID_TESTNET = 0x24, P2PKH_LIQUID_REGTEST = 0xeb, P2SH_MAINNET = 5,
     P2SH_LITECOIN = 0x32, P2SH_LIQUID = 0x27, P2SH_TESTNET = 0xc4, P2SH_LITECOIN_TESTNET = 0x3a, P2SH_LIQUID_TESTNET = 0x13,
     P2SH_LIQUID_REGTEST = 0x4b, CA_PREFIX_LIQUID = 0x0c, CA_PREFIX_LIQUID_TESTNET = 0x17, CA_PREFIX_LIQUID_REGTEST = 4\<rparr>"

definition demo_descriptors :: "unit descriptor_lib" where
  "demo_descriptors = \<lparr>descriptor_parse = (\<lambda>_ _ _ _. None), descriptor_depth = (\<lambda>_. None), descriptor_num_variants = (\<lambda>_. None),
     descriptor_private_ranged = (\<lambda>_. None), descriptor_num_paths = (\<lambda>_. None), descriptor_num_keys = (\<lambda>_. None),
     descriptor_key_features = (\<lambda>_ _. None), descriptor_fingerprint = (\<lambda>_ _. None), descriptor_origin_path_str = (\<lambda>_ _. None),
     descriptor_key = (\<lambda>_ _. None), descriptor_child_path_str = (\<lambda>_ _. None), descriptor_address = (\<lambda>_ _ _. None),
     descriptor_script_max = (\<lambda>_ _ _. None), descriptor_script = (\<lambda>_ _ _. None)\<rparr>"

definition demo_device ::
  "(nvs_flash, 'h, 'i) nvs \<Rightarrow> unit session_env \<Rightarrow> user \<Rightarrow> wally_tx \<Rightarrow> (nvs_flash, 'h, 'i, unit, unit) sign_env" where
  "demo_device N E U tx = \<lparr>sv_nvs = N, sv_junk = [],
     sv_wallet = demo_wallet_lib\<lparr>key_hash160 := (\<lambda>_. [1, 2, 3, 4] @ replicate 16 0)\<rparr>, sv_descriptors = demo_descriptors,
     sv_psbt = demo_psbt_lib tx, sv_consts = demo_consts, sv_mweb = E, sv_user = U\<rparr>"

definition demo_std_input :: std_input where
  "demo_std_input = \<lparr>in_keypaths = empty_map, in_taproot_leaf_paths = empty_map, in_taproot_leaf_scripts = 0,
     in_utxo = Some (100, Some [0x51]), in_sighash = 0\<rparr>"

definition demo_std_output :: std_output where
  "demo_std_output = \<lparr>out_keypaths = empty_map, out_taproot_leaf_paths = empty_map, out_taproot_tree = 0\<rparr>"

definition demo_start :: "psbt \<Rightarrow> (nvs_flash, unit) sign_state" where
  "demo_start p = \<lparr>sn_kc = demo_unlocked fresh_flash, sn_shown = [],
     sn_psbt = \<lparr>wp_psbt = p, wp_inputs = replicate (length (ps_inputs p)) demo_std_input,
       wp_outputs = replicate (length (ps_outputs p)) demo_std_output, wp_version = 2, wp_tx = None\<rparr>,
     sn_session = None, sn_gens = False, sn_progress = []\<rparr>"

text \<open>A PSBT of one foreign input and one transparent output.\<close>

definition demo_plain :: psbt where
  "demo_plain = \<lparr>ps_inputs = [demo_input 0 [] []], ps_outputs = [demo_output\<lparr>po_mweb_output_keyset := 0\<rparr>], ps_mweb_kernels = [],
     ps_has_mweb_tx_offset = 0, ps_mweb_tx_offset = [], ps_has_mweb_stealth_offset = 0, ps_mweb_stealth_offset = []\<rparr>"

lemma demo_device_laws:
  "keypath_laws (pl_keypaths (sv_psbt (demo_device N E U tx)))" "signing_laws (sv_psbt (demo_device N E U tx))"
  by (auto simp: keypath_laws_def signing_laws_def demo_device_def demo_psbt_lib_def demo_keypaths_def std_signed_refl)

lemma demo_restorable: "restorable (demo_device N demo_env U tx) (sn_psbt (demo_start demo_plain))"
  "restorable (demo_device N demo_env U tx) (sn_psbt (demo_start (demo_psbt opk c)))"
  using demo_wally_laws
  by (simp_all add: restorable_def demo_device_def demo_start_def demo_plain_def demo_psbt_def demo_output_def proof_normal_def)

section \<open>A PSBT without MWEB parts\<close>

lemmas act_defs = andthen_def attempt_def from_run_def inspect_def give_def insist_def pure_run_def require_def on_kc_def
  on_screen_def jade_assert_def

lemmas demo_defs = demo_device_def demo_psbt_lib_def demo_start_def

lemma demo_fields [simp]:
  "sn_kc (demo_start p) = demo_unlocked fresh_flash" "sn_shown (demo_start p) = []" "wp_psbt (sn_psbt (demo_start p)) = p"
  "sn_session (demo_start p) = None" "sn_gens (demo_start p) = False"
  "wp_inputs (sn_psbt (demo_start p)) = replicate (length (ps_inputs p)) demo_std_input"
  "wp_outputs (sn_psbt (demo_start p)) = replicate (length (ps_outputs p)) demo_std_output"
  "wp_version (sn_psbt (demo_start p)) = 2" "(demo_start p)\<lparr>sn_kc := demo_unlocked fresh_flash\<rparr> = demo_start p"
  "(demo_start p)\<lparr>sn_session := None\<rparr> = demo_start p"
  "sv_user (demo_device N E U tx) = U" "sv_consts (demo_device N E U tx) = demo_consts"
  "sv_psbt (demo_device N E U tx) = demo_psbt_lib tx" "sv_mweb (demo_device N E U tx) = E"
  "pl_address (demo_psbt_lib tx) = demo_addresses" "pl_keypaths (demo_psbt_lib tx) = demo_keypaths"
  "pl_signing_cache (demo_psbt_lib tx)" "pl_extract (demo_psbt_lib tx) p' = Some tx"
  "pl_tx_is_elements (demo_psbt_lib tx) tx' = Some False"
  by (simp_all add: demo_start_def demo_device_def demo_psbt_lib_def)

lemma demo_kc [simp]: "keychain_get (demo_unlocked s) = Some demo_keychain"
  by (simp add: keychain_get_def demo_unlocked_def)

lemma demo_no_key:
  assumes "n < (if is_in then length (ps_inputs p) else length (ps_outputs p))"
  shows "\<exists>i. key_iter_init L demo_keypaths (Some k) (sn_psbt (demo_start p)) n is_in priv = Ret i \<and> \<not> ki_is_valid i"
  using assms
  by (cases is_in) (simp_all add: key_iter_init_def key_iter_next_def key_iter_get_keypaths_def keypaths_at_def at_next_index_def
     demo_start_def demo_std_input_def demo_std_output_def
     demo_keypaths_def jade_assert_def wally_verify_def find_recovery_key_def empty_map_def Let_def)

lemma demo_pass_std:
  assumes "n < length (ps_inputs p)" and "\<not> MWEB_IN_HAS_OUTPUT_ID (pi_mweb_keyset (ps_inputs p ! n))"
  shows "pass_input (demo_device N E U tx) (sn_psbt (demo_start p)) net n ip (demo_start p)
    = Ret (Inr (unsigned_input (ip\<lparr>ip_input_amount := ip_input_amount ip + 100\<rparr>)), demo_start p)"
proof -
  obtain i where "key_iter_input_begin_public (sv_wallet (demo_device N E U tx)) demo_keypaths (Some demo_keychain) (sn_psbt (demo_start p)) n = Ret i"
    "\<not> ki_is_valid i"
    using demo_no_key [of n True p "sv_wallet (demo_device N E U tx)" demo_keychain False] assms(1)
    by (auto simp: key_iter_input_begin_public_def)
  with assms show ?thesis
    by (simp add: pass_input_def act_defs Let_def demo_defs demo_std_input_def)
qed

lemma demo_update_std:
  assumes "n < length (ps_outputs p)" and "\<not> MWEB_OUT_IS_MWEB (po_mweb_output_keyset (ps_outputs p ! n))"
  shows "update_output (demo_device N E U tx) (sn_psbt (demo_start p)) net sp n no_info (demo_unlocked s)
    = Ret (no_info, demo_unlocked s)"
proof -
  obtain i where "key_iter_output_begin_public (sv_wallet (demo_device N E U tx)) demo_keypaths (Some demo_keychain) (sn_psbt (demo_start p)) n = Ret i"
    "\<not> ki_is_valid i"
    using demo_no_key [of n False p "sv_wallet (demo_device N E U tx)" demo_keychain False] assms(1)
    by (auto simp: key_iter_output_begin_public_def)
  with assms show ?thesis
    by (simp add: update_output_def act_defs Let_def demo_defs flagged_def no_info_def)
qed

lemma demo_plain_simps [simp]: "length (ps_inputs demo_plain) = 1" "length (ps_outputs demo_plain) = 1"
  "\<not> MWEB_IN_HAS_OUTPUT_ID (pi_mweb_keyset (ps_inputs demo_plain ! 0))"
  "\<not> MWEB_OUT_IS_MWEB (po_mweb_output_keyset (ps_outputs demo_plain ! 0))"
  "\<not> sign_psbt_has_mweb_component (Some demo_plain)"
  by (simp_all add: demo_plain_def demo_input_def keyset_simps sign_psbt_has_mweb_component_def)

lemma demo_plain_examined:
  "examine (demo_device N E U (demo_tx 1 90)) NETWORK_BITCOIN (demo_start demo_plain)
    = Ret (Inr (demo_tx 1 90, unsigned_input (no_pass\<lparr>ip_input_amount := 100\<rparr>), [no_info], 90), demo_start demo_plain)"
proof -
  let ?V = "demo_device N E U (demo_tx 1 90)" and ?p = "sn_psbt (demo_start demo_plain)"
  have 1: "fetch_tx ?V ?p = ok (demo_tx 1 90)"
    by (simp add: fetch_tx_def demo_tx_def jade_assert_def WALLY_PSBT_VERSION_0_def)
  have 2: "params_txn_validate (sv_psbt ?V) (demo_tx 1 90) = Ret None"
    by (simp add: params_txn_validate_def demo_defs wally_verify_def)
  have 3: "pass_inputs ?V ?p NETWORK_BITCOIN [0..<1] no_pass (demo_start demo_plain)
      = Ret (Inr (unsigned_input (no_pass\<lparr>ip_input_amount := 100\<rparr>)), demo_start demo_plain)"
    by (simp add: demo_pass_std attempt_def give_def andthen_def) (simp add: no_pass_def)
  have 4: "psbt_update_outputs ?V ?p NETWORK_BITCOIN (ip_spending (unsigned_input (no_pass\<lparr>ip_input_amount := 100\<rparr>)))
      (demo_unlocked fresh_flash) = Ret ([no_info], demo_unlocked fresh_flash)"
    by (simp add: psbt_update_outputs_def act_defs demo_update_std) (simp add: no_pass_def unsigned_input_def)
  have 5: "check_amounts (sv_psbt ?V) (demo_tx 1 90) (unsigned_input (no_pass\<lparr>ip_input_amount := 100\<rparr>)) = ok 90"
    by (simp add: check_amounts_def demo_defs demo_tx_def wally_verify_def total_input_amount_def unsigned_input_def no_pass_def)
  show ?thesis
    using 1 2 3 4 5
    by (simp add: examine_def act_defs Let_def)
qed

lemma demo_plain_asked:
  "\<exists>log. ask_user (demo_device N E (\<lambda>_ _. True) (demo_tx 1 90)) NETWORK_BITCOIN (demo_tx 1 90)
      (unsigned_input (no_pass\<lparr>ip_input_amount := 100\<rparr>)) [no_info] 90 (demo_start demo_plain)
    = Ret (Inr (), (demo_start demo_plain)\<lparr>sn_shown := log\<rparr>)"
proof -
  let ?V = "demo_device N E (\<lambda>_ _. True) (demo_tx 1 90)" and ?ip = "unsigned_input (no_pass\<lparr>ip_input_amount := 100\<rparr>)"
  have "\<exists>log. show_btc_transaction_outputs_activity (\<lambda>_ _. True) demo_addresses demo_consts NETWORK_BITCOIN (demo_tx 1 90)
      (Some [no_info]) [] = Ret (True, log)"
    by (rule exI) code_simp
  then obtain log where log: "show_btc_transaction_outputs_activity (\<lambda>_ _. True) demo_addresses demo_consts NETWORK_BITCOIN (demo_tx 1 90)
      (Some [no_info]) [] = Ret (True, log)" ..
  have mweb: "show_mweb ?V NETWORK_BITCOIN = carry ()"
    by (rule ext) (simp add: show_mweb_def act_defs network_is_litecoin_def)
  have "\<exists>log'. show_btc_fee_confirmation_activity (\<lambda>_ _. True) NETWORK_BITCOIN (demo_tx 1 90) (Some [no_info])
      SCRIPT_FLAVOUR_NONE 100 90 log = Ret (True, log')"
    by (simp add: show_btc_fee_confirmation_activity_def show_btc_final_confirmation_activity_def Let_def act_defs with_info_def
        demo_tx_def no_info_def flagged_def network_is_liquid_def network_ticker_def network_is_litecoin_def ask_def)
  then obtain log' where fee: "show_btc_fee_confirmation_activity (\<lambda>_ _. True) NETWORK_BITCOIN (demo_tx 1 90) (Some [no_info])
      SCRIPT_FLAVOUR_NONE 100 90 log = Ret (True, log')" ..
  have ip: "ip_flavour ?ip = SCRIPT_FLAVOUR_NONE" "total_input_amount ?ip = 100" "sp_flags (ip_spending ?ip) = 0" "ip_mweb_count ?ip = 0"
    by (simp_all add: unsigned_input_def no_pass_def total_input_amount_def)
  show ?thesis
    using log fee ip mweb [simplified]
    by (simp add: ask_user_def act_defs confirm_def show_fee_def warn_nothing_def tell_def) blast
qed

lemma demo_plain_signed:
  "\<exists>t. sign_psbt (demo_device N E (\<lambda>_ _. True) (demo_tx 1 90)) NETWORK_BITCOIN (demo_start demo_plain) = Some (Ret ((0, None), t))"
proof -
  let ?V = "demo_device N E (\<lambda>_ _. True) (demo_tx 1 90)" and ?ip = "unsigned_input (no_pass\<lparr>ip_input_amount := 100\<rparr>)"
  obtain log where a: "ask_user ?V NETWORK_BITCOIN (demo_tx 1 90) ?ip [no_info] 90 (demo_start demo_plain)
      = Ret (Inr (), (demo_start demo_plain)\<lparr>sn_shown := log\<rparr>)" using demo_plain_asked by blast
  have start: "(demo_start demo_plain)\<lparr>sn_session := None\<rparr> = demo_start demo_plain" by (simp add: demo_start_def)
  have b: "begin_mweb ?V NETWORK_BITCOIN (demo_start demo_plain) = Ret (Inr (), demo_start demo_plain)"
    by (simp add: begin_mweb_def give_def)
  have "approve ?V NETWORK_BITCOIN (demo_start demo_plain) = Ret (Inr (demo_tx 1 90, ?ip), (demo_start demo_plain)\<lparr>sn_shown := log\<rparr>)"
    using a b demo_plain_examined [of N E "\<lambda>_ _. True"]
    by (simp add: approve_def act_defs)
  moreover have "sign_inputs ?V (demo_tx 1 90) (enumerate 0 (ip_sig_types ?ip)) ((demo_start demo_plain)\<lparr>sn_shown := log\<rparr>)
      = Some (Ret (Inr (), (demo_start demo_plain)\<lparr>sn_shown := log\<rparr>))"
    by (simp add: unsigned_input_def no_pass_def)
  moreover have "commit_mweb ?V ((demo_start demo_plain)\<lparr>sn_shown := log\<rparr>) = Ret (Inr (), (demo_start demo_plain)\<lparr>sn_shown := log\<rparr>)"
    by (simp add: commit_mweb_def give_def)
  ultimately show ?thesis
    by (simp add: sign_psbt_def network_is_liquid_def start sign_psbt_steps_def resume_def cleanup_def)
qed

section \<open>The complete signing\<close>

abbreviation mweb_device :: "user \<Rightarrow> (nvs_flash, nat, nat \<times> nat, unit, unit) sign_env" where
  "mweb_device U \<equiv> demo_device (libjade_nvs demo_wmap False) demo_env U (demo_tx 2 5)"

lemma demo_psbt_simps [simp]: "length (ps_inputs (demo_psbt opk c)) = 2" "length (ps_outputs (demo_psbt opk c)) = 1"
  "ps_inputs (demo_psbt opk c) ! 0 = demo_input 0x02D7 opk c" "ps_outputs (demo_psbt opk c) ! 0 = demo_output"
  "MWEB_IN_HAS_OUTPUT_ID (pi_mweb_keyset (demo_input 0x02D7 opk c))"
  "\<not> MWEB_IN_HAS_OUTPUT_ID (pi_mweb_keyset (ps_inputs (demo_psbt opk c) ! Suc 0))"
  "MWEB_OUT_IS_MWEB (po_mweb_output_keyset demo_output)" "sign_psbt_has_mweb_component (Some (demo_psbt opk c))"
  by (simp_all add: demo_psbt_def demo_input_def demo_output_def keyset_simps sign_psbt_has_mweb_component_def)

lemma demo_mweb_env [simp]: "mweb_env (demo_device N demo_env U tx) (Some demo_keychain) = demo_env"
  by (simp add: mweb_env_def) (simp add: demo_env_def demo_device_def demo_keychain_def demo_keypaths_def demo_addresses_def
      BIP32_KEY_FINGERPRINT_LEN_def)

definition mweb_pass :: input_pass where
  "mweb_pass = \<lparr>ip_spending = \<lparr>sp_flags = 0, sp_wallet_name = [], sp_multisig = None, sp_descriptor = None\<rparr>,
     ip_sig_types = [0, 0], ip_input_amount = 100, ip_mweb_amount = 11, ip_mweb_count = 1, ip_mweb_incomplete = False,
     ip_flavour = SCRIPT_FLAVOUR_NONE\<rparr>"

lemma demo_pass_mweb:
  "pass_input (demo_device N E U tx) (sn_psbt (demo_start (demo_psbt opk c))) net 0 no_pass (demo_start (demo_psbt opk c))
    = Ret (Inr (unsigned_input (no_pass\<lparr>ip_mweb_amount := 11, ip_mweb_count := 1\<rparr>)), demo_start (demo_psbt opk c))"
proof -
  have "wallet_get_fingerprint (sv_wallet (demo_device N E U tx)) (Some demo_keychain) = Ret [1, 2, 3, 4]"
    by (simp add: wallet_get_fingerprint_def demo_device_def BIP32_KEY_FINGERPRINT_LEN_def)
  then show ?thesis
    by (simp add: pass_input_def act_defs pass_mweb_input_def Let_def demo_keypaths_def)
      (simp add: mweb_input_fields_def demo_input_def one_map_def count_mweb_amount_def unsigned_input_def no_pass_def keyset_simps
        MWEB_IN_SPENT_OUTPUT_PUBKEY_def MWEB_IN_INPUT_FEATURES_def MWEB_IN_ADDRESS_INDEX_def MWEB_IN_INPUT_AMOUNT_def
        MWEB_IN_INPUT_SIGNATURE_KEY_def)
qed

lemma demo_mweb_examined:
  "examine (mweb_device U) NETWORK_LITECOIN (demo_start (demo_psbt opk c))
    = Ret (Inr (demo_tx 2 5, mweb_pass, [mark OUTPUT_FLAG_MWEB no_info], 5), demo_start (demo_psbt opk c))"
proof -
  let ?V = "mweb_device U" and ?p = "sn_psbt (demo_start (demo_psbt opk c))"
  have 1: "fetch_tx ?V ?p = ok (demo_tx 2 5)"
    by (simp add: fetch_tx_def demo_tx_def jade_assert_def WALLY_PSBT_VERSION_0_def)
  have 2: "params_txn_validate (demo_psbt_lib (demo_tx 2 5)) (demo_tx 2 5) = Ret None"
    by (simp add: params_txn_validate_def wally_verify_def)
  have pass: "mweb_pass = unsigned_input ((unsigned_input (no_pass\<lparr>ip_mweb_amount := 11, ip_mweb_count := 1\<rparr>))\<lparr>ip_input_amount := 100\<rparr>)"
    by (simp add: mweb_pass_def unsigned_input_def no_pass_def)
  have 3: "pass_inputs ?V ?p NETWORK_LITECOIN [0, Suc 0] no_pass (demo_start (demo_psbt opk c))
      = Ret (Inr mweb_pass, demo_start (demo_psbt opk c))"
    unfolding pass
    by (simp add: demo_pass_mweb demo_pass_std attempt_def give_def andthen_def) (simp add: unsigned_input_def no_pass_def)
  have 4: "psbt_update_outputs ?V ?p NETWORK_LITECOIN (ip_spending mweb_pass)
      (demo_unlocked fresh_flash) = Ret ([mark OUTPUT_FLAG_MWEB no_info], demo_unlocked fresh_flash)"
    by (simp add: psbt_update_outputs_def act_defs update_output_def mweb_pass_def)
  have 5: "check_amounts (demo_psbt_lib (demo_tx 2 5)) (demo_tx 2 5) mweb_pass = ok 5"
    by (simp add: check_amounts_def demo_psbt_lib_def demo_tx_def wally_verify_def total_input_amount_def mweb_pass_def)
  show ?thesis
    using 1 2 3 4 5
    by (simp add: examine_def act_defs Let_def upt_conv_Cons)
qed

lemma demo_text: "\<exists>t. mweb_bech32_encode_payload (Some demo_address) (Some ''ltcmweb'') (Some 128) = Ret (Some t)"
  by (rule exI) code_simp

lemma demo_payload: "stealth_payload demo_keypaths demo_output = Some demo_address"
  by (simp add: stealth_payload_def demo_keypaths_def demo_output_def one_map_def demo_address_def)

lemma demo_one_address: "one_address demo_keypaths (demo_psbt opk c)"
  using demo_payload by (simp add: one_address_def demo_psbt_def) (simp add: demo_output_def demo_address_def)

lemma demo_title: "count_title ''MWEB Out '' 1 1 = Ret ''MWEB Out 1/1''" "count_title ''Pegout '' 1 1 = Ret ''Pegout 1/1''"
  by code_simp+

lemma demo_peg_address: "script_to_address demo_addresses demo_consts NETWORK_LITECOIN (Some [0x51]) True MAX_ADDRESS_LEN = Ret ''addr''"
  by code_simp

lemma demo_mweb_begun:
  assumes "demo_spent opk c i"
  shows "\<exists>s g pr r. begin_mweb (mweb_device U) NETWORK_LITECOIN (demo_start (demo_psbt opk c))
      = Ret (Inr (), (demo_start (demo_psbt opk c))\<lparr>sn_session := Some s, sn_gens := g, sn_progress := pr\<rparr>)
    \<and> mweb_session_begin demo_env False True (Some (demo_psbt opk c)) 0x06 True = Ret r \<and> br_session r = Some s"
proof -
  let ?p = "demo_psbt opk c"
  obtain r s where r: "mweb_session_begin demo_env False True (Some ?p) 0x06 True = Ret r" "br_err r = MWEB_OK" "br_session r = Some s"
    using demo_begin [OF assms] by blast
  have "list_all proof_normal (ps_outputs ?p)" by (simp add: demo_psbt_def demo_output_def proof_normal_def)
  then have "br_psbt r = Some ?p" using begin_keeps [OF demo_wally_laws _ r(1)] by simp
  with r show ?thesis
    by (simp add: begin_mweb_def Let_def require_def give_def) (simp add: demo_start_def)
qed

lemma demo_session_value:
  assumes "mweb_session_begin demo_env False True (Some (demo_psbt opk c)) 0x06 True = Ret r" and "br_session r = Some s"
  shows "mweb_session_get_output_value (Some s) 0 True = (MWEB_OK, Some 5)"
    and "mweb_session_pegout_count (Some s) = 1" and "\<exists>k. mweb_session_get_pegout (Some s) 0 = (MWEB_OK, Some (5, [0x51], 1, k))"
    and "\<not> mweb_session_has_pegin (Some s)"
proof -
  let ?p = "demo_psbt opk c"
  from session_for_begin [OF demo_wally_laws assms] obtain k f key where
    k: "ps_mweb_kernels ?p = [k]" and sf: "session_for demo_env ?p k f key s" by blast
  have k: "k = demo_psbt_kernel" using k by (simp add: demo_psbt_def)
  have "mweb_outputs ?p = [0]"
    by (simp add: mweb_outputs_def)
  then show "mweb_session_get_output_value (Some s) 0 True = (MWEB_OK, Some 5)"
    by (simp add: session_output_value [OF sf]) (simp add: demo_output_def)
  from sf k have "list_all2 (pegout_entry demo_env) [encode_pegout 5 [0x51]] (ms_pegouts s)"
    by (simp add: session_for_def demo_psbt_kernel_def)
  then obtain e where e: "ms_pegouts s = [e]" "pegout_entry demo_env (encode_pegout 5 [0x51]) e" by (auto simp: list_all2_Cons1)
  have "pegout_decoded (encode_pegout 5 [0x51]) = Some (5, [0x51])" using demo_pegout by (auto simp: pegout_decoded_def split: option.splits)
  with e have "sp_amount e = 5" "sp_script e = [0x51]" by (simp_all add: pegout_entry_def)
  with e show "mweb_session_pegout_count (Some s) = 1" "\<exists>k. mweb_session_get_pegout (Some s) 0 = (MWEB_OK, Some (5, [0x51], 1, k))"
    by (simp_all add: mweb_session_pegout_count_def mweb_session_get_pegout_def)
  show "\<not> mweb_session_has_pegin (Some s)" using sf k by (simp add: session_for_def mweb_session_has_pegin_def demo_psbt_kernel_def)
qed

text \<open>No transparent output is shown; then the MWEB output is.\<close>

lemma demo_nothing_shown:
  "show_btc_transaction_outputs_activity U A w NETWORK_LITECOIN (demo_tx 2 5) (Some [mark OUTPUT_FLAG_MWEB no_info]) log = Ret (True, log)"
  by (simp add: show_btc_transaction_outputs_activity_def displayable_outputs_def with_info_def demo_tx_def act_defs Let_def
      display_output_def flagged_def mark_def no_info_def OUTPUT_FLAG_MWEB_def network_is_liquid_def)

lemma demo_litecoin: "network_is_litecoin NETWORK_LITECOIN = Ret True" "network_ticker NETWORK_LITECOIN = Ret ''LTC''"
    "network_is_liquid NETWORK_LITECOIN = Ret False"
  by (simp_all add: network_is_litecoin_def network_ticker_def network_is_liquid_def)

lemma demo_out_shown:
  assumes "sn_psbt st = sn_psbt (demo_start (demo_psbt opk c))"
    and "snd (mweb_session_get_output_value (sn_session st) 0 True) = Some 5"
  shows "\<exists>scr. show_mweb_out (mweb_device U) NETWORK_LITECOIN 1 1 0 st
    = Ret (if U (sn_shown st) scr then Inr () else Inl declined, st\<lparr>sn_shown := sn_shown st @ [(scr, U (sn_shown st) scr)]\<rparr>)"
proof -
  obtain t where "mweb_bech32_encode_payload (Some demo_address) (Some ''ltcmweb'') (Some 128) = Ret (Some t)" using demo_text ..
  with assms show ?thesis
    by (intro exI [of _ "ItemScreen ''MWEB Out 1/1'' False True t 5 ''LTC'' None"])
      (simp add: show_mweb_out_def act_defs confirm_def need_def demo_payload mweb_network_hrp_def demo_title [simplified]
        show_mweb_output_activity_def demo_litecoin ask_def)
qed

lemma demo_pegout_shown:
  assumes "snd (mweb_session_get_pegout (sn_session st) 0) = Some (5, [0x51], 1, k)"
  shows "\<exists>scr. show_pegout (mweb_device (\<lambda>_ _. True)) NETWORK_LITECOIN 1 0 st
    = Ret (Inr (), st\<lparr>sn_shown := sn_shown st @ [(scr, True)], sn_session := mweb_session_mark_pegout_confirmed (sn_session st) 0\<rparr>)"
  using assms demo_peg_address
  by (intro exI [of _ "ItemScreen ''Pegout 1/1'' False True ''addr'' 5 ''LTC'' None"])
    (simp add: show_pegout_def act_defs confirm_def need_def demo_title [simplified]
        show_mweb_output_activity_def demo_litecoin ask_def)

lemma demo_mweb_asked:
  assumes st: "st = (demo_start (demo_psbt opk c))\<lparr>sn_session := Some s, sn_gens := g, sn_progress := pr\<rparr>"
    and r: "mweb_session_begin demo_env False True (Some (demo_psbt opk c)) 0x06 True = Ret r" "br_session r = Some s"
  shows "\<exists>log. ask_user (mweb_device (\<lambda>_ _. True)) NETWORK_LITECOIN (demo_tx 2 5) mweb_pass [mark OUTPUT_FLAG_MWEB no_info] 5 st
      = Ret (Inr (), st\<lparr>sn_shown := log, sn_session := confirm_all [0] (Some s)\<rparr>)"
    and "\<exists>log. ask_user (mweb_device (\<lambda>_ _. False)) NETWORK_LITECOIN (demo_tx 2 5) mweb_pass [mark OUTPUT_FLAG_MWEB no_info] 5 st
      = Ret (Inl declined, st\<lparr>sn_shown := log\<rparr>)"
proof -
  let ?V = "\<lambda>b. mweb_device (\<lambda>_ _. b)"
  note vals = demo_session_value [OF r]
  have fields: "sn_psbt st = sn_psbt (demo_start (demo_psbt opk c))" "sn_session st = Some s" "sn_shown st = []"
    using st by simp_all
  have none: "confirm (show_btc_transaction_outputs_activity (sv_user (?V b)) (pl_address (sv_psbt (?V b))) (sv_consts (?V b))
      NETWORK_LITECOIN (demo_tx 2 5) (Some [mark OUTPUT_FLAG_MWEB no_info])) st = Ret (Inr (), st)" for b
    by (simp add: confirm_def act_defs demo_nothing_shown)
  have idx: "mweb_output_indices (demo_psbt opk c) = [0]" by (simp add: mweb_output_indices_def)
  from demo_out_shown [OF fields(1), of "\<lambda>_ _. True"] vals(1) fields obtain scr where
    out: "show_mweb_out (?V True) NETWORK_LITECOIN 1 1 0 st = Ret (Inr (), st\<lparr>sn_shown := [(scr, True)]\<rparr>)" by auto
  obtain k where k: "snd (mweb_session_get_pegout (Some s) 0) = Some (5, [0x51], 1, k)" using vals(3) by auto
  obtain scr' where peg: "show_pegout (?V True) NETWORK_LITECOIN 1 0 (st\<lparr>sn_shown := [(scr, True)]\<rparr>)
      = Ret (Inr (), st\<lparr>sn_shown := [(scr, True), (scr', True)], sn_session := confirm_all [0] (Some s)\<rparr>)"
    using demo_pegout_shown [of "st\<lparr>sn_shown := [(scr, True)]\<rparr>" k] k fields by auto
  have no_pegin: "\<not> mweb_session_has_pegin (confirm_all [0] (Some s))" "confirm_all [0] (Some s) \<noteq> None"
    using vals(4) by (simp_all add: totals_confirmed del: confirm_all_Cons)
  have mweb: "show_mweb (?V True) NETWORK_LITECOIN st
      = Ret (Inr (), st\<lparr>sn_shown := [(scr, True), (scr', True)], sn_session := confirm_all [0] (Some s)\<rparr>)"
    using out peg vals(2) no_pegin(1) fields
    by (simp add: show_mweb_def act_defs demo_litecoin Let_def idx show_pegin_def del: confirm_all_Cons)
  obtain y where y: "confirm_all [0] (Some s) = Some y" using no_pegin(2) by blast
  show "\<exists>log. ask_user (?V True) NETWORK_LITECOIN (demo_tx 2 5) mweb_pass [mark OUTPUT_FLAG_MWEB no_info] 5 st
      = Ret (Inr (), st\<lparr>sn_shown := log, sn_session := confirm_all [0] (Some s)\<rparr>)"
    using none [of True] mweb y
    by (intro exI [of _ "[(scr, True), (scr', True), (FinalScreen ''Send Transaction'' (mweb_session_total_fee (Some y)) ''LTC'' None, True)]"])
      (simp add: ask_user_def act_defs show_fee_def confirm_def show_btc_final_confirmation_activity_def demo_litecoin ask_def
        warn_nothing_def mweb_pass_def del: confirm_all_Cons)
  from demo_out_shown [OF fields(1), of "\<lambda>_ _. False"] vals(1) fields obtain scr where
    "show_mweb_out (?V False) NETWORK_LITECOIN 1 1 0 st = Ret (Inl declined, st\<lparr>sn_shown := [(scr, False)]\<rparr>)" by auto
  then have "show_mweb (?V False) NETWORK_LITECOIN st = Ret (Inl declined, st\<lparr>sn_shown := [(scr, False)]\<rparr>)"
    using fields by (simp add: show_mweb_def act_defs demo_litecoin Let_def idx)
  then show "\<exists>log. ask_user (?V False) NETWORK_LITECOIN (demo_tx 2 5) mweb_pass [mark OUTPUT_FLAG_MWEB no_info] 5 st
      = Ret (Inl declined, st\<lparr>sn_shown := log\<rparr>)"
    using none [of False] by (simp add: ask_user_def act_defs) blast
qed

lemma demo_mweb_signed:
  assumes "demo_spent opk c i"
  shows "\<exists>t. sign_psbt (mweb_device (\<lambda>_ _. True)) NETWORK_LITECOIN (demo_start (demo_psbt opk c)) = Some (Ret ((0, None), t))"
    and "\<exists>t. sign_psbt (mweb_device (\<lambda>_ _. False)) NETWORK_LITECOIN (demo_start (demo_psbt opk c)) = Some (Ret (declined, t))"
proof -
  let ?V = "\<lambda>b. mweb_device (\<lambda>_ _. b)" and ?p = "demo_psbt opk c"
  let ?st = "demo_start ?p"
  show "\<exists>t. sign_psbt (?V True) NETWORK_LITECOIN ?st = Some (Ret ((0, None), t))"
  proof -
    obtain s g pr r where b: "begin_mweb (?V True) NETWORK_LITECOIN ?st = Ret (Inr (), ?st\<lparr>sn_session := Some s, sn_gens := g, sn_progress := pr\<rparr>)"
      and r: "mweb_session_begin demo_env False True (Some ?p) 0x06 True = Ret r" "br_session r = Some s"
      using demo_mweb_begun [OF assms] by blast
    let ?st1 = "?st\<lparr>sn_session := Some s, sn_gens := g, sn_progress := pr\<rparr>"
    obtain log where a: "ask_user (?V True) NETWORK_LITECOIN (demo_tx 2 5) mweb_pass [mark OUTPUT_FLAG_MWEB no_info] 5 ?st1
        = Ret (Inr (), ?st1\<lparr>sn_shown := log, sn_session := confirm_all [0] (Some s)\<rparr>)"
      using demo_mweb_asked(1) [OF refl r] by blast
    let ?st2 = "?st1\<lparr>sn_shown := log, sn_session := confirm_all [0] (Some s)\<rparr>"
    have approved: "approve (?V True) NETWORK_LITECOIN ?st = Ret (Inr (demo_tx 2 5, mweb_pass), ?st2)"
      using a b demo_mweb_examined [of "\<lambda>_ _. True"] by (simp add: approve_def act_defs del: confirm_all_Cons)
    have signed: "sign_inputs (?V True) (demo_tx 2 5) (enumerate 0 (ip_sig_types mweb_pass)) ?st2 = Some (Ret (Inr (), ?st2))"
      by (simp add: mweb_pass_def)
    obtain q where q: "mweb_session_commit demo_env (confirm_all [0] (Some s)) (Some ?p) = Ret (MWEB_OK, Some q)"
      using demo_commit [OF assms r] by blast
    have "confirm_all [0] (Some s) \<noteq> None" by (simp only: totals_confirmed) simp
    then obtain y where y: "confirm_all [0] (Some s) = Some y" by blast
    have "\<exists>t. commit_mweb (?V True) ?st2 = Ret (Inr (), t) \<and> sn_session t = None"
      using q y by (simp add: commit_mweb_def require_def give_def del: confirm_all_Cons)
    then obtain t where "commit_mweb (?V True) ?st2 = Ret (Inr (), t)" "sn_session t = None" by blast
    with approved signed show ?thesis
      by (simp add: sign_psbt_def demo_litecoin sign_psbt_steps_def resume_def cleanup_def del: confirm_all_Cons)
  qed
  show "\<exists>t. sign_psbt (?V False) NETWORK_LITECOIN ?st = Some (Ret (declined, t))"
  proof -
    obtain s g pr r where b: "begin_mweb (?V False) NETWORK_LITECOIN ?st = Ret (Inr (), ?st\<lparr>sn_session := Some s, sn_gens := g, sn_progress := pr\<rparr>)"
      and r: "mweb_session_begin demo_env False True (Some ?p) 0x06 True = Ret r" "br_session r = Some s"
      using demo_mweb_begun [OF assms] by blast
    let ?st1 = "?st\<lparr>sn_session := Some s, sn_gens := g, sn_progress := pr\<rparr>"
    obtain log where "ask_user (?V False) NETWORK_LITECOIN (demo_tx 2 5) mweb_pass [mark OUTPUT_FLAG_MWEB no_info] 5 ?st1
        = Ret (Inl declined, ?st1\<lparr>sn_shown := log\<rparr>)"
      using demo_mweb_asked(2) [OF refl r] by blast
    with b have "approve (?V False) NETWORK_LITECOIN ?st = Ret (Inl declined, ?st1\<lparr>sn_shown := log\<rparr>)"
      using demo_mweb_examined [of "\<lambda>_ _. False"] by (simp add: approve_def act_defs)
    then show ?thesis
      by (simp add: sign_psbt_def demo_litecoin sign_psbt_steps_def resume_def cleanup_def)
  qed
qed

section \<open>Signing with the wallet's keys\<close>

text \<open>
  A library for which every key of a map is the wallet's, found from the given item on, and a
  PSBT with an input of two keys: the loop signs with one after the other.
\<close>

definition own_keypaths :: "unit keypath_lib" where
  "own_keypaths = demo_keypaths\<lparr>keypath_get_key := (\<lambda>_ m start key.
     Some (if unat start < length (wm_items m) \<and> start \<noteq> - 1 then Some (key, start + 1) else None))\<rparr>"

definition own_psbt_lib :: "wally_tx \<Rightarrow> unit psbt_lib" where
  "own_psbt_lib tx = (demo_psbt_lib tx)\<lparr>pl_keypaths := own_keypaths, pl_signing_script := (\<lambda>_ _. Some [0x51]),
     pl_scriptcode := (\<lambda>_ _ _. Some [0x51]), pl_signature_hash := (\<lambda>_ _ _ _. Some one32),
     pl_sign_input := (\<lambda>p n k h _. ((wp_psbt p)\<lparr>ps_inputs := (ps_inputs (wp_psbt p))[n := (ps_inputs (wp_psbt p) ! n)
       \<lparr>pi_signatures := \<lparr>wm_items = wm_items (pi_signatures (ps_inputs (wp_psbt p) ! n)) @ [([ucast k], h)], wm_verify_fn = None\<rparr>\<rparr>]\<rparr>, True))\<rparr>"

definition own_device ::
  "(nvs_flash, 'h, 'i) nvs \<Rightarrow> unit session_env \<Rightarrow> user \<Rightarrow> wally_tx \<Rightarrow> (nvs_flash, 'h, 'i, unit, unit) sign_env" where
  "own_device N E U tx = (demo_device N E U tx)\<lparr>sv_psbt := own_psbt_lib tx\<rparr>"

definition own_start :: "(nvs_flash, unit) sign_state" where
  "own_start = (demo_start demo_plain)\<lparr>sn_psbt := (sn_psbt (demo_start demo_plain))\<lparr>wp_inputs :=
     [demo_std_input\<lparr>in_keypaths := \<lparr>wm_items = [([2], []), ([3], [])], wm_verify_fn = None\<rparr>\<rparr>]\<rparr>\<rparr>"

abbreviation "own_two N E \<equiv> own_device N E (\<lambda>_ _. True) (demo_tx 1 90)"

lemma own_fields [simp]:
  "sn_kc own_start = demo_unlocked fresh_flash" "sn_shown own_start = []" "wp_psbt (sn_psbt own_start) = demo_plain"
  "sn_session own_start = None" "wp_version (sn_psbt own_start) = 2" "own_start\<lparr>sn_kc := demo_unlocked fresh_flash\<rparr> = own_start"
  "own_start\<lparr>sn_session := None\<rparr> = own_start"
  "wp_inputs (sn_psbt own_start) = [demo_std_input\<lparr>in_keypaths := \<lparr>wm_items = [([2], []), ([3], [])], wm_verify_fn = None\<rparr>\<rparr>]"
  "wp_outputs (sn_psbt own_start) = [demo_std_output]"
  "sv_user (own_device N E U tx) = U" "sv_consts (own_device N E U tx) = demo_consts"
  "sv_psbt (own_device N E U tx) = own_psbt_lib tx" 
  "sv_wallet (own_device N E U tx) = sv_wallet (demo_device N E U tx)"
  "pl_address (own_psbt_lib tx) = demo_addresses" "pl_keypaths (own_psbt_lib tx) = own_keypaths"
  "pl_signing_cache (own_psbt_lib tx)" "pl_extract (own_psbt_lib tx) p' = Some tx"
  "pl_tx_is_elements (own_psbt_lib tx) tx' = Some False" "pl_signature_type (own_psbt_lib tx) p' n = Some 1"
  by (simp_all add: own_start_def demo_start_def own_device_def demo_device_def own_psbt_lib_def demo_psbt_lib_def demo_plain_def)

definition own_iter :: "bool \<Rightarrow> u32 \<Rightarrow> unit key_iter" where
  "own_iter priv k = \<lparr>ki_hdkey = (), ki_index = 0, ki_key_index = k, ki_is_input = True, ki_is_private = priv,
     ki_is_taproot = False, ki_is_valid = True, ki_is_ga_2of3_recovery_key = False\<rparr>"

lemmas iter_defs = key_iter_init_def key_iter_next_def key_iter_get_keypaths_def keypaths_at_def at_next_index_def
  demo_std_input_def demo_std_output_def own_keypaths_def demo_keypaths_def jade_assert_def wally_verify_def find_recovery_key_def empty_map_def Let_def

lemma own_begin: "key_iter_init L own_keypaths (Some demo_keychain) (sn_psbt own_start) 0 True priv = Ret (own_iter priv 0)"
  by (simp add: iter_defs own_iter_def)

lemma own_not_green: "\<exists>x. is_green_multisig_signers (sv_wallet (demo_device N E U tx)) own_keypaths (Some demo_keychain) (sn_psbt own_start)
    NETWORK_BITCOIN (own_iter False 0) False = Ret (False, x)"
proof -
  let ?L = "sv_wallet (demo_device N E U tx)"
  have "wallet_get_fingerprint ?L (Some demo_keychain) = Ret [1, 2, 3, 4]"
    by (simp add: wallet_get_fingerprint_def demo_device_def BIP32_KEY_FINGERPRINT_LEN_def)
  moreover have "wallet_get_gaservice_fingerprint ?L NETWORK_BITCOIN \<in> {None, Some [1, 2, 3, 4]}"
    by (cases "network_to_ga_service NETWORK_BITCOIN")
      (simp_all add: wallet_get_gaservice_fingerprint_def demo_device_def BIP32_KEY_FINGERPRINT_LEN_def)
  ultimately show ?thesis
    by (auto simp: is_green_multisig_signers_def key_iter_get_num_keys_def key_iter_get_keypaths_def jade_assert_def own_iter_def
        keypaths_at_def upt_conv_Cons green_key_def key_iter_get_fingerprint_at_def wally_verify_def own_keypaths_def demo_keypaths_def)
qed

lemma own_fetched: "fetch_tx (own_two N E) (sn_psbt own_start) = ok (demo_tx 1 90)"
  by (simp add: fetch_tx_def demo_tx_def jade_assert_def WALLY_PSBT_VERSION_0_def)

lemma own_untracked:
  "track_record (own_two N E) (sn_psbt own_start) NETWORK_BITCOIN (own_iter False 0) (Some [0x51])
    \<lparr>sp_flags = PSBT_SIGNING_MULTISIG, sp_wallet_name = [], sp_multisig = None, sp_descriptor = None\<rparr>
    = give \<lparr>sp_flags = PSBT_SIGNING_MULTISIG, sp_wallet_name = [], sp_multisig = None, sp_descriptor = None\<rparr>"
  by (rule ext) (simp add: track_record_def signing_bits act_defs key_iter_get_path_def key_iter_get_path_at_def
      key_iter_get_keypaths_def own_iter_def own_keypaths_def demo_keypaths_def)

lemma own_flavour: "\<exists>x. note_flavour demo_addresses (Some [0x51]) 1 SCRIPT_FLAVOUR_NONE = Ret x"
  by (rule exI) code_simp

lemma own_no_change: "update_output (own_two N E) (sn_psbt own_start) net sp 0 no_info (demo_unlocked s)
    = Ret (no_info, demo_unlocked s)"
    by (simp add: update_output_def act_defs Let_def  flagged_def no_info_def key_iter_output_begin_public_def iter_defs)

lemma own_passed: "\<exists>ip. ip_sig_types ip = [1] \<and> total_input_amount ip = 100 \<and> ip_mweb_count ip = 0 \<and> \<not> ip_mweb_incomplete ip
   \<and> sp_multisig (ip_spending ip) = None \<and> sp_descriptor (ip_spending ip) = None \<and> sp_flags (ip_spending ip) = PSBT_SIGNING_MULTISIG
   \<and> pass_inputs (own_two N E) (sn_psbt own_start) NETWORK_BITCOIN [0..<1] no_pass own_start = Ret (Inr ip, own_start)"
proof -
  obtain x where g: "is_green_multisig_signers (sv_wallet (own_two N E)) own_keypaths (Some demo_keychain) (sn_psbt own_start)
    NETWORK_BITCOIN (own_iter False 0) False = Ret (False, x)" using own_not_green [of N E "\<lambda>_ _. True" "demo_tx 1 90"] by auto
  have valid: "ki_is_valid (own_iter False 0)" by (simp add: own_iter_def)
  obtain f where f: "note_flavour demo_addresses (Some [0x51]) 1 SCRIPT_FLAVOUR_NONE = Ret f" using own_flavour by blast
  have n: "key_iter_get_num_keys (sn_psbt own_start) (own_iter False 0) = Ret 2"
    by (simp add: key_iter_get_num_keys_def key_iter_get_keypaths_def jade_assert_def own_iter_def keypaths_at_def)
  let ?sp = "\<lparr>sp_flags = PSBT_SIGNING_MULTISIG, sp_wallet_name = [], sp_multisig = None, sp_descriptor = None\<rparr>"
  have t: "track_record (own_two N E) (sn_psbt own_start) NETWORK_BITCOIN (own_iter False 0) (Some [0x51]) ?sp st = Ret (?sp, st)" for st
    using own_untracked [of N E] by (simp add: give_def)
  have "pass_own_input (own_two N E) (sn_psbt own_start) NETWORK_BITCOIN 0 (own_iter False 0) (Some [0x51]) (no_pass\<lparr>ip_input_amount := 100\<rparr>) own_start
    = Ret (Inr (no_pass\<lparr>ip_input_amount := 100, ip_spending := ?sp, ip_sig_types := [1], ip_flavour := f\<rparr>), own_start)"
    using g [simplified] f n t [simplified]
    by (simp add: pass_own_input_def act_defs Let_def wally_verify_def demo_std_input_def no_pass_def)
  then have "pass_input (own_two N E) (sn_psbt own_start) NETWORK_BITCOIN 0 no_pass own_start
    = Ret (Inr (no_pass\<lparr>ip_input_amount := 100, ip_spending := ?sp, ip_sig_types := [1], ip_flavour := f\<rparr>), own_start)"
    using valid
    by (simp add: pass_input_def key_iter_input_begin_public_def own_begin act_defs Let_def no_pass_def demo_std_input_def)
  then show ?thesis
    by (intro exI [of _ "no_pass\<lparr>ip_input_amount := 100, ip_spending := ?sp, ip_sig_types := [1], ip_flavour := f\<rparr>"])
     (simp add: attempt_def give_def andthen_def total_input_amount_def no_pass_def)
qed

definition with_signature :: "wallet_psbt \<Rightarrow> nat \<Rightarrow> u32 \<Rightarrow> bytes \<Rightarrow> psbt" where
  "with_signature p n k h = (wp_psbt p)\<lparr>ps_inputs := (ps_inputs (wp_psbt p))[n := (ps_inputs (wp_psbt p) ! n)
       \<lparr>pi_signatures := \<lparr>wm_items = wm_items (pi_signatures (ps_inputs (wp_psbt p) ! n)) @ [([ucast k], h)], wm_verify_fn = None\<rparr>\<rparr>]\<rparr>"

lemma own_signed: "\<exists>t. sign_inputs (own_two N E) tx [(0, 1)] (own_start\<lparr>sn_shown := log\<rparr>) = Some (Ret (Inr (), t))
   \<and> sn_session t = None \<and> wm_items (pi_signatures (ps_inputs (wp_psbt (sn_psbt t)) ! 0)) = [([0], one32), ([1], one32)]"
proof -
  let ?V = "own_two N E"
  have next1: "key_iter_next L own_keypaths (Some demo_keychain) p (own_iter True 0) = Ret (own_iter True 1)"
    and next2: "key_iter_next L own_keypaths (Some demo_keychain) p (own_iter True 1) = Ret ((own_iter True 2)\<lparr>ki_is_valid := False\<rparr>)"
    if "wp_inputs p = wp_inputs (sn_psbt own_start)" for L p
    using that by (simp_all add: iter_defs own_iter_def)
  have i: "ki_is_valid (own_iter b k)" "ki_key_index (own_iter b k) = k" for b k by (simp_all add: own_iter_def)
  have sg: "pl_sign_input (sv_psbt ?V) p n k h x = (with_signature p n k h, True)" for p n k h x
    by (simp add: own_psbt_lib_def with_signature_def)
  have h: "input_hash ?V p tx 0 = Some one32" for p
    by (simp add: input_hash_def own_psbt_lib_def)
  let ?st = "own_start\<lparr>sn_shown := log\<rparr>"
  define st1 where "st1 = ?st\<lparr>sn_psbt := (sn_psbt ?st)\<lparr>wp_psbt := with_signature (sn_psbt ?st) 0 0 one32\<rparr>\<rparr>"
  define st2 where "st2 = st1\<lparr>sn_psbt := (sn_psbt st1)\<lparr>wp_psbt := with_signature (sn_psbt st1) 0 1 one32\<rparr>\<rparr>"
  have w: "wp_inputs (sn_psbt st1) = wp_inputs (sn_psbt own_start)" "wp_inputs (sn_psbt st2) = wp_inputs (sn_psbt own_start)"
    "sn_kc st1 = demo_unlocked fresh_flash" "sn_kc st2 = demo_unlocked fresh_flash" by (simp_all add: st1_def st2_def)
  have "sign_keys ?V 0 one32 ((own_iter True 2)\<lparr>ki_is_valid := False\<rparr>) st2 = Some (Ret (Inr (), st2))"
    by (subst sign_keys.simps) simp
  then have "sign_keys ?V 0 one32 (own_iter True 1) st1 = Some (Ret (Inr (), st2))"
    by (subst sign_keys.simps) (simp add: i sg [simplified] Let_def next2 w st2_def)
  then have "sign_keys ?V 0 one32 (own_iter True 0) ?st = Some (Ret (Inr (), st2))"
    by (subst sign_keys.simps) (simp add: i sg [simplified] Let_def next1 st1_def)
  then have "sign_inputs ?V tx [(0, 1)] ?st = Some (Ret (Inr (), st2))"
    using h [simplified] by (simp add: sign_input_def resume_def key_iter_input_begin_def own_begin)
  moreover have "wm_items (pi_signatures (ps_inputs (wp_psbt (sn_psbt st2)) ! 0)) = [([0], one32), ([1], one32)]"
    by (simp add: st2_def st1_def with_signature_def) (simp add: demo_plain_def demo_input_def empty_map_def)
  moreover have "sn_session st2 = None" by (simp add: st2_def st1_def)
  ultimately show ?thesis by blast
qed

lemma own_asked:
  assumes "total_input_amount ip = 100" "ip_mweb_count ip = 0" "sp_flags (ip_spending ip) = PSBT_SIGNING_MULTISIG"
  shows "\<exists>log. ask_user (own_two N E) NETWORK_BITCOIN (demo_tx 1 90) ip [no_info] 90 own_start
    = Ret (Inr (), own_start\<lparr>sn_shown := log\<rparr>)"
proof -
  have "\<exists>log. show_btc_transaction_outputs_activity (\<lambda>_ _. True) demo_addresses demo_consts NETWORK_BITCOIN (demo_tx 1 90)
      (Some [no_info]) [] = Ret (True, log)"
    by (rule exI) code_simp
  then obtain log where log: "show_btc_transaction_outputs_activity (\<lambda>_ _. True) demo_addresses demo_consts NETWORK_BITCOIN (demo_tx 1 90)
      (Some [no_info]) [] = Ret (True, log)" ..
  have mweb: "show_mweb (own_two N E) NETWORK_BITCOIN = carry ()"
    by (rule ext) (simp add: show_mweb_def act_defs network_is_litecoin_def)
  have "\<exists>log'. show_btc_fee_confirmation_activity (\<lambda>_ _. True) NETWORK_BITCOIN (demo_tx 1 90) (Some [no_info])
      f 100 90 log = Ret (True, log')" for f
    by (simp add: show_btc_fee_confirmation_activity_def show_btc_final_confirmation_activity_def Let_def act_defs with_info_def
        demo_tx_def no_info_def flagged_def network_is_liquid_def network_ticker_def network_is_litecoin_def ask_def)
  then obtain log' where fee: "show_btc_fee_confirmation_activity (\<lambda>_ _. True) NETWORK_BITCOIN (demo_tx 1 90) (Some [no_info])
      (ip_flavour ip) 100 90 log = Ret (True, log')" by blast
  show ?thesis
    using log fee assms mweb [simplified]
    by (simp add: ask_user_def act_defs confirm_def show_fee_def warn_nothing_def tell_def PSBT_SIGNING_MULTISIG_def) blast
qed

lemma own_returned:
  "\<exists>t. sign_psbt (own_two N E) NETWORK_BITCOIN own_start = Some (Ret ((0, None), t))
   \<and> wm_items (pi_signatures (ps_inputs (wp_psbt (sn_psbt t)) ! 0)) = [([0], one32), ([1], one32)]"
proof -
  let ?V = "own_two N E"
  obtain ip where ip: "ip_sig_types ip = [1]" "total_input_amount ip = 100" "ip_mweb_count ip = 0" "\<not> ip_mweb_incomplete ip"
   "sp_multisig (ip_spending ip) = None" "sp_descriptor (ip_spending ip) = None" "sp_flags (ip_spending ip) = PSBT_SIGNING_MULTISIG"
   and pass: "pass_inputs ?V (sn_psbt own_start) NETWORK_BITCOIN [0..<1] no_pass own_start = Ret (Inr ip, own_start)"
   using own_passed [of N E] by blast
  obtain log where a: "ask_user ?V NETWORK_BITCOIN (demo_tx 1 90) ip [no_info] 90 own_start
      = Ret (Inr (), own_start\<lparr>sn_shown := log\<rparr>)" using own_asked [OF ip(2,3,7), of N E] by blast
  have b: "begin_mweb ?V NETWORK_BITCOIN own_start = Ret (Inr (), own_start)"
    by (simp add: begin_mweb_def give_def)
  have 2: "params_txn_validate (sv_psbt ?V) (demo_tx 1 90) = Ret None"
    by (simp add: params_txn_validate_def wally_verify_def)
  have 4: "psbt_update_outputs ?V (sn_psbt own_start) NETWORK_BITCOIN (ip_spending ip)
      (demo_unlocked fresh_flash) = Ret ([no_info], demo_unlocked fresh_flash)"
    using own_no_change [of N E] ip by (simp add: psbt_update_outputs_def act_defs)
  have 5: "check_amounts (sv_psbt ?V) (demo_tx 1 90) ip = ok 90"
    using ip by (simp add: check_amounts_def) (simp add: own_psbt_lib_def demo_psbt_lib_def demo_tx_def wally_verify_def)
  have "examine ?V NETWORK_BITCOIN own_start = Ret (Inr (demo_tx 1 90, ip, [no_info], 90), own_start)"
    using own_fetched [of N E] 2 pass 4 5 by (simp add: examine_def act_defs Let_def)
  then have "approve ?V NETWORK_BITCOIN own_start = Ret (Inr (demo_tx 1 90, ip), own_start\<lparr>sn_shown := log\<rparr>)"
    using a b by (simp add: approve_def act_defs)
  moreover obtain t where "sign_inputs ?V (demo_tx 1 90) [(0, 1)] (own_start\<lparr>sn_shown := log\<rparr>) = Some (Ret (Inr (), t))"
    "sn_session t = None" and t: "wm_items (pi_signatures (ps_inputs (wp_psbt (sn_psbt t)) ! 0)) = [([0], one32), ([1], one32)]"
    using own_signed [of N E "demo_tx 1 90" log] by blast
  moreover from this have "commit_mweb ?V t = Ret (Inr (), t)"
    by (simp add: commit_mweb_def give_def)
  ultimately show ?thesis using ip(1) t
    by (simp add: sign_psbt_def network_is_liquid_def sign_psbt_steps_def resume_def cleanup_def)
qed
lemma own_laws: "keypath_laws (pl_keypaths (sv_psbt (own_device N E U tx)))"
proof -
  have "unat (start + 1) = Suc (unat start)" if "start \<noteq> - 1" for start :: u32
  proof -
    have "start + 1 \<noteq> 0" using that by (simp add: eq_neg_iff_add_eq_0)
    then show ?thesis using unat_minus_one [of "start + 1"] unat_eq_zero [of "start + 1"] by simp
  qed
  then show ?thesis by (auto simp: keypath_laws_def own_keypaths_def split: if_split_asm)
qed

lemma own_found:
  "keypath_get_key (pl_keypaths (sv_psbt (own_device N E U tx))) priv (in_keypaths (wp_inputs (sn_psbt own_start) ! 0)) 0 key = Some (Some (key, 1))"
  by (simp add: own_keypaths_def)

section \<open>Properties\<close>

text \<open>C1: Nothing of an MWEB transaction is signed unseen. If \<^verbatim>\<open>sign_psbt\<close> returns success for a
  PSBT with MWEB parts, then since it was called the user has accepted every screen shown, and
  among them: for each MWEB output its stealth address and its amount, for each pegout of the
  one kernel the address of its script and its amount, the peg-in amount if there is one, and
  the kernel's fee. And the PSBT handed back holds, for each MWEB output, the commitment, keys
  and fields of the recipient derivation for exactly this address and amount. Assumed of the
  PSBT: the stealth address in the map of unknown fields, which the screen reads, is the one in
  the structure, which the session reads (the code does not compare them), and no output holds
  a non-null range proof of length 0. Assumed of libwally: signing an input adds to its maps of
  signatures and changes nothing else, a new map is empty, and a combined one holds the items
  of its source.\<close>

theorem sign_psbt_consent:
  assumes "sign_psbt V net st = Some (Ret ((0, e), t))" and "has_mweb (sn_psbt st)"
    and "restorable V (sn_psbt st)" and "signing_laws (sv_psbt V)"
    and "one_address (pl_keypaths (sv_psbt V)) (wp_psbt (sn_psbt st))"
  shows "\<exists>k new. ps_mweb_kernels (wp_psbt (sn_psbt st)) = [k] \<and> sn_shown t = sn_shown st @ new \<and> list_all snd new
    \<and> (\<forall>n \<in> set (mweb_outputs (wp_psbt (sn_psbt st))). let po = ps_outputs (wp_psbt (sn_psbt st)) ! n in
         (\<exists>amount scr. po_amount po = Some amount \<and> address_screen net po amount scr \<and> (scr, True) \<in> set new)
         \<and> committed_to (sv_mweb V) n po (ps_outputs (wp_psbt (sn_psbt t)) ! n))
    \<and> (\<forall>val \<in> set (pk_pegouts k). \<exists>amount script scr. pegout_decoded val = Some (amount, script)
         \<and> pegout_screen (pl_address (sv_psbt V)) (sv_consts V) net amount script scr \<and> (scr, True) \<in> set new)
    \<and> (\<forall>amount. pk_pegin_amount k = Some amount \<longrightarrow>
         (ItemScreen ''MWEB Pegin'' False False ''Transparent -> MWEB'' amount ''LTC'' None, True) \<in> set new)
    \<and> (FinalScreen ''Send Transaction'' (case pk_fee k of None \<Rightarrow> 0 | Some fee \<Rightarrow> fee) ''LTC'' None, True) \<in> set new"
proof -
  let ?p = "wp_psbt (sn_psbt st)"
  obtain tx ip st1 st2 where a: "approve V net (st\<lparr>sn_session := None\<rparr>) = Ret (Inr (tx, ip), st1)"
    and shown: "sn_shown t = sn_shown st1" and commit: "commit_mweb V st2 = Ret (Inr (), t)"
    and signed: "std_signed ?p (wp_psbt (sn_psbt st2))" "sn_session st2 = sn_session st1"
    by (rule sign_psbt_succeeds [OF assms(1,3,4)])
  obtain infos amount st3 where ask: "ask_user V net tx ip infos amount st3 = Ret (Inr (), st1)"
    and p3: "sn_psbt st3 = sn_psbt st" and "\<exists>new. sn_shown st3 = sn_shown st @ new \<and> list_all snd new"
    and "\<exists>s. sn_session st3 = Some s \<and> begun V net ?p s"
    by (rule approve_succeeds [OF a]) (use assms(2,3) in auto)
  then obtain new0 s kc g r where new0: "sn_shown st3 = sn_shown st @ new0" "list_all snd new0" and s: "sn_session st3 = Some s"
    and r: "mweb_session_begin (mweb_env V kc) g True (Some ?p) (network_value net) True = Ret r" "br_session r = Some s"
    unfolding begun_def by blast
  have "network_is_litecoin net = Ret True"
    by (rule begin_session [OF r]) (simp add: network_value_inj network_of_byte_Some_iff)
  from ask_user_accepted [OF ask this s] obtain new where new: "sn_shown st1 = sn_shown st3 @ new" "list_all snd new"
    and acc0: "mweb_accepted V net ?p s new" unfolding p3 by blast
  define seen where "seen = new0 @ new"
  have acc: "mweb_accepted V net ?p s seen" using acc0 by (rule accepted_mono) (simp add: seen_def)
  have W: "wally_laws (se_wally (mweb_env V kc))" using assms(3) by (simp add: restorable_def)
  obtain k f key where k: "ps_mweb_kernels ?p = [k]" and sf: "session_for (mweb_env V kc) ?p k f key s"
    by (rule session_for_begin [OF W r])
  have pegs: "\<exists>amount script scr. pegout_decoded val = Some (amount, script)
      \<and> pegout_screen (pl_address (sv_psbt V)) (sv_consts V) net amount script scr \<and> (scr, True) \<in> set seen" if "val \<in> set (pk_pegouts k)" for val
  proof -
    from sf have l: "list_all2 (pegout_entry (mweb_env V kc)) (pk_pegouts k) (ms_pegouts s)" by (simp add: session_for_def)
    from that obtain q where q: "q < length (pk_pegouts k)" "pk_pegouts k ! q = val" by (auto simp: in_set_conv_nth)
    with l have "pegout_decoded val = Some (sp_amount (ms_pegouts s ! q), sp_script (ms_pegouts s ! q))" "q < length (ms_pegouts s)"
      by (auto simp: list_all2_conv_all_nth pegout_entry_def)
    with acc show ?thesis
      by (fastforce simp: mweb_accepted_def mweb_session_pegout_count_def mweb_session_get_pegout_def Let_def)
  qed
  have outs: "\<exists>amount scr. po_amount (ps_outputs ?p ! n) = Some amount
      \<and> address_screen net (ps_outputs ?p ! n) amount scr \<and> (scr, True) \<in> set seen" if "n \<in> set (mweb_outputs ?p)" for n
  proof -
    from acc that obtain amount scr where "snd (mweb_session_get_output_value (Some s) n True) = Some amount"
      "mweb_out_screen (pl_keypaths (sv_psbt V)) net (ps_outputs ?p ! n) amount scr" "(scr, True) \<in> set seen"
      unfolding mweb_accepted_def by blast
    moreover have "address_screen net (ps_outputs ?p ! n) amount scr"
      by (rule one_address_screen [OF _ assms(5)]) (use that calculation in \<open>simp_all add: mweb_outputs_def\<close>)
    ultimately show ?thesis using that session_output_value [OF sf, of n] by auto
  qed
  have written: "committed_to (sv_mweb V) n (ps_outputs ?p ! n) (ps_outputs (wp_psbt (sn_psbt t)) ! n)" if n: "n \<in> set (mweb_outputs ?p)" for n
  proof -
    obtain s' ps where s': "begun V net ?p s'" "sn_session st1 = confirm_all ps (Some s')"
      by (rule approve_succeeds [OF a]) (use assms(2,3) in auto)
    from commit_mweb_outputs [OF commit assms(3) signed(1) s'(1) _ n] signed(2) s'(2) show ?thesis by simp
  qed
  have totals: "ms_total_fee s = (case pk_fee k of None \<Rightarrow> 0 | Some fee \<Rightarrow> fee)" "ms_has_pegin s = (pk_pegin_amount k \<noteq> None)"
    "ms_total_pegin s = (case pk_pegin_amount k of None \<Rightarrow> 0 | Some v \<Rightarrow> v)" using sf by (simp_all add: session_for_def)
  with acc have "(FinalScreen ''Send Transaction'' (case pk_fee k of None \<Rightarrow> 0 | Some fee \<Rightarrow> fee) ''LTC'' None, True) \<in> set seen"
    "\<forall>amount. pk_pegin_amount k = Some amount \<longrightarrow>
         (ItemScreen ''MWEB Pegin'' False False ''Transparent -> MWEB'' amount ''LTC'' None, True) \<in> set seen"
    by (cases "pk_pegin_amount k"; simp add: mweb_accepted_def mweb_session_total_fee_def mweb_session_has_pegin_def
        mweb_session_pegin_amount_def)+
  moreover have "sn_shown t = sn_shown st @ seen" "list_all snd seen" using new new0 shown by (simp_all add: seen_def)
  ultimately show ?thesis using k pegs outs written unfolding Let_def by blast
qed

theorem sign_psbt_consent_witness:
  "\<exists>opk c t amount scr. sign_psbt (mweb_device (\<lambda>_ _. True)) NETWORK_LITECOIN (demo_start (demo_psbt opk c)) = Some (Ret ((0, None), t))
    \<and> pegout_decoded (encode_pegout 5 [0x51]) = Some (amount, [0x51])
    \<and> pegout_screen demo_addresses demo_consts NETWORK_LITECOIN amount [0x51] scr \<and> (scr, True) \<in> set (sn_shown t)
    \<and> (FinalScreen ''Send Transaction'' 1 ''LTC'' None, True) \<in> set (sn_shown t)
    \<and> committed_to demo_env 0 demo_output (ps_outputs (wp_psbt (sn_psbt t)) ! 0)"
proof -
  obtain opk c i where "demo_spent opk c i" using demo_spent_exists by blast
  then obtain t where t: "sign_psbt (mweb_device (\<lambda>_ _. True)) NETWORK_LITECOIN (demo_start (demo_psbt opk c)) = Some (Ret ((0, None), t))"
    using demo_mweb_signed(1) by blast
  have mweb: "has_mweb (sn_psbt (demo_start (demo_psbt opk c)))" by (simp add: has_mweb_def)
  obtain k new where k: "ps_mweb_kernels (demo_psbt opk c) = [k]" and new: "sn_shown t = new"
    and pegs: "\<forall>val \<in> set (pk_pegouts k). \<exists>amount script scr. pegout_decoded val = Some (amount, script)
         \<and> pegout_screen demo_addresses demo_consts NETWORK_LITECOIN amount script scr \<and> (scr, True) \<in> set new"
    and fee: "(FinalScreen ''Send Transaction'' (case pk_fee k of None \<Rightarrow> 0 | Some fee \<Rightarrow> fee) ''LTC'' None, True) \<in> set new"
    and "\<forall>n \<in> set (mweb_outputs (demo_psbt opk c)).
      committed_to demo_env n (ps_outputs (demo_psbt opk c) ! n) (ps_outputs (wp_psbt (sn_psbt t)) ! n)"
    using sign_psbt_consent [OF t mweb demo_restorable(2) demo_device_laws(2)] demo_one_address by (auto simp: Let_def)
  moreover have "0 \<in> set (mweb_outputs (demo_psbt opk c))" by (simp add: mweb_outputs_def)
  ultimately have out: "committed_to demo_env 0 demo_output (ps_outputs (wp_psbt (sn_psbt t)) ! 0)" by force
  have k: "pk_pegouts k = [encode_pegout 5 [0x51]]" "pk_fee k = Some 1"
    using k by (simp_all add: demo_psbt_def) (auto simp: demo_psbt_kernel_def)
  have "pegout_decoded (encode_pegout 5 [0x51]) = Some (5, [0x51])" using demo_pegout by (auto simp: pegout_decoded_def split: option.splits)
  with k pegs fee new t out show ?thesis by auto
qed

text \<open>C2: Signing never leaves half of an MWEB transaction behind. For a PSBT with MWEB parts of
  which no output holds a non-null range proof of length 0 (the rollback would make it a null
  pointer): whenever \<^verbatim>\<open>sign_psbt\<close> returns an error, at whichever step (the examination of the
  inputs, the session, a screen the user declined, a signature, the commit), the PSBT is the
  one it was called with: no signature, no output field and no offset remains. When it returns
  no error it gives no message either. Assumed of libwally: signing an input adds to its maps
  of signatures and changes nothing else, a new map is empty, and a combined one holds the
  items of its source.\<close>

theorem sign_psbt_refusal:
  assumes "sign_psbt V net st = Some (Ret ((code, errmsg), t))" and "has_mweb (sn_psbt st)"
    and "restorable V (sn_psbt st)" and "signing_laws (sv_psbt V)"
  shows "if code = 0 then errmsg = None else wp_psbt (sn_psbt t) = wp_psbt (sn_psbt st)"
  by (rule sign_psbt_Ret [OF assms(1,3,4,2)]) auto

theorem sign_psbt_refusal_witness:
  "\<exists>opk c t. sign_psbt (mweb_device (\<lambda>_ _. False)) NETWORK_LITECOIN (demo_start (demo_psbt opk c)) = Some (Ret (declined, t))
    \<and> wp_psbt (sn_psbt t) = demo_psbt opk c"
proof -
  obtain opk c i where "demo_spent opk c i" using demo_spent_exists by blast
  then obtain t where t: "sign_psbt (mweb_device (\<lambda>_ _. False)) NETWORK_LITECOIN (demo_start (demo_psbt opk c)) = Some (Ret (declined, t))"
    using demo_mweb_signed(2) by blast
  have mweb: "has_mweb (sn_psbt (demo_start (demo_psbt opk c)))" by (simp add: has_mweb_def)
  from sign_psbt_refusal [OF t mweb demo_restorable(2) demo_device_laws(2)] t show ?thesis
    by auto
qed

text \<open>C3: Every output of the transaction is accounted for. When \<^verbatim>\<open>sign_psbt\<close> returns success, on any
  network and with or without MWEB parts, each output of the transaction that was extracted
  either is an MWEB output, or was shown with the address of its script and its amount and
  accepted, or was recognised as change, with the wallet's own master key and in the keychain
  state reached by then: it has a key of the wallet, and its script is the one regenerated from
  that key on an expected change path, or by the one registered record the inputs have shown,
  or as a Green multisig; except that for a 2of3 Green multisig in which the wallet holds the
  recovery key the code looks at the signers and their paths only, not at the script. Assumed
  of the PSBT: no output holds a non-null range proof of length 0. Assumed of libwally: signing
  an input adds to its maps of signatures and changes nothing else, a new map is empty, and a
  combined one holds the items of its source.\<close>

theorem sign_psbt_outputs_accounted:
  assumes "sign_psbt V net st = Some (Ret ((0, e), t))" and "restorable V (sn_psbt st)" and "signing_laws (sv_psbt V)"
  shows "\<exists>tx ip st2 new. fetch_tx V (sn_psbt st) = ok tx
    \<and> length (tx_outputs tx) = length (ps_outputs (wp_psbt (sn_psbt st)))
    \<and> pass_inputs V (sn_psbt st) net [0..<length (ps_inputs (wp_psbt (sn_psbt st)))] no_pass (st\<lparr>sn_session := None\<rparr>) = Ret (Inr ip, st2)
    \<and> sn_shown t = sn_shown st @ new \<and> list_all snd new
    \<and> (\<forall>n < length (tx_outputs tx). accounted V net (sn_psbt st) (ip_spending ip) (master_key (sn_kc st)) (sn_kc st2) tx new n)"
proof -
  let ?st = "st\<lparr>sn_session := None\<rparr>"
  obtain tx ip st1 where a: "approve V net ?st = Ret (Inr (tx, ip), st1)"
    and shown: "sn_shown t = sn_shown st1" by (rule sign_psbt_succeeds [OF assms])
  obtain infos amount s1 s2 where ex: "examine V net ?st = Ret (Inr (tx, ip, infos, amount), s1)"
    and ask: "ask_user V net tx ip infos amount s2 = Ret (Inr (), st1)" and "\<exists>new. sn_shown s2 = sn_shown ?st @ new \<and> list_all snd new"
    by (rule approve_succeeds [OF a]) (use assms(2) in auto)
  then obtain new0 where new0: "sn_shown s2 = sn_shown st @ new0" "list_all snd new0" by auto
  from ask_user_outputs [OF ask] obtain new where new: "sn_shown st1 = sn_shown s2 @ new" "list_all snd new"
    and acc: "outputs_accepted V net tx infos new" by blast
  have acc: "outputs_accepted V net tx infos (new0 @ new)" using acc by (rule accepted_mono) auto
  obtain st2 where f: "fetch_tx V (sn_psbt st) = ok tx" "length (tx_outputs tx) = length (ps_outputs (wp_psbt (sn_psbt st)))"
    and p: "pass_inputs V (sn_psbt st) net [0..<length (ps_inputs (wp_psbt (sn_psbt st)))] no_pass ?st = Ret (Inr ip, st2)"
    by (rule examine_Ret [OF ex]) simp
  have "accounted V net (sn_psbt st) (ip_spending ip) (master_key (sn_kc st)) (sn_kc st2) tx (new0 @ new) n" if "n < length (tx_outputs tx)" for n
    using examined_accounted [OF ex acc, of n] that f(2) p by simp
  with f p new0 new shown show ?thesis by (intro exI [of _ tx] exI [of _ ip] exI [of _ st2] exI [of _ "new0 @ new"]) simp
qed

theorem sign_psbt_outputs_accounted_witness:
  "\<exists>t. sign_psbt (demo_device (libjade_nvs demo_wmap False) demo_env (\<lambda>_ _. True) (demo_tx 1 90)) NETWORK_BITCOIN (demo_start demo_plain)
      = Some (Ret ((0, None), t))
    \<and> (\<exists>title verified warning. (ItemScreen title verified True ''addr'' 90 ''BTC'' warning, True) \<in> set (sn_shown t))"
proof -
  let ?V = "demo_device (libjade_nvs demo_wmap False) demo_env (\<lambda>_ _. True) (demo_tx 1 90)" and ?st = "demo_start demo_plain"
  obtain t where t: "sign_psbt ?V NETWORK_BITCOIN ?st = Some (Ret ((0, None), t))" using demo_plain_signed by blast
  note accounts = sign_psbt_outputs_accounted [OF t demo_restorable(1) demo_device_laws(2)]
  obtain tx new k0 and ip :: input_pass where tx: "fetch_tx ?V (sn_psbt ?st) = ok tx" and new: "sn_shown t = sn_shown ?st @ new"
    and len: "length (tx_outputs tx) = length (ps_outputs (wp_psbt (sn_psbt ?st)))"
    and acc: "\<forall>n < length (tx_outputs tx). accounted ?V NETWORK_BITCOIN (sn_psbt ?st) (ip_spending ip) (master_key (sn_kc ?st)) k0 tx new n"
    using accounts by blast
  have tx: "tx = demo_tx 1 90" using tx by (simp add: fetch_tx_def demo_tx_def jade_assert_def WALLY_PSBT_VERSION_0_def)
  have no_change: "\<not> own_change ?V (sn_psbt ?st) NETWORK_BITCOIN sp kc 0" for sp kc
    by (auto simp: own_change_def) (auto simp: demo_device_def demo_psbt_lib_def)
  have addr: "script_to_address demo_addresses demo_consts NETWORK_BITCOIN (Some [0x51]) True MAX_ADDRESS_LEN = Ret ''addr''" by code_simp
  from acc len have "accounted ?V NETWORK_BITCOIN (sn_psbt ?st) (ip_spending ip) (master_key (sn_kc ?st)) k0 tx new 0" by simp
  with no_change addr t new show ?thesis
    by (auto simp: accounted_def tx demo_tx_def network_ticker_def network_is_litecoin_def)
qed

text \<open>C24: \<^verbatim>\<open>sign_psbt\<close> returns. Its only unbounded loop signs with one key of an input after the
  other until the iterator finds none; if libwally's search for a key starts at the given item
  and gives the position of an item of the map, the loop ends for every PSBT, every network and
  every state, also when it stops the device.\<close>

theorem sign_psbt_returns:
  assumes "keypath_laws (pl_keypaths (sv_psbt V))"
  shows "\<exists>r. sign_psbt V net st = Some r"
  using sign_psbt_ends [OF assms] by auto

theorem sign_psbt_returns_witness:
  "\<exists>r t. sign_psbt (own_device (libjade_nvs demo_wmap False) demo_env (\<lambda>_ _. True) (demo_tx 1 90)) NETWORK_BITCOIN own_start = Some r
    \<and> r = Ret ((0, None), t) \<and> wm_items (pi_signatures (ps_inputs (wp_psbt (sn_psbt t)) ! 0)) = [([0], one32), ([1], one32)]"
proof -
  obtain r where "sign_psbt (own_device (libjade_nvs demo_wmap False) demo_env (\<lambda>_ _. True) (demo_tx 1 90)) NETWORK_BITCOIN own_start = Some r"
    using sign_psbt_returns [OF own_laws] by blast
  with own_returned [of "libjade_nvs demo_wmap False" demo_env] show ?thesis by auto
qed

end
