(* ===== verification/Spec2Isabelle.thy ===== *)
theory Spec2Isabelle
  imports Mweb_Session_Theorems Jade_Network Jade_Storage_Theorems Jade_Keychain_Theorems
    Jade_Idle_Theorems Jade_Wire_Theorems Jade_Multisig_Theorems Jade_Signpsbt_Theorems
begin

text \<open>
  A verification development of the Jade hardware wallet firmware with Litecoin MWEB
  signing (\<^verbatim>\<open>src/main\<close>, and the storage of the library build in \<^verbatim>\<open>src/libjade\<close>).

  \<^bold>\<open>The program.\<close> A host sends CBOR requests over a serial line, BLE or QR codes.
  \<^verbatim>\<open>wire.c\<close> cuts the bytes into messages, answers the immediate ones and queues the rest
  (\<^verbatim>\<open>process.c\<close>); \<^verbatim>\<open>utils/cbor_rpc.c\<close> reads fields and builds replies. The handlers work on the
  keychain (\<^verbatim>\<open>keychain.c\<close>), which is unlocked with a PIN from an encrypted blob in the
  storage (\<^verbatim>\<open>storage.c\<close> over an NVS) and locked again by the idle timer (\<^verbatim>\<open>idletimer.c\<close>).
  \<^verbatim>\<open>wallet.c\<close> derives keys and builds scripts, \<^verbatim>\<open>signer.c\<close>, \<^verbatim>\<open>multisig.c\<close> and
  \<^verbatim>\<open>process/register_multisig.c\<close> register the wallets of several cosigners, \<^verbatim>\<open>descriptor.c\<close>
  those given by a descriptor. \<^verbatim>\<open>process/sign_psbt.c\<close> signs a PSBT: it finds the wallet's keys
  in its inputs and outputs (\<^verbatim>\<open>utils/psbt.c\<close>), decides which outputs are change, shows the
  others as addresses (\<^verbatim>\<open>utils/address.c\<close>, \<^verbatim>\<open>ui/sign_tx.c\<close>) and signs when the user accepts. For
  a PSBT with MWEB parts, \<^verbatim>\<open>mweb_session_begin\<close> of \<^verbatim>\<open>mweb/mweb_atomic_sign.c\<close> checks the transaction and
  builds all outputs, inputs and kernels aside, the user interface shows what the session
  holds, and \<^verbatim>\<open>mweb_session_commit\<close> writes the result to the PSBT or
  \<^verbatim>\<open>mweb_session_abort\<close> restores it.

  \<^bold>\<open>Theories and sources.\<close>
  \<^item> \<^verbatim>\<open>Jade_Prelude\<close>: the results every operation has: \<^verbatim>\<open>Ret\<close>, \<^verbatim>\<open>Crash\<close> (a failed
    \<^verbatim>\<open>JADE_ASSERT\<close> or \<^verbatim>\<open>abort\<close>) and \<^verbatim>\<open>Undef\<close> (an access outside an object), sequencing for error
    codes and for state, words as bytes.
  \<^item> \<^verbatim>\<open>Mweb_Scalar\<close> (\<^verbatim>\<open>mweb_scalar.c\<close>), \<^verbatim>\<open>Mweb_Wire\<close> (varints and pegouts of \<^verbatim>\<open>mweb_kernel.c\<close>,
    \<^verbatim>\<open>mweb_sign.c\<close>, \<^verbatim>\<open>mweb_atomic_sign.c\<close>), \<^verbatim>\<open>Mweb_Crypto\<close> (\<^verbatim>\<open>mweb_hash.c\<close>, \<^verbatim>\<open>mweb_blind.c\<close>,
    \<^verbatim>\<open>mweb_schnorr.c\<close>), \<^verbatim>\<open>Mweb_Kernel\<close> (\<^verbatim>\<open>mweb_kernel.c\<close>), \<^verbatim>\<open>Mweb_Output\<close> (\<^verbatim>\<open>mweb_output.c\<close>,
    \<^verbatim>\<open>mweb_rangeproof.c\<close>), \<^verbatim>\<open>Mweb_Keychain\<close> (\<^verbatim>\<open>mweb_keychain.c\<close>), \<^verbatim>\<open>Mweb_Input\<close> (\<^verbatim>\<open>mweb_sign.c\<close>):
    the MWEB primitives with their theorems.
  \<^item> \<^verbatim>\<open>Mweb_Psbt\<close>, \<^verbatim>\<open>Mweb_Session\<close>, \<^verbatim>\<open>Mweb_Session_Props\<close>, \<^verbatim>\<open>Mweb_Session_Theorems\<close>
    (\<^verbatim>\<open>mweb_atomic_sign.c\<close>, \<^verbatim>\<open>mweb_gate.c\<close>): the PSBT's fields signing may write, their snapshot,
    and the session.
  \<^item> \<^verbatim>\<open>Jade_Network\<close> (\<^verbatim>\<open>utils/network.c\<close>).
  \<^item> \<^verbatim>\<open>Jade_Nvs\<close> (the NVS in \<^verbatim>\<open>libjade.c\<close>, and the contracts \<^verbatim>\<open>nvs_store\<close>, \<^verbatim>\<open>nvs_reliable\<close> and
    \<^verbatim>\<open>nvs_perfect\<close> of an NVS, interpreted on it), \<^verbatim>\<open>Jade_Storage\<close>, \<^verbatim>\<open>Jade_Storage_Props\<close>,
    \<^verbatim>\<open>Jade_Storage_Theorems\<close> (\<^verbatim>\<open>storage.c\<close>).
  \<^item> \<^verbatim>\<open>Jade_Keychain\<close>, \<^verbatim>\<open>Jade_Keychain_Props\<close>, \<^verbatim>\<open>Jade_Keychain_Theorems\<close> (\<^verbatim>\<open>keychain.c\<close>,
    \<^verbatim>\<open>aes.c\<close>); \<^verbatim>\<open>Jade_Idle\<close>, \<^verbatim>\<open>Jade_Idle_Theorems\<close> (\<^verbatim>\<open>idletimer.c\<close>).
  \<^item> \<^verbatim>\<open>Jade_Cbor\<close> (\<^verbatim>\<open>utils/cbor_rpc.c\<close>), \<^verbatim>\<open>Jade_Process\<close> (\<^verbatim>\<open>process.c\<close>), \<^verbatim>\<open>Jade_Wire\<close>
    (\<^verbatim>\<open>wire.c\<close>), with \<^verbatim>\<open>Jade_Requests\<close> and \<^verbatim>\<open>Jade_Wire_Props\<close> (an encoder of requests, the
    decoder's laws, an abstract splitter of the byte stream), \<^verbatim>\<open>Jade_Request_Theorems\<close> and
    \<^verbatim>\<open>Jade_Wire_Theorems\<close>.
  \<^item> \<^verbatim>\<open>Jade_Wallet\<close>, \<^verbatim>\<open>Jade_Scripts\<close> (\<^verbatim>\<open>wallet.c\<close>, path helpers of \<^verbatim>\<open>utils/util.c\<close>),
    \<^verbatim>\<open>Jade_Multisig\<close> (\<^verbatim>\<open>signer.c\<close>, \<^verbatim>\<open>multisig.c\<close>), \<^verbatim>\<open>Jade_Register\<close>
    (\<^verbatim>\<open>process/register_multisig.c\<close>), with \<^verbatim>\<open>Jade_Multisig_Props\<close>, \<^verbatim>\<open>Jade_Register_Props\<close> and
    \<^verbatim>\<open>Jade_Multisig_Theorems\<close>.
  \<^item> \<^verbatim>\<open>Jade_Descriptor\<close> (\<^verbatim>\<open>descriptor.c\<close>), \<^verbatim>\<open>Jade_Address\<close> (\<^verbatim>\<open>utils/address.c\<close>),
    \<^verbatim>\<open>Jade_Txscreens\<close> (\<^verbatim>\<open>ui/sign_tx.c\<close>, \<^verbatim>\<open>process/sign_utils.c\<close>, \<^verbatim>\<open>process/process_utils.c\<close>: the
    confirmation of a transaction), \<^verbatim>\<open>Jade_Keyiter\<close> (\<^verbatim>\<open>utils/psbt.c\<close>), \<^verbatim>\<open>Jade_Signers\<close> and
    \<^verbatim>\<open>Jade_Signpsbt\<close> (\<^verbatim>\<open>process/sign_psbt.c\<close>: whose an input or output is, and \<^verbatim>\<open>sign_psbt\<close>).
    \<^verbatim>\<open>Jade_Signpsbt_Props\<close> shows that its loops end and what a phase leaves unchanged,
    \<^verbatim>\<open>Jade_Consent\<close> what the user has seen when it succeeds and how it rolls back,
    \<^verbatim>\<open>Jade_Change\<close> what is known of an output that is not shown, and
    \<^verbatim>\<open>Jade_Signpsbt_Theorems\<close> has the properties and the example signings.

  \<^bold>\<open>Correspondence.\<close> Definitions keep the names of the C functions. Structures are records,
  enums datatypes, machine integers words of their width where they can wrap; a null pointer
  is \<^verbatim>\<open>None\<close>, an out-parameter a component of the result. The size of memory is not bounded
  but allocation can fail where the code handles it. Libraries (libsecp256k1, libwally,
  mbedtls, TinyCBOR, FreeRTOS, the NVS) are records of functions the definitions take as
  arguments; what is assumed of them is a named hypothesis (\<^verbatim>\<open>curve_laws\<close>,
  \<^verbatim>\<open>wmap_laws\<close>, \<^verbatim>\<open>key_laws\<close>, \<^verbatim>\<open>base58_canonical\<close> and so on), and every property with a
  hypothesis has a witness on concrete functions.

  \<^bold>\<open>What the lemmas show.\<close> The MWEB groups show that the encoders and the arithmetic are
  right, that a kernel balances and commits to its message, that an output built for an
  address is recognised by its owner, that a session only spends inputs of this wallet,
  balances, shows what it commits to, writes all or nothing and is rolled back exactly (where
  no output holds a non-null range proof of length 0, which the rollback does not restore).
  The storage and keychain groups show that settings and wallets read back, that the replay
  counter never repeats between two wipes of the storage, that three wrong PINs erase the
  wallet and that an idle device locks (up to the wrap of the 32-bit tick counter). The wire
  groups show that framing does not depend on how bytes arrive and what the device does with
  each valid request. The multisig groups show that a registered record is what the user
  agreed to, and that loading gives it back when the signers' additional paths derive. The
  signing groups show that a PSBT is signed only after the user has accepted its MWEB part
  and every transparent output but those that are the wallet's own, that a PSBT with MWEB
  parts is as it was when signing fails, and that signing ends.

  \<^bold>\<open>Loops.\<close> Recursion on lists or with a measure; loops over an NVS iterator or a queue that
  the library might never end are \<^verbatim>\<open>while_option\<close>, the loop over the keys of an input
  (\<^verbatim>\<open>sign_keys\<close>) is a \<^verbatim>\<open>partial_function\<close>; \<^verbatim>\<open>None\<close> means that the loop does not end,
  which libwally's contract \<^verbatim>\<open>keypath_laws\<close> excludes. There is no fuel.

  \<^bold>\<open>Not modelled.\<close> Drawing, buttons and drivers (pure I/O; a screen is a value and the user's
  answers are functions), vendored libraries, self-checks and tests, the handlers of the
  single requests apart from multisig registration files and \<^verbatim>\<open>sign_psbt\<close> (whose reading and
  writing of the PSBT's bytes is libwally's), Elements PSBTs and Liquid screens, the older
  \<^verbatim>\<open>sign_tx\<close> request, the registration of a descriptor, the PIN server client, QR mode and
  OTP. Freeing and wiping memory, logging and time inside an operation are not represented.
\<close>

end
